(* ===== verification/Prelude.thy ===== *)
theory Prelude
  imports Main "HOL-Library.Word" "HOL-Library.Code_Target_Numeral"
begin

unbundle bit_operations_syntax

text \<open>
  Shared vocabulary of the development: the machine integer types of the firmware, the
  bit-flag macros of \<^verbatim>\<open>nuts_bolts.hpp\<close>, the fact collections the component theories
  fill, and the generic lemmas on words and lists that their proofs share.
\<close>

section \<open>Machine integers\<close>

type_synonym u8 = "8 word"
type_synonym u16 = "16 word"
type_synonym u32 = "32 word"
type_synonym i32 = "32 word" \<comment> \<open>\<open>int32_t\<close>; the value is \<open>sint\<close>\<close>

section \<open>Fact collections\<close>

named_theorems flag_simps \<open>rewriting of the bit-flag macros\<close>
named_theorems frame_simps \<open>fields an operation leaves unchanged\<close>

section \<open>The bit-flag macros\<close>

definition bit_true :: "'a::len word \<Rightarrow> 'a word \<Rightarrow> 'a word" where
  "bit_true x m = x OR m"

definition bit_false :: "'a::len word \<Rightarrow> 'a word \<Rightarrow> 'a word" where
  "bit_false x m = x AND NOT m"

definition bit_istrue :: "'a::len word \<Rightarrow> 'a word \<Rightarrow> bool" where
  "bit_istrue x m \<longleftrightarrow> x AND m \<noteq> 0"

definition bit_isfalse :: "'a::len word \<Rightarrow> 'a word \<Rightarrow> bool" where
  "bit_isfalse x m \<longleftrightarrow> x AND m = 0"

lemma bit_isfalse_not [flag_simps]: "bit_isfalse x m \<longleftrightarrow> \<not> bit_istrue x m"
  by (simp add: bit_isfalse_def bit_istrue_def)

lemma bit_istrue_zero [simp]: "\<not> bit_istrue 0 m"
  by (simp add: bit_istrue_def)

lemma bit_istrue_iff_bit: "bit_istrue x m \<longleftrightarrow> (\<exists>n. bit x n \<and> bit m n)"
  by (auto simp: bit_istrue_def bit_eq_iff bit_and_iff dest: bit_imp_le_length)

lemma bit_istrue_bit_true [flag_simps]:
  "bit_istrue (bit_true x m) k \<longleftrightarrow> bit_istrue x k \<or> bit_istrue m k"
  unfolding bit_istrue_iff_bit by (auto simp: bit_true_def bit_or_iff)

lemma bit_istrue_bit_false_same [simp]: "\<not> bit_istrue (bit_false x m) m"
  by (simp add: bit_istrue_def bit_false_def and.assoc)

lemma bit_istrue_bit_false_other:
  "k AND m = 0 \<Longrightarrow> bit_istrue (bit_false x m) k = bit_istrue x k"
  unfolding bit_istrue_iff_bit bit_false_def
  by (auto simp: bit_and_iff bit_not_iff bit_eq_iff possible_bit_def dest: bit_imp_le_length)

lemma bit_istrue_bit_false_imp: "bit_istrue (bit_false x m) k \<Longrightarrow> bit_istrue x k"
  unfolding bit_istrue_iff_bit by (auto simp: bit_false_def bit_and_iff)

section \<open>Rotating indices\<close>

text \<open>
  The ring buffers advance an 8-bit index with a compare against the ring size. The
  comparison promotes the index to \<open>int\<close>, so a ring size above 255 never matches and the
  index wraps at 256 instead.
\<close>

definition ring_next :: "nat \<Rightarrow> u8 \<Rightarrow> u8" where
  "ring_next sz i = (let j = i + 1 in if unat j = sz then 0 else j)"

lemma unat_plus_one_u8: "unat (i + 1 :: u8) = (unat i + 1) mod 256"
  by (simp add: unat_word_ariths)

lemma unat_ring_next_small:
  assumes "sz \<le> 256" "unat i < sz"
  shows "unat (ring_next sz i) = (unat i + 1) mod sz"
proof (cases "unat i + 1 = sz")
  case True
  then show ?thesis
    using assms by (cases "sz = 256") (auto simp: ring_next_def Let_def unat_plus_one_u8)
next
  case False
  with assms have "unat i + 1 < sz" by simp
  with assms show ?thesis by (auto simp: ring_next_def Let_def unat_plus_one_u8)
qed

lemma unat_ring_next_large:
  assumes "256 \<le> sz"
  shows "unat (ring_next sz i) = (unat i + 1) mod 256"
  using assms unsigned_less [of "i + 1", where 'a = nat] by (auto simp: ring_next_def Let_def unat_plus_one_u8)

section \<open>Lists updated by index\<close>

lemma nth_list_update_other [simp]: "i \<noteq> j \<Longrightarrow> xs[i := x] ! j = xs ! j"
  by simp

end
