(* ===== verification/Constants.thy ===== *)
theory Constants
  imports Prelude
begin

text \<open>
  The preprocessor constants of the firmware, one abbreviation per \<^verbatim>\<open>#define\<close>, in the
  configuration the repository builds (\<^verbatim>\<open>config.hpp\<close> as it stands, no extra \<^verbatim>\<open>-D\<close>
  flags). Flags and codes are bytes; counts, bit positions, addresses and indices are naturals.
\<close>

section \<open>nuts\_bolts.hpp: axes\<close>

abbreviation (input) N_AXIS :: nat where "N_AXIS \<equiv> 8"
abbreviation (input) X_AXIS :: nat where "X_AXIS \<equiv> 0"
abbreviation (input) Y_AXIS :: nat where "Y_AXIS \<equiv> 1"
abbreviation (input) Z_AXIS :: nat where "Z_AXIS \<equiv> 2"
abbreviation (input) A_AXIS :: nat where "A_AXIS \<equiv> 3"
abbreviation (input) B_AXIS :: nat where "B_AXIS \<equiv> 4"
abbreviation (input) C_AXIS :: nat where "C_AXIS \<equiv> 5"
abbreviation (input) D_AXIS :: nat where "D_AXIS \<equiv> 6"
abbreviation (input) E_AXIS :: nat where "E_AXIS \<equiv> 7"
abbreviation (input) DELAY_MODE_DWELL :: nat where "DELAY_MODE_DWELL \<equiv> 0"
abbreviation (input) DELAY_MODE_SYS_SUSPEND :: nat where "DELAY_MODE_SYS_SUSPEND \<equiv> 1"

section \<open>config.hpp: realtime command characters and limits\<close>

abbreviation (input) CMD_RESET :: u8 where "CMD_RESET \<equiv> 24"
abbreviation (input) CMD_STATUS_REPORT :: u8 where "CMD_STATUS_REPORT \<equiv> 63"
abbreviation (input) CMD_CYCLE_START :: u8 where "CMD_CYCLE_START \<equiv> 126"
abbreviation (input) CMD_FEED_HOLD :: u8 where "CMD_FEED_HOLD \<equiv> 33"
abbreviation (input) CMD_SAFETY_DOOR :: u8 where "CMD_SAFETY_DOOR \<equiv> 132"
abbreviation (input) CMD_JOG_CANCEL :: u8 where "CMD_JOG_CANCEL \<equiv> 133"
abbreviation (input) CMD_DEBUG_REPORT :: u8 where "CMD_DEBUG_REPORT \<equiv> 134"
abbreviation (input) CMD_FEED_OVR_RESET :: u8 where "CMD_FEED_OVR_RESET \<equiv> 144"
abbreviation (input) CMD_FEED_OVR_COARSE_PLUS :: u8 where "CMD_FEED_OVR_COARSE_PLUS \<equiv> 145"
abbreviation (input) CMD_FEED_OVR_COARSE_MINUS :: u8 where "CMD_FEED_OVR_COARSE_MINUS \<equiv> 146"
abbreviation (input) CMD_FEED_OVR_FINE_PLUS :: u8 where "CMD_FEED_OVR_FINE_PLUS \<equiv> 147"
abbreviation (input) CMD_FEED_OVR_FINE_MINUS :: u8 where "CMD_FEED_OVR_FINE_MINUS \<equiv> 148"
abbreviation (input) CMD_RAPID_OVR_RESET :: u8 where "CMD_RAPID_OVR_RESET \<equiv> 149"
abbreviation (input) CMD_RAPID_OVR_MEDIUM :: u8 where "CMD_RAPID_OVR_MEDIUM \<equiv> 150"
abbreviation (input) CMD_RAPID_OVR_LOW :: u8 where "CMD_RAPID_OVR_LOW \<equiv> 151"
abbreviation (input) CMD_SPINDLE_OVR_RESET :: u8 where "CMD_SPINDLE_OVR_RESET \<equiv> 153"
abbreviation (input) CMD_SPINDLE_OVR_COARSE_PLUS :: u8 where "CMD_SPINDLE_OVR_COARSE_PLUS \<equiv> 154"
abbreviation (input) CMD_SPINDLE_OVR_COARSE_MINUS :: u8 where "CMD_SPINDLE_OVR_COARSE_MINUS \<equiv> 155"
abbreviation (input) CMD_SPINDLE_OVR_FINE_PLUS :: u8 where "CMD_SPINDLE_OVR_FINE_PLUS \<equiv> 156"
abbreviation (input) CMD_SPINDLE_OVR_FINE_MINUS :: u8 where "CMD_SPINDLE_OVR_FINE_MINUS \<equiv> 157"
abbreviation (input) CMD_SPINDLE_OVR_STOP :: u8 where "CMD_SPINDLE_OVR_STOP \<equiv> 158"
abbreviation (input) CMD_COOLANT_FLOOD_OVR_TOGGLE :: u8 where "CMD_COOLANT_FLOOD_OVR_TOGGLE \<equiv> 160"
abbreviation (input) CMD_COOLANT_MIST_OVR_TOGGLE :: u8 where "CMD_COOLANT_MIST_OVR_TOGGLE \<equiv> 161"
abbreviation (input) N_STARTUP_LINE :: nat where "N_STARTUP_LINE \<equiv> 2"
abbreviation (input) N_HOMING_LOCATE_CYCLE :: nat where "N_HOMING_LOCATE_CYCLE \<equiv> 1"
abbreviation (input) DEFAULT_FEED_OVERRIDE :: u8 where "DEFAULT_FEED_OVERRIDE \<equiv> 100"
abbreviation (input) MAX_FEED_RATE_OVERRIDE :: u8 where "MAX_FEED_RATE_OVERRIDE \<equiv> 200"
abbreviation (input) MIN_FEED_RATE_OVERRIDE :: u8 where "MIN_FEED_RATE_OVERRIDE \<equiv> 10"
abbreviation (input) FEED_OVERRIDE_COARSE_INCREMENT :: u8 where "FEED_OVERRIDE_COARSE_INCREMENT \<equiv> 10"
abbreviation (input) FEED_OVERRIDE_FINE_INCREMENT :: u8 where "FEED_OVERRIDE_FINE_INCREMENT \<equiv> 1"
abbreviation (input) DEFAULT_RAPID_OVERRIDE :: u8 where "DEFAULT_RAPID_OVERRIDE \<equiv> 100"
abbreviation (input) RAPID_OVERRIDE_MEDIUM :: u8 where "RAPID_OVERRIDE_MEDIUM \<equiv> 50"
abbreviation (input) RAPID_OVERRIDE_LOW :: u8 where "RAPID_OVERRIDE_LOW \<equiv> 25"
abbreviation (input) DEFAULT_SPINDLE_SPEED_OVERRIDE :: u8 where "DEFAULT_SPINDLE_SPEED_OVERRIDE \<equiv> 100"
abbreviation (input) MAX_SPINDLE_SPEED_OVERRIDE :: u8 where "MAX_SPINDLE_SPEED_OVERRIDE \<equiv> 200"
abbreviation (input) MIN_SPINDLE_SPEED_OVERRIDE :: u8 where "MIN_SPINDLE_SPEED_OVERRIDE \<equiv> 10"
abbreviation (input) SPINDLE_OVERRIDE_COARSE_INCREMENT :: u8 where "SPINDLE_OVERRIDE_COARSE_INCREMENT \<equiv> 10"
abbreviation (input) SPINDLE_OVERRIDE_FINE_INCREMENT :: u8 where "SPINDLE_OVERRIDE_FINE_INCREMENT \<equiv> 1"
abbreviation (input) N_ARC_CORRECTION :: nat where "N_ARC_CORRECTION \<equiv> 12"
abbreviation (input) DWELL_TIME_STEP :: nat where "DWELL_TIME_STEP \<equiv> 50"
abbreviation (input) REPORT_OVR_REFRESH_BUSY_COUNT :: u8 where "REPORT_OVR_REFRESH_BUSY_COUNT \<equiv> 20"
abbreviation (input) REPORT_OVR_REFRESH_IDLE_COUNT :: u8 where "REPORT_OVR_REFRESH_IDLE_COUNT \<equiv> 10"
abbreviation (input) REPORT_WCO_REFRESH_BUSY_COUNT :: u8 where "REPORT_WCO_REFRESH_BUSY_COUNT \<equiv> 30"
abbreviation (input) REPORT_WCO_REFRESH_IDLE_COUNT :: u8 where "REPORT_WCO_REFRESH_IDLE_COUNT \<equiv> 10"
abbreviation (input) HOMING_CYCLE_0 :: u8 where "HOMING_CYCLE_0 \<equiv> 4"
abbreviation (input) HOMING_CYCLE_1 :: u8 where "HOMING_CYCLE_1 \<equiv> 3"
abbreviation (input) TOOL_LENGTH_OFFSET_AXIS :: nat where "TOOL_LENGTH_OFFSET_AXIS \<equiv> 2"

section \<open>system.hpp: realtime executor flags, alarms, states\<close>

abbreviation (input) EXEC_STATUS_REPORT :: u8 where "EXEC_STATUS_REPORT \<equiv> 1"
abbreviation (input) EXEC_CYCLE_START :: u8 where "EXEC_CYCLE_START \<equiv> 2"
abbreviation (input) EXEC_CYCLE_STOP :: u8 where "EXEC_CYCLE_STOP \<equiv> 4"
abbreviation (input) EXEC_FEED_HOLD :: u8 where "EXEC_FEED_HOLD \<equiv> 8"
abbreviation (input) EXEC_RESET :: u8 where "EXEC_RESET \<equiv> 16"
abbreviation (input) EXEC_SAFETY_DOOR :: u8 where "EXEC_SAFETY_DOOR \<equiv> 32"
abbreviation (input) EXEC_MOTION_CANCEL :: u8 where "EXEC_MOTION_CANCEL \<equiv> 64"
abbreviation (input) EXEC_SLEEP :: u8 where "EXEC_SLEEP \<equiv> 128"
abbreviation (input) EXEC_ALARM_HARD_LIMIT :: u8 where "EXEC_ALARM_HARD_LIMIT \<equiv> 1"
abbreviation (input) EXEC_ALARM_SOFT_LIMIT :: u8 where "EXEC_ALARM_SOFT_LIMIT \<equiv> 2"
abbreviation (input) EXEC_ALARM_ABORT_CYCLE :: u8 where "EXEC_ALARM_ABORT_CYCLE \<equiv> 3"
abbreviation (input) EXEC_ALARM_PROBE_FAIL_INITIAL :: u8 where "EXEC_ALARM_PROBE_FAIL_INITIAL \<equiv> 4"
abbreviation (input) EXEC_ALARM_PROBE_FAIL_CONTACT :: u8 where "EXEC_ALARM_PROBE_FAIL_CONTACT \<equiv> 5"
abbreviation (input) EXEC_ALARM_HOMING_FAIL_RESET :: u8 where "EXEC_ALARM_HOMING_FAIL_RESET \<equiv> 6"
abbreviation (input) EXEC_ALARM_HOMING_FAIL_DOOR :: u8 where "EXEC_ALARM_HOMING_FAIL_DOOR \<equiv> 7"
abbreviation (input) EXEC_ALARM_HOMING_FAIL_PULLOFF :: u8 where "EXEC_ALARM_HOMING_FAIL_PULLOFF \<equiv> 8"
abbreviation (input) EXEC_ALARM_HOMING_FAIL_APPROACH :: u8 where "EXEC_ALARM_HOMING_FAIL_APPROACH \<equiv> 9"
abbreviation (input) EXEC_FEED_OVR_RESET :: u8 where "EXEC_FEED_OVR_RESET \<equiv> 1"
abbreviation (input) EXEC_FEED_OVR_COARSE_PLUS :: u8 where "EXEC_FEED_OVR_COARSE_PLUS \<equiv> 2"
abbreviation (input) EXEC_FEED_OVR_COARSE_MINUS :: u8 where "EXEC_FEED_OVR_COARSE_MINUS \<equiv> 4"
abbreviation (input) EXEC_FEED_OVR_FINE_PLUS :: u8 where "EXEC_FEED_OVR_FINE_PLUS \<equiv> 8"
abbreviation (input) EXEC_FEED_OVR_FINE_MINUS :: u8 where "EXEC_FEED_OVR_FINE_MINUS \<equiv> 16"
abbreviation (input) EXEC_RAPID_OVR_RESET :: u8 where "EXEC_RAPID_OVR_RESET \<equiv> 32"
abbreviation (input) EXEC_RAPID_OVR_MEDIUM :: u8 where "EXEC_RAPID_OVR_MEDIUM \<equiv> 64"
abbreviation (input) EXEC_RAPID_OVR_LOW :: u8 where "EXEC_RAPID_OVR_LOW \<equiv> 128"
abbreviation (input) EXEC_SPINDLE_OVR_RESET :: u8 where "EXEC_SPINDLE_OVR_RESET \<equiv> 1"
abbreviation (input) EXEC_SPINDLE_OVR_COARSE_PLUS :: u8 where "EXEC_SPINDLE_OVR_COARSE_PLUS \<equiv> 2"
abbreviation (input) EXEC_SPINDLE_OVR_COARSE_MINUS :: u8 where "EXEC_SPINDLE_OVR_COARSE_MINUS \<equiv> 4"
abbreviation (input) EXEC_SPINDLE_OVR_FINE_PLUS :: u8 where "EXEC_SPINDLE_OVR_FINE_PLUS \<equiv> 8"
abbreviation (input) EXEC_SPINDLE_OVR_FINE_MINUS :: u8 where "EXEC_SPINDLE_OVR_FINE_MINUS \<equiv> 16"
abbreviation (input) EXEC_SPINDLE_OVR_STOP :: u8 where "EXEC_SPINDLE_OVR_STOP \<equiv> 32"
abbreviation (input) EXEC_COOLANT_FLOOD_OVR_TOGGLE :: u8 where "EXEC_COOLANT_FLOOD_OVR_TOGGLE \<equiv> 64"
abbreviation (input) EXEC_COOLANT_MIST_OVR_TOGGLE :: u8 where "EXEC_COOLANT_MIST_OVR_TOGGLE \<equiv> 128"
abbreviation (input) STATE_IDLE :: u8 where "STATE_IDLE \<equiv> 0"
abbreviation (input) STATE_ALARM :: u8 where "STATE_ALARM \<equiv> 1"
abbreviation (input) STATE_CHECK_MODE :: u8 where "STATE_CHECK_MODE \<equiv> 2"
abbreviation (input) STATE_HOMING :: u8 where "STATE_HOMING \<equiv> 4"
abbreviation (input) STATE_CYCLE :: u8 where "STATE_CYCLE \<equiv> 8"
abbreviation (input) STATE_HOLD :: u8 where "STATE_HOLD \<equiv> 16"
abbreviation (input) STATE_JOG :: u8 where "STATE_JOG \<equiv> 32"
abbreviation (input) STATE_SAFETY_DOOR :: u8 where "STATE_SAFETY_DOOR \<equiv> 64"
abbreviation (input) STATE_SLEEP :: u8 where "STATE_SLEEP \<equiv> 128"
abbreviation (input) SUSPEND_DISABLE :: u8 where "SUSPEND_DISABLE \<equiv> 0"
abbreviation (input) SUSPEND_HOLD_COMPLETE :: u8 where "SUSPEND_HOLD_COMPLETE \<equiv> 1"
abbreviation (input) SUSPEND_RESTART_RETRACT :: u8 where "SUSPEND_RESTART_RETRACT \<equiv> 2"
abbreviation (input) SUSPEND_RETRACT_COMPLETE :: u8 where "SUSPEND_RETRACT_COMPLETE \<equiv> 4"
abbreviation (input) SUSPEND_INITIATE_RESTORE :: u8 where "SUSPEND_INITIATE_RESTORE \<equiv> 8"
abbreviation (input) SUSPEND_RESTORE_COMPLETE :: u8 where "SUSPEND_RESTORE_COMPLETE \<equiv> 16"
abbreviation (input) SUSPEND_SAFETY_DOOR_AJAR :: u8 where "SUSPEND_SAFETY_DOOR_AJAR \<equiv> 32"
abbreviation (input) SUSPEND_MOTION_CANCEL :: u8 where "SUSPEND_MOTION_CANCEL \<equiv> 64"
abbreviation (input) SUSPEND_JOG_CANCEL :: u8 where "SUSPEND_JOG_CANCEL \<equiv> 128"
abbreviation (input) STEP_CONTROL_NORMAL_OP :: u8 where "STEP_CONTROL_NORMAL_OP \<equiv> 0"
abbreviation (input) STEP_CONTROL_END_MOTION :: u8 where "STEP_CONTROL_END_MOTION \<equiv> 1"
abbreviation (input) STEP_CONTROL_EXECUTE_HOLD :: u8 where "STEP_CONTROL_EXECUTE_HOLD \<equiv> 2"
abbreviation (input) STEP_CONTROL_EXECUTE_SYS_MOTION :: u8 where "STEP_CONTROL_EXECUTE_SYS_MOTION \<equiv> 4"
abbreviation (input) STEP_CONTROL_UPDATE_SPINDLE_PWM :: u8 where "STEP_CONTROL_UPDATE_SPINDLE_PWM \<equiv> 8"
abbreviation (input) CONTROL_PIN_INDEX_RESET :: u8 where "CONTROL_PIN_INDEX_RESET \<equiv> 1"
abbreviation (input) CONTROL_PIN_INDEX_FEED_HOLD :: u8 where "CONTROL_PIN_INDEX_FEED_HOLD \<equiv> 2"
abbreviation (input) CONTROL_PIN_INDEX_CYCLE_START :: u8 where "CONTROL_PIN_INDEX_CYCLE_START \<equiv> 4"
abbreviation (input) SPINDLE_STOP_OVR_DISABLED :: u8 where "SPINDLE_STOP_OVR_DISABLED \<equiv> 0"
abbreviation (input) SPINDLE_STOP_OVR_ENABLED :: u8 where "SPINDLE_STOP_OVR_ENABLED \<equiv> 1"
abbreviation (input) SPINDLE_STOP_OVR_INITIATE :: u8 where "SPINDLE_STOP_OVR_INITIATE \<equiv> 2"
abbreviation (input) SPINDLE_STOP_OVR_RESTORE :: u8 where "SPINDLE_STOP_OVR_RESTORE \<equiv> 4"
abbreviation (input) SPINDLE_STOP_OVR_RESTORE_CYCLE :: u8 where "SPINDLE_STOP_OVR_RESTORE_CYCLE \<equiv> 8"

section \<open>planner.hpp: buffer size and condition flags\<close>

abbreviation (input) BLOCK_BUFFER_SIZE :: nat where "BLOCK_BUFFER_SIZE \<equiv> 16"
abbreviation (input) PL_COND_FLAG_RAPID_MOTION :: u8 where "PL_COND_FLAG_RAPID_MOTION \<equiv> 1"
abbreviation (input) PL_COND_FLAG_SYSTEM_MOTION :: u8 where "PL_COND_FLAG_SYSTEM_MOTION \<equiv> 2"
abbreviation (input) PL_COND_FLAG_NO_FEED_OVERRIDE :: u8 where "PL_COND_FLAG_NO_FEED_OVERRIDE \<equiv> 4"
abbreviation (input) PL_COND_FLAG_INVERSE_TIME :: u8 where "PL_COND_FLAG_INVERSE_TIME \<equiv> 8"
abbreviation (input) PL_COND_FLAG_SPINDLE_CW :: u8 where "PL_COND_FLAG_SPINDLE_CW \<equiv> 16"
abbreviation (input) PL_COND_FLAG_SPINDLE_CCW :: u8 where "PL_COND_FLAG_SPINDLE_CCW \<equiv> 32"
abbreviation (input) PL_COND_FLAG_COOLANT_FLOOD :: u8 where "PL_COND_FLAG_COOLANT_FLOOD \<equiv> 64"
abbreviation (input) PL_COND_FLAG_COOLANT_MIST :: u8 where "PL_COND_FLAG_COOLANT_MIST \<equiv> 128"
abbreviation (input) PL_COND_MOTION_MASK :: u8 where "PL_COND_MOTION_MASK \<equiv> 7"
abbreviation (input) PL_COND_SPINDLE_MASK :: u8 where "PL_COND_SPINDLE_MASK \<equiv> 48"
abbreviation (input) PL_COND_ACCESSORY_MASK :: u8 where "PL_COND_ACCESSORY_MASK \<equiv> 240"

section \<open>gcode.hpp: modal groups, commands, words, parser flags\<close>

abbreviation (input) MODAL_GROUP_G0 :: nat where "MODAL_GROUP_G0 \<equiv> 0"
abbreviation (input) MODAL_GROUP_G1 :: nat where "MODAL_GROUP_G1 \<equiv> 1"
abbreviation (input) MODAL_GROUP_G2 :: nat where "MODAL_GROUP_G2 \<equiv> 2"
abbreviation (input) MODAL_GROUP_G3 :: nat where "MODAL_GROUP_G3 \<equiv> 3"
abbreviation (input) MODAL_GROUP_G4 :: nat where "MODAL_GROUP_G4 \<equiv> 4"
abbreviation (input) MODAL_GROUP_G5 :: nat where "MODAL_GROUP_G5 \<equiv> 5"
abbreviation (input) MODAL_GROUP_G6 :: nat where "MODAL_GROUP_G6 \<equiv> 6"
abbreviation (input) MODAL_GROUP_G7 :: nat where "MODAL_GROUP_G7 \<equiv> 7"
abbreviation (input) MODAL_GROUP_G8 :: nat where "MODAL_GROUP_G8 \<equiv> 8"
abbreviation (input) MODAL_GROUP_G12 :: nat where "MODAL_GROUP_G12 \<equiv> 9"
abbreviation (input) MODAL_GROUP_G13 :: nat where "MODAL_GROUP_G13 \<equiv> 10"
abbreviation (input) MODAL_GROUP_M4 :: nat where "MODAL_GROUP_M4 \<equiv> 11"
abbreviation (input) MODAL_GROUP_M7 :: nat where "MODAL_GROUP_M7 \<equiv> 12"
abbreviation (input) MODAL_GROUP_M8 :: nat where "MODAL_GROUP_M8 \<equiv> 13"
abbreviation (input) MODAL_GROUP_M9 :: nat where "MODAL_GROUP_M9 \<equiv> 14"
abbreviation (input) NON_MODAL_NO_ACTION :: u8 where "NON_MODAL_NO_ACTION \<equiv> 0"
abbreviation (input) NON_MODAL_DWELL :: u8 where "NON_MODAL_DWELL \<equiv> 4"
abbreviation (input) NON_MODAL_SET_COORDINATE_DATA :: u8 where "NON_MODAL_SET_COORDINATE_DATA \<equiv> 10"
abbreviation (input) NON_MODAL_GO_HOME_0 :: u8 where "NON_MODAL_GO_HOME_0 \<equiv> 28"
abbreviation (input) NON_MODAL_SET_HOME_0 :: u8 where "NON_MODAL_SET_HOME_0 \<equiv> 38"
abbreviation (input) NON_MODAL_GO_HOME_1 :: u8 where "NON_MODAL_GO_HOME_1 \<equiv> 30"
abbreviation (input) NON_MODAL_SET_HOME_1 :: u8 where "NON_MODAL_SET_HOME_1 \<equiv> 40"
abbreviation (input) NON_MODAL_ABSOLUTE_OVERRIDE :: u8 where "NON_MODAL_ABSOLUTE_OVERRIDE \<equiv> 53"
abbreviation (input) NON_MODAL_SET_COORDINATE_OFFSET :: u8 where "NON_MODAL_SET_COORDINATE_OFFSET \<equiv> 92"
abbreviation (input) NON_MODAL_RESET_COORDINATE_OFFSET :: u8 where "NON_MODAL_RESET_COORDINATE_OFFSET \<equiv> 102"
abbreviation (input) MOTION_MODE_SEEK :: u8 where "MOTION_MODE_SEEK \<equiv> 0"
abbreviation (input) MOTION_MODE_LINEAR :: u8 where "MOTION_MODE_LINEAR \<equiv> 1"
abbreviation (input) MOTION_MODE_CW_ARC :: u8 where "MOTION_MODE_CW_ARC \<equiv> 2"
abbreviation (input) MOTION_MODE_CCW_ARC :: u8 where "MOTION_MODE_CCW_ARC \<equiv> 3"
abbreviation (input) MOTION_MODE_PROBE_TOWARD :: u8 where "MOTION_MODE_PROBE_TOWARD \<equiv> 140"
abbreviation (input) MOTION_MODE_PROBE_TOWARD_NO_ERROR :: u8 where "MOTION_MODE_PROBE_TOWARD_NO_ERROR \<equiv> 141"
abbreviation (input) MOTION_MODE_PROBE_AWAY :: u8 where "MOTION_MODE_PROBE_AWAY \<equiv> 142"
abbreviation (input) MOTION_MODE_PROBE_AWAY_NO_ERROR :: u8 where "MOTION_MODE_PROBE_AWAY_NO_ERROR \<equiv> 143"
abbreviation (input) MOTION_MODE_NONE :: u8 where "MOTION_MODE_NONE \<equiv> 80"
abbreviation (input) PLANE_SELECT_XY :: u8 where "PLANE_SELECT_XY \<equiv> 0"
abbreviation (input) PLANE_SELECT_ZX :: u8 where "PLANE_SELECT_ZX \<equiv> 1"
abbreviation (input) PLANE_SELECT_YZ :: u8 where "PLANE_SELECT_YZ \<equiv> 2"
abbreviation (input) DISTANCE_MODE_ABSOLUTE :: u8 where "DISTANCE_MODE_ABSOLUTE \<equiv> 0"
abbreviation (input) DISTANCE_MODE_INCREMENTAL :: u8 where "DISTANCE_MODE_INCREMENTAL \<equiv> 1"
abbreviation (input) PROGRAM_FLOW_RUNNING :: u8 where "PROGRAM_FLOW_RUNNING \<equiv> 0"
abbreviation (input) PROGRAM_FLOW_PAUSED :: u8 where "PROGRAM_FLOW_PAUSED \<equiv> 3"
abbreviation (input) PROGRAM_FLOW_OPTIONAL_STOP :: u8 where "PROGRAM_FLOW_OPTIONAL_STOP \<equiv> 1"
abbreviation (input) PROGRAM_FLOW_COMPLETED_M2 :: u8 where "PROGRAM_FLOW_COMPLETED_M2 \<equiv> 2"
abbreviation (input) PROGRAM_FLOW_COMPLETED_M30 :: u8 where "PROGRAM_FLOW_COMPLETED_M30 \<equiv> 30"
abbreviation (input) FEED_RATE_MODE_UNITS_PER_MIN :: u8 where "FEED_RATE_MODE_UNITS_PER_MIN \<equiv> 0"
abbreviation (input) FEED_RATE_MODE_INVERSE_TIME :: u8 where "FEED_RATE_MODE_INVERSE_TIME \<equiv> 1"
abbreviation (input) UNITS_MODE_MM :: u8 where "UNITS_MODE_MM \<equiv> 0"
abbreviation (input) UNITS_MODE_INCHES :: u8 where "UNITS_MODE_INCHES \<equiv> 1"
abbreviation (input) SPINDLE_DISABLE :: u8 where "SPINDLE_DISABLE \<equiv> 0"
abbreviation (input) SPINDLE_ENABLE_CW :: u8 where "SPINDLE_ENABLE_CW \<equiv> 16"
abbreviation (input) SPINDLE_ENABLE_CCW :: u8 where "SPINDLE_ENABLE_CCW \<equiv> 32"
abbreviation (input) COOLANT_DISABLE :: u8 where "COOLANT_DISABLE \<equiv> 0"
abbreviation (input) COOLANT_FLOOD_ENABLE :: u8 where "COOLANT_FLOOD_ENABLE \<equiv> 64"
abbreviation (input) COOLANT_MIST_ENABLE :: u8 where "COOLANT_MIST_ENABLE \<equiv> 128"
abbreviation (input) TOOL_LENGTH_OFFSET_CANCEL :: u8 where "TOOL_LENGTH_OFFSET_CANCEL \<equiv> 0"
abbreviation (input) TOOL_LENGTH_OFFSET_ENABLE_DYNAMIC :: u8 where "TOOL_LENGTH_OFFSET_ENABLE_DYNAMIC \<equiv> 1"
abbreviation (input) WORD_F :: nat where "WORD_F \<equiv> 0"
abbreviation (input) WORD_I :: nat where "WORD_I \<equiv> 1"
abbreviation (input) WORD_J :: nat where "WORD_J \<equiv> 2"
abbreviation (input) WORD_K :: nat where "WORD_K \<equiv> 3"
abbreviation (input) WORD_L :: nat where "WORD_L \<equiv> 4"
abbreviation (input) WORD_N :: nat where "WORD_N \<equiv> 5"
abbreviation (input) WORD_P :: nat where "WORD_P \<equiv> 6"
abbreviation (input) WORD_R :: nat where "WORD_R \<equiv> 7"
abbreviation (input) WORD_S :: nat where "WORD_S \<equiv> 8"
abbreviation (input) WORD_T :: nat where "WORD_T \<equiv> 9"
abbreviation (input) WORD_X :: nat where "WORD_X \<equiv> 10"
abbreviation (input) WORD_Y :: nat where "WORD_Y \<equiv> 11"
abbreviation (input) WORD_Z :: nat where "WORD_Z \<equiv> 12"
abbreviation (input) WORD_A :: nat where "WORD_A \<equiv> 13"
abbreviation (input) WORD_B :: nat where "WORD_B \<equiv> 14"
abbreviation (input) WORD_C :: nat where "WORD_C \<equiv> 15"
abbreviation (input) WORD_D :: nat where "WORD_D \<equiv> 16"
abbreviation (input) WORD_E :: nat where "WORD_E \<equiv> 17"
abbreviation (input) GC_UPDATE_POS_TARGET :: u8 where "GC_UPDATE_POS_TARGET \<equiv> 0"
abbreviation (input) GC_UPDATE_POS_SYSTEM :: u8 where "GC_UPDATE_POS_SYSTEM \<equiv> 1"
abbreviation (input) GC_UPDATE_POS_NONE :: u8 where "GC_UPDATE_POS_NONE \<equiv> 2"
abbreviation (input) GC_PROBE_FOUND :: u8 where "GC_PROBE_FOUND \<equiv> 1"
abbreviation (input) GC_PROBE_ABORT :: u8 where "GC_PROBE_ABORT \<equiv> 2"
abbreviation (input) GC_PROBE_FAIL_INIT :: u8 where "GC_PROBE_FAIL_INIT \<equiv> 2"
abbreviation (input) GC_PROBE_FAIL_END :: u8 where "GC_PROBE_FAIL_END \<equiv> 0"
abbreviation (input) GC_PROBE_CHECK_MODE :: u8 where "GC_PROBE_CHECK_MODE \<equiv> 0"
abbreviation (input) GC_PARSER_NONE :: u8 where "GC_PARSER_NONE \<equiv> 0"
abbreviation (input) GC_PARSER_JOG_MOTION :: u8 where "GC_PARSER_JOG_MOTION \<equiv> 1"
abbreviation (input) GC_PARSER_CHECK_MANTISSA :: u8 where "GC_PARSER_CHECK_MANTISSA \<equiv> 2"
abbreviation (input) GC_PARSER_ARC_IS_CLOCKWISE :: u8 where "GC_PARSER_ARC_IS_CLOCKWISE \<equiv> 4"
abbreviation (input) GC_PARSER_PROBE_IS_AWAY :: u8 where "GC_PARSER_PROBE_IS_AWAY \<equiv> 8"
abbreviation (input) GC_PARSER_PROBE_IS_NO_ERROR :: u8 where "GC_PARSER_PROBE_IS_NO_ERROR \<equiv> 16"
abbreviation (input) GC_PARSER_LASER_FORCE_SYNC :: u8 where "GC_PARSER_LASER_FORCE_SYNC \<equiv> 32"
abbreviation (input) GC_PARSER_LASER_DISABLE :: u8 where "GC_PARSER_LASER_DISABLE \<equiv> 64"
abbreviation (input) GC_PARSER_LASER_ISMOTION :: u8 where "GC_PARSER_LASER_ISMOTION \<equiv> 128"
abbreviation (input) AXIS_COMMAND_NONE :: u8 where "AXIS_COMMAND_NONE \<equiv> 0"
abbreviation (input) AXIS_COMMAND_NON_MODAL :: u8 where "AXIS_COMMAND_NON_MODAL \<equiv> 1"
abbreviation (input) AXIS_COMMAND_MOTION_MODE :: u8 where "AXIS_COMMAND_MOTION_MODE \<equiv> 2"
abbreviation (input) AXIS_COMMAND_TOOL_LENGTH_OFFSET :: u8 where "AXIS_COMMAND_TOOL_LENGTH_OFFSET \<equiv> 3"

section \<open>settings.hpp: flags, EEPROM layout, setting numbering\<close>

abbreviation (input) SETTINGS_VERSION :: u8 where "SETTINGS_VERSION \<equiv> 10"
abbreviation (input) BIT_REPORT_INCHES :: nat where "BIT_REPORT_INCHES \<equiv> 0"
abbreviation (input) BIT_LASER_MODE :: nat where "BIT_LASER_MODE \<equiv> 1"
abbreviation (input) BIT_INVERT_ST_ENABLE :: nat where "BIT_INVERT_ST_ENABLE \<equiv> 2"
abbreviation (input) BIT_HARD_LIMIT_ENABLE :: nat where "BIT_HARD_LIMIT_ENABLE \<equiv> 3"
abbreviation (input) BIT_HOMING_ENABLE :: nat where "BIT_HOMING_ENABLE \<equiv> 4"
abbreviation (input) BIT_SOFT_LIMIT_ENABLE :: nat where "BIT_SOFT_LIMIT_ENABLE \<equiv> 5"
abbreviation (input) BIT_INVERT_LIMIT_PINS :: nat where "BIT_INVERT_LIMIT_PINS \<equiv> 6"
abbreviation (input) BIT_INVERT_PROBE_PIN :: nat where "BIT_INVERT_PROBE_PIN \<equiv> 7"
abbreviation (input) BITFLAG_REPORT_INCHES :: u8 where "BITFLAG_REPORT_INCHES \<equiv> 1"
abbreviation (input) BITFLAG_LASER_MODE :: u8 where "BITFLAG_LASER_MODE \<equiv> 2"
abbreviation (input) BITFLAG_INVERT_ST_ENABLE :: u8 where "BITFLAG_INVERT_ST_ENABLE \<equiv> 4"
abbreviation (input) BITFLAG_HARD_LIMIT_ENABLE :: u8 where "BITFLAG_HARD_LIMIT_ENABLE \<equiv> 8"
abbreviation (input) BITFLAG_HOMING_ENABLE :: u8 where "BITFLAG_HOMING_ENABLE \<equiv> 16"
abbreviation (input) BITFLAG_SOFT_LIMIT_ENABLE :: u8 where "BITFLAG_SOFT_LIMIT_ENABLE \<equiv> 32"
abbreviation (input) BITFLAG_INVERT_LIMIT_PINS :: u8 where "BITFLAG_INVERT_LIMIT_PINS \<equiv> 64"
abbreviation (input) BITFLAG_INVERT_PROBE_PIN :: u8 where "BITFLAG_INVERT_PROBE_PIN \<equiv> 128"
abbreviation (input) BITFLAG_RT_STATUS_POSITION_TYPE :: u8 where "BITFLAG_RT_STATUS_POSITION_TYPE \<equiv> 1"
abbreviation (input) BITFLAG_RT_STATUS_BUFFER_STATE :: u8 where "BITFLAG_RT_STATUS_BUFFER_STATE \<equiv> 2"
abbreviation (input) SETTINGS_RESTORE_DEFAULTS :: u8 where "SETTINGS_RESTORE_DEFAULTS \<equiv> 1"
abbreviation (input) SETTINGS_RESTORE_PARAMETERS :: u8 where "SETTINGS_RESTORE_PARAMETERS \<equiv> 2"
abbreviation (input) SETTINGS_RESTORE_STARTUP_LINES :: u8 where "SETTINGS_RESTORE_STARTUP_LINES \<equiv> 4"
abbreviation (input) SETTINGS_RESTORE_BUILD_INFO :: u8 where "SETTINGS_RESTORE_BUILD_INFO \<equiv> 8"
abbreviation (input) SETTINGS_RESTORE_ALL :: u8 where "SETTINGS_RESTORE_ALL \<equiv> 255"
abbreviation (input) EEPROM_ADDR_GLOBAL :: nat where "EEPROM_ADDR_GLOBAL \<equiv> 1"
abbreviation (input) EEPROM_ADDR_PARAMETERS :: nat where "EEPROM_ADDR_PARAMETERS \<equiv> 1024"
abbreviation (input) EEPROM_ADDR_STARTUP_BLOCK :: nat where "EEPROM_ADDR_STARTUP_BLOCK \<equiv> 1536"
abbreviation (input) EEPROM_ADDR_BUILD_INFO :: nat where "EEPROM_ADDR_BUILD_INFO \<equiv> 1792"
abbreviation (input) N_COORDINATE_SYSTEM :: nat where "N_COORDINATE_SYSTEM \<equiv> 6"
abbreviation (input) SETTING_INDEX_NCOORD :: nat where "SETTING_INDEX_NCOORD \<equiv> 7"
abbreviation (input) SETTING_INDEX_G28 :: nat where "SETTING_INDEX_G28 \<equiv> 6"
abbreviation (input) SETTING_INDEX_G30 :: nat where "SETTING_INDEX_G30 \<equiv> 7"
abbreviation (input) AXIS_N_SETTINGS :: nat where "AXIS_N_SETTINGS \<equiv> 4"
abbreviation (input) AXIS_SETTINGS_START_VAL :: nat where "AXIS_SETTINGS_START_VAL \<equiv> 100"
abbreviation (input) AXIS_SETTINGS_INCREMENT :: nat where "AXIS_SETTINGS_INCREMENT \<equiv> 10"

section \<open>report.hpp: status and message codes, clients\<close>

abbreviation (input) STATUS_OK :: u8 where "STATUS_OK \<equiv> 0"
abbreviation (input) STATUS_EXPECTED_COMMAND_LETTER :: u8 where "STATUS_EXPECTED_COMMAND_LETTER \<equiv> 1"
abbreviation (input) STATUS_BAD_NUMBER_FORMAT :: u8 where "STATUS_BAD_NUMBER_FORMAT \<equiv> 2"
abbreviation (input) STATUS_INVALID_STATEMENT :: u8 where "STATUS_INVALID_STATEMENT \<equiv> 3"
abbreviation (input) STATUS_NEGATIVE_VALUE :: u8 where "STATUS_NEGATIVE_VALUE \<equiv> 4"
abbreviation (input) STATUS_SETTING_DISABLED :: u8 where "STATUS_SETTING_DISABLED \<equiv> 5"
abbreviation (input) STATUS_SETTING_STEP_PULSE_MIN :: u8 where "STATUS_SETTING_STEP_PULSE_MIN \<equiv> 6"
abbreviation (input) STATUS_SETTING_READ_FAIL :: u8 where "STATUS_SETTING_READ_FAIL \<equiv> 7"
abbreviation (input) STATUS_IDLE_ERROR :: u8 where "STATUS_IDLE_ERROR \<equiv> 8"
abbreviation (input) STATUS_SYSTEM_GC_LOCK :: u8 where "STATUS_SYSTEM_GC_LOCK \<equiv> 9"
abbreviation (input) STATUS_SOFT_LIMIT_ERROR :: u8 where "STATUS_SOFT_LIMIT_ERROR \<equiv> 10"
abbreviation (input) STATUS_OVERFLOW :: u8 where "STATUS_OVERFLOW \<equiv> 11"
abbreviation (input) STATUS_MAX_STEP_RATE_EXCEEDED :: u8 where "STATUS_MAX_STEP_RATE_EXCEEDED \<equiv> 12"
abbreviation (input) STATUS_CHECK_DOOR :: u8 where "STATUS_CHECK_DOOR \<equiv> 13"
abbreviation (input) STATUS_LINE_LENGTH_EXCEEDED :: u8 where "STATUS_LINE_LENGTH_EXCEEDED \<equiv> 14"
abbreviation (input) STATUS_TRAVEL_EXCEEDED :: u8 where "STATUS_TRAVEL_EXCEEDED \<equiv> 15"
abbreviation (input) STATUS_INVALID_JOG_COMMAND :: u8 where "STATUS_INVALID_JOG_COMMAND \<equiv> 16"
abbreviation (input) STATUS_SETTING_DISABLED_LASER :: u8 where "STATUS_SETTING_DISABLED_LASER \<equiv> 17"
abbreviation (input) STATUS_GCODE_UNSUPPORTED_COMMAND :: u8 where "STATUS_GCODE_UNSUPPORTED_COMMAND \<equiv> 20"
abbreviation (input) STATUS_GCODE_MODAL_GROUP_VIOLATION :: u8 where "STATUS_GCODE_MODAL_GROUP_VIOLATION \<equiv> 21"
abbreviation (input) STATUS_GCODE_UNDEFINED_FEED_RATE :: u8 where "STATUS_GCODE_UNDEFINED_FEED_RATE \<equiv> 22"
abbreviation (input) STATUS_GCODE_COMMAND_VALUE_NOT_INTEGER :: u8 where "STATUS_GCODE_COMMAND_VALUE_NOT_INTEGER \<equiv> 23"
abbreviation (input) STATUS_GCODE_AXIS_COMMAND_CONFLICT :: u8 where "STATUS_GCODE_AXIS_COMMAND_CONFLICT \<equiv> 24"
abbreviation (input) STATUS_GCODE_WORD_REPEATED :: u8 where "STATUS_GCODE_WORD_REPEATED \<equiv> 25"
abbreviation (input) STATUS_GCODE_NO_AXIS_WORDS :: u8 where "STATUS_GCODE_NO_AXIS_WORDS \<equiv> 26"
abbreviation (input) STATUS_GCODE_INVALID_LINE_NUMBER :: u8 where "STATUS_GCODE_INVALID_LINE_NUMBER \<equiv> 27"
abbreviation (input) STATUS_GCODE_VALUE_WORD_MISSING :: u8 where "STATUS_GCODE_VALUE_WORD_MISSING \<equiv> 28"
abbreviation (input) STATUS_GCODE_UNSUPPORTED_COORD_SYS :: u8 where "STATUS_GCODE_UNSUPPORTED_COORD_SYS \<equiv> 29"
abbreviation (input) STATUS_GCODE_G53_INVALID_MOTION_MODE :: u8 where "STATUS_GCODE_G53_INVALID_MOTION_MODE \<equiv> 30"
abbreviation (input) STATUS_GCODE_AXIS_WORDS_EXIST :: u8 where "STATUS_GCODE_AXIS_WORDS_EXIST \<equiv> 31"
abbreviation (input) STATUS_GCODE_NO_AXIS_WORDS_IN_PLANE :: u8 where "STATUS_GCODE_NO_AXIS_WORDS_IN_PLANE \<equiv> 32"
abbreviation (input) STATUS_GCODE_INVALID_TARGET :: u8 where "STATUS_GCODE_INVALID_TARGET \<equiv> 33"
abbreviation (input) STATUS_GCODE_ARC_RADIUS_ERROR :: u8 where "STATUS_GCODE_ARC_RADIUS_ERROR \<equiv> 34"
abbreviation (input) STATUS_GCODE_NO_OFFSETS_IN_PLANE :: u8 where "STATUS_GCODE_NO_OFFSETS_IN_PLANE \<equiv> 35"
abbreviation (input) STATUS_GCODE_UNUSED_WORDS :: u8 where "STATUS_GCODE_UNUSED_WORDS \<equiv> 36"
abbreviation (input) STATUS_GCODE_G43_DYNAMIC_AXIS_ERROR :: u8 where "STATUS_GCODE_G43_DYNAMIC_AXIS_ERROR \<equiv> 37"
abbreviation (input) STATUS_GCODE_MAX_VALUE_EXCEEDED :: u8 where "STATUS_GCODE_MAX_VALUE_EXCEEDED \<equiv> 38"
abbreviation (input) MESSAGE_CRITICAL_EVENT :: u8 where "MESSAGE_CRITICAL_EVENT \<equiv> 1"
abbreviation (input) MESSAGE_ALARM_LOCK :: u8 where "MESSAGE_ALARM_LOCK \<equiv> 2"
abbreviation (input) MESSAGE_ALARM_UNLOCK :: u8 where "MESSAGE_ALARM_UNLOCK \<equiv> 3"
abbreviation (input) MESSAGE_ENABLED :: u8 where "MESSAGE_ENABLED \<equiv> 4"
abbreviation (input) MESSAGE_DISABLED :: u8 where "MESSAGE_DISABLED \<equiv> 5"
abbreviation (input) MESSAGE_SAFETY_DOOR_AJAR :: u8 where "MESSAGE_SAFETY_DOOR_AJAR \<equiv> 6"
abbreviation (input) MESSAGE_CHECK_LIMITS :: u8 where "MESSAGE_CHECK_LIMITS \<equiv> 7"
abbreviation (input) MESSAGE_PROGRAM_END :: u8 where "MESSAGE_PROGRAM_END \<equiv> 8"
abbreviation (input) MESSAGE_RESTORE_DEFAULTS :: u8 where "MESSAGE_RESTORE_DEFAULTS \<equiv> 9"
abbreviation (input) MESSAGE_SPINDLE_RESTORE :: u8 where "MESSAGE_SPINDLE_RESTORE \<equiv> 10"
abbreviation (input) MESSAGE_SLEEP_MODE :: u8 where "MESSAGE_SLEEP_MODE \<equiv> 11"
abbreviation (input) CLIENT_SERIAL :: u8 where "CLIENT_SERIAL \<equiv> 1"
abbreviation (input) CLIENT_WEBSOCKET :: u8 where "CLIENT_WEBSOCKET \<equiv> 2"
abbreviation (input) CLIENT_TELNET :: u8 where "CLIENT_TELNET \<equiv> 3"
abbreviation (input) CLIENT_ALL :: u8 where "CLIENT_ALL \<equiv> 255"
abbreviation (input) CLIENT_COUNT :: nat where "CLIENT_COUNT \<equiv> 3"

section \<open>protocol.hpp, serial.hpp, stepper.hpp, stepper.cpp, probe.hpp, spindle\_control.hpp, coolant\_control.hpp\<close>

abbreviation (input) LINE_BUFFER_SIZE :: nat where "LINE_BUFFER_SIZE \<equiv> 200"
abbreviation (input) LINE_FLAG_OVERFLOW :: u8 where "LINE_FLAG_OVERFLOW \<equiv> 1"
abbreviation (input) LINE_FLAG_COMMENT_PARENTHESES :: u8 where "LINE_FLAG_COMMENT_PARENTHESES \<equiv> 2"
abbreviation (input) LINE_FLAG_COMMENT_SEMICOLON :: u8 where "LINE_FLAG_COMMENT_SEMICOLON \<equiv> 4"
abbreviation (input) RX_BUFFER_SIZE :: nat where "RX_BUFFER_SIZE \<equiv> 342"
abbreviation (input) RX_RING_BUFFER :: nat where "RX_RING_BUFFER \<equiv> 343"
abbreviation (input) SERIAL_NO_DATA :: u8 where "SERIAL_NO_DATA \<equiv> 255"
abbreviation (input) SEGMENT_BUFFER_SIZE :: nat where "SEGMENT_BUFFER_SIZE \<equiv> 6"
abbreviation (input) RAMP_ACCEL :: u8 where "RAMP_ACCEL \<equiv> 0"
abbreviation (input) RAMP_CRUISE :: u8 where "RAMP_CRUISE \<equiv> 1"
abbreviation (input) RAMP_DECEL :: u8 where "RAMP_DECEL \<equiv> 2"
abbreviation (input) RAMP_DECEL_OVERRIDE :: u8 where "RAMP_DECEL_OVERRIDE \<equiv> 3"
abbreviation (input) PREP_FLAG_RECALCULATE :: u8 where "PREP_FLAG_RECALCULATE \<equiv> 1"
abbreviation (input) PREP_FLAG_HOLD_PARTIAL_BLOCK :: u8 where "PREP_FLAG_HOLD_PARTIAL_BLOCK \<equiv> 2"
abbreviation (input) PREP_FLAG_PARKING :: u8 where "PREP_FLAG_PARKING \<equiv> 4"
abbreviation (input) PREP_FLAG_DECEL_OVERRIDE :: u8 where "PREP_FLAG_DECEL_OVERRIDE \<equiv> 8"
abbreviation (input) MAX_AMASS_LEVEL :: nat where "MAX_AMASS_LEVEL \<equiv> 3"
abbreviation (input) PROBE_OFF :: u8 where "PROBE_OFF \<equiv> 0"
abbreviation (input) PROBE_ACTIVE :: u8 where "PROBE_ACTIVE \<equiv> 1"
abbreviation (input) SPINDLE_STATE_DISABLE :: u8 where "SPINDLE_STATE_DISABLE \<equiv> 0"
abbreviation (input) SPINDLE_STATE_CW :: u8 where "SPINDLE_STATE_CW \<equiv> 1"
abbreviation (input) SPINDLE_STATE_CCW :: u8 where "SPINDLE_STATE_CCW \<equiv> 2"
abbreviation (input) COOLANT_STATE_DISABLE :: u8 where "COOLANT_STATE_DISABLE \<equiv> 0"
abbreviation (input) COOLANT_STATE_FLOOD :: u8 where "COOLANT_STATE_FLOOD \<equiv> 64"
abbreviation (input) COOLANT_STATE_MIST :: u8 where "COOLANT_STATE_MIST \<equiv> 128"

section \<open>cpu\_map.hpp: pins\<close>

abbreviation (input) X_STEP_BIT :: nat where "X_STEP_BIT \<equiv> 0"
abbreviation (input) Y_STEP_BIT :: nat where "Y_STEP_BIT \<equiv> 1"
abbreviation (input) Z_STEP_BIT :: nat where "Z_STEP_BIT \<equiv> 2"
abbreviation (input) A_STEP_BIT :: nat where "A_STEP_BIT \<equiv> 3"
abbreviation (input) B_STEP_BIT :: nat where "B_STEP_BIT \<equiv> 4"
abbreviation (input) C_STEP_BIT :: nat where "C_STEP_BIT \<equiv> 5"
abbreviation (input) D_STEP_BIT :: nat where "D_STEP_BIT \<equiv> 6"
abbreviation (input) E_STEP_BIT :: nat where "E_STEP_BIT \<equiv> 7"
abbreviation (input) X_DIRECTION_BIT :: nat where "X_DIRECTION_BIT \<equiv> 0"
abbreviation (input) Y_DIRECTION_BIT :: nat where "Y_DIRECTION_BIT \<equiv> 1"
abbreviation (input) Z_DIRECTION_BIT :: nat where "Z_DIRECTION_BIT \<equiv> 2"
abbreviation (input) A_DIRECTION_BIT :: nat where "A_DIRECTION_BIT \<equiv> 3"
abbreviation (input) B_DIRECTION_BIT :: nat where "B_DIRECTION_BIT \<equiv> 4"
abbreviation (input) C_DIRECTION_BIT :: nat where "C_DIRECTION_BIT \<equiv> 5"
abbreviation (input) D_DIRECTION_BIT :: nat where "D_DIRECTION_BIT \<equiv> 6"
abbreviation (input) E_DIRECTION_BIT :: nat where "E_DIRECTION_BIT \<equiv> 7"
abbreviation (input) X_LIMIT_BIT :: nat where "X_LIMIT_BIT \<equiv> 0"
abbreviation (input) Y_LIMIT_BIT :: nat where "Y_LIMIT_BIT \<equiv> 1"
abbreviation (input) Z_LIMIT_BIT :: nat where "Z_LIMIT_BIT \<equiv> 2"
abbreviation (input) A_LIMIT_BIT :: nat where "A_LIMIT_BIT \<equiv> 3"
abbreviation (input) B_LIMIT_BIT :: nat where "B_LIMIT_BIT \<equiv> 4"
abbreviation (input) C_LIMIT_BIT :: nat where "C_LIMIT_BIT \<equiv> 5"
abbreviation (input) D_LIMIT_BIT :: nat where "D_LIMIT_BIT \<equiv> 6"
abbreviation (input) E_LIMIT_BIT :: nat where "E_LIMIT_BIT \<equiv> 7"
abbreviation (input) STEPPERS_DISABLE_BIT :: nat where "STEPPERS_DISABLE_BIT \<equiv> 7"
abbreviation (input) COOLANT_FLOOD_BIT :: nat where "COOLANT_FLOOD_BIT \<equiv> 5"
abbreviation (input) COOLANT_MIST_BIT :: nat where "COOLANT_MIST_BIT \<equiv> 6"
abbreviation (input) CONTROL_RESET_BIT :: nat where "CONTROL_RESET_BIT \<equiv> 0"
abbreviation (input) CONTROL_FEED_HOLD_BIT :: nat where "CONTROL_FEED_HOLD_BIT \<equiv> 1"
abbreviation (input) CONTROL_CYCLE_START_BIT :: nat where "CONTROL_CYCLE_START_BIT \<equiv> 2"
abbreviation (input) CONTROL_SAFETY_DOOR_BIT :: nat where "CONTROL_SAFETY_DOOR_BIT \<equiv> 3"
abbreviation (input) STEP_MASK :: u8 where "STEP_MASK \<equiv> 255"
abbreviation (input) DIRECTION_MASK :: u8 where "DIRECTION_MASK \<equiv> 255"
abbreviation (input) LIMIT_MASK :: u8 where "LIMIT_MASK \<equiv> 255"
abbreviation (input) CONTROL_MASK :: u8 where "CONTROL_MASK \<equiv> 15"
abbreviation (input) PROBE_BIT :: u8 where "PROBE_BIT \<equiv> 4"
abbreviation (input) PROBE_MASK :: u8 where "PROBE_MASK \<equiv> 16"
abbreviation (input) SPINDLE_PWM_MAX_VALUE :: u8 where "SPINDLE_PWM_MAX_VALUE \<equiv> 255"
abbreviation (input) SPINDLE_PWM_MIN_VALUE :: u8 where "SPINDLE_PWM_MIN_VALUE \<equiv> 1"
abbreviation (input) SPINDLE_PWM_OFF_VALUE :: u8 where "SPINDLE_PWM_OFF_VALUE \<equiv> 0"
abbreviation (input) HOMING_CYCLE_ALL :: u8 where "HOMING_CYCLE_ALL \<equiv> 0"

end
