(* ===== verification/Floats.thy ===== *)
theory Floats
  imports Prelude "HOL-Library.Log_Nat"
begin

text \<open>
  IEEE 754 arithmetic as the C++ types \<open>float\<close> and \<open>double\<close> have it: a value is its bit
  pattern (a 32-bit or a 64-bit word), an operation decodes its arguments to exact rationals,
  computes exactly and rounds once, to nearest with ties to even. Signed zeros, subnormals,
  infinities and NaN are kept (a NaN result is the canonical quiet NaN). Everything is
  executable. \<open>float\<close> is promoted to \<open>double\<close> where the source mixes it with a literal
  such as \<open>0.01\<close>; the definitions of the other theories write those promotions out.
\<close>

type_synonym f32 = "32 word"
type_synonym f64 = "64 word"

section \<open>Decoded values\<close>

datatype fpv = Fin rat | Infty | NotNum

text \<open>A decoded number is a sign and a value; the value of \<open>Fin\<close> carries its sign too, the
  separate sign is there for zeros and infinities.\<close>

type_synonym fpd = "bool \<times> fpv"

definition f32_dec :: "f32 \<Rightarrow> fpd" where
  "f32_dec w =
     (let n = uint w; e = n div 2 ^ 23 mod 256; m = n mod 2 ^ 23; g = (if n < 2 ^ 31 then 1 else - 1)
      in (2 ^ 31 \<le> n,
          if e = 255 then (if m = 0 then Infty else NotNum)
          else if e = 0 then Fin (if m = 0 then 0 else of_int (g * m) / of_int (2 ^ 149))
          else if 150 \<le> e then Fin (of_int (g * (m + 2 ^ 23) * 2 ^ nat (e - 150)))
          else Fin (of_int (g * (m + 2 ^ 23)) / of_int (2 ^ nat (150 - e)))))"

definition f64_dec :: "f64 \<Rightarrow> fpd" where
  "f64_dec w =
     (let n = uint w; e = n div 2 ^ 52 mod 2048; m = n mod 2 ^ 52; g = (if n < 2 ^ 63 then 1 else - 1)
      in (2 ^ 63 \<le> n,
          if e = 2047 then (if m = 0 then Infty else NotNum)
          else if e = 0 then Fin (if m = 0 then 0 else of_int (g * m) / of_int (2 ^ 1074))
          else if 1075 \<le> e then Fin (of_int (g * (m + 2 ^ 52) * 2 ^ nat (e - 1075)))
          else Fin (of_int (g * (m + 2 ^ 52)) / of_int (2 ^ nat (1075 - e)))))"

section \<open>Rounding\<close>

text \<open>Division of naturals, rounded to nearest, ties to even.\<close>

definition rne :: "nat \<Rightarrow> nat \<Rightarrow> nat" where
  "rne a b = (let d = a div b; r = a mod b in
     if 2 * r < b then d else if b < 2 * r then d + 1 else if even d then d else d + 1)"

text \<open>The exponent of a positive fraction: \<open>2 ^ e \<le> a / b < 2 ^ (e + 1)\<close>.\<close>

definition rat_exp :: "nat \<Rightarrow> nat \<Rightarrow> int" where
  "rat_exp a b = (let e0 = bitlen (int a) - bitlen (int b) in
     if (if 0 \<le> e0 then b * 2 ^ nat e0 \<le> a else b \<le> a * 2 ^ nat (- e0)) then e0 else e0 - 1)"

text \<open>
  The magnitude bits of a positive fraction in a format with precision \<open>p\<close> whose least
  positive number is \<open>2 ^ kmin\<close>. The exponent field is added to the significand, so a
  significand that rounds up to \<open>2 ^ p\<close> carries into it and a subnormal has field 0.
\<close>

definition mag_bits :: "nat \<Rightarrow> int \<Rightarrow> nat \<Rightarrow> nat \<Rightarrow> int" where
  "mag_bits p kmin a b =
     (let k = max kmin (rat_exp a b - int (p - 1));
          m = (if 0 \<le> k then rne a (b * 2 ^ nat k) else rne (a * 2 ^ nat (- k)) b)
      in (k - kmin) * 2 ^ (p - 1) + int m)"

definition f32_bits :: "bool \<Rightarrow> nat \<Rightarrow> nat \<Rightarrow> f32" where
  "f32_bits s a b =
     (let n = (if a = 0 then 0 else min (mag_bits 24 (-149) a b) 0x7F800000)
      in word_of_int (n + (if s then 2 ^ 31 else 0)))"

definition f64_bits :: "bool \<Rightarrow> nat \<Rightarrow> nat \<Rightarrow> f64" where
  "f64_bits s a b =
     (let n = (if a = 0 then 0 else min (mag_bits 53 (-1074) a b) 0x7FF0000000000000)
      in word_of_int (n + (if s then 2 ^ 63 else 0)))"

fun f32_enc :: "fpd \<Rightarrow> f32" where
  "f32_enc (s, NotNum) = 0x7FC00000"
| "f32_enc (s, Infty) = (if s then 0xFF800000 else 0x7F800000)"
| "f32_enc (s, Fin q) =
     (case quotient_of q of (a, b) \<Rightarrow>
       f32_bits (if a = 0 then s else a < 0) (nat \<bar>a\<bar>) (nat b))"

fun f64_enc :: "fpd \<Rightarrow> f64" where
  "f64_enc (s, NotNum) = 0x7FF8000000000000"
| "f64_enc (s, Infty) = (if s then 0xFFF0000000000000 else 0x7FF0000000000000)"
| "f64_enc (s, Fin q) =
     (case quotient_of q of (a, b) \<Rightarrow>
       f64_bits (if a = 0 then s else a < 0) (nat \<bar>a\<bar>) (nat b))"

section \<open>Exact operations on decoded values\<close>

fun fpd_neg :: "fpd \<Rightarrow> fpd" where
  "fpd_neg (s, Fin q) = (\<not> s, Fin (- q))"
| "fpd_neg (s, v) = (\<not> s, v)"

fun fpd_add :: "fpd \<Rightarrow> fpd \<Rightarrow> fpd" where
  "fpd_add (s, Fin x) (t, Fin y) =
     (if x + y = 0 then (s \<and> t, Fin 0) else (x + y < 0, Fin (x + y)))"
| "fpd_add (s, Infty) (t, Infty) = (if s = t then (s, Infty) else (False, NotNum))"
| "fpd_add (s, Infty) (t, Fin y) = (s, Infty)"
| "fpd_add (s, Fin x) (t, Infty) = (t, Infty)"
| "fpd_add _ _ = (False, NotNum)"

fun fpd_mul :: "fpd \<Rightarrow> fpd \<Rightarrow> fpd" where
  "fpd_mul (s, Fin x) (t, Fin y) = (s \<noteq> t, Fin (x * y))"
| "fpd_mul (s, Infty) (t, Infty) = (s \<noteq> t, Infty)"
| "fpd_mul (s, Infty) (t, Fin y) = (if y = 0 then (False, NotNum) else (s \<noteq> t, Infty))"
| "fpd_mul (s, Fin x) (t, Infty) = (if x = 0 then (False, NotNum) else (s \<noteq> t, Infty))"
| "fpd_mul _ _ = (False, NotNum)"

fun fpd_div :: "fpd \<Rightarrow> fpd \<Rightarrow> fpd" where
  "fpd_div (s, Fin x) (t, Fin y) =
     (if y = 0 then (if x = 0 then (False, NotNum) else (s \<noteq> t, Infty)) else (s \<noteq> t, Fin (x / y)))"
| "fpd_div (s, Infty) (t, Fin y) = (s \<noteq> t, Infty)"
| "fpd_div (s, Fin x) (t, Infty) = (s \<noteq> t, Fin 0)"
| "fpd_div _ _ = (False, NotNum)"

fun fpd_abs :: "fpd \<Rightarrow> fpd" where
  "fpd_abs (s, Fin q) = (False, Fin \<bar>q\<bar>)"
| "fpd_abs (s, v) = (False, v)"

text \<open>Integer square root, by halving the number of bits.\<close>

function isqrt :: "nat \<Rightarrow> nat" where
  "isqrt n = (if n = 0 then 0
              else let r = 2 * isqrt (n div 4) in if (r + 1) * (r + 1) \<le> n then r + 1 else r)"
  by pat_completeness auto
termination by (relation "measure id") auto

declare isqrt.simps [simp del]

text \<open>
  The square root of a fraction, as a fraction that rounds like it: scaled by \<open>4 ^ n\<close> so that
  the integer root has more bits than either format keeps, and, when it is not exact, replaced
  by a point strictly between two neighbouring integers (which is never a tie).
\<close>

definition sqrt_frac :: "rat \<Rightarrow> rat" where
  "sqrt_frac q =
     (case quotient_of q of (a, b) \<Rightarrow>
       let n = nat (60 + bitlen b); x = nat a * nat b * 4 ^ n; r = isqrt x
       in (if r * r = x then of_nat r else of_nat (2 * r + 1) / 2) / (of_int b * 2 ^ n))"

fun fpd_sqrt :: "fpd \<Rightarrow> fpd" where
  "fpd_sqrt (s, Fin q) = (if q = 0 then (s, Fin 0) else if q < 0 then (False, NotNum)
                          else (False, Fin (sqrt_frac q)))"
| "fpd_sqrt (s, Infty) = (if s then (False, NotNum) else (False, Infty))"
| "fpd_sqrt (s, NotNum) = (False, NotNum)"

fun fpd_lt :: "fpd \<Rightarrow> fpd \<Rightarrow> bool" where
  "fpd_lt (s, Fin x) (t, Fin y) = (x < y)"
| "fpd_lt (s, Infty) (t, Fin y) = s"
| "fpd_lt (s, Fin x) (t, Infty) = (\<not> t)"
| "fpd_lt (s, Infty) (t, Infty) = (s \<and> \<not> t)"
| "fpd_lt _ _ = False"

fun fpd_eq :: "fpd \<Rightarrow> fpd \<Rightarrow> bool" where
  "fpd_eq (s, Fin x) (t, Fin y) = (x = y)"
| "fpd_eq (s, Infty) (t, Infty) = (s = t)"
| "fpd_eq _ _ = False"

definition fpd_le :: "fpd \<Rightarrow> fpd \<Rightarrow> bool" where
  "fpd_le x y \<longleftrightarrow> fpd_lt x y \<or> fpd_eq x y"

section \<open>The operations of \<open>float\<close>\<close>

definition f32_add :: "f32 \<Rightarrow> f32 \<Rightarrow> f32" where
  "f32_add x y = f32_enc (fpd_add (f32_dec x) (f32_dec y))"
definition f32_neg :: "f32 \<Rightarrow> f32" where
  "f32_neg x = x XOR 0x80000000"
definition f32_sub :: "f32 \<Rightarrow> f32 \<Rightarrow> f32" where
  "f32_sub x y = f32_enc (fpd_add (f32_dec x) (fpd_neg (f32_dec y)))"
definition f32_mul :: "f32 \<Rightarrow> f32 \<Rightarrow> f32" where
  "f32_mul x y = f32_enc (fpd_mul (f32_dec x) (f32_dec y))"
definition f32_div :: "f32 \<Rightarrow> f32 \<Rightarrow> f32" where
  "f32_div x y = f32_enc (fpd_div (f32_dec x) (f32_dec y))"
definition f32_sqrt :: "f32 \<Rightarrow> f32" where
  "f32_sqrt x = f32_enc (fpd_sqrt (f32_dec x))"
definition f32_lt :: "f32 \<Rightarrow> f32 \<Rightarrow> bool" where
  "f32_lt x y = fpd_lt (f32_dec x) (f32_dec y)"
definition f32_le :: "f32 \<Rightarrow> f32 \<Rightarrow> bool" where
  "f32_le x y = fpd_le (f32_dec x) (f32_dec y)"
definition f32_eq :: "f32 \<Rightarrow> f32 \<Rightarrow> bool" where
  "f32_eq x y = fpd_eq (f32_dec x) (f32_dec y)"
definition f32_nan :: "f32 \<Rightarrow> bool" where
  "f32_nan x \<longleftrightarrow> snd (f32_dec x) = NotNum"
definition f32_of_int :: "int \<Rightarrow> f32" where
  "f32_of_int i = f32_enc (False, Fin (of_int i))"
definition f32_of_rat :: "rat \<Rightarrow> f32" where
  "f32_of_rat q = f32_enc (False, Fin q)"

section \<open>The operations of \<open>double\<close>, and conversions\<close>

definition f64_add :: "f64 \<Rightarrow> f64 \<Rightarrow> f64" where
  "f64_add x y = f64_enc (fpd_add (f64_dec x) (f64_dec y))"
definition f64_sub :: "f64 \<Rightarrow> f64 \<Rightarrow> f64" where
  "f64_sub x y = f64_enc (fpd_add (f64_dec x) (fpd_neg (f64_dec y)))"
definition f64_mul :: "f64 \<Rightarrow> f64 \<Rightarrow> f64" where
  "f64_mul x y = f64_enc (fpd_mul (f64_dec x) (f64_dec y))"
definition f64_div :: "f64 \<Rightarrow> f64 \<Rightarrow> f64" where
  "f64_div x y = f64_enc (fpd_div (f64_dec x) (f64_dec y))"
definition f64_neg :: "f64 \<Rightarrow> f64" where
  "f64_neg x = x XOR 0x8000000000000000"
definition f64_abs :: "f64 \<Rightarrow> f64" where
  "f64_abs x = f64_enc (fpd_abs (f64_dec x))"
definition f64_sqrt :: "f64 \<Rightarrow> f64" where
  "f64_sqrt x = f64_enc (fpd_sqrt (f64_dec x))"
definition f64_lt :: "f64 \<Rightarrow> f64 \<Rightarrow> bool" where
  "f64_lt x y = fpd_lt (f64_dec x) (f64_dec y)"
definition f64_le :: "f64 \<Rightarrow> f64 \<Rightarrow> bool" where
  "f64_le x y = fpd_le (f64_dec x) (f64_dec y)"
definition f64_of_rat :: "rat \<Rightarrow> f64" where
  "f64_of_rat q = f64_enc (False, Fin q)"
definition f64_of_f32 :: "f32 \<Rightarrow> f64" where
  "f64_of_f32 x = f64_enc (f32_dec x)"
definition f32_of_f64 :: "f64 \<Rightarrow> f32" where
  "f32_of_f64 x = f32_enc (f64_dec x)"

text \<open>Rounding a decoded value to an integer: \<open>trunc\<close>, \<open>floor\<close>, \<open>ceil\<close>, and \<open>round\<close> (half away
  from zero). \<open>None\<close> for infinities and NaN.\<close>

fun fpd_trunc :: "fpd \<Rightarrow> int option" where
  "fpd_trunc (s, Fin q) = Some (if q < 0 then - \<lfloor>- q\<rfloor> else \<lfloor>q\<rfloor>)"
| "fpd_trunc _ = None"

fun fpd_floor :: "fpd \<Rightarrow> int option" where
  "fpd_floor (s, Fin q) = Some \<lfloor>q\<rfloor>"
| "fpd_floor _ = None"

fun fpd_ceil :: "fpd \<Rightarrow> int option" where
  "fpd_ceil (s, Fin q) = Some \<lceil>q\<rceil>"
| "fpd_ceil _ = None"

fun fpd_round :: "fpd \<Rightarrow> int option" where
  "fpd_round (s, Fin q) = Some (if q < 0 then - \<lfloor>- q + 1 / 2\<rfloor> else \<lfloor>q + 1 / 2\<rfloor>)"
| "fpd_round _ = None"

text \<open>
  Converting to an integer type is defined in C++ only when the integer fits the type. Outside
  it the model returns an unspecified value of the type, which is the same for the same integer
  but about which nothing can be proved.
\<close>

definition to_u8 :: "int option \<Rightarrow> u8" where
  "to_u8 i = (case i of Some n \<Rightarrow> (if 0 \<le> n \<and> n < 256 then word_of_int n else undefined n)
                      | None \<Rightarrow> undefined)"
definition to_u16 :: "int option \<Rightarrow> u16" where
  "to_u16 i = (case i of Some n \<Rightarrow> (if 0 \<le> n \<and> n < 65536 then word_of_int n else undefined n)
                       | None \<Rightarrow> undefined)"
definition to_u32 :: "int option \<Rightarrow> u32" where
  "to_u32 i = (case i of Some n \<Rightarrow> (if 0 \<le> n \<and> n < 2 ^ 32 then word_of_int n else undefined n)
                       | None \<Rightarrow> undefined)"
definition to_i32 :: "int option \<Rightarrow> i32" where
  "to_i32 i = (case i of Some n \<Rightarrow> (if - (2 ^ 31) \<le> n \<and> n < 2 ^ 31 then word_of_int n else undefined n)
                       | None \<Rightarrow> undefined)"

end
