(* ===== verification/Machine.thy ===== *)
theory Machine
  imports Constants Floats "HOL-Library.Monad_Syntax"
begin

text \<open>
  The data model: one record per \<^verbatim>\<open>struct\<close> of the headers and one record \<open>machine\<close> for the
  global variables of all translation units, the device registers they drive, the reports they
  send and the interrupts still to come.

  A \<^verbatim>\<open>uint8_t\<close> is an 8-bit word and a \<^verbatim>\<open>float\<close> a 32-bit pattern; a \<^verbatim>\<open>uint8_t\<close> only used as a
  boolean is a \<open>bool\<close>. An array is a list of its declared length. A pointer into a static array
  is the index it points to (\<open>None\<close> for \<^verbatim>\<open>NULL\<close>), so that aliasing between the planner, the
  segment generator and the stepper interrupt is kept.
\<close>

section \<open>system.hpp\<close>

record system_t =
  sys_state :: u8
  sys_abort :: bool
  sys_suspend :: u8
  sys_soft_limit :: bool
  sys_step_control :: u8
  sys_probe_succeeded :: bool
  sys_homing_axis_lock :: u8
  sys_f_override :: u8
  sys_r_override :: u8
  sys_spindle_speed_ovr :: u8
  sys_spindle_stop_ovr :: u8
  sys_report_ovr_counter :: u8
  sys_report_wco_counter :: u8
  sys_spindle_speed :: f32

section \<open>settings.hpp\<close>

record settings_t =
  steps_per_mm :: "f32 list"
  max_rate :: "f32 list"
  acceleration :: "f32 list"
  max_travel :: "f32 list"
  pulse_microseconds :: u8
  step_invert_mask :: u8
  dir_invert_mask :: u8
  stepper_idle_lock_time :: u8
  status_report_mask :: u8
  junction_deviation :: f32
  arc_tolerance :: f32
  rpm_max :: f32
  rpm_min :: f32
  flags :: u8
  homing_dir_mask :: u8
  homing_feed_rate :: f32
  homing_seek_rate :: f32
  homing_debounce_delay :: u16
  homing_pulloff :: f32

section \<open>planner.hpp, planner.cpp\<close>

record plan_block_t =
  pb_steps :: "u32 list"
  pb_step_event_count :: u32
  pb_direction_bits :: u8
  pb_condition :: u8
  pb_entry_speed_sqr :: f32
  pb_max_entry_speed_sqr :: f32
  pb_acceleration :: f32
  pb_millimeters :: f32
  pb_max_junction_speed_sqr :: f32
  pb_rapid_rate :: f32
  pb_programmed_rate :: f32
  pb_spindle_speed :: f32

record plan_line_data_t =
  pld_feed_rate :: f32
  pld_spindle_speed :: f32
  pld_condition :: u8

record planner_t =
  pl_position :: "i32 list"
  pl_previous_unit_vec :: "f32 list"
  pl_previous_nominal_speed :: f32

section \<open>gcode.hpp\<close>

record gc_modal_t =
  gm_motion :: u8
  gm_feed_rate :: u8
  gm_units :: u8
  gm_distance :: u8
  gm_plane_select :: u8
  gm_tool_length :: u8
  gm_coord_select :: u8
  gm_program_flow :: u8
  gm_coolant :: u8
  gm_spindle :: u8
  gm_override :: u8

record gc_values_t =
  gv_f :: f32
  gv_ijk :: "f32 list"
  gv_l :: u8
  gv_n :: i32
  gv_p :: f32
  gv_r :: f32
  gv_s :: f32
  gv_t :: u8
  gv_xyz :: "f32 list"

record parser_state_t =
  gs_modal :: gc_modal_t
  gs_spindle_speed :: f32
  gs_feed_rate :: f32
  gs_tool :: u8
  gs_line_number :: i32
  gs_position :: "f32 list"
  gs_coord_system :: "f32 list"
  gs_coord_offset :: "f32 list"
  gs_tool_length_offset :: f32

record parser_block_t =
  gb_non_modal_command :: u8
  gb_modal :: gc_modal_t
  gb_values :: gc_values_t

section \<open>stepper.cpp\<close>

record st_block_t =
  sb_steps :: "u32 list"
  sb_step_event_count :: u32
  sb_direction_bits :: u8
  sb_is_pwm_rate_adjusted :: bool

record segment_t =
  seg_n_step :: u16
  seg_cycles_per_tick :: u16
  seg_st_block_index :: u8
  seg_amass_level :: u8
  seg_spindle_pwm :: u8

text \<open>The eight Bresenham counters \<^verbatim>\<open>counter_x\<close> to \<^verbatim>\<open>counter_e\<close> are one list, in axis order.\<close>

record stepper_t =
  st_counter :: "u32 list"
  st_step_pulse_time :: u8
  st_step_outbits :: u8
  st_dir_outbits :: u8
  st_steps :: "u32 list"
  st_step_count :: u16
  st_exec_block_index :: u8
  st_exec_block :: "u8 option"
  st_exec_segment :: "u8 option"

record st_prep_t =
  prep_st_block_index :: u8
  prep_recalculate_flag :: u8
  prep_dt_remainder :: f32
  prep_steps_remaining :: f32
  prep_step_per_mm :: f32
  prep_req_mm_increment :: f32
  prep_ramp_type :: u8
  prep_mm_complete :: f32
  prep_current_speed :: f32
  prep_maximum_speed :: f32
  prep_exit_speed :: f32
  prep_accelerate_until :: f32
  prep_decelerate_after :: f32
  prep_inv_rate :: f32
  prep_current_spindle_pwm :: u8

section \<open>What the firmware sends, and what interrupts it\<close>

text \<open>
  The report functions of \<^verbatim>\<open>report.cpp\<close> format text and hand it to a client; the model records
  that the report was made, with the arguments that determine its contents. A transfer to the
  shift registers records the bytes sent.
\<close>

datatype outmsg =
    Status_message u8 u8
  | Alarm_message u8
  | Feedback_message u8
  | Init_message u8
  | Grbl_help u8
  | Grbl_settings u8
  | Realtime_status u8 string \<comment> \<open>client and machine state\<close>
  | Probe_parameters u8
  | Ngc_parameters u8
  | Gcode_modes u8
  | Startup_line u8 "u8 list" u8
  | Execute_startup_message "u8 list" u8 u8
  | Build_info "u8 list" u8
  | Serial_tx u8
  | Spi_write u8
  | Spi_write32 u8 u8 u8 u8

text \<open>
  An interrupt event: the poll task finds bytes waiting, in the order it reads them; a tick of
  the stepper timer; a tick of the pulse reset timer; an edge on the limit or control pin, with
  the pin states the scan of the shift register finds (a set bit is a triggered input).
\<close>

datatype event =
    Ev_rx "(u8 \<times> u8) list" \<comment> \<open>client and byte\<close>
  | Ev_step
  | Ev_step_reset
  | Ev_limit_pin u8
  | Ev_control_pin u8

section \<open>The machine\<close>

record machine =
  \<comment> \<open>main.cpp\<close>
  sys :: system_t
  sys_position :: "i32 list"
  sys_probe_position :: "i32 list"
  sys_probe_state :: u8
  sys_rt_exec_state :: u8
  sys_rt_exec_alarm :: u8
  sys_rt_exec_motion_override :: u8
  sys_rt_exec_accessory_override :: u8
  \<comment> \<open>settings.cpp, eeprom.cpp\<close>
  settings :: settings_t
  eeprom :: "u8 list"
  eeprom_commits :: nat
  \<comment> \<open>serial.cpp\<close>
  serial_rx_buffer :: "u8 list list"
  serial_rx_buffer_head :: "u8 list"
  serial_rx_buffer_tail :: "u8 list"
  \<comment> \<open>gcode.cpp\<close>
  gc_state :: parser_state_t
  \<comment> \<open>planner.cpp\<close>
  block_buffer :: "plan_block_t list"
  block_buffer_tail :: u8
  block_buffer_head :: u8
  next_buffer_head :: u8
  block_buffer_planned :: u8
  pl :: planner_t
  \<comment> \<open>stepper.cpp\<close>
  st_block_buffer :: "st_block_t list"
  segment_buffer :: "segment_t list"
  segment_buffer_tail :: u8
  segment_buffer_head :: u8
  segment_next_head :: u8
  stepper :: stepper_t
  prep :: st_prep_t
  pl_block :: "u8 option"
  st_prep_block :: u8
  step_port_invert_mask :: u8
  dir_port_invert_mask :: u8
  busy :: bool
  timer1_enabled :: bool
  timer1_period :: u16
  \<comment> \<open>probe.cpp, spindle\_control.cpp\<close>
  probe_invert_mask :: u8
  pwm_gradient :: f32
  \<comment> \<open>cpu\_map.hpp: \<^verbatim>\<open>regs\<close> is static, so each translation unit has its own copy\<close>
  step_port :: u8
  direction_port :: u8
  steppers_disable_port :: u8
  coolant_port :: u8
  control_port :: u8
  limit_port :: u8
  control_port_inputs :: u8
  limit_port_inputs :: u8
  limit_isr_attached :: bool
  \<comment> \<open>the world\<close>
  out :: "outmsg list" \<comment> \<open>latest first\<close>
  sched :: "event list list" \<comment> \<open>the interrupts served at each coming poll\<close>

section \<open>Auxiliary updates\<close>

abbreviation upd_sys :: "(system_t \<Rightarrow> system_t) \<Rightarrow> machine \<Rightarrow> machine" where
  "upd_sys f m \<equiv> m\<lparr>sys := f (sys m)\<rparr>"

abbreviation set_state :: "u8 \<Rightarrow> machine \<Rightarrow> machine" where
  "set_state v m \<equiv> m\<lparr>sys := (sys m)\<lparr>sys_state := v\<rparr>\<rparr>"

abbreviation set_suspend :: "u8 \<Rightarrow> machine \<Rightarrow> machine" where
  "set_suspend v m \<equiv> m\<lparr>sys := (sys m)\<lparr>sys_suspend := v\<rparr>\<rparr>"

abbreviation set_step_control :: "u8 \<Rightarrow> machine \<Rightarrow> machine" where
  "set_step_control v m \<equiv> m\<lparr>sys := (sys m)\<lparr>sys_step_control := v\<rparr>\<rparr>"

definition report :: "outmsg \<Rightarrow> machine \<Rightarrow> machine" where
  "report r m = m\<lparr>out := r # out m\<rparr>"

section \<open>The realtime executor flags (system.cpp)\<close>

definition system_set_exec_state_flag :: "u8 \<Rightarrow> machine \<Rightarrow> machine" where
  "system_set_exec_state_flag k m = m\<lparr>sys_rt_exec_state := sys_rt_exec_state m OR k\<rparr>"

definition system_clear_exec_state_flag :: "u8 \<Rightarrow> machine \<Rightarrow> machine" where
  "system_clear_exec_state_flag k m = m\<lparr>sys_rt_exec_state := sys_rt_exec_state m AND NOT k\<rparr>"

definition system_set_exec_alarm :: "u8 \<Rightarrow> machine \<Rightarrow> machine" where
  "system_set_exec_alarm code m = m\<lparr>sys_rt_exec_alarm := code\<rparr>"

definition system_clear_exec_alarm :: "machine \<Rightarrow> machine" where
  "system_clear_exec_alarm m = m\<lparr>sys_rt_exec_alarm := 0\<rparr>"

definition system_set_exec_motion_override_flag :: "u8 \<Rightarrow> machine \<Rightarrow> machine" where
  "system_set_exec_motion_override_flag k m =
     m\<lparr>sys_rt_exec_motion_override := sys_rt_exec_motion_override m OR k\<rparr>"

definition system_set_exec_accessory_override_flag :: "u8 \<Rightarrow> machine \<Rightarrow> machine" where
  "system_set_exec_accessory_override_flag k m =
     m\<lparr>sys_rt_exec_accessory_override := sys_rt_exec_accessory_override m OR k\<rparr>"

definition system_clear_exec_motion_overrides :: "machine \<Rightarrow> machine" where
  "system_clear_exec_motion_overrides m = m\<lparr>sys_rt_exec_motion_override := 0\<rparr>"

definition system_clear_exec_accessory_overrides :: "machine \<Rightarrow> machine" where
  "system_clear_exec_accessory_overrides m = m\<lparr>sys_rt_exec_accessory_override := 0\<rparr>"

lemmas exec_flag_defs =
  system_set_exec_state_flag_def system_clear_exec_state_flag_def system_set_exec_alarm_def
  system_clear_exec_alarm_def system_set_exec_motion_override_flag_def
  system_set_exec_accessory_override_flag_def system_clear_exec_motion_overrides_def
  system_clear_exec_accessory_overrides_def

section \<open>A machine after power-on\<close>

text \<open>Static storage is zero-initialised; the concrete inputs of the witnesses start here.\<close>

definition system0 :: system_t where
  "system0 = \<lparr>sys_state = 0, sys_abort = False, sys_suspend = 0, sys_soft_limit = False,
     sys_step_control = 0, sys_probe_succeeded = False, sys_homing_axis_lock = 0,
     sys_f_override = 0, sys_r_override = 0, sys_spindle_speed_ovr = 0, sys_spindle_stop_ovr = 0,
     sys_report_ovr_counter = 0, sys_report_wco_counter = 0, sys_spindle_speed = 0\<rparr>"

definition settings0 :: settings_t where
  "settings0 = \<lparr>steps_per_mm = replicate N_AXIS 0, max_rate = replicate N_AXIS 0,
     acceleration = replicate N_AXIS 0, max_travel = replicate N_AXIS 0, pulse_microseconds = 0,
     step_invert_mask = 0, dir_invert_mask = 0, stepper_idle_lock_time = 0,
     status_report_mask = 0, junction_deviation = 0, arc_tolerance = 0, rpm_max = 0, rpm_min = 0,
     flags = 0, homing_dir_mask = 0, homing_feed_rate = 0, homing_seek_rate = 0,
     homing_debounce_delay = 0, homing_pulloff = 0\<rparr>"

definition plan_block0 :: plan_block_t where
  "plan_block0 = \<lparr>pb_steps = replicate N_AXIS 0, pb_step_event_count = 0, pb_direction_bits = 0,
     pb_condition = 0, pb_entry_speed_sqr = 0, pb_max_entry_speed_sqr = 0, pb_acceleration = 0,
     pb_millimeters = 0, pb_max_junction_speed_sqr = 0, pb_rapid_rate = 0,
     pb_programmed_rate = 0, pb_spindle_speed = 0\<rparr>"

definition planner0 :: planner_t where
  "planner0 = \<lparr>pl_position = replicate N_AXIS 0, pl_previous_unit_vec = replicate N_AXIS 0,
     pl_previous_nominal_speed = 0\<rparr>"

definition gc_modal0 :: gc_modal_t where
  "gc_modal0 = \<lparr>gm_motion = 0, gm_feed_rate = 0, gm_units = 0, gm_distance = 0,
     gm_plane_select = 0, gm_tool_length = 0, gm_coord_select = 0, gm_program_flow = 0,
     gm_coolant = 0, gm_spindle = 0, gm_override = 0\<rparr>"

definition gc_values0 :: gc_values_t where
  "gc_values0 = \<lparr>gv_f = 0, gv_ijk = replicate N_AXIS 0, gv_l = 0, gv_n = 0, gv_p = 0, gv_r = 0,
     gv_s = 0, gv_t = 0, gv_xyz = replicate N_AXIS 0\<rparr>"

definition parser_state0 :: parser_state_t where
  "parser_state0 = \<lparr>gs_modal = gc_modal0, gs_spindle_speed = 0, gs_feed_rate = 0, gs_tool = 0,
     gs_line_number = 0, gs_position = replicate N_AXIS 0, gs_coord_system = replicate N_AXIS 0,
     gs_coord_offset = replicate N_AXIS 0, gs_tool_length_offset = 0\<rparr>"

definition st_block0 :: st_block_t where
  "st_block0 = \<lparr>sb_steps = replicate N_AXIS 0, sb_step_event_count = 0, sb_direction_bits = 0,
     sb_is_pwm_rate_adjusted = False\<rparr>"

definition segment0 :: segment_t where
  "segment0 = \<lparr>seg_n_step = 0, seg_cycles_per_tick = 0, seg_st_block_index = 0,
     seg_amass_level = 0, seg_spindle_pwm = 0\<rparr>"

definition stepper0 :: stepper_t where
  "stepper0 = \<lparr>st_counter = replicate N_AXIS 0, st_step_pulse_time = 0, st_step_outbits = 0,
     st_dir_outbits = 0, st_steps = replicate N_AXIS 0, st_step_count = 0,
     st_exec_block_index = 0, st_exec_block = None, st_exec_segment = None\<rparr>"

definition st_prep0 :: st_prep_t where
  "st_prep0 = \<lparr>prep_st_block_index = 0, prep_recalculate_flag = 0, prep_dt_remainder = 0,
     prep_steps_remaining = 0, prep_step_per_mm = 0, prep_req_mm_increment = 0,
     prep_ramp_type = 0, prep_mm_complete = 0, prep_current_speed = 0, prep_maximum_speed = 0,
     prep_exit_speed = 0, prep_accelerate_until = 0, prep_decelerate_after = 0,
     prep_inv_rate = 0, prep_current_spindle_pwm = 0\<rparr>"

definition machine0 :: machine where
  "machine0 = \<lparr>sys = system0, sys_position = replicate N_AXIS 0,
     sys_probe_position = replicate N_AXIS 0, sys_probe_state = 0, sys_rt_exec_state = 0,
     sys_rt_exec_alarm = 0, sys_rt_exec_motion_override = 0, sys_rt_exec_accessory_override = 0,
     settings = settings0, eeprom = replicate 2048 0, eeprom_commits = 0,
     serial_rx_buffer = replicate CLIENT_COUNT (replicate RX_RING_BUFFER 0),
     serial_rx_buffer_head = replicate CLIENT_COUNT 0,
     serial_rx_buffer_tail = replicate CLIENT_COUNT 0, gc_state = parser_state0,
     block_buffer = replicate BLOCK_BUFFER_SIZE plan_block0, block_buffer_tail = 0,
     block_buffer_head = 0, next_buffer_head = 1, block_buffer_planned = 0, pl = planner0,
     st_block_buffer = replicate (SEGMENT_BUFFER_SIZE - 1) st_block0,
     segment_buffer = replicate SEGMENT_BUFFER_SIZE segment0, segment_buffer_tail = 0,
     segment_buffer_head = 0, segment_next_head = 1, stepper = stepper0, prep = st_prep0,
     pl_block = None, st_prep_block = 0, step_port_invert_mask = 0, dir_port_invert_mask = 0,
     busy = False, timer1_enabled = False, timer1_period = 0, probe_invert_mask = 0,
     pwm_gradient = 0, step_port = 0, direction_port = 0, steppers_disable_port = 0,
     coolant_port = 0, control_port = 0, limit_port = 0, control_port_inputs = 0,
     limit_port_inputs = 0, limit_isr_attached = False, out = [], sched = []\<rparr>"

lemma machine0_simps [simp]:
  "sys machine0 = system0"
  "sys_position machine0 = replicate N_AXIS 0"
  "sys_probe_position machine0 = replicate N_AXIS 0"
  "sys_probe_state machine0 = 0"
  "sys_rt_exec_state machine0 = 0"
  "sys_rt_exec_alarm machine0 = 0"
  "sys_rt_exec_motion_override machine0 = 0"
  "sys_rt_exec_accessory_override machine0 = 0"
  "settings machine0 = settings0"
  "eeprom machine0 = replicate 2048 0"
  "eeprom_commits machine0 = 0"
  "serial_rx_buffer machine0 = replicate CLIENT_COUNT (replicate RX_RING_BUFFER 0)"
  "serial_rx_buffer_head machine0 = replicate CLIENT_COUNT 0"
  "serial_rx_buffer_tail machine0 = replicate CLIENT_COUNT 0"
  "gc_state machine0 = parser_state0"
  "block_buffer machine0 = replicate BLOCK_BUFFER_SIZE plan_block0"
  "block_buffer_tail machine0 = 0"
  "block_buffer_head machine0 = 0"
  "next_buffer_head machine0 = 1"
  "block_buffer_planned machine0 = 0"
  "pl machine0 = planner0"
  "st_block_buffer machine0 = replicate (SEGMENT_BUFFER_SIZE - 1) st_block0"
  "segment_buffer machine0 = replicate SEGMENT_BUFFER_SIZE segment0"
  "segment_buffer_tail machine0 = 0"
  "segment_buffer_head machine0 = 0"
  "segment_next_head machine0 = 1"
  "stepper machine0 = stepper0"
  "prep machine0 = st_prep0"
  "pl_block machine0 = None"
  "st_prep_block machine0 = 0"
  "step_port_invert_mask machine0 = 0"
  "dir_port_invert_mask machine0 = 0"
  "busy machine0 = False"
  "timer1_enabled machine0 = False"
  "timer1_period machine0 = 0"
  "probe_invert_mask machine0 = 0"
  "pwm_gradient machine0 = 0"
  "step_port machine0 = 0"
  "direction_port machine0 = 0"
  "steppers_disable_port machine0 = 0"
  "coolant_port machine0 = 0"
  "control_port machine0 = 0"
  "limit_port machine0 = 0"
  "control_port_inputs machine0 = 0"
  "limit_port_inputs machine0 = 0"
  "limit_isr_attached machine0 = False"
  "out machine0 = []"
  "sched machine0 = []"
  by (simp_all add: machine0_def)

end
