(* ===== verification/Nuts_Bolts.thy ===== *)
theory Nuts_Bolts
  imports Machine
begin

text \<open>
  The shared functions of \<^verbatim>\<open>nuts_bolts.cpp\<close>: the number reader of the parsers and the vector
  helpers of the planner. \<^verbatim>\<open>delay_sec\<close> is in \<open>Protocol_RT\<close>, below the realtime executor it
  calls. The lemmas say what the number reader returns on every input: it fails exactly when
  there is no digit, and on a decimal numeral of up to eight digits it reads all of it, with the
  value of its digits scaled by the position of the point.
\<close>

section \<open>Zero-terminated lines\<close>

text \<open>A line is the whole character buffer. An index past it would be a read outside the array,
  which does not happen on a terminated line; it reads as the terminator.\<close>

type_synonym line = "u8 list"

definition char_at :: "line \<Rightarrow> nat \<Rightarrow> u8" where
  "char_at line i = (if i < length line then line ! i else 0)"

definition ch :: "char \<Rightarrow> u8" where
  "ch c = of_char c"

lemma ch_simps [simp]:
  "ch CHR ''-'' = 45" "ch CHR ''+'' = 43" "ch CHR ''.'' = 46" "ch CHR ''0'' = 48"
  by code_simp+

section \<open>\<open>read_float\<close>\<close>

text \<open>The digit loop, from the character at \<open>ptr\<close>; the result carries the index of the first
  character that is not part of the number.\<close>

record digits_t =
  intval :: u32
  expo :: "8 word" \<comment> \<open>\<open>int8_t exp\<close>\<close>
  ndigit :: u8
  isdecimal :: bool

definition MAX_INT_DIGITS :: u8 where
  "MAX_INT_DIGITS = 8"

definition take_digit :: "u8 \<Rightarrow> digits_t \<Rightarrow> digits_t" where
  "take_digit c s =
     (let s = s\<lparr>ndigit := ndigit s + 1\<rparr> in
      if ndigit s \<le> MAX_INT_DIGITS then
        (let s = (if isdecimal s then s\<lparr>expo := expo s - 1\<rparr> else s)
         in s\<lparr>intval := push_bit 1 (push_bit 2 (intval s) + intval s) + ucast c\<rparr>)
      else (if \<not> isdecimal s then s\<lparr>expo := expo s + 1\<rparr> else s))"

function read_digits :: "line \<Rightarrow> nat \<Rightarrow> digits_t \<Rightarrow> digits_t \<times> nat" where
  "read_digits line ptr s =
     (let c = char_at line ptr - 48 in
      if c \<le> 9 then read_digits line (ptr + 1) (take_digit c s)
      else if c = 46 - 48 \<and> \<not> isdecimal s then
        read_digits line (ptr + 1) (s\<lparr>isdecimal := True\<rparr>)
      else (s, ptr))"
  by pat_completeness auto
termination
  by (relation "measure (\<lambda>(line, ptr, s). length line - ptr)")
     (auto simp: char_at_def Let_def split: if_splits)

declare read_digits.simps [simp del]

text \<open>Scaling by the decimal exponent: multiply by 0.01 while it is at most -2, then by 0.1 or
  repeatedly by 10. The literals are doubles, so each product is formed in double and narrowed.\<close>

definition f32_times_lit :: "rat \<Rightarrow> f32 \<Rightarrow> f32" where
  "f32_times_lit q x = f32_of_f64 (f64_mul (f64_of_f32 x) (f64_of_rat q))"

definition scale_exp :: "int \<Rightarrow> f32 \<Rightarrow> f32" where
  "scale_exp e x =
     (if e < 0 then
        (let y = (f32_times_lit (1 / 100) ^^ nat (- e div 2)) x
         in if odd e then f32_times_lit (1 / 10) y else y)
      else (f32_times_lit 10 ^^ nat e) x)"

definition read_float :: "line \<Rightarrow> nat \<Rightarrow> (f32 \<times> nat) option" where
  "read_float line char_counter =
     (let c = char_at line char_counter;
          isnegative = (c = ch CHR ''-'');
          ptr = (if c = ch CHR ''-'' \<or> c = ch CHR ''+'' then char_counter + 1 else char_counter);
          (s, ptr) = read_digits line ptr \<lparr>intval = 0, expo = 0, ndigit = 0, isdecimal = False\<rparr>
      in if ndigit s = 0 then None
         else
           let fval = f32_of_int (uint (intval s));
               fval = (if f32_eq fval 0 then fval else scale_exp (sint (expo s)) fval)
           in Some (if isnegative then f32_neg fval else fval, unat (of_nat ptr :: u8)))"

section \<open>Vector helpers\<close>

definition hypot_f :: "f32 \<Rightarrow> f32 \<Rightarrow> f32" where
  "hypot_f x y = f32_sqrt (f32_add (f32_mul x x) (f32_mul y y))"

text \<open>The sum skips zero components; the inverse is a double division narrowed to \<open>float\<close>.\<close>

definition convert_delta_vector_to_unit_vector :: "f32 list \<Rightarrow> f32 \<times> f32 list" where
  "convert_delta_vector_to_unit_vector vector =
     (let magnitude = fold (\<lambda>v acc. if f32_eq v 0 then acc else f32_add acc (f32_mul v v)) vector 0;
          magnitude = f32_sqrt magnitude;
          inv_magnitude = f32_of_f64 (f64_div (f64_of_rat 1) (f64_of_f32 magnitude))
      in (magnitude, map (\<lambda>v. f32_mul v inv_magnitude) vector))"

definition SOME_LARGE_VALUE :: f32 where
  "SOME_LARGE_VALUE = 0x7E967699" \<comment> \<open>\<open>1.0E+38\<close> as a \<open>float\<close>\<close>

definition limit_value_by_axis_maximum :: "f32 list \<Rightarrow> f32 list \<Rightarrow> f32" where
  "limit_value_by_axis_maximum max_value unit_vec =
     fold (\<lambda>(mx, u) limit_value.
       if f32_eq u 0 then limit_value
       else let q = f64_abs (f64_of_f32 (f32_div mx u));
                l = f64_of_f32 limit_value
            in f32_of_f64 (if f64_lt q l then q else l))
       (zip max_value unit_vec) SOME_LARGE_VALUE"

lemma SOME_LARGE_VALUE_rat: "SOME_LARGE_VALUE = f32_of_rat (10 ^ 38)"
  by code_simp

section \<open>What the digit loop reads\<close>

text \<open>The value of a run of digits (as numbers 0 to 9), and the digits of a run of characters.\<close>

definition dec_value :: "u8 list \<Rightarrow> nat" where
  "dec_value ds = foldl (\<lambda>a d. 10 * a + unat d) 0 ds"

definition is_digit :: "u8 \<Rightarrow> bool" where
  "is_digit c \<longleftrightarrow> c - 48 \<le> 9"

definition digits_of :: "u8 list \<Rightarrow> u8 list" where
  "digits_of cs = map (\<lambda>c. c - 48) cs"

lemma dec_value_snoc [simp]: "dec_value (ds @ [d]) = 10 * dec_value ds + unat d"
  by (simp add: dec_value_def)

lemma dec_value_Nil [simp]: "dec_value [] = 0"
  by (simp add: dec_value_def)

lemma dec_value_bound: "\<forall>d\<in>set ds. d \<le> 9 \<Longrightarrow> dec_value ds < 10 ^ length ds"
proof (induction ds rule: rev_induct)
  case (snoc d ds)
  then have "unat d \<le> 9" "dec_value ds < 10 ^ length ds"
    by (auto simp: word_le_nat_alt)
  then show ?case by (simp add: algebra_simps)
qed simp

lemma char_at_append [simp]:
  "char_at (xs @ ys) (length xs) = char_at ys 0"
  "char_at (x # xs) 0 = x"
  "char_at (x # xs) (Suc i) = char_at xs i"
  by (auto simp: char_at_def nth_append)

lemma read_digits_digits:
  "\<forall>c\<in>set cs. is_digit c \<Longrightarrow>
   read_digits (pre @ cs @ rest) (length pre) s =
     read_digits (pre @ cs @ rest) (length pre + length cs) (fold take_digit (digits_of cs) s)"
proof (induction cs arbitrary: pre s)
  case Nil
  then show ?case by (simp add: digits_of_def)
next
  case (Cons c cs)
  from Cons.prems have c: "c - 48 \<le> 9" by (simp add: is_digit_def)
  have "read_digits (pre @ (c # cs) @ rest) (length pre) s =
      read_digits ((pre @ [c]) @ cs @ rest) (length (pre @ [c])) (take_digit (c - 48) s)"
    by (subst read_digits.simps) (simp add: Let_def c)
  also have "\<dots> = read_digits ((pre @ [c]) @ cs @ rest) (length (pre @ [c]) + length cs)
      (fold take_digit (digits_of cs) (take_digit (c - 48) s))"
    using Cons.prems by (intro Cons.IH) simp
  finally show ?case by (simp add: digits_of_def)
qed

lemma read_digits_stop:
  "\<not> is_digit (char_at line ptr) \<Longrightarrow> char_at line ptr \<noteq> 46 \<Longrightarrow> read_digits line ptr s = (s, ptr)"
  by (subst read_digits.simps) (auto simp: is_digit_def Let_def diff_eq_eq)

lemma read_digits_point:
  "char_at line ptr = 46 \<Longrightarrow> \<not> isdecimal s \<Longrightarrow>
   read_digits line ptr s = read_digits line (ptr + 1) (s\<lparr>isdecimal := True\<rparr>)"
  by (subst read_digits.simps) (simp add: Let_def)

lemma take_digit_short:
  assumes "d \<le> 9" "unat (ndigit s) < 8" "unat (intval s) < 10 ^ unat (ndigit s)"
  shows "unat (intval (take_digit d s)) = 10 * unat (intval s) + unat d"
    and "unat (ndigit (take_digit d s)) = unat (ndigit s) + 1"
    and "isdecimal (take_digit d s) = isdecimal s"
    and "expo (take_digit d s) = (if isdecimal s then expo s - 1 else expo s)"
proof -
  have n: "unat (ndigit s + 1) = unat (ndigit s) + 1"
    using assms(2) by (simp add: unat_word_ariths)
  then have le: "ndigit s + 1 \<le> 8"
    using assms(2) by (simp add: word_le_nat_alt)
  have "(10::nat) ^ unat (ndigit s) \<le> 10 ^ 7"
    using assms(2) by (intro power_increasing) auto
  then have b: "unat (intval s) < 10 ^ 7" using assms(3) by linarith
  have d: "unat d \<le> 9" using assms(1) by (simp add: word_le_nat_alt)
  have u: "unat (ucast d :: u32) = unat d"
    using d by (simp add: unsigned_ucast_eq take_bit_nat_eq_self)
  have "push_bit 1 (push_bit 2 (intval s) + intval s) + ucast d = 10 * intval s + ucast d"
    by (simp add: push_bit_eq_mult algebra_simps)
  moreover have "unat (10 * intval s + ucast d) = 10 * unat (intval s) + unat d"
    using b d u by (simp add: unat_word_ariths)
  ultimately show "unat (intval (take_digit d s)) = 10 * unat (intval s) + unat d"
    using le by (simp add: take_digit_def Let_def MAX_INT_DIGITS_def)
  show "unat (ndigit (take_digit d s)) = unat (ndigit s) + 1"
    using n by (simp add: take_digit_def Let_def)
  show "isdecimal (take_digit d s) = isdecimal s"
    by (simp add: take_digit_def Let_def)
  show "expo (take_digit d s) = (if isdecimal s then expo s - 1 else expo s)"
    using le by (simp add: take_digit_def Let_def MAX_INT_DIGITS_def)
qed

text \<open>Up to eight digits the loop computes the value of the numeral and counts the digits after
  the point; nothing overflows.\<close>

lemma fold_take_digit:
  assumes "\<forall>d\<in>set ds. d \<le> 9" "unat (ndigit s) + length ds \<le> 8"
    and "unat (intval s) < 10 ^ unat (ndigit s)"
  shows "unat (intval (fold take_digit ds s)) = unat (intval s) * 10 ^ length ds + dec_value ds
    \<and> unat (ndigit (fold take_digit ds s)) = unat (ndigit s) + length ds
    \<and> isdecimal (fold take_digit ds s) = isdecimal s
    \<and> expo (fold take_digit ds s) = (if isdecimal s then expo s - of_nat (length ds) else expo s)"
  using assms
proof (induction ds rule: rev_induct)
  case Nil
  then show ?case by simp
next
  case (snoc d ds)
  let ?t = "fold take_digit ds s"
  have IH: "unat (intval ?t) = unat (intval s) * 10 ^ length ds + dec_value ds"
      "unat (ndigit ?t) = unat (ndigit s) + length ds" "isdecimal ?t = isdecimal s"
      "expo ?t = (if isdecimal s then expo s - of_nat (length ds) else expo s)"
    using snoc by auto
  have "dec_value ds < 10 ^ length ds" using snoc.prems by (intro dec_value_bound) auto
  moreover have "unat (intval s) + 1 \<le> 10 ^ unat (ndigit s)" using snoc.prems by simp
  then have "(unat (intval s) + 1) * 10 ^ length ds \<le> 10 ^ unat (ndigit s) * 10 ^ length ds"
    by (rule mult_right_mono) simp
  ultimately have b: "unat (intval ?t) < 10 ^ unat (ndigit ?t)"
    using IH(1,2) by (simp add: algebra_simps power_add)
  have "unat (ndigit ?t) < 8" "d \<le> 9" using snoc.prems IH(2) by auto
  note step = take_digit_short [OF \<open>d \<le> 9\<close> this(1) b]
  show ?case using IH step by (auto simp: algebra_simps)
qed

section \<open>Where the digit loop stops\<close>

text \<open>The loop only moves forward, stays on the line, counts at least the digits it passes, and
  stops at a character that is not a digit.\<close>

lemma ndigit_take_digit [simp]: "ndigit (take_digit d s) = ndigit s + 1"
  by (simp add: take_digit_def Let_def)

lemma char_at_past [simp]: "length line \<le> i \<Longrightarrow> char_at line i = 0"
  by (simp add: char_at_def)

lemma zero_not_digit [simp]: "\<not> is_digit 0"
  by (simp add: is_digit_def)

lemma read_digits_run:
  assumes "unat (ndigit s) + (length line - ptr) < 256"
    and "read_digits line ptr s = (s', ptr')"
  shows "ptr \<le> ptr' \<and> (ptr' = ptr \<or> ptr' \<le> length line) \<and> \<not> is_digit (char_at line ptr')
    \<and> unat (ndigit s) \<le> unat (ndigit s')
    \<and> (is_digit (char_at line ptr) \<longrightarrow> unat (ndigit s) < unat (ndigit s') \<and> ptr < ptr')"
  using assms
proof (induction line ptr s rule: read_digits.induct)
  case (1 line ptr s)
  let ?c = "char_at line ptr - 48"
  consider (digit) "?c \<le> 9" | (point) "\<not> ?c \<le> 9" "?c = 46 - 48" "\<not> isdecimal s"
    | (stop) "\<not> ?c \<le> 9" "?c = 46 - 48 \<longrightarrow> isdecimal s" by blast
  then show ?case
  proof cases
    case digit
    then have p: "ptr < length line"
      by (metis char_at_past is_digit_def linorder_not_le zero_not_digit)
    then have n: "unat (ndigit s + 1) = unat (ndigit s) + 1"
      using "1.prems"(1) by (simp add: unat_word_ariths)
    have r: "read_digits line (ptr + 1) (take_digit ?c s) = (s', ptr')"
      using "1.prems"(2) digit by (subst (asm) read_digits.simps) (simp add: Let_def)
    have "unat (ndigit (take_digit ?c s)) + (length line - (ptr + 1)) < 256"
      using p n "1.prems"(1) by simp
    from "1.IH"(1) [OF refl digit this r] show ?thesis using p n by auto
  next
    case point
    then have "char_at line ptr \<noteq> 0" by auto
    then have p: "ptr < length line" by (metis char_at_past linorder_not_le)
    have r: "read_digits line (ptr + 1) (s\<lparr>isdecimal := True\<rparr>) = (s', ptr')"
      using "1.prems"(2) point by (subst (asm) read_digits.simps) (simp add: Let_def)
    have "unat (ndigit (s\<lparr>isdecimal := True\<rparr>)) + (length line - (ptr + 1)) < 256"
      using "1.prems"(1) by simp
    from "1.IH"(2) [OF refl point(1) _ this r] point p show ?thesis
      by (auto simp: is_digit_def)
  next
    case stop
    then have "(s', ptr') = (s, ptr)"
      using "1.prems"(2) by (subst (asm) read_digits.simps) (auto simp: Let_def)
    then show ?thesis using stop by (simp add: is_digit_def)
  qed
qed

text \<open>A run that starts at a character that is neither a digit nor the point counts nothing.\<close>

lemma read_digits_none:
  assumes "\<not> is_digit (char_at line ptr)" "char_at line ptr = 46 \<Longrightarrow> \<not> is_digit (char_at line (ptr + 1))"
    and "\<not> isdecimal s"
  shows "ndigit (fst (read_digits line ptr s)) = ndigit s"
proof (cases "char_at line ptr = 46")
  case True
  with assms have d: "\<not> is_digit (char_at line (ptr + 1))" by simp
  have "fst (read_digits line (ptr + 1) (s\<lparr>isdecimal := True\<rparr>)) = s\<lparr>isdecimal := True\<rparr>"
    using d by (subst read_digits.simps) (simp add: Let_def is_digit_def)
  then show ?thesis using True assms by (simp add: read_digits_point)
qed (use assms in \<open>simp add: read_digits_stop\<close>)

section \<open>The results of \<open>read_float\<close>\<close>

text \<open>Where the number proper starts: after the optional sign.\<close>

definition after_sign :: "line \<Rightarrow> nat \<Rightarrow> nat" where
  "after_sign line i = (if char_at line i = 45 \<or> char_at line i = 43 then i + 1 else i)"

definition has_number :: "line \<Rightarrow> nat \<Rightarrow> bool" where
  "has_number line i = (let p = after_sign line i in
     is_digit (char_at line p) \<or> char_at line p = 46 \<and> is_digit (char_at line (p + 1)))"

abbreviation digits0 :: digits_t where
  "digits0 \<equiv> \<lparr>intval = 0, expo = 0, ndigit = 0, isdecimal = False\<rparr>"

lemma read_digits_run0:
  assumes "length line < 256" "ndigit s = 0" "read_digits line ptr s = (s', ptr')"
  shows "ptr \<le> ptr' \<and> (ptr' = ptr \<or> ptr' \<le> length line) \<and> \<not> is_digit (char_at line ptr')
    \<and> (is_digit (char_at line ptr) \<longrightarrow> ndigit s' \<noteq> 0 \<and> ptr < ptr')"
proof -
  have "unat (ndigit s) + (length line - ptr) < 256" using assms by simp
  from read_digits_run [OF this assms(3)] show ?thesis using assms(2) by auto
qed

lemma ndigit_pos_iff:
  assumes "length line < 256"
  shows "ndigit (fst (read_digits line p digits0)) \<noteq> 0 \<longleftrightarrow>
    is_digit (char_at line p) \<or> char_at line p = 46 \<and> is_digit (char_at line (p + 1))"
proof -
  obtain s' p' where r: "read_digits line p digits0 = (s', p')" by fastforce
  have a: "is_digit (char_at line p) \<Longrightarrow> ndigit s' \<noteq> 0"
    using read_digits_run0 [OF assms _ r] by auto
  have b: "ndigit s' \<noteq> 0" if h: "char_at line p = 46" "is_digit (char_at line (p + 1))"
  proof -
    have "read_digits line (p + 1) (digits0\<lparr>isdecimal := True\<rparr>) = (s', p')"
      using r h(1) by (simp add: read_digits_point)
    from read_digits_run0 [OF assms _ this] h(2) show ?thesis by auto
  qed
  show ?thesis using a b r read_digits_none [of line p digits0] by auto
qed

lemma le_after_sign: "i \<le> after_sign line i"
  by (auto simp: after_sign_def)

lemma read_float_unfold:
  "read_float line i =
     (case read_digits line (after_sign line i) digits0 of (s, p) \<Rightarrow>
       if ndigit s = 0 then None
       else let x = f32_of_int (uint (intval s));
                x = (if f32_eq x 0 then x else scale_exp (sint (expo s)) x)
            in Some (if char_at line i = 45 then f32_neg x else x, unat (of_nat p :: u8)))"
  by (simp add: read_float_def after_sign_def Let_def split: prod.split)

lemma read_float_None_iff:
  assumes "length line < 256"
  shows "read_float line i = None \<longleftrightarrow> \<not> has_number line i"
  using ndigit_pos_iff [OF assms, of "after_sign line i"]
  by (auto simp: read_float_unfold has_number_def Let_def split: prod.splits)

lemma read_float_progress:
  assumes "length line < 256" "read_float line i = Some (x, j)"
  shows "i < j \<and> j \<le> length line \<and> \<not> is_digit (char_at line j)"
proof -
  let ?p = "after_sign line i"
  obtain s p' where r: "read_digits line ?p digits0 = (s, p')" by fastforce
  with assms(2) have n: "ndigit s \<noteq> 0" and j: "j = unat (of_nat p' :: u8)"
    by (auto simp: read_float_unfold Let_def split: if_splits)
  have run: "?p \<le> p' \<and> (p' = ?p \<or> p' \<le> length line) \<and> \<not> is_digit (char_at line p')"
    using read_digits_run0 [OF assms(1) _ r] by auto
  have lt: "?p < p'"
  proof (rule ccontr)
    assume "\<not> ?p < p'"
    with run have "p' = ?p" by simp
    moreover from n have "is_digit (char_at line ?p) \<or> char_at line ?p = 46"
      using ndigit_pos_iff [OF assms(1), of ?p] r by auto
    ultimately show False
    proof (elim disjE)
      assume "is_digit (char_at line ?p)"
      then show False using run \<open>p' = ?p\<close> by simp
    next
      assume c: "char_at line ?p = 46"
      then have "read_digits line (?p + 1) (digits0\<lparr>isdecimal := True\<rparr>) = (s, p')"
        using r by (simp add: read_digits_point)
      from read_digits_run0 [OF assms(1) _ this] \<open>p' = ?p\<close> show False by simp
    qed
  qed
  with run assms(1) have "p' \<le> length line" "p' < 256" by auto
  with run lt j le_after_sign [of i line] show ?thesis
    by (auto simp: unat_of_nat)
qed

text \<open>A decimal numeral of at most eight digits is read to its end, with its digits as an
  integer converted once to \<open>float\<close> and then scaled by the number of digits after the point.\<close>

definition decimal_float :: "nat \<Rightarrow> nat \<Rightarrow> f32" where
  "decimal_float n k = (let x = f32_of_int (int n) in if f32_eq x 0 then x else scale_exp (- int k) x)"

lemma sint_neg_small:
  assumes "k \<le> 8"
  shows "sint (- of_nat k :: 8 word) = - int k"
proof -
  have "k \<in> {0, 1, 2, 3, 4, 5, 6, 7, 8}" using assms by auto
  then show ?thesis by auto
qed

lemma read_float_decimal_digits:
  assumes "set sg \<subseteq> {43, 45}" "length sg \<le> 1"
    and "\<forall>c\<in>set (ip @ fp). is_digit c" "ip @ fp \<noteq> []" "length ip + length fp \<le> 8"
    and "rest \<noteq> []" "\<not> is_digit (hd rest)" "hd rest \<noteq> 46"
    and "pt = [46] \<or> pt = [] \<and> fp = []"
    and "length (pre @ sg @ ip @ pt @ fp) < 256"
  shows "read_float (pre @ sg @ ip @ pt @ fp @ rest) (length pre) =
    Some (let x = decimal_float (dec_value (digits_of (ip @ fp))) (length fp)
          in if sg = [45] then f32_neg x else x, length (pre @ sg @ ip @ pt @ fp))"
proof -
  let ?line = "pre @ sg @ ip @ pt @ fp @ rest"
  let ?d = "digits_of (ip @ fp)"
  have hd_tail: "hd (ip @ pt @ fp @ rest) \<noteq> 45 \<and> hd (ip @ pt @ fp @ rest) \<noteq> 43"
    using assms(3,4,9) by (cases ip) (auto simp: is_digit_def)
  have sgn: "after_sign ?line (length pre) = length (pre @ sg)"
    "char_at ?line (length pre) = 45 \<longleftrightarrow> sg = [45]"
    using assms(1,2,4,9) hd_tail by (cases sg; cases ip; auto simp: after_sign_def)+
  let ?s1 = "fold take_digit (digits_of ip) digits0"
  let ?s2 = "if pt = [] then ?s1 else ?s1\<lparr>isdecimal := True\<rparr>"
  let ?s3 = "fold take_digit (digits_of fp) ?s2"
  have le9: "\<forall>d\<in>set (digits_of xs). d \<le> 9" if "\<forall>c\<in>set xs. is_digit c" for xs
    using that by (auto simp: digits_of_def is_digit_def)
  have s1: "unat (intval ?s1) = dec_value (digits_of ip)" "unat (ndigit ?s1) = length ip"
      "\<not> isdecimal ?s1" "expo ?s1 = 0"
    using fold_take_digit [of "digits_of ip" digits0] le9 [of ip] assms(3,5)
    by (auto simp: digits_of_def)
  have "unat (intval ?s1) < 10 ^ length ip"
    using dec_value_bound [of "digits_of ip"] le9 [of ip] assms(3) s1(1) by (simp add: digits_of_def)
  then have s3: "unat (intval ?s3) = dec_value (digits_of ip) * 10 ^ length fp + dec_value (digits_of fp)"
      "unat (ndigit ?s3) = length ip + length fp" "expo ?s3 = - of_nat (length fp)"
    using fold_take_digit [of "digits_of fp" ?s2] le9 [of fp] assms(3,5,9) s1
    by (auto simp: digits_of_def)
  have val: "dec_value (a @ b) = dec_value a * 10 ^ length b + dec_value b" for a b
    by (induction b rule: rev_induct) (simp_all flip: append_assoc add: algebra_simps)
  have stop: "read_digits ?line (length (pre @ sg @ ip @ pt @ fp)) ?s3 =
      (?s3, length (pre @ sg @ ip @ pt @ fp))"
    using assms(6-8) char_at_append(1) [of "pre @ sg @ ip @ pt @ fp" rest]
    by (intro read_digits_stop) (auto simp: neq_Nil_conv)
  have "read_digits ?line (length (pre @ sg)) digits0 =
      read_digits ?line (length (pre @ sg @ ip)) ?s1"
    using read_digits_digits [of ip "pre @ sg" "pt @ fp @ rest" digits0] assms(3)
    by (simp add: add.assoc)
  also have "\<dots> = read_digits ?line (length (pre @ sg @ ip @ pt)) ?s2"
    using assms(9) s1(3) char_at_append(1) [of "pre @ sg @ ip" "pt @ fp @ rest"]
    by (auto simp: read_digits_point add.assoc)
  also have "\<dots> = read_digits ?line (length (pre @ sg @ ip @ pt @ fp)) ?s3"
    using read_digits_digits [of fp "pre @ sg @ ip @ pt" rest ?s2] assms(3)
    by (simp add: add.assoc)
  finally have run: "read_digits ?line (after_sign ?line (length pre)) digits0 =
      (?s3, length (pre @ sg @ ip @ pt @ fp))"
    using stop sgn(1) by simp
  have "ndigit ?s3 \<noteq> 0" using s3(2) assms(4) by auto
  moreover have "uint (intval ?s3) = int (dec_value ?d)"
    unfolding uint_nat s3(1) by (simp add: digits_of_def val)
  moreover have "sint (expo ?s3) = - int (length fp)"
    using s3(3) assms(5) sint_neg_small [of "length fp"] by simp
  moreover have "unat (of_nat (length (pre @ sg @ ip @ pt @ fp)) :: u8) = length (pre @ sg @ ip @ pt @ fp)"
    using assms(10) by (simp add: unat_of_nat del: length_append of_nat_add)
  ultimately show ?thesis
    using sgn(2) by (simp add: read_float_unfold run decimal_float_def Let_def)
qed

end
