(* ===== verification/Eeprom.thy ===== *)
theory Eeprom
  imports Machine
begin

text \<open>
  \<^verbatim>\<open>eeprom.cpp\<close>: the block copies with a checksum. The \<^verbatim>\<open>EEPROM\<close> object is a library; what the
  copies rely on is the interface \<open>byte_store\<close> below: a byte written at an address of the store
  is read back, the other addresses keep their bytes, and \<^verbatim>\<open>commit\<close> changes no byte. The copies
  take the store's operations as arguments; the machine's store of 2048 bytes is one provider.
  The lemmas show that a block written is read back with a matching checksum, that addresses
  outside it are untouched, and what the checksum does and does not detect.
\<close>

section \<open>The checksum\<close>

text \<open>\<^verbatim>\<open>(checksum << 1) || (checksum >> 7)\<close>: the shift is computed in \<open>int\<close>, and the logical or
  yields 0 or 1.\<close>

definition checksum_rotate :: "u8 \<Rightarrow> u8" where
  "checksum_rotate c =
     (if (push_bit 1 (ucast c) :: i32) \<noteq> 0 \<or> (drop_bit 7 (ucast c) :: i32) \<noteq> 0 then 1 else 0)"

definition checksum_step :: "u8 \<Rightarrow> u8 \<Rightarrow> u8" where
  "checksum_step c d = checksum_rotate c + d"

definition checksum :: "u8 list \<Rightarrow> u8" where
  "checksum bs = foldl checksum_step 0 bs"

section \<open>The block copies\<close>

fun memcpy_to_loop :: "(nat \<Rightarrow> u8 \<Rightarrow> 's \<Rightarrow> 's) \<Rightarrow> nat \<Rightarrow> u8 list \<Rightarrow> u8 \<Rightarrow> 's \<Rightarrow> 's" where
  "memcpy_to_loop wr dest [] c s = wr dest c s"
| "memcpy_to_loop wr dest (b # bs) c s = memcpy_to_loop wr (dest + 1) bs (checksum_step c b) (wr dest b s)"

definition memcpy_to_eeprom_with_checksum ::
    "(nat \<Rightarrow> u8 \<Rightarrow> 's \<Rightarrow> 's) \<Rightarrow> ('s \<Rightarrow> 's) \<Rightarrow> nat \<Rightarrow> u8 list \<Rightarrow> 's \<Rightarrow> 's" where
  "memcpy_to_eeprom_with_checksum wr commit destination source s =
     commit (memcpy_to_loop wr destination source 0 s)"

fun memcpy_from_loop :: "('s \<Rightarrow> nat \<Rightarrow> u8) \<Rightarrow> nat \<Rightarrow> nat \<Rightarrow> u8 \<Rightarrow> 's \<Rightarrow> u8 list \<times> bool" where
  "memcpy_from_loop rd source 0 c s = ([], c = rd s source)"
| "memcpy_from_loop rd source (Suc n) c s =
     (let d = rd s source; (ds, ok) = memcpy_from_loop rd (source + 1) n (checksum_step c d) s
      in (d # ds, ok))"

definition memcpy_from_eeprom_with_checksum ::
    "('s \<Rightarrow> nat \<Rightarrow> u8) \<Rightarrow> nat \<Rightarrow> nat \<Rightarrow> 's \<Rightarrow> u8 list \<times> bool" where
  "memcpy_from_eeprom_with_checksum rd source n s = memcpy_from_loop rd source n 0 s"

section \<open>Facts about the checksum\<close>

lemma push_bit_1_ucast_zero: "(push_bit 1 (ucast c) :: i32) = 0 \<longleftrightarrow> (c :: u8) = 0"
proof
  assume a: "(push_bit 1 (ucast c) :: i32) = 0"
  have "unat (push_bit 1 (ucast c) :: i32) = 2 * unat c"
    using unsigned_less [of c, where 'a = nat]
    by (simp add: push_bit_eq_mult unat_word_ariths unsigned_ucast_eq take_bit_nat_eq_self)
  with a have "unat c = 0" by simp
  then show "c = 0" by (simp add: unsigned_eq_0_iff)
qed simp

lemma checksum_rotate_eq: "checksum_rotate c = (if c = 0 then 0 else 1)"
  using push_bit_1_ucast_zero [of c] by (cases "c = 0") (simp_all add: checksum_rotate_def)

lemma checksum_Nil [simp]: "checksum [] = 0"
  by (simp add: checksum_def)

lemma checksum_snoc [simp]: "checksum (bs @ [b]) = (if checksum bs = 0 then b else b + 1)"
  by (simp add: checksum_def checksum_step_def checksum_rotate_eq)

text \<open>The checksum keeps of all bytes before the last one whether their checksum is zero.\<close>

lemma checksum_snoc_eq_iff:
  "checksum (xs @ [a]) = checksum (ys @ [a]) \<longleftrightarrow> (checksum xs = 0 \<longleftrightarrow> checksum ys = 0)"
  by (auto simp: add.commute)

lemma checksum_last_byte:
  "a \<noteq> b \<Longrightarrow> checksum (xs @ [a]) \<noteq> checksum (xs @ [b])"
  by simp

lemma checksum_replicate_zero: "checksum (replicate n 0) = 0"
  by (induction n) (simp_all add: checksum_def checksum_step_def checksum_rotate_eq)

section \<open>The interface of the byte store\<close>

locale byte_store =
  fixes rd :: "'s \<Rightarrow> nat \<Rightarrow> u8"
    and wr :: "nat \<Rightarrow> u8 \<Rightarrow> 's \<Rightarrow> 's"
    and commit :: "'s \<Rightarrow> 's"
    and bytes :: "'s \<Rightarrow> nat"
  assumes rd_wr_same: "a < bytes s \<Longrightarrow> rd (wr a v s) a = v"
    and rd_wr_other: "a \<noteq> b \<Longrightarrow> rd (wr a v s) b = rd s b"
    and bytes_wr: "bytes (wr a v s) = bytes s"
    and rd_commit: "rd (commit s) a = rd s a"
    and bytes_commit: "bytes (commit s) = bytes s"
begin

lemma bytes_to_loop: "bytes (memcpy_to_loop wr a bs c s) = bytes s"
  by (induction bs arbitrary: a c s) (simp_all add: bytes_wr)

lemma to_loop_other:
  "b < a \<or> a + length bs < b \<Longrightarrow> rd (memcpy_to_loop wr a bs c s) b = rd s b"
  by (induction bs arbitrary: a c s) (auto simp: rd_wr_other)

lemma to_loop_byte:
  "a + length bs < bytes s \<Longrightarrow> i < length bs \<Longrightarrow> rd (memcpy_to_loop wr a bs c s) (a + i) = bs ! i"
proof (induction bs arbitrary: a c s i)
  case (Cons b bs)
  show ?case
  proof (cases i)
    case 0
    then show ?thesis using Cons.prems by (simp add: to_loop_other rd_wr_same)
  next
    case (Suc j)
    then show ?thesis
      using Cons.IH [of "a + 1" "wr a b s" j] Cons.prems by (simp add: bytes_wr)
  qed
qed simp

lemma to_loop_checksum:
  "a + length bs < bytes s \<Longrightarrow>
   rd (memcpy_to_loop wr a bs c s) (a + length bs) = foldl checksum_step c bs"
proof (induction bs arbitrary: a c s)
  case (Cons b bs)
  then show ?case
    using Cons.IH [of "a + 1" "wr a b s" "checksum_step c b"] by (simp add: bytes_wr)
qed (simp add: rd_wr_same)

lemma from_loop_data: "fst (memcpy_from_loop rd a n c s) = map (rd s) [a..<a + n]"
  by (induction n arbitrary: a c) (simp_all add: Let_def case_prod_beta upt_conv_Cons del: upt_Suc)

lemma from_loop_ok:
  "snd (memcpy_from_loop rd a n c s) \<longleftrightarrow> foldl checksum_step c (map (rd s) [a..<a + n]) = rd s (a + n)"
  by (induction n arbitrary: a c) (simp_all add: Let_def case_prod_beta upt_conv_Cons del: upt_Suc)

lemma from_eeprom:
  "memcpy_from_eeprom_with_checksum rd a n s =
     (let bs = map (rd s) [a..<a + n] in (bs, checksum bs = rd s (a + n)))"
  using from_loop_data [of a n 0 s] from_loop_ok [of a n 0 s]
  by (simp add: memcpy_from_eeprom_with_checksum_def Let_def checksum_def prod_eq_iff)

lemma bytes_to_eeprom: "bytes (memcpy_to_eeprom_with_checksum wr commit a bs s) = bytes s"
  by (simp add: memcpy_to_eeprom_with_checksum_def bytes_commit bytes_to_loop)

lemma rd_to_eeprom:
  assumes "a + length bs < bytes s"
  shows "map (rd (memcpy_to_eeprom_with_checksum wr commit a bs s)) [a..<a + length bs] = bs"
    and "rd (memcpy_to_eeprom_with_checksum wr commit a bs s) (a + length bs) = checksum bs"
  using assms
  by (auto intro: nth_equalityI simp: memcpy_to_eeprom_with_checksum_def rd_commit to_loop_byte
        to_loop_checksum checksum_def)

lemma rd_to_eeprom_other:
  "b < a \<or> a + length bs < b \<Longrightarrow> rd (memcpy_to_eeprom_with_checksum wr commit a bs s) b = rd s b"
  by (simp add: memcpy_to_eeprom_with_checksum_def rd_commit to_loop_other)

lemma round_trip:
  assumes "a + length bs < bytes s"
  shows "memcpy_from_eeprom_with_checksum rd a (length bs)
           (memcpy_to_eeprom_with_checksum wr commit a bs s) = (bs, True)"
  using rd_to_eeprom [OF assms] by (simp add: from_eeprom Let_def)

lemma write_elsewhere:
  assumes "b + n < a \<or> a + length bs < b"
  shows "memcpy_from_eeprom_with_checksum rd b n (memcpy_to_eeprom_with_checksum wr commit a bs s) =
    memcpy_from_eeprom_with_checksum rd b n s"
proof -
  have "rd (memcpy_to_eeprom_with_checksum wr commit a bs s) x = rd s x" if "b \<le> x" "x \<le> b + n" for x
    using that assms by (auto simp: memcpy_to_eeprom_with_checksum_def rd_commit to_loop_other)
  then have eq: "map (rd (memcpy_to_eeprom_with_checksum wr commit a bs s)) [b..<b + n] = map (rd s) [b..<b + n]"
    and "rd (memcpy_to_eeprom_with_checksum wr commit a bs s) (b + n) = rd s (b + n)"
    by auto
  then show ?thesis unfolding from_eeprom Let_def eq by simp
qed

end

section \<open>The machine's store\<close>

text \<open>\<^verbatim>\<open>EEPROM.begin(2048)\<close> makes a store of 2048 bytes; the library ignores a write past its end
  and reads 0 there.\<close>

definition eeprom_get_char :: "machine \<Rightarrow> nat \<Rightarrow> u8" where
  "eeprom_get_char m addr = (if addr < length (eeprom m) then eeprom m ! addr else 0)"

definition eeprom_put_char :: "nat \<Rightarrow> u8 \<Rightarrow> machine \<Rightarrow> machine" where
  "eeprom_put_char addr new_value m = m\<lparr>eeprom := (eeprom m)[addr := new_value]\<rparr>"

definition eeprom_commit :: "machine \<Rightarrow> machine" where
  "eeprom_commit m = m\<lparr>eeprom_commits := eeprom_commits m + 1\<rparr>"

interpretation ee: byte_store eeprom_get_char eeprom_put_char eeprom_commit "\<lambda>m. length (eeprom m)"
  by unfold_locales (auto simp: eeprom_get_char_def eeprom_put_char_def eeprom_commit_def)

abbreviation memcpy_to_eeprom :: "nat \<Rightarrow> u8 list \<Rightarrow> machine \<Rightarrow> machine" where
  "memcpy_to_eeprom \<equiv> memcpy_to_eeprom_with_checksum eeprom_put_char eeprom_commit"

abbreviation memcpy_from_eeprom :: "nat \<Rightarrow> nat \<Rightarrow> machine \<Rightarrow> u8 list \<times> bool" where
  "memcpy_from_eeprom \<equiv> memcpy_from_eeprom_with_checksum eeprom_get_char"

text \<open>Only the store and the commit counter change.\<close>

lemma memcpy_to_loop_frame:
  "\<exists>e. memcpy_to_loop eeprom_put_char a bs c m = m\<lparr>eeprom := e\<rparr>"
proof (induction bs arbitrary: a c m)
  case (Cons b bs)
  from Cons [of "a + 1" "checksum_step c b" "eeprom_put_char a b m"] show ?case
    by (auto simp: eeprom_put_char_def)
qed (auto simp: eeprom_put_char_def)

lemma memcpy_to_eeprom_fields [simp]:
  "settings (memcpy_to_eeprom a bs m) = settings m" "sys (memcpy_to_eeprom a bs m) = sys m"
  "gc_state (memcpy_to_eeprom a bs m) = gc_state m" "length (eeprom (memcpy_to_eeprom a bs m)) = length (eeprom m)"
  "settings (eeprom_put_char a v m) = settings m" "length (eeprom (eeprom_put_char a v m)) = length (eeprom m)"
  "sys (eeprom_put_char a v m) = sys m" "gc_state (eeprom_put_char a v m) = gc_state m"
  using memcpy_to_loop_frame [of a bs 0 m] ee.bytes_to_eeprom [of a bs m]
  by (auto simp: memcpy_to_eeprom_with_checksum_def eeprom_commit_def eeprom_put_char_def)

lemma memcpy_to_eeprom_frame:
  "\<exists>e. memcpy_to_eeprom a bs m = m\<lparr>eeprom := e, eeprom_commits := eeprom_commits m + 1\<rparr>"
  using memcpy_to_loop_frame [of a bs 0 m]
  by (auto simp: memcpy_to_eeprom_with_checksum_def eeprom_commit_def)

end
