(* ===== verification/Ports.thy ===== *)
theory Ports
  imports Eeprom
begin

text \<open>
  The output drivers: \<^verbatim>\<open>spindle_control.cpp\<close>, \<^verbatim>\<open>coolant_control.cpp\<close> and \<^verbatim>\<open>probe.cpp\<close>, but for
  \<^verbatim>\<open>spindle_sync\<close> and \<^verbatim>\<open>coolant_sync\<close>, which wait for the planner and are in \<open>Sync\<close>. In this
  configuration the register writes of the spindle driver are commented out, so \<^verbatim>\<open>spindle_stop\<close>
  and \<^verbatim>\<open>spindle_set_speed\<close> do nothing, and the PWM value is computed from the overridden speed.
\<close>

section \<open>Spindle\<close>

definition spindle_stop :: "machine \<Rightarrow> machine" where
  "spindle_stop m = m"

definition spindle_init :: "machine \<Rightarrow> machine" where
  "spindle_init m =
     spindle_stop (m\<lparr>pwm_gradient :=
       f32_div (f32_of_int (uint (SPINDLE_PWM_MAX_VALUE - SPINDLE_PWM_MIN_VALUE)))
         (f32_sub (rpm_max (settings m)) (rpm_min (settings m)))\<rparr>)"

definition spindle_get_state :: "machine \<Rightarrow> u8" where
  "spindle_get_state m = SPINDLE_STATE_DISABLE"

definition spindle_set_speed :: "u8 \<Rightarrow> machine \<Rightarrow> machine" where
  "spindle_set_speed pwm_value m = m"

definition set_spindle_speed :: "f32 \<Rightarrow> machine \<Rightarrow> machine" where
  "set_spindle_speed v = upd_sys (\<lambda>s. s\<lparr>sys_spindle_speed := v\<rparr>)"

text \<open>\<^verbatim>\<open>rpm *= (0.010*sys.spindle_speed_ovr)\<close>: a double product, narrowed to \<open>float\<close>.\<close>

definition scale_by_override :: "u8 \<Rightarrow> f32 \<Rightarrow> f32" where
  "scale_by_override ovr rpm =
     f32_of_f64 (f64_mul (f64_of_f32 rpm)
       (f64_mul (f64_of_rat (1 / 100)) (f64_of_rat (of_nat (unat ovr)))))"

definition spindle_compute_pwm_value :: "f32 \<Rightarrow> machine \<Rightarrow> u8 \<times> machine" where
  "spindle_compute_pwm_value rpm m =
     (let rpm = scale_by_override (sys_spindle_speed_ovr (sys m)) rpm; s = settings m in
      if f32_le (rpm_max s) (rpm_min s) \<or> f32_le (rpm_max s) rpm then
        (SPINDLE_PWM_MAX_VALUE, set_spindle_speed (rpm_max s) m)
      else if f32_le rpm (rpm_min s) then
        (if f32_eq rpm 0 then (SPINDLE_PWM_OFF_VALUE, set_spindle_speed 0 m)
         else (SPINDLE_PWM_MIN_VALUE, set_spindle_speed (rpm_min s) m))
      else
        (to_u8 (map_option (\<lambda>k. k + uint SPINDLE_PWM_MIN_VALUE)
           (fpd_floor (f32_dec (f32_mul (f32_sub rpm (rpm_min s)) (pwm_gradient m))))),
         set_spindle_speed rpm m))"

definition spindle_set_state :: "u8 \<Rightarrow> f32 \<Rightarrow> machine \<Rightarrow> machine" where
  "spindle_set_state state rpm m =
     (if sys_abort (sys m) then m
      else
        let m = (if state = SPINDLE_DISABLE then spindle_stop (set_spindle_speed 0 m)
                 else
                   let rpm = (if flags (settings m) AND BITFLAG_LASER_MODE \<noteq> 0 \<and> state = SPINDLE_ENABLE_CCW
                              then 0 else rpm);
                       (pwm, m) = spindle_compute_pwm_value rpm m
                   in spindle_set_speed pwm m)
        in upd_sys (\<lambda>s. s\<lparr>sys_report_ovr_counter := 0\<rparr>) m)"

section \<open>Coolant\<close>

definition coolant_stop :: "machine \<Rightarrow> machine" where
  "coolant_stop m = m\<lparr>coolant_port := coolant_port m AND NOT (push_bit COOLANT_FLOOD_BIT 1)\<rparr>"

definition coolant_init :: "machine \<Rightarrow> machine" where
  "coolant_init m = coolant_stop (m\<lparr>coolant_port := coolant_port m OR push_bit COOLANT_FLOOD_BIT 1\<rparr>)"

definition coolant_get_state :: "machine \<Rightarrow> u8" where
  "coolant_get_state m =
     (let cl_state = COOLANT_STATE_DISABLE in
      if bit_istrue (coolant_port m) (push_bit COOLANT_FLOOD_BIT 1) then cl_state OR COOLANT_STATE_FLOOD
      else cl_state)"

definition coolant_set_state :: "u8 \<Rightarrow> machine \<Rightarrow> machine" where
  "coolant_set_state mode m =
     (if sys_abort (sys m) then m
      else
        let m = (if mode AND COOLANT_FLOOD_ENABLE \<noteq> 0
                 then m\<lparr>coolant_port := coolant_port m OR push_bit COOLANT_FLOOD_BIT 1\<rparr>
                 else m\<lparr>coolant_port := coolant_port m AND NOT (push_bit COOLANT_FLOOD_BIT 1)\<rparr>)
        in upd_sys (\<lambda>s. s\<lparr>sys_report_ovr_counter := 0\<rparr>) m)"

section \<open>Probe\<close>

definition probe_configure_invert_mask :: "bool \<Rightarrow> machine \<Rightarrow> machine" where
  "probe_configure_invert_mask is_probe_away m =
     (let k = 0;
          k = (if bit_isfalse (flags (settings m)) BITFLAG_INVERT_PROBE_PIN then k XOR PROBE_MASK else k);
          k = (if is_probe_away then k XOR PROBE_MASK else k)
      in m\<lparr>probe_invert_mask := k\<rparr>)"

definition probe_init :: "machine \<Rightarrow> machine" where
  "probe_init m = probe_configure_invert_mask False m"

text \<open>\<^verbatim>\<open>PROBE_BIT\<close> is the number 4 of the pin, not the value of its port.\<close>

definition probe_get_state :: "machine \<Rightarrow> u8" where
  "probe_get_state m = (PROBE_BIT AND PROBE_MASK) XOR probe_invert_mask m"

definition probe_state_monitor :: "machine \<Rightarrow> machine" where
  "probe_state_monitor m =
     (if probe_get_state m \<noteq> 0 then
        m\<lparr>sys_probe_state := PROBE_OFF, sys_probe_position := sys_position m,
          sys_rt_exec_state := bit_true (sys_rt_exec_state m) EXEC_MOTION_CANCEL\<rparr>
      else m)"

section \<open>What the drivers do\<close>

lemmas port_defs =
  spindle_stop_def spindle_set_speed_def set_spindle_speed_def coolant_stop_def

lemma spindle_compute_frame:
  "\<exists>v. snd (spindle_compute_pwm_value rpm m) = set_spindle_speed v m"
  by (auto simp: spindle_compute_pwm_value_def Let_def)

text \<open>Setting the spindle touches the machine's speed and the report counter only.\<close>

lemma spindle_set_state_frame:
  "\<exists>v w. spindle_set_state st rpm m =
     upd_sys (\<lambda>s. s\<lparr>sys_spindle_speed := v, sys_report_ovr_counter := w\<rparr>) m"
proof (cases "sys_abort (sys m)")
  case True
  then show ?thesis
    by (auto intro!: exI [of _ "sys_spindle_speed (sys m)"] exI [of _ "sys_report_ovr_counter (sys m)"]
        simp: spindle_set_state_def)
next
  case False
  obtain v where "snd (spindle_compute_pwm_value
      (if flags (settings m) AND BITFLAG_LASER_MODE \<noteq> 0 \<and> st = SPINDLE_ENABLE_CCW then 0 else rpm) m) =
      set_spindle_speed v m"
    using spindle_compute_frame by blast
  then show ?thesis using False
    by (cases "st = SPINDLE_DISABLE")
      (auto simp: spindle_set_state_def port_defs case_prod_beta Let_def)
qed

lemma spindle_set_state_abort: "sys_abort (sys m) \<Longrightarrow> spindle_set_state st rpm m = m"
  by (simp add: spindle_set_state_def)

lemma coolant_get_state_after_set:
  "\<not> sys_abort (sys m) \<Longrightarrow>
   coolant_get_state (coolant_set_state mode m) =
     (if mode AND COOLANT_FLOOD_ENABLE \<noteq> 0 then COOLANT_STATE_FLOOD else COOLANT_STATE_DISABLE)"
  by (simp add: coolant_set_state_def coolant_get_state_def Let_def bit_istrue_def and.assoc
      bit.conj_disj_distrib2)

lemma coolant_set_state_frame:
  "\<exists>p w. coolant_set_state mode m =
     upd_sys (\<lambda>s. s\<lparr>sys_report_ovr_counter := w\<rparr>) (m\<lparr>coolant_port := p\<rparr>)"
proof (cases "sys_abort (sys m)")
  case True
  then show ?thesis
    by (rule_tac x = "coolant_port m" in exI, rule_tac x = "sys_report_ovr_counter (sys m)" in exI)
      (simp add: coolant_set_state_def)
qed (auto simp: coolant_set_state_def Let_def)

text \<open>The probe input is a constant: it is triggered when exactly one of the two inversions of
  the mask applies, whatever the pin does.\<close>

lemma probe_get_state_configured:
  "probe_get_state (probe_configure_invert_mask away m) \<noteq> 0 \<longleftrightarrow>
     (bit_isfalse (flags (settings m)) BITFLAG_INVERT_PROBE_PIN \<noteq> away)"
  by (auto simp: probe_get_state_def probe_configure_invert_mask_def Let_def)

end
