(* ===== verification/Ring_Buffer.thy ===== *)
theory Ring_Buffer
  imports Prelude
begin

text \<open>
  The interface the rotating buffers of the firmware share: the receive buffers of
  \<^verbatim>\<open>serial.cpp\<close>, the block buffer of \<^verbatim>\<open>planner.cpp\<close> and the segment buffer of \<^verbatim>\<open>stepper.cpp\<close>.
  A provider names its two indices, its slots, and the operations that fill the head slot and
  release the tail slot; the client sees a bounded first-in first-out queue.
\<close>

section \<open>The queue a ring holds\<close>

definition ring_len :: "nat \<Rightarrow> nat \<Rightarrow> nat \<Rightarrow> nat" where
  "ring_len cap h t = (h + cap - t) mod cap"

definition ring_contents :: "nat \<Rightarrow> (nat \<Rightarrow> 'a) \<Rightarrow> nat \<Rightarrow> nat \<Rightarrow> 'a list" where
  "ring_contents cap slot h t = map (\<lambda>i. slot ((t + i) mod cap)) [0..<ring_len cap h t]"

lemma ring_len_less: "0 < cap \<Longrightarrow> ring_len cap h t < cap"
  by (simp add: ring_len_def)

lemma length_ring_contents [simp]: "length (ring_contents cap slot h t) = ring_len cap h t"
  by (simp add: ring_contents_def)

lemma ring_len_cases:
  "h < cap \<Longrightarrow> t < cap \<Longrightarrow> ring_len cap h t = (if t \<le> h then h - t else h + cap - t)"
  by (auto simp: ring_len_def mod_if)

lemma ring_next_cases:
  "i < cap \<Longrightarrow> Suc i mod cap = (if Suc i = cap then 0 else Suc i)"
  by (auto simp: mod_if)

lemma ring_add_cases:
  "(t :: nat) < cap \<Longrightarrow> i < cap \<Longrightarrow> (t + i) mod cap = (if t + i < cap then t + i else t + i - cap)"
  by (simp add: le_mod_geq)

lemma ring_len_empty: "h < cap \<Longrightarrow> t < cap \<Longrightarrow> ring_len cap h t = 0 \<longleftrightarrow> h = t"
  by (auto simp: ring_len_cases)

lemma ring_len_full: "h < cap \<Longrightarrow> t < cap \<Longrightarrow> ring_len cap h t = cap - 1 \<longleftrightarrow> (h + 1) mod cap = t"
  by (auto simp: ring_len_cases ring_next_cases split: if_splits)

lemma ring_contents_cong:
  "(\<And>i. i < ring_len cap h t \<Longrightarrow> f ((t + i) mod cap) = g ((t + i) mod cap)) \<Longrightarrow>
   ring_contents cap f h t = ring_contents cap g h t"
  by (simp add: ring_contents_def)

section \<open>The interface\<close>

locale ring_buffer =
  fixes cap :: nat
    and wf :: "'s \<Rightarrow> bool"
    and head tail :: "'s \<Rightarrow> nat"
    and slot :: "'s \<Rightarrow> nat \<Rightarrow> 'a"
    and push :: "'a \<Rightarrow> 's \<Rightarrow> 's"
    and pop :: "'s \<Rightarrow> 's"
  assumes cap: "1 < cap"
    and head_less: "wf s \<Longrightarrow> head s < cap"
    and tail_less: "wf s \<Longrightarrow> tail s < cap"
    and push_index: "wf s \<Longrightarrow> (head s + 1) mod cap \<noteq> tail s \<Longrightarrow>
      wf (push x s) \<and> head (push x s) = (head s + 1) mod cap \<and> tail (push x s) = tail s"
    and push_slot: "wf s \<Longrightarrow> (head s + 1) mod cap \<noteq> tail s \<Longrightarrow> i < cap \<Longrightarrow>
      slot (push x s) i = (if i = head s then x else slot s i)"
    and pop_index: "wf s \<Longrightarrow> head s \<noteq> tail s \<Longrightarrow>
      wf (pop s) \<and> head (pop s) = head s \<and> tail (pop s) = (tail s + 1) mod cap"
    and pop_slot: "wf s \<Longrightarrow> head s \<noteq> tail s \<Longrightarrow> i < cap \<Longrightarrow> slot (pop s) i = slot s i"
begin

abbreviation queue :: "'s \<Rightarrow> 'a list" where
  "queue s \<equiv> ring_contents cap (slot s) (head s) (tail s)"

lemma queue_bound: "wf s \<Longrightarrow> length (queue s) \<le> cap - 1"
  using cap ring_len_less [of cap "head s" "tail s"] by simp

lemma queue_empty_iff: "wf s \<Longrightarrow> queue s = [] \<longleftrightarrow> head s = tail s"
  using ring_len_empty [OF head_less tail_less, of s s] by (metis length_0_conv length_ring_contents)

lemma queue_full_iff: "wf s \<Longrightarrow> length (queue s) = cap - 1 \<longleftrightarrow> (head s + 1) mod cap = tail s"
  using ring_len_full [OF head_less tail_less, of s s] by simp

lemma queue_push:
  assumes "wf s" "(head s + 1) mod cap \<noteq> tail s"
  shows "queue (push x s) = queue s @ [x]"
proof -
  let ?h = "head s" and ?t = "tail s" and ?n = "ring_len cap (head s) (tail s)"
  note b = head_less [OF assms(1)] tail_less [OF assms(1)]
  have len: "ring_len cap (Suc ?h mod cap) ?t = Suc ?n"
    using b assms(2) by (auto simp: ring_len_cases ring_next_cases split: if_splits)
  have n: "?n < cap" using b by (intro ring_len_less) simp
  then have at: "(?t + ?n) mod cap = ?h"
    using b by (subst ring_add_cases) (simp_all add: ring_len_cases)
  have other: "(?t + i) mod cap \<noteq> ?h" if "i < ?n" for i
    using b n that by (subst ring_add_cases) (auto simp: ring_len_cases split: if_splits)
  have "slot (push x s) ((?t + i) mod cap) = slot s ((?t + i) mod cap)" if "i < ?n" for i
    using other [OF that] push_slot [OF assms, of "(?t + i) mod cap" x] b by simp
  moreover have "slot (push x s) ((?t + ?n) mod cap) = x"
    using push_slot [OF assms, of ?h x] b by (simp add: at)
  ultimately show ?thesis
    using push_index [OF assms, of x] by (simp add: ring_contents_def len)
qed

lemma queue_pop:
  assumes "wf s" "head s \<noteq> tail s"
  shows "queue s = slot s (tail s) # queue (pop s)"
proof -
  let ?h = "head s" and ?t = "tail s"
  note b = head_less [OF assms(1)] tail_less [OF assms(1)]
  let ?u = "(?t + 1) mod cap" and ?n = "ring_len cap ?h ((?t + 1) mod cap)"
  have len: "ring_len cap ?h ?t = Suc ?n"
    using b assms(2) by (auto simp: ring_len_cases ring_next_cases split: if_splits)
  have "(?t + Suc i) mod cap = (?u + i) mod cap" for i
    by (simp add: mod_simps)
  then have "queue s = slot s ?t # map (\<lambda>i. slot s ((?u + i) mod cap)) [0..<?n]"
    using b by (simp add: ring_contents_def len map_upt_Suc del: upt_Suc)
  also have "map (\<lambda>i. slot s ((?u + i) mod cap)) [0..<?n] = queue (pop s)"
    using pop_index [OF assms] pop_slot [OF assms] b by (simp add: ring_contents_def)
  finally show ?thesis .
qed

end

end
