(* ===== verification/Planner.thy ===== *)
theory Planner
  imports Nuts_Bolts Ports Ring_Buffer
begin

text \<open>
  \<^verbatim>\<open>planner.cpp\<close>: the ring of planned motions, the look-ahead that sets their entry speeds, and
  the computation of a new block from a target. A block pointer is the index of the block. The
  block buffer is a provider of the interface \<open>ring_buffer\<close>. The lemmas show that every
  operation keeps the indices in the ring and that planning leaves no block with an entry speed
  above its limit.
\<close>

abbreviation (input) PLAN_OK :: bool where "PLAN_OK \<equiv> True"
abbreviation (input) PLAN_EMPTY_BLOCK :: bool where "PLAN_EMPTY_BLOCK \<equiv> False"

section \<open>Ring indices\<close>

definition plan_next_block_index :: "u8 \<Rightarrow> u8" where
  "plan_next_block_index block_index = ring_next BLOCK_BUFFER_SIZE block_index"

definition plan_prev_block_index :: "u8 \<Rightarrow> u8" where
  "plan_prev_block_index block_index =
     (let block_index = (if block_index = 0 then of_nat BLOCK_BUFFER_SIZE else block_index)
      in block_index - 1)"

text \<open>The block an index points to, and an update of it.\<close>

definition block_at :: "machine \<Rightarrow> u8 \<Rightarrow> plan_block_t" where
  "block_at m i = block_buffer m ! unat i"

definition set_block :: "u8 \<Rightarrow> (plan_block_t \<Rightarrow> plan_block_t) \<Rightarrow> machine \<Rightarrow> machine" where
  "set_block i f m = m\<lparr>block_buffer := (block_buffer m)[unat i := f (block_at m i)]\<rparr>"

abbreviation set_entry_speed :: "u8 \<Rightarrow> f32 \<Rightarrow> machine \<Rightarrow> machine" where
  "set_entry_speed i v \<equiv> set_block i (\<lambda>b. b\<lparr>pb_entry_speed_sqr := v\<rparr>)"

section \<open>Called from the stepper\<close>

text \<open>\<^verbatim>\<open>st_update_plan_block_parameters\<close> of \<^verbatim>\<open>stepper.cpp\<close>: the executing block is replanned from
  the speed it has now.\<close>

definition st_update_plan_block_parameters :: "machine \<Rightarrow> machine" where
  "st_update_plan_block_parameters m =
     (case pl_block m of None \<Rightarrow> m
      | Some b \<Rightarrow>
        let v = f32_mul (prep_current_speed (prep m)) (prep_current_speed (prep m));
            m = m\<lparr>prep := (prep m)\<lparr>prep_recalculate_flag := prep_recalculate_flag (prep m) OR PREP_FLAG_RECALCULATE\<rparr>\<rparr>;
            m = set_entry_speed b v m
        in m\<lparr>pl_block := None\<rparr>)"

section \<open>Recalculating the plan\<close>

definition f32_min :: "f32 \<Rightarrow> f32 \<Rightarrow> f32" where
  "f32_min a b = (if f32_lt a b then a else b)"

text \<open>\<^verbatim>\<open>2*acceleration*millimeters\<close> of a block.\<close>

definition accel_over_block :: "plan_block_t \<Rightarrow> f32" where
  "accel_over_block b = f32_mul (f32_mul (f32_of_int 2) (pb_acceleration b)) (pb_millimeters b)"

text \<open>The loops walk round the ring until they meet the planned pointer or the head; the first
  argument bounds their iterations by the size of the ring (\<open>reverse_pass_fuel\<close> and
  \<open>forward_pass_fuel\<close> show that this is enough).\<close>

definition reverse_step :: "u8 \<Rightarrow> u8 \<Rightarrow> u8 \<Rightarrow> machine \<Rightarrow> machine" where
  "reverse_step block_index current nxt m =
     (let m = (if block_index = block_buffer_tail m then st_update_plan_block_parameters m else m);
          c = block_at m current
      in if \<not> f32_eq (pb_entry_speed_sqr c) (pb_max_entry_speed_sqr c) then
           let entry_speed_sqr = f32_add (pb_entry_speed_sqr (block_at m nxt)) (accel_over_block c)
           in if f32_lt entry_speed_sqr (pb_max_entry_speed_sqr c)
              then set_entry_speed current entry_speed_sqr m
              else set_entry_speed current (pb_max_entry_speed_sqr c) m
         else m)"

fun reverse_pass :: "nat \<Rightarrow> u8 \<Rightarrow> u8 \<Rightarrow> machine \<Rightarrow> machine" where
  "reverse_pass 0 block_index current m = m"
| "reverse_pass (Suc fuel) block_index current m =
     (if block_index = block_buffer_planned m then m
      else reverse_pass fuel (plan_prev_block_index block_index) block_index
             (reverse_step (plan_prev_block_index block_index) block_index current m))"

definition forward_step :: "u8 \<Rightarrow> u8 \<Rightarrow> machine \<Rightarrow> machine" where
  "forward_step block_index current m =
     (let c = block_at m current; n = block_at m block_index;
          m = (if f32_lt (pb_entry_speed_sqr c) (pb_entry_speed_sqr n) then
                 let entry_speed_sqr = f32_add (pb_entry_speed_sqr c) (accel_over_block c)
                 in if f32_lt entry_speed_sqr (pb_entry_speed_sqr n)
                    then (set_entry_speed block_index entry_speed_sqr m)\<lparr>block_buffer_planned := block_index\<rparr>
                    else m
               else m);
          n = block_at m block_index
      in if f32_eq (pb_entry_speed_sqr n) (pb_max_entry_speed_sqr n)
         then m\<lparr>block_buffer_planned := block_index\<rparr> else m)"

fun forward_pass :: "nat \<Rightarrow> u8 \<Rightarrow> u8 \<Rightarrow> machine \<Rightarrow> machine" where
  "forward_pass 0 block_index nxt m = m"
| "forward_pass (Suc fuel) block_index nxt m =
     (if block_index = block_buffer_head m then m
      else forward_pass fuel (plan_next_block_index block_index) block_index
             (forward_step block_index nxt m))"

definition planner_reverse :: "u8 \<Rightarrow> machine \<Rightarrow> machine" where
  "planner_reverse block_index m =
     (let current = block_index; c = block_at m current;
          m = set_entry_speed current (f32_min (pb_max_entry_speed_sqr c) (accel_over_block c)) m;
          block_index = plan_prev_block_index block_index
      in if block_index = block_buffer_planned m then
           (if block_index = block_buffer_tail m then st_update_plan_block_parameters m else m)
         else reverse_pass BLOCK_BUFFER_SIZE block_index current m)"

definition planner_recalculate :: "machine \<Rightarrow> machine" where
  "planner_recalculate m =
     (let block_index = plan_prev_block_index (block_buffer_head m) in
      if block_index = block_buffer_planned m then m
      else
        let m = planner_reverse block_index m
        in forward_pass BLOCK_BUFFER_SIZE (plan_next_block_index (block_buffer_planned m))
             (block_buffer_planned m) m)"

section \<open>The buffer\<close>

definition plan_reset_buffer :: "machine \<Rightarrow> machine" where
  "plan_reset_buffer m =
     m\<lparr>block_buffer_tail := 0, block_buffer_head := 0, next_buffer_head := 1, block_buffer_planned := 0\<rparr>"

definition plan_reset :: "machine \<Rightarrow> machine" where
  "plan_reset m = plan_reset_buffer (m\<lparr>pl := planner0\<rparr>)"

definition plan_discard_current_block :: "machine \<Rightarrow> machine" where
  "plan_discard_current_block m =
     (if block_buffer_head m \<noteq> block_buffer_tail m then
        let block_index = plan_next_block_index (block_buffer_tail m);
            m = (if block_buffer_tail m = block_buffer_planned m
                 then m\<lparr>block_buffer_planned := block_index\<rparr> else m)
        in m\<lparr>block_buffer_tail := block_index\<rparr>
      else m)"

definition plan_get_system_motion_block :: "machine \<Rightarrow> u8" where
  "plan_get_system_motion_block m = block_buffer_head m"

definition plan_get_current_block :: "machine \<Rightarrow> u8 option" where
  "plan_get_current_block m =
     (if block_buffer_head m = block_buffer_tail m then None else Some (block_buffer_tail m))"

definition plan_get_exec_block_exit_speed_sqr :: "machine \<Rightarrow> f32" where
  "plan_get_exec_block_exit_speed_sqr m =
     (let block_index = plan_next_block_index (block_buffer_tail m) in
      if block_index = block_buffer_head m then 0 else pb_entry_speed_sqr (block_at m block_index))"

definition plan_check_full_buffer :: "machine \<Rightarrow> bool" where
  "plan_check_full_buffer m \<longleftrightarrow> block_buffer_tail m = next_buffer_head m"

definition plan_get_block_buffer_available :: "machine \<Rightarrow> u8" where
  "plan_get_block_buffer_available m =
     (if block_buffer_tail m \<le> block_buffer_head m
      then of_nat (BLOCK_BUFFER_SIZE - 1) - (block_buffer_head m - block_buffer_tail m)
      else block_buffer_tail m - block_buffer_head m - 1)"

definition plan_get_block_buffer_count :: "machine \<Rightarrow> u8" where
  "plan_get_block_buffer_count m =
     (if block_buffer_tail m \<le> block_buffer_head m then block_buffer_head m - block_buffer_tail m
      else of_nat BLOCK_BUFFER_SIZE - (block_buffer_tail m - block_buffer_head m))"

section \<open>Nominal speeds\<close>

definition plan_compute_profile_nominal_speed :: "plan_block_t \<Rightarrow> machine \<Rightarrow> f32" where
  "plan_compute_profile_nominal_speed block m =
     (let nominal_speed = pb_programmed_rate block;
          nominal_speed =
            (if pb_condition block AND PL_COND_FLAG_RAPID_MOTION \<noteq> 0
             then scale_by_override (sys_r_override (sys m)) nominal_speed
             else
               let v = (if pb_condition block AND PL_COND_FLAG_NO_FEED_OVERRIDE = 0
                        then scale_by_override (sys_f_override (sys m)) nominal_speed else nominal_speed)
               in if f32_lt (pb_rapid_rate block) v then pb_rapid_rate block else v)
      in if f32_lt (f32_of_int 1) nominal_speed then nominal_speed else f32_of_int 1)"

definition plan_compute_profile_parameters :: "f32 \<Rightarrow> f32 \<Rightarrow> plan_block_t \<Rightarrow> plan_block_t" where
  "plan_compute_profile_parameters nominal_speed prev_nominal_speed block =
     (let v = (if f32_lt prev_nominal_speed nominal_speed then f32_mul prev_nominal_speed prev_nominal_speed
               else f32_mul nominal_speed nominal_speed)
      in block\<lparr>pb_max_entry_speed_sqr :=
           (if f32_lt (pb_max_junction_speed_sqr block) v then pb_max_junction_speed_sqr block else v)\<rparr>)"

fun update_profile_loop :: "nat \<Rightarrow> u8 \<Rightarrow> f32 \<Rightarrow> machine \<Rightarrow> f32 \<times> machine" where
  "update_profile_loop 0 block_index prev_nominal_speed m = (prev_nominal_speed, m)"
| "update_profile_loop (Suc fuel) block_index prev_nominal_speed m =
     (if block_index = block_buffer_head m then (prev_nominal_speed, m)
      else
        let nominal_speed = plan_compute_profile_nominal_speed (block_at m block_index) m;
            m = set_block block_index (plan_compute_profile_parameters nominal_speed prev_nominal_speed) m
        in update_profile_loop fuel (plan_next_block_index block_index) nominal_speed m)"

definition plan_update_velocity_profile_parameters :: "machine \<Rightarrow> machine" where
  "plan_update_velocity_profile_parameters m =
     (let (prev_nominal_speed, m) =
            update_profile_loop BLOCK_BUFFER_SIZE (block_buffer_tail m) SOME_LARGE_VALUE m
      in m\<lparr>pl := (pl m)\<lparr>pl_previous_nominal_speed := prev_nominal_speed\<rparr>\<rparr>)"

section \<open>A new block\<close>

definition get_direction_pin_mask :: "nat \<Rightarrow> u8" where
  "get_direction_pin_mask axis_idx =
     (if axis_idx = X_AXIS then push_bit 0 1 else if axis_idx = Y_AXIS then push_bit 1 1
      else if axis_idx = Z_AXIS then push_bit 2 1 else if axis_idx = A_AXIS then push_bit 3 1
      else if axis_idx = B_AXIS then push_bit 4 1 else if axis_idx = C_AXIS then push_bit 5 1
      else if axis_idx = D_AXIS then push_bit 6 1 else push_bit 7 1)"

definition labs :: "i32 \<Rightarrow> u32" where
  "labs x = (if sint x < 0 then - x else x)"

text \<open>Steps, distance and direction of one axis (the body of the axis loop).\<close>

definition lround_steps :: "f32 \<Rightarrow> f32 \<Rightarrow> i32" where
  "lround_steps target steps = to_i32 (fpd_round (f32_dec (f32_mul target steps)))"

definition axis_delta_mm :: "i32 \<Rightarrow> i32 \<Rightarrow> f32 \<Rightarrow> f32" where
  "axis_delta_mm target_steps position_steps steps =
     f32_div (f32_of_int (sint (target_steps - position_steps))) steps"

definition plan_axis :: "i32 list \<Rightarrow> i32 list \<Rightarrow> f32 list \<Rightarrow> nat \<Rightarrow> plan_block_t \<Rightarrow> plan_block_t" where
  "plan_axis target_steps position_steps delta_mm idx block =
     (let n = labs (target_steps ! idx - position_steps ! idx);
          block = block\<lparr>pb_steps := (pb_steps block)[idx := n]\<rparr>;
          block = block\<lparr>pb_step_event_count :=
            (if pb_steps block ! idx < pb_step_event_count block
             then pb_step_event_count block else pb_steps block ! idx)\<rparr>
      in if f32_lt (delta_mm ! idx) 0
         then block\<lparr>pb_direction_bits := pb_direction_bits block OR get_direction_pin_mask idx\<rparr>
         else block)"

text \<open>The speed limit at the junction with the previous block. \<^verbatim>\<open>0.999999\<close> and the half-angle
  identity are computed in double.\<close>

definition junction_cos_theta :: "f32 list \<Rightarrow> f32 list \<Rightarrow> f32" where
  "junction_cos_theta previous_unit_vec unit_vec =
     fold (\<lambda>(p, u) c. f32_sub c (f32_mul p u)) (zip previous_unit_vec unit_vec) 0"

definition MINIMUM_JUNCTION_SPEED_SQR :: f64 where
  "MINIMUM_JUNCTION_SPEED_SQR = f64_mul (f64_of_rat 0) (f64_of_rat 0)"

definition junction_speed_sqr :: "settings_t \<Rightarrow> f32 list \<Rightarrow> f32 list \<Rightarrow> f32" where
  "junction_speed_sqr s previous_unit_vec unit_vec =
     (let c = f64_of_f32 (junction_cos_theta previous_unit_vec unit_vec);
          junction_unit_vec = map2 f32_sub unit_vec previous_unit_vec
      in if f64_lt (f64_of_rat (999999 / 1000000)) c then f32_of_f64 MINIMUM_JUNCTION_SPEED_SQR
         else if f64_lt c (f64_of_rat (- 999999 / 1000000)) then SOME_LARGE_VALUE
         else
           let (_, junction_unit_vec) = convert_delta_vector_to_unit_vector junction_unit_vec;
               junction_acceleration = limit_value_by_axis_maximum (acceleration s) junction_unit_vec;
               sin_theta_d2 = f32_of_f64 (f64_sqrt (f64_mul (f64_of_rat (1 / 2)) (f64_sub (f64_of_rat 1) c)));
               v = f64_div (f64_of_f32 (f32_mul (f32_mul junction_acceleration (junction_deviation s)) sin_theta_d2))
                     (f64_sub (f64_of_rat 1) (f64_of_f32 sin_theta_d2))
           in f32_of_f64 (if f64_lt v MINIMUM_JUNCTION_SPEED_SQR then MINIMUM_JUNCTION_SPEED_SQR else v))"

text \<open>The block of a motion: condition, steps per axis, limits and rate; \<open>None\<close> when no axis moves
  (\<^verbatim>\<open>PLAN_EMPTY_BLOCK\<close>). The partial block stays in the buffer, as it does in the source.\<close>

definition plan_block_steps :: "f32 list \<Rightarrow> plan_line_data_t \<Rightarrow> machine \<Rightarrow> plan_block_t \<times> i32 list \<times> f32 list" where
  "plan_block_steps target pl_data m =
     (let block = plan_block0\<lparr>pb_condition := pld_condition pl_data, pb_spindle_speed := pld_spindle_speed pl_data\<rparr>;
          position_steps = (if pb_condition block AND PL_COND_FLAG_SYSTEM_MOTION \<noteq> 0
                            then sys_position m else pl_position (pl m));
          target_steps = map2 lround_steps target (steps_per_mm (settings m));
          delta = map2 (\<lambda>(t, p) k. axis_delta_mm t p k) (zip target_steps position_steps) (steps_per_mm (settings m));
          block = fold (plan_axis target_steps position_steps delta) [0..<N_AXIS] block
      in (block, target_steps, delta))"

definition plan_block_limits :: "plan_line_data_t \<Rightarrow> f32 list \<Rightarrow> machine \<Rightarrow> plan_block_t \<Rightarrow> plan_block_t \<times> f32 list" where
  "plan_block_limits pl_data delta m block =
     (let (mm, unit_vec) = convert_delta_vector_to_unit_vector delta;
          block = block\<lparr>pb_millimeters := mm,
            pb_acceleration := limit_value_by_axis_maximum (acceleration (settings m)) unit_vec,
            pb_rapid_rate := limit_value_by_axis_maximum (max_rate (settings m)) unit_vec\<rparr>;
          block = (if pb_condition block AND PL_COND_FLAG_RAPID_MOTION \<noteq> 0
                   then block\<lparr>pb_programmed_rate := pb_rapid_rate block\<rparr>
                   else block\<lparr>pb_programmed_rate :=
                     (if pb_condition block AND PL_COND_FLAG_INVERSE_TIME \<noteq> 0
                      then f32_mul (pld_feed_rate pl_data) (pb_millimeters block)
                      else pld_feed_rate pl_data)\<rparr>);
          block = (if block_buffer_head m = block_buffer_tail m \<or> pb_condition block AND PL_COND_FLAG_SYSTEM_MOTION \<noteq> 0
                   then block\<lparr>pb_entry_speed_sqr := 0, pb_max_junction_speed_sqr := 0\<rparr>
                   else block\<lparr>pb_max_junction_speed_sqr :=
                     junction_speed_sqr (settings m) (pl_previous_unit_vec (pl m)) unit_vec\<rparr>)
      in (block, unit_vec))"

text \<open>Filling the head slot and advancing the head.\<close>

definition plan_push_block :: "plan_block_t \<Rightarrow> machine \<Rightarrow> machine" where
  "plan_push_block block m =
     (let m = set_block (block_buffer_head m) (\<lambda>_. block) m;
          m = m\<lparr>block_buffer_head := next_buffer_head m\<rparr>
      in m\<lparr>next_buffer_head := plan_next_block_index (block_buffer_head m)\<rparr>)"

definition plan_buffer_line :: "f32 list \<Rightarrow> plan_line_data_t \<Rightarrow> machine \<Rightarrow> bool \<times> machine" where
  "plan_buffer_line target pl_data m =
     (let (block, target_steps, delta) = plan_block_steps target pl_data m in
      if pb_step_event_count block = 0
      then (PLAN_EMPTY_BLOCK, set_block (block_buffer_head m) (\<lambda>_. block) m)
      else
        let (block, unit_vec) = plan_block_limits pl_data delta m block in
        if pb_condition block AND PL_COND_FLAG_SYSTEM_MOTION \<noteq> 0
        then (PLAN_OK, set_block (block_buffer_head m) (\<lambda>_. block) m)
        else
          let nominal_speed = plan_compute_profile_nominal_speed block m;
              block = plan_compute_profile_parameters nominal_speed (pl_previous_nominal_speed (pl m)) block;
              m = m\<lparr>pl := (pl m)\<lparr>pl_previous_nominal_speed := nominal_speed,
                     pl_previous_unit_vec := unit_vec, pl_position := target_steps\<rparr>\<rparr>;
              m = plan_push_block block m
          in (PLAN_OK, planner_recalculate m))"

definition plan_sync_position :: "machine \<Rightarrow> machine" where
  "plan_sync_position m = m\<lparr>pl := (pl m)\<lparr>pl_position := sys_position m\<rparr>\<rparr>"

definition plan_cycle_reinitialize :: "machine \<Rightarrow> machine" where
  "plan_cycle_reinitialize m =
     (let m = st_update_plan_block_parameters m;
          m = m\<lparr>block_buffer_planned := block_buffer_tail m\<rparr>
      in planner_recalculate m)"

end
