(* ===== verification/Float_Order.thy ===== *)
theory Float_Order
  imports Floats
begin

text \<open>The comparisons of \<open>float\<close> are a linear order once NaN is excluded.\<close>

lemma fpd_lt_trans_le: "fpd_lt x y \<Longrightarrow> fpd_le y z \<Longrightarrow> fpd_le x z"
  by (cases x; cases y; cases z)
    (auto simp: fpd_le_def elim!: fpd_lt.elims fpd_eq.elims)

lemma fpd_not_lt: "snd x \<noteq> NotNum \<Longrightarrow> snd y \<noteq> NotNum \<Longrightarrow> \<not> fpd_lt x y \<Longrightarrow> fpd_le y x"
  by (cases x; cases y; cases "snd x"; cases "snd y") (auto simp: fpd_le_def)

lemma fpd_le_refl: "snd x \<noteq> NotNum \<Longrightarrow> fpd_le x x"
  by (cases x; cases "snd x") (auto simp: fpd_le_def)

lemma fpd_lt_not_nan: "fpd_lt x y \<Longrightarrow> snd x \<noteq> NotNum \<and> snd y \<noteq> NotNum"
  by (cases x; cases y) (auto elim!: fpd_lt.elims)

lemma f32_lt_le_trans: "f32_lt x y \<Longrightarrow> f32_le y z \<Longrightarrow> f32_le x z"
  unfolding f32_lt_def f32_le_def by (rule fpd_lt_trans_le)

lemma f32_lt_imp_le: "f32_lt x y \<Longrightarrow> f32_le x y"
  by (simp add: f32_lt_def f32_le_def fpd_le_def)

lemma f32_eq_imp_le: "f32_eq x y \<Longrightarrow> f32_le x y"
  by (simp add: f32_eq_def f32_le_def fpd_le_def)

lemma f32_not_lt: "\<not> f32_nan x \<Longrightarrow> \<not> f32_nan y \<Longrightarrow> \<not> f32_lt x y \<Longrightarrow> f32_le y x"
  unfolding f32_lt_def f32_le_def f32_nan_def by (rule fpd_not_lt)

lemma f32_le_refl: "\<not> f32_nan x \<Longrightarrow> f32_le x x"
  unfolding f32_le_def f32_nan_def by (rule fpd_le_refl)

lemma f32_lt_not_nan: "f32_lt x y \<Longrightarrow> \<not> f32_nan x \<and> \<not> f32_nan y"
  unfolding f32_lt_def f32_nan_def by (rule fpd_lt_not_nan)

end
