(* ===== verification/Planner_Facts.thy ===== *)
theory Planner_Facts
  imports Planner Float_Order
begin

text \<open>
  What the planner keeps. Its indices stay in the ring, with the planned pointer between tail
  and head; the ring is a bounded queue of blocks; planning leaves no waiting block with an
  entry speed above its limit; and the bounds on its loops are never met.
\<close>

section \<open>Index arithmetic\<close>

abbreviation "in_ring (i :: u8) \<equiv> unat i < BLOCK_BUFFER_SIZE"

text \<open>How far an index is ahead of another in the ring.\<close>

definition ahead :: "u8 \<Rightarrow> u8 \<Rightarrow> nat" where
  "ahead p i = ring_len BLOCK_BUFFER_SIZE (unat i) (unat p)"

lemma unat_next: "in_ring i \<Longrightarrow> unat (plan_next_block_index i) = (if unat i = 15 then 0 else unat i + 1)"
  using unat_ring_next_small [of BLOCK_BUFFER_SIZE i] by (auto simp: plan_next_block_index_def)

lemma unat_prev: "in_ring i \<Longrightarrow> unat (plan_prev_block_index i) = (if unat i = 0 then 15 else unat i - 1)"
  by (auto simp: plan_prev_block_index_def Let_def unsigned_eq_0_iff unat_minus_one)

lemma in_ring_next [simp]: "in_ring i \<Longrightarrow> in_ring (plan_next_block_index i)"
  by (simp add: unat_next)

lemma in_ring_prev [simp]: "in_ring i \<Longrightarrow> in_ring (plan_prev_block_index i)"
  by (auto simp: unat_prev)

lemma ahead_cases: "in_ring i \<Longrightarrow> in_ring p \<Longrightarrow>
    ahead p i = (if unat p \<le> unat i then unat i - unat p else unat i + BLOCK_BUFFER_SIZE - unat p)"
  by (simp add: ahead_def ring_len_cases)

lemma ahead_less: "in_ring i \<Longrightarrow> in_ring p \<Longrightarrow> ahead p i < BLOCK_BUFFER_SIZE"
  by (auto simp: ahead_cases)

lemma ahead_0_iff: "in_ring i \<Longrightarrow> in_ring p \<Longrightarrow> ahead p i = 0 \<longleftrightarrow> i = p"
  by (auto simp: ahead_cases word_unat_eq_iff)

lemma ahead_same [simp]: "in_ring p \<Longrightarrow> ahead p p = 0"
  by (simp add: ahead_cases)

lemma ahead_inj: "in_ring i \<Longrightarrow> in_ring j \<Longrightarrow> in_ring p \<Longrightarrow> ahead p i = ahead p j \<longleftrightarrow> i = j"
  by (auto simp: ahead_cases word_unat_eq_iff split: if_splits)

lemma ahead_prev: "in_ring i \<Longrightarrow> in_ring p \<Longrightarrow> i \<noteq> p \<Longrightarrow> ahead p i = Suc (ahead p (plan_prev_block_index i))"
  by (auto simp: ahead_cases unat_prev word_unat_eq_iff split: if_splits)

lemma ahead_next:
  "in_ring i \<Longrightarrow> in_ring p \<Longrightarrow> plan_next_block_index i \<noteq> p \<Longrightarrow>
   ahead p (plan_next_block_index i) = Suc (ahead p i)"
  by (auto simp: ahead_cases unat_next word_unat_eq_iff split: if_splits)

lemma ahead_next_base:
  "in_ring i \<Longrightarrow> in_ring p \<Longrightarrow> i \<noteq> p \<Longrightarrow> ahead p i = Suc (ahead (plan_next_block_index p) i)"
  by (auto simp: ahead_cases unat_next word_unat_eq_iff split: if_splits)

section \<open>Updates of the buffer\<close>

lemma block_at_set_block:
  "in_ring i \<Longrightarrow> in_ring j \<Longrightarrow> length (block_buffer m) = BLOCK_BUFFER_SIZE \<Longrightarrow>
   block_at (set_block i f m) j = (if i = j then f (block_at m j) else block_at m j)"
  by (auto simp: block_at_def set_block_def nth_list_update word_unat_eq_iff)

lemma block_at_cong: "block_buffer m = block_buffer m' \<Longrightarrow> block_at m i = block_at m' i"
  by (simp add: block_at_def)

text \<open>Planning changes the block buffer, the planned pointer and what the stepper knows of the
  executing block, and nothing else.\<close>

definition plan_frame :: "machine \<Rightarrow> machine \<Rightarrow> bool" where
  "plan_frame m m' \<longleftrightarrow> (\<exists>bs p q b. length bs = length (block_buffer m) \<and>
     m' = m\<lparr>block_buffer := bs, block_buffer_planned := p, prep := q, pl_block := b\<rparr>)"

lemma plan_frame_refl [simp]: "plan_frame m m"
  unfolding plan_frame_def
  by (rule exI [of _ "block_buffer m"], rule exI [of _ "block_buffer_planned m"],
      rule exI [of _ "prep m"], rule exI [of _ "pl_block m"]) simp

lemma plan_frame_trans: "plan_frame m n \<Longrightarrow> plan_frame n k \<Longrightarrow> plan_frame m k"
  unfolding plan_frame_def by (elim exE conjE) (simp, blast)

lemma plan_frame_upd:
  "length bs = length (block_buffer m) \<Longrightarrow>
   plan_frame m (m\<lparr>block_buffer := bs, block_buffer_planned := p, prep := q, pl_block := b\<rparr>)"
  unfolding plan_frame_def by blast

lemma plan_frame_set_block [simp]: "plan_frame m (set_block i f m)"
  using plan_frame_upd [where bs = "block_buffer (set_block i f m)" and m = m and
    p = "block_buffer_planned m" and q = "prep m" and b = "pl_block m"]
  by (simp add: set_block_def)

lemma plan_frame_planned [simp]: "plan_frame m (m\<lparr>block_buffer_planned := i\<rparr>)"
  using plan_frame_upd [where bs = "block_buffer m" and m = m and p = i and q = "prep m" and b = "pl_block m"] by simp

lemma plan_frame_prep [simp]: "plan_frame m (m\<lparr>prep := q\<rparr>)"
  using plan_frame_upd [where bs = "block_buffer m" and m = m and p = "block_buffer_planned m" and
    q = q and b = "pl_block m"] by simp

lemma plan_frame_pl_block [simp]: "plan_frame m (m\<lparr>pl_block := b\<rparr>)"
  using plan_frame_upd [where bs = "block_buffer m" and m = m and p = "block_buffer_planned m" and
    q = "prep m" and b = b] by simp

lemma plan_frame_st_update [simp]: "plan_frame m (st_update_plan_block_parameters m)"
  unfolding st_update_plan_block_parameters_def Let_def
  by (auto intro: plan_frame_trans [OF plan_frame_prep plan_frame_trans
        [OF plan_frame_set_block plan_frame_pl_block]] split: option.split)

lemma plan_frame_fields:
  assumes "plan_frame m m'"
  shows "block_buffer_head m' = block_buffer_head m" "block_buffer_tail m' = block_buffer_tail m"
    "next_buffer_head m' = next_buffer_head m" "length (block_buffer m') = length (block_buffer m)"
    "sys m' = sys m" "pl m' = pl m" "sys_position m' = sys_position m"
  using assms by (auto simp: plan_frame_def)

lemma plan_frame_reverse_step: "plan_frame m (reverse_step bi c nx m)"
  unfolding reverse_step_def Let_def
  by (auto intro: plan_frame_trans [OF plan_frame_st_update])

lemma plan_frame_forward_step: "plan_frame m (forward_step bi c m)"
  unfolding forward_step_def Let_def
  by (auto intro: plan_frame_trans [OF plan_frame_set_block plan_frame_planned]
      plan_frame_trans [OF plan_frame_trans [OF plan_frame_set_block plan_frame_planned] plan_frame_planned])

lemma plan_frame_reverse: "plan_frame m (reverse_pass n i c m)"
  by (induction n i c m rule: reverse_pass.induct)
    (auto intro: plan_frame_trans [OF plan_frame_reverse_step])

lemma plan_frame_forward: "plan_frame m (forward_pass n i c m)"
  by (induction n i c m rule: forward_pass.induct)
    (auto intro: plan_frame_trans [OF plan_frame_forward_step])

lemma plan_frame_planner_reverse: "plan_frame m (planner_reverse i m)"
  unfolding planner_reverse_def Let_def
  by (auto intro: plan_frame_trans [OF plan_frame_set_block plan_frame_reverse]
        plan_frame_trans [OF plan_frame_set_block plan_frame_st_update])

lemma plan_frame_recalculate: "plan_frame m (planner_recalculate m)"
  unfolding planner_recalculate_def Let_def
  by (auto intro: plan_frame_trans [OF plan_frame_planner_reverse plan_frame_forward])

section \<open>The indices stay in the ring\<close>

text \<open>The planned pointer is on a block of the buffer, or on the tail when there is none.\<close>

definition plan_wf :: "machine \<Rightarrow> bool" where
  "plan_wf m \<longleftrightarrow> length (block_buffer m) = BLOCK_BUFFER_SIZE
     \<and> in_ring (block_buffer_head m) \<and> in_ring (block_buffer_tail m) \<and> in_ring (block_buffer_planned m)
     \<and> next_buffer_head m = plan_next_block_index (block_buffer_head m)
     \<and> (block_buffer_head m = block_buffer_tail m \<and> block_buffer_planned m = block_buffer_tail m
        \<or> ahead (block_buffer_tail m) (block_buffer_planned m) < ahead (block_buffer_tail m) (block_buffer_head m))"

lemma plan_wf_reset: "length (block_buffer m) = BLOCK_BUFFER_SIZE \<Longrightarrow> plan_wf (plan_reset_buffer m)"
  by (simp add: plan_wf_def plan_reset_buffer_def) code_simp

lemma plan_wf_length: "plan_wf m \<Longrightarrow> length (block_buffer m) = BLOCK_BUFFER_SIZE"
  by (simp add: plan_wf_def)

lemma plan_wf_frame:
  assumes "plan_wf m" "plan_frame m m'" "block_buffer_planned m' = block_buffer_planned m"
  shows "plan_wf m'"
  using assms by (simp add: plan_wf_def plan_frame_fields [OF assms(2)])

lemma plan_wf_planned:
  assumes "plan_wf m" "plan_frame m m'" "block_buffer_planned m' = i" "in_ring i"
    "ahead (block_buffer_tail m) i < ahead (block_buffer_tail m) (block_buffer_head m)"
  shows "plan_wf m'"
  using assms by (simp add: plan_wf_def plan_frame_fields [OF assms(2)])

lemma planned_set_block [simp]: "block_buffer_planned (set_block i f m) = block_buffer_planned m"
  by (simp add: set_block_def)

lemma planned_st_update [simp]:
  "block_buffer_planned (st_update_plan_block_parameters m) = block_buffer_planned m"
  by (simp add: st_update_plan_block_parameters_def set_block_def Let_def split: option.split)

lemma planned_reverse_step [simp]: "block_buffer_planned (reverse_step bi c nx m) = block_buffer_planned m"
  by (simp add: reverse_step_def Let_def)

lemma planned_reverse [simp]: "block_buffer_planned (reverse_pass n i c m) = block_buffer_planned m"
  by (induction n i c m rule: reverse_pass.induct) auto

lemma planned_planner_reverse [simp]: "block_buffer_planned (planner_reverse i m) = block_buffer_planned m"
  by (simp add: planner_reverse_def Let_def)

lemma planned_forward_step:
  "block_buffer_planned (forward_step bi c m) \<in> {bi, block_buffer_planned m}"
  by (simp add: forward_step_def Let_def)

lemma plan_wf_set_block: "plan_wf m \<Longrightarrow> plan_wf (set_block i f m)"
  by (rule plan_wf_frame) simp_all

lemma plan_wf_st_update: "plan_wf m \<Longrightarrow> plan_wf (st_update_plan_block_parameters m)"
  by (rule plan_wf_frame) simp_all

lemma plan_wf_reverse: "plan_wf m \<Longrightarrow> plan_wf (reverse_pass n i c m)"
  by (rule plan_wf_frame) (simp_all add: plan_frame_reverse)

lemma plan_wf_forward_step:
  assumes "plan_wf m" "in_ring bi"
    "ahead (block_buffer_tail m) bi < ahead (block_buffer_tail m) (block_buffer_head m)"
  shows "plan_wf (forward_step bi c m)"
  using planned_forward_step [of bi c m]
    plan_wf_frame [OF assms(1) plan_frame_forward_step [of m bi c]]
    plan_wf_planned [OF assms(1) plan_frame_forward_step [of m bi c] _ assms(2,3)]
  by auto

lemma next_not_tail:
  assumes "plan_wf m" "in_ring i" "i \<noteq> block_buffer_head m"
    "ahead (block_buffer_tail m) i \<le> ahead (block_buffer_tail m) (block_buffer_head m)"
  shows "ahead (block_buffer_tail m) i < ahead (block_buffer_tail m) (block_buffer_head m)"
    "ahead (block_buffer_tail m) (plan_next_block_index i) = Suc (ahead (block_buffer_tail m) i)"
proof -
  let ?t = "block_buffer_tail m" and ?h = "block_buffer_head m"
  have r: "in_ring ?t" "in_ring ?h" using assms(1) by (simp_all add: plan_wf_def)
  show lt: "ahead ?t i < ahead ?t ?h"
    using assms(2-4) r ahead_inj [of i ?h ?t] by simp
  have "plan_next_block_index i \<noteq> ?t"
  proof
    assume "plan_next_block_index i = ?t"
    then have "ahead ?t i = 15"
      using assms(2) r by (auto simp: ahead_cases unat_next word_unat_eq_iff split: if_splits)
    then show False using lt ahead_less [of ?h ?t] r by simp
  qed
  then show "ahead ?t (plan_next_block_index i) = Suc (ahead ?t i)"
    using assms(2) r by (simp add: ahead_next)
qed

lemma plan_wf_forward:
  "plan_wf m \<Longrightarrow> in_ring i \<Longrightarrow>
   ahead (block_buffer_tail m) i \<le> ahead (block_buffer_tail m) (block_buffer_head m) \<Longrightarrow>
   plan_wf (forward_pass n i c m)"
proof (induction n i c m rule: forward_pass.induct)
  case (2 n i c m)
  note f = plan_frame_fields [OF plan_frame_forward_step [of m i c]]
  show ?case
  proof (cases "i = block_buffer_head m")
    case False
    note lt = next_not_tail [OF "2.prems"(1,2) False "2.prems"(3)]
    have "plan_wf (forward_step i c m)"
      using "2.prems" lt by (intro plan_wf_forward_step)
    then show ?thesis
      using "2.IH" [OF False] "2.prems" False lt by (simp add: f)
  qed (use "2.prems" in simp)
qed simp

lemma plan_wf_recalculate:
  assumes "plan_wf m" "block_buffer_head m \<noteq> block_buffer_tail m"
  shows "plan_wf (planner_recalculate m)"
proof -
  let ?t = "block_buffer_tail m" and ?h = "block_buffer_head m" and ?p = "block_buffer_planned m"
  have lt: "ahead ?t ?p < ahead ?t ?h" "in_ring ?p" "in_ring ?t" "in_ring ?h"
    using assms by (auto simp: plan_wf_def)
  then have "?p \<noteq> ?h" by auto
  then have le: "ahead ?t (plan_next_block_index ?p) \<le> ahead ?t ?h"
    using next_not_tail [OF assms(1), of ?p] lt by simp
  let ?k = "planner_reverse (plan_prev_block_index ?h) m"
  have "plan_wf ?k" by (rule plan_wf_frame [OF assms(1) plan_frame_planner_reverse]) simp
  then have "plan_wf (forward_pass BLOCK_BUFFER_SIZE (plan_next_block_index ?p) ?p ?k)"
    using le lt by (intro plan_wf_forward) (simp_all add: plan_frame_fields [OF plan_frame_planner_reverse])
  then show ?thesis by (simp add: planner_recalculate_def Let_def assms(1))
qed

lemma plan_wf_push:
  assumes "plan_wf m" "\<not> plan_check_full_buffer m"
  shows "plan_wf (plan_push_block b m)"
    and "block_buffer_head (plan_push_block b m) \<noteq> block_buffer_tail (plan_push_block b m)"
proof -
  let ?t = "block_buffer_tail m" and ?h = "block_buffer_head m" and ?p = "block_buffer_planned m"
  have r: "in_ring ?t" "in_ring ?h" "in_ring ?p" "next_buffer_head m = plan_next_block_index ?h"
    "length (block_buffer m) = BLOCK_BUFFER_SIZE"
    using assms(1) by (auto simp: plan_wf_def)
  have n: "plan_next_block_index ?h \<noteq> ?t"
    using assms r(4) by (auto simp: plan_check_full_buffer_def)
  then have a: "ahead ?t (plan_next_block_index ?h) = Suc (ahead ?t ?h)"
    using r by (simp add: ahead_next)
  have "ahead ?t ?p < Suc (ahead ?t ?h)"
    using assms(1) r by (auto simp: plan_wf_def)
  then show "plan_wf (plan_push_block b m)"
    using r a by (simp add: plan_wf_def plan_push_block_def Let_def set_block_def)
  show "block_buffer_head (plan_push_block b m) \<noteq> block_buffer_tail (plan_push_block b m)"
    using n r by (simp add: plan_push_block_def Let_def set_block_def)
qed

lemma plan_wf_discard: "plan_wf m \<Longrightarrow> plan_wf (plan_discard_current_block m)"
proof (cases "block_buffer_head m = block_buffer_tail m")
  case False
  let ?t = "block_buffer_tail m" and ?h = "block_buffer_head m" and ?p = "block_buffer_planned m"
  assume wf: "plan_wf m"
  then have r: "in_ring ?t" "in_ring ?h" "in_ring ?p" "ahead ?t ?p < ahead ?t ?h"
    using False by (auto simp: plan_wf_def)
  have h: "ahead ?t ?h = Suc (ahead (plan_next_block_index ?t) ?h)"
    using r False by (intro ahead_next_base) auto
  show ?thesis
  proof (cases "?t = ?p")
    case True
    then have "ahead (plan_next_block_index ?t) (plan_next_block_index ?t) = 0" using r by simp
    then have "?h = plan_next_block_index ?t \<or>
        ahead (plan_next_block_index ?t) (plan_next_block_index ?t) < ahead (plan_next_block_index ?t) ?h"
      using r ahead_0_iff [of ?h "plan_next_block_index ?t"] by auto
    then show ?thesis
      using wf False True by (auto simp: plan_wf_def plan_discard_current_block_def Let_def)
  next
    case pl: False
    then have "ahead ?t ?p = Suc (ahead (plan_next_block_index ?t) ?p)"
      using r by (intro ahead_next_base) auto
    then show ?thesis
      using wf False pl h r by (auto simp: plan_wf_def plan_discard_current_block_def Let_def)
  qed
qed (simp add: plan_discard_current_block_def)

section \<open>The buffer is a queue\<close>

interpretation planq: ring_buffer BLOCK_BUFFER_SIZE plan_wf "\<lambda>m. unat (block_buffer_head m)"
  "\<lambda>m. unat (block_buffer_tail m)" "\<lambda>m i. block_buffer m ! i" plan_push_block plan_discard_current_block
proof
  fix m and b :: plan_block_t
  assume wf: "plan_wf m"
  then have r: "in_ring (block_buffer_tail m)" "in_ring (block_buffer_head m)"
      "next_buffer_head m = plan_next_block_index (block_buffer_head m)"
      "length (block_buffer m) = BLOCK_BUFFER_SIZE"
    by (auto simp: plan_wf_def)
  have nx: "unat (plan_next_block_index i) = (unat i + 1) mod BLOCK_BUFFER_SIZE" if "in_ring i" for i
    using unat_ring_next_small [of BLOCK_BUFFER_SIZE i] that by (simp add: plan_next_block_index_def)
  show "unat (block_buffer_head m) < BLOCK_BUFFER_SIZE" "unat (block_buffer_tail m) < BLOCK_BUFFER_SIZE"
    using r by simp_all
  { assume "(unat (block_buffer_head m) + 1) mod BLOCK_BUFFER_SIZE \<noteq> unat (block_buffer_tail m)"
    then have "\<not> plan_check_full_buffer m"
      using r nx [of "block_buffer_head m"] by (auto simp: plan_check_full_buffer_def)
    then show "plan_wf (plan_push_block b m) \<and>
        unat (block_buffer_head (plan_push_block b m)) = (unat (block_buffer_head m) + 1) mod BLOCK_BUFFER_SIZE \<and>
        unat (block_buffer_tail (plan_push_block b m)) = unat (block_buffer_tail m)"
      using plan_wf_push [OF wf] nx [of "block_buffer_head m"] r
      by (auto simp: plan_push_block_def Let_def set_block_def)
    fix i
    assume "i < BLOCK_BUFFER_SIZE"
    then show "block_buffer (plan_push_block b m) ! i =
        (if i = unat (block_buffer_head m) then b else block_buffer m ! i)"
      using r by (simp add: plan_push_block_def Let_def set_block_def nth_list_update) }
  { assume "unat (block_buffer_head m) \<noteq> unat (block_buffer_tail m)"
    then show "plan_wf (plan_discard_current_block m) \<and>
        unat (block_buffer_head (plan_discard_current_block m)) = unat (block_buffer_head m) \<and>
        unat (block_buffer_tail (plan_discard_current_block m)) = (unat (block_buffer_tail m) + 1) mod BLOCK_BUFFER_SIZE"
      using plan_wf_discard [OF wf] nx [of "block_buffer_tail m"] r
      by (auto simp: plan_discard_current_block_def Let_def)
    fix i
    show "block_buffer (plan_discard_current_block m) ! i = block_buffer m ! i"
      by (simp add: plan_discard_current_block_def Let_def) }
qed simp

definition planned_blocks :: "machine \<Rightarrow> plan_block_t list" where
  "planned_blocks m = ring_contents BLOCK_BUFFER_SIZE (\<lambda>i. block_buffer m ! i)
     (unat (block_buffer_head m)) (unat (block_buffer_tail m))"

lemma planned_blocks_queue: "planned_blocks m = planq.queue m"
  by (simp add: planned_blocks_def)

section \<open>The loops end\<close>

text \<open>The reverse pass meets the planned pointer, and the forward pass the head, before the
  bound on their iterations does anything: with more fuel they return the same machine.\<close>

lemma reverse_pass_fuel:
  "in_ring i \<Longrightarrow> in_ring (block_buffer_planned m) \<Longrightarrow> ahead (block_buffer_planned m) i < n \<Longrightarrow> n \<le> k \<Longrightarrow>
   reverse_pass k i c m = reverse_pass n i c m"
proof (induction n arbitrary: k i c m)
  case (Suc n)
  then obtain k' where k: "k = Suc k'" "n \<le> k'" by (cases k) auto
  show ?case
  proof (cases "i = block_buffer_planned m")
    case False
    then have "ahead (block_buffer_planned m) (plan_prev_block_index i) < n"
      using Suc.prems ahead_prev [of i "block_buffer_planned m"] by simp
    then show ?thesis using False k Suc.prems by (simp add: Suc.IH [OF _ _ _ k(2)])
  qed (simp add: k)
qed simp

lemma forward_pass_fuel:
  "in_ring i \<Longrightarrow> in_ring (block_buffer_head m) \<Longrightarrow> ahead i (block_buffer_head m) < n \<Longrightarrow> n \<le> k \<Longrightarrow>
   forward_pass k i c m = forward_pass n i c m"
proof (induction n arbitrary: k i c m)
  case (Suc n)
  then obtain k' where k: "k = Suc k'" "n \<le> k'" by (cases k) auto
  note f = plan_frame_fields [OF plan_frame_forward_step [of m i c]]
  show ?case
  proof (cases "i = block_buffer_head m")
    case False
    then have "ahead (plan_next_block_index i) (block_buffer_head m) < n"
      using Suc.prems ahead_next_base [of "block_buffer_head m" i] by simp
    then show ?thesis using False k Suc.prems by (simp add: Suc.IH [OF _ _ _ k(2)] f)
  qed (simp add: k)
qed simp

section \<open>No entry speed above its limit\<close>

definition junction_ok :: "plan_block_t \<Rightarrow> bool" where
  "junction_ok b \<longleftrightarrow> f32_le (pb_entry_speed_sqr b) (pb_max_entry_speed_sqr b)"

text \<open>The executing block, if the stepper has loaded one, is the tail; the buffer is complete.\<close>

definition exec_at_tail :: "machine \<Rightarrow> bool" where
  "exec_at_tail m \<longleftrightarrow> length (block_buffer m) = BLOCK_BUFFER_SIZE \<and> in_ring (block_buffer_tail m)
     \<and> (pl_block m = None \<or> pl_block m = Some (block_buffer_tail m))"

lemma exec_at_tail_st_update: "exec_at_tail m \<Longrightarrow> exec_at_tail (st_update_plan_block_parameters m)"
  by (auto simp: exec_at_tail_def st_update_plan_block_parameters_def set_block_def Let_def split: option.split)

lemma exec_at_tail_set_block [simp]: "exec_at_tail (set_block i f m) = exec_at_tail m"
  by (simp add: exec_at_tail_def set_block_def)

lemma exec_at_tail_planned [simp]: "exec_at_tail (m\<lparr>block_buffer_planned := p\<rparr>) = exec_at_tail m"
  by (simp add: exec_at_tail_def)

lemma block_at_planned [simp]: "block_at (m\<lparr>block_buffer_planned := p\<rparr>) = block_at m"
  by (simp add: block_at_def fun_eq_iff)

lemma block_at_st_update:
  assumes "exec_at_tail m" "in_ring j" "j \<noteq> block_buffer_tail m"
  shows "block_at (st_update_plan_block_parameters m) j = block_at m j"
  using assms
  by (auto simp: exec_at_tail_def st_update_plan_block_parameters_def set_block_def block_at_def Let_def
      word_unat_eq_iff split: option.split)

lemma exec_at_tail_reverse_step: "exec_at_tail m \<Longrightarrow> exec_at_tail (reverse_step bi c nx m)"
  by (simp add: reverse_step_def Let_def exec_at_tail_st_update)

lemma exec_at_tail_forward_step: "exec_at_tail m \<Longrightarrow> exec_at_tail (forward_step bi c m)"
  by (simp add: forward_step_def Let_def)

lemma exec_at_tail_reverse: "exec_at_tail m \<Longrightarrow> exec_at_tail (reverse_pass n i c m)"
  by (induction n i c m rule: reverse_pass.induct) (simp_all add: exec_at_tail_reverse_step)

lemma max_entry_st_update:
  "exec_at_tail m \<Longrightarrow> in_ring j \<Longrightarrow>
   pb_max_entry_speed_sqr (block_at (st_update_plan_block_parameters m) j) = pb_max_entry_speed_sqr (block_at m j)"
  by (auto simp: exec_at_tail_def st_update_plan_block_parameters_def set_block_def block_at_def Let_def
      nth_list_update split: option.split)

lemma exec_at_tail_length: "exec_at_tail m \<Longrightarrow> length (block_buffer m) = BLOCK_BUFFER_SIZE"
  by (simp add: exec_at_tail_def)

lemma max_entry_reverse_step:
  "exec_at_tail m \<Longrightarrow> in_ring j \<Longrightarrow> in_ring c \<Longrightarrow>
   pb_max_entry_speed_sqr (block_at (reverse_step bi c nx m) j) = pb_max_entry_speed_sqr (block_at m j)"
  by (simp add: reverse_step_def Let_def block_at_set_block exec_at_tail_length max_entry_st_update
      exec_at_tail_st_update)

lemma junction_ok_reverse_step:
  assumes "exec_at_tail m" "in_ring c" "in_ring j" "j \<noteq> block_buffer_tail m"
    and "\<not> f32_nan (pb_max_entry_speed_sqr (block_at m j))" "junction_ok (block_at m j) \<or> j = c"
  shows "junction_ok (block_at (reverse_step bi c nx m) j)"
  using assms
  by (auto simp: reverse_step_def Let_def block_at_set_block exec_at_tail_length exec_at_tail_st_update
      block_at_st_update max_entry_st_update junction_ok_def f32_le_refl f32_lt_imp_le f32_eq_imp_le)

lemma junction_ok_reverse:
  "exec_at_tail m \<Longrightarrow> in_ring i \<Longrightarrow> in_ring (block_buffer_planned m) \<Longrightarrow>
   ahead (block_buffer_planned m) i < n \<Longrightarrow> in_ring j \<Longrightarrow> j \<noteq> block_buffer_tail m \<Longrightarrow>
   \<not> f32_nan (pb_max_entry_speed_sqr (block_at m j)) \<Longrightarrow>
   junction_ok (block_at m j) \<or> j \<noteq> block_buffer_planned m \<and>
     ahead (block_buffer_planned m) j \<le> ahead (block_buffer_planned m) i \<Longrightarrow>
   junction_ok (block_at (reverse_pass n i c m) j)"
proof (induction n arbitrary: i c m)
  case (Suc n)
  show ?case
  proof (cases "i = block_buffer_planned m")
    case True
    then show ?thesis using Suc.prems ahead_0_iff [of j "block_buffer_planned m"] by auto
  next
    case False
    let ?p = "block_buffer_planned m" and ?m = "reverse_step (plan_prev_block_index i) i c m"
    have a: "ahead ?p i = Suc (ahead ?p (plan_prev_block_index i))"
      using False Suc.prems by (intro ahead_prev)
    have f: "block_buffer_tail ?m = block_buffer_tail m"
      by (rule plan_frame_fields(2) [OF plan_frame_reverse_step])
    have "junction_ok (block_at ?m j) \<or> j \<noteq> ?p \<and> ahead ?p j \<le> ahead ?p (plan_prev_block_index i)"
    proof (cases "junction_ok (block_at m j) \<or> j = i")
      case True
      then have "junction_ok (block_at ?m j)"
        using Suc.prems(1,2,5-7) by (rule_tac junction_ok_reverse_step) auto
      then show ?thesis ..
    next
      case no: False
      then have "ahead ?p j \<noteq> ahead ?p i" using Suc.prems ahead_inj [of j i ?p] by auto
      then show ?thesis using no Suc.prems a by auto
    qed
    then have "junction_ok (block_at (reverse_pass n (plan_prev_block_index i) i ?m) j)"
      using Suc.prems a by (intro Suc.IH)
        (simp_all add: f max_entry_reverse_step exec_at_tail_reverse_step)
    then show ?thesis using False by simp
  qed
qed simp

lemma max_entry_forward_step:
  "exec_at_tail m \<Longrightarrow> in_ring j \<Longrightarrow> in_ring bi \<Longrightarrow>
   pb_max_entry_speed_sqr (block_at (forward_step bi c m) j) = pb_max_entry_speed_sqr (block_at m j)"
  by (simp add: forward_step_def Let_def block_at_set_block exec_at_tail_length)

lemma junction_ok_forward_step:
  assumes "exec_at_tail m" "in_ring bi" "in_ring j" "junction_ok (block_at m j)"
  shows "junction_ok (block_at (forward_step bi c m) j)"
  using assms
  by (auto simp: forward_step_def Let_def block_at_set_block exec_at_tail_length junction_ok_def
      intro: f32_lt_le_trans)

lemma junction_ok_forward:
  "exec_at_tail m \<Longrightarrow> in_ring i \<Longrightarrow> in_ring j \<Longrightarrow> junction_ok (block_at m j) \<Longrightarrow>
   junction_ok (block_at (forward_pass n i c m) j)"
proof (induction n i c m rule: forward_pass.induct)
  case (2 n i c m)
  then show ?case
    by (cases "i = block_buffer_head m")
      (simp_all add: exec_at_tail_forward_step junction_ok_forward_step)
qed simp

lemma junction_ok_new:
  assumes "\<not> f32_nan (pb_max_entry_speed_sqr b)" "\<not> f32_nan (accel_over_block b)"
  shows "junction_ok (b\<lparr>pb_entry_speed_sqr := f32_min (pb_max_entry_speed_sqr b) (accel_over_block b)\<rparr>)"
  using assms by (auto simp: junction_ok_def f32_min_def f32_le_refl f32_not_lt)

text \<open>The indices of the ring.\<close>

definition ring_indices :: "u8 list" where
  "ring_indices = map of_nat [0..<BLOCK_BUFFER_SIZE]"

lemma ring_indices_iff [simp]: "j \<in> set ring_indices \<longleftrightarrow> in_ring j"
proof
  assume "in_ring j"
  then show "j \<in> set ring_indices"
    unfolding ring_indices_def by (auto intro!: image_eqI [of _ _ "unat j"])
qed (auto simp: ring_indices_def unat_of_nat)

text \<open>The blocks waiting behind the one at the tail, and of these the ones the reverse pass visits:
  it walks from the newest block back to the planned pointer, which need not be in the queue.\<close>

definition waiting :: "machine \<Rightarrow> u8 \<Rightarrow> bool" where
  "waiting m j \<longleftrightarrow> in_ring j \<and> 0 < ahead (block_buffer_tail m) j
     \<and> ahead (block_buffer_tail m) j < ahead (block_buffer_tail m) (block_buffer_head m)"

definition replanned :: "machine \<Rightarrow> u8 \<Rightarrow> bool" where
  "replanned m j \<longleftrightarrow> j \<noteq> block_buffer_planned m
     \<and> ahead (block_buffer_planned m) j \<le> ahead (block_buffer_planned m) (plan_prev_block_index (block_buffer_head m))"

text \<open>What is assumed of the blocks before planning: those it does not visit are within their limits,
  the limits are numbers, and so is the speed the last block can stop from.\<close>

definition ready_to_plan :: "machine \<Rightarrow> bool" where
  "ready_to_plan m \<longleftrightarrow> in_ring (block_buffer_planned m) \<and> in_ring (block_buffer_head m) \<and> exec_at_tail m
     \<and> (\<forall>j \<in> set ring_indices. waiting m j \<longrightarrow>
          (if replanned m j then \<not> f32_nan (pb_max_entry_speed_sqr (block_at m j)) else junction_ok (block_at m j)))
     \<and> \<not> f32_nan (accel_over_block (block_at m (plan_prev_block_index (block_buffer_head m))))"

lemma fpd_eq_not_nan: "fpd_eq x y \<Longrightarrow> snd x \<noteq> NotNum \<and> snd y \<noteq> NotNum"
  by (cases x; cases y) (auto elim!: fpd_eq.elims)

lemma junction_ok_not_nan: "junction_ok b \<Longrightarrow> \<not> f32_nan (pb_max_entry_speed_sqr b)"
  unfolding junction_ok_def f32_le_def fpd_le_def f32_nan_def
  by (blast dest: fpd_lt_not_nan fpd_eq_not_nan)

lemma ready_waiting:
  assumes "ready_to_plan m" "waiting m j"
  shows "\<not> f32_nan (pb_max_entry_speed_sqr (block_at m j))" "replanned m j \<or> junction_ok (block_at m j)"
proof -
  have "j \<in> set ring_indices" using assms(2) by (simp add: waiting_def)
  then have "if replanned m j then \<not> f32_nan (pb_max_entry_speed_sqr (block_at m j)) else junction_ok (block_at m j)"
    using assms unfolding ready_to_plan_def by blast
  then show "\<not> f32_nan (pb_max_entry_speed_sqr (block_at m j))" "replanned m j \<or> junction_ok (block_at m j)"
    using junction_ok_not_nan by (auto split: if_splits)
qed

lemma junction_ok_planner_reverse:
  assumes "ready_to_plan m" "waiting m j" "plan_prev_block_index (block_buffer_head m) \<noteq> block_buffer_planned m"
  shows "junction_ok (block_at (planner_reverse (plan_prev_block_index (block_buffer_head m)) m) j)"
proof -
  let ?t = "block_buffer_tail m" and ?p = "block_buffer_planned m" and ?l = "plan_prev_block_index (block_buffer_head m)"
  have r: "in_ring ?t" "in_ring ?p" "in_ring ?l" "exec_at_tail m" "\<not> f32_nan (accel_over_block (block_at m ?l))"
    using assms(1) by (simp_all add: ready_to_plan_def exec_at_tail_def)
  have j: "in_ring j" "j \<noteq> ?t" using assms(2) r(1) by (auto simp: waiting_def)
  define k where "k = set_entry_speed ?l (f32_min (pb_max_entry_speed_sqr (block_at m ?l)) (accel_over_block (block_at m ?l))) m"
  have ks: "block_buffer_tail k = ?t" "block_buffer_planned k = ?p" "exec_at_tail k"
    using r by (simp_all add: k_def plan_frame_fields [OF plan_frame_set_block])
  have kj: "block_at k j = (if j = ?l then (block_at m j)\<lparr>pb_entry_speed_sqr :=
      f32_min (pb_max_entry_speed_sqr (block_at m j)) (accel_over_block (block_at m j))\<rparr> else block_at m j)"
    using r j by (auto simp: k_def block_at_set_block exec_at_tail_length)
  have numk: "\<not> f32_nan (pb_max_entry_speed_sqr (block_at k j))"
    unfolding kj using ready_waiting(1) [OF assms(1,2)] by auto
  have apl: "ahead ?p ?l = Suc (ahead ?p (plan_prev_block_index ?l))" using r assms(3) by (intro ahead_prev)
  have okr: "junction_ok (block_at k j) \<or> j \<noteq> ?p \<and> ahead ?p j \<le> ahead ?p (plan_prev_block_index ?l)"
  proof (cases "j = ?l")
    case True
    have "junction_ok (block_at k j)"
      unfolding kj using True r(5) ready_waiting(1) [OF assms(1,2)] junction_ok_new [of "block_at m j"] by simp
    then show ?thesis ..
  next
    case False
    then have "ahead ?p j \<noteq> ahead ?p ?l" using r j ahead_inj [of j ?l ?p] by simp
    then show ?thesis
      using ready_waiting(2) [OF assms(1,2)] False apl by (auto simp: kj replanned_def)
  qed
  have rev: "planner_reverse ?l m =
      (if plan_prev_block_index ?l = ?p then (if plan_prev_block_index ?l = ?t then st_update_plan_block_parameters k else k)
       else reverse_pass BLOCK_BUFFER_SIZE (plan_prev_block_index ?l) ?l k)"
    by (simp add: planner_reverse_def Let_def ks flip: k_def)
  show ?thesis
  proof (cases "plan_prev_block_index ?l = ?p")
    case True
    then have "junction_ok (block_at k j)"
      using okr r j ahead_0_iff [of j ?p] by auto
    then show ?thesis using True r j ks by (simp add: rev block_at_st_update)
  next
    case False
    then show ?thesis
      using okr numk r j ks ahead_less [of "plan_prev_block_index ?l" ?p]
      by (simp add: rev junction_ok_reverse)
  qed
qed

lemma junction_ok_recalculate:
  assumes "ready_to_plan m" "waiting m j"
  shows "junction_ok (block_at (planner_recalculate m) j)"
proof (cases "plan_prev_block_index (block_buffer_head m) = block_buffer_planned m")
  case True
  moreover have "in_ring j" "in_ring (block_buffer_planned m)" using assms by (simp_all add: waiting_def ready_to_plan_def)
  ultimately have "\<not> replanned m j" by (auto simp: replanned_def ahead_0_iff)
  then have "junction_ok (block_at m j)" using ready_waiting(2) [OF assms] by simp
  then show ?thesis using True by (simp add: planner_recalculate_def)
next
  case False
  let ?l = "plan_prev_block_index (block_buffer_head m)"
  have r: "in_ring (block_buffer_planned m)" "in_ring ?l" "exec_at_tail m" "in_ring j"
    using assms by (simp_all add: ready_to_plan_def waiting_def)
  then have "exec_at_tail (planner_reverse ?l m)"
    by (auto simp: planner_reverse_def Let_def exec_at_tail_st_update exec_at_tail_reverse)
  then show ?thesis
    using False r junction_ok_planner_reverse [OF assms False]
    by (simp add: planner_recalculate_def Let_def junction_ok_forward)
qed

section \<open>A new block\<close>

text \<open>Buffering a line appends one block to the queue, or none when no axis moves or the motion
  is a system motion, and keeps the ring.\<close>

lemma plan_wf_pl [simp]: "plan_wf (m\<lparr>pl := p\<rparr>) = plan_wf m"
  by (simp add: plan_wf_def)

lemma plan_frame_fields_sched:
  "plan_frame m m' \<Longrightarrow> sched m' = sched m \<and> out m' = out m \<and> eeprom m' = eeprom m \<and> settings m' = settings m"
  by (auto simp: plan_frame_def)

lemma ring_len_recalculate:
  "plan_frame m m' \<Longrightarrow> length (planned_blocks m') = length (planned_blocks m)"
  by (simp add: planned_blocks_def plan_frame_fields)

lemma plan_wf_buffer_line:
  assumes "plan_wf m" "\<not> plan_check_full_buffer m"
  shows "plan_wf (snd (plan_buffer_line target pl_data m))"
proof -
  have "plan_wf (planner_recalculate (plan_push_block b (m\<lparr>pl := p\<rparr>)))" for b p
    using assms plan_wf_push [of "m\<lparr>pl := p\<rparr>" b]
    by (intro plan_wf_recalculate) (simp_all add: plan_check_full_buffer_def)
  then show ?thesis
    using assms by (auto simp: plan_buffer_line_def Let_def case_prod_beta plan_wf_set_block)
qed

lemma condition_block_steps: "pb_condition (fst (plan_block_steps target pl_data m)) = pld_condition pl_data"
proof -
  have "pb_condition (fold (plan_axis t p d) is b) = pb_condition b" for t p d "is" b
    by (induction "is" arbitrary: b) (auto simp: plan_axis_def Let_def)
  then show ?thesis by (simp add: plan_block_steps_def Let_def)
qed

lemma condition_block_limits: "pb_condition (fst (plan_block_limits pl_data d m b)) = pb_condition b"
  by (simp add: plan_block_limits_def Let_def case_prod_beta)

lemma condition_profile [simp]: "pb_condition (plan_compute_profile_parameters v w b) = pb_condition b"
  by (simp add: plan_compute_profile_parameters_def Let_def)

lemma length_push:
  assumes "plan_wf m" "\<not> plan_check_full_buffer m"
  shows "length (planned_blocks (plan_push_block b m)) = length (planned_blocks m) + 1"
proof -
  have h: "in_ring (block_buffer_head m)" "next_buffer_head m = plan_next_block_index (block_buffer_head m)"
    using assms(1) by (simp_all add: plan_wf_def)
  have "unat (plan_next_block_index (block_buffer_head m)) = (unat (block_buffer_head m) + 1) mod BLOCK_BUFFER_SIZE"
    using unat_ring_next_small [of BLOCK_BUFFER_SIZE] h by (simp add: plan_next_block_index_def)
  then have "(unat (block_buffer_head m) + 1) mod BLOCK_BUFFER_SIZE \<noteq> unat (block_buffer_tail m)"
    using assms(2) h by (auto simp: plan_check_full_buffer_def word_unat_eq_iff)
  from planq.queue_push [OF assms(1) this] show ?thesis by (simp only: planned_blocks_queue) simp
qed

lemma length_buffer_line:
  assumes "plan_wf m" "\<not> plan_check_full_buffer m"
  shows "length (planned_blocks (snd (plan_buffer_line target pl_data m))) =
    length (planned_blocks m) +
      (if fst (plan_buffer_line target pl_data m) \<and> pld_condition pl_data AND PL_COND_FLAG_SYSTEM_MOTION = 0
       then 1 else 0)"
proof -
  let ?s = "plan_block_steps target pl_data m"
  let ?b = "fst (plan_block_limits pl_data (snd (snd ?s)) m (fst ?s))"
  have c: "pb_condition ?b = pld_condition pl_data"
    by (simp add: condition_block_limits condition_block_steps)
  have sb: "length (planned_blocks (set_block i f m)) = length (planned_blocks m)" for i f
    by (simp add: planned_blocks_def set_block_def)
  have "length (planned_blocks (plan_push_block b (m\<lparr>pl := p\<rparr>))) = length (planned_blocks m) + 1" for b p
    using length_push [of "m\<lparr>pl := p\<rparr>" b] assms by (simp add: plan_check_full_buffer_def planned_blocks_def)
  then show ?thesis
    using c by (simp add: plan_buffer_line_def Let_def case_prod_beta sb
        ring_len_recalculate [OF plan_frame_recalculate])
qed

lemma plan_get_block_buffer_available_eq:
  assumes "plan_wf m"
  shows "unat (plan_get_block_buffer_available m) + length (planned_blocks m) = BLOCK_BUFFER_SIZE - 1"
    and "unat (plan_get_block_buffer_count m) = length (planned_blocks m)"
    and "plan_check_full_buffer m \<longleftrightarrow> length (planned_blocks m) = BLOCK_BUFFER_SIZE - 1"
    and "plan_get_current_block m = None \<longleftrightarrow> planned_blocks m = []"
proof -
  let ?h = "block_buffer_head m" and ?t = "block_buffer_tail m"
  have r: "in_ring ?h" "in_ring ?t" "next_buffer_head m = plan_next_block_index ?h"
    using assms by (simp_all add: plan_wf_def)
  have len: "length (planned_blocks m) = ring_len BLOCK_BUFFER_SIZE (unat ?h) (unat ?t)"
    by (simp add: planned_blocks_def)
  have sub: "unat (a - b) = unat a - unat b" if "b \<le> a" for a b :: u8
    using that by (simp add: unat_sub)
  have h15: "?h - ?t \<le> 15" if "?t \<le> ?h"
    using that r sub [OF that] by (simp add: word_le_nat_alt)
  have t15: "?t - ?h \<le> 16" "1 \<le> ?t - ?h" if "\<not> ?t \<le> ?h"
    using that r sub [of ?h ?t] by (simp_all add: word_le_nat_alt)
  show "unat (plan_get_block_buffer_available m) + length (planned_blocks m) = BLOCK_BUFFER_SIZE - 1"
    using r sub sub [OF h15] sub [OF t15(2)] unfolding len
    by (auto simp: plan_get_block_buffer_available_def ring_len_cases word_le_nat_alt)
  show "unat (plan_get_block_buffer_count m) = length (planned_blocks m)"
    using r sub sub [OF t15(1)] unfolding len
    by (auto simp: plan_get_block_buffer_count_def ring_len_cases word_le_nat_alt)
  show "plan_check_full_buffer m \<longleftrightarrow> length (planned_blocks m) = BLOCK_BUFFER_SIZE - 1"
    using r unfolding len
    by (auto simp: plan_check_full_buffer_def ring_len_cases word_unat_eq_iff unat_next split: if_splits)
  show "plan_get_current_block m = None \<longleftrightarrow> planned_blocks m = []"
    using r ring_len_empty [of "unat ?h" BLOCK_BUFFER_SIZE "unat ?t"] len
    by (auto simp: plan_get_current_block_def word_unat_eq_iff)
qed

lemma nominal_speed_ge_minimum:
  "f32_le (f32_of_int 1) (plan_compute_profile_nominal_speed b m)"
proof -
  have "f32_le (f32_of_int 1) (f32_of_int 1)" by code_simp
  then have "f32_le (f32_of_int 1) (if f32_lt (f32_of_int 1) x then x else f32_of_int 1)" for x
    by (cases "f32_lt (f32_of_int 1) x") (simp_all only: f32_lt_imp_le if_True if_False)
  then show ?thesis unfolding plan_compute_profile_nominal_speed_def Let_def .
qed

lemma max_entry_le_junction:
  assumes "\<not> f32_nan (pb_max_junction_speed_sqr b)"
    "\<not> f32_nan (f32_mul v v)" "\<not> f32_nan (f32_mul w w)"
  shows "f32_le (pb_max_entry_speed_sqr (plan_compute_profile_parameters v w b)) (pb_max_junction_speed_sqr b)"
  using assms
  by (auto simp: plan_compute_profile_parameters_def Let_def f32_le_refl f32_not_lt)

section \<open>Replanning an empty buffer\<close>

text \<open>A buffer that has not been used yet: every block is zero.\<close>

definition blank :: "machine \<Rightarrow> bool" where
  "blank m \<longleftrightarrow> block_buffer m = replicate BLOCK_BUFFER_SIZE plan_block0 \<and> pl_block m = None"

lemma blank_block: "blank m \<Longrightarrow> in_ring i \<Longrightarrow> block_at m i = plan_block0"
  by (simp add: blank_def block_at_def)

lemma zero_block_facts: "f32_eq 0 0" "\<not> f32_lt 0 0" "f32_min 0 (accel_over_block plan_block0) = 0"
  by code_simp+

lemma blank_forward_step:
  "blank m \<Longrightarrow> in_ring i \<Longrightarrow> in_ring c \<Longrightarrow> forward_step i c m = m\<lparr>block_buffer_planned := i\<rparr>"
  by (simp add: forward_step_def blank_block zero_block_facts plan_block0_def Let_def)

lemma blank_update: "blank m \<Longrightarrow> st_update_plan_block_parameters m = m"
  by (simp add: blank_def st_update_plan_block_parameters_def)

lemma blank_reverse_step: "blank m \<Longrightarrow> in_ring c \<Longrightarrow> reverse_step i c n m = m"
  by (simp add: reverse_step_def blank_update blank_block zero_block_facts plan_block0_def Let_def)

lemma blank_reverse_pass: "blank m \<Longrightarrow> in_ring i \<Longrightarrow> reverse_pass k i c m = m"
  by (induction k arbitrary: i c) (simp_all add: blank_reverse_step)

lemma blank_forward_pass:
  "blank m \<Longrightarrow> in_ring i \<Longrightarrow> in_ring c \<Longrightarrow> in_ring (block_buffer_head m) \<Longrightarrow> i \<noteq> block_buffer_head m \<Longrightarrow>
   ahead i (block_buffer_head m) \<le> k \<Longrightarrow>
   forward_pass k i c m = m\<lparr>block_buffer_planned := plan_prev_block_index (block_buffer_head m)\<rparr>"
proof (induction k arbitrary: i c m)
  case 0
  then show ?case by (simp add: ahead_0_iff)
next
  case (Suc k)
  let ?m = "m\<lparr>block_buffer_planned := i\<rparr>" and ?i = "plan_next_block_index i"
  have s: "forward_pass (Suc k) i c m = forward_pass k ?i i ?m"
    using Suc.prems by (simp add: blank_forward_step)
  show ?case
  proof (cases "?i = block_buffer_head m")
    case True
    then have "i = plan_prev_block_index (block_buffer_head m)" using Suc.prems(2)
      by (auto simp: word_unat_eq_iff unat_prev unat_next split: if_splits)
    moreover have "forward_pass k ?i i ?m = ?m" using True by (cases k) simp_all
    ultimately show ?thesis using s by simp
  next
    case False
    moreover have "blank ?m" using Suc.prems(1) by (simp add: blank_def)
    moreover have "ahead ?i (block_buffer_head m) \<le> k"
      using Suc.prems ahead_next_base [of "block_buffer_head m" i] by simp
    ultimately have "forward_pass k ?i i ?m = ?m\<lparr>block_buffer_planned := plan_prev_block_index (block_buffer_head ?m)\<rparr>"
      using Suc.prems by (intro Suc.IH) simp_all
    then show ?thesis using s by simp
  qed
qed

lemma set_zero_speed: "blank m \<Longrightarrow> in_ring i \<Longrightarrow> set_entry_speed i 0 m = m"
  by (simp add: set_block_def blank_block plan_block0_def)
     (simp add: blank_def list_update_same_conv plan_block0_def)

lemma blank_planner_reverse: "blank m \<Longrightarrow> in_ring i \<Longrightarrow> planner_reverse i m = m"
  by (simp add: planner_reverse_def blank_block zero_block_facts set_zero_speed blank_update blank_reverse_pass Let_def)
     (simp add: plan_block0_def zero_block_facts [unfolded plan_block0_def] set_zero_speed blank_update blank_reverse_pass)

text \<open>Replanning such a buffer walks round the whole ring, and leaves the planned pointer behind the
  tail.\<close>

lemma empty_replan:
  assumes "blank m" "in_ring (block_buffer_head m)" "block_buffer_tail m = block_buffer_head m"
  shows "plan_cycle_reinitialize m = m\<lparr>block_buffer_planned := plan_prev_block_index (block_buffer_head m)\<rparr>"
proof -
  let ?h = "block_buffer_head m" and ?m = "m\<lparr>block_buffer_planned := block_buffer_head m\<rparr>"
  have b: "blank ?m" using assms(1) by (simp add: blank_def)
  have ne: "plan_prev_block_index ?h \<noteq> ?h" "plan_next_block_index ?h \<noteq> ?h"
    using assms(2) by (auto simp: word_unat_eq_iff unat_prev unat_next split: if_splits)
  have "ahead (plan_next_block_index ?h) ?h \<le> BLOCK_BUFFER_SIZE"
    using assms(2) by (intro less_imp_le ahead_less) simp_all
  then have "forward_pass BLOCK_BUFFER_SIZE (plan_next_block_index ?h) ?h ?m
      = ?m\<lparr>block_buffer_planned := plan_prev_block_index ?h\<rparr>"
    using blank_forward_pass [OF b, of "plan_next_block_index ?h" ?h BLOCK_BUFFER_SIZE] assms(2) ne(2) by simp
  moreover have "planner_reverse (plan_prev_block_index ?h) ?m = ?m"
    using assms(2) by (intro blank_planner_reverse b) simp
  ultimately show ?thesis
    using assms(1,3) ne(1) by (simp add: plan_cycle_reinitialize_def planner_recalculate_def blank_update Let_def)
qed

lemma empty_replan_leaves_queue:
  assumes "blank m" "in_ring (block_buffer_head m)" "block_buffer_tail m = block_buffer_head m"
  shows "\<not> plan_wf (plan_cycle_reinitialize m)"
proof -
  have "plan_prev_block_index (block_buffer_head m) \<noteq> block_buffer_head m"
    using assms(2) by (auto simp: word_unat_eq_iff unat_prev)
  then show ?thesis using assms(2,3) unfolding empty_replan [OF assms] by (simp add: plan_wf_def)
qed

end
