(* ===== verification/Stepper.thy ===== *)
theory Stepper
  imports Planner
begin

text \<open>
  \<^verbatim>\<open>stepper.cpp\<close>: the two timer interrupts that execute step segments by the Bresenham
  algorithm, and the generator that cuts the current planner block into segments. The eight
  copies of the Bresenham code, one per axis, are one definition with the axis as argument. A
  segment pointer is an index of the segment buffer; the stepper's copy of the shift register
  bytes is the fields \<open>step_port\<close>, \<open>direction_port\<close> and \<open>steppers_disable_port\<close> of the machine
  (its limit byte is never written). The pulse width timer keeps no state. Loops whose end
  depends on floating point values are \<open>partial_function\<close>s: \<open>None\<close> means that they do not end.
\<close>

section \<open>Constants\<close>

text \<open>The board of \<^verbatim>\<open>platformio.ini\<close> (esp12e) runs at 80 MHz.\<close>

abbreviation (input) F_CPU :: nat where "F_CPU \<equiv> 80000000"
abbreviation (input) TICKS_PER_MICROSECOND :: nat where "TICKS_PER_MICROSECOND \<equiv> 5"
abbreviation (input) AMASS_LEVEL1 :: u32 where "AMASS_LEVEL1 \<equiv> 2000"
abbreviation (input) AMASS_LEVEL2 :: u32 where "AMASS_LEVEL2 \<equiv> 4000"
abbreviation (input) AMASS_LEVEL3 :: u32 where "AMASS_LEVEL3 \<equiv> 8000"

definition DT_SEGMENT :: f64 where
  "DT_SEGMENT = f64_div (f64_of_rat 1) (f64_mul (f64_of_rat 100) (f64_of_rat 60))"

text \<open>Promotion, narrowing and double literals.\<close>

abbreviation (input) "dbl \<equiv> f64_of_f32"
abbreviation (input) "flt \<equiv> f32_of_f64"
abbreviation (input) "lit \<equiv> f64_of_rat"

definition f32_ceil :: "f32 \<Rightarrow> f32" where
  "f32_ceil x = (case f32_dec x of (s, Fin q) \<Rightarrow> f32_enc (s, Fin (of_int \<lceil>q\<rceil>)) | _ \<Rightarrow> x)"

section \<open>Driver state\<close>

definition spi_write32 :: "machine \<Rightarrow> machine" where
  "spi_write32 m = report (Spi_write32 (step_port m) (direction_port m) (steppers_disable_port m) 0) m"

definition set_steppers_disable :: "bool \<Rightarrow> machine \<Rightarrow> machine" where
  "set_steppers_disable on m = m\<lparr>steppers_disable_port :=
     (if on then steppers_disable_port m OR push_bit STEPPERS_DISABLE_BIT 1
      else steppers_disable_port m AND NOT (push_bit STEPPERS_DISABLE_BIT 1))\<rparr>"

definition st_wake_up :: "machine \<Rightarrow> machine" where
  "st_wake_up m =
     (let m = set_steppers_disable (bit_istrue (flags (settings m)) BITFLAG_INVERT_ST_ENABLE) m;
          pulse = - signed_drop_bit 3 ((ucast (pulse_microseconds (settings m)) - 2 :: i32) * of_nat TICKS_PER_MICROSECOND);
          m = m\<lparr>stepper := (stepper m)\<lparr>st_step_outbits := step_port_invert_mask m, st_step_pulse_time := ucast pulse\<rparr>\<rparr>
      in m\<lparr>timer1_enabled := True, timer1_period := 0\<rparr>)"

definition st_go_idle :: "machine \<Rightarrow> machine" where
  "st_go_idle m =
     (let m = m\<lparr>timer1_enabled := False\<rparr>;
          m = m\<lparr>step_port := step_port_invert_mask m\<rparr>;
          m = spi_write32 m;
          m = m\<lparr>busy := False\<rparr>;
          pin_state = ((stepper_idle_lock_time (settings m) \<noteq> 0xFF \<or> sys_rt_exec_alarm m \<noteq> 0
                         \<or> sys_state (sys m) = STATE_SLEEP) \<and> sys_state (sys m) \<noteq> STATE_HOMING);
          pin_state = (if bit_istrue (flags (settings m)) BITFLAG_INVERT_ST_ENABLE then \<not> pin_state else pin_state);
          m = set_steppers_disable pin_state m
      in spi_write32 m)"

definition get_step_pin_mask :: "nat \<Rightarrow> u8" where
  "get_step_pin_mask axis_idx =
     (if axis_idx = X_AXIS then push_bit 0 1 else if axis_idx = Y_AXIS then push_bit 1 1
      else if axis_idx = Z_AXIS then push_bit 2 1 else if axis_idx = A_AXIS then push_bit 3 1
      else if axis_idx = B_AXIS then push_bit 4 1 else if axis_idx = C_AXIS then push_bit 5 1
      else if axis_idx = D_AXIS then push_bit 6 1 else push_bit 7 1)"

definition st_generate_step_dir_invert_masks :: "machine \<Rightarrow> machine" where
  "st_generate_step_dir_invert_masks m =
     fold (\<lambda>idx m.
       let m = (if bit_istrue (step_invert_mask (settings m)) (push_bit idx 1)
                then m\<lparr>step_port_invert_mask := step_port_invert_mask m OR get_step_pin_mask idx\<rparr> else m)
       in if bit_istrue (dir_invert_mask (settings m)) (push_bit idx 1)
          then m\<lparr>dir_port_invert_mask := dir_port_invert_mask m OR get_direction_pin_mask idx\<rparr> else m)
       [0..<N_AXIS] (m\<lparr>step_port_invert_mask := 0, dir_port_invert_mask := 0\<rparr>)"

definition st_reset :: "machine \<Rightarrow> machine" where
  "st_reset m =
     (let m = st_go_idle m;
          m = m\<lparr>prep := st_prep0, stepper := stepper0, pl_block := None, segment_buffer_tail := 0,
                segment_buffer_head := 0, segment_next_head := 1, busy := False\<rparr>;
          m = st_generate_step_dir_invert_masks m;
          m = m\<lparr>stepper := (stepper m)\<lparr>st_dir_outbits := dir_port_invert_mask m\<rparr>\<rparr>;
          m = m\<lparr>direction_port := dir_port_invert_mask m, step_port := step_port_invert_mask m\<rparr>
      in spi_write32 m)"

definition stepper_init :: "machine \<Rightarrow> machine" where
  "stepper_init m = m\<lparr>timer1_enabled := False, timer1_period := 1\<rparr>"

section \<open>The stepper interrupts\<close>

text \<open>Loading the tail segment: the step rate, the count, and for a new block the Bresenham
  counters at half of the event count.\<close>

definition load_segment :: "machine \<Rightarrow> machine" where
  "load_segment m =
     (let k = segment_buffer_tail m; seg = segment_buffer m ! unat k; st = stepper m;
          m = m\<lparr>timer1_period := seg_cycles_per_tick seg\<rparr>;
          st = st\<lparr>st_exec_segment := Some k, st_step_count := seg_n_step seg\<rparr>;
          st = (if st_exec_block_index st \<noteq> seg_st_block_index seg then
                  let i = seg_st_block_index seg; b = st_block_buffer m ! unat i
                  in st\<lparr>st_exec_block_index := i, st_exec_block := Some i,
                        st_counter := replicate N_AXIS (drop_bit 1 (sb_step_event_count b))\<rparr>
                else st);
          b = st_block_buffer m ! unat (the (st_exec_block st));
          st = st\<lparr>st_dir_outbits := sb_direction_bits b XOR dir_port_invert_mask m,
                  st_steps := map (drop_bit (unat (seg_amass_level seg))) (sb_steps b)\<rparr>
      in spindle_set_speed (seg_spindle_pwm seg) (m\<lparr>stepper := st\<rparr>))"

text \<open>One axis of the Bresenham step.\<close>

definition step_axis :: "st_block_t \<Rightarrow> nat \<Rightarrow> machine \<Rightarrow> machine" where
  "step_axis b idx m =
     (let st = stepper m; c = st_counter st ! idx + st_steps st ! idx in
      if sb_step_event_count b < c then
        m\<lparr>stepper := st\<lparr>st_step_outbits := st_step_outbits st OR push_bit idx 1,
              st_counter := (st_counter st)[idx := c - sb_step_event_count b]\<rparr>,
          sys_position := (sys_position m)[idx :=
            (if sb_direction_bits b AND push_bit idx 1 \<noteq> 0
             then sys_position m ! idx - 1 else sys_position m ! idx + 1)]\<rparr>
      else m\<lparr>stepper := st\<lparr>st_counter := (st_counter st)[idx := c]\<rparr>\<rparr>)"

text \<open>Releasing the tail segment.\<close>

definition st_pop_segment :: "machine \<Rightarrow> machine" where
  "st_pop_segment m = m\<lparr>segment_buffer_tail := ring_next SEGMENT_BUFFER_SIZE (segment_buffer_tail m)\<rparr>"

text \<open>The end of a tick: the homing lock, the step count, the end of the segment, the invert mask.\<close>

definition finish_step :: "machine \<Rightarrow> machine" where
  "finish_step m =
     (let m = (if sys_state (sys m) = STATE_HOMING
               then m\<lparr>stepper := (stepper m)\<lparr>st_step_outbits :=
                      st_step_outbits (stepper m) AND sys_homing_axis_lock (sys m)\<rparr>\<rparr> else m);
          m = m\<lparr>stepper := (stepper m)\<lparr>st_step_count := st_step_count (stepper m) - 1\<rparr>\<rparr>;
          m = (if st_step_count (stepper m) = 0
               then st_pop_segment (m\<lparr>stepper := (stepper m)\<lparr>st_exec_segment := None\<rparr>\<rparr>) else m)
      in m\<lparr>stepper := (stepper m)\<lparr>st_step_outbits := st_step_outbits (stepper m) XOR step_port_invert_mask m\<rparr>,
           busy := False\<rparr>)"

text \<open>The displacement of one tick, once a segment is loaded.\<close>

definition execute_step :: "machine \<Rightarrow> machine" where
  "execute_step m =
     (let m = (if sys_probe_state m = PROBE_ACTIVE then probe_state_monitor m else m);
          m = m\<lparr>stepper := (stepper m)\<lparr>st_step_outbits := 0\<rparr>\<rparr>;
          b = st_block_buffer m ! unat (the (st_exec_block (stepper m)))
      in finish_step (fold (step_axis b) [0..<N_AXIS] m))"

definition TIMER1_COMPA_vect :: "machine \<Rightarrow> machine" where
  "TIMER1_COMPA_vect m =
     (if busy m then m
      else
        let m = m\<lparr>direction_port := st_dir_outbits (stepper m), step_port := st_step_outbits (stepper m)\<rparr>;
            m = spi_write32 m;
            m = m\<lparr>busy := True\<rparr>
        in if st_exec_segment (stepper m) = None then
             (if segment_buffer_head m \<noteq> segment_buffer_tail m then execute_step (load_segment m)
              else
                let m = st_go_idle m;
                    m = (if sb_is_pwm_rate_adjusted (st_block_buffer m ! unat (the (st_exec_block (stepper m))))
                         then spindle_set_speed SPINDLE_PWM_OFF_VALUE m else m)
                in system_set_exec_state_flag EXEC_CYCLE_STOP m)
           else execute_step m)"

definition TIMER0_OVF_vect :: "machine \<Rightarrow> machine" where
  "TIMER0_OVF_vect m = spi_write32 (m\<lparr>step_port := step_port_invert_mask m\<rparr>)"

section \<open>Loading a planner block\<close>

definition st_next_block_index :: "u8 \<Rightarrow> u8" where
  "st_next_block_index block_index = ring_next (SEGMENT_BUFFER_SIZE - 1) block_index"

definition upd_prep :: "(st_prep_t \<Rightarrow> st_prep_t) \<Rightarrow> machine \<Rightarrow> machine" where
  "upd_prep f m = m\<lparr>prep := f (prep m)\<rparr>"

definition REQ_MM_INCREMENT_SCALAR :: f64 where
  "REQ_MM_INCREMENT_SCALAR = f64_of_rat (5 / 4)"

text \<open>Copying the Bresenham data of block \<open>b\<close>, scaled by the highest smoothing level.\<close>

definition st_copy_block :: "u8 \<Rightarrow> machine \<Rightarrow> machine" where
  "st_copy_block b m =
     (let p = block_at m b;
          i = st_next_block_index (prep_st_block_index (prep m));
          sb = (st_block_buffer m ! unat i)\<lparr>sb_direction_bits := pb_direction_bits p,
                 sb_steps := map (push_bit MAX_AMASS_LEVEL) (pb_steps p),
                 sb_step_event_count := push_bit MAX_AMASS_LEVEL (pb_step_event_count p)\<rparr>
      in m\<lparr>prep := (prep m)\<lparr>prep_st_block_index := i\<rparr>, st_prep_block := i,
           st_block_buffer := (st_block_buffer m)[unat i := sb]\<rparr>)"

definition st_load_block :: "u8 \<Rightarrow> machine \<Rightarrow> machine" where
  "st_load_block b m =
     (let m = st_copy_block b m; p = block_at m b;
          n = f32_of_int (uint (pb_step_event_count p));
          spm = f32_div n (pb_millimeters p);
          m = upd_prep (\<lambda>q. q\<lparr>prep_steps_remaining := n, prep_step_per_mm := spm,
                 prep_req_mm_increment := flt (f64_div REQ_MM_INCREMENT_SCALAR (dbl spm)),
                 prep_dt_remainder := 0\<rparr>) m;
          m = (if sys_step_control (sys m) AND STEP_CONTROL_EXECUTE_HOLD \<noteq> 0
                  \<or> prep_recalculate_flag (prep m) AND PREP_FLAG_DECEL_OVERRIDE \<noteq> 0 then
                 let v = prep_exit_speed (prep m);
                     m = upd_prep (\<lambda>q. q\<lparr>prep_current_speed := v\<rparr>) m;
                     m = set_entry_speed b (f32_mul v v) m
                 in upd_prep (\<lambda>q. q\<lparr>prep_recalculate_flag :=
                      bit_false (prep_recalculate_flag q) PREP_FLAG_DECEL_OVERRIDE\<rparr>) m
               else upd_prep (\<lambda>q. q\<lparr>prep_current_speed := f32_sqrt (pb_entry_speed_sqr p)\<rparr>) m);
          laser = (flags (settings m) AND BITFLAG_LASER_MODE \<noteq> 0
                   \<and> pb_condition p AND PL_COND_FLAG_SPINDLE_CCW \<noteq> 0);
          i = unat (st_prep_block m);
          m = m\<lparr>st_block_buffer := (st_block_buffer m)[i := (st_block_buffer m ! i)\<lparr>sb_is_pwm_rate_adjusted := laser\<rparr>]\<rparr>
      in if laser then upd_prep (\<lambda>q. q\<lparr>prep_inv_rate := flt (f64_div (lit 1) (dbl (pb_programmed_rate p)))\<rparr>) m else m)"

section \<open>The velocity profile of a block\<close>

text \<open>Deceleration to zero for a feed hold.\<close>

definition profile_hold :: "plan_block_t \<Rightarrow> st_prep_t \<Rightarrow> st_prep_t" where
  "profile_hold p q =
     (let inv_2_accel = flt (f64_div (lit (1 / 2)) (dbl (pb_acceleration p)));
          q = q\<lparr>prep_ramp_type := RAMP_DECEL\<rparr>;
          decel_dist = f32_sub (pb_millimeters p) (f32_mul inv_2_accel (pb_entry_speed_sqr p))
      in if f32_lt decel_dist 0 then
           q\<lparr>prep_exit_speed := f32_sqrt (f32_sub (pb_entry_speed_sqr p) (accel_over_block p))\<rparr>
         else q\<lparr>prep_mm_complete := decel_dist, prep_exit_speed := 0\<rparr>)"

text \<open>Normal operation; the exit speed is that of the next junction.\<close>

definition profile_normal :: "plan_block_t \<Rightarrow> f32 \<Rightarrow> f32 \<Rightarrow> f32 \<Rightarrow> st_prep_t \<Rightarrow> st_prep_t" where
  "profile_normal p exit_speed exit_speed_sqr nominal_speed q =
     (let mm = pb_millimeters p; entry = pb_entry_speed_sqr p;
          inv_2_accel = flt (f64_div (lit (1 / 2)) (dbl (pb_acceleration p)));
          q = q\<lparr>prep_ramp_type := RAMP_ACCEL, prep_accelerate_until := mm, prep_exit_speed := exit_speed\<rparr>;
          nominal_speed_sqr = f32_mul nominal_speed nominal_speed;
          intersect_distance = flt (f64_mul (lit (1 / 2))
            (dbl (f32_add mm (f32_mul inv_2_accel (f32_sub entry exit_speed_sqr)))))
      in if f32_lt nominal_speed_sqr entry then
           let q = q\<lparr>prep_accelerate_until := f32_sub mm (f32_mul inv_2_accel (f32_sub entry nominal_speed_sqr))\<rparr>
           in if f32_le (prep_accelerate_until q) 0 then
                q\<lparr>prep_ramp_type := RAMP_DECEL, prep_exit_speed := f32_sqrt (f32_sub entry (accel_over_block p)),
                  prep_recalculate_flag := prep_recalculate_flag q OR PREP_FLAG_DECEL_OVERRIDE\<rparr>
              else q\<lparr>prep_decelerate_after := f32_mul inv_2_accel (f32_sub nominal_speed_sqr exit_speed_sqr),
                     prep_maximum_speed := nominal_speed, prep_ramp_type := RAMP_DECEL_OVERRIDE\<rparr>
         else if f32_lt 0 intersect_distance then
           (if f32_lt intersect_distance mm then
              let q = q\<lparr>prep_decelerate_after := f32_mul inv_2_accel (f32_sub nominal_speed_sqr exit_speed_sqr)\<rparr>
              in if f32_lt (prep_decelerate_after q) intersect_distance then
                   let q = q\<lparr>prep_maximum_speed := nominal_speed\<rparr>
                   in if f32_eq entry nominal_speed_sqr then q\<lparr>prep_ramp_type := RAMP_CRUISE\<rparr>
                      else q\<lparr>prep_accelerate_until := f32_sub (prep_accelerate_until q)
                             (f32_mul inv_2_accel (f32_sub nominal_speed_sqr entry))\<rparr>
                 else q\<lparr>prep_accelerate_until := intersect_distance, prep_decelerate_after := intersect_distance,
                        prep_maximum_speed := flt (f64_sqrt (f64_add
                          (f64_mul (f64_mul (lit 2) (dbl (pb_acceleration p))) (dbl intersect_distance))
                          (dbl exit_speed_sqr)))\<rparr>
            else q\<lparr>prep_ramp_type := RAMP_DECEL\<rparr>)
         else q\<lparr>prep_accelerate_until := 0, prep_maximum_speed := prep_exit_speed q\<rparr>)"

definition st_block_profile :: "u8 \<Rightarrow> machine \<Rightarrow> machine" where
  "st_block_profile b m =
     (let m = upd_prep (\<lambda>q. q\<lparr>prep_mm_complete := 0\<rparr>) m; p = block_at m b;
          m = (if sys_step_control (sys m) AND STEP_CONTROL_EXECUTE_HOLD \<noteq> 0 then upd_prep (profile_hold p) m
               else
                 let exit_speed_sqr = (if sys_step_control (sys m) AND STEP_CONTROL_EXECUTE_SYS_MOTION \<noteq> 0 then 0
                                       else plan_get_exec_block_exit_speed_sqr m);
                     exit_speed = (if sys_step_control (sys m) AND STEP_CONTROL_EXECUTE_SYS_MOTION \<noteq> 0 then 0
                                   else f32_sqrt exit_speed_sqr)
                 in upd_prep (profile_normal p exit_speed exit_speed_sqr (plan_compute_profile_nominal_speed p m)) m)
      in set_step_control (sys_step_control (sys m) OR STEP_CONTROL_UPDATE_SPINDLE_PWM) m)"

text \<open>Taking the next block from the planner, if none is being prepared; \<open>None\<close> in the second
  component when there is none.\<close>

definition st_fetch_block :: "machine \<Rightarrow> machine \<times> u8 option" where
  "st_fetch_block m =
     (case pl_block m of Some b \<Rightarrow> (m, Some b)
      | None \<Rightarrow>
        (let m = m\<lparr>pl_block := (if sys_step_control (sys m) AND STEP_CONTROL_EXECUTE_SYS_MOTION \<noteq> 0
                                 then Some (plan_get_system_motion_block m) else plan_get_current_block m)\<rparr>
         in case pl_block m of None \<Rightarrow> (m, None)
            | Some b \<Rightarrow>
              (let m = (if prep_recalculate_flag (prep m) AND PREP_FLAG_RECALCULATE \<noteq> 0
                        then upd_prep (\<lambda>q. q\<lparr>prep_recalculate_flag := 0\<rparr>) m
                        else st_load_block b m)
               in (st_block_profile b m, Some b))))"

section \<open>The ramps of a segment\<close>

text \<open>One round of the \<^verbatim>\<open>switch\<close>: the new preparation state, time and distance.\<close>

definition ramp_step :: "f32 \<Rightarrow> f32 \<Rightarrow> st_prep_t \<Rightarrow> f32 \<Rightarrow> f32 \<Rightarrow> st_prep_t \<times> f32 \<times> f32" where
  "ramp_step accel mm q time_var mm_remaining =
     (let speed_var = f32_mul accel time_var;
          half_var = f64_mul (lit (1 / 2)) (dbl speed_var);
          ramp_time = (\<lambda>d v. flt (f64_div (f64_mul (lit 2) (dbl d)) (dbl v)))
      in if prep_ramp_type q = RAMP_DECEL_OVERRIDE then
           (if f32_le (f32_sub (prep_current_speed q) (prep_maximum_speed q)) speed_var then
              (q\<lparr>prep_ramp_type := RAMP_CRUISE, prep_current_speed := prep_maximum_speed q\<rparr>,
               ramp_time (f32_sub mm (prep_accelerate_until q)) (f32_add (prep_current_speed q) (prep_maximum_speed q)),
               prep_accelerate_until q)
            else
              (q\<lparr>prep_current_speed := f32_sub (prep_current_speed q) speed_var\<rparr>, time_var,
               flt (f64_sub (dbl mm_remaining)
                 (f64_mul (dbl time_var) (f64_sub (dbl (prep_current_speed q)) half_var)))))
         else if prep_ramp_type q = RAMP_ACCEL then
           (let mm_remaining = flt (f64_sub (dbl mm_remaining)
                  (f64_mul (dbl time_var) (f64_add (dbl (prep_current_speed q)) half_var)))
            in if f32_lt mm_remaining (prep_accelerate_until q) then
                 (q\<lparr>prep_ramp_type := (if f32_eq (prep_accelerate_until q) (prep_decelerate_after q)
                                       then RAMP_DECEL else RAMP_CRUISE),
                    prep_current_speed := prep_maximum_speed q\<rparr>,
                  ramp_time (f32_sub mm (prep_accelerate_until q)) (f32_add (prep_current_speed q) (prep_maximum_speed q)),
                  prep_accelerate_until q)
               else (q\<lparr>prep_current_speed := f32_add (prep_current_speed q) speed_var\<rparr>, time_var, mm_remaining))
         else if prep_ramp_type q = RAMP_CRUISE then
           (let mm_var = f32_sub mm_remaining (f32_mul (prep_maximum_speed q) time_var)
            in if f32_lt mm_var (prep_decelerate_after q) then
                 (q\<lparr>prep_ramp_type := RAMP_DECEL\<rparr>,
                  f32_div (f32_sub mm_remaining (prep_decelerate_after q)) (prep_maximum_speed q),
                  prep_decelerate_after q)
               else (q, time_var, mm_var))
         else
           (let mm_var = flt (f64_sub (dbl mm_remaining)
                  (f64_mul (dbl time_var) (f64_sub (dbl (prep_current_speed q)) half_var)))
            in if f32_lt speed_var (prep_current_speed q) \<and> f32_lt (prep_mm_complete q) mm_var
               then (q\<lparr>prep_current_speed := f32_sub (prep_current_speed q) speed_var\<rparr>, time_var, mm_var)
               else (q\<lparr>prep_current_speed := prep_exit_speed q\<rparr>,
                     ramp_time (f32_sub mm_remaining (prep_mm_complete q))
                       (f32_add (prep_current_speed q) (prep_exit_speed q)),
                     prep_mm_complete q)))"

partial_function (option) ramp_loop ::
    "f32 \<Rightarrow> f32 \<Rightarrow> f32 \<Rightarrow> st_prep_t \<Rightarrow> f32 \<Rightarrow> f32 \<Rightarrow> f32 \<Rightarrow> f32 \<Rightarrow> (st_prep_t \<times> f32 \<times> f32) option" where
  "ramp_loop accel mm minimum_mm q dt_max dt time_var mm_remaining =
     (let (q, time_var, mm_remaining) = ramp_step accel mm q time_var mm_remaining;
          dt = f32_add dt time_var
      in if f32_lt dt dt_max then
           (if f32_lt (prep_mm_complete q) mm_remaining
            then ramp_loop accel mm minimum_mm q dt_max dt (f32_sub dt_max dt) mm_remaining
            else Some (q, dt, mm_remaining))
         else if f32_lt minimum_mm mm_remaining then
           (let dt_max = flt (f64_add (dbl dt_max) DT_SEGMENT)
            in if f32_lt (prep_mm_complete q) mm_remaining
               then ramp_loop accel mm minimum_mm q dt_max dt (f32_sub dt_max dt) mm_remaining
               else Some (q, dt, mm_remaining))
         else Some (q, dt, mm_remaining))"

section \<open>Spindle output and step rate of a segment\<close>

definition upd_segment :: "(segment_t \<Rightarrow> segment_t) \<Rightarrow> machine \<Rightarrow> machine" where
  "upd_segment f m =
     (let i = unat (segment_buffer_head m) in m\<lparr>segment_buffer := (segment_buffer m)[i := f (segment_buffer m ! i)]\<rparr>)"

definition segment_spindle :: "u8 \<Rightarrow> machine \<Rightarrow> machine" where
  "segment_spindle b m =
     (let p = block_at m b; adj = sb_is_pwm_rate_adjusted (st_block_buffer m ! unat (st_prep_block m));
          m = (if adj \<or> sys_step_control (sys m) AND STEP_CONTROL_UPDATE_SPINDLE_PWM \<noteq> 0 then
                 let m = (if pb_condition p AND (PL_COND_FLAG_SPINDLE_CW OR PL_COND_FLAG_SPINDLE_CCW) \<noteq> 0 then
                            let rpm = (if adj then f32_mul (pb_spindle_speed p)
                                         (f32_mul (prep_current_speed (prep m)) (prep_inv_rate (prep m)))
                                       else pb_spindle_speed p);
                                (pwm, m) = spindle_compute_pwm_value rpm m
                            in upd_prep (\<lambda>q. q\<lparr>prep_current_spindle_pwm := pwm\<rparr>) m
                          else upd_prep (\<lambda>q. q\<lparr>prep_current_spindle_pwm := 0\<rparr>) (set_spindle_speed 0 m))
                 in set_step_control (bit_false (sys_step_control (sys m)) STEP_CONTROL_UPDATE_SPINDLE_PWM) m
               else m)
      in upd_segment (\<lambda>s. s\<lparr>seg_spindle_pwm := prep_current_spindle_pwm (prep m)\<rparr>) m)"

definition amass_level :: "u32 \<Rightarrow> u8" where
  "amass_level cycles = (if cycles < AMASS_LEVEL1 then 0 else if cycles < AMASS_LEVEL2 then 1
     else if cycles < AMASS_LEVEL3 then 2 else 3)"

text \<open>Ticks per step, the smoothing level, and the number of ticks at that level.\<close>

definition set_segment_rate :: "u16 \<Rightarrow> f32 \<Rightarrow> segment_t \<Rightarrow> segment_t" where
  "set_segment_rate n_step inv_rate s =
     (let cycles = to_u32 (fpd_ceil (f32_dec (f32_mul (f32_of_int (int TICKS_PER_MICROSECOND * 1000000 * 60)) inv_rate)));
          l = amass_level cycles;
          cycles = drop_bit (unat l) cycles
      in s\<lparr>seg_amass_level := l, seg_n_step := push_bit (unat l) n_step,
           seg_cycles_per_tick := (if cycles < push_bit 16 1 then ucast cycles else 0xFFFF)\<rparr>)"

section \<open>The segment generator\<close>

text \<open>Filling the head slot of the segment ring is finished by advancing its head.\<close>

definition st_push_segment :: "machine \<Rightarrow> machine" where
  "st_push_segment m =
     (let m = m\<lparr>segment_buffer_head := segment_next_head m\<rparr>
      in m\<lparr>segment_next_head := ring_next SEGMENT_BUFFER_SIZE (segment_next_head m)\<rparr>)"

text \<open>The exit conditions after a segment; the boolean tells whether the generator goes on.\<close>

definition st_check_exit :: "u8 \<Rightarrow> f32 \<Rightarrow> machine \<Rightarrow> bool \<times> machine" where
  "st_check_exit b mm_remaining m =
     (if f32_eq mm_remaining (prep_mm_complete (prep m)) then
        (if f32_lt 0 mm_remaining \<or> sys_step_control (sys m) AND STEP_CONTROL_EXECUTE_SYS_MOTION \<noteq> 0
         then (False, set_step_control (sys_step_control (sys m) OR STEP_CONTROL_END_MOTION) m)
         else (True, plan_discard_current_block (m\<lparr>pl_block := None\<rparr>)))
      else (True, m))"

text \<open>Writing the segment, once its ramps give its time and the distance left.\<close>

definition st_emit_segment :: "u8 \<Rightarrow> f32 \<Rightarrow> f32 \<Rightarrow> machine \<Rightarrow> bool \<times> machine" where
  "st_emit_segment b dt mm_remaining m =
     (let m = segment_spindle b m;
          step_dist_remaining = f32_mul (prep_step_per_mm (prep m)) mm_remaining;
          n_steps_remaining = f32_ceil step_dist_remaining;
          last_n_steps_remaining = f32_ceil (prep_steps_remaining (prep m));
          n_step = to_u16 (fpd_trunc (f32_dec (f32_sub last_n_steps_remaining n_steps_remaining)));
          m = upd_segment (\<lambda>s. s\<lparr>seg_n_step := n_step\<rparr>) m
      in if n_step = 0 \<and> sys_step_control (sys m) AND STEP_CONTROL_EXECUTE_HOLD \<noteq> 0 then
           (False, set_step_control (sys_step_control (sys m) OR STEP_CONTROL_END_MOTION) m)
         else
           let dt = f32_add dt (prep_dt_remainder (prep m));
               inv_rate = f32_div dt (f32_sub last_n_steps_remaining step_dist_remaining);
               m = st_push_segment (upd_segment (set_segment_rate n_step inv_rate) m);
               m = set_block b (\<lambda>p. p\<lparr>pb_millimeters := mm_remaining\<rparr>) m;
               m = upd_prep (\<lambda>q. q\<lparr>prep_steps_remaining := n_steps_remaining,
                      prep_dt_remainder := f32_mul (f32_sub n_steps_remaining step_dist_remaining) inv_rate\<rparr>) m
           in st_check_exit b mm_remaining m)"

definition st_make_segment :: "u8 \<Rightarrow> machine \<Rightarrow> (bool \<times> machine) option" where
  "st_make_segment b m =
     (let m = upd_segment (\<lambda>s. s\<lparr>seg_st_block_index := prep_st_block_index (prep m)\<rparr>) m;
          p = block_at m b; dt_max = flt DT_SEGMENT;
          mm = pb_millimeters p; minimum_mm = f32_sub mm (prep_req_mm_increment (prep m));
          minimum_mm = (if f32_lt minimum_mm 0 then 0 else minimum_mm)
      in map_option (\<lambda>(q, dt, mm_remaining). st_emit_segment b dt mm_remaining (m\<lparr>prep := q\<rparr>))
           (ramp_loop (pb_acceleration p) mm minimum_mm (prep m) dt_max 0 dt_max mm))"

partial_function (option) prep_loop :: "machine \<Rightarrow> machine option" where
  "prep_loop m =
     (if segment_buffer_tail m = segment_next_head m then Some m
      else case st_fetch_block m of
             (m, None) \<Rightarrow> Some m
           | (m, Some b) \<Rightarrow>
             (case st_make_segment b m of None \<Rightarrow> None
              | Some (continue, m) \<Rightarrow> (if continue then prep_loop m else Some m)))"

definition st_prep_buffer :: "machine \<Rightarrow> machine option" where
  "st_prep_buffer m =
     (if bit_istrue (sys_step_control (sys m)) STEP_CONTROL_END_MOTION then Some m else prep_loop m)"

definition st_get_realtime_rate :: "machine \<Rightarrow> f32" where
  "st_get_realtime_rate m =
     (if sys_state (sys m) AND (STATE_CYCLE OR STATE_HOMING OR STATE_HOLD OR STATE_JOG OR STATE_SAFETY_DOOR) \<noteq> 0
      then prep_current_speed (prep m) else 0)"

end
