(* ===== verification/Interrupts.thy ===== *)
theory Interrupts
  imports Stepper Ring_Buffer
begin

text \<open>
  What runs asynchronously to the main program: the poll of the communication channels
  (\<^verbatim>\<open>serial.cpp\<close>), the step timers (\<open>Stepper\<close>) and the limit and control pin interrupts
  (\<^verbatim>\<open>limits.cpp\<close>, \<^verbatim>\<open>system.cpp\<close>), with the reset they trigger (\<^verbatim>\<open>mc_reset\<close>) and the status
  report they send. They are served where the main program yields: \<open>poll\<close> takes the events of
  the next entry of the schedule, and has no result when the schedule is exhausted, that is when
  the main program waits for something that never comes.
\<close>

section \<open>Pins\<close>

definition get_limit_pin_mask :: "nat \<Rightarrow> u8" where
  "get_limit_pin_mask axis_idx =
     (if axis_idx = X_AXIS then push_bit 0 1 else if axis_idx = Y_AXIS then push_bit 1 1
      else if axis_idx = Z_AXIS then push_bit 2 1 else if axis_idx = A_AXIS then push_bit 3 1
      else if axis_idx = B_AXIS then push_bit 4 1 else if axis_idx = C_AXIS then push_bit 5 1
      else if axis_idx = D_AXIS then push_bit 6 1 else push_bit 7 1)"

definition limits_get_state :: "machine \<Rightarrow> u8" where
  "limits_get_state m =
     (let pin = limit_port_inputs m AND LIMIT_MASK;
          pin = (if bit_istrue (flags (settings m)) BITFLAG_INVERT_LIMIT_PINS then pin XOR LIMIT_MASK else pin)
      in if pin \<noteq> 0 then
           fold (\<lambda>idx s. if pin AND get_limit_pin_mask idx \<noteq> 0 then s OR push_bit idx 1 else s) [0..<N_AXIS] 0
         else 0)"

definition limits_disable :: "machine \<Rightarrow> machine" where
  "limits_disable m = m\<lparr>limit_isr_attached := False\<rparr>"

text \<open>Each translation unit writes its own copy of the register bytes, of which only the limit
  (or control) byte is ever set.\<close>

definition limits_init :: "machine \<Rightarrow> machine" where
  "limits_init m =
     (let m = m\<lparr>limit_port := limit_port m AND NOT LIMIT_MASK\<rparr>; m = report (Spi_write 0) m
      in m\<lparr>limit_isr_attached := True\<rparr>)"

definition system_init :: "machine \<Rightarrow> machine" where
  "system_init m = report (Spi_write 0) (m\<lparr>control_port := control_port m AND NOT CONTROL_MASK\<rparr>)"

definition system_control_get_state :: "machine \<Rightarrow> u8" where
  "system_control_get_state m =
     (let control_state = 0; pin = control_port_inputs m AND CONTROL_MASK in
      if pin \<noteq> 0 then
        let control_state = (if bit_istrue pin (push_bit CONTROL_RESET_BIT 1) then control_state OR CONTROL_PIN_INDEX_RESET else control_state);
            control_state = (if bit_istrue pin (push_bit CONTROL_FEED_HOLD_BIT 1) then control_state OR CONTROL_PIN_INDEX_FEED_HOLD else control_state)
        in if bit_istrue pin (push_bit CONTROL_CYCLE_START_BIT 1) then control_state OR CONTROL_PIN_INDEX_CYCLE_START else control_state
      else control_state)"

text \<open>No safety door input is configured.\<close>

definition system_check_safety_door_ajar :: "machine \<Rightarrow> bool" where
  "system_check_safety_door_ajar m = False"

section \<open>Reset\<close>

definition mc_reset :: "machine \<Rightarrow> machine" where
  "mc_reset m =
     (if bit_isfalse (sys_rt_exec_state m) EXEC_RESET then
        let m = system_set_exec_state_flag EXEC_RESET m;
            m = spindle_stop m;
            m = coolant_stop m
        in if sys_state (sys m) AND (STATE_CYCLE OR STATE_HOMING OR STATE_JOG) \<noteq> 0
              \<or> sys_step_control (sys m) AND (STEP_CONTROL_EXECUTE_HOLD OR STEP_CONTROL_EXECUTE_SYS_MOTION) \<noteq> 0 then
             let m = (if sys_state (sys m) = STATE_HOMING then
                        (if sys_rt_exec_alarm m = 0 then system_set_exec_alarm EXEC_ALARM_HOMING_FAIL_RESET m else m)
                      else system_set_exec_alarm EXEC_ALARM_ABORT_CYCLE m)
             in st_go_idle m
           else m
      else m)"

section \<open>The pin interrupts\<close>

text \<open>The scan sets one input bit to 0 at a time and reads the interrupt pin; \<open>pins\<close> are the
  inputs that read as triggered. The bits it finds, and the values of the port it writes.\<close>

definition scan_pivots :: "u8 list" where
  "scan_pivots = map (\<lambda>i. push_bit i 1) [0..<8]"

definition scan_inputs :: "u8 \<Rightarrow> u8 \<Rightarrow> u8" where
  "scan_inputs k pins = fold (\<lambda>pivot s. if k AND pivot \<noteq> 0 \<and> pins AND pivot \<noteq> 0 then s OR pivot else s) scan_pivots 0"

definition scan_limit_port :: "machine \<Rightarrow> machine" where
  "scan_limit_port m =
     fold (\<lambda>pivot m. if LIMIT_MASK AND pivot \<noteq> 0 then
         let m = m\<lparr>limit_port := (limit_port m OR LIMIT_MASK) AND NOT pivot\<rparr> in report (Spi_write32 0 0 0 (limit_port m)) m
       else m) scan_pivots m"

definition pin_limit_vect :: "u8 \<Rightarrow> machine \<Rightarrow> machine" where
  "pin_limit_vect pins m =
     (let m = (if limit_port_inputs m = 0 then
                 let m = scan_limit_port m;
                     m = m\<lparr>limit_port_inputs := scan_inputs LIMIT_MASK pins\<rparr>;
                     m = m\<lparr>limit_port := limit_port m AND NOT LIMIT_MASK\<rparr>
                 in report (Spi_write 0) m
               else m\<lparr>limit_port_inputs := 0\<rparr>)
      in if sys_state (sys m) \<noteq> STATE_ALARM \<and> sys_rt_exec_alarm m = 0
         then system_set_exec_alarm EXEC_ALARM_HARD_LIMIT (mc_reset m)
         else m)"

definition scan_control_port :: "machine \<Rightarrow> machine" where
  "scan_control_port m =
     fold (\<lambda>pivot m. if CONTROL_MASK AND pivot \<noteq> 0 then
         let m = m\<lparr>control_port := (control_port m OR CONTROL_MASK) AND NOT pivot\<rparr> in report (Spi_write32 0 0 (control_port m) 0) m
       else m) scan_pivots m"

definition pin_control_vect :: "u8 \<Rightarrow> machine \<Rightarrow> machine" where
  "pin_control_vect pins m =
     (let m = (if control_port_inputs m = 0 then
                 let m = scan_control_port m;
                     m = m\<lparr>control_port_inputs := scan_inputs CONTROL_MASK pins\<rparr>;
                     m = m\<lparr>control_port := control_port m AND NOT CONTROL_MASK\<rparr>
                 in report (Spi_write 0) m
               else m\<lparr>control_port_inputs := 0\<rparr>);
          pin = system_control_get_state m
      in if pin \<noteq> 0 then
           (if bit_istrue pin CONTROL_PIN_INDEX_RESET then mc_reset m
            else if bit_istrue pin CONTROL_PIN_INDEX_CYCLE_START then
              m\<lparr>sys_rt_exec_state := bit_true (sys_rt_exec_state m) EXEC_CYCLE_START\<rparr>
            else if bit_istrue pin CONTROL_PIN_INDEX_FEED_HOLD then
              m\<lparr>sys_rt_exec_state := bit_true (sys_rt_exec_state m) EXEC_FEED_HOLD\<rparr>
            else m)
         else m)"

section \<open>The status report (report.cpp)\<close>

text \<open>Of the report the model keeps the state it names, and the two counters that decide when
  the work offset and the overrides are reported next.\<close>

definition report_state_name :: "system_t \<Rightarrow> string" where
  "report_state_name s =
     (if sys_state s = STATE_IDLE then ''Idle''
      else if sys_state s = STATE_CYCLE then ''Run''
      else if sys_state s = STATE_HOLD then
        (if sys_suspend s AND SUSPEND_JOG_CANCEL = 0 then
           ''Hold:'' @ (if sys_suspend s AND SUSPEND_HOLD_COMPLETE \<noteq> 0 then ''0'' else ''1'')
         else ''Jog'')
      else if sys_state s = STATE_JOG then ''Jog''
      else if sys_state s = STATE_HOMING then ''Home''
      else if sys_state s = STATE_ALARM then ''Alarm''
      else if sys_state s = STATE_CHECK_MODE then ''Check''
      else if sys_state s = STATE_SAFETY_DOOR then
        ''Door:'' @ (if sys_suspend s AND SUSPEND_INITIATE_RESTORE \<noteq> 0 then ''3''
                    else if sys_suspend s AND SUSPEND_RETRACT_COMPLETE \<noteq> 0 then
                      (if sys_suspend s AND SUSPEND_SAFETY_DOOR_AJAR \<noteq> 0 then ''1'' else ''0'')
                    else ''2'')
      else if sys_state s = STATE_SLEEP then ''Sleep'' else '''')"

definition report_counters :: "system_t \<Rightarrow> system_t" where
  "report_counters s =
     (let busy_state = (sys_state s AND (STATE_HOMING OR STATE_CYCLE OR STATE_HOLD OR STATE_JOG OR STATE_SAFETY_DOOR) \<noteq> 0);
          s = (if 0 < sys_report_wco_counter s then s\<lparr>sys_report_wco_counter := sys_report_wco_counter s - 1\<rparr>
               else
                 let s = s\<lparr>sys_report_wco_counter :=
                       (if busy_state then REPORT_WCO_REFRESH_BUSY_COUNT - 1 else REPORT_WCO_REFRESH_IDLE_COUNT - 1)\<rparr>
                 in if sys_report_ovr_counter s = 0 then s\<lparr>sys_report_ovr_counter := 1\<rparr> else s)
      in if 0 < sys_report_ovr_counter s then s\<lparr>sys_report_ovr_counter := sys_report_ovr_counter s - 1\<rparr>
         else s\<lparr>sys_report_ovr_counter :=
                (if busy_state then REPORT_OVR_REFRESH_BUSY_COUNT - 1 else REPORT_OVR_REFRESH_IDLE_COUNT - 1)\<rparr>)"

definition report_realtime_status :: "u8 \<Rightarrow> machine \<Rightarrow> machine" where
  "report_realtime_status client m =
     report (Realtime_status client (report_state_name (sys m))) (upd_sys report_counters m)"

section \<open>The receive buffers (serial.cpp)\<close>

definition client_idx :: "u8 \<Rightarrow> nat" where
  "client_idx client = unat (client - 1)"

definition rx_head :: "u8 \<Rightarrow> machine \<Rightarrow> u8" where
  "rx_head client m = serial_rx_buffer_head m ! client_idx client"

definition rx_tail :: "u8 \<Rightarrow> machine \<Rightarrow> u8" where
  "rx_tail client m = serial_rx_buffer_tail m ! client_idx client"

definition rx_slot :: "u8 \<Rightarrow> machine \<Rightarrow> nat \<Rightarrow> u8" where
  "rx_slot client m i = serial_rx_buffer m ! client_idx client ! i"

text \<open>The comparison and the subtractions are computed in \<open>int\<close> and returned as a byte.\<close>

definition serial_get_rx_buffer_available :: "u8 \<Rightarrow> machine \<Rightarrow> u8" where
  "serial_get_rx_buffer_available client m =
     (let rtail = rx_tail client m in
      if rtail \<le> rx_head client m
      then word_of_int (int RX_BUFFER_SIZE - (uint (rx_head client m) - uint rtail))
      else word_of_int (uint rtail - uint (rx_head client m) - 1))"

text \<open>Taking the byte at the tail; the index advances with the promoted comparison of
  \<open>ring_next\<close>.\<close>

definition serial_rx_pop :: "u8 \<Rightarrow> machine \<Rightarrow> machine" where
  "serial_rx_pop client m = m\<lparr>serial_rx_buffer_tail :=
     (serial_rx_buffer_tail m)[client_idx client := ring_next RX_RING_BUFFER (rx_tail client m)]\<rparr>"

definition serial_read :: "u8 \<Rightarrow> machine \<Rightarrow> u8 \<times> machine" where
  "serial_read client m =
     (let tail = rx_tail client m in
      if rx_head client m = tail then (SERIAL_NO_DATA, m)
      else (rx_slot client m (unat tail), serial_rx_pop client m))"

definition serial_reset_read_buffer :: "u8 \<Rightarrow> machine \<Rightarrow> machine" where
  "serial_reset_read_buffer client m =
     fold (\<lambda>client_num m. if client = client_num \<or> client = CLIENT_ALL
         then m\<lparr>serial_rx_buffer_tail := (serial_rx_buffer_tail m)[client_idx client_num := rx_head client_num m]\<rparr> else m)
       [1, 2, 3] m"

definition serial_rx_push :: "u8 \<Rightarrow> u8 \<Rightarrow> machine \<Rightarrow> machine" where
  "serial_rx_push client data m =
     (let i = client_idx client; h = rx_head client m in
      m\<lparr>serial_rx_buffer := (serial_rx_buffer m)[i := (serial_rx_buffer m ! i)[unat h := data]],
        serial_rx_buffer_head := (serial_rx_buffer_head m)[i := ring_next RX_RING_BUFFER h]\<rparr>)"

text \<open>A character for the line buffer is dropped when the ring is full.\<close>

definition serial_store :: "u8 \<Rightarrow> u8 \<Rightarrow> machine \<Rightarrow> machine" where
  "serial_store client data m =
     (if ring_next RX_RING_BUFFER (rx_head client m) \<noteq> rx_tail client m then serial_rx_push client data m else m)"

text \<open>The realtime commands above ASCII.\<close>

definition serial_extended :: "u8 \<Rightarrow> machine \<Rightarrow> machine" where
  "serial_extended data m =
     (if data = CMD_SAFETY_DOOR then system_set_exec_state_flag EXEC_SAFETY_DOOR m
      else if data = CMD_JOG_CANCEL then
        (if sys_state (sys m) AND STATE_JOG \<noteq> 0 then system_set_exec_state_flag EXEC_MOTION_CANCEL m else m)
      else if data = CMD_FEED_OVR_RESET then system_set_exec_motion_override_flag EXEC_FEED_OVR_RESET m
      else if data = CMD_FEED_OVR_COARSE_PLUS then system_set_exec_motion_override_flag EXEC_FEED_OVR_COARSE_PLUS m
      else if data = CMD_FEED_OVR_COARSE_MINUS then system_set_exec_motion_override_flag EXEC_FEED_OVR_COARSE_MINUS m
      else if data = CMD_FEED_OVR_FINE_PLUS then system_set_exec_motion_override_flag EXEC_FEED_OVR_FINE_PLUS m
      else if data = CMD_FEED_OVR_FINE_MINUS then system_set_exec_motion_override_flag EXEC_FEED_OVR_FINE_MINUS m
      else if data = CMD_RAPID_OVR_RESET then system_set_exec_motion_override_flag EXEC_RAPID_OVR_RESET m
      else if data = CMD_RAPID_OVR_MEDIUM then system_set_exec_motion_override_flag EXEC_RAPID_OVR_MEDIUM m
      else if data = CMD_RAPID_OVR_LOW then system_set_exec_motion_override_flag EXEC_RAPID_OVR_LOW m
      else if data = CMD_SPINDLE_OVR_RESET then system_set_exec_accessory_override_flag EXEC_SPINDLE_OVR_RESET m
      else if data = CMD_SPINDLE_OVR_COARSE_PLUS then system_set_exec_accessory_override_flag EXEC_SPINDLE_OVR_COARSE_PLUS m
      else if data = CMD_SPINDLE_OVR_COARSE_MINUS then system_set_exec_accessory_override_flag EXEC_SPINDLE_OVR_COARSE_MINUS m
      else if data = CMD_SPINDLE_OVR_FINE_PLUS then system_set_exec_accessory_override_flag EXEC_SPINDLE_OVR_FINE_PLUS m
      else if data = CMD_SPINDLE_OVR_FINE_MINUS then system_set_exec_accessory_override_flag EXEC_SPINDLE_OVR_FINE_MINUS m
      else if data = CMD_SPINDLE_OVR_STOP then system_set_exec_accessory_override_flag EXEC_SPINDLE_OVR_STOP m
      else if data = CMD_COOLANT_FLOOD_OVR_TOGGLE then system_set_exec_accessory_override_flag EXEC_COOLANT_FLOOD_OVR_TOGGLE m
      else m)"

definition serial_rx_byte :: "u8 \<times> u8 \<Rightarrow> machine \<Rightarrow> machine" where
  "serial_rx_byte = (\<lambda>(client, data) m.
     if data = CMD_RESET then mc_reset m
     else if data = CMD_STATUS_REPORT then report_realtime_status client m
     else if data = CMD_CYCLE_START then system_set_exec_state_flag EXEC_CYCLE_START m
     else if data = CMD_FEED_HOLD then system_set_exec_state_flag EXEC_FEED_HOLD m
     else if 0x7F < data then serial_extended data m
     else serial_store client data m)"

definition serial_poll_rx :: "(u8 \<times> u8) list \<Rightarrow> machine \<Rightarrow> machine" where
  "serial_poll_rx bytes m = fold serial_rx_byte bytes m"

section \<open>Serving interrupts\<close>

definition run_event :: "event \<Rightarrow> machine \<Rightarrow> machine" where
  "run_event e m =
     (case e of
        Ev_rx bytes \<Rightarrow> serial_poll_rx bytes m
      | Ev_step \<Rightarrow> if timer1_enabled m then TIMER1_COMPA_vect m else m
      | Ev_step_reset \<Rightarrow> TIMER0_OVF_vect m
      | Ev_limit_pin pins \<Rightarrow> if limit_isr_attached m then pin_limit_vect pins m else m
      | Ev_control_pin pins \<Rightarrow> pin_control_vect pins m)"

definition poll :: "machine \<Rightarrow> machine option" where
  "poll m = (case sched m of [] \<Rightarrow> None | es # rest \<Rightarrow> Some (fold run_event es (m\<lparr>sched := rest\<rparr>)))"

end
