(* ===== verification/Protocol_RT.thy ===== *)
theory Protocol_RT
  imports Interrupts
begin

text \<open>
  The realtime executor of \<^verbatim>\<open>protocol.cpp\<close>: \<^verbatim>\<open>protocol_exec_rt_system\<close>, the state machine that
  turns the flags set by the interrupts into changes of state, and \<^verbatim>\<open>protocol_exec_rt_suspend\<close>,
  the loop in which a held machine waits. The executor is one function of the source; here each
  of its \<^verbatim>\<open>if\<close> blocks is a definition, in the order of the code, with \<open>rt_exec\<close> the copy of the
  flags the code took. A function that waits has no result when the schedule of interrupts ends
  before the wait does.
\<close>

section \<open>Positions (system.cpp, gcode.cpp)\<close>

definition system_convert_axis_steps_to_mpos :: "i32 list \<Rightarrow> nat \<Rightarrow> machine \<Rightarrow> f32" where
  "system_convert_axis_steps_to_mpos steps idx m =
     f32_div (f32_of_int (sint (steps ! idx))) (steps_per_mm (settings m) ! idx)"

definition system_convert_array_steps_to_mpos :: "i32 list \<Rightarrow> machine \<Rightarrow> f32 list" where
  "system_convert_array_steps_to_mpos steps m =
     map (\<lambda>idx. system_convert_axis_steps_to_mpos steps idx m) [0..<N_AXIS]"

definition gc_sync_position :: "machine \<Rightarrow> machine" where
  "gc_sync_position m = m\<lparr>gc_state := (gc_state m)
     \<lparr>gs_position := system_convert_array_steps_to_mpos (sys_position m) m\<rparr>\<rparr>"

section \<open>The realtime executor\<close>

text \<open>An alarm stops the machine; a limit alarm waits for a reset.\<close>

partial_function (option) wait_reset :: "machine \<Rightarrow> machine option" where
  "wait_reset m =
     (case poll m of None \<Rightarrow> None
      | Some m \<Rightarrow> if bit_isfalse (sys_rt_exec_state m) EXEC_RESET then wait_reset m else Some m)"

definition rt_alarm :: "machine \<Rightarrow> machine option" where
  "rt_alarm m =
     (let rt_exec = sys_rt_exec_alarm m in
      if rt_exec \<noteq> 0 then
        let m = set_state STATE_ALARM m; m = report (Alarm_message rt_exec) m
        in map_option system_clear_exec_alarm
            (if rt_exec = EXEC_ALARM_HARD_LIMIT \<or> rt_exec = EXEC_ALARM_SOFT_LIMIT then
               wait_reset (system_clear_exec_state_flag EXEC_RESET (report (Feedback_message MESSAGE_CRITICAL_EVENT) m))
             else Some m)
      else Some m)"

text \<open>A request to hold: motion cancel, feed hold, safety door or sleep.\<close>

definition rt_hold_motion :: "u8 \<Rightarrow> machine \<Rightarrow> machine" where
  "rt_hold_motion rt_exec m =
     (let m = (if sys_state (sys m) AND (STATE_CYCLE OR STATE_JOG) \<noteq> 0
                 \<and> sys_suspend (sys m) AND (SUSPEND_MOTION_CANCEL OR SUSPEND_JOG_CANCEL) = 0 then
                 let m = set_step_control STEP_CONTROL_EXECUTE_HOLD (st_update_plan_block_parameters m)
                 in if sys_state (sys m) = STATE_JOG \<and> rt_exec AND EXEC_SLEEP = 0
                    then set_suspend (sys_suspend (sys m) OR SUSPEND_JOG_CANCEL) m else m
               else m)
      in if sys_state (sys m) = STATE_IDLE then set_suspend SUSPEND_HOLD_COMPLETE m else m)"

definition rt_motion_cancel :: "u8 \<Rightarrow> machine \<Rightarrow> machine" where
  "rt_motion_cancel rt_exec m =
     (if rt_exec AND EXEC_MOTION_CANCEL \<noteq> 0 \<and> sys_state (sys m) AND STATE_JOG = 0
      then set_suspend (sys_suspend (sys m) OR SUSPEND_MOTION_CANCEL) m else m)"

definition rt_feed_hold :: "u8 \<Rightarrow> machine \<Rightarrow> machine" where
  "rt_feed_hold rt_exec m =
     (if rt_exec AND EXEC_FEED_HOLD \<noteq> 0 \<and> sys_state (sys m) AND (STATE_SAFETY_DOOR OR STATE_JOG OR STATE_SLEEP) = 0
      then set_state STATE_HOLD m else m)"

definition rt_safety_door :: "u8 \<Rightarrow> machine \<Rightarrow> machine" where
  "rt_safety_door rt_exec m =
     (if rt_exec AND EXEC_SAFETY_DOOR \<noteq> 0 then
        let m = report (Feedback_message MESSAGE_SAFETY_DOOR_AJAR) m;
            m = (if sys_suspend (sys m) AND SUSPEND_JOG_CANCEL = 0 then
                   let m = (if sys_state (sys m) = STATE_SAFETY_DOOR \<and> sys_suspend (sys m) AND SUSPEND_INITIATE_RESTORE \<noteq> 0 then
                              set_suspend ((sys_suspend (sys m) AND
                                  NOT (SUSPEND_RETRACT_COMPLETE OR SUSPEND_INITIATE_RESTORE OR SUSPEND_RESTORE_COMPLETE))
                                OR SUSPEND_RESTART_RETRACT) m
                            else m)
                   in if sys_state (sys m) \<noteq> STATE_SLEEP then set_state STATE_SAFETY_DOOR m else m
                 else m)
        in set_suspend (sys_suspend (sys m) OR SUSPEND_SAFETY_DOOR_AJAR) m
      else m)"

definition rt_sleep :: "u8 \<Rightarrow> machine \<Rightarrow> machine" where
  "rt_sleep rt_exec m =
     (if rt_exec AND EXEC_SLEEP \<noteq> 0 then
        set_state STATE_SLEEP
          (if sys_state (sys m) = STATE_ALARM
           then set_suspend (sys_suspend (sys m) OR (SUSPEND_RETRACT_COMPLETE OR SUSPEND_HOLD_COMPLETE)) m else m)
      else m)"

definition EXEC_HOLDS :: u8 where
  "EXEC_HOLDS = EXEC_MOTION_CANCEL OR EXEC_FEED_HOLD OR EXEC_SAFETY_DOOR OR EXEC_SLEEP"

definition rt_hold :: "u8 \<Rightarrow> machine \<Rightarrow> machine" where
  "rt_hold rt_exec m =
     (if rt_exec AND EXEC_HOLDS \<noteq> 0 then
        let m = (if sys_state (sys m) AND (STATE_ALARM OR STATE_CHECK_MODE) = 0 then
                   rt_safety_door rt_exec (rt_feed_hold rt_exec (rt_motion_cancel rt_exec (rt_hold_motion rt_exec m)))
                 else m);
            m = rt_sleep rt_exec m
        in system_clear_exec_state_flag EXEC_HOLDS m
      else m)"

text \<open>A cycle start: a closed door restores the machine first; an idle or held machine runs its
  queued blocks.\<close>

definition rt_door_resume :: "machine \<Rightarrow> machine" where
  "rt_door_resume m =
     (if sys_state (sys m) = STATE_SAFETY_DOOR \<and> sys_suspend (sys m) AND SUSPEND_SAFETY_DOOR_AJAR = 0 then
        (if sys_suspend (sys m) AND SUSPEND_RESTORE_COMPLETE \<noteq> 0 then set_state STATE_IDLE m
         else if sys_suspend (sys m) AND SUSPEND_RETRACT_COMPLETE \<noteq> 0
         then set_suspend (sys_suspend (sys m) OR SUSPEND_INITIATE_RESTORE) m else m)
      else m)"

definition rt_run_cycle :: "machine \<Rightarrow> machine option" where
  "rt_run_cycle m =
     (if sys_state (sys m) = STATE_IDLE
         \<or> sys_state (sys m) AND STATE_HOLD \<noteq> 0 \<and> sys_suspend (sys m) AND SUSPEND_HOLD_COMPLETE \<noteq> 0 then
        (if sys_state (sys m) = STATE_HOLD \<and> sys_spindle_stop_ovr (sys m) \<noteq> 0 then
           Some (upd_sys (\<lambda>s. s\<lparr>sys_spindle_stop_ovr := sys_spindle_stop_ovr s OR SPINDLE_STOP_OVR_RESTORE_CYCLE\<rparr>) m)
         else
           let m = set_step_control STEP_CONTROL_NORMAL_OP m in
           if plan_get_current_block m \<noteq> None \<and> bit_isfalse (sys_suspend (sys m)) SUSPEND_MOTION_CANCEL then
             map_option st_wake_up (st_prep_buffer (set_state STATE_CYCLE (set_suspend SUSPEND_DISABLE m)))
           else Some (set_state STATE_IDLE (set_suspend SUSPEND_DISABLE m)))
      else Some m)"

definition rt_cycle_start :: "u8 \<Rightarrow> machine \<Rightarrow> machine option" where
  "rt_cycle_start rt_exec m =
     (if rt_exec AND EXEC_CYCLE_START \<noteq> 0 then
        map_option (system_clear_exec_state_flag EXEC_CYCLE_START)
          (if rt_exec AND (EXEC_FEED_HOLD OR EXEC_MOTION_CANCEL OR EXEC_SAFETY_DOOR) = 0
           then rt_run_cycle (rt_door_resume m) else Some m)
      else Some m)"

text \<open>A cycle stop, which the stepper interrupt raises when it runs out of segments.\<close>

definition rt_hold_done :: "machine \<Rightarrow> machine" where
  "rt_hold_done m =
     (let m = plan_cycle_reinitialize m;
          m = (if sys_step_control (sys m) AND STEP_CONTROL_EXECUTE_HOLD \<noteq> 0
               then set_suspend (sys_suspend (sys m) OR SUSPEND_HOLD_COMPLETE) m else m)
      in set_step_control (bit_false (sys_step_control (sys m))
           (STEP_CONTROL_EXECUTE_HOLD OR STEP_CONTROL_EXECUTE_SYS_MOTION)) m)"

definition rt_motion_done :: "machine \<Rightarrow> machine" where
  "rt_motion_done m =
     (let m = (if sys_suspend (sys m) AND SUSPEND_JOG_CANCEL \<noteq> 0
               then plan_sync_position (gc_sync_position (st_reset (plan_reset (set_step_control STEP_CONTROL_NORMAL_OP m))))
               else m)
      in if sys_suspend (sys m) AND SUSPEND_SAFETY_DOOR_AJAR \<noteq> 0 then
           set_state STATE_SAFETY_DOOR
             (set_suspend ((sys_suspend (sys m) AND NOT SUSPEND_JOG_CANCEL) OR SUSPEND_HOLD_COMPLETE) m)
         else set_state STATE_IDLE (set_suspend SUSPEND_DISABLE m))"

definition rt_cycle_stop :: "u8 \<Rightarrow> machine \<Rightarrow> machine" where
  "rt_cycle_stop rt_exec m =
     (if rt_exec AND EXEC_CYCLE_STOP \<noteq> 0 then
        system_clear_exec_state_flag EXEC_CYCLE_STOP
          (if sys_state (sys m) AND (STATE_HOLD OR STATE_SAFETY_DOOR OR STATE_SLEEP) \<noteq> 0 \<and> \<not> sys_soft_limit (sys m)
              \<and> sys_suspend (sys m) AND SUSPEND_JOG_CANCEL = 0
           then rt_hold_done m else rt_motion_done m)
      else m)"

text \<open>The overrides. The new values are bytes: each addition and subtraction wraps before the
  result is clamped.\<close>

definition clamp_override :: "u8 \<Rightarrow> u8 \<Rightarrow> u8 \<Rightarrow> u8" where
  "clamp_override lo hi v = max (min v hi) lo"

definition new_feed_override :: "u8 \<Rightarrow> u8 \<Rightarrow> u8" where
  "new_feed_override rt_exec v =
     (let v = (if rt_exec AND EXEC_FEED_OVR_RESET \<noteq> 0 then DEFAULT_FEED_OVERRIDE else v);
          v = (if rt_exec AND EXEC_FEED_OVR_COARSE_PLUS \<noteq> 0 then v + FEED_OVERRIDE_COARSE_INCREMENT else v);
          v = (if rt_exec AND EXEC_FEED_OVR_COARSE_MINUS \<noteq> 0 then v - FEED_OVERRIDE_COARSE_INCREMENT else v);
          v = (if rt_exec AND EXEC_FEED_OVR_FINE_PLUS \<noteq> 0 then v + FEED_OVERRIDE_FINE_INCREMENT else v);
          v = (if rt_exec AND EXEC_FEED_OVR_FINE_MINUS \<noteq> 0 then v - FEED_OVERRIDE_FINE_INCREMENT else v)
      in clamp_override MIN_FEED_RATE_OVERRIDE MAX_FEED_RATE_OVERRIDE v)"

definition new_rapid_override :: "u8 \<Rightarrow> u8 \<Rightarrow> u8" where
  "new_rapid_override rt_exec v =
     (let v = (if rt_exec AND EXEC_RAPID_OVR_RESET \<noteq> 0 then DEFAULT_RAPID_OVERRIDE else v);
          v = (if rt_exec AND EXEC_RAPID_OVR_MEDIUM \<noteq> 0 then RAPID_OVERRIDE_MEDIUM else v)
      in if rt_exec AND EXEC_RAPID_OVR_LOW \<noteq> 0 then RAPID_OVERRIDE_LOW else v)"

definition rt_motion_overrides :: "machine \<Rightarrow> machine" where
  "rt_motion_overrides m =
     (let rt_exec = sys_rt_exec_motion_override m in
      if rt_exec \<noteq> 0 then
        let m = system_clear_exec_motion_overrides m;
            f = new_feed_override rt_exec (sys_f_override (sys m));
            r = new_rapid_override rt_exec (sys_r_override (sys m))
        in if f \<noteq> sys_f_override (sys m) \<or> r \<noteq> sys_r_override (sys m) then
             plan_cycle_reinitialize (plan_update_velocity_profile_parameters
               (upd_sys (\<lambda>s. s\<lparr>sys_f_override := f, sys_r_override := r, sys_report_ovr_counter := 0\<rparr>) m))
           else m
      else m)"

definition new_spindle_override :: "u8 \<Rightarrow> u8 \<Rightarrow> u8" where
  "new_spindle_override rt_exec v =
     (let v = (if rt_exec AND EXEC_SPINDLE_OVR_RESET \<noteq> 0 then DEFAULT_SPINDLE_SPEED_OVERRIDE else v);
          v = (if rt_exec AND EXEC_SPINDLE_OVR_COARSE_PLUS \<noteq> 0 then v + SPINDLE_OVERRIDE_COARSE_INCREMENT else v);
          v = (if rt_exec AND EXEC_SPINDLE_OVR_COARSE_MINUS \<noteq> 0 then v - SPINDLE_OVERRIDE_COARSE_INCREMENT else v);
          v = (if rt_exec AND EXEC_SPINDLE_OVR_FINE_PLUS \<noteq> 0 then v + SPINDLE_OVERRIDE_FINE_INCREMENT else v);
          v = (if rt_exec AND EXEC_SPINDLE_OVR_FINE_MINUS \<noteq> 0 then v - SPINDLE_OVERRIDE_FINE_INCREMENT else v)
      in clamp_override MIN_SPINDLE_SPEED_OVERRIDE MAX_SPINDLE_SPEED_OVERRIDE v)"

definition rt_spindle_override :: "u8 \<Rightarrow> machine \<Rightarrow> machine" where
  "rt_spindle_override rt_exec m =
     (let v = new_spindle_override rt_exec (sys_spindle_speed_ovr (sys m)) in
      if v \<noteq> sys_spindle_speed_ovr (sys m) then
        let m = upd_sys (\<lambda>s. s\<lparr>sys_spindle_speed_ovr := v\<rparr>) m;
            m = (if sys_state (sys m) = STATE_IDLE
                 then spindle_set_state (gm_spindle (gs_modal (gc_state m))) (gs_spindle_speed (gc_state m)) m
                 else set_step_control (bit_true (sys_step_control (sys m)) STEP_CONTROL_UPDATE_SPINDLE_PWM) m)
        in upd_sys (\<lambda>s. s\<lparr>sys_report_ovr_counter := 0\<rparr>) m
      else m)"

definition rt_spindle_stop :: "u8 \<Rightarrow> machine \<Rightarrow> machine" where
  "rt_spindle_stop rt_exec m =
     (if rt_exec AND EXEC_SPINDLE_OVR_STOP \<noteq> 0 \<and> sys_state (sys m) = STATE_HOLD then
        (if sys_spindle_stop_ovr (sys m) = 0
         then upd_sys (\<lambda>s. s\<lparr>sys_spindle_stop_ovr := SPINDLE_STOP_OVR_INITIATE\<rparr>) m
         else if sys_spindle_stop_ovr (sys m) AND SPINDLE_STOP_OVR_ENABLED \<noteq> 0
         then upd_sys (\<lambda>s. s\<lparr>sys_spindle_stop_ovr := sys_spindle_stop_ovr s OR SPINDLE_STOP_OVR_RESTORE\<rparr>) m
         else m)
      else m)"

definition set_modal_coolant :: "u8 \<Rightarrow> machine \<Rightarrow> machine" where
  "set_modal_coolant v m = m\<lparr>gc_state := (gc_state m)\<lparr>gs_modal := (gs_modal (gc_state m))\<lparr>gm_coolant := v\<rparr>\<rparr>\<rparr>"

definition rt_coolant_toggle :: "u8 \<Rightarrow> machine \<Rightarrow> machine" where
  "rt_coolant_toggle rt_exec m =
     (if rt_exec AND (EXEC_COOLANT_FLOOD_OVR_TOGGLE OR EXEC_COOLANT_MIST_OVR_TOGGLE) \<noteq> 0
         \<and> (sys_state (sys m) = STATE_IDLE \<or> sys_state (sys m) AND (STATE_CYCLE OR STATE_HOLD OR STATE_JOG) \<noteq> 0) then
        let coolant_state = gm_coolant (gs_modal (gc_state m));
            coolant_state = (if coolant_state AND COOLANT_FLOOD_ENABLE \<noteq> 0
                             then bit_false coolant_state COOLANT_FLOOD_ENABLE
                             else coolant_state OR COOLANT_FLOOD_ENABLE)
        in set_modal_coolant coolant_state (coolant_set_state coolant_state m)
      else m)"

definition rt_accessory_overrides :: "machine \<Rightarrow> machine" where
  "rt_accessory_overrides m =
     (let rt_exec = sys_rt_exec_accessory_override m in
      if rt_exec \<noteq> 0 then
        rt_coolant_toggle rt_exec (rt_spindle_stop rt_exec (rt_spindle_override rt_exec
          (system_clear_exec_accessory_overrides m)))
      else m)"

text \<open>A machine in motion refills the segment buffer.\<close>

definition rt_reload :: "machine \<Rightarrow> machine option" where
  "rt_reload m =
     (if sys_state (sys m) AND (STATE_CYCLE OR STATE_HOLD OR STATE_SAFETY_DOOR OR STATE_HOMING OR STATE_SLEEP OR STATE_JOG) \<noteq> 0
      then st_prep_buffer m else Some m)"

text \<open>The flags are read once; a reset leaves at once with the abort flag set.\<close>

definition rt_status_report :: "u8 \<Rightarrow> machine \<Rightarrow> machine" where
  "rt_status_report rt_exec m =
     (if rt_exec AND EXEC_STATUS_REPORT \<noteq> 0
      then system_clear_exec_state_flag EXEC_STATUS_REPORT (report_realtime_status CLIENT_ALL m) else m)"

definition rt_exec_flags :: "u8 \<Rightarrow> machine \<Rightarrow> machine option" where
  "rt_exec_flags rt_exec m =
     (if rt_exec = 0 then Some m
      else map_option (rt_cycle_stop rt_exec)
             (rt_cycle_start rt_exec (rt_hold rt_exec (rt_status_report rt_exec m))))"

definition protocol_exec_rt_system :: "machine \<Rightarrow> machine option" where
  "protocol_exec_rt_system m =
     (case rt_alarm m of None \<Rightarrow> None
      | Some m \<Rightarrow>
        let rt_exec = sys_rt_exec_state m in
        if rt_exec AND EXEC_RESET \<noteq> 0 then Some (upd_sys (\<lambda>s. s\<lparr>sys_abort := True\<rparr>) m)
        else (case rt_exec_flags rt_exec m of None \<Rightarrow> None
              | Some m \<Rightarrow> rt_reload (rt_accessory_overrides (rt_motion_overrides m))))"

section \<open>Delays (nuts\_bolts.cpp)\<close>

text \<open>\<^verbatim>\<open>delay_sec\<close> runs the executor between steps of \<^verbatim>\<open>DWELL_TIME_STEP\<close> milliseconds: all of it
  in a dwell, and \<^verbatim>\<open>protocol_exec_rt_system\<close> only when the suspend loop waits. The executor is an
  argument, as the suspend loop is defined after this.\<close>

definition delay_steps :: "f32 \<Rightarrow> nat" where
  "delay_steps seconds =
     unat (to_u16 (fpd_ceil (f32_dec (f32_mul (f32_of_int (int (1000 div DWELL_TIME_STEP))) seconds))))"

primrec delay_loop :: "(machine \<Rightarrow> machine option) \<Rightarrow> nat \<Rightarrow> nat \<Rightarrow> machine \<Rightarrow> machine option" where
  "delay_loop realtime mode 0 m = Some m"
| "delay_loop realtime mode (Suc i) m =
     (if sys_abort (sys m) then Some m
      else case realtime m of None \<Rightarrow> None
      | Some m \<Rightarrow>
        if mode \<noteq> DELAY_MODE_DWELL \<and> sys_suspend (sys m) AND SUSPEND_RESTART_RETRACT \<noteq> 0 then Some m
        else (case poll m of None \<Rightarrow> None | Some m \<Rightarrow> delay_loop realtime mode i m))"

section \<open>The suspend loop\<close>

text \<open>Four seconds for the spindle and one for the coolant.\<close>

abbreviation (input) SAFETY_DOOR_SPINDLE_DELAY :: f32 where "SAFETY_DOOR_SPINDLE_DELAY \<equiv> 0x40800000"
abbreviation (input) SAFETY_DOOR_COOLANT_DELAY :: f32 where "SAFETY_DOOR_COOLANT_DELAY \<equiv> 0x3F800000"

text \<open>The spindle and coolant to restore after the hold.\<close>

definition suspend_restore_state :: "machine \<Rightarrow> u8 \<times> f32" where
  "suspend_restore_state m =
     (case plan_get_current_block m of
        None \<Rightarrow> (gm_spindle (gs_modal (gc_state m)) OR gm_coolant (gs_modal (gc_state m)), gs_spindle_speed (gc_state m))
      | Some b \<Rightarrow> ((pb_condition (block_at m b) AND PL_COND_SPINDLE_MASK) OR coolant_get_state m,
                   pb_spindle_speed (block_at m b)))"

definition suspend_deenergize :: "machine \<Rightarrow> machine" where
  "suspend_deenergize m = coolant_set_state COOLANT_DISABLE (spindle_set_state SPINDLE_DISABLE 0 m)"

definition suspend_retract :: "machine \<Rightarrow> machine" where
  "suspend_retract m =
     (let m = upd_sys (\<lambda>s. s\<lparr>sys_spindle_stop_ovr := SPINDLE_STOP_OVR_DISABLED\<rparr>) m;
          m = suspend_deenergize m
      in set_suspend ((sys_suspend (sys m) AND NOT SUSPEND_RESTART_RETRACT) OR SUSPEND_RETRACT_COMPLETE) m)"

partial_function (option) sleep_loop :: "machine \<Rightarrow> machine option" where
  "sleep_loop m =
     (if sys_abort (sys m) then Some m
      else case protocol_exec_rt_system m of None \<Rightarrow> None
      | Some m \<Rightarrow> case poll m of None \<Rightarrow> None | Some m \<Rightarrow> sleep_loop m)"

definition suspend_spindle_on :: "u8 \<Rightarrow> f32 \<Rightarrow> machine \<Rightarrow> machine" where
  "suspend_spindle_on cond speed m =
     spindle_set_state (cond AND (PL_COND_FLAG_SPINDLE_CW OR PL_COND_FLAG_SPINDLE_CCW)) speed m"

definition update_spindle_pwm :: "machine \<Rightarrow> machine" where
  "update_spindle_pwm m = set_step_control (bit_true (sys_step_control (sys m)) STEP_CONTROL_UPDATE_SPINDLE_PWM) m"

definition restore_spindle :: "u8 \<Rightarrow> f32 \<Rightarrow> machine \<Rightarrow> machine option" where
  "restore_spindle cond speed m =
     (if gm_spindle (gs_modal (gc_state m)) \<noteq> SPINDLE_DISABLE \<and> bit_isfalse (sys_suspend (sys m)) SUSPEND_RESTART_RETRACT then
        (if bit_istrue (flags (settings m)) BITFLAG_LASER_MODE then Some (update_spindle_pwm m)
         else delay_loop protocol_exec_rt_system DELAY_MODE_SYS_SUSPEND (delay_steps SAFETY_DOOR_SPINDLE_DELAY)
                (suspend_spindle_on cond speed m))
      else Some m)"

definition restore_coolant :: "u8 \<Rightarrow> machine \<Rightarrow> machine option" where
  "restore_coolant cond m =
     (if gm_coolant (gs_modal (gc_state m)) \<noteq> COOLANT_DISABLE \<and> bit_isfalse (sys_suspend (sys m)) SUSPEND_RESTART_RETRACT then
        delay_loop protocol_exec_rt_system DELAY_MODE_SYS_SUSPEND (delay_steps SAFETY_DOOR_COOLANT_DELAY)
          (coolant_set_state (cond AND (PL_COND_FLAG_COOLANT_FLOOD OR PL_COND_FLAG_COOLANT_MIST)) m)
      else Some m)"

definition restore_done :: "machine \<Rightarrow> machine" where
  "restore_done m =
     (if bit_isfalse (sys_suspend (sys m)) SUSPEND_RESTART_RETRACT
      then system_set_exec_state_flag EXEC_CYCLE_START (set_suspend (sys_suspend (sys m) OR SUSPEND_RESTORE_COMPLETE) m)
      else m)"

definition suspend_restore :: "u8 \<Rightarrow> f32 \<Rightarrow> machine \<Rightarrow> machine option" where
  "suspend_restore cond speed m =
     (case restore_spindle cond speed m of None \<Rightarrow> None
      | Some m \<Rightarrow> map_option restore_done (restore_coolant cond m))"

text \<open>The door closes at once, as no door input is configured.\<close>

definition suspend_parked :: "u8 \<Rightarrow> f32 \<Rightarrow> machine \<Rightarrow> machine option" where
  "suspend_parked cond speed m =
     (let m = (if sys_state (sys m) = STATE_SAFETY_DOOR \<and> \<not> system_check_safety_door_ajar m
               then set_suspend (sys_suspend (sys m) AND NOT SUSPEND_SAFETY_DOOR_AJAR) m else m)
      in if sys_suspend (sys m) AND SUSPEND_INITIATE_RESTORE \<noteq> 0 then suspend_restore cond speed m else Some m)"

definition suspend_spindle_stop :: "u8 \<Rightarrow> f32 \<Rightarrow> machine \<Rightarrow> machine" where
  "suspend_spindle_stop cond speed m =
     (let ovr = sys_spindle_stop_ovr (sys m); set_ovr = (\<lambda>v. upd_sys (\<lambda>s. s\<lparr>sys_spindle_stop_ovr := v\<rparr>)) in
      if ovr AND SPINDLE_STOP_OVR_INITIATE \<noteq> 0 then
        (if gm_spindle (gs_modal (gc_state m)) \<noteq> SPINDLE_DISABLE
         then set_ovr SPINDLE_STOP_OVR_ENABLED (spindle_set_state SPINDLE_DISABLE 0 m)
         else set_ovr SPINDLE_STOP_OVR_DISABLED m)
      else if ovr AND (SPINDLE_STOP_OVR_RESTORE OR SPINDLE_STOP_OVR_RESTORE_CYCLE) \<noteq> 0 then
        let m = (if gm_spindle (gs_modal (gc_state m)) \<noteq> SPINDLE_DISABLE then
                   let m = report (Feedback_message MESSAGE_SPINDLE_RESTORE) m
                   in if bit_istrue (flags (settings m)) BITFLAG_LASER_MODE then update_spindle_pwm m
                      else suspend_spindle_on cond speed m
                 else m);
            m = (if sys_spindle_stop_ovr (sys m) AND SPINDLE_STOP_OVR_RESTORE_CYCLE \<noteq> 0
                 then system_set_exec_state_flag EXEC_CYCLE_START m else m)
        in set_ovr SPINDLE_STOP_OVR_DISABLED m
      else m)"

definition suspend_feed_hold :: "u8 \<Rightarrow> f32 \<Rightarrow> machine \<Rightarrow> machine" where
  "suspend_feed_hold cond speed m =
     (if sys_spindle_stop_ovr (sys m) \<noteq> 0 then suspend_spindle_stop cond speed m
      else if bit_istrue (sys_step_control (sys m)) STEP_CONTROL_UPDATE_SPINDLE_PWM then
        let m = suspend_spindle_on cond speed m
        in set_step_control (bit_false (sys_step_control (sys m)) STEP_CONTROL_UPDATE_SPINDLE_PWM) m
      else m)"

text \<open>One round of the loop up to the executor call; the boolean is false in the sleep state,
  where the round ends the loop.\<close>

definition suspend_round :: "u8 \<Rightarrow> f32 \<Rightarrow> machine \<Rightarrow> (bool \<times> machine) option" where
  "suspend_round cond speed m =
     (if sys_suspend (sys m) AND SUSPEND_HOLD_COMPLETE \<noteq> 0 then
        (if sys_state (sys m) AND (STATE_SAFETY_DOOR OR STATE_SLEEP) \<noteq> 0 then
           (if bit_isfalse (sys_suspend (sys m)) SUSPEND_RETRACT_COMPLETE then Some (True, suspend_retract m)
            else if sys_state (sys m) = STATE_SLEEP then
              map_option (Pair False)
                (sleep_loop (st_go_idle (suspend_deenergize (report (Feedback_message MESSAGE_SLEEP_MODE) m))))
            else map_option (Pair True) (suspend_parked cond speed m))
         else Some (True, suspend_feed_hold cond speed m))
      else Some (True, m))"

partial_function (option) suspend_loop :: "u8 \<Rightarrow> f32 \<Rightarrow> machine \<Rightarrow> machine option" where
  "suspend_loop cond speed m =
     (if sys_suspend (sys m) = 0 then Some m
      else if sys_abort (sys m) then Some m
      else case suspend_round cond speed m of None \<Rightarrow> None
      | Some (continue, m) \<Rightarrow>
        if \<not> continue then Some m
        else case protocol_exec_rt_system m of None \<Rightarrow> None
        | Some m \<Rightarrow> case poll m of None \<Rightarrow> None | Some m \<Rightarrow> suspend_loop cond speed m)"

definition protocol_exec_rt_suspend :: "machine \<Rightarrow> machine option" where
  "protocol_exec_rt_suspend m =
     (let (cond, speed) = suspend_restore_state m;
          m = (if bit_istrue (flags (settings m)) BITFLAG_LASER_MODE
               then system_set_exec_accessory_override_flag EXEC_SPINDLE_OVR_STOP m else m)
      in suspend_loop cond speed m)"

section \<open>The check points of the main program\<close>

definition protocol_execute_realtime :: "machine \<Rightarrow> machine option" where
  "protocol_execute_realtime m =
     (case protocol_exec_rt_system m of None \<Rightarrow> None
      | Some m \<Rightarrow> if sys_suspend (sys m) \<noteq> 0 then protocol_exec_rt_suspend m else Some m)"

definition protocol_auto_cycle_start :: "machine \<Rightarrow> machine" where
  "protocol_auto_cycle_start m =
     (if plan_get_current_block m \<noteq> None then system_set_exec_state_flag EXEC_CYCLE_START m else m)"

partial_function (option) synchronize_loop :: "machine \<Rightarrow> machine option" where
  "synchronize_loop m =
     (case protocol_execute_realtime m of None \<Rightarrow> None
      | Some m \<Rightarrow>
        if sys_abort (sys m) then Some m
        else case poll m of None \<Rightarrow> None
        | Some m \<Rightarrow>
          if plan_get_current_block m \<noteq> None \<or> sys_state (sys m) = STATE_CYCLE
          then synchronize_loop m else Some m)"

definition protocol_buffer_synchronize :: "machine \<Rightarrow> machine option" where
  "protocol_buffer_synchronize m = synchronize_loop (protocol_auto_cycle_start m)"

definition delay_sec :: "f32 \<Rightarrow> nat \<Rightarrow> machine \<Rightarrow> machine option" where
  "delay_sec seconds mode m =
     delay_loop (if mode = DELAY_MODE_DWELL then protocol_execute_realtime else protocol_exec_rt_system)
       mode (delay_steps seconds) m"

end
