(* ===== verification/Stepper_Facts.thy ===== *)
theory Stepper_Facts
  imports Stepper Planner_Facts
begin

text \<open>
  What the step interrupts do. The segment buffer is a bounded queue. The Bresenham counter of
  an axis carries exactly the steps not yet made, so that a block whose segments add up to its
  event count moves every axis by exactly its steps, whatever smoothing levels the segments use,
  and leaves the counter where it started.
\<close>

section \<open>One axis\<close>

definition axis_next :: "u32 \<Rightarrow> u32 \<Rightarrow> bool \<Rightarrow> u32 \<times> i32 \<Rightarrow> u32 \<times> i32" where
  "axis_next e inc neg = (\<lambda>(c, p). let c = c + inc in
     if e < c then (c - e, if neg then p - 1 else p + 1) else (c, p))"

text \<open>The counter and the position of an axis.\<close>

definition axis_of :: "nat \<Rightarrow> machine \<Rightarrow> u32 \<times> i32" where
  "axis_of idx m = (st_counter (stepper m) ! idx, sys_position m ! idx)"

definition block_neg :: "st_block_t \<Rightarrow> nat \<Rightarrow> bool" where
  "block_neg b idx \<longleftrightarrow> sb_direction_bits b AND push_bit idx 1 \<noteq> 0"

definition axes_complete :: "machine \<Rightarrow> bool" where
  "axes_complete m \<longleftrightarrow> length (st_counter (stepper m)) = N_AXIS \<and> length (sys_position m) = N_AXIS"

lemma step_axis_same:
  "axes_complete m \<Longrightarrow> idx < N_AXIS \<Longrightarrow>
   axis_of idx (step_axis b idx m) =
     axis_next (sb_step_event_count b) (st_steps (stepper m) ! idx) (block_neg b idx) (axis_of idx m)"
  by (simp add: step_axis_def axis_next_def axis_of_def axes_complete_def block_neg_def Let_def)

lemma step_axis_other: "i \<noteq> idx \<Longrightarrow> axis_of i (step_axis b idx m) = axis_of i m"
  by (simp add: step_axis_def axis_of_def Let_def)

lemma step_axis_complete [simp]: "axes_complete (step_axis b idx m) = axes_complete m"
  by (simp add: step_axis_def axes_complete_def Let_def)

lemma step_axis_frame [simp]:
  "st_steps (stepper (step_axis b idx m)) = st_steps (stepper m)"
  "st_exec_block (stepper (step_axis b idx m)) = st_exec_block (stepper m)"
  "st_step_count (stepper (step_axis b idx m)) = st_step_count (stepper m)"
  "st_block_buffer (step_axis b idx m) = st_block_buffer m"
  by (simp_all add: step_axis_def Let_def)

lemma fold_step_axis_frame [simp]:
  "st_steps (stepper (fold (step_axis b) is m)) = st_steps (stepper m)"
  "st_exec_block (stepper (fold (step_axis b) is m)) = st_exec_block (stepper m)"
  "st_step_count (stepper (fold (step_axis b) is m)) = st_step_count (stepper m)"
  "st_block_buffer (fold (step_axis b) is m) = st_block_buffer m"
  "axes_complete (fold (step_axis b) is m) = axes_complete m"
  by (induction "is" arbitrary: m) simp_all

lemma fold_step_axis_other:
  "idx \<notin> set is \<Longrightarrow> axis_of idx (fold (step_axis b) is m) = axis_of idx m"
  by (induction "is" arbitrary: m) (auto simp: step_axis_other)

lemma fold_step_axis:
  assumes "axes_complete m" "idx < N_AXIS"
  shows "axis_of idx (fold (step_axis b) [0..<N_AXIS] m) =
    axis_next (sb_step_event_count b) (st_steps (stepper m) ! idx) (block_neg b idx) (axis_of idx m)"
proof -
  have "[0..<N_AXIS] = [0..<idx] @ idx # [idx + 1..<N_AXIS]"
    using assms(2) upt_add_eq_append [of 0 idx "N_AXIS - idx"] upt_conv_Cons [of idx N_AXIS] by simp
  then show ?thesis
    using assms by (simp add: fold_step_axis_other step_axis_same)
qed

lemma axes_complete_fold:
  "length (st_counter (stepper (fold (step_axis b) is m))) = length (st_counter (stepper m))"
  "length (sys_position (fold (step_axis b) is m)) = length (sys_position m)"
  by (induction "is" arbitrary: m) (simp_all add: step_axis_def Let_def)

section \<open>One tick\<close>

text \<open>The block a tick executes.\<close>

definition exec_block :: "machine \<Rightarrow> st_block_t" where
  "exec_block m = st_block_buffer m ! unat (the (st_exec_block (stepper m)))"

lemma probe_state_monitor_frame [simp]:
  "stepper (probe_state_monitor m) = stepper m" "sys_position (probe_state_monitor m) = sys_position m"
  "st_block_buffer (probe_state_monitor m) = st_block_buffer m"
  by (simp_all add: probe_state_monitor_def)

lemma axis_of_cong:
  "st_counter (stepper m) = st_counter (stepper m') \<Longrightarrow> sys_position m = sys_position m' \<Longrightarrow>
   axis_of idx m = axis_of idx m'"
  by (simp add: axis_of_def)

lemma execute_step_axis:
  assumes "axes_complete m" "idx < N_AXIS"
  shows "axis_of idx (execute_step m) =
    axis_next (sb_step_event_count (exec_block m)) (st_steps (stepper m) ! idx)
      (block_neg (exec_block m) idx) (axis_of idx m)"
proof -
  let ?m = "(if sys_probe_state m = PROBE_ACTIVE then probe_state_monitor m else m)"
  let ?k = "?m\<lparr>stepper := (stepper ?m)\<lparr>st_step_outbits := 0\<rparr>\<rparr>"
  have "axis_of idx (execute_step m) = axis_of idx (fold (step_axis (exec_block m)) [0..<N_AXIS] ?k)"
    by (rule axis_of_cong) (simp_all add: execute_step_def finish_step_def exec_block_def st_pop_segment_def Let_def)
  also have "\<dots> = axis_next (sb_step_event_count (exec_block m)) (st_steps (stepper ?k) ! idx)
      (block_neg (exec_block m) idx) (axis_of idx ?k)"
    using assms by (intro fold_step_axis) (simp_all add: axes_complete_def)
  finally show ?thesis by (simp add: axis_of_def)
qed

lemma execute_step_frame:
  "axes_complete m \<Longrightarrow> axes_complete (execute_step m)"
  "st_steps (stepper (execute_step m)) = st_steps (stepper m)"
  "exec_block (execute_step m) = exec_block m"
  "st_step_count (stepper (execute_step m)) = st_step_count (stepper m) - 1"
  by (simp_all add: execute_step_def finish_step_def exec_block_def axes_complete_def st_pop_segment_def Let_def
      axes_complete_fold)

section \<open>Many ticks\<close>

lemma axis_next_count:
  assumes "unat e < 2 ^ 31" "0 < unat c" "unat c \<le> unat e" "unat inc \<le> unat e"
  shows "\<exists>c' n. axis_next e inc neg (c, p) = (c', if neg then p - of_nat n else p + of_nat n)
    \<and> 0 < unat c' \<and> unat c' \<le> unat e \<and> unat c + unat inc = unat c' + n * unat e"
proof -
  have s: "unat (c + inc) = unat c + unat inc"
    using assms by (simp add: unat_word_ariths)
  show ?thesis
  proof (cases "e < c + inc")
    case True
    then have "unat (c + inc - e) = unat (c + inc) - unat e" "unat e < unat (c + inc)"
      using unat_sub [of e "c + inc"] by (simp_all add: word_less_nat_alt word_le_nat_alt)
    then show ?thesis using True s assms
      by (intro exI [of _ "c + inc - e"] exI [of _ 1]) (simp add: axis_next_def Let_def)
  next
    case False
    then show ?thesis using s assms
      by (intro exI [of _ "c + inc"] exI [of _ 0]) (simp add: axis_next_def Let_def word_less_nat_alt)
  qed
qed

text \<open>The ticks of a segment of \<open>n\<close> steps at smoothing level \<open>l\<close>, after the interrupt has loaded
  its increments.\<close>

definition load_increments :: "nat \<Rightarrow> machine \<Rightarrow> machine" where
  "load_increments l m = m\<lparr>stepper := (stepper m)\<lparr>st_steps := map (drop_bit l) (sb_steps (exec_block m))\<rparr>\<rparr>"

definition run_segment :: "nat \<times> nat \<Rightarrow> machine \<Rightarrow> machine" where
  "run_segment = (\<lambda>(n, l) m. (execute_step ^^ (n * 2 ^ l)) (load_increments l m))"

definition axis_moved :: "bool \<Rightarrow> i32 \<Rightarrow> nat \<Rightarrow> i32" where
  "axis_moved neg p n = (if neg then p - of_nat n else p + of_nat n)"

lemma axis_moved_add: "axis_moved neg (axis_moved neg p n) k = axis_moved neg p (n + k)"
  by (simp add: axis_moved_def algebra_simps)

lemma execute_steps_axis:
  assumes "axes_complete m" "idx < N_AXIS" "axis_of idx m = (c, p)"
    "unat (sb_step_event_count (exec_block m)) < 2 ^ 31" "0 < unat c"
    "unat c \<le> unat (sb_step_event_count (exec_block m))"
    "unat (st_steps (stepper m) ! idx) \<le> unat (sb_step_event_count (exec_block m))"
  shows "axes_complete ((execute_step ^^ k) m) \<and> exec_block ((execute_step ^^ k) m) = exec_block m
    \<and> st_steps (stepper ((execute_step ^^ k) m)) = st_steps (stepper m)
    \<and> (\<exists>c' n. axis_of idx ((execute_step ^^ k) m) = (c', axis_moved (block_neg (exec_block m) idx) p n)
      \<and> 0 < unat c' \<and> unat c' \<le> unat (sb_step_event_count (exec_block m))
      \<and> unat c + k * unat (st_steps (stepper m) ! idx) = unat c' + n * unat (sb_step_event_count (exec_block m)))"
proof (induction k)
  case 0
  then show ?case using assms by (auto simp: axis_moved_def intro!: exI [of _ c] exI [of _ 0])
next
  case (Suc k)
  let ?m = "(execute_step ^^ k) m" and ?e = "sb_step_event_count (exec_block m)"
  let ?inc = "st_steps (stepper m) ! idx" and ?neg = "block_neg (exec_block m) idx"
  from Suc obtain c' n where IH: "axes_complete ?m" "exec_block ?m = exec_block m"
      "st_steps (stepper ?m) = st_steps (stepper m)" "axis_of idx ?m = (c', axis_moved ?neg p n)"
      "0 < unat c'" "unat c' \<le> unat ?e" "unat c + k * unat ?inc = unat c' + n * unat ?e"
    by blast
  obtain c'' j where step: "axis_next ?e ?inc ?neg (c', axis_moved ?neg p n) = (c'', axis_moved ?neg (axis_moved ?neg p n) j)"
      "0 < unat c''" "unat c'' \<le> unat ?e" "unat c' + unat ?inc = unat c'' + j * unat ?e"
    using axis_next_count [OF assms(4) IH(5,6) assms(7), of ?neg "axis_moved ?neg p n"]
    unfolding axis_moved_def by blast
  have "axis_of idx (execute_step ?m) = (c'', axis_moved ?neg p (n + j))"
    using execute_step_axis [OF IH(1) assms(2)] IH step(1) by (simp add: axis_moved_add)
  moreover have "unat c + Suc k * unat ?inc = unat c'' + (n + j) * unat ?e"
    using IH(7) step(4) by (simp add: algebra_simps)
  ultimately show ?case
    using step(2,3) IH by (auto simp: execute_step_frame)
qed

section \<open>A whole block\<close>

text \<open>The block data is the planner's scaled by the highest level; the increments of a level
  divide it again without loss.\<close>

lemma unat_scaled: "unat (x :: u32) < 2 ^ 28 \<Longrightarrow> unat (push_bit MAX_AMASS_LEVEL x) = 8 * unat x"
  by (simp add: push_bit_eq_mult unat_word_ariths)

lemma unat_drop_bit_div: "unat (drop_bit l (y :: u32)) = unat y div 2 ^ l"
  by (subst unat_drop_bit_eq, rule drop_bit_eq_div)

lemma unat_increment:
  assumes "unat (x :: u32) < 2 ^ 28" "l \<le> MAX_AMASS_LEVEL"
  shows "2 ^ l * unat (drop_bit l (push_bit MAX_AMASS_LEVEL x)) = 8 * unat x"
proof -
  have "l \<in> {0, 1, 2, 3}" using assms(2) by auto
  then show ?thesis
    using unat_scaled [OF assms(1)] unfolding unat_drop_bit_div by auto
qed

definition scaled_block :: "st_block_t \<Rightarrow> u32 list \<Rightarrow> u32 \<Rightarrow> bool" where
  "scaled_block b steps n \<longleftrightarrow> length steps = N_AXIS \<and> sb_steps b = map (push_bit MAX_AMASS_LEVEL) steps
     \<and> sb_step_event_count b = push_bit MAX_AMASS_LEVEL n \<and> 0 < n \<and> unat n < 2 ^ 28
     \<and> (\<forall>s\<in>set steps. s \<le> n)"

lemma load_increments_frame [simp]:
  "exec_block (load_increments l m) = exec_block m" "axes_complete (load_increments l m) = axes_complete m"
  "axis_of idx (load_increments l m) = axis_of idx m"
  "st_steps (stepper (load_increments l m)) = map (drop_bit l) (sb_steps (exec_block m))"
  by (simp_all add: load_increments_def exec_block_def axes_complete_def axis_of_def)

lemma run_segments:
  assumes "axes_complete m" "idx < N_AXIS" "axis_of idx m = (c, p)" "scaled_block (exec_block m) steps e"
    "0 < unat c" "unat c \<le> 8 * unat e" "\<forall>(n, l)\<in>set segs. l \<le> MAX_AMASS_LEVEL"
  shows "axes_complete (fold run_segment segs m) \<and> exec_block (fold run_segment segs m) = exec_block m
    \<and> (\<exists>c' n. axis_of idx (fold run_segment segs m) = (c', axis_moved (block_neg (exec_block m) idx) p n)
      \<and> 0 < unat c' \<and> unat c' \<le> 8 * unat e
      \<and> unat c + sum_list (map fst segs) * (8 * unat (steps ! idx)) = unat c' + n * (8 * unat e))"
  using assms
proof (induction segs arbitrary: m c p)
  case Nil
  then show ?case by (auto simp: axis_moved_def intro!: exI [of _ c] exI [of _ 0])
next
  case (Cons seg segs)
  obtain n l where seg: "seg = (n, l)" by fastforce
  let ?b = "exec_block m" and ?k = "load_increments l m" and ?neg = "block_neg (exec_block m) idx"
  let ?m = "run_segment (n, l) m" and ?inc = "drop_bit l (push_bit MAX_AMASS_LEVEL (steps ! idx))"
  have b: "unat e < 2 ^ 28" "sb_step_event_count ?b = push_bit MAX_AMASS_LEVEL e"
    "unat (steps ! idx) \<le> unat e" "length steps = N_AXIS" "sb_steps ?b = map (push_bit MAX_AMASS_LEVEL) steps"
    using Cons.prems(2,4) by (auto simp: scaled_block_def word_le_nat_alt)
  then have e: "unat (sb_step_event_count ?b) = 8 * unat e" by (simp only: unat_scaled)
  have inc: "2 ^ l * unat ?inc = 8 * unat (steps ! idx)"
    using b Cons.prems(7) seg by (intro unat_increment) auto
  have "1 * unat ?inc \<le> 2 ^ l * unat ?inc" by (rule mult_right_mono) simp_all
  then have "unat ?inc \<le> 8 * unat e" using b(3) inc by linarith
  moreover have st: "st_steps (stepper ?k) ! idx = ?inc" using b(4,5) Cons.prems(2) by simp
  ultimately have run: "axes_complete ?m \<and> exec_block ?m = ?b
    \<and> (\<exists>c' j. axis_of idx ?m = (c', axis_moved ?neg p j) \<and> 0 < unat c' \<and> unat c' \<le> 8 * unat e
      \<and> unat c + n * 2 ^ l * unat ?inc = unat c' + j * (8 * unat e))"
    using execute_steps_axis [of ?k idx c p "n * 2 ^ l"] Cons.prems b(1) e
    by (simp add: run_segment_def)
  then obtain c' j where r: "axes_complete ?m" "exec_block ?m = ?b" "axis_of idx ?m = (c', axis_moved ?neg p j)"
      "0 < unat c'" "unat c' \<le> 8 * unat e"
      "unat c + n * (2 ^ l * unat ?inc) = unat c' + j * (8 * unat e)"
    unfolding mult.assoc by blast
  have "scaled_block (exec_block ?m) steps e" using Cons.prems(4) r(2) by simp
  from Cons.IH [OF r(1) Cons.prems(2) r(3) this r(4,5)] Cons.prems(7)
  obtain c'' i where i: "axes_complete (fold run_segment segs ?m)" "exec_block (fold run_segment segs ?m) = ?b"
      "axis_of idx (fold run_segment segs ?m) = (c'', axis_moved ?neg (axis_moved ?neg p j) i)"
      "0 < unat c''" "unat c'' \<le> 8 * unat e"
      "unat c' + sum_list (map fst segs) * (8 * unat (steps ! idx)) = unat c'' + i * (8 * unat e)"
    unfolding r(2) list.set by blast
  have "unat c + (n + sum_list (map fst segs)) * (8 * unat (steps ! idx)) = unat c'' + (j + i) * (8 * unat e)"
    using r(6) i(6) inc by (simp add: algebra_simps)
  then show ?case
    using i unfolding seg fold_Cons comp_def list.map fst_conv sum_list.Cons axis_moved_add by blast
qed

lemma counter_unique:
  assumes "0 < (c :: nat)" "c \<le> k" "0 < c'" "c' \<le> k" "c + s * k = c' + n * k"
  shows "n = s \<and> c' = c"
proof -
  have "\<bar>int c - int c'\<bar> < int k" using assms by auto
  moreover have "int c - int c' = (int n - int s) * int k"
    using assms(5) by (simp add: algebra_simps) (metis of_nat_add of_nat_mult)
  ultimately have "\<bar>int n - int s\<bar> * int k < 1 * int k" by (simp add: abs_mult)
  then have "\<bar>int n - int s\<bar> < 1" by (rule mult_right_less_imp_less) simp
  then have "n = s" by simp
  then show ?thesis using assms(5) by simp
qed

lemma block_steps_exact:
  assumes "axes_complete m" "idx < N_AXIS" "scaled_block (exec_block m) steps e"
    and "st_counter (stepper m) ! idx = drop_bit 1 (sb_step_event_count (exec_block m))"
    and "\<forall>(n, l)\<in>set segs. l \<le> MAX_AMASS_LEVEL" "sum_list (map fst segs) = unat e"
  shows "sys_position (fold run_segment segs m) ! idx =
      axis_moved (block_neg (exec_block m) idx) (sys_position m ! idx) (unat (steps ! idx))"
    and "st_counter (stepper (fold run_segment segs m)) ! idx = st_counter (stepper m) ! idx"
proof -
  let ?c = "st_counter (stepper m) ! idx"
  have e: "unat e < 2 ^ 28" "0 < unat e" "sb_step_event_count (exec_block m) = push_bit MAX_AMASS_LEVEL e"
    using assms(3) by (auto simp: scaled_block_def unat_gt_0 word_neq_0_conv)
  have c: "unat ?c = 4 * unat e"
    using assms(4) e(3) unat_scaled [OF e(1)] by (simp only: unat_drop_bit_div) simp
  have "axis_of idx m = (?c, sys_position m ! idx)" by (simp add: axis_of_def)
  from run_segments [OF assms(1,2) this assms(3) _ _ assms(5)] c e(2) assms(6)
  obtain c' n where r: "axis_of idx (fold run_segment segs m) =
        (c', axis_moved (block_neg (exec_block m) idx) (sys_position m ! idx) n)"
      "0 < unat c'" "unat c' \<le> 8 * unat e"
      "unat ?c + unat e * (8 * unat (steps ! idx)) = unat c' + n * (8 * unat e)"
    by auto
  then have "n = unat (steps ! idx) \<and> unat c' = unat ?c"
    using c e(2) by (intro counter_unique [of _ "8 * unat e"]) (simp_all add: algebra_simps)
  then show "sys_position (fold run_segment segs m) ! idx =
      axis_moved (block_neg (exec_block m) idx) (sys_position m ! idx) (unat (steps ! idx))"
    and "st_counter (stepper (fold run_segment segs m)) ! idx = ?c"
    using r(1) by (auto simp: axis_of_def word_unat_eq_iff)
qed

section \<open>The segment buffer\<close>

abbreviation "in_seg (i :: u8) \<equiv> unat i < SEGMENT_BUFFER_SIZE"

text \<open>The segment being executed is the tail of a buffer that is not empty.\<close>

definition seg_wf :: "machine \<Rightarrow> bool" where
  "seg_wf m \<longleftrightarrow> length (segment_buffer m) = SEGMENT_BUFFER_SIZE
     \<and> in_seg (segment_buffer_head m) \<and> in_seg (segment_buffer_tail m)
     \<and> segment_next_head m = ring_next SEGMENT_BUFFER_SIZE (segment_buffer_head m)
     \<and> (st_exec_segment (stepper m) = None \<or>
        st_exec_segment (stepper m) = Some (segment_buffer_tail m) \<and> segment_buffer_head m \<noteq> segment_buffer_tail m)"

text \<open>The ring part alone, which is the queue's invariant.\<close>

definition seg_ring :: "machine \<Rightarrow> bool" where
  "seg_ring m \<longleftrightarrow> length (segment_buffer m) = SEGMENT_BUFFER_SIZE
     \<and> in_seg (segment_buffer_head m) \<and> in_seg (segment_buffer_tail m)
     \<and> segment_next_head m = ring_next SEGMENT_BUFFER_SIZE (segment_buffer_head m)"

lemma seg_wf_ring: "seg_wf m \<Longrightarrow> seg_ring m"
  by (simp add: seg_wf_def seg_ring_def)

lemma unat_seg_next: "in_seg i \<Longrightarrow> unat (ring_next SEGMENT_BUFFER_SIZE i) = (unat i + 1) mod SEGMENT_BUFFER_SIZE"
  using unat_ring_next_small [of SEGMENT_BUFFER_SIZE i] by simp

interpretation segq: ring_buffer SEGMENT_BUFFER_SIZE seg_ring "\<lambda>m. unat (segment_buffer_head m)"
  "\<lambda>m. unat (segment_buffer_tail m)" "\<lambda>m i. segment_buffer m ! i"
  "\<lambda>s m. st_push_segment (upd_segment (\<lambda>_. s) m)" st_pop_segment
  by unfold_locales
    (auto simp: seg_ring_def st_push_segment_def upd_segment_def st_pop_segment_def Let_def unat_seg_next
      nth_list_update)

text \<open>The generator's other steps leave the ring and the stepper alone.\<close>

definition seg_same :: "machine \<Rightarrow> machine \<Rightarrow> bool" where
  "seg_same m m' \<longleftrightarrow> length (segment_buffer m') = length (segment_buffer m)
     \<and> segment_buffer_head m' = segment_buffer_head m \<and> segment_buffer_tail m' = segment_buffer_tail m
     \<and> segment_next_head m' = segment_next_head m \<and> stepper m' = stepper m"

lemma seg_same_trans: "seg_same a b \<Longrightarrow> seg_same b c \<Longrightarrow> seg_same a c"
  by (simp add: seg_same_def)

lemma seg_same_wf: "seg_same m m' \<Longrightarrow> seg_wf m' = seg_wf m"
  by (simp add: seg_same_def seg_wf_def)

lemma seg_same_basic [simp]:
  "seg_same m m" "seg_same m (upd_prep f m)" "seg_same m (set_block i g m)" "seg_same m (upd_segment h m)"
  "seg_same m (set_step_control c m)" "seg_same m (m\<lparr>pl_block := b\<rparr>)" "seg_same m (m\<lparr>prep := q\<rparr>)"
  "seg_same m (set_spindle_speed v m)" "seg_same m (plan_discard_current_block m)"
  by (simp_all add: seg_same_def upd_prep_def set_block_def upd_segment_def Let_def set_spindle_speed_def
      plan_discard_current_block_def)

lemma seg_same_load_block: "seg_same m (st_load_block b m)"
  by (simp add: st_load_block_def st_copy_block_def seg_same_def upd_prep_def set_block_def Let_def)

lemma seg_same_profile: "seg_same m (st_block_profile b m)"
  by (simp add: st_block_profile_def seg_same_def upd_prep_def Let_def)

lemma seg_same_fetch: "seg_same m (fst (st_fetch_block m))"
  using seg_same_load_block seg_same_profile
  by (auto simp: st_fetch_block_def Let_def seg_same_def upd_prep_def split: option.split)

lemma seg_same_spindle: "seg_same m (segment_spindle b m)"
proof -
  have "seg_same m (snd (spindle_compute_pwm_value rpm m))" for rpm
    using spindle_compute_frame [of rpm m] by auto
  then show ?thesis
    by (auto simp: segment_spindle_def Let_def case_prod_beta seg_same_def upd_prep_def upd_segment_def
        set_spindle_speed_def)
qed

lemma seg_wf_push:
  "seg_wf m \<Longrightarrow> segment_buffer_tail m \<noteq> segment_next_head m \<Longrightarrow> seg_wf (st_push_segment m)"
  by (auto simp: seg_wf_def st_push_segment_def Let_def unat_seg_next)

lemma seg_same_check_exit: "seg_same m (snd (st_check_exit b mm m))"
  using seg_same_trans [OF seg_same_basic(6) [of m None] seg_same_basic(9)]
  by (simp add: st_check_exit_def)

lemma seg_wf_keep: "seg_wf m \<Longrightarrow> seg_same m m' \<Longrightarrow> seg_wf m'"
  using seg_same_wf by blast

lemma seg_wf_emit:
  assumes "seg_wf m" "segment_buffer_tail m \<noteq> segment_next_head m"
  shows "seg_wf (snd (st_emit_segment b dt mm m))"
proof -
  have s: "seg_same m (upd_segment f (upd_segment g (segment_spindle b m)))" for f g
    by (rule seg_same_trans [OF seg_same_spindle seg_same_trans [OF seg_same_basic(4) seg_same_basic(4)]])
  have w: "seg_wf (st_push_segment (upd_segment f (upd_segment g (segment_spindle b m))))" for f g
    using seg_wf_keep [OF assms(1) s [of f g]] s [of f g] assms(2)
    by (intro seg_wf_push) (simp_all add: seg_same_def)
  have v: "seg_wf (snd (st_check_exit b mm (upd_prep h (set_block b k
      (st_push_segment (upd_segment f (upd_segment g (segment_spindle b m))))))))" for f g h k
    by (rule seg_wf_keep [OF w seg_same_trans [OF seg_same_basic(3)
          seg_same_trans [OF seg_same_basic(2) seg_same_check_exit]]])
  have u: "seg_wf (set_step_control c (upd_segment g (segment_spindle b m)))" for c g
    by (rule seg_wf_keep [OF assms(1) seg_same_trans [OF seg_same_spindle
          seg_same_trans [OF seg_same_basic(4) seg_same_basic(5)]]])
  show ?thesis using u v by (simp add: st_emit_segment_def Let_def)
qed

lemma seg_wf_make_segment:
  assumes "seg_wf m" "segment_buffer_tail m \<noteq> segment_next_head m" "st_make_segment b m = Some (c, m')"
  shows "seg_wf m'"
proof -
  let ?m1 = "upd_segment (\<lambda>s. s\<lparr>seg_st_block_index := prep_st_block_index (prep m)\<rparr>) m"
  obtain z where "(case z of (q, dt, mm) \<Rightarrow> st_emit_segment b dt mm (?m1\<lparr>prep := q\<rparr>)) = (c, m')"
    using assms(3) unfolding st_make_segment_def Let_def map_option_eq_Some by blast
  then obtain q dt mm where "st_emit_segment b dt mm (?m1\<lparr>prep := q\<rparr>) = (c, m')"
    by (cases z) auto
  moreover have "seg_same m (?m1\<lparr>prep := q\<rparr>)"
    by (rule seg_same_trans [OF seg_same_basic(4) seg_same_basic(7)])
  ultimately show ?thesis
    using seg_wf_emit [of "?m1\<lparr>prep := q\<rparr>" b dt mm] seg_wf_keep [OF assms(1)] assms(2)
    by (simp add: seg_same_def)
qed

lemma seg_wf_prep_loop:
  assumes "prep_loop m = Some m'"
  shows "seg_wf m \<longrightarrow> seg_wf m'"
proof (rule prep_loop.raw_induct [where P = "\<lambda>m m'. seg_wf m \<longrightarrow> seg_wf m'", OF _ assms])
  fix loop m m'
  assume 1: "\<And>m m'. loop m = Some m' \<Longrightarrow> seg_wf m \<longrightarrow> seg_wf m'"
    "(if segment_buffer_tail m = segment_next_head m then Some m
      else case st_fetch_block m of
             (m, None) \<Rightarrow> Some m
           | (m, Some b) \<Rightarrow>
             (case st_make_segment b m of None \<Rightarrow> None
              | Some (continue, m) \<Rightarrow> (if continue then loop m else Some m))) = Some m'"
  show "seg_wf m \<longrightarrow> seg_wf m'"
  proof
    assume wf: "seg_wf m"
    show "seg_wf m'"
    proof (cases "segment_buffer_tail m = segment_next_head m")
      case True
      then show ?thesis using 1 wf by simp
    next
      case False
      obtain k o' where f: "st_fetch_block m = (k, o')" by fastforce
      then have k: "seg_same m k" using seg_same_fetch [of m] by simp
      then have wk: "seg_wf k" "segment_buffer_tail k \<noteq> segment_next_head k"
        using wf False seg_wf_keep by (auto simp: seg_same_def)
      show ?thesis
      proof (cases o')
        case None
        then show ?thesis using 1 False f wk by simp
      next
        case (Some b)
        then obtain c k' where e: "st_make_segment b k = Some (c, k')"
          using 1 False f by (auto split: option.splits)
        then have "seg_wf k'" using seg_wf_make_segment wk by blast
        then show ?thesis
          using 1(1) [of k' m'] 1(2) False f Some e by (cases c) simp_all
      qed
    qed
  qed
qed

lemma seg_wf_prep_buffer: "st_prep_buffer m = Some m' \<Longrightarrow> seg_wf m \<Longrightarrow> seg_wf m'"
  using seg_wf_prep_loop by (auto simp: st_prep_buffer_def split: if_splits)

section \<open>The step interrupt keeps the segment buffer\<close>

definition seg_view :: "machine \<Rightarrow> nat \<times> u8 \<times> u8 \<times> u8 \<times> u8 option" where
  "seg_view m = (length (segment_buffer m), segment_buffer_head m, segment_buffer_tail m, segment_next_head m,
     st_exec_segment (stepper m))"

lemma seg_wf_view: "seg_view m = seg_view m' \<Longrightarrow> seg_wf m = seg_wf m'"
  by (auto simp: seg_view_def seg_wf_def)

lemma seg_view_fold_step_axis: "seg_view (fold (step_axis b) is m) = seg_view m"
  by (induction "is" arbitrary: m) (simp_all add: step_axis_def seg_view_def Let_def)

lemma seg_wf_execute_step:
  assumes "seg_wf m" "st_exec_segment (stepper m) \<noteq> None"
  shows "seg_wf (execute_step m)"
proof -
  let ?m1 = "(if sys_probe_state m = PROBE_ACTIVE then probe_state_monitor m else m)"
  let ?m2 = "?m1\<lparr>stepper := (stepper ?m1)\<lparr>st_step_outbits := 0\<rparr>\<rparr>"
  let ?m3 = "fold (step_axis (exec_block m)) [0..<N_AXIS] ?m2"
  have v: "seg_view ?m3 = seg_view m"
    unfolding seg_view_fold_step_axis by (simp add: seg_view_def probe_state_monitor_def)
  have "seg_wf (finish_step k)" if "seg_wf k" "st_exec_segment (stepper k) \<noteq> None" for k
    using that by (auto simp: seg_wf_def finish_step_def st_pop_segment_def Let_def unat_seg_next)
  moreover have "seg_wf ?m3" using assms(1) seg_wf_view [OF v] by simp
  moreover have "st_exec_segment (stepper ?m3) \<noteq> None" using assms(2) v by (simp add: seg_view_def)
  ultimately have "seg_wf (finish_step ?m3)" by blast
  then show ?thesis
    by (cases "sys_probe_state m = PROBE_ACTIVE") (simp_all add: execute_step_def exec_block_def Let_def)
qed

lemma seg_wf_timer1:
  assumes "seg_wf m"
  shows "seg_wf (TIMER1_COMPA_vect m)"
proof -
  let ?k = "(spi_write32 (m\<lparr>direction_port := st_dir_outbits (stepper m), step_port := st_step_outbits (stepper m)\<rparr>))\<lparr>busy := True\<rparr>"
  have v: "seg_view ?k = seg_view m" by (simp add: seg_view_def spi_write32_def report_def)
  have k: "seg_wf ?k" using assms seg_wf_view [OF v] by simp
  have idle: "seg_wf (system_set_exec_state_flag EXEC_CYCLE_STOP (st_go_idle ?k))"
    using k seg_wf_view [of ?k "system_set_exec_state_flag EXEC_CYCLE_STOP (st_go_idle ?k)"]
    by (simp add: seg_view_def system_set_exec_state_flag_def st_go_idle_def set_steppers_disable_def
        spi_write32_def report_def Let_def)
  have load: "seg_wf (load_segment ?k)" "st_exec_segment (stepper (load_segment ?k)) \<noteq> None"
    if "segment_buffer_head ?k \<noteq> segment_buffer_tail ?k"
    using k that by (auto simp: seg_wf_def load_segment_def spindle_set_speed_def Let_def)
  show ?thesis
    using assms k idle load seg_wf_execute_step
    by (simp add: TIMER1_COMPA_vect_def Let_def spindle_set_speed_def)
qed

end
