(* ===== verification/Interrupts_Facts.thy ===== *)
theory Interrupts_Facts
  imports Interrupts Stepper_Facts
begin

text \<open>
  The receive buffer of a client is a queue of at most 255 bytes (its 8-bit indices wrap at 256,
  before the declared ring size of 343), realtime commands never enter it, and the bytes of one
  client do not disturb another's. A reset is sticky, and stops the steppers when the machine
  was moving.
\<close>

section \<open>The receive buffer is a queue\<close>

definition rx_wf :: "u8 \<Rightarrow> machine \<Rightarrow> bool" where
  "rx_wf client m \<longleftrightarrow> client \<in> {1, 2, 3} \<and> length (serial_rx_buffer m) = CLIENT_COUNT
     \<and> (\<forall>i<CLIENT_COUNT. length (serial_rx_buffer m ! i) = RX_RING_BUFFER)
     \<and> length (serial_rx_buffer_head m) = CLIENT_COUNT \<and> length (serial_rx_buffer_tail m) = CLIENT_COUNT"

definition RX_CAP :: nat where
  "RX_CAP = 256"

lemma client_idx_less: "client \<in> {1, 2, 3} \<Longrightarrow> client_idx client < CLIENT_COUNT"
  by (auto simp: client_idx_def)

lemma rx_next: "unat (ring_next RX_RING_BUFFER i) = (unat i + 1) mod RX_CAP"
  by (simp add: unat_ring_next_large RX_CAP_def)

lemma u8_less_cap [simp]: "unat (i :: u8) < RX_CAP"
  using unsigned_less [of i, where 'a = nat] by (simp add: RX_CAP_def)

lemma length_nth_update: "i < length xs \<Longrightarrow> length (xs[j := (xs ! j)[h := x]] ! i) = length (xs ! i)"
  by (cases "j = i") simp_all

lemma rx_wf_push [simp]: "rx_wf c m \<Longrightarrow> rx_wf c (serial_rx_push c' x m)"
  by (simp add: rx_wf_def serial_rx_push_def Let_def length_nth_update)

lemma rx_wf_pop [simp]: "rx_wf c m \<Longrightarrow> rx_wf c (serial_rx_pop c' m)"
  by (simp add: rx_wf_def serial_rx_pop_def)

lemma rx_push_index:
  assumes "rx_wf c m"
  shows "rx_head c (serial_rx_push c x m) = ring_next RX_RING_BUFFER (rx_head c m)"
    "rx_tail c (serial_rx_push c x m) = rx_tail c m"
    "i < RX_CAP \<Longrightarrow> rx_slot c (serial_rx_push c x m) i = (if i = unat (rx_head c m) then x else rx_slot c m i)"
proof -
  have i: "client_idx c < CLIENT_COUNT" using assms client_idx_less by (simp add: rx_wf_def)
  have l: "length (serial_rx_buffer m ! client_idx c) = RX_RING_BUFFER"
    using assms i by (simp add: rx_wf_def)
  show "rx_head c (serial_rx_push c x m) = ring_next RX_RING_BUFFER (rx_head c m)"
    "rx_tail c (serial_rx_push c x m) = rx_tail c m"
    using assms i by (simp_all add: rx_wf_def rx_head_def rx_tail_def serial_rx_push_def Let_def)
  show "rx_slot c (serial_rx_push c x m) i = (if i = unat (rx_head c m) then x else rx_slot c m i)"
    if "i < RX_CAP"
  proof -
    have "unat (rx_head c m) < RX_RING_BUFFER"
      using u8_less_cap [of "rx_head c m"] by (simp add: RX_CAP_def)
    then show ?thesis
      using assms i l by (simp add: rx_wf_def rx_slot_def serial_rx_push_def Let_def nth_list_update)
  qed
qed

lemma rx_pop_index:
  assumes "rx_wf c m"
  shows "rx_head c (serial_rx_pop c m) = rx_head c m"
    "rx_tail c (serial_rx_pop c m) = ring_next RX_RING_BUFFER (rx_tail c m)"
    "rx_slot c (serial_rx_pop c m) = rx_slot c m"
  using assms client_idx_less [of c]
  by (simp_all add: rx_wf_def rx_head_def rx_tail_def rx_slot_def serial_rx_pop_def fun_eq_iff)

interpretation rxq: ring_buffer RX_CAP "rx_wf c" "\<lambda>m. unat (rx_head c m)" "\<lambda>m. unat (rx_tail c m)"
  "rx_slot c" "serial_rx_push c" "serial_rx_pop c" for c
  by unfold_locales (simp_all add: rx_push_index rx_pop_index rx_next, simp_all add: RX_CAP_def)

text \<open>The bytes waiting for a client's line.\<close>

definition rx_bytes :: "u8 \<Rightarrow> machine \<Rightarrow> u8 list" where
  "rx_bytes c m = ring_contents RX_CAP (rx_slot c m) (unat (rx_head c m)) (unat (rx_tail c m))"

lemma rx_bytes_bound: "length (rx_bytes c m) \<le> 255"
  using ring_len_less [of RX_CAP "unat (rx_head c m)" "unat (rx_tail c m)"]
  by (simp add: rx_bytes_def RX_CAP_def)

lemma rx_full_iff:
  assumes "rx_wf c m"
  shows "ring_next RX_RING_BUFFER (rx_head c m) = rx_tail c m \<longleftrightarrow> length (rx_bytes c m) = 255"
  using rxq.queue_full_iff [OF assms] by (simp add: rx_bytes_def word_unat_eq_iff rx_next RX_CAP_def)

lemma rx_bytes_store:
  assumes "rx_wf c m"
  shows "rx_bytes c (serial_store c x m) = (if length (rx_bytes c m) = 255 then rx_bytes c m else rx_bytes c m @ [x])"
proof (cases "length (rx_bytes c m) = 255")
  case True
  then show ?thesis using rx_full_iff [OF assms] by (simp add: serial_store_def)
next
  case False
  then have "ring_next RX_RING_BUFFER (rx_head c m) \<noteq> rx_tail c m" using rx_full_iff [OF assms] by simp
  moreover from this have "(unat (rx_head c m) + 1) mod RX_CAP \<noteq> unat (rx_tail c m)"
    using rx_next [of "rx_head c m"] by (simp add: word_unat_eq_iff)
  ultimately show ?thesis
    using rxq.queue_push [OF assms] False by (simp add: serial_store_def rx_bytes_def)
qed

lemma serial_read_queue:
  assumes "rx_wf c m"
  shows "serial_read c m = (case rx_bytes c m of [] \<Rightarrow> (SERIAL_NO_DATA, m) | b # _ \<Rightarrow> (b, serial_rx_pop c m))"
    and "rx_bytes c (snd (serial_read c m)) = tl (rx_bytes c m)"
proof -
  show "serial_read c m = (case rx_bytes c m of [] \<Rightarrow> (SERIAL_NO_DATA, m) | b # _ \<Rightarrow> (b, serial_rx_pop c m))"
  proof (cases "rx_head c m = rx_tail c m")
    case True
    then show ?thesis
      using rxq.queue_empty_iff [OF assms] by (simp add: serial_read_def rx_bytes_def)
  next
    case False
    then show ?thesis
      using rxq.queue_pop [OF assms] by (simp add: serial_read_def rx_bytes_def word_unat_eq_iff)
  qed
  show "rx_bytes c (snd (serial_read c m)) = tl (rx_bytes c m)"
  proof (cases "rx_head c m = rx_tail c m")
    case True
    then show ?thesis
      using rxq.queue_empty_iff [OF assms] by (simp add: serial_read_def rx_bytes_def)
  next
    case False
    then show ?thesis
      using rxq.queue_pop [OF assms] by (simp add: serial_read_def rx_bytes_def word_unat_eq_iff)
  qed
qed

lemma rx_bytes_other:
  assumes "c \<in> {1, 2, 3}" "c' \<in> {1, 2, 3}" "c \<noteq> c'"
  shows "rx_bytes c (serial_store c' x m) = rx_bytes c m"
    "rx_bytes c (snd (serial_read c' m)) = rx_bytes c m"
proof -
  have "client_idx c \<noteq> client_idx c'" using assms by (auto simp: client_idx_def)
  then show "rx_bytes c (serial_store c' x m) = rx_bytes c m"
    "rx_bytes c (snd (serial_read c' m)) = rx_bytes c m"
    by (simp_all add: rx_bytes_def rx_head_def rx_tail_def rx_slot_def [abs_def] serial_store_def serial_rx_push_def
        serial_read_def serial_rx_pop_def Let_def)
qed

text \<open>What the buffer reports as available: right only while the head has wrapped.\<close>

lemma rx_available:
  assumes "rx_wf c m"
  shows "unat (serial_get_rx_buffer_available c m) =
    (if rx_tail c m \<le> rx_head c m then (342 - length (rx_bytes c m)) mod 256 else 255 - length (rx_bytes c m))"
proof -
  let ?h = "unat (rx_head c m)" and ?t = "unat (rx_tail c m)"
  have b: "?h < 256" "?t < 256" using u8_less_cap by (simp_all add: RX_CAP_def)
  have len: "length (rx_bytes c m) = (if ?t \<le> ?h then ?h - ?t else ?h + 256 - ?t)"
    using b by (simp add: rx_bytes_def ring_len_cases RX_CAP_def)
  have w: "unat (word_of_int i :: u8) = nat (i mod 256)" for i
    by (simp add: unsigned_of_int take_bit_eq_mod)
  show ?thesis
  proof (cases "rx_tail c m \<le> rx_head c m")
    case True
    then have le: "?t \<le> ?h" by (simp add: word_le_nat_alt)
    then have "342 - (uint (rx_head c m) - uint (rx_tail c m)) = int (342 - (?h - ?t))"
      using b unfolding uint_nat by simp
    then have "serial_get_rx_buffer_available c m = word_of_int (int (342 - (?h - ?t)))"
      using True by (simp add: serial_get_rx_buffer_available_def Let_def)
    then have "unat (serial_get_rx_buffer_available c m) = (342 - (?h - ?t)) mod 256"
      by (simp only: w flip: of_nat_mod) (simp add: nat_mod_distrib del: of_nat_diff)
    then show ?thesis using True le len by simp
  next
    case False
    then have le: "\<not> ?t \<le> ?h" by (simp add: word_le_nat_alt)
    then have "uint (rx_tail c m) - uint (rx_head c m) - 1 = int (?t - ?h - 1)"
      unfolding uint_nat by simp
    then have "serial_get_rx_buffer_available c m = word_of_int (int (?t - ?h - 1))"
      using False by (simp add: serial_get_rx_buffer_available_def Let_def)
    then have "unat (serial_get_rx_buffer_available c m) = (?t - ?h - 1) mod 256"
      by (simp only: w) (simp add: nat_mod_distrib del: of_nat_diff)
    then show ?thesis using False le len b by simp
  qed
qed

section \<open>Realtime commands\<close>

definition is_realtime :: "u8 \<Rightarrow> bool" where
  "is_realtime d \<longleftrightarrow> d \<in> {CMD_RESET, CMD_STATUS_REPORT, CMD_CYCLE_START, CMD_FEED_HOLD} \<or> 0x7F < d"

definition rx_state :: "machine \<Rightarrow> u8 list list \<times> u8 list \<times> u8 list" where
  "rx_state m = (serial_rx_buffer m, serial_rx_buffer_head m, serial_rx_buffer_tail m)"

lemma rx_state_go_idle [simp]: "rx_state (st_go_idle m) = rx_state m"
  by (simp add: rx_state_def st_go_idle_def set_steppers_disable_def spi_write32_def report_def Let_def)

lemma rx_state_mc_reset [simp]: "rx_state (mc_reset m) = rx_state m"
proof -
  have "rx_state (coolant_stop k) = rx_state k" "rx_state (system_set_exec_alarm a k) = rx_state k"
    "rx_state (system_set_exec_state_flag a k) = rx_state k" "rx_state (spindle_stop k) = rx_state k" for k a
    by (simp_all add: rx_state_def coolant_stop_def exec_flag_defs spindle_stop_def)
  then show ?thesis by (simp add: mc_reset_def Let_def)
qed

lemma rx_state_extended [simp]: "rx_state (serial_extended d m) = rx_state m"
  unfolding serial_extended_def by (simp add: rx_state_def exec_flag_defs)

lemma rx_bytes_state: "rx_state m = rx_state m' \<Longrightarrow> rx_bytes c m = rx_bytes c m'"
  by (simp add: rx_state_def rx_bytes_def rx_head_def rx_tail_def rx_slot_def [abs_def])

lemma rx_wf_state: "rx_state m = rx_state m' \<Longrightarrow> rx_wf c m = rx_wf c m'"
  by (simp add: rx_state_def rx_wf_def)

lemma rx_state_realtime: "is_realtime d \<Longrightarrow> rx_state (serial_rx_byte (c, d) m) = rx_state m"
  unfolding serial_rx_byte_def is_realtime_def
  by (auto simp: report_realtime_status_def report_def exec_flag_defs)
    (simp_all add: rx_state_def)

lemma serial_rx_byte_plain: "\<not> is_realtime d \<Longrightarrow> serial_rx_byte (c, d) m = serial_store c d m"
  by (simp add: serial_rx_byte_def is_realtime_def)

lemma rx_bytes_poll:
  assumes "c \<in> {1, 2, 3}" "rx_wf c m" "\<forall>(c', d)\<in>set bytes. c' \<in> {1, 2, 3}"
    and "length (rx_bytes c m) + length bytes \<le> 255"
  shows "rx_bytes c (serial_poll_rx bytes m) =
    rx_bytes c m @ map snd (filter (\<lambda>(c', d). c' = c \<and> \<not> is_realtime d) bytes)"
  using assms
proof (induction bytes arbitrary: m)
  case Nil
  then show ?case by (simp add: serial_poll_rx_def)
next
  case (Cons cd bytes)
  obtain c' d where cd: "cd = (c', d)" by fastforce
  let ?k = "serial_rx_byte (c', d) m"
  have c': "c' \<in> {1, 2, 3}" using Cons.prems(3) cd by auto
  have k: "rx_wf c ?k \<and> rx_bytes c ?k = rx_bytes c m @ (if c' = c \<and> \<not> is_realtime d then [d] else [])"
  proof (cases "is_realtime d")
    case True
    then show ?thesis
      using rx_bytes_state [OF rx_state_realtime [OF True]] rx_wf_state [OF rx_state_realtime [OF True]]
        Cons.prems(2) by simp
  next
    case False
    have "rx_wf c (serial_store c' d m)" using Cons.prems(2) by (simp add: serial_store_def)
    moreover have "length (rx_bytes c m) \<noteq> 255" using Cons.prems(4) by simp
    ultimately show ?thesis
      using False rx_bytes_store [OF Cons.prems(2)] rx_bytes_other(1) [OF Cons.prems(1) c']
      by (cases "c' = c") (simp_all add: serial_rx_byte_plain)
  qed
  then have "rx_bytes c (serial_poll_rx bytes ?k) = rx_bytes c ?k @
      map snd (filter (\<lambda>(c', d). c' = c \<and> \<not> is_realtime d) bytes)"
    using Cons.prems by (intro Cons.IH) auto
  then show ?case using k by (simp add: serial_poll_rx_def cd)
qed

section \<open>Reset\<close>

definition in_motion :: "machine \<Rightarrow> bool" where
  "in_motion m \<longleftrightarrow> sys_state (sys m) AND (STATE_CYCLE OR STATE_HOMING OR STATE_JOG) \<noteq> 0
     \<or> sys_step_control (sys m) AND (STEP_CONTROL_EXECUTE_HOLD OR STEP_CONTROL_EXECUTE_SYS_MOTION) \<noteq> 0"

lemma go_idle_fields [simp]:
  "timer1_enabled (st_go_idle m) = False" "sys_rt_exec_state (st_go_idle m) = sys_rt_exec_state m"
  "sys_rt_exec_alarm (st_go_idle m) = sys_rt_exec_alarm m" "sys (st_go_idle m) = sys m"
  "step_port (st_go_idle m) = step_port_invert_mask m" "busy (st_go_idle m) = False"
  "step_port_invert_mask (st_go_idle m) = step_port_invert_mask m"
  by (simp_all add: st_go_idle_def set_steppers_disable_def spi_write32_def report_def Let_def)

lemma mc_reset_flag: "bit_istrue (sys_rt_exec_state (mc_reset m)) EXEC_RESET"
proof (cases "bit_istrue (sys_rt_exec_state m) EXEC_RESET")
  case False
  have "bit_istrue (sys_rt_exec_state m OR EXEC_RESET) EXEC_RESET"
    by (simp add: bit_istrue_def bit.conj_disj_distrib2)
  with False show ?thesis
    by (simp add: mc_reset_def Let_def exec_flag_defs spindle_stop_def coolant_stop_def flag_simps)
qed (simp add: mc_reset_def flag_simps)

lemma mc_reset_idem: "mc_reset (mc_reset m) = mc_reset m"
  using mc_reset_flag [of m] by (simp add: mc_reset_def [of "mc_reset m"] flag_simps)

text \<open>A first reset while the machine moves stops the steppers and raises an alarm.\<close>

lemma mc_reset_motion:
  assumes "bit_isfalse (sys_rt_exec_state m) EXEC_RESET" "in_motion m"
  shows "timer1_enabled (mc_reset m) = False"
    and "step_port (mc_reset m) = step_port_invert_mask m"
    and "sys_rt_exec_alarm (mc_reset m) =
      (if sys_state (sys m) = STATE_HOMING
       then (if sys_rt_exec_alarm m = 0 then EXEC_ALARM_HOMING_FAIL_RESET else sys_rt_exec_alarm m)
       else EXEC_ALARM_ABORT_CYCLE)"
  using assms
  by (simp_all add: mc_reset_def in_motion_def Let_def exec_flag_defs spindle_stop_def coolant_stop_def)

lemma mc_reset_still:
  assumes "bit_isfalse (sys_rt_exec_state m) EXEC_RESET" "\<not> in_motion m"
  shows "mc_reset m = coolant_stop (m\<lparr>sys_rt_exec_state := sys_rt_exec_state m OR EXEC_RESET\<rparr>)"
  using assms
  by (simp add: mc_reset_def in_motion_def Let_def exec_flag_defs spindle_stop_def coolant_stop_def)

lemma scan_limit_frame:
  "sys_rt_exec_state (scan_limit_port m) = sys_rt_exec_state m" "sys (scan_limit_port m) = sys m"
  "sys_rt_exec_alarm (scan_limit_port m) = sys_rt_exec_alarm m"
proof -
  have "sys_rt_exec_state (fold (\<lambda>pivot m. if LIMIT_MASK AND pivot \<noteq> 0 then
         let m = m\<lparr>limit_port := (limit_port m OR LIMIT_MASK) AND NOT pivot\<rparr> in report (Spi_write32 0 0 0 (limit_port m)) m
       else m) ps k) = sys_rt_exec_state k \<and>
      sys (fold (\<lambda>pivot m. if LIMIT_MASK AND pivot \<noteq> 0 then
         let m = m\<lparr>limit_port := (limit_port m OR LIMIT_MASK) AND NOT pivot\<rparr> in report (Spi_write32 0 0 0 (limit_port m)) m
       else m) ps k) = sys k \<and>
      sys_rt_exec_alarm (fold (\<lambda>pivot m. if LIMIT_MASK AND pivot \<noteq> 0 then
         let m = m\<lparr>limit_port := (limit_port m OR LIMIT_MASK) AND NOT pivot\<rparr> in report (Spi_write32 0 0 0 (limit_port m)) m
       else m) ps k) = sys_rt_exec_alarm k" for ps k
    by (induction ps arbitrary: k) (simp_all add: report_def Let_def)
  then show "sys_rt_exec_state (scan_limit_port m) = sys_rt_exec_state m" "sys (scan_limit_port m) = sys m"
    "sys_rt_exec_alarm (scan_limit_port m) = sys_rt_exec_alarm m"
    by (simp_all add: scan_limit_port_def)
qed

text \<open>Any edge on the limit input outside an alarm resets the machine, whatever the scan reads.\<close>

lemma pin_limit_alarm:
  assumes "sys_state (sys m) \<noteq> STATE_ALARM" "sys_rt_exec_alarm m = 0"
  shows "sys_rt_exec_alarm (pin_limit_vect pins m) = EXEC_ALARM_HARD_LIMIT
    \<and> bit_istrue (sys_rt_exec_state (pin_limit_vect pins m)) EXEC_RESET"
  using assms mc_reset_flag
  by (simp add: pin_limit_vect_def Let_def report_def scan_limit_frame system_set_exec_alarm_def)

end
