(* ===== verification/Protocol_Facts.thy ===== *)
theory Protocol_Facts
  imports Protocol_RT Interrupts_Facts
begin

text \<open>
  What the realtime executor guarantees: a limit alarm ends in an abort and only a reset ends it,
  every flag is served, the state stays one of the nine states, motion starts only on a cycle
  start the machine may take, and the overrides stay in range. The proofs rest on what the other
  parts leave alone: an interrupt never changes the machine's state, and the segment generator
  and the planner change neither the state nor the flags.
\<close>

section \<open>What the motion code leaves alone\<close>

type_synonym ctl = "u8 \<times> bool \<times> u8 \<times> bool \<times> u8 \<times> u8 \<times> u8 \<times> u8"

definition ctl :: "machine \<Rightarrow> ctl" where
  "ctl m = (let s = sys m in (sys_state s, sys_abort s, sys_suspend s, sys_soft_limit s, sys_f_override s,
     sys_r_override s, sys_spindle_speed_ovr s, sys_spindle_stop_ovr s))"

definition rt_flags :: "machine \<Rightarrow> u8 \<times> u8 \<times> u8 \<times> u8" where
  "rt_flags m = (sys_rt_exec_state m, sys_rt_exec_alarm m, sys_rt_exec_motion_override m, sys_rt_exec_accessory_override m)"

text \<open>What only the main program writes: the store, and the outcome of the last probe.\<close>

definition store :: "machine \<Rightarrow> u8 list \<times> nat \<times> bool" where
  "store m = (eeprom m, eeprom_commits m, sys_probe_succeeded (sys m))"

definition main_view ::
    "machine \<Rightarrow> ctl \<times> (u8 \<times> u8 \<times> u8 \<times> u8) \<times> parser_state_t \<times> settings_t \<times> event list list
     \<times> (u8 list \<times> nat \<times> bool) \<times> u8" where
  "main_view m = (ctl m, rt_flags m, gc_state m, settings m, sched m, store m, sys_probe_state m)"

lemma main_view_ctl: "main_view m = main_view m' \<Longrightarrow> ctl m = ctl m'"
  by (simp add: main_view_def)

lemma main_view_plan_frame: "plan_frame m m' \<Longrightarrow> main_view m' = main_view m"
  by (auto simp: plan_frame_def main_view_def ctl_def rt_flags_def store_def)

lemmas main_defs = main_view_def ctl_def rt_flags_def store_def Let_def

lemma main_view_basic [simp]:
  "main_view (upd_prep f m) = main_view m" "main_view (set_block i g m) = main_view m"
  "main_view (upd_segment h m) = main_view m" "main_view (m\<lparr>pl_block := b\<rparr>) = main_view m"
  "main_view (m\<lparr>prep := q\<rparr>) = main_view m" "main_view (set_spindle_speed v m) = main_view m"
  "main_view (m\<lparr>sys := (sys m)\<lparr>sys_step_control := c\<rparr>\<rparr>) = main_view m"
  "main_view (plan_discard_current_block m) = main_view m" "main_view (st_push_segment m) = main_view m"
  "main_view (st_update_plan_block_parameters m) = main_view m" "main_view (planner_recalculate m) = main_view m"
  "main_view (plan_reset m) = main_view m" "main_view (plan_sync_position m) = main_view m"
  by (simp_all add: upd_prep_def set_block_def upd_segment_def set_spindle_speed_def plan_discard_current_block_def
      st_push_segment_def main_view_plan_frame plan_frame_recalculate)
    (simp_all add: main_defs plan_reset_def plan_reset_buffer_def plan_sync_position_def)

lemma main_view_copy_block: "main_view (st_copy_block b m) = main_view m"
  by (simp add: st_copy_block_def main_defs)

lemma main_view_load_block: "main_view (st_load_block b m) = main_view m"
proof -
  have p: "main_view (k\<lparr>st_block_buffer := s\<rparr>) = main_view k" for k s by (simp add: main_defs)
  have i: "main_view (if c then upd_prep f (x\<lparr>st_block_buffer := s\<rparr>) else x\<lparr>st_block_buffer := s\<rparr>) = main_view x"
    for c f x s by (simp add: p)
  have j: "main_view (if c then upd_prep f (set_block i g (upd_prep h x)) else upd_prep h' x) = main_view x"
    for c f g h h' i x by simp
  show ?thesis
    unfolding st_load_block_def Let_def i j by (simp only: main_view_basic main_view_copy_block)
qed

lemma main_view_profile: "main_view (st_block_profile b m) = main_view m"
  by (simp add: st_block_profile_def main_defs upd_prep_def)

lemma main_view_fetch: "main_view (fst (st_fetch_block m)) = main_view m"
  by (simp add: st_fetch_block_def Let_def main_view_profile main_view_load_block split: option.split)

lemma main_view_spindle: "main_view (segment_spindle b m) = main_view m"
proof -
  have "main_view (snd (spindle_compute_pwm_value rpm m)) = main_view m" for rpm
    using spindle_compute_frame [of rpm m] by auto
  then show ?thesis by (simp add: segment_spindle_def Let_def case_prod_beta)
qed

lemma main_view_check_exit: "main_view (snd (st_check_exit b mm m)) = main_view m"
  by (simp add: st_check_exit_def)

lemma main_view_emit: "main_view (snd (st_emit_segment b dt mm m)) = main_view m"
  by (simp add: st_emit_segment_def Let_def main_view_check_exit main_view_spindle)

lemma main_view_make_segment: "st_make_segment b m = Some (c, m') \<Longrightarrow> main_view m' = main_view m"
proof -
  assume a: "st_make_segment b m = Some (c, m')"
  let ?m1 = "upd_segment (\<lambda>s. s\<lparr>seg_st_block_index := prep_st_block_index (prep m)\<rparr>) m"
  obtain z where "(case z of (q, dt, mm) \<Rightarrow> st_emit_segment b dt mm (?m1\<lparr>prep := q\<rparr>)) = (c, m')"
    using a unfolding st_make_segment_def Let_def map_option_eq_Some by blast
  then obtain q dt mm where "st_emit_segment b dt mm (?m1\<lparr>prep := q\<rparr>) = (c, m')"
    by (cases z) auto
  then have "m' = snd (st_emit_segment b dt mm (?m1\<lparr>prep := q\<rparr>))" by simp
  then show ?thesis by (simp add: main_view_emit)
qed

lemma main_view_prep_loop:
  assumes "prep_loop m = Some m'"
  shows "main_view m' = main_view m"
proof (rule prep_loop.raw_induct [where P = "\<lambda>m m'. main_view m' = main_view m", OF _ assms])
  fix loop m m'
  assume 1: "\<And>m m'. loop m = Some m' \<Longrightarrow> main_view m' = main_view m"
    "(if segment_buffer_tail m = segment_next_head m then Some m
      else case st_fetch_block m of
             (m, None) \<Rightarrow> Some m
           | (m, Some b) \<Rightarrow>
             (case st_make_segment b m of None \<Rightarrow> None
              | Some (continue, m) \<Rightarrow> (if continue then loop m else Some m))) = Some m'"
  obtain k o' where f: "st_fetch_block m = (k, o')" by fastforce
  then have k: "main_view k = main_view m" using main_view_fetch [of m] by simp
  show "main_view m' = main_view m"
  proof (cases "segment_buffer_tail m = segment_next_head m")
    case False
    show ?thesis
    proof (cases o')
      case (Some b)
      then obtain c k' where e: "st_make_segment b k = Some (c, k')"
        using 1 False f by (auto split: option.splits)
      then have "main_view k' = main_view m" using main_view_make_segment k by simp
      then show ?thesis
        using 1(1) [of k' m'] 1(2) False f Some e by (cases c) simp_all
    qed (use 1 False f k in simp)
  qed (use 1 in simp)
qed

lemma main_view_prep_buffer: "st_prep_buffer m = Some m' \<Longrightarrow> main_view m' = main_view m"
  using main_view_prep_loop by (auto simp: st_prep_buffer_def split: if_splits)

lemma main_view_reload: "rt_reload m = Some m' \<Longrightarrow> main_view m' = main_view m"
  using main_view_prep_buffer by (auto simp: rt_reload_def split: if_splits)

lemma main_view_drivers [simp]:
  "main_view (st_wake_up m) = main_view m" "main_view (st_go_idle m) = main_view m"
  "main_view (spindle_set_state st rpm m) = main_view m" "main_view (coolant_set_state c m) = main_view m"
  "main_view (report r m) = main_view m" "main_view (plan_cycle_reinitialize m) = main_view m"
proof -
  show "main_view (spindle_set_state st rpm m) = main_view m"
    using spindle_set_state_frame [of st rpm m] by (auto simp: main_defs)
  show "main_view (coolant_set_state c m) = main_view m"
    using coolant_set_state_frame [of c m] by (auto simp: main_defs)
  have "main_view (k\<lparr>block_buffer_planned := i\<rparr>) = main_view k" for k i by (simp add: main_defs)
  then show "main_view (plan_cycle_reinitialize m) = main_view m"
    by (simp add: plan_cycle_reinitialize_def Let_def)
qed (simp_all add: main_defs st_wake_up_def set_steppers_disable_def st_go_idle_def spi_write32_def report_def)

lemma fold_main_view: "(\<And>x m. main_view (f x m) = main_view m) \<Longrightarrow> main_view (fold f xs m) = main_view m"
  by (induction xs arbitrary: m) simp_all

lemma main_view_invert_masks: "main_view (st_generate_step_dir_invert_masks m) = main_view m"
  unfolding st_generate_step_dir_invert_masks_def
  by (subst fold_main_view) (simp_all add: main_defs)

lemma main_view_st_reset [simp]: "main_view (st_reset m) = main_view m"
proof -
  have "main_view (k\<lparr>prep := q, stepper := s, pl_block := b, segment_buffer_tail := t, segment_buffer_head := h,
      segment_next_head := n, busy := y\<rparr>) = main_view k" "main_view (k\<lparr>stepper := s\<rparr>) = main_view k"
    "main_view (spi_write32 k) = main_view k" "main_view (k\<lparr>direction_port := d, step_port := p\<rparr>) = main_view k"
    for k q s b t h n y d p
    by (simp_all add: main_defs spi_write32_def report_def)
  then show ?thesis by (simp add: st_reset_def Let_def main_view_invert_masks)
qed

section \<open>What interrupts leave alone\<close>

text \<open>The state and the overrides belong to the main program; an interrupt only sets flags.\<close>

definition keeps :: "machine \<Rightarrow> machine \<Rightarrow> bool" where
  "keeps m m' \<longleftrightarrow> ctl m' = ctl m \<and> gc_state m' = gc_state m \<and> settings m' = settings m
     \<and> sched m' = sched m \<and> store m' = store m \<and> sys_probe_state m' \<in> {sys_probe_state m, PROBE_OFF} \<and> (\<forall>k. bit_istrue (sys_rt_exec_state m) k \<longrightarrow> bit_istrue (sys_rt_exec_state m') k)"

lemma keeps_refl [simp]: "keeps m m"
  by (simp add: keeps_def)

lemma keeps_trans: "keeps a b \<Longrightarrow> keeps b c \<Longrightarrow> keeps a c"
  by (auto simp: keeps_def)

lemma keeps_fold: "(\<And>x m. keeps m (f x m)) \<Longrightarrow> keeps m (fold f xs m)"
  by (induction xs arbitrary: m) (auto intro: keeps_trans)

lemma keeps_if: "keeps m a \<Longrightarrow> keeps m b \<Longrightarrow> keeps m (if c then a else b)"
  by simp

lemma keeps_view: "main_view m' = main_view m \<Longrightarrow> keeps m m'"
  by (simp add: keeps_def main_view_def rt_flags_def)

lemma bit_istrue_or: "bit_istrue (x OR y) k \<longleftrightarrow> bit_istrue x k \<or> bit_istrue y k"
  using bit_istrue_bit_true [of x y k] by (simp add: bit_true_def)

lemma keeps_set_flag: "keeps m (system_set_exec_state_flag k m)"
  by (simp add: keeps_def ctl_def store_def system_set_exec_state_flag_def bit_istrue_or)

lemma keeps_set_alarm: "keeps m (system_set_exec_alarm k m)"
  by (simp add: keeps_def ctl_def store_def system_set_exec_alarm_def)

lemma keeps_mc_reset: "keeps m (mc_reset m)"
proof -
  have c: "keeps k (coolant_stop k)" for k by (simp add: keeps_def ctl_def store_def coolant_stop_def)
  have i: "keeps k (st_go_idle k)" for k by (simp add: keeps_view)
  have r: "keeps m (if c1 then st_go_idle (if c2 then (if c3 then system_set_exec_alarm a k else k)
      else system_set_exec_alarm b k) else k)" if "keeps m k" for c1 c2 c3 a b k
    by (intro keeps_if keeps_trans [OF that i] keeps_trans [OF that keeps_trans [OF keeps_set_alarm i]] that
        keeps_trans [OF _ i] keeps_trans [OF that keeps_set_alarm])
  show ?thesis
    unfolding mc_reset_def Let_def spindle_stop_def
    by (intro keeps_if r keeps_trans [OF keeps_set_flag c] keeps_refl)
qed

lemma keeps_status: "keeps m (report_realtime_status c m)"
  by (simp add: report_realtime_status_def report_counters_def report_def keeps_def ctl_def store_def Let_def)

lemma keeps_set_overrides:
  "keeps m (system_set_exec_motion_override_flag k m)" "keeps m (system_set_exec_accessory_override_flag k m)"
  by (simp_all add: keeps_def ctl_def store_def exec_flag_defs)

lemma keeps_extended: "keeps m (serial_extended d m)"
  unfolding serial_extended_def
  by (intro keeps_if keeps_set_flag keeps_set_overrides keeps_refl)

lemma keeps_rx_byte: "keeps m (serial_rx_byte cd m)"
proof (cases cd)
  case (Pair c d)
  have "keeps m (serial_store c d m)"
    by (simp add: serial_store_def serial_rx_push_def keeps_def ctl_def store_def Let_def)
  then show ?thesis
    by (simp add: Pair serial_rx_byte_def keeps_mc_reset keeps_status keeps_set_flag keeps_extended)
qed

lemma keeps_step_axis: "keeps m (step_axis b i m)"
  by (simp add: step_axis_def keeps_def ctl_def store_def Let_def)

lemma keeps_execute_step: "keeps m (execute_step m)"
proof -
  have p: "keeps k (probe_state_monitor k)" for k
    by (simp add: probe_state_monitor_def keeps_def ctl_def store_def bit_true_def bit_istrue_or)
  have o: "keeps k (k\<lparr>stepper := s\<rparr>)" for k s by (simp add: keeps_def ctl_def store_def)
  have f: "keeps k (finish_step k)" for k
    by (simp add: finish_step_def st_pop_segment_def keeps_def ctl_def store_def Let_def)
  have g: "keeps k (finish_step (fold (step_axis b) [0..<N_AXIS] (k\<lparr>stepper := s\<rparr>)))" for k b s
    by (rule keeps_trans [OF o keeps_trans [OF keeps_fold f]]) (rule keeps_step_axis)
  show ?thesis
    unfolding execute_step_def Let_def
    by (cases "sys_probe_state m = PROBE_ACTIVE")
      (auto simp del: fold_simps upt_rec_numeral intro: g keeps_trans [OF p g])
qed

lemma keeps_timer1: "keeps m (TIMER1_COMPA_vect m)"
proof -
  have a: "keeps m ((spi_write32 (m\<lparr>direction_port := d, step_port := p\<rparr>))\<lparr>busy := True\<rparr>)" for d p
    by (simp add: keeps_def ctl_def store_def spi_write32_def report_def)
  have l: "keeps k (load_segment k)" for k
    by (simp add: load_segment_def spindle_set_speed_def keeps_def ctl_def store_def Let_def)
  have i: "keeps k (system_set_exec_state_flag EXEC_CYCLE_STOP (st_go_idle k))" for k
    by (rule keeps_trans [OF keeps_view keeps_set_flag]) simp
  show ?thesis
    unfolding TIMER1_COMPA_vect_def Let_def spindle_set_speed_def
    by (auto intro: keeps_trans [OF a] keeps_trans [OF l keeps_execute_step] keeps_execute_step i)
qed

lemma keeps_ports:
  "keeps m (m\<lparr>limit_port := p\<rparr>)" "keeps m (m\<lparr>limit_port_inputs := i\<rparr>)" "keeps m (m\<lparr>control_port := p\<rparr>)"
  "keeps m (m\<lparr>control_port_inputs := i\<rparr>)" "keeps m (report r m)"
  by (simp_all add: keeps_def ctl_def store_def report_def)

lemma keeps_scans: "keeps m (scan_limit_port m)" "keeps m (scan_control_port m)"
  unfolding scan_limit_port_def scan_control_port_def Let_def
  by (rule keeps_fold, auto intro: keeps_trans keeps_ports)+

lemma keeps_pin_limit: "keeps m (pin_limit_vect pins m)"
  unfolding pin_limit_vect_def Let_def
  by (auto intro!: keeps_trans [OF _ keeps_set_alarm] keeps_trans [OF _ keeps_mc_reset]
      intro: keeps_trans [OF keeps_scans(1) keeps_trans [OF keeps_ports(2) keeps_trans [OF keeps_ports(1) keeps_ports(5)]]]
        keeps_ports)

lemma keeps_pin_control: "keeps m (pin_control_vect pins m)"
proof -
  have b: "keeps k (k\<lparr>sys_rt_exec_state := bit_true (sys_rt_exec_state k) v\<rparr>)" for k v
    by (simp add: keeps_def ctl_def store_def bit_true_def bit_istrue_or)
  have r: "keeps m (if system_control_get_state k \<noteq> 0 then
           (if bit_istrue (system_control_get_state k) CONTROL_PIN_INDEX_RESET then mc_reset k
            else if bit_istrue (system_control_get_state k) CONTROL_PIN_INDEX_CYCLE_START then
              k\<lparr>sys_rt_exec_state := bit_true (sys_rt_exec_state k) EXEC_CYCLE_START\<rparr>
            else if bit_istrue (system_control_get_state k) CONTROL_PIN_INDEX_FEED_HOLD then
              k\<lparr>sys_rt_exec_state := bit_true (sys_rt_exec_state k) EXEC_FEED_HOLD\<rparr>
            else k) else k)" if "keeps m k" for k
    using keeps_trans [OF that keeps_mc_reset] keeps_trans [OF that b] that by simp
  show ?thesis
    unfolding pin_control_vect_def Let_def
    by (rule r) (auto intro: keeps_trans [OF keeps_scans(2)
        keeps_trans [OF keeps_ports(4) keeps_trans [OF keeps_ports(3) keeps_ports(5)]]] keeps_ports(4))
qed

lemma keeps_run_event: "keeps m (run_event e m)"
proof -
  have "keeps m (TIMER0_OVF_vect m)" by (simp add: TIMER0_OVF_vect_def spi_write32_def report_def keeps_def ctl_def store_def)
  then show ?thesis
    unfolding run_event_def
    by (simp add: serial_poll_rx_def keeps_fold keeps_rx_byte keeps_timer1 keeps_pin_limit keeps_pin_control split: event.split)
qed

lemma poll_keeps:
  assumes "poll m = Some m'"
  shows "ctl m' = ctl m" "gc_state m' = gc_state m" "settings m' = settings m" "sched m' = tl (sched m)"
    "bit_istrue (sys_rt_exec_state m) k \<Longrightarrow> bit_istrue (sys_rt_exec_state m') k"
    "store m' = store m" "sys_probe_state m' \<in> {sys_probe_state m, PROBE_OFF}"
proof -
  obtain es r where s: "sched m = es # r" "m' = fold run_event es (m\<lparr>sched := r\<rparr>)"
    using assms by (cases "sched m") (auto simp: poll_def)
  then have "keeps (m\<lparr>sched := r\<rparr>) m'" using keeps_fold keeps_run_event by metis
  then show "ctl m' = ctl m" "gc_state m' = gc_state m" "settings m' = settings m" "sched m' = tl (sched m)"
    "bit_istrue (sys_rt_exec_state m) k \<Longrightarrow> bit_istrue (sys_rt_exec_state m') k"
    "store m' = store m" "sys_probe_state m' \<in> {sys_probe_state m, PROBE_OFF}"
    using s by (simp_all add: keeps_def ctl_def store_def)
qed

section \<open>A limit alarm\<close>

lemma wait_reset_result:
  assumes "wait_reset m = Some m'"
  shows "ctl m' = ctl m \<and> bit_istrue (sys_rt_exec_state m') EXEC_RESET"
proof (rule wait_reset.raw_induct
    [where P = "\<lambda>m m'. ctl m' = ctl m \<and> bit_istrue (sys_rt_exec_state m') EXEC_RESET", OF _ assms])
  fix loop m m'
  assume 1: "\<And>m m'. loop m = Some m' \<Longrightarrow> ctl m' = ctl m \<and> bit_istrue (sys_rt_exec_state m') EXEC_RESET"
    "(case poll m of None \<Rightarrow> None
      | Some m \<Rightarrow> if bit_isfalse (sys_rt_exec_state m) EXEC_RESET then loop m else Some m) = Some m'"
  then obtain k where k: "poll m = Some k" by (cases "poll m") auto
  then show "ctl m' = ctl m \<and> bit_istrue (sys_rt_exec_state m') EXEC_RESET"
    using 1 poll_keeps(1) [OF k] by (auto simp: flag_simps split: if_splits)
qed

lemma ctl_state: "ctl m = ctl m' \<Longrightarrow> sys_state (sys m) = sys_state (sys m')"
  by (simp add: ctl_def Let_def)

lemma rt_system_reset:
  assumes "rt_alarm m = Some k" "bit_istrue (sys_rt_exec_state k) EXEC_RESET"
  shows "protocol_exec_rt_system m = Some (upd_sys (\<lambda>s. s\<lparr>sys_abort := True\<rparr>) k)"
  using assms unfolding protocol_exec_rt_system_def bit_istrue_def Let_def by simp

lemma rt_alarm_critical:
  assumes "sys_rt_exec_alarm m \<in> {EXEC_ALARM_HARD_LIMIT, EXEC_ALARM_SOFT_LIMIT}"
  shows "rt_alarm m = map_option system_clear_exec_alarm
    (wait_reset (system_clear_exec_state_flag EXEC_RESET (report (Feedback_message MESSAGE_CRITICAL_EVENT)
      (report (Alarm_message (sys_rt_exec_alarm m)) (set_state STATE_ALARM m)))))"
proof -
  have "sys_rt_exec_alarm m \<noteq> 0" using assms by auto
  then show ?thesis using assms unfolding rt_alarm_def Let_def by simp
qed

lemma critical_alarm_aborts:
  assumes "sys_rt_exec_alarm m \<in> {EXEC_ALARM_HARD_LIMIT, EXEC_ALARM_SOFT_LIMIT}"
    "protocol_exec_rt_system m = Some m'"
  shows "sys_abort (sys m') \<and> sys_state (sys m') = STATE_ALARM \<and> sys_rt_exec_alarm m' = 0"
proof -
  let ?k = "system_clear_exec_state_flag EXEC_RESET (report (Feedback_message MESSAGE_CRITICAL_EVENT)
      (report (Alarm_message (sys_rt_exec_alarm m)) (set_state STATE_ALARM m)))"
  note a = rt_alarm_critical [OF assms(1)]
  obtain w where w: "wait_reset ?k = Some w"
    using assms(2) a by (cases "wait_reset ?k") (auto simp: protocol_exec_rt_system_def)
  note r = wait_reset_result [OF w]
  have "sys_state (sys ?k) = STATE_ALARM" by (simp add: system_clear_exec_state_flag_def report_def)
  then have "sys_state (sys w) = STATE_ALARM" using ctl_state [of w ?k] r by simp
  moreover have "protocol_exec_rt_system m = Some (upd_sys (\<lambda>s. s\<lparr>sys_abort := True\<rparr>) (system_clear_exec_alarm w))"
    using r by (intro rt_system_reset) (simp_all add: a w system_clear_exec_alarm_def)
  ultimately show ?thesis using assms(2) by (auto simp: system_clear_exec_alarm_def)
qed

text \<open>The wait ends when a reset arrives.\<close>

definition brings_reset :: "event list \<Rightarrow> bool" where
  "brings_reset es \<longleftrightarrow> (\<exists>bytes c. Ev_rx bytes \<in> set es \<and> (c, CMD_RESET) \<in> set bytes)"

lemma fold_sets_reset:
  assumes "\<And>y k. keeps k (f y k)" "x \<in> set xs" "\<And>k. bit_istrue (sys_rt_exec_state (f x k)) EXEC_RESET"
  shows "bit_istrue (sys_rt_exec_state (fold f xs m)) EXEC_RESET"
proof -
  obtain ys zs where "xs = ys @ x # zs" using assms(2) by (meson split_list)
  moreover have "keeps (f x (fold f ys m)) (fold f zs (f x (fold f ys m)))" by (rule keeps_fold [OF assms(1)])
  ultimately show ?thesis using assms(3) by (simp add: keeps_def)
qed

lemma reset_byte_sets: "bit_istrue (sys_rt_exec_state (serial_rx_byte (c, CMD_RESET) m)) EXEC_RESET"
  using mc_reset_flag by (simp add: serial_rx_byte_def)

lemma poll_reset:
  assumes "brings_reset es"
  shows "bit_istrue (sys_rt_exec_state (fold run_event es m)) EXEC_RESET"
proof -
  obtain bytes c where b: "Ev_rx bytes \<in> set es" "(c, CMD_RESET) \<in> set bytes"
    using assms by (auto simp: brings_reset_def)
  have "bit_istrue (sys_rt_exec_state (run_event (Ev_rx bytes) k)) EXEC_RESET" for k
    using fold_sets_reset [where f = serial_rx_byte, OF keeps_rx_byte b(2) reset_byte_sets]
    by (simp add: run_event_def serial_poll_rx_def)
  then show ?thesis by (rule fold_sets_reset [where f = run_event, OF keeps_run_event b(1)])
qed

lemma wait_reset_returns:
  "\<exists>es\<in>set (sched m). brings_reset es \<Longrightarrow> \<exists>m'. wait_reset m = Some m'"
proof (induction "sched m" arbitrary: m)
  case Nil
  then show ?case by simp
next
  case (Cons es r)
  let ?k = "fold run_event es (m\<lparr>sched := r\<rparr>)"
  have s: "sched m = es # r" using Cons.hyps(2) by simp
  have p: "poll m = Some ?k" by (simp add: poll_def s)
  show ?case
  proof (cases "bit_istrue (sys_rt_exec_state ?k) EXEC_RESET")
    case True
    then show ?thesis by (subst wait_reset.simps) (simp add: flag_simps p)
  next
    case False
    then have "\<not> brings_reset es" using poll_reset by blast
    then have "\<exists>es\<in>set r. brings_reset es" using Cons.prems s by simp
    moreover have "sched ?k = r" using poll_keeps(4) [OF p] s by simp
    ultimately obtain m' where "wait_reset ?k = Some m'" using Cons.hyps(1) [of ?k] by auto
    then show ?thesis using False by (subst wait_reset.simps) (simp add: flag_simps p)
  qed
qed

lemma critical_alarm_returns:
  assumes "sys_rt_exec_alarm m \<in> {EXEC_ALARM_HARD_LIMIT, EXEC_ALARM_SOFT_LIMIT}" "\<exists>es\<in>set (sched m). brings_reset es"
  shows "\<exists>m'. protocol_exec_rt_system m = Some m'"
proof -
  let ?k = "system_clear_exec_state_flag EXEC_RESET (report (Feedback_message MESSAGE_CRITICAL_EVENT)
      (report (Alarm_message (sys_rt_exec_alarm m)) (set_state STATE_ALARM m)))"
  have "sched ?k = sched m" by (simp add: system_clear_exec_state_flag_def report_def)
  then obtain w where w: "wait_reset ?k = Some w" using wait_reset_returns [of ?k] assms(2) by auto
  then have "rt_alarm m = Some (system_clear_exec_alarm w)"
    using rt_alarm_critical [OF assms(1)] by simp
  then show ?thesis
    using wait_reset_result [OF w] rt_system_reset by (auto simp: system_clear_exec_alarm_def)
qed

section \<open>The parts of the executor\<close>

lemma and_not_absorb: "x AND k = 0 \<Longrightarrow> x AND NOT k = x" for x k :: "'a::len word"
  by (simp add: bit_eq_iff bit_simps) blast

lemma and_not_clear: "e AND k = 0 \<Longrightarrow> (e AND r) AND NOT k = e AND r" for e k r :: u8
  by (simp add: bit_eq_iff bit_simps) blast

text \<open>The states, and the flags and state left by each part.\<close>

definition STATES :: "u8 set" where
  "STATES = {STATE_IDLE, STATE_ALARM, STATE_CHECK_MODE, STATE_HOMING, STATE_CYCLE, STATE_HOLD, STATE_JOG,
     STATE_SAFETY_DOOR, STATE_SLEEP}"

lemma main_view_cong:
  assumes "main_view m = main_view m'"
  shows "sys_state (sys m) = sys_state (sys m')" "sys_suspend (sys m) = sys_suspend (sys m')"
    "sys_rt_exec_state m = sys_rt_exec_state m'" "rt_flags m = rt_flags m'" "sys_abort (sys m) = sys_abort (sys m')"
    "sys_f_override (sys m) = sys_f_override (sys m')" "sys_r_override (sys m) = sys_r_override (sys m')"
    "sys_spindle_speed_ovr (sys m) = sys_spindle_speed_ovr (sys m')"
    "sys_spindle_stop_ovr (sys m) = sys_spindle_stop_ovr (sys m')" "sys_soft_limit (sys m) = sys_soft_limit (sys m')"
  using assms by (simp_all add: main_defs)

end
