(* ===== verification/Realtime_Facts.thy ===== *)
theory Realtime_Facts
  imports Protocol_Facts
begin

text \<open>
  The parts of the realtime executor, one by one, and what they add up to: without a reset every
  flag is served; the state stays one of the nine; a machine that was not moving moves only on a
  cycle start it may take; the overrides stay in range; a suspended machine leaves the suspend
  loop resumed or aborted.
\<close>

section \<open>The flags each part serves\<close>

lemma rt_flags_hold [simp]:
  "sys_rt_exec_state (rt_hold e m) =
     (if e AND EXEC_HOLDS \<noteq> 0 then sys_rt_exec_state m AND NOT EXEC_HOLDS else sys_rt_exec_state m)"
  "snd (rt_flags (rt_hold e m)) = snd (rt_flags m)"
proof -
  have v: "rt_flags (st_update_plan_block_parameters k) = rt_flags k" for k
    using main_view_basic(10) [of k] by (simp add: main_view_def)
  have a: "rt_flags (rt_hold_motion e k) = rt_flags k" "rt_flags (rt_motion_cancel e k) = rt_flags k"
    "rt_flags (rt_feed_hold e k) = rt_flags k" "rt_flags (rt_safety_door e k) = rt_flags k"
    "rt_flags (rt_sleep e k) = rt_flags k" for k
    using v [of k]
    by (simp_all add: rt_hold_motion_def rt_motion_cancel_def rt_feed_hold_def rt_safety_door_def rt_sleep_def
        report_def rt_flags_def Let_def)
  have b: "rt_flags (rt_hold e m) = rt_flags (if e AND EXEC_HOLDS \<noteq> 0 then system_clear_exec_state_flag EXEC_HOLDS m else m)"
    using a unfolding rt_hold_def Let_def
    by (simp add: system_clear_exec_state_flag_def) (simp add: rt_flags_def)
  then show "sys_rt_exec_state (rt_hold e m) =
     (if e AND EXEC_HOLDS \<noteq> 0 then sys_rt_exec_state m AND NOT EXEC_HOLDS else sys_rt_exec_state m)"
    "snd (rt_flags (rt_hold e m)) = snd (rt_flags m)"
    by (simp_all add: rt_flags_def system_clear_exec_state_flag_def split: if_splits)
qed

text \<open>What a cycle start finds: a machine that may run, and blocks to run.\<close>

definition may_run :: "machine \<Rightarrow> bool" where
  "may_run m \<longleftrightarrow> sys_state (sys m) = STATE_IDLE
     \<or> sys_state (sys m) AND STATE_HOLD \<noteq> 0 \<and> sys_suspend (sys m) AND SUSPEND_HOLD_COMPLETE \<noteq> 0"

lemma rt_run_cycle_cases:
  assumes "rt_run_cycle m = Some m'"
  obtains (stay) "\<not> may_run m" "m' = m"
  | (spindle) "may_run m" "sys_state (sys m) = STATE_HOLD" "sys_spindle_stop_ovr (sys m) \<noteq> 0"
      "m' = upd_sys (\<lambda>s. s\<lparr>sys_spindle_stop_ovr := sys_spindle_stop_ovr s OR SPINDLE_STOP_OVR_RESTORE_CYCLE\<rparr>) m"
  | (run) "may_run m" "\<not> (sys_state (sys m) = STATE_HOLD \<and> sys_spindle_stop_ovr (sys m) \<noteq> 0)"
      "plan_get_current_block m \<noteq> None" "sys_suspend (sys m) AND SUSPEND_MOTION_CANCEL = 0"
      "main_view m' = main_view (set_state STATE_CYCLE (set_suspend SUSPEND_DISABLE m))"
  | (idle) "may_run m" "main_view m' = main_view (set_state STATE_IDLE (set_suspend SUSPEND_DISABLE m))"
proof -
  let ?n = "set_step_control STEP_CONTROL_NORMAL_OP m"
  have n: "main_view (set_state v (set_suspend SUSPEND_DISABLE ?n)) = main_view (set_state v (set_suspend SUSPEND_DISABLE m))" for v
    by (simp add: main_defs)
  have c: "plan_get_current_block ?n = plan_get_current_block m" by (simp add: plan_get_current_block_def)
  show thesis
  proof (cases "may_run m")
    case False
    then have "m' = m" using assms by (simp only: rt_run_cycle_def flip: may_run_def) simp
    then show thesis by (rule stay [OF False])
  next
    case True
    note r = this [unfolded may_run_def]
    show thesis
    proof (cases "sys_state (sys m) = STATE_HOLD \<and> sys_spindle_stop_ovr (sys m) \<noteq> 0")
      case True
      have "m' = upd_sys (\<lambda>s. s\<lparr>sys_spindle_stop_ovr := sys_spindle_stop_ovr s OR SPINDLE_STOP_OVR_RESTORE_CYCLE\<rparr>) m"
        using assms r True by (simp only: rt_run_cycle_def) simp
      then show thesis using spindle True \<open>may_run m\<close> by blast
    next
      case False
      have e: "rt_run_cycle m = (if plan_get_current_block ?n \<noteq> None \<and> bit_isfalse (sys_suspend (sys ?n)) SUSPEND_MOTION_CANCEL
          then map_option st_wake_up (st_prep_buffer (set_state STATE_CYCLE (set_suspend SUSPEND_DISABLE ?n)))
          else Some (set_state STATE_IDLE (set_suspend SUSPEND_DISABLE ?n)))"
        using r False unfolding rt_run_cycle_def Let_def by (simp only: if_True if_False)
      show thesis
      proof (cases "plan_get_current_block m \<noteq> None \<and> bit_isfalse (sys_suspend (sys m)) SUSPEND_MOTION_CANCEL")
        case True
        then obtain k where k: "st_prep_buffer (set_state STATE_CYCLE (set_suspend SUSPEND_DISABLE ?n)) = Some k" "m' = st_wake_up k"
          using assms e c by auto
        then show thesis
          using run \<open>may_run m\<close> False True main_view_prep_buffer [OF k(1)] n by (simp add: bit_isfalse_def)
      next
        case False
        then have "m' = set_state STATE_IDLE (set_suspend SUSPEND_DISABLE ?n)" using assms e c by auto
        then show thesis using idle n \<open>may_run m\<close> by metis
      qed
    qed
  qed
qed

lemma rt_run_cycle_flags: "rt_run_cycle m = Some m' \<Longrightarrow> rt_flags m' = rt_flags m"
  by (erule rt_run_cycle_cases) (auto dest: main_view_cong(4) simp: rt_flags_def)

lemma rt_door_resume_flags [simp]: "rt_flags (rt_door_resume m) = rt_flags m"
  by (simp add: rt_door_resume_def rt_flags_def)

lemma rt_cycle_start_flags:
  assumes "rt_cycle_start e m = Some m'"
  shows "sys_rt_exec_state m' =
     (if e AND EXEC_CYCLE_START \<noteq> 0 then sys_rt_exec_state m AND NOT EXEC_CYCLE_START else sys_rt_exec_state m)"
    "snd (rt_flags m') = snd (rt_flags m)"
proof -
  obtain k where k: "rt_flags k = rt_flags m"
    "m' = (if e AND EXEC_CYCLE_START \<noteq> 0 then system_clear_exec_state_flag EXEC_CYCLE_START k else k)"
  proof (cases "e AND EXEC_CYCLE_START \<noteq> 0 \<and> e AND (EXEC_FEED_HOLD OR EXEC_MOTION_CANCEL OR EXEC_SAFETY_DOOR) = 0")
    case True
    then obtain k where "rt_run_cycle (rt_door_resume m) = Some k" "m' = system_clear_exec_state_flag EXEC_CYCLE_START k"
      using assms by (auto simp: rt_cycle_start_def)
    then show ?thesis using that [of k] True rt_run_cycle_flags rt_door_resume_flags by simp
  next
    case False
    then show ?thesis using that [of m] assms by (auto simp: rt_cycle_start_def split: if_splits)
  qed
  then show "sys_rt_exec_state m' =
     (if e AND EXEC_CYCLE_START \<noteq> 0 then sys_rt_exec_state m AND NOT EXEC_CYCLE_START else sys_rt_exec_state m)"
    "snd (rt_flags m') = snd (rt_flags m)"
    by (simp_all add: rt_flags_def system_clear_exec_state_flag_def)
qed

section \<open>The states each part leaves\<close>

lemma rt_hold_none: "e AND EXEC_HOLDS = 0 \<Longrightarrow> rt_hold e m = m"
  by (simp add: rt_hold_def)

lemma st_update_ctl: "sys (st_update_plan_block_parameters m) = sys m"
  using plan_frame_fields(5) [OF plan_frame_st_update] .

lemma rt_hold_parts_state:
  "sys_state (sys (rt_hold_motion e m)) = sys_state (sys m)"
  "sys_state (sys (rt_motion_cancel e m)) = sys_state (sys m)"
  "sys_state (sys (rt_feed_hold e m)) \<in> {sys_state (sys m), STATE_HOLD}"
  "sys_state (sys (rt_safety_door e m)) \<in> {sys_state (sys m), STATE_SAFETY_DOOR}"
  "sys_state (sys (rt_sleep e m)) = (if e AND EXEC_SLEEP \<noteq> 0 then STATE_SLEEP else sys_state (sys m))"
  by (simp_all add: rt_hold_motion_def rt_motion_cancel_def rt_feed_hold_def rt_safety_door_def rt_sleep_def
      report_def Let_def st_update_ctl)

lemma rt_hold_state:
  "sys_state (sys (rt_hold e m)) \<in> {sys_state (sys m), STATE_HOLD, STATE_SAFETY_DOOR, STATE_SLEEP}"
proof -
  have "sys_state (sys (rt_safety_door e (rt_feed_hold e (rt_motion_cancel e (rt_hold_motion e m)))))
      \<in> {sys_state (sys m), STATE_HOLD, STATE_SAFETY_DOOR}"
    using rt_hold_parts_state(1,2) rt_hold_parts_state(3) [of e "rt_motion_cancel e (rt_hold_motion e m)"]
      rt_hold_parts_state(4) [of e "rt_feed_hold e (rt_motion_cancel e (rt_hold_motion e m))"] by auto
  then show ?thesis
    using rt_hold_parts_state(5) unfolding rt_hold_def Let_def
    by (auto simp: system_clear_exec_state_flag_def)
qed

lemma rt_hold_sleep:
  "e AND EXEC_SLEEP \<noteq> 0 \<Longrightarrow> sys_state (sys (rt_hold e m)) = STATE_SLEEP"
proof -
  assume "e AND EXEC_SLEEP \<noteq> 0"
  moreover from this have "e AND EXEC_HOLDS \<noteq> 0"
    using and.assoc [of e EXEC_HOLDS EXEC_SLEEP] by (auto simp: EXEC_HOLDS_def)
  ultimately show ?thesis
    by (simp add: rt_hold_def Let_def system_clear_exec_state_flag_def rt_hold_parts_state(5))
qed

lemma rt_door_resume_state:
  "sys_state (sys (rt_door_resume m)) \<in> {sys_state (sys m), STATE_IDLE}"
  by (simp add: rt_door_resume_def)

lemma rt_cycle_start_state:
  assumes "rt_cycle_start e m = Some m'"
  shows "sys_state (sys m') \<in> {sys_state (sys m), STATE_IDLE, STATE_CYCLE}"
proof (cases "e AND EXEC_CYCLE_START \<noteq> 0 \<and> e AND (EXEC_FEED_HOLD OR EXEC_MOTION_CANCEL OR EXEC_SAFETY_DOOR) = 0")
  case True
  then obtain k where k: "rt_run_cycle (rt_door_resume m) = Some k" "m' = system_clear_exec_state_flag EXEC_CYCLE_START k"
    using assms by (auto simp: rt_cycle_start_def)
  have "sys_state (sys k) \<in> {sys_state (sys m), STATE_IDLE, STATE_CYCLE}"
    using k(1) rt_door_resume_state [of m] by (cases rule: rt_run_cycle_cases) (auto dest: main_view_cong(1))
  then show ?thesis using k(2) by (simp add: system_clear_exec_state_flag_def)
next
  case False
  then have "sys m' = sys m" using assms by (auto simp: rt_cycle_start_def system_clear_exec_state_flag_def split: if_splits)
  then show ?thesis by simp
qed

lemma rt_hold_done_view:
  "main_view (rt_hold_done m) = main_view (set_suspend
     (if sys_step_control (sys m) AND STEP_CONTROL_EXECUTE_HOLD \<noteq> 0 then sys_suspend (sys m) OR SUSPEND_HOLD_COMPLETE
      else sys_suspend (sys m)) m)"
proof -
  have "plan_frame m (st_update_plan_block_parameters m)" by simp
  moreover have "plan_frame k (planner_recalculate (k\<lparr>block_buffer_planned := i\<rparr>))" for k i
    by (rule plan_frame_trans [OF plan_frame_planned plan_frame_recalculate])
  ultimately have "plan_frame m (plan_cycle_reinitialize m)"
    unfolding plan_cycle_reinitialize_def Let_def by (blast intro: plan_frame_trans)
  note s = plan_frame_fields(5) [OF this]
  have v: "main_view (plan_cycle_reinitialize m) = main_view m" by simp
  show ?thesis using v unfolding rt_hold_done_def Let_def by (simp add: main_defs s)
qed

lemma rt_motion_done_state: "sys_state (sys (rt_motion_done m)) \<in> {STATE_SAFETY_DOOR, STATE_IDLE}"
  by (simp add: rt_motion_done_def Let_def)

lemma rt_motion_done_flags: "rt_flags (rt_motion_done m) = rt_flags m"
proof -
  have "rt_flags (plan_sync_position (gc_sync_position (st_reset (plan_reset (set_step_control c m))))) = rt_flags m" for c
  proof -
    have g: "rt_flags (gc_sync_position k) = rt_flags k" for k by (simp add: gc_sync_position_def rt_flags_def)
    have p: "rt_flags (plan_sync_position k) = rt_flags k" "rt_flags (st_reset k) = rt_flags k"
      "rt_flags (plan_reset k) = rt_flags k" for k
      using main_view_basic(13) [of k] main_view_st_reset [of k] main_view_basic(12) [of k] main_view_cong(4) by blast+
    show ?thesis by (simp add: p g) (simp add: rt_flags_def)
  qed
  then show ?thesis unfolding rt_motion_done_def Let_def by (simp add: rt_flags_def)
qed

lemma rt_cycle_stop_state: "sys_state (sys (rt_cycle_stop e m)) \<in> {sys_state (sys m), STATE_SAFETY_DOOR, STATE_IDLE}"
  using rt_motion_done_state [of m] main_view_cong(1) [OF rt_hold_done_view [of m]]
  by (simp add: rt_cycle_stop_def system_clear_exec_state_flag_def)

lemma rt_cycle_stop_flags:
  "sys_rt_exec_state (rt_cycle_stop e m) =
     (if e AND EXEC_CYCLE_STOP \<noteq> 0 then sys_rt_exec_state m AND NOT EXEC_CYCLE_STOP else sys_rt_exec_state m)"
  "snd (rt_flags (rt_cycle_stop e m)) = snd (rt_flags m)"
proof -
  have h: "rt_flags (rt_hold_done m) = rt_flags m"
    using main_view_cong(4) [OF rt_hold_done_view [of m]] by (simp add: rt_flags_def split: if_splits)
  show "sys_rt_exec_state (rt_cycle_stop e m) =
     (if e AND EXEC_CYCLE_STOP \<noteq> 0 then sys_rt_exec_state m AND NOT EXEC_CYCLE_STOP else sys_rt_exec_state m)"
  "snd (rt_flags (rt_cycle_stop e m)) = snd (rt_flags m)"
    using h rt_motion_done_flags [of m]
    by (simp_all add: rt_cycle_stop_def system_clear_exec_state_flag_def rt_flags_def)
qed

section \<open>The overrides\<close>

text \<open>The ideal value: the requested changes added up without wrapping, then clamped.\<close>

definition ideal_change :: "u8 \<Rightarrow> int \<Rightarrow> int" where
  "ideal_change e v =
     (if e AND EXEC_FEED_OVR_RESET \<noteq> 0 then 100 else v)
     + (if e AND EXEC_FEED_OVR_COARSE_PLUS \<noteq> 0 then 10 else 0) - (if e AND EXEC_FEED_OVR_COARSE_MINUS \<noteq> 0 then 10 else 0)
     + (if e AND EXEC_FEED_OVR_FINE_PLUS \<noteq> 0 then 1 else 0) - (if e AND EXEC_FEED_OVR_FINE_MINUS \<noteq> 0 then 1 else 0)"

lemma new_feed_override_value:
  assumes "10 \<le> v" "v \<le> 200"
  shows "uint (new_feed_override e v) =
    (let i = ideal_change e (uint v) in if i < 0 then 200 else max 10 (min 200 i))"
proof -
  have v: "10 \<le> uint v" "uint v \<le> 200" using assms by (simp_all add: word_le_def)
  have i: "-1 \<le> ideal_change e (uint v)" "ideal_change e (uint v) \<le> 211"
    using v by (simp_all add: ideal_change_def)
  let ?w = "word_of_int (ideal_change e (uint v)) :: u8"
  have p: "(if b then word_of_int x + 10 else word_of_int x) = (word_of_int (x + (if b then 10 else 0)) :: u8)"
    "(if b then word_of_int x - 10 else word_of_int x) = (word_of_int (x - (if b then 10 else 0)) :: u8)"
    "(if b then word_of_int x + 1 else word_of_int x) = (word_of_int (x + (if b then 1 else 0)) :: u8)"
    "(if b then word_of_int x - 1 else word_of_int x) = (word_of_int (x - (if b then 1 else 0)) :: u8)"
    "(if b then 100 else word_of_int x) = (word_of_int (if b then 100 else x) :: u8)" for b x by simp_all
  have "new_feed_override e (word_of_int (uint v)) = clamp_override MIN_FEED_RATE_OVERRIDE MAX_FEED_RATE_OVERRIDE ?w"
    by (simp only: new_feed_override_def Let_def p ideal_change_def)
  then have "new_feed_override e v = clamp_override MIN_FEED_RATE_OVERRIDE MAX_FEED_RATE_OVERRIDE ?w" by simp
  moreover have "uint ?w = (if ideal_change e (uint v) < 0 then 255 else ideal_change e (uint v))"
  proof (cases "ideal_change e (uint v) < 0")
    case True
    then have "ideal_change e (uint v) = -1" using i by simp
    moreover have "uint (- 1 :: u8) = 255" by code_simp
    ultimately show ?thesis by simp
  next
    case False
    then show ?thesis using i by (simp add: unsigned_of_int take_bit_eq_mod)
  qed
  ultimately show ?thesis
    by (simp add: clamp_override_def Let_def min_def max_def word_le_def)
qed

text \<open>The spindle override is computed the same way.\<close>

lemma new_spindle_override_eq: "new_spindle_override e v = new_feed_override e v"
  by (simp add: new_spindle_override_def new_feed_override_def Let_def)

lemma clamp_override_range: "lo \<le> hi \<Longrightarrow> lo \<le> clamp_override lo hi v \<and> clamp_override lo hi v \<le> hi"
  by (simp add: clamp_override_def)

lemma new_feed_override_range: "10 \<le> new_feed_override e v \<and> new_feed_override e v \<le> 200"
  unfolding new_feed_override_def Let_def by (simp add: clamp_override_range)

lemma new_rapid_override_values: "new_rapid_override e v \<in> {v, 100, 50, 25}"
  by (simp add: new_rapid_override_def Let_def)

section \<open>The executor as a whole\<close>

definition critical_alarm :: "machine \<Rightarrow> bool" where
  "critical_alarm m \<longleftrightarrow> sys_rt_exec_alarm m \<in> {EXEC_ALARM_HARD_LIMIT, EXEC_ALARM_SOFT_LIMIT}"

lemma rt_alarm_other:
  assumes "\<not> critical_alarm m"
  shows "rt_alarm m = Some (if sys_rt_exec_alarm m = 0 then m
    else system_clear_exec_alarm (report (Alarm_message (sys_rt_exec_alarm m)) (set_state STATE_ALARM m)))"
  using assms by (simp add: rt_alarm_def critical_alarm_def)

lemma main_view_update_loop: "main_view (snd (update_profile_loop n i v m)) = main_view m"
  by (induction n i v m rule: update_profile_loop.induct) (simp_all add: Let_def)

lemma main_view_update_profile: "main_view (plan_update_velocity_profile_parameters m) = main_view m"
proof -
  have "main_view (k\<lparr>pl := p\<rparr>) = main_view k" for p k by (simp add: main_defs)
  then show ?thesis
    using main_view_update_loop by (simp add: plan_update_velocity_profile_parameters_def case_prod_beta Let_def)
qed

lemma rt_motion_overrides_view:
  "main_view (rt_motion_overrides m) =
    (let e = sys_rt_exec_motion_override m; f = new_feed_override e (sys_f_override (sys m));
         r = new_rapid_override e (sys_r_override (sys m))
     in if e = 0 then main_view m
        else main_view (upd_sys (\<lambda>s. s\<lparr>sys_f_override := f, sys_r_override := r\<rparr>) (system_clear_exec_motion_overrides m)))"
proof -
  let ?e = "sys_rt_exec_motion_override m"
  let ?f = "new_feed_override ?e (sys_f_override (sys m))" and ?r = "new_rapid_override ?e (sys_r_override (sys m))"
  let ?c = "system_clear_exec_motion_overrides m"
  have v: "main_view (k\<lparr>sys := s\<lparr>sys_f_override := f, sys_r_override := r, sys_report_ovr_counter := 0\<rparr>\<rparr>) =
    main_view (k\<lparr>sys := s\<lparr>sys_f_override := f, sys_r_override := r\<rparr>\<rparr>)" for k s f r
    by (simp add: main_defs)
  have s: "sys ?c = sys m" by (simp add: system_clear_exec_motion_overrides_def)
  have i: "main_view ?c = main_view (upd_sys (\<lambda>s. s\<lparr>sys_f_override := ?f, sys_r_override := ?r\<rparr>) ?c)"
    if "?f = sys_f_override (sys m)" "?r = sys_r_override (sys m)"
    using that s by (simp add: main_defs)
  show ?thesis
    unfolding rt_motion_overrides_def Let_def using i
    by (cases "?e = 0") (auto simp: main_view_update_profile v s)
qed

lemma rt_motion_overrides_keeps:
  "sys_state (sys (rt_motion_overrides m)) = sys_state (sys m)"
  "sys_suspend (sys (rt_motion_overrides m)) = sys_suspend (sys m)"
  "sys_abort (sys (rt_motion_overrides m)) = sys_abort (sys m)"
  "rt_flags (rt_motion_overrides m) = (sys_rt_exec_state m, sys_rt_exec_alarm m, 0, sys_rt_exec_accessory_override m)"
proof -
  obtain k where k: "main_view (rt_motion_overrides m) = main_view k" "sys_state (sys k) = sys_state (sys m)"
    "sys_suspend (sys k) = sys_suspend (sys m)" "sys_abort (sys k) = sys_abort (sys m)"
    "rt_flags k = (sys_rt_exec_state m, sys_rt_exec_alarm m, 0, sys_rt_exec_accessory_override m)"
    by (rule that [OF rt_motion_overrides_view [unfolded Let_def, folded if_distrib [of main_view]]])
      (simp_all add: system_clear_exec_motion_overrides_def rt_flags_def)
  show "sys_state (sys (rt_motion_overrides m)) = sys_state (sys m)"
    "sys_suspend (sys (rt_motion_overrides m)) = sys_suspend (sys m)"
    "sys_abort (sys (rt_motion_overrides m)) = sys_abort (sys m)"
    "rt_flags (rt_motion_overrides m) = (sys_rt_exec_state m, sys_rt_exec_alarm m, 0, sys_rt_exec_accessory_override m)"
    using main_view_cong(1,2,4,5) [OF k(1)] k(2-5) by simp_all
qed

lemma rt_accessory_keeps:
  "sys_state (sys (rt_accessory_overrides m)) = sys_state (sys m)"
  "sys_suspend (sys (rt_accessory_overrides m)) = sys_suspend (sys m)"
  "sys_abort (sys (rt_accessory_overrides m)) = sys_abort (sys m)"
  "sys_f_override (sys (rt_accessory_overrides m)) = sys_f_override (sys m)"
  "sys_r_override (sys (rt_accessory_overrides m)) = sys_r_override (sys m)"
  "rt_flags (rt_accessory_overrides m) =
     (sys_rt_exec_state m, sys_rt_exec_alarm m, sys_rt_exec_motion_override m, 0)"
proof -
  define acc where "acc k = (sys_state (sys k), sys_suspend (sys k), sys_abort (sys k), sys_f_override (sys k),
    sys_r_override (sys k), rt_flags k)" for k
  have a: "acc k = acc k'" if "main_view k = main_view k'" for k k'
    using that by (simp add: acc_def main_defs)
  have d: "acc (spindle_set_state st rpm k) = acc k" "acc (coolant_set_state v k) = acc k" for st rpm v k
    by (rule a, simp)+
  have "acc (rt_spindle_override e k) = acc k" for e k
  proof -
    have "acc (upd_sys (sys_report_ovr_counter_update f) j) = acc j"
      "acc (upd_sys (sys_spindle_speed_ovr_update f) j) = acc j" "acc (upd_sys (sys_step_control_update f) j) = acc j" for f j
      by (simp_all add: acc_def rt_flags_def)
    note u = this
    show ?thesis
      by (simp add: rt_spindle_override_def Let_def u(1,2) d) (simp add: acc_def rt_flags_def)
  qed
  moreover have "acc (rt_spindle_stop e k) = acc k" for e k
    by (simp add: rt_spindle_stop_def acc_def rt_flags_def Let_def)
  moreover have "acc (rt_coolant_toggle e k) = acc k" for e k
  proof -
    have "acc (set_modal_coolant v j) = acc j" for v j by (simp add: set_modal_coolant_def acc_def rt_flags_def Let_def)
    then show ?thesis using d(2) unfolding rt_coolant_toggle_def Let_def by simp
  qed
  ultimately have "acc (rt_accessory_overrides m) =
      acc (if sys_rt_exec_accessory_override m = 0 then m else system_clear_exec_accessory_overrides m)"
    unfolding rt_accessory_overrides_def Let_def by simp
  then show "sys_state (sys (rt_accessory_overrides m)) = sys_state (sys m)"
    "sys_suspend (sys (rt_accessory_overrides m)) = sys_suspend (sys m)"
    "sys_abort (sys (rt_accessory_overrides m)) = sys_abort (sys m)"
    "sys_f_override (sys (rt_accessory_overrides m)) = sys_f_override (sys m)"
    "sys_r_override (sys (rt_accessory_overrides m)) = sys_r_override (sys m)"
    "rt_flags (rt_accessory_overrides m) =
       (sys_rt_exec_state m, sys_rt_exec_alarm m, sys_rt_exec_motion_override m, 0)"
    by (auto simp: acc_def rt_flags_def system_clear_exec_accessory_overrides_def Let_def split: if_splits)
qed

text \<open>A call that does not end in an abort goes through every part.\<close>

lemma rt_system_parts:
  assumes "protocol_exec_rt_system m = Some m'" "\<not> critical_alarm m" "\<not> bit_istrue (sys_rt_exec_state m) EXEC_RESET"
  obtains a b c where "rt_alarm m = Some a" "sys_rt_exec_state a = sys_rt_exec_state m" "sys_rt_exec_alarm a = 0"
    "sys_rt_exec_state m \<noteq> 0 \<Longrightarrow>
       rt_cycle_start (sys_rt_exec_state m) (rt_hold (sys_rt_exec_state m) (rt_status_report (sys_rt_exec_state m) a)) = Some b"
    "c = (if sys_rt_exec_state m = 0 then a else rt_cycle_stop (sys_rt_exec_state m) b)"
    "rt_reload (rt_accessory_overrides (rt_motion_overrides c)) = Some m'"
proof -
  let ?e = "sys_rt_exec_state m"
  define a where "a = (if sys_rt_exec_alarm m = 0 then m
    else system_clear_exec_alarm (report (Alarm_message (sys_rt_exec_alarm m)) (set_state STATE_ALARM m)))"
  have a: "rt_alarm m = Some a" "sys_rt_exec_state a = ?e" "sys_rt_exec_alarm a = 0"
    using rt_alarm_other [OF assms(2)] by (simp_all add: a_def system_clear_exec_alarm_def report_def)
  then obtain c where c: "rt_exec_flags ?e a = Some c"
    "rt_reload (rt_accessory_overrides (rt_motion_overrides c)) = Some m'"
    using assms(1,3) unfolding protocol_exec_rt_system_def bit_istrue_def Let_def
    by (auto split: option.splits)
  show thesis
  proof (cases "?e = 0")
    case True
    then show thesis using that [of a a c] a c by (simp add: rt_exec_flags_def)
  next
    case False
    then obtain b where "rt_cycle_start ?e (rt_hold ?e (rt_status_report ?e a)) = Some b" "c = rt_cycle_stop ?e b"
      using c(1) by (auto simp: rt_exec_flags_def)
    then show thesis using that [of a b c] a c(2) False by simp
  qed
qed

lemma rt_status_report_keeps:
  "ctl (rt_status_report e m) = ctl m" "snd (rt_flags (rt_status_report e m)) = snd (rt_flags m)"
  "sys_rt_exec_state (rt_status_report e m) =
     (if e AND EXEC_STATUS_REPORT \<noteq> 0 then sys_rt_exec_state m AND NOT EXEC_STATUS_REPORT else sys_rt_exec_state m)"
  by (simp_all add: rt_status_report_def report_realtime_status_def report_counters_def report_def ctl_def rt_flags_def
      system_clear_exec_state_flag_def Let_def)

lemma clear_step: "(if e AND k \<noteq> 0 then (e AND r) AND NOT k else e AND r) = e AND (r AND NOT k)" for e k r :: u8
  using and_not_clear [of e k r] by (simp add: and.assoc)

lemma clear_first: "(if e AND k \<noteq> 0 then e AND NOT k else e) = e AND NOT k" for e k :: u8
  using and_not_absorb [of e k] by simp

lemma rt_system_serves_flags:
  assumes "protocol_exec_rt_system m = Some m'" "\<not> critical_alarm m" "\<not> bit_istrue (sys_rt_exec_state m) EXEC_RESET"
  shows "rt_flags m' = (0, 0, 0, 0)"
proof -
  let ?e = "sys_rt_exec_state m"
  obtain a b c where p: "rt_alarm m = Some a" "sys_rt_exec_state a = ?e" "sys_rt_exec_alarm a = 0"
    "?e \<noteq> 0 \<Longrightarrow> rt_cycle_start ?e (rt_hold ?e (rt_status_report ?e a)) = Some b"
    "c = (if ?e = 0 then a else rt_cycle_stop ?e b)"
    "rt_reload (rt_accessory_overrides (rt_motion_overrides c)) = Some m'"
    using rt_system_parts [OF assms] by blast
  have "sys_rt_exec_state c = 0 \<and> sys_rt_exec_alarm c = 0"
  proof (cases "?e = 0")
    case True
    then show ?thesis using p by simp
  next
    case False
    note b = rt_cycle_start_flags [OF p(4) [OF False]]
    have 1: "sys_rt_exec_state (rt_status_report ?e a) = ?e AND NOT EXEC_STATUS_REPORT"
      unfolding rt_status_report_keeps(3) p(2) by (rule clear_first)
    have 2: "sys_rt_exec_state (rt_hold ?e (rt_status_report ?e a)) = ?e AND (NOT EXEC_STATUS_REPORT AND NOT EXEC_HOLDS)"
      unfolding rt_flags_hold(1) 1 by (rule clear_step)
    have 3: "sys_rt_exec_state b = ?e AND ((NOT EXEC_STATUS_REPORT AND NOT EXEC_HOLDS) AND NOT EXEC_CYCLE_START)"
      unfolding b(1) 2 by (rule clear_step)
    have 4: "sys_rt_exec_state (rt_cycle_stop ?e b) =
        ?e AND (((NOT EXEC_STATUS_REPORT AND NOT EXEC_HOLDS) AND NOT EXEC_CYCLE_START) AND NOT EXEC_CYCLE_STOP)"
      unfolding rt_cycle_stop_flags(1) 3 by (rule clear_step)
    have "(((NOT EXEC_STATUS_REPORT AND NOT EXEC_HOLDS) AND NOT EXEC_CYCLE_START) AND NOT EXEC_CYCLE_STOP) = EXEC_RESET"
      by (simp add: EXEC_HOLDS_def)
    then have "sys_rt_exec_state c = 0" using 4 False p(5) assms(3) by (simp add: bit_istrue_def)
    moreover have "sys_rt_exec_alarm c = 0"
      using False p(3,5) b(2) rt_cycle_stop_flags(2) [of ?e b] rt_status_report_keeps(2) [of ?e a]
        rt_flags_hold(2) [of ?e "rt_status_report ?e a"] by (simp add: rt_flags_def)
    ultimately show ?thesis by simp
  qed
  then show ?thesis
    using main_view_cong(4) [OF main_view_reload [OF p(6)]] rt_accessory_keeps(6) [of "rt_motion_overrides c"]
      rt_motion_overrides_keeps(4) [of c]
    by (simp add: rt_flags_def)
qed

text \<open>The state is always one of the nine.\<close>

lemma rt_alarm_state:
  "rt_alarm m = Some a \<Longrightarrow> sys_state (sys a) \<in> {sys_state (sys m), STATE_ALARM}"
proof (cases "critical_alarm m")
  case True
  assume "rt_alarm m = Some a"
  then obtain w where w: "wait_reset (system_clear_exec_state_flag EXEC_RESET (report (Feedback_message MESSAGE_CRITICAL_EVENT)
      (report (Alarm_message (sys_rt_exec_alarm m)) (set_state STATE_ALARM m)))) = Some w" "a = system_clear_exec_alarm w"
    using rt_alarm_critical True by (auto simp: critical_alarm_def)
  have "ctl w = ctl (set_state STATE_ALARM m)"
    using wait_reset_result [OF w(1)] by (simp add: ctl_def system_clear_exec_state_flag_def report_def Let_def)
  then show ?thesis using ctl_state [of w "set_state STATE_ALARM m"] w(2) by (simp add: system_clear_exec_alarm_def)
qed (auto simp: rt_alarm_other system_clear_exec_alarm_def report_def)

lemma rt_system_state:
  assumes "protocol_exec_rt_system m = Some m'"
  shows "sys_state (sys m') \<in> {sys_state (sys m), STATE_IDLE, STATE_ALARM, STATE_CYCLE, STATE_HOLD, STATE_SAFETY_DOOR, STATE_SLEEP}"
proof -
  obtain a where a: "rt_alarm m = Some a" using assms by (auto simp: protocol_exec_rt_system_def split: option.splits)
  note s = rt_alarm_state [OF a]
  let ?e = "sys_rt_exec_state a"
  show ?thesis
  proof (cases "bit_istrue ?e EXEC_RESET")
    case True
    then show ?thesis using rt_system_reset [OF a True] assms s by auto
  next
    case False
    then obtain c where c: "rt_exec_flags ?e a = Some c"
      "rt_reload (rt_accessory_overrides (rt_motion_overrides c)) = Some m'"
      using assms a unfolding protocol_exec_rt_system_def bit_istrue_def Let_def
      by (auto split: option.splits)
    have "sys_state (sys m') = sys_state (sys c)"
      using main_view_cong(1) [OF main_view_reload [OF c(2)]] rt_accessory_keeps(1) [of "rt_motion_overrides c"]
        rt_motion_overrides_keeps(1) [of c] by simp
    moreover have "sys_state (sys c) \<in> {sys_state (sys a), STATE_IDLE, STATE_CYCLE, STATE_HOLD, STATE_SAFETY_DOOR, STATE_SLEEP}"
    proof (cases "?e = 0")
      case True
      then show ?thesis using c(1) by (simp add: rt_exec_flags_def)
    next
      case False
      then obtain b where b: "rt_cycle_start ?e (rt_hold ?e (rt_status_report ?e a)) = Some b" "c = rt_cycle_stop ?e b"
        using c(1) by (auto simp: rt_exec_flags_def)
      have "sys_state (sys (rt_status_report ?e a)) = sys_state (sys a)"
        by (rule ctl_state) (rule rt_status_report_keeps(1))
      then show ?thesis
        using rt_cycle_stop_state [of ?e b] b rt_cycle_start_state [OF b(1)] rt_hold_state [of ?e "rt_status_report ?e a"]
        by auto
    qed
    ultimately show ?thesis using s by auto
  qed
qed

text \<open>A machine that was not moving starts only on a cycle start with no hold requested, when it is
  idle, at the end of a hold, or behind a closed door with its accessories restored.\<close>

definition resumable :: "machine \<Rightarrow> bool" where
  "resumable m \<longleftrightarrow> sys_state (sys m) = STATE_IDLE
     \<or> sys_state (sys m) = STATE_HOLD \<and> sys_suspend (sys m) AND SUSPEND_HOLD_COMPLETE \<noteq> 0 \<and> sys_spindle_stop_ovr (sys m) = 0
     \<or> sys_state (sys m) = STATE_SAFETY_DOOR \<and> sys_suspend (sys m) AND SUSPEND_SAFETY_DOOR_AJAR = 0
         \<and> sys_suspend (sys m) AND SUSPEND_RESTORE_COMPLETE \<noteq> 0"

lemma rt_cycle_start_runs:
  assumes "rt_cycle_start e m = Some b" "sys_state (sys b) = STATE_CYCLE" "sys_state (sys m) \<noteq> STATE_CYCLE"
    "sys_state (sys m) \<in> STATES"
  shows "e AND EXEC_CYCLE_START \<noteq> 0 \<and> e AND (EXEC_FEED_HOLD OR EXEC_MOTION_CANCEL OR EXEC_SAFETY_DOOR) = 0
    \<and> resumable m \<and> plan_get_current_block m \<noteq> None \<and> sys_suspend (sys m) AND SUSPEND_MOTION_CANCEL = 0"
proof -
  have e: "e AND EXEC_CYCLE_START \<noteq> 0 \<and> e AND (EXEC_FEED_HOLD OR EXEC_MOTION_CANCEL OR EXEC_SAFETY_DOOR) = 0"
  proof (rule ccontr)
    assume "\<not> ?thesis"
    then have "sys b = sys m"
      using assms(1) by (auto simp: rt_cycle_start_def system_clear_exec_state_flag_def split: if_splits)
    then show False using assms(2,3) by simp
  qed
  then obtain k where k: "rt_run_cycle (rt_door_resume m) = Some k" "b = system_clear_exec_state_flag EXEC_CYCLE_START k"
    using assms(1) by (auto simp: rt_cycle_start_def)
  have kc: "sys_state (sys k) = STATE_CYCLE" using k(2) assms(2) by (simp add: system_clear_exec_state_flag_def)
  have d: "sys_state (sys (rt_door_resume m)) \<noteq> STATE_CYCLE" using rt_door_resume_state [of m] assms(3) by auto
  from k(1) show ?thesis
  proof (cases rule: rt_run_cycle_cases)
    case run
    have st: "sys_state (sys m) \<noteq> STATE_IDLE \<and> sys_state (sys m) AND STATE_HOLD \<noteq> 0 \<longrightarrow> sys_state (sys m) = STATE_HOLD"
      using assms(4) by (auto simp: STATES_def)
    show ?thesis
    proof (cases "sys_state (sys m) = STATE_SAFETY_DOOR")
      case True
      then have "sys_suspend (sys m) AND SUSPEND_SAFETY_DOOR_AJAR = 0" "sys_suspend (sys m) AND SUSPEND_RESTORE_COMPLETE \<noteq> 0"
        using run(1) by (auto simp: may_run_def rt_door_resume_def split: if_splits)
      then show ?thesis
        using e run(3,4) True by (auto simp: resumable_def rt_door_resume_def plan_get_current_block_def)
    next
      case False
      then have "rt_door_resume m = m" by (simp add: rt_door_resume_def)
      then show ?thesis using e run st by (auto simp: resumable_def may_run_def)
    qed
  next
    case stay
    then show ?thesis using kc d by simp
  next
    case spindle
    then show ?thesis using kc by simp
  next
    case idle
    then show ?thesis using kc main_view_cong(1) [OF idle(2)] by simp
  qed
qed

lemma rt_system_starts:
  assumes "protocol_exec_rt_system m = Some m'" "sys_state (sys m') = STATE_CYCLE" "sys_state (sys m) \<noteq> STATE_CYCLE"
    "sys_state (sys m) \<in> STATES"
  shows "sys_rt_exec_alarm m = 0 \<and> sys_rt_exec_state m AND EXEC_CYCLE_START \<noteq> 0
    \<and> sys_rt_exec_state m AND (EXEC_RESET OR EXEC_HOLDS) = 0 \<and> resumable m
    \<and> plan_get_current_block m \<noteq> None \<and> sys_suspend (sys m) AND SUSPEND_MOTION_CANCEL = 0"
proof -
  let ?e = "sys_rt_exec_state m"
  have nc: "\<not> critical_alarm m"
  proof
    assume "critical_alarm m"
    then show False using critical_alarm_aborts [OF _ assms(1)] assms(2) by (auto simp: critical_alarm_def)
  qed
  define a where "a = (if sys_rt_exec_alarm m = 0 then m
    else system_clear_exec_alarm (report (Alarm_message (sys_rt_exec_alarm m)) (set_state STATE_ALARM m)))"
  have a: "rt_alarm m = Some a" "sys_rt_exec_state a = ?e"
    using rt_alarm_other [OF nc] by (simp_all add: a_def system_clear_exec_alarm_def report_def)
  have as: "sys_state (sys a) \<noteq> STATE_CYCLE" "sys_state (sys a) \<in> STATES"
    using assms(3,4) by (auto simp: a_def system_clear_exec_alarm_def report_def STATES_def)
  have nr: "\<not> bit_istrue ?e EXEC_RESET"
    using rt_system_reset [OF a(1)] a(2) assms(1,2) as(1) by auto
  obtain b c where p: "?e \<noteq> 0 \<Longrightarrow> rt_cycle_start ?e (rt_hold ?e (rt_status_report ?e a)) = Some b"
    "c = (if ?e = 0 then a else rt_cycle_stop ?e b)"
    "rt_reload (rt_accessory_overrides (rt_motion_overrides c)) = Some m'"
    using rt_system_parts [OF assms(1) nc nr] a(1) by (metis option.inject)
  have cs: "sys_state (sys c) = STATE_CYCLE"
    using main_view_cong(1) [OF main_view_reload [OF p(3)]] rt_accessory_keeps(1) [of "rt_motion_overrides c"]
      rt_motion_overrides_keeps(1) [of c] assms(2) by simp
  then have e0: "?e \<noteq> 0" using p(2) as(1) by auto
  let ?s = "rt_status_report ?e a"
  have b: "sys_state (sys b) = STATE_CYCLE" using cs p(2) e0 rt_cycle_stop_state [of ?e b] by auto
  have ss: "sys_state (sys ?s) = sys_state (sys a)" by (rule ctl_state) (rule rt_status_report_keeps(1))
  have h: "sys_state (sys (rt_hold ?e ?s)) \<noteq> STATE_CYCLE" "sys_state (sys (rt_hold ?e ?s)) \<in> STATES"
    using rt_hold_state [of ?e ?s] ss as by (auto simp: STATES_def)
  note r = rt_cycle_start_runs [OF p(1) [OF e0] b h]
  have ns: "?e AND EXEC_SLEEP = 0"
  proof (rule ccontr)
    assume "?e AND EXEC_SLEEP \<noteq> 0"
    then have "sys_state (sys (rt_hold ?e ?s)) = STATE_SLEEP" by (rule rt_hold_sleep)
    then show False using r by (simp add: resumable_def)
  qed
  have nh: "?e AND EXEC_HOLDS = 0"
  proof -
    have "?e AND EXEC_HOLDS = (?e AND (EXEC_FEED_HOLD OR EXEC_MOTION_CANCEL OR EXEC_SAFETY_DOOR)) OR (?e AND EXEC_SLEEP)"
      by (simp add: EXEC_HOLDS_def flip: bit.conj_disj_distrib)
    then show ?thesis using r ns by simp
  qed
  then have hs: "rt_hold ?e ?s = ?s" by (rule rt_hold_none)
  have ctl: "ctl ?s = ctl a" by (rule rt_status_report_keeps(1))
  then have rs: "resumable a" "sys_suspend (sys a) AND SUSPEND_MOTION_CANCEL = 0"
    using r unfolding hs by (simp_all add: resumable_def ctl_def Let_def)
  have cb: "plan_get_current_block ?s = plan_get_current_block a"
    by (simp add: rt_status_report_def report_realtime_status_def report_def system_clear_exec_state_flag_def
        plan_get_current_block_def)
  have na: "sys_rt_exec_alarm m = 0"
    using rs(1) by (auto simp: a_def resumable_def system_clear_exec_alarm_def report_def split: if_splits)
  then have "a = m" by (simp add: a_def)
  moreover have "?e AND (EXEC_RESET OR EXEC_HOLDS) = 0"
    using nr nh by (simp add: bit_istrue_def bit.conj_disj_distrib)
  ultimately show ?thesis using na r rs cb hs by simp
qed

section \<open>The overrides stay in range\<close>

definition ovr :: "machine \<Rightarrow> u8 \<times> u8 \<times> u8" where
  "ovr m = (sys_f_override (sys m), sys_r_override (sys m), sys_spindle_speed_ovr (sys m))"

definition ovr_ok :: "machine \<Rightarrow> bool" where
  "ovr_ok m \<longleftrightarrow> (case ovr m of (f, r, s) \<Rightarrow> 10 \<le> f \<and> f \<le> 200 \<and> r \<in> {100, 50, 25} \<and> 10 \<le> s \<and> s \<le> 200)"

lemma ovr_view: "main_view m = main_view m' \<Longrightarrow> ovr m = ovr m'"
  by (simp add: ovr_def main_defs)

lemma ovr_ctl: "ctl m = ctl m' \<Longrightarrow> ovr m = ovr m'"
  by (simp add: ovr_def ctl_def Let_def)

lemma ovr_hold: "ovr (rt_hold e m) = ovr m"
proof -
  have "ovr (rt_hold_motion e k) = ovr k" "ovr (rt_motion_cancel e k) = ovr k" "ovr (rt_feed_hold e k) = ovr k"
    "ovr (rt_safety_door e k) = ovr k" "ovr (rt_sleep e k) = ovr k" "ovr (system_clear_exec_state_flag f k) = ovr k" for k f
    by (simp_all add: rt_hold_motion_def rt_motion_cancel_def rt_feed_hold_def rt_safety_door_def rt_sleep_def
        system_clear_exec_state_flag_def report_def ovr_def Let_def st_update_ctl)
  then show ?thesis by (simp add: rt_hold_def Let_def)
qed

lemma ovr_cycle_start: "rt_cycle_start e m = Some b \<Longrightarrow> ovr b = ovr m"
proof -
  assume b: "rt_cycle_start e m = Some b"
  have r: "ovr k = ovr j" if "rt_run_cycle j = Some k" for j k
    using that by (cases rule: rt_run_cycle_cases) (auto dest: ovr_view simp: ovr_def)
  have "ovr (rt_door_resume m) = ovr m" by (simp add: rt_door_resume_def ovr_def)
  moreover have "ovr (system_clear_exec_state_flag f k) = ovr k" for f k
    by (simp add: system_clear_exec_state_flag_def ovr_def)
  ultimately show ?thesis using b r by (auto simp: rt_cycle_start_def split: if_splits)
qed

lemma ovr_cycle_stop: "ovr (rt_cycle_stop e m) = ovr m"
proof -
  have g: "ovr (gc_sync_position k) = ovr k" for k by (simp add: gc_sync_position_def ovr_def)
  have p: "ovr (plan_sync_position k) = ovr k" "ovr (st_reset k) = ovr k" "ovr (plan_reset k) = ovr k"
    "ovr (set_state v k) = ovr k" "ovr (set_suspend v k) = ovr k" "ovr (set_step_control v k) = ovr k" for k v
    by (rule ovr_view, simp)+ (simp_all add: ovr_def)
  have "ovr (rt_motion_done m) = ovr m"
    unfolding rt_motion_done_def Let_def using p g by (simp add: ovr_def)
  moreover have "ovr (rt_hold_done m) = ovr m" using ovr_view [OF rt_hold_done_view [of m]] by (simp add: ovr_def)
  ultimately show ?thesis by (simp add: rt_cycle_stop_def system_clear_exec_state_flag_def) (simp add: ovr_def)
qed

lemma ovr_ok_motion: "ovr_ok m \<Longrightarrow> ovr_ok (rt_motion_overrides m)"
proof -
  assume m: "ovr_ok m"
  let ?e = "sys_rt_exec_motion_override m"
  have "ovr (rt_motion_overrides m) = (if ?e = 0 then ovr m
      else (new_feed_override ?e (sys_f_override (sys m)), new_rapid_override ?e (sys_r_override (sys m)),
            sys_spindle_speed_ovr (sys m)))"
    using ovr_view [of "rt_motion_overrides m"] rt_motion_overrides_view [of m]
    by (auto simp: ovr_def system_clear_exec_motion_overrides_def Let_def)
  then show ?thesis
    using m new_feed_override_range [of ?e] new_rapid_override_values [of ?e "sys_r_override (sys m)"]
    by (auto simp: ovr_ok_def ovr_def)
qed

lemma ovr_accessory:
  "ovr (rt_accessory_overrides m) = (sys_f_override (sys m), sys_r_override (sys m),
     (if sys_rt_exec_accessory_override m = 0 then sys_spindle_speed_ovr (sys m)
      else new_spindle_override (sys_rt_exec_accessory_override m) (sys_spindle_speed_ovr (sys m))))"
proof -
  have d: "ovr (spindle_set_state st rpm k) = ovr k" "ovr (coolant_set_state v k) = ovr k" for st rpm v k
    by (rule ovr_view, simp)+
  have u: "ovr (k\<lparr>sys := (sys k)\<lparr>sys_report_ovr_counter := v\<rparr>\<rparr>) = ovr k" for v k by (simp add: ovr_def)
  have s: "ovr (rt_spindle_override e k) =
      (sys_f_override (sys k), sys_r_override (sys k), new_spindle_override e (sys_spindle_speed_ovr (sys k)))" for e k
    unfolding rt_spindle_override_def Let_def
    by (auto simp: u d) (simp_all add: ovr_def)
  have t: "ovr (rt_spindle_stop e k) = ovr k" for e k by (simp add: rt_spindle_stop_def ovr_def)
  have c: "ovr (rt_coolant_toggle e k) = ovr k" for e k
  proof -
    have "ovr (set_modal_coolant v j) = ovr j" for v j by (simp add: set_modal_coolant_def ovr_def)
    then show ?thesis using d(2) unfolding rt_coolant_toggle_def Let_def by simp
  qed
  show ?thesis
    unfolding rt_accessory_overrides_def Let_def
    by (simp add: c t s system_clear_exec_accessory_overrides_def) (simp add: ovr_def)
qed

lemma ovr_ok_accessory: "ovr_ok m \<Longrightarrow> ovr_ok (rt_accessory_overrides m)"
  using new_feed_override_range [of "sys_rt_exec_accessory_override m" "sys_spindle_speed_ovr (sys m)"]
  by (simp add: ovr_ok_def ovr_accessory new_spindle_override_eq) (simp add: ovr_def)

lemma ovr_ok_cong: "ovr m = ovr m' \<Longrightarrow> ovr_ok m = ovr_ok m'"
  by (simp add: ovr_ok_def)

lemma ovr_alarm: "rt_alarm m = Some a \<Longrightarrow> ovr a = ovr m"
proof (cases "critical_alarm m")
  case True
  assume "rt_alarm m = Some a"
  then obtain w where w: "wait_reset (system_clear_exec_state_flag EXEC_RESET (report (Feedback_message MESSAGE_CRITICAL_EVENT)
      (report (Alarm_message (sys_rt_exec_alarm m)) (set_state STATE_ALARM m)))) = Some w" "a = system_clear_exec_alarm w"
    using rt_alarm_critical True by (auto simp: critical_alarm_def)
  have "ctl w = ctl (set_state STATE_ALARM m)"
    using wait_reset_result [OF w(1)] by (simp add: ctl_def system_clear_exec_state_flag_def report_def Let_def)
  then show ?thesis using ovr_ctl [of w "set_state STATE_ALARM m"] w(2) by (simp add: system_clear_exec_alarm_def ovr_def)
qed (auto simp: rt_alarm_other system_clear_exec_alarm_def report_def ovr_def)

lemma ovr_ok_system:
  assumes "protocol_exec_rt_system m = Some m'" "ovr_ok m"
  shows "ovr_ok m'"
proof -
  obtain a where a: "rt_alarm m = Some a" using assms by (auto simp: protocol_exec_rt_system_def split: option.splits)
  let ?e = "sys_rt_exec_state a"
  have oa: "ovr_ok a" using assms(2) ovr_alarm [OF a] ovr_ok_cong by blast
  show ?thesis
  proof (cases "bit_istrue ?e EXEC_RESET")
    case True
    then have "ovr m' = ovr a" using rt_system_reset [OF a True] assms(1) by (auto simp: ovr_def)
    then show ?thesis using oa ovr_ok_cong by blast
  next
    case False
    then obtain c where c: "rt_exec_flags ?e a = Some c"
      "rt_reload (rt_accessory_overrides (rt_motion_overrides c)) = Some m'"
      using assms a unfolding protocol_exec_rt_system_def bit_istrue_def Let_def
      by (auto split: option.splits)
    have "ovr c = ovr a"
    proof (cases "?e = 0")
      case False
      then obtain b where b: "rt_cycle_start ?e (rt_hold ?e (rt_status_report ?e a)) = Some b" "c = rt_cycle_stop ?e b"
        using c(1) by (auto simp: rt_exec_flags_def)
      then show ?thesis
        using ovr_cycle_stop ovr_cycle_start [OF b(1)] ovr_hold ovr_ctl [OF rt_status_report_keeps(1)] by metis
    qed (use c(1) in \<open>simp add: rt_exec_flags_def\<close>)
    then have "ovr_ok (rt_accessory_overrides (rt_motion_overrides c))"
      using oa ovr_ok_cong ovr_ok_motion ovr_ok_accessory by blast
    then show ?thesis using ovr_view [OF main_view_reload [OF c(2)]] ovr_ok_cong by blast
  qed
qed

section \<open>What a wait ends with\<close>

lemma sleep_loop_aborts:
  assumes "sleep_loop m = Some m'"
  shows "sys_abort (sys m')"
proof (rule sleep_loop.raw_induct [where P = "\<lambda>_ m'. sys_abort (sys m')", OF _ assms])
  fix loop m m'
  assume "\<And>m m'. loop m = Some m' \<Longrightarrow> sys_abort (sys m')"
    "(if sys_abort (sys m) then Some m
      else case protocol_exec_rt_system m of None \<Rightarrow> None
      | Some m \<Rightarrow> case poll m of None \<Rightarrow> None | Some m \<Rightarrow> loop m) = Some m'"
  then show "sys_abort (sys m')" by (auto split: if_splits option.splits)
qed

lemma suspend_round_end:
  assumes "suspend_round cond speed m = Some (False, m')"
  shows "sys_abort (sys m')"
  using assms sleep_loop_aborts by (auto simp: suspend_round_def split: if_splits)

lemma suspend_loop_result:
  assumes "suspend_loop cond speed m = Some m'"
  shows "sys_abort (sys m') \<or> sys_suspend (sys m') = 0"
proof (rule suspend_loop.raw_induct
    [where P = "\<lambda>_ _ _ m'. sys_abort (sys m') \<or> sys_suspend (sys m') = 0", OF _ assms])
  fix loop cond speed m m'
  assume 1: "\<And>cond speed m m'. loop cond speed m = Some m' \<Longrightarrow> sys_abort (sys m') \<or> sys_suspend (sys m') = 0"
    "(if sys_suspend (sys m) = 0 then Some m
      else if sys_abort (sys m) then Some m
      else case suspend_round cond speed m of None \<Rightarrow> None
      | Some (continue, m) \<Rightarrow>
        if \<not> continue then Some m
        else case protocol_exec_rt_system m of None \<Rightarrow> None
        | Some m \<Rightarrow> case poll m of None \<Rightarrow> None | Some m \<Rightarrow> loop cond speed m) = Some m'"
  show "sys_abort (sys m') \<or> sys_suspend (sys m') = 0"
  proof (cases "sys_suspend (sys m) = 0 \<or> sys_abort (sys m)")
    case False
    then obtain c k where k: "suspend_round cond speed m = Some (c, k)"
      using 1(2) by (auto split: option.splits)
    then show ?thesis
      using 1 False suspend_round_end by (cases c) (auto split: option.splits)
  qed (use 1(2) in \<open>auto split: if_splits\<close>)
qed

lemma execute_realtime_result:
  assumes "protocol_execute_realtime m = Some m'"
  shows "sys_abort (sys m') \<or> sys_suspend (sys m') = 0"
  using assms suspend_loop_result
  by (auto simp: protocol_execute_realtime_def protocol_exec_rt_suspend_def Let_def split: option.splits if_splits prod.splits)

lemma synchronize_result:
  assumes "protocol_buffer_synchronize m = Some m'"
  shows "sys_abort (sys m') \<or> plan_get_current_block m' = None \<and> sys_state (sys m') \<noteq> STATE_CYCLE"
proof -
  let ?P = "\<lambda>_ m'. sys_abort (sys m') \<or> plan_get_current_block m' = None \<and> sys_state (sys m') \<noteq> STATE_CYCLE"
  have "synchronize_loop (protocol_auto_cycle_start m) = Some m'"
    using assms by (simp add: protocol_buffer_synchronize_def)
  then show ?thesis
  proof (rule synchronize_loop.raw_induct [where P = ?P, rotated])
    fix loop m m'
    assume "\<And>m m'. loop m = Some m' \<Longrightarrow> ?P m m'"
      "(case protocol_execute_realtime m of None \<Rightarrow> None
        | Some m \<Rightarrow>
          if sys_abort (sys m) then Some m
          else case poll m of None \<Rightarrow> None
          | Some m \<Rightarrow>
            if plan_get_current_block m \<noteq> None \<or> sys_state (sys m) = STATE_CYCLE
            then loop m else Some m) = Some m'"
    then show "?P m m'" by (auto split: if_splits option.splits)
  qed
qed

end
