(* ===== verification/Realtime_Properties.thy ===== *)
theory Realtime_Properties
  imports Realtime_Facts
begin

text \<open>
  The properties of the stepper, the interrupts and the realtime executor, each with a concrete
  input at which its hypotheses hold.
\<close>

section \<open>Planner and stepper\<close>

text \<open>Every step of one block is issued exactly once: whatever segments the block is cut into and
  at whatever smoothing level each runs, as long as the segments add up to the block's step
  events, each axis moves by exactly its own step count in the block's direction, and its
  Bresenham counter is back where it was.\<close>

theorem block_steps_issued:
  assumes "axes_complete m" "idx < N_AXIS" "scaled_block (exec_block m) steps e"
    and "st_counter (stepper m) ! idx = drop_bit 1 (sb_step_event_count (exec_block m))"
    and "\<forall>(n, l)\<in>set segs. l \<le> MAX_AMASS_LEVEL" "sum_list (map fst segs) = unat e"
  shows "sys_position (fold run_segment segs m) ! idx =
      axis_moved (block_neg (exec_block m) idx) (sys_position m ! idx) (unat (steps ! idx))
    \<and> st_counter (stepper (fold run_segment segs m)) ! idx = st_counter (stepper m) ! idx"
  using block_steps_exact [OF assms] by blast

text \<open>One step of each axis, at the highest smoothing level.\<close>

definition one_step_each :: machine where
  "one_step_each = machine0\<lparr>st_block_buffer := (st_block_buffer machine0)
     [0 := st_block0\<lparr>sb_steps := replicate N_AXIS 8, sb_step_event_count := 8\<rparr>],
     stepper := stepper0\<lparr>st_exec_block := Some 0, st_counter := replicate N_AXIS 4\<rparr>\<rparr>"

lemma block_steps_issued_witness:
  "sys_position (fold run_segment [(1, 3)] one_step_each) ! 2 = 1"
proof -
  have e: "exec_block one_step_each = st_block0\<lparr>sb_steps := replicate N_AXIS 8, sb_step_event_count := 8\<rparr>"
    by (simp add: exec_block_def one_step_each_def)
  have "axes_complete one_step_each"
    by (simp add: axes_complete_def one_step_each_def stepper0_def)
  moreover have "scaled_block (exec_block one_step_each) (replicate N_AXIS 1) 1"
    unfolding e by (simp add: scaled_block_def)
  moreover have "st_counter (stepper one_step_each) ! 2 = drop_bit 1 (sb_step_event_count (exec_block one_step_each))"
    unfolding e by (simp add: one_step_each_def)
  ultimately have "sys_position (fold run_segment [(1, 3)] one_step_each) ! 2 =
      axis_moved (block_neg (exec_block one_step_each) 2) (sys_position one_step_each ! 2) (unat (replicate N_AXIS 1 ! 2 :: u32))"
    using block_steps_issued [of one_step_each 2 "replicate N_AXIS 1" 1 "[(1, 3)]"] by simp
  then show ?thesis
    unfolding e by (simp add: block_neg_def axis_moved_def one_step_each_def st_block0_def)
qed

text \<open>The segment buffer stays a ring with its next head one ahead, and the segment being
  executed stays its tail, whatever the generator and the step interrupt do.\<close>

lemma segment_buffer_invariant:
  assumes "seg_wf m"
  shows "(\<forall>m'. st_prep_buffer m = Some m' \<longrightarrow> seg_wf m') \<and> seg_wf (TIMER1_COMPA_vect m)"
  using seg_wf_prep_buffer seg_wf_timer1 assms by blast

lemma segment_buffer_invariant_witness: "seg_wf (TIMER1_COMPA_vect machine0)"
proof -
  have "seg_wf machine0" by (simp add: seg_wf_def ring_next_def stepper0_def)
  then show ?thesis using segment_buffer_invariant by blast
qed

text \<open>The planner's two passes end: sixteen rounds are enough from any position of the ring,
  and more make no difference.\<close>

theorem planner_passes_end:
  assumes "in_ring i" "in_ring (block_buffer_planned m)" "in_ring (block_buffer_head m)" "BLOCK_BUFFER_SIZE \<le> k"
  shows "reverse_pass k i c m = reverse_pass BLOCK_BUFFER_SIZE i c m
    \<and> forward_pass k i c m = forward_pass BLOCK_BUFFER_SIZE i c m"
  using reverse_pass_fuel [OF assms(1,2) ahead_less assms(4)] forward_pass_fuel [OF assms(1,3) ahead_less assms(4)] assms
  by blast

lemma planner_passes_end_witness:
  "reverse_pass 99 3 2 machine0 = reverse_pass BLOCK_BUFFER_SIZE 3 2 machine0"
  using planner_passes_end [of 3 machine0 99 2] by simp

text \<open>No profile is planned slower than the minimum feed rate of 1 mm/min, whatever the block
  and the overrides.\<close>

theorem nominal_speed_minimum:
  "f32_le (f32_of_int 1) (plan_compute_profile_nominal_speed block m)"
  by (rule nominal_speed_ge_minimum)

section \<open>Serial input\<close>

text \<open>C20. The receive buffer of a client is a queue of at most 255 bytes: a byte is appended unless
  the queue is full (then it is dropped), reading takes the oldest byte, and an empty queue
  reads as \<^verbatim>\<open>SERIAL_NO_DATA\<close>.\<close>

theorem rx_buffer_queue:
  assumes "rx_wf c m"
  shows "rx_bytes c (serial_store c x m) = (if length (rx_bytes c m) = 255 then rx_bytes c m else rx_bytes c m @ [x])
    \<and> fst (serial_read c m) = (case rx_bytes c m of [] \<Rightarrow> SERIAL_NO_DATA | b # _ \<Rightarrow> b)
    \<and> rx_bytes c (snd (serial_read c m)) = tl (rx_bytes c m)"
  using rx_bytes_store [OF assms] serial_read_queue [OF assms] by (simp split: list.split)

lemma rx_wf_machine0: "c \<in> {1, 2, 3} \<Longrightarrow> rx_wf c machine0"
  by (auto simp: rx_wf_def numeral_nat less_Suc_eq)

lemma rx_bytes_machine0: "c \<in> {1, 2, 3} \<Longrightarrow> rx_bytes c machine0 = []"
  by (auto simp: rx_bytes_def rx_head_def rx_tail_def client_idx_def ring_contents_def ring_len_def)

lemma rx_buffer_queue_witness:
  "rx_bytes 2 (serial_store 2 71 machine0) = [71] \<and> fst (serial_read 2 machine0) = SERIAL_NO_DATA"
  using rx_buffer_queue [OF rx_wf_machine0 [of 2], of 71] rx_bytes_machine0 [of 2] by simp

text \<open>C19. The poll delivers to each client's line exactly the client's own bytes that are not
  realtime commands, in order, as long as they fit.\<close>

theorem poll_delivers_bytes:
  assumes "c \<in> {1, 2, 3}" "rx_wf c m" "\<forall>(c', d)\<in>set bytes. c' \<in> {1, 2, 3}"
    and "length (rx_bytes c m) + length bytes \<le> 255"
  shows "rx_bytes c (serial_poll_rx bytes m) =
    rx_bytes c m @ map snd (filter (\<lambda>(c', d). c' = c \<and> \<not> is_realtime d) bytes)"
  by (rule rx_bytes_poll [OF assms])

text \<open>\<^verbatim>\<open>G!1\<close> from the first client and \<^verbatim>\<open>X\<close> from the second.\<close>

lemma poll_delivers_bytes_witness:
  "rx_bytes 1 (serial_poll_rx [(1, 71), (1, 33), (2, 88), (1, 49)] machine0) = [71, 49]"
proof -
  have c: "(1 :: u8) \<in> {1, 2, 3}" by simp
  let ?b = "[(1, 71), (1, 33), (2, 88), (1, 49)] :: (u8 \<times> u8) list"
  have "rx_bytes 1 (serial_poll_rx ?b machine0) =
      rx_bytes 1 machine0 @ map snd (filter (\<lambda>(c', d). c' = 1 \<and> \<not> is_realtime d) ?b)"
    by (rule poll_delivers_bytes [OF c rx_wf_machine0 [OF c]]) (simp_all add: rx_bytes_machine0)
  then show ?thesis by (simp add: is_realtime_def rx_bytes_machine0)
qed

text \<open>What the receive buffer reports as free is the room it has only after the head has wrapped
  past the tail. Before that it is 342 less the bytes waiting, reduced to a byte: an empty
  buffer, which has room for 255 bytes, reports 86.\<close>

theorem rx_available_reported:
  assumes "rx_wf c m"
  shows "unat (serial_get_rx_buffer_available c m) =
    (if rx_tail c m \<le> rx_head c m then (342 - length (rx_bytes c m)) mod 256 else 255 - length (rx_bytes c m))"
  by (rule rx_available [OF assms])

lemma rx_available_reported_witness: "unat (serial_get_rx_buffer_available 1 machine0) = 86"
  using rx_available_reported [OF rx_wf_machine0 [of 1]] rx_bytes_machine0 [of 1]
  by (simp add: rx_head_def rx_tail_def client_idx_def)

section \<open>Reset and limits\<close>

text \<open>C24. A reset sets the reset flag, a second one changes nothing more, and a reset while the
  machine moves stops the step timer, drops the step pins and raises an alarm.\<close>

theorem reset_stops_motion:
  "bit_istrue (sys_rt_exec_state (mc_reset m)) EXEC_RESET
   \<and> mc_reset (mc_reset m) = mc_reset m
   \<and> (bit_isfalse (sys_rt_exec_state m) EXEC_RESET \<and> in_motion m \<longrightarrow>
        \<not> timer1_enabled (mc_reset m) \<and> step_port (mc_reset m) = step_port_invert_mask m
        \<and> sys_rt_exec_alarm (mc_reset m) \<noteq> 0)"
  using mc_reset_flag mc_reset_idem mc_reset_motion by (simp split: if_split)

lemma reset_stops_motion_witness:
  "\<not> timer1_enabled (mc_reset (machine0\<lparr>sys := system0\<lparr>sys_state := STATE_CYCLE\<rparr>, timer1_enabled := True\<rparr>))"
proof -
  let ?m = "machine0\<lparr>sys := system0\<lparr>sys_state := STATE_CYCLE\<rparr>, timer1_enabled := True\<rparr>"
  have "bit_isfalse (sys_rt_exec_state ?m) EXEC_RESET \<and> in_motion ?m"
    by (simp add: bit_isfalse_def in_motion_def)
  then show ?thesis using reset_stops_motion [of ?m] by blast
qed



section \<open>The realtime executor\<close>

text \<open>C7. After a hard or soft limit the executor comes back only with the abort flag set, in the
  alarm state and with the alarm acknowledged; and it does come back once a reset arrives.\<close>

theorem limit_alarm_needs_reset:
  assumes "sys_rt_exec_alarm m \<in> {EXEC_ALARM_HARD_LIMIT, EXEC_ALARM_SOFT_LIMIT}"
  shows "(\<forall>m'. protocol_exec_rt_system m = Some m' \<longrightarrow>
            sys_abort (sys m') \<and> sys_state (sys m') = STATE_ALARM \<and> sys_rt_exec_alarm m' = 0)
    \<and> ((\<exists>es\<in>set (sched m). brings_reset es) \<longrightarrow> (\<exists>m'. protocol_exec_rt_system m = Some m'))"
  using critical_alarm_aborts [OF assms] critical_alarm_returns [OF assms] by blast

lemma limit_alarm_needs_reset_witness:
  "\<exists>m'. protocol_exec_rt_system (machine0\<lparr>sys_rt_exec_alarm := EXEC_ALARM_HARD_LIMIT,
     sched := [[Ev_step], [Ev_rx [(1, CMD_RESET)]]]\<rparr>) = Some m' \<and> sys_abort (sys m')"
proof -
  let ?m = "machine0\<lparr>sys_rt_exec_alarm := EXEC_ALARM_HARD_LIMIT, sched := [[Ev_step], [Ev_rx [(1, CMD_RESET)]]]\<rparr>"
  have "brings_reset [Ev_rx [(1, CMD_RESET)]]" by (auto simp: brings_reset_def)
  moreover have "sys_rt_exec_alarm ?m \<in> {EXEC_ALARM_HARD_LIMIT, EXEC_ALARM_SOFT_LIMIT}" by simp
  ultimately show ?thesis using limit_alarm_needs_reset [of ?m] by auto
qed


text \<open>A motion cancel requested while idle.\<close>

definition idle_cancel :: machine where
  "idle_cancel = machine0\<lparr>sys_rt_exec_state := EXEC_MOTION_CANCEL,
     sys := system0\<lparr>sys_f_override := 100, sys_r_override := 100, sys_spindle_speed_ovr := 100\<rparr>\<rparr>"

lemma idle_cancel_run:
  "protocol_exec_rt_system idle_cancel = Some (system_clear_exec_state_flag EXEC_HOLDS
     (set_suspend (SUSPEND_HOLD_COMPLETE OR SUSPEND_MOTION_CANCEL) idle_cancel))"
  by (simp add: protocol_exec_rt_system_def rt_alarm_def rt_exec_flags_def rt_status_report_def rt_hold_def EXEC_HOLDS_def
      rt_hold_motion_def rt_motion_cancel_def rt_feed_hold_def rt_safety_door_def rt_sleep_def rt_cycle_start_def
      rt_cycle_stop_def rt_motion_overrides_def rt_accessory_overrides_def rt_reload_def idle_cancel_def
      system_clear_exec_state_flag_def system0_def Let_def)


text \<open>The state is always one of the nine states of \<^verbatim>\<open>system.hpp\<close>: never two of its bits.\<close>

lemma executor_keeps_state:
  assumes "protocol_exec_rt_system m = Some m'" "sys_state (sys m) \<in> STATES"
  shows "sys_state (sys m') \<in> STATES"
  using rt_system_state [OF assms(1)] assms(2) by (auto simp: STATES_def)

lemma executor_keeps_state_witness: "sys_state (sys (the (protocol_exec_rt_system idle_cancel))) \<in> STATES"
proof -
  have "sys_state (sys idle_cancel) \<in> STATES" by (simp add: idle_cancel_def system0_def STATES_def)
  then show ?thesis using executor_keeps_state [OF idle_cancel_run] idle_cancel_run by simp
qed

text \<open>C11. The executor sets a machine moving only when a cycle start was requested, with no reset,
  hold, motion cancel, door or sleep request and no alarm beside it, with a block queued, and
  from a state it may resume: idle, a completed hold whose spindle is not stopped, or a closed
  door with everything restored.\<close>

theorem executor_starts_motion:
  assumes "protocol_exec_rt_system m = Some m'" "sys_state (sys m') = STATE_CYCLE" "sys_state (sys m) \<noteq> STATE_CYCLE"
    "sys_state (sys m) \<in> STATES"
  shows "sys_rt_exec_alarm m = 0 \<and> sys_rt_exec_state m AND EXEC_CYCLE_START \<noteq> 0
    \<and> sys_rt_exec_state m AND (EXEC_RESET OR EXEC_HOLDS) = 0 \<and> resumable m
    \<and> plan_get_current_block m \<noteq> None \<and> sys_suspend (sys m) AND SUSPEND_MOTION_CANCEL = 0"
  by (rule rt_system_starts [OF assms])

text \<open>A queued block and a full segment buffer.\<close>

definition queued :: machine where
  "queued = machine0\<lparr>sys_rt_exec_state := EXEC_CYCLE_START, block_buffer_head := 1, next_buffer_head := 2,
     segment_buffer_tail := 1\<rparr>"

lemma queued_runs: "\<exists>m'. protocol_exec_rt_system queued = Some m' \<and> sys_state (sys m') = STATE_CYCLE"
proof -
  have p: "st_prep_buffer m = Some m" if "segment_buffer_tail m = segment_next_head m" for m
    using that by (simp add: st_prep_buffer_def prep_loop.simps)
  let ?k = "set_state STATE_CYCLE (set_suspend SUSPEND_DISABLE (set_step_control STEP_CONTROL_NORMAL_OP queued))"
  have r: "rt_run_cycle queued = Some (st_wake_up ?k)"
    using p [of ?k] by (simp add: rt_run_cycle_def queued_def system0_def plan_get_current_block_def bit_isfalse_def)
  let ?w = "system_clear_exec_state_flag EXEC_CYCLE_START (st_wake_up ?k)"
  have w: "segment_buffer_tail ?w = segment_next_head ?w" "sys ?w = sys ?k"
    "sys_rt_exec_motion_override ?w = 0" "sys_rt_exec_accessory_override ?w = 0"
    by (simp_all add: system_clear_exec_state_flag_def st_wake_up_def set_steppers_disable_def queued_def Let_def)
  have "rt_exec_flags EXEC_CYCLE_START queued = Some ?w"
    using r by (simp add: rt_exec_flags_def rt_status_report_def rt_hold_def EXEC_HOLDS_def rt_cycle_start_def
        rt_cycle_stop_def rt_door_resume_def) (simp add: queued_def system0_def)
  then have "protocol_exec_rt_system queued = Some ?w"
    using w p [of ?w] by (simp add: protocol_exec_rt_system_def rt_alarm_def rt_motion_overrides_def
        rt_accessory_overrides_def rt_reload_def queued_def)
  then show ?thesis using w(2) by simp
qed

lemma executor_starts_motion_witness: "plan_get_current_block queued \<noteq> None \<and> resumable queued"
proof -
  have "sys_state (sys queued) = STATE_IDLE" by (simp add: queued_def system0_def)
  then show ?thesis
    using queued_runs executor_starts_motion [of queued] by (auto simp: STATES_def)
qed

text \<open>The feed override after a request: the changes asked for, added up and clamped to 10 to
  200 percent, but when they add up to less than zero (a coarse and a fine decrease together at
  10 percent) the byte wraps and the feed jumps to 200 percent. The spindle override is computed
  alike.\<close>

theorem feed_override_value:
  assumes "10 \<le> v" "v \<le> 200"
  shows "uint (new_feed_override e v) =
      (let i = ideal_change e (uint v) in if i < 0 then 200 else max 10 (min 200 i))
    \<and> new_spindle_override e v = new_feed_override e v"
  using new_feed_override_value [OF assms] new_spindle_override_eq by blast

lemma feed_override_value_witness:
  "uint (new_feed_override (EXEC_FEED_OVR_COARSE_MINUS OR EXEC_FEED_OVR_FINE_MINUS) 10) = 200"
  using feed_override_value [of 10 "EXEC_FEED_OVR_COARSE_MINUS OR EXEC_FEED_OVR_FINE_MINUS"]
  by (simp add: ideal_change_def)

text \<open>C39. The overrides stay in range: feed and spindle between 10 and 200 percent, rapids at 100, 50
  or 25 percent.\<close>

theorem overrides_in_range:
  assumes "protocol_exec_rt_system m = Some m'" "ovr_ok m"
  shows "ovr_ok m'"
  by (rule ovr_ok_system [OF assms])

lemma overrides_in_range_witness: "ovr_ok (the (protocol_exec_rt_system idle_cancel))"
proof -
  have "ovr_ok idle_cancel" by (simp add: ovr_ok_def ovr_def idle_cancel_def)
  then show ?thesis using overrides_in_range [OF idle_cancel_run] idle_cancel_run by simp
qed

text \<open>A change of the feed override replans without asking for a block. On a planner that has not
  been used, it leaves the planned pointer behind the tail, where the ring invariant of the planner
  says it never is.\<close>

lemma override_replans_empty_buffer:
  assumes "blank m" "in_ring (block_buffer_head m)" "block_buffer_tail m = block_buffer_head m"
    "sys_rt_exec_motion_override m \<noteq> 0"
    "new_feed_override (sys_rt_exec_motion_override m) (sys_f_override (sys m)) \<noteq> sys_f_override (sys m)"
  shows "\<not> plan_wf (rt_motion_overrides m)"
proof -
  obtain s p where r: "rt_motion_overrides m =
      plan_cycle_reinitialize (m\<lparr>sys_rt_exec_motion_override := 0, sys := s, pl := p\<rparr>)"
    using assms(3-5) by (simp add: rt_motion_overrides_def plan_update_velocity_profile_parameters_def numeral_nat
        system_clear_exec_motion_overrides_def Let_def)
  show ?thesis unfolding r
    by (rule empty_replan_leaves_queue) (use assms in \<open>simp_all add: blank_def\<close>)
qed

lemma override_replans_empty_buffer_example:
  "\<not> plan_wf (rt_motion_overrides (machine0\<lparr>sys_rt_exec_motion_override := EXEC_FEED_OVR_RESET\<rparr>))"
  by (rule override_replans_empty_buffer)
     (simp_all add: blank_def new_feed_override_def clamp_override_def system0_def)

text \<open>C9. A check point is left only when the machine is no longer suspended, and a synchronisation
  only when the planner is empty and no cycle runs, unless the machine was aborted.\<close>

theorem waits_end_properly:
  "(protocol_execute_realtime m = Some m' \<longrightarrow> sys_abort (sys m') \<or> sys_suspend (sys m') = 0)
   \<and> (protocol_buffer_synchronize m = Some m' \<longrightarrow>
        sys_abort (sys m') \<or> plan_get_current_block m' = None \<and> sys_state (sys m') \<noteq> STATE_CYCLE)"
  using execute_realtime_result synchronize_result by blast

lemma waits_end_properly_witness: "sys_suspend (sys (the (protocol_execute_realtime machine0))) = 0"
proof -
  have s: "protocol_exec_rt_system machine0 = Some machine0"
    by (simp add: protocol_exec_rt_system_def rt_alarm_def rt_exec_flags_def rt_motion_overrides_def
        rt_accessory_overrides_def rt_reload_def system0_def)
  then have "protocol_execute_realtime machine0 = Some machine0"
    by (simp add: protocol_execute_realtime_def system0_def)
  then show ?thesis using waits_end_properly [of machine0 machine0] by (simp add: system0_def)
qed

section \<open>Coolant and probe\<close>

text \<open>Unless the machine is aborting, the coolant state read back is the flood bit of the mode
  set; the mist bit is ignored.\<close>

theorem coolant_set_get:
  assumes "\<not> sys_abort (sys m)"
  shows "coolant_get_state (coolant_set_state mode m) =
    (if mode AND COOLANT_FLOOD_ENABLE \<noteq> 0 then COOLANT_STATE_FLOOD else COOLANT_STATE_DISABLE)"
  by (rule coolant_get_state_after_set [OF assms])

lemma coolant_set_get_witness: "coolant_get_state (coolant_set_state COOLANT_FLOOD_ENABLE machine0) = COOLANT_STATE_FLOOD"
  using coolant_set_get [of machine0 COOLANT_FLOOD_ENABLE] by (simp add: system0_def)

text \<open>The probe reads as triggered by configuration alone: exactly when one of the two
  inversions (the setting, probing away) applies and the other does not, whatever the pin does.\<close>

theorem probe_state_constant:
  "probe_get_state (probe_configure_invert_mask away m) \<noteq> 0 \<longleftrightarrow>
     (bit_isfalse (flags (settings m)) BITFLAG_INVERT_PROBE_PIN \<noteq> away)"
  by (rule probe_get_state_configured)

end
