(* ===== verification/Settings.thy ===== *)
theory Settings
  imports Protocol_RT
begin

text \<open>
  \<^verbatim>\<open>settings.cpp\<close>: the persistent settings, the work coordinate systems, the startup lines and the
  build info, and their places in the parameter store. The settings record is stored as the bytes
  of the C struct: little-endian fields at the offsets the compiler gives them, padded to four
  bytes where a \<^verbatim>\<open>float\<close> follows a byte field. C leaves the value of the padding open; it is
  written as zero here. Storing a parameter waits for the planner to empty first, so the
  operations have no result when that wait does not end.
\<close>

section \<open>defaults.hpp: \<^verbatim>\<open>DEFAULTS_GENERIC\<close>\<close>

abbreviation (input) DEFAULT_X_STEPS_PER_MM :: rat where "DEFAULT_X_STEPS_PER_MM \<equiv> 250"
abbreviation (input) DEFAULT_Y_STEPS_PER_MM :: rat where "DEFAULT_Y_STEPS_PER_MM \<equiv> 250"
abbreviation (input) DEFAULT_Z_STEPS_PER_MM :: rat where "DEFAULT_Z_STEPS_PER_MM \<equiv> 250"
abbreviation (input) DEFAULT_A_STEPS_PER_MM :: rat where "DEFAULT_A_STEPS_PER_MM \<equiv> 250"
abbreviation (input) DEFAULT_B_STEPS_PER_MM :: rat where "DEFAULT_B_STEPS_PER_MM \<equiv> 250"
abbreviation (input) DEFAULT_C_STEPS_PER_MM :: rat where "DEFAULT_C_STEPS_PER_MM \<equiv> 250"
abbreviation (input) DEFAULT_D_STEPS_PER_MM :: rat where "DEFAULT_D_STEPS_PER_MM \<equiv> 250"
abbreviation (input) DEFAULT_E_STEPS_PER_MM :: rat where "DEFAULT_E_STEPS_PER_MM \<equiv> 250"
abbreviation (input) DEFAULT_X_MAX_RATE :: rat where "DEFAULT_X_MAX_RATE \<equiv> 3000"
abbreviation (input) DEFAULT_Y_MAX_RATE :: rat where "DEFAULT_Y_MAX_RATE \<equiv> 3000"
abbreviation (input) DEFAULT_Z_MAX_RATE :: rat where "DEFAULT_Z_MAX_RATE \<equiv> 3000"
abbreviation (input) DEFAULT_A_MAX_RATE :: rat where "DEFAULT_A_MAX_RATE \<equiv> 3000"
abbreviation (input) DEFAULT_B_MAX_RATE :: rat where "DEFAULT_B_MAX_RATE \<equiv> 3000"
abbreviation (input) DEFAULT_C_MAX_RATE :: rat where "DEFAULT_C_MAX_RATE \<equiv> 3000"
abbreviation (input) DEFAULT_D_MAX_RATE :: rat where "DEFAULT_D_MAX_RATE \<equiv> 3000"
abbreviation (input) DEFAULT_E_MAX_RATE :: rat where "DEFAULT_E_MAX_RATE \<equiv> 3000"
abbreviation (input) DEFAULT_X_ACCELERATION :: rat where "DEFAULT_X_ACCELERATION \<equiv> 36000"
abbreviation (input) DEFAULT_Y_ACCELERATION :: rat where "DEFAULT_Y_ACCELERATION \<equiv> 36000"
abbreviation (input) DEFAULT_Z_ACCELERATION :: rat where "DEFAULT_Z_ACCELERATION \<equiv> 36000"
abbreviation (input) DEFAULT_A_ACCELERATION :: rat where "DEFAULT_A_ACCELERATION \<equiv> 36000"
abbreviation (input) DEFAULT_B_ACCELERATION :: rat where "DEFAULT_B_ACCELERATION \<equiv> 36000"
abbreviation (input) DEFAULT_C_ACCELERATION :: rat where "DEFAULT_C_ACCELERATION \<equiv> 36000"
abbreviation (input) DEFAULT_D_ACCELERATION :: rat where "DEFAULT_D_ACCELERATION \<equiv> 36000"
abbreviation (input) DEFAULT_E_ACCELERATION :: rat where "DEFAULT_E_ACCELERATION \<equiv> 36000"
abbreviation (input) DEFAULT_X_MAX_TRAVEL :: rat where "DEFAULT_X_MAX_TRAVEL \<equiv> 200"
abbreviation (input) DEFAULT_Y_MAX_TRAVEL :: rat where "DEFAULT_Y_MAX_TRAVEL \<equiv> 200"
abbreviation (input) DEFAULT_Z_MAX_TRAVEL :: rat where "DEFAULT_Z_MAX_TRAVEL \<equiv> 200"
abbreviation (input) DEFAULT_A_MAX_TRAVEL :: rat where "DEFAULT_A_MAX_TRAVEL \<equiv> 200"
abbreviation (input) DEFAULT_B_MAX_TRAVEL :: rat where "DEFAULT_B_MAX_TRAVEL \<equiv> 200"
abbreviation (input) DEFAULT_C_MAX_TRAVEL :: rat where "DEFAULT_C_MAX_TRAVEL \<equiv> 200"
abbreviation (input) DEFAULT_D_MAX_TRAVEL :: rat where "DEFAULT_D_MAX_TRAVEL \<equiv> 200"
abbreviation (input) DEFAULT_E_MAX_TRAVEL :: rat where "DEFAULT_E_MAX_TRAVEL \<equiv> 200"
abbreviation (input) DEFAULT_SPINDLE_RPM_MAX :: rat where "DEFAULT_SPINDLE_RPM_MAX \<equiv> 1000"
abbreviation (input) DEFAULT_SPINDLE_RPM_MIN :: rat where "DEFAULT_SPINDLE_RPM_MIN \<equiv> 0"
abbreviation (input) DEFAULT_STEP_PULSE_MICROSECONDS :: u8 where "DEFAULT_STEP_PULSE_MICROSECONDS \<equiv> 10"
abbreviation (input) DEFAULT_STEPPING_INVERT_MASK :: u8 where "DEFAULT_STEPPING_INVERT_MASK \<equiv> 0"
abbreviation (input) DEFAULT_DIRECTION_INVERT_MASK :: u8 where "DEFAULT_DIRECTION_INVERT_MASK \<equiv> 0"
abbreviation (input) DEFAULT_STEPPER_IDLE_LOCK_TIME :: u8 where "DEFAULT_STEPPER_IDLE_LOCK_TIME \<equiv> 250"
abbreviation (input) DEFAULT_STATUS_REPORT_MASK :: u8 where "DEFAULT_STATUS_REPORT_MASK \<equiv> 1"
abbreviation (input) DEFAULT_JUNCTION_DEVIATION :: rat where "DEFAULT_JUNCTION_DEVIATION \<equiv> 1 / 100"
abbreviation (input) DEFAULT_ARC_TOLERANCE :: rat where "DEFAULT_ARC_TOLERANCE \<equiv> 1 / 500"
abbreviation (input) DEFAULT_REPORT_INCHES :: bool where "DEFAULT_REPORT_INCHES \<equiv> False"
abbreviation (input) DEFAULT_INVERT_ST_ENABLE :: bool where "DEFAULT_INVERT_ST_ENABLE \<equiv> False"
abbreviation (input) DEFAULT_INVERT_LIMIT_PINS :: bool where "DEFAULT_INVERT_LIMIT_PINS \<equiv> False"
abbreviation (input) DEFAULT_SOFT_LIMIT_ENABLE :: bool where "DEFAULT_SOFT_LIMIT_ENABLE \<equiv> False"
abbreviation (input) DEFAULT_HARD_LIMIT_ENABLE :: bool where "DEFAULT_HARD_LIMIT_ENABLE \<equiv> False"
abbreviation (input) DEFAULT_INVERT_PROBE_PIN :: bool where "DEFAULT_INVERT_PROBE_PIN \<equiv> False"
abbreviation (input) DEFAULT_LASER_MODE :: bool where "DEFAULT_LASER_MODE \<equiv> False"
abbreviation (input) DEFAULT_HOMING_ENABLE :: bool where "DEFAULT_HOMING_ENABLE \<equiv> False"
abbreviation (input) DEFAULT_HOMING_DIR_MASK :: u8 where "DEFAULT_HOMING_DIR_MASK \<equiv> 0"
abbreviation (input) DEFAULT_HOMING_FEED_RATE :: rat where "DEFAULT_HOMING_FEED_RATE \<equiv> 25"
abbreviation (input) DEFAULT_HOMING_SEEK_RATE :: rat where "DEFAULT_HOMING_SEEK_RATE \<equiv> 500"
abbreviation (input) DEFAULT_HOMING_DEBOUNCE_DELAY :: u16 where "DEFAULT_HOMING_DEBOUNCE_DELAY \<equiv> 250"
abbreviation (input) DEFAULT_HOMING_PULLOFF :: rat where "DEFAULT_HOMING_PULLOFF \<equiv> 1"

section \<open>system.cpp: a change of the work coordinate offset\<close>

definition system_flag_wco_change :: "machine \<Rightarrow> machine option" where
  "system_flag_wco_change m =
     map_option (upd_sys (\<lambda>s. s\<lparr>sys_report_wco_counter := 0\<rparr>)) (protocol_buffer_synchronize m)"

section \<open>The bytes of a value\<close>

definition f32_bytes :: "f32 \<Rightarrow> u8 list" where
  "f32_bytes w = [ucast w, ucast (drop_bit 8 w), ucast (drop_bit 16 w), ucast (drop_bit 24 w)]"

definition f32_at :: "u8 list \<Rightarrow> nat \<Rightarrow> f32" where
  "f32_at bs i = ucast (bs ! i) OR push_bit 8 (ucast (bs ! (i + 1)))
     OR push_bit 16 (ucast (bs ! (i + 2))) OR push_bit 24 (ucast (bs ! (i + 3)))"

definition u16_bytes :: "u16 \<Rightarrow> u8 list" where
  "u16_bytes w = [ucast w, ucast (drop_bit 8 w)]"

definition u16_at :: "u8 list \<Rightarrow> nat \<Rightarrow> u16" where
  "u16_at bs i = ucast (bs ! i) OR push_bit 8 (ucast (bs ! (i + 1)))"

definition floats_bytes :: "f32 list \<Rightarrow> u8 list" where
  "floats_bytes xs = concat (map f32_bytes xs)"

text \<open>An array of one value per axis.\<close>

definition floats_at :: "u8 list \<Rightarrow> nat \<Rightarrow> f32 list" where
  "floats_at bs i = map (\<lambda>j. f32_at bs (i + 4 * j)) [0..<N_AXIS]"

text \<open>\<^verbatim>\<open>sizeof(settings_t)\<close>, with the padding after the five byte fields, after the two byte
  fields and after the 16-bit field.\<close>

abbreviation (input) SIZEOF_SETTINGS :: nat where "SIZEOF_SETTINGS \<equiv> 172"
abbreviation (input) SIZEOF_COORD_DATA :: nat where "SIZEOF_COORD_DATA \<equiv> 4 * N_AXIS"

definition settings_bytes :: "settings_t \<Rightarrow> u8 list" where
  "settings_bytes s =
     floats_bytes (steps_per_mm s) @ floats_bytes (max_rate s) @ floats_bytes (acceleration s) @ floats_bytes (max_travel s)
     @ [pulse_microseconds s, step_invert_mask s, dir_invert_mask s, stepper_idle_lock_time s, status_report_mask s, 0, 0, 0]
     @ f32_bytes (junction_deviation s) @ f32_bytes (arc_tolerance s) @ f32_bytes (rpm_max s) @ f32_bytes (rpm_min s)
     @ [flags s, homing_dir_mask s, 0, 0]
     @ f32_bytes (homing_feed_rate s) @ f32_bytes (homing_seek_rate s)
     @ u16_bytes (homing_debounce_delay s) @ [0, 0]
     @ f32_bytes (homing_pulloff s)"

definition settings_of_bytes :: "u8 list \<Rightarrow> settings_t" where
  "settings_of_bytes bs = \<lparr>
     steps_per_mm = floats_at bs 0, max_rate = floats_at bs 32, acceleration = floats_at bs 64, max_travel = floats_at bs 96,
     pulse_microseconds = bs ! 128, step_invert_mask = bs ! 129, dir_invert_mask = bs ! 130,
     stepper_idle_lock_time = bs ! 131, status_report_mask = bs ! 132,
     junction_deviation = f32_at bs 136, arc_tolerance = f32_at bs 140, rpm_max = f32_at bs 144, rpm_min = f32_at bs 148,
     flags = bs ! 152, homing_dir_mask = bs ! 153,
     homing_feed_rate = f32_at bs 156, homing_seek_rate = f32_at bs 160,
     homing_debounce_delay = u16_at bs 164, homing_pulloff = f32_at bs 168\<rparr>"

section \<open>Storing and reading\<close>

definition startup_line_addr :: "u8 \<Rightarrow> nat" where
  "startup_line_addr n = unat n * (LINE_BUFFER_SIZE + 1) + EEPROM_ADDR_STARTUP_BLOCK"

definition settings_store_startup_line :: "u8 \<Rightarrow> line \<Rightarrow> machine \<Rightarrow> machine option" where
  "settings_store_startup_line n line m =
     map_option (memcpy_to_eeprom (startup_line_addr n) (take LINE_BUFFER_SIZE line)) (protocol_buffer_synchronize m)"

definition settings_store_build_info :: "line \<Rightarrow> machine \<Rightarrow> machine" where
  "settings_store_build_info line m = memcpy_to_eeprom EEPROM_ADDR_BUILD_INFO (take LINE_BUFFER_SIZE line) m"

definition coord_data_addr :: "u8 \<Rightarrow> nat" where
  "coord_data_addr coord_select = unat coord_select * (SIZEOF_COORD_DATA + 1) + EEPROM_ADDR_PARAMETERS"

definition settings_write_coord_data :: "u8 \<Rightarrow> f32 list \<Rightarrow> machine \<Rightarrow> machine option" where
  "settings_write_coord_data coord_select coord_data m =
     map_option (memcpy_to_eeprom (coord_data_addr coord_select) (floats_bytes coord_data)) (protocol_buffer_synchronize m)"

definition write_global_settings :: "machine \<Rightarrow> machine" where
  "write_global_settings m =
     memcpy_to_eeprom EEPROM_ADDR_GLOBAL (settings_bytes (settings m)) (eeprom_put_char 0 SETTINGS_VERSION m)"

text \<open>A read returns the line (or vector) it leaves in the caller's array. One that fails writes
  the default to the store.\<close>

definition settings_read_startup_line :: "u8 \<Rightarrow> machine \<Rightarrow> (bool \<times> line \<times> machine) option" where
  "settings_read_startup_line n m =
     (case memcpy_from_eeprom (startup_line_addr n) LINE_BUFFER_SIZE m of
        (line, True) \<Rightarrow> Some (True, line, m)
      | (line, False) \<Rightarrow>
          (let line = line[0 := 0]
           in map_option (\<lambda>m. (False, line, m)) (settings_store_startup_line n line m)))"

definition settings_read_build_info :: "machine \<Rightarrow> bool \<times> line \<times> machine" where
  "settings_read_build_info m =
     (case memcpy_from_eeprom EEPROM_ADDR_BUILD_INFO LINE_BUFFER_SIZE m of
        (line, True) \<Rightarrow> (True, line, m)
      | (line, False) \<Rightarrow> (let line = line[0 := 0] in (False, line, settings_store_build_info line m)))"

text \<open>\<open>put\<close> writes the caller's array where it is part of the machine (the parser's coordinate
  system); a local array is only returned.\<close>

definition settings_read_coord_data_into ::
    "(f32 list \<Rightarrow> machine \<Rightarrow> machine) \<Rightarrow> u8 \<Rightarrow> machine \<Rightarrow> (bool \<times> f32 list \<times> machine) option" where
  "settings_read_coord_data_into put coord_select m =
     (case memcpy_from_eeprom (coord_data_addr coord_select) SIZEOF_COORD_DATA m of
        (bs, True) \<Rightarrow> Some (True, floats_at bs 0, put (floats_at bs 0) m)
      | (bs, False) \<Rightarrow>
          (let coord_data = replicate N_AXIS 0
           in map_option (\<lambda>m. (False, coord_data, m)) (settings_write_coord_data coord_select coord_data (put coord_data m))))"

definition settings_read_coord_data :: "u8 \<Rightarrow> machine \<Rightarrow> (bool \<times> f32 list \<times> machine) option" where
  "settings_read_coord_data = settings_read_coord_data_into (\<lambda>_ m. m)"

text \<open>The settings record is overwritten with what was read before the checksum is known.\<close>

definition read_global_settings :: "machine \<Rightarrow> bool \<times> machine" where
  "read_global_settings m =
     (if eeprom_get_char m 0 = SETTINGS_VERSION then
        let (bs, ok) = memcpy_from_eeprom EEPROM_ADDR_GLOBAL SIZEOF_SETTINGS m
        in (ok, m\<lparr>settings := settings_of_bytes bs\<rparr>)
      else (False, m))"

section \<open>Restoring defaults\<close>

text \<open>A literal is a \<^verbatim>\<open>double\<close>, narrowed when it is stored.\<close>

abbreviation (input) literal :: "rat \<Rightarrow> f32" where "literal q \<equiv> f32_of_f64 (f64_of_rat q)"

definition set_flag_if :: "bool \<Rightarrow> u8 \<Rightarrow> u8 \<Rightarrow> u8" where
  "set_flag_if c bitflag k = (if c then k OR bitflag else k)"

definition default_flags :: u8 where
  "default_flags =
     set_flag_if DEFAULT_INVERT_PROBE_PIN BITFLAG_INVERT_PROBE_PIN
    (set_flag_if DEFAULT_INVERT_LIMIT_PINS BITFLAG_INVERT_LIMIT_PINS
    (set_flag_if DEFAULT_SOFT_LIMIT_ENABLE BITFLAG_SOFT_LIMIT_ENABLE
    (set_flag_if DEFAULT_HOMING_ENABLE BITFLAG_HOMING_ENABLE
    (set_flag_if DEFAULT_HARD_LIMIT_ENABLE BITFLAG_HARD_LIMIT_ENABLE
    (set_flag_if DEFAULT_INVERT_ST_ENABLE BITFLAG_INVERT_ST_ENABLE
    (set_flag_if DEFAULT_LASER_MODE BITFLAG_LASER_MODE
    (set_flag_if DEFAULT_REPORT_INCHES BITFLAG_REPORT_INCHES 0)))))))"

definition default_settings :: settings_t where
  "default_settings = \<lparr>
     steps_per_mm = [literal DEFAULT_X_STEPS_PER_MM, literal DEFAULT_Y_STEPS_PER_MM, literal DEFAULT_Z_STEPS_PER_MM, literal DEFAULT_A_STEPS_PER_MM,
       literal DEFAULT_B_STEPS_PER_MM, literal DEFAULT_C_STEPS_PER_MM, literal DEFAULT_D_STEPS_PER_MM, literal DEFAULT_E_STEPS_PER_MM],
     max_rate = [literal DEFAULT_X_MAX_RATE, literal DEFAULT_Y_MAX_RATE, literal DEFAULT_Z_MAX_RATE, literal DEFAULT_A_MAX_RATE,
       literal DEFAULT_B_MAX_RATE, literal DEFAULT_C_MAX_RATE, literal DEFAULT_D_MAX_RATE, literal DEFAULT_E_MAX_RATE],
     acceleration = [literal DEFAULT_X_ACCELERATION, literal DEFAULT_Y_ACCELERATION, literal DEFAULT_Z_ACCELERATION, literal DEFAULT_A_ACCELERATION,
       literal DEFAULT_B_ACCELERATION, literal DEFAULT_C_ACCELERATION, literal DEFAULT_D_ACCELERATION, literal DEFAULT_E_ACCELERATION],
     max_travel = [literal (- DEFAULT_X_MAX_TRAVEL), literal (- DEFAULT_Y_MAX_TRAVEL), literal (- DEFAULT_Z_MAX_TRAVEL), literal (- DEFAULT_A_MAX_TRAVEL),
       literal (- DEFAULT_B_MAX_TRAVEL), literal (- DEFAULT_C_MAX_TRAVEL), literal (- DEFAULT_D_MAX_TRAVEL), literal (- DEFAULT_E_MAX_TRAVEL)],
     pulse_microseconds = DEFAULT_STEP_PULSE_MICROSECONDS, step_invert_mask = DEFAULT_STEPPING_INVERT_MASK,
     dir_invert_mask = DEFAULT_DIRECTION_INVERT_MASK, stepper_idle_lock_time = DEFAULT_STEPPER_IDLE_LOCK_TIME,
     status_report_mask = DEFAULT_STATUS_REPORT_MASK,
     junction_deviation = literal DEFAULT_JUNCTION_DEVIATION, arc_tolerance = literal DEFAULT_ARC_TOLERANCE,
     rpm_max = literal DEFAULT_SPINDLE_RPM_MAX, rpm_min = literal DEFAULT_SPINDLE_RPM_MIN,
     flags = default_flags, homing_dir_mask = DEFAULT_HOMING_DIR_MASK,
     homing_feed_rate = literal DEFAULT_HOMING_FEED_RATE, homing_seek_rate = literal DEFAULT_HOMING_SEEK_RATE,
     homing_debounce_delay = DEFAULT_HOMING_DEBOUNCE_DELAY, homing_pulloff = literal DEFAULT_HOMING_PULLOFF\<rparr>"

primrec restore_parameters :: "nat list \<Rightarrow> machine \<Rightarrow> machine option" where
  "restore_parameters [] m = Some m"
| "restore_parameters (idx # rest) m =
     (case settings_write_coord_data (of_nat idx) (replicate N_AXIS 0) m of
        None \<Rightarrow> None | Some m \<Rightarrow> restore_parameters rest m)"

text \<open>Both bytes after the address are cleared: the second is the checksum's place in the comment
  of the source, but not in the layout of \<^verbatim>\<open>settings_store_startup_line\<close>.\<close>

definition restore_startup_lines :: "machine \<Rightarrow> machine" where
  "restore_startup_lines m =
     (let m = eeprom_put_char EEPROM_ADDR_STARTUP_BLOCK 0 m;
          m = eeprom_put_char (EEPROM_ADDR_STARTUP_BLOCK + 1) 0 m;
          m = eeprom_put_char (EEPROM_ADDR_STARTUP_BLOCK + (LINE_BUFFER_SIZE + 1)) 0 m
      in eeprom_put_char (EEPROM_ADDR_STARTUP_BLOCK + (LINE_BUFFER_SIZE + 2)) 0 m)"

definition restore_build_info :: "machine \<Rightarrow> machine" where
  "restore_build_info m =
     eeprom_put_char (EEPROM_ADDR_BUILD_INFO + 1) 0 (eeprom_put_char EEPROM_ADDR_BUILD_INFO 0 m)"

definition settings_restore :: "u8 \<Rightarrow> machine \<Rightarrow> machine option" where
  "settings_restore restore_flag m =
     (let m = (if restore_flag AND SETTINGS_RESTORE_DEFAULTS \<noteq> 0
               then write_global_settings (m\<lparr>settings := default_settings\<rparr>) else m)
      in map_option
           (\<lambda>m. let m = (if restore_flag AND SETTINGS_RESTORE_STARTUP_LINES \<noteq> 0 then restore_startup_lines m else m)
                in if restore_flag AND SETTINGS_RESTORE_BUILD_INFO \<noteq> 0 then restore_build_info m else m)
           (if restore_flag AND SETTINGS_RESTORE_PARAMETERS \<noteq> 0
            then restore_parameters [0..<SETTING_INDEX_NCOORD + 1] m else Some m))"

definition settings_init :: "machine \<Rightarrow> machine option" where
  "settings_init m =
     (case read_global_settings m of
        (True, m) \<Rightarrow> Some m
      | (False, m) \<Rightarrow>
          map_option (report (Grbl_settings CLIENT_SERIAL))
            (settings_restore SETTINGS_RESTORE_ALL (report (Status_message STATUS_SETTING_READ_FAIL CLIENT_SERIAL) m)))"

section \<open>Changing one setting\<close>

text \<open>The loop that finds the axis setting: the kind of setting and the axis, or nothing.\<close>

function axis_setting :: "nat \<Rightarrow> u8 \<Rightarrow> (nat \<times> u8) option" where
  "axis_setting set_idx parameter =
     (if unat parameter < N_AXIS then Some (set_idx, parameter)
      else if unat parameter < AXIS_SETTINGS_INCREMENT \<or> AXIS_N_SETTINGS \<le> set_idx + 1 then None
      else axis_setting (set_idx + 1) (parameter - of_nat AXIS_SETTINGS_INCREMENT))"
  by pat_completeness auto
termination by (relation "measure (\<lambda>(set_idx, parameter). AXIS_N_SETTINGS - set_idx)") auto

declare axis_setting.simps [simp del]

definition store_axis_setting :: "nat \<Rightarrow> nat \<Rightarrow> f32 \<Rightarrow> settings_t \<Rightarrow> settings_t" where
  "store_axis_setting set_idx axis value s =
     (if set_idx = 0 then s\<lparr>steps_per_mm := (steps_per_mm s)[axis := value]\<rparr>
      else if set_idx = 1 then s\<lparr>max_rate := (max_rate s)[axis := value]\<rparr>
      else if set_idx = 2 then
        s\<lparr>acceleration := (acceleration s)[axis := f32_mul (f32_mul value (f32_of_int 60)) (f32_of_int 60)]\<rparr>
      else if set_idx = 3 then s\<lparr>max_travel := (max_travel s)[axis := f32_neg value]\<rparr>
      else s)"

definition upd_settings :: "(settings_t \<Rightarrow> settings_t) \<Rightarrow> machine \<Rightarrow> machine" where
  "upd_settings f m = m\<lparr>settings := f (settings m)\<rparr>"

text \<open>Setting or clearing one of the bits of \<^verbatim>\<open>settings.flags\<close>.\<close>

definition put_flag :: "u8 \<Rightarrow> bool \<Rightarrow> machine \<Rightarrow> machine" where
  "put_flag bitflag on = upd_settings (\<lambda>s. s\<lparr>flags := (if on then flags s OR bitflag else flags s AND NOT bitflag)\<rparr>)"

text \<open>The other settings, by number; an error code on the left. \<open>int_value\<close> is the value cut to a
  byte.\<close>

definition store_setting :: "u8 \<Rightarrow> f32 \<Rightarrow> machine \<Rightarrow> (u8 + machine) option" where
  "store_setting parameter value m =
     (let int_value = to_u8 (fpd_trunc (f32_dec value)); on = (int_value \<noteq> 0); done = (\<lambda>m. Some (Inr m)) in
      if parameter = 0 then
        (if int_value < 3 then Some (Inl STATUS_SETTING_STEP_PULSE_MIN)
         else done (upd_settings (\<lambda>s. s\<lparr>pulse_microseconds := int_value\<rparr>) m))
      else if parameter = 1 then done (upd_settings (\<lambda>s. s\<lparr>stepper_idle_lock_time := int_value\<rparr>) m)
      else if parameter = 2 then
        done (st_generate_step_dir_invert_masks (upd_settings (\<lambda>s. s\<lparr>step_invert_mask := int_value\<rparr>) m))
      else if parameter = 3 then
        done (st_generate_step_dir_invert_masks (upd_settings (\<lambda>s. s\<lparr>dir_invert_mask := int_value\<rparr>) m))
      else if parameter = 4 then done (put_flag BITFLAG_INVERT_ST_ENABLE on m)
      else if parameter = 5 then done (put_flag BITFLAG_INVERT_LIMIT_PINS on m)
      else if parameter = 6 then done (probe_configure_invert_mask False (put_flag BITFLAG_INVERT_PROBE_PIN on m))
      else if parameter = 10 then done (upd_settings (\<lambda>s. s\<lparr>status_report_mask := int_value\<rparr>) m)
      else if parameter = 11 then done (upd_settings (\<lambda>s. s\<lparr>junction_deviation := value\<rparr>) m)
      else if parameter = 12 then done (upd_settings (\<lambda>s. s\<lparr>arc_tolerance := value\<rparr>) m)
      else if parameter = 13 then map_option Inr (system_flag_wco_change (put_flag BITFLAG_REPORT_INCHES on m))
      else if parameter = 20 then
        (if on \<and> bit_isfalse (flags (settings m)) BITFLAG_HOMING_ENABLE then Some (Inl STATUS_SOFT_LIMIT_ERROR)
         else done (put_flag BITFLAG_SOFT_LIMIT_ENABLE on m))
      else if parameter = 21 then done (limits_init (put_flag BITFLAG_HARD_LIMIT_ENABLE on m))
      else if parameter = 22 then
        done (if on then put_flag BITFLAG_HOMING_ENABLE True m
              else put_flag BITFLAG_SOFT_LIMIT_ENABLE False (put_flag BITFLAG_HOMING_ENABLE False m))
      else if parameter = 23 then done (upd_settings (\<lambda>s. s\<lparr>homing_dir_mask := int_value\<rparr>) m)
      else if parameter = 24 then done (upd_settings (\<lambda>s. s\<lparr>homing_feed_rate := value\<rparr>) m)
      else if parameter = 25 then done (upd_settings (\<lambda>s. s\<lparr>homing_seek_rate := value\<rparr>) m)
      else if parameter = 26 then done (upd_settings (\<lambda>s. s\<lparr>homing_debounce_delay := ucast int_value\<rparr>) m)
      else if parameter = 27 then done (upd_settings (\<lambda>s. s\<lparr>homing_pulloff := value\<rparr>) m)
      else if parameter = 30 then done (spindle_init (upd_settings (\<lambda>s. s\<lparr>rpm_max := value\<rparr>) m))
      else if parameter = 31 then done (spindle_init (upd_settings (\<lambda>s. s\<lparr>rpm_min := value\<rparr>) m))
      else if parameter = 32 then done (put_flag BITFLAG_LASER_MODE on m)
      else Some (Inl STATUS_INVALID_STATEMENT))"

definition settings_store_global_setting :: "u8 \<Rightarrow> f32 \<Rightarrow> machine \<Rightarrow> (u8 \<times> machine) option" where
  "settings_store_global_setting parameter value m =
     (if f32_lt value 0 then Some (STATUS_NEGATIVE_VALUE, m)
      else if AXIS_SETTINGS_START_VAL \<le> unat parameter then
        (case axis_setting 0 (parameter - of_nat AXIS_SETTINGS_START_VAL) of
           None \<Rightarrow> Some (STATUS_INVALID_STATEMENT, m)
         | Some (set_idx, axis) \<Rightarrow>
             Some (STATUS_OK, write_global_settings (upd_settings (store_axis_setting set_idx (unat axis) value) m)))
      else map_option (\<lambda>r. case r of Inl code \<Rightarrow> (code, m) | Inr m \<Rightarrow> (STATUS_OK, write_global_settings m))
             (store_setting parameter value m))"

end
