(* ===== verification/Realtime_Frame.thy ===== *)
theory Realtime_Frame
  imports Realtime_Facts
begin

text \<open>
  What a wait leaves alone. Whatever interrupts arrive and however long the main program waits,
  the realtime executor does not write the parameter store or the settings, changes of the
  parser's state only its position and coolant mode, never takes an abort back and never arms the
  probe. The components above state their results after a wait with this relation.
\<close>

section \<open>The relation\<close>

text \<open>The parser's state without what the executor may change.\<close>

definition gc_fixed :: "parser_state_t \<Rightarrow> parser_state_t" where
  "gc_fixed gs = gs\<lparr>gs_position := [], gs_modal := (gs_modal gs)\<lparr>gm_coolant := 0\<rparr>\<rparr>"

definition coolant_ok :: "machine \<Rightarrow> bool" where
  "coolant_ok m \<longleftrightarrow> gm_coolant (gs_modal (gc_state m)) \<in> {COOLANT_DISABLE, COOLANT_FLOOD_ENABLE}"

definition position_ok :: "machine \<Rightarrow> bool" where
  "position_ok m \<longleftrightarrow> length (gs_position (gc_state m)) = N_AXIS"

definition rt_frame :: "machine \<Rightarrow> machine \<Rightarrow> bool" where
  "rt_frame m m' \<longleftrightarrow> settings m' = settings m \<and> store m' = store m \<and> gc_fixed (gc_state m') = gc_fixed (gc_state m)
     \<and> (sys_abort (sys m) \<longrightarrow> sys_abort (sys m')) \<and> sys_probe_state m' \<in> {sys_probe_state m, PROBE_OFF}
     \<and> (coolant_ok m \<longrightarrow> coolant_ok m') \<and> (position_ok m \<longrightarrow> position_ok m')"

lemma rt_frame_refl [simp]: "rt_frame m m"
  by (simp add: rt_frame_def)

lemma rt_frame_trans: "rt_frame a b \<Longrightarrow> rt_frame b c \<Longrightarrow> rt_frame a c"
  by (auto simp: rt_frame_def)

lemma rt_frame_if: "rt_frame m a \<Longrightarrow> rt_frame m b \<Longrightarrow> rt_frame m (if c then a else b)"
  by simp

lemmas rt_frame_defs = rt_frame_def store_def coolant_ok_def position_ok_def

lemma rt_frame_view: "main_view m' = main_view m \<Longrightarrow> rt_frame m m'"
  by (simp add: rt_frame_defs main_view_def ctl_def Let_def)

lemma rt_frame_keeps: "keeps m m' \<Longrightarrow> rt_frame m m'"
  by (auto simp: rt_frame_defs keeps_def ctl_def Let_def)

lemma rt_frame_poll: "poll m = Some m' \<Longrightarrow> rt_frame m m'"
  using poll_keeps(1-3,6,7) [of m m'] by (simp add: rt_frame_defs ctl_def Let_def)

text \<open>A wait begins with the machine of the step before it.\<close>

lemma rt_frame_step: "(\<And>m'. f m = Some m' \<Longrightarrow> rt_frame m m') \<Longrightarrow> f m = Some k \<Longrightarrow> rt_frame k m' \<Longrightarrow> rt_frame m m'"
  by (blast intro: rt_frame_trans)

lemma rt_frame_sys:
  "rt_frame m k \<Longrightarrow> sys_abort s = sys_abort (sys k) \<Longrightarrow> sys_probe_succeeded s = sys_probe_succeeded (sys k) \<Longrightarrow>
   rt_frame m (k\<lparr>sys := s\<rparr>)"
  by (simp add: rt_frame_defs)

lemma rt_frame_updates [simp]:
  "rt_frame m (set_state v m)" "rt_frame m (set_suspend w m)" "rt_frame m (report r m)"
  "rt_frame m (system_set_exec_state_flag k m)" "rt_frame m (system_clear_exec_state_flag k m)"
  "rt_frame m (system_clear_exec_alarm m)" "rt_frame m (system_set_exec_alarm a m)"
  "rt_frame m (system_clear_exec_motion_overrides m)" "rt_frame m (system_clear_exec_accessory_overrides m)"
  "rt_frame m (system_set_exec_accessory_override_flag k m)"
  "rt_frame m (m\<lparr>sys := (sys m)\<lparr>sys_spindle_stop_ovr := x\<rparr>\<rparr>)" "rt_frame m (upd_sys (\<lambda>s. s\<lparr>sys_soft_limit := True\<rparr>) m)"
  "rt_frame m (m\<lparr>sys := (sys m)\<lparr>sys_spindle_speed_ovr := x\<rparr>\<rparr>)" "rt_frame m (upd_sys (\<lambda>s. s\<lparr>sys_report_ovr_counter := n\<rparr>) m)"
  "rt_frame m (upd_sys (\<lambda>s. s\<lparr>sys_abort := True\<rparr>) m)" "rt_frame m (set_step_control c m)"
  by (simp_all add: rt_frame_defs exec_flag_defs report_def)

lemma rt_frame_drivers [simp]:
  "rt_frame m (st_wake_up m)" "rt_frame m (st_go_idle m)" "rt_frame m (spindle_set_state st rpm m)"
  "rt_frame m (coolant_set_state c m)" "rt_frame m (st_reset m)" "rt_frame m (plan_reset m)"
  "rt_frame m (plan_sync_position m)" "rt_frame m (plan_cycle_reinitialize m)" "rt_frame m (mc_reset m)"
  "rt_frame m (st_update_plan_block_parameters m)" "rt_frame m (report_realtime_status cl m)"
  "rt_frame m (plan_update_velocity_profile_parameters m)"
  by (simp_all add: rt_frame_view rt_frame_keeps [OF keeps_mc_reset] rt_frame_keeps [OF keeps_status]
      main_view_update_profile)

lemma rt_frame_prep: "st_prep_buffer m = Some m' \<Longrightarrow> rt_frame m m'"
  by (simp add: rt_frame_view main_view_prep_buffer)

lemma rt_frame_sync [simp]: "rt_frame m (gc_sync_position m)"
  by (simp add: gc_sync_position_def rt_frame_defs gc_fixed_def system_convert_array_steps_to_mpos_def)

text \<open>The coolant toggle moves between the two modes.\<close>

lemma toggle_coolant_values:
  "c \<in> {0, COOLANT_FLOOD_ENABLE :: u8} \<Longrightarrow>
   (if c AND COOLANT_FLOOD_ENABLE \<noteq> 0 then bit_false c COOLANT_FLOOD_ENABLE else c OR COOLANT_FLOOD_ENABLE)
     \<in> {0, COOLANT_FLOOD_ENABLE}"
  by (auto simp: bit_false_def)

lemma rt_frame_toggle: "rt_frame m (rt_coolant_toggle e m)"
proof -
  have s: "rt_frame k (set_modal_coolant v k)" if "coolant_ok k \<Longrightarrow> v \<in> {COOLANT_DISABLE, COOLANT_FLOOD_ENABLE}" for k v
    using that by (auto simp: set_modal_coolant_def rt_frame_defs gc_fixed_def)
  have g: "gc_state (coolant_set_state c k) = gc_state k" for c k
    using main_view_drivers(4) [of c k] by (simp add: main_defs)
  show ?thesis
    unfolding rt_coolant_toggle_def Let_def
    by (intro rt_frame_if rt_frame_refl rt_frame_trans [OF rt_frame_drivers(4) s] toggle_coolant_values)
      (simp add: coolant_ok_def g)
qed

section \<open>The executor\<close>

lemma rt_frame_wait_reset: "wait_reset m = Some m' \<Longrightarrow> rt_frame m m'"
proof (erule wait_reset.raw_induct [where P = rt_frame, rotated])
  fix loop m m'
  assume "\<And>m m'. loop m = Some m' \<Longrightarrow> rt_frame m m'"
    "(case poll m of None \<Rightarrow> None
      | Some m \<Rightarrow> if bit_isfalse (sys_rt_exec_state m) EXEC_RESET then loop m else Some m) = Some m'"
  then show "rt_frame m m'"
    by (auto split: option.splits if_splits dest: rt_frame_poll intro: rt_frame_trans)
qed

lemma rt_frame_alarm:
  assumes "rt_alarm m = Some m'"
  shows "rt_frame m m'"
proof (cases "critical_alarm m")
  case True
  let ?k = "system_clear_exec_state_flag EXEC_RESET (report (Feedback_message MESSAGE_CRITICAL_EVENT)
      (report (Alarm_message (sys_rt_exec_alarm m)) (set_state STATE_ALARM m)))"
  have k: "rt_frame m ?k"
    by (rule rt_frame_trans [OF rt_frame_updates(1) rt_frame_trans [OF rt_frame_updates(3)
          rt_frame_trans [OF rt_frame_updates(3) rt_frame_updates(5)]]])
  obtain w where w: "wait_reset ?k = Some w" "m' = system_clear_exec_alarm w"
    using assms rt_alarm_critical [of m] True unfolding critical_alarm_def by (auto simp only: map_option_eq_Some)
  show ?thesis
    unfolding w(2) by (rule rt_frame_trans [OF k rt_frame_trans [OF rt_frame_wait_reset [OF w(1)] rt_frame_updates(6)]])
next
  case False
  have "rt_frame m (system_clear_exec_alarm (report (Alarm_message (sys_rt_exec_alarm m)) (set_state STATE_ALARM m)))"
    by (rule rt_frame_trans [OF rt_frame_updates(1) rt_frame_trans [OF rt_frame_updates(3) rt_frame_updates(6)]])
  then show ?thesis using rt_alarm_other [OF False] assms by (auto split: if_splits)
qed

lemma rt_frame_hold: "rt_frame m (rt_hold e m)"
proof -
  have t: "rt_frame x y \<Longrightarrow> rt_frame y z \<Longrightarrow> rt_frame x z" for x y z by (rule rt_frame_trans)
  have 1: "rt_frame k (rt_hold_motion e k)" for k
    unfolding rt_hold_motion_def Let_def
    by (auto intro!: rt_frame_sys)
  have 2: "rt_frame k (rt_motion_cancel e k)" "rt_frame k (rt_feed_hold e k)" for k
    by (simp_all add: rt_motion_cancel_def rt_feed_hold_def)
  have 3: "rt_frame k (rt_safety_door e k)" for k
    unfolding rt_safety_door_def Let_def
    by (simp add: rt_frame_defs report_def)
  have 4: "rt_frame k (rt_sleep e k)" for k
    by (simp add: rt_sleep_def rt_frame_defs)
  show ?thesis
    unfolding rt_hold_def Let_def
    by (intro rt_frame_if rt_frame_refl t [OF _ rt_frame_updates(5)] t [OF _ 4] t [OF _ 3] t [OF _ 2(2)] t [OF _ 2(1)] 1)
qed

lemma rt_frame_run_cycle: "rt_run_cycle m = Some m' \<Longrightarrow> rt_frame m m'"
proof (erule rt_run_cycle_cases)
  have b: "rt_frame m (set_state v (set_suspend SUSPEND_DISABLE m))" for v
    by (rule rt_frame_trans [OF rt_frame_updates(2) rt_frame_updates(1)])
  have "rt_frame m m'" if "main_view m' = main_view (set_state v (set_suspend SUSPEND_DISABLE m))" for v
    by (rule rt_frame_trans [OF b rt_frame_view [OF that]])
  then show "main_view m' = main_view (set_state STATE_CYCLE (set_suspend SUSPEND_DISABLE m)) \<Longrightarrow> rt_frame m m'"
    "main_view m' = main_view (set_state STATE_IDLE (set_suspend SUSPEND_DISABLE m)) \<Longrightarrow> rt_frame m m'"
    by blast+
qed simp_all

lemma rt_frame_cycle_start: "rt_cycle_start e m = Some m' \<Longrightarrow> rt_frame m m'"
proof -
  have d: "rt_frame m (rt_door_resume m)" by (simp add: rt_door_resume_def)
  assume "rt_cycle_start e m = Some m'"
  then show ?thesis
    by (auto simp: rt_cycle_start_def split: if_splits
        intro: rt_frame_trans [OF d rt_frame_trans [OF rt_frame_run_cycle]])
qed

lemma rt_frame_cycle_stop: "rt_frame m (rt_cycle_stop e m)"
proof -
  have h: "rt_frame m (rt_hold_done m)"
    unfolding rt_hold_done_def Let_def
    by (auto intro!: rt_frame_sys)
  have j: "rt_frame k (plan_sync_position (gc_sync_position (st_reset (plan_reset (set_step_control c k)))))" for c k
    by (rule rt_frame_trans [OF rt_frame_updates(16) rt_frame_trans [OF rt_frame_drivers(6) rt_frame_trans
          [OF rt_frame_drivers(5) rt_frame_trans [OF rt_frame_sync rt_frame_drivers(7)]]]])
  have r: "rt_frame k (if b then set_state v (set_suspend w k) else set_state v' (set_suspend w' k))" for b v w v' w' k
    by (simp add: rt_frame_defs)
  have d: "rt_frame m (rt_motion_done m)"
    unfolding rt_motion_done_def Let_def
    by (rule rt_frame_trans [OF rt_frame_if [OF j rt_frame_refl] r])
  show ?thesis
    unfolding rt_cycle_stop_def
    by (intro rt_frame_if rt_frame_refl rt_frame_trans [OF _ rt_frame_updates(5)] h d)
qed

lemma rt_frame_motion_overrides: "rt_frame m (rt_motion_overrides m)"
proof -
  have b: "rt_frame k (upd_sys (\<lambda>s. s\<lparr>sys_f_override := f, sys_r_override := r\<rparr>) (system_clear_exec_motion_overrides k))" for f r k
    by (simp add: rt_frame_defs exec_flag_defs)
  show ?thesis
    using rt_motion_overrides_view [of m] rt_frame_trans [OF b rt_frame_view] rt_frame_view
    by (auto simp: Let_def split: if_splits)
qed

lemma rt_frame_accessory_overrides: "rt_frame m (rt_accessory_overrides m)"
proof -
  have o: "rt_frame k (rt_spindle_override e k)" for e k
    unfolding rt_spindle_override_def Let_def
    by (intro rt_frame_if rt_frame_refl rt_frame_trans [OF _ rt_frame_updates(14)]
          rt_frame_trans [OF _ rt_frame_drivers(3)] rt_frame_sys) simp_all
  have s: "rt_frame k (rt_spindle_stop e k)" for e k
    by (simp add: rt_spindle_stop_def)
  show ?thesis
    unfolding rt_accessory_overrides_def Let_def
    by (rule rt_frame_if [OF rt_frame_trans [OF rt_frame_trans [OF rt_frame_trans [OF rt_frame_updates(9) o] s] rt_frame_toggle]
          rt_frame_refl])
qed

lemma rt_frame_system:
  assumes "protocol_exec_rt_system m = Some m'"
  shows "rt_frame m m'"
proof -
  obtain a where a: "rt_alarm m = Some a"
    using assms by (auto simp: protocol_exec_rt_system_def split: option.splits)
  have s: "rt_frame k (rt_status_report e k)" for e k
    unfolding rt_status_report_def
    by (rule rt_frame_if [OF rt_frame_trans [OF rt_frame_drivers(11) rt_frame_updates(5)] rt_frame_refl])
  have f: "rt_frame k k'" if "rt_exec_flags e k = Some k'" for e k k'
    using that rt_frame_trans [OF rt_frame_trans [OF s rt_frame_hold] rt_frame_trans [OF rt_frame_cycle_start rt_frame_cycle_stop]]
    by (auto simp: rt_exec_flags_def split: if_splits)
  have r: "rt_frame k k'" if "rt_reload (rt_accessory_overrides (rt_motion_overrides k)) = Some k'" for k k'
    using rt_frame_trans [OF rt_frame_trans [OF rt_frame_motion_overrides rt_frame_accessory_overrides]
        rt_frame_view [OF main_view_reload [OF that]]] .
  show ?thesis
  proof (cases "sys_rt_exec_state a AND EXEC_RESET \<noteq> 0")
    case True
    then have "m' = upd_sys (\<lambda>s. s\<lparr>sys_abort := True\<rparr>) a"
      using assms a by (simp add: protocol_exec_rt_system_def Let_def)
    then show ?thesis using rt_frame_trans [OF rt_frame_alarm [OF a] rt_frame_updates(15)] by simp
  next
    case False
    then obtain k where "rt_exec_flags (sys_rt_exec_state a) a = Some k"
      "rt_reload (rt_accessory_overrides (rt_motion_overrides k)) = Some m'"
      using assms a by (auto simp: protocol_exec_rt_system_def Let_def split: option.splits)
    then show ?thesis using rt_frame_trans [OF rt_frame_alarm [OF a] rt_frame_trans [OF f r]] by blast
  qed
qed

section \<open>The waits\<close>

lemma rt_frame_delay_loop:
  assumes "\<And>m m'. realtime m = Some m' \<Longrightarrow> rt_frame m m'"
  shows "delay_loop realtime mode n m = Some m' \<Longrightarrow> rt_frame m m'"
proof (induction n arbitrary: m)
  case (Suc n)
  then show ?case
    by (auto split: option.splits if_splits dest!: assms rt_frame_poll intro: rt_frame_trans)
qed simp

lemma rt_frame_system_delay: "delay_loop protocol_exec_rt_system mode n m = Some m' \<Longrightarrow> rt_frame m m'"
  by (rule rt_frame_delay_loop [where realtime = protocol_exec_rt_system]) (rule rt_frame_system)

lemma rt_frame_sleep_loop: "sleep_loop m = Some m' \<Longrightarrow> rt_frame m m'"
proof (erule sleep_loop.raw_induct [where P = rt_frame, rotated])
  fix loop m m'
  assume "\<And>m m'. loop m = Some m' \<Longrightarrow> rt_frame m m'"
    "(if sys_abort (sys m) then Some m
      else case protocol_exec_rt_system m of None \<Rightarrow> None
      | Some m \<Rightarrow> case poll m of None \<Rightarrow> None | Some m \<Rightarrow> loop m) = Some m'"
  then show "rt_frame m m'"
    by (auto split: option.splits if_splits dest!: rt_frame_system rt_frame_poll intro: rt_frame_trans)
qed

lemma rt_frame_suspend_parts [simp]:
  "rt_frame m (suspend_deenergize m)" "rt_frame m (suspend_retract m)" "rt_frame m (update_spindle_pwm m)"
  "rt_frame m (suspend_spindle_on cond speed m)" "rt_frame m (restore_done m)" "rt_frame m (suspend_spindle_stop cond speed m)"
  "rt_frame m (suspend_feed_hold cond speed m)"
proof -
  show d: "rt_frame k (suspend_deenergize k)" for k
    unfolding suspend_deenergize_def by (rule rt_frame_trans [OF rt_frame_drivers(3) rt_frame_drivers(4)])
  show "rt_frame m (suspend_retract m)"
    unfolding suspend_retract_def Let_def
    by (intro rt_frame_sys rt_frame_trans [OF rt_frame_updates(11) d]) simp_all
  show u: "rt_frame k (update_spindle_pwm k)" for k by (simp add: update_spindle_pwm_def)
  show n: "rt_frame k (suspend_spindle_on cond speed k)" for k by (simp add: suspend_spindle_on_def)
  show "rt_frame m (restore_done m)"
    unfolding restore_done_def
    by (rule rt_frame_if [OF rt_frame_trans [OF rt_frame_updates(2) rt_frame_updates(4)] rt_frame_refl])
  have a: "rt_frame m (report r m)" for m r by simp
  show t: "rt_frame m (suspend_spindle_stop cond speed m)" for m
    unfolding suspend_spindle_stop_def Let_def
    by (intro rt_frame_if rt_frame_refl rt_frame_sys rt_frame_trans [OF _ rt_frame_updates(4)]
          rt_frame_trans [OF a u] rt_frame_trans [OF a n] rt_frame_drivers) simp_all
  show "rt_frame m (suspend_feed_hold cond speed m)"
    unfolding suspend_feed_hold_def Let_def
    by (intro rt_frame_if rt_frame_refl t rt_frame_sys n) simp_all
qed

lemma rt_frame_restore:
  assumes "suspend_restore cond speed m = Some m'"
  shows "rt_frame m m'"
proof -
  have s: "rt_frame m k" if "restore_spindle cond speed m = Some k" for k
    using that rt_frame_trans [OF rt_frame_suspend_parts(4) rt_frame_system_delay]
    by (auto simp: restore_spindle_def split: if_splits)
  have c: "rt_frame k k'" if "restore_coolant cond k = Some k'" for k k'
    using that rt_frame_trans [OF rt_frame_drivers(4) rt_frame_system_delay]
    by (auto simp: restore_coolant_def split: if_splits)
  obtain k k' where "restore_spindle cond speed m = Some k" "restore_coolant cond k = Some k'" "m' = restore_done k'"
    using assms by (auto simp: suspend_restore_def split: option.splits)
  then show ?thesis using rt_frame_trans [OF s rt_frame_trans [OF c rt_frame_suspend_parts(5)]] by simp
qed

lemma rt_frame_parked:
  assumes "suspend_parked cond speed m = Some m'"
  shows "rt_frame m m'"
proof -
  let ?k = "if sys_state (sys m) = STATE_SAFETY_DOOR \<and> \<not> system_check_safety_door_ajar m
            then set_suspend (sys_suspend (sys m) AND NOT SUSPEND_SAFETY_DOOR_AJAR) m else m"
  have k: "rt_frame m ?k" by simp
  have e: "suspend_parked cond speed m =
    (if sys_suspend (sys ?k) AND SUSPEND_INITIATE_RESTORE \<noteq> 0 then suspend_restore cond speed ?k else Some ?k)"
    by (simp only: suspend_parked_def Let_def)
  show ?thesis
  proof (cases "sys_suspend (sys ?k) AND SUSPEND_INITIATE_RESTORE \<noteq> 0")
    case True
    then have "suspend_restore cond speed ?k = Some m'" using assms e by (simp only: if_True not_False_eq_True)
    then show ?thesis by (rule rt_frame_trans [OF k rt_frame_restore])
  next
    case False
    then have "m' = ?k" using assms e by (simp only: if_False not_True_eq_False option.inject)
    then show ?thesis using k by (simp only:)
  qed
qed

lemma rt_frame_round: "suspend_round cond speed m = Some (c, m') \<Longrightarrow> rt_frame m m'"
proof -
  have i: "rt_frame m (st_go_idle (suspend_deenergize (report r m)))" for r
    by (rule rt_frame_trans [OF rt_frame_updates(3) rt_frame_trans [OF rt_frame_suspend_parts(1) rt_frame_drivers(2)]])
  assume "suspend_round cond speed m = Some (c, m')"
  then show ?thesis
    using rt_frame_parked rt_frame_trans [OF i rt_frame_sleep_loop]
    by (auto simp: suspend_round_def split: if_splits)
qed

lemma rt_frame_suspend_loop: "suspend_loop cond speed m = Some m' \<Longrightarrow> rt_frame m m'"
proof (erule suspend_loop.raw_induct [where P = "\<lambda>_ _. rt_frame", rotated])
  fix loop cond speed m m'
  assume 1: "\<And>cond speed m m'. loop cond speed m = Some m' \<Longrightarrow> rt_frame m m'"
    "(if sys_suspend (sys m) = 0 then Some m
      else if sys_abort (sys m) then Some m
      else case suspend_round cond speed m of None \<Rightarrow> None
      | Some (continue, m) \<Rightarrow>
        if \<not> continue then Some m
        else case protocol_exec_rt_system m of None \<Rightarrow> None
        | Some m \<Rightarrow> case poll m of None \<Rightarrow> None | Some m \<Rightarrow> loop cond speed m) = Some m'"
  have t: "rt_frame m m'" if "rt_frame m b" "rt_frame b x" "rt_frame x y" "rt_frame y m'" for b x y
    using that rt_frame_trans by blast
  show "rt_frame m m'"
    using 1(2) by (auto split: option.splits if_splits dest!: rt_frame_round rt_frame_system rt_frame_poll 1(1) intro: t)
qed

lemma rt_frame_execute:
  assumes "protocol_execute_realtime m = Some m'"
  shows "rt_frame m m'"
proof -
  obtain k where k: "protocol_exec_rt_system m = Some k"
    "m' = k \<or> protocol_exec_rt_suspend k = Some m'"
    using assms by (auto simp: protocol_execute_realtime_def split: option.splits if_splits)
  have f: "rt_frame k (if b then system_set_exec_accessory_override_flag EXEC_SPINDLE_OVR_STOP k else k)" for b
    by simp
  have "rt_frame k m'" if s: "protocol_exec_rt_suspend k = Some m'"
    using s rt_frame_trans [OF f rt_frame_suspend_loop]
    unfolding protocol_exec_rt_suspend_def Let_def case_prod_beta by blast
  then show ?thesis using k rt_frame_trans [OF rt_frame_system [OF k(1)]] rt_frame_refl by metis
qed

lemma rt_frame_auto_start [simp]: "rt_frame m (protocol_auto_cycle_start m)"
  by (simp add: protocol_auto_cycle_start_def)

lemma rt_frame_synchronize:
  assumes "protocol_buffer_synchronize m = Some m'"
  shows "rt_frame m m'"
proof -
  have "rt_frame k k'" if "synchronize_loop k = Some k'" for k k'
    using that
  proof (rule synchronize_loop.raw_induct [where P = rt_frame, rotated])
    fix loop m m'
    assume "\<And>m m'. loop m = Some m' \<Longrightarrow> rt_frame m m'"
      "(case protocol_execute_realtime m of None \<Rightarrow> None
        | Some m \<Rightarrow>
          if sys_abort (sys m) then Some m
          else case poll m of None \<Rightarrow> None
          | Some m \<Rightarrow>
            if plan_get_current_block m \<noteq> None \<or> sys_state (sys m) = STATE_CYCLE
            then loop m else Some m) = Some m'"
    then show "rt_frame m m'"
      by (auto split: if_splits option.splits dest!: rt_frame_execute rt_frame_poll intro: rt_frame_trans)
  qed
  then show ?thesis
    using assms rt_frame_trans [OF rt_frame_auto_start] by (simp add: protocol_buffer_synchronize_def)
qed

lemma rt_frame_delay_sec: "delay_sec seconds mode m = Some m' \<Longrightarrow> rt_frame m m'"
  using rt_frame_delay_loop [where realtime = protocol_execute_realtime] rt_frame_execute rt_frame_system_delay
  unfolding delay_sec_def by metis

section \<open>A quiet machine\<close>

text \<open>A machine with nothing to do: no flag is raised, it is neither aborted nor suspended, and it is
  in a state that fills no segment.\<close>

definition quiet :: "machine \<Rightarrow> bool" where
  "quiet m \<longleftrightarrow> sys_rt_exec_state m = 0 \<and> sys_rt_exec_alarm m = 0 \<and> sys_rt_exec_motion_override m = 0
     \<and> sys_rt_exec_accessory_override m = 0 \<and> \<not> sys_abort (sys m) \<and> sys_suspend (sys m) = 0
     \<and> sys_state (sys m) \<in> {STATE_IDLE, STATE_ALARM, STATE_CHECK_MODE}"

lemma quiet_execute: "quiet m \<Longrightarrow> protocol_execute_realtime m = Some m"
  by (auto simp: quiet_def protocol_execute_realtime_def protocol_exec_rt_system_def rt_alarm_def rt_exec_flags_def
      rt_motion_overrides_def rt_accessory_overrides_def rt_reload_def)

lemma quiet_poll:
  assumes "sched m = [] # rest"
  shows "poll m = Some (m\<lparr>sched := rest\<rparr>)" "quiet (m\<lparr>sched := rest\<rparr>) = quiet m"
  using assms by (simp_all add: poll_def quiet_def)

lemma quiet_synchronize:
  assumes "quiet m" "plan_get_current_block m = None" "sched m = [] # rest"
  shows "protocol_buffer_synchronize m = Some (m\<lparr>sched := rest\<rparr>)"
proof -
  have "plan_get_current_block (m\<lparr>sched := rest\<rparr>) = None" using assms(2) by (simp add: plan_get_current_block_def split: if_splits)
  moreover have "sys_state (sys m) \<noteq> STATE_CYCLE" "\<not> sys_abort (sys m)" using assms(1) by (auto simp: quiet_def)
  ultimately have "synchronize_loop m = Some (m\<lparr>sched := rest\<rparr>)"
    by (subst synchronize_loop.simps) (simp add: quiet_execute assms(1) quiet_poll(1) [OF assms(3)])
  then show ?thesis by (simp add: protocol_buffer_synchronize_def protocol_auto_cycle_start_def assms(2))
qed

text \<open>The machine at power on, with three quiet turns of its loops to come.\<close>

definition idle_machine :: machine where
  "idle_machine = machine0\<lparr>sched := [[], [], []]\<rparr>"

lemma idle_synchronize: "protocol_buffer_synchronize idle_machine = Some (machine0\<lparr>sched := [[], []]\<rparr>)"
  by (subst quiet_synchronize [where rest = "[[], []]"])
    (simp_all add: quiet_def idle_machine_def plan_get_current_block_def system0_def)

end
