(* ===== verification/Settings_Facts.thy ===== *)
theory Settings_Facts
  imports Settings Realtime_Frame
begin

text \<open>
  The parameter store: the bytes of a settings record and of a coordinate vector are read back as
  the value that was written, the blocks of the store are disjoint but for the second startup line
  and the build info, and a setting is either rejected without a trace or accepted and stored.
\<close>

section \<open>Bytes\<close>

lemma f32_at_bytes: "f32_at (f32_bytes w @ ys) 0 = w"
proof (rule bit_word_eqI)
  fix n
  assume "n < LENGTH(32)"
  then consider "n < 8" | "8 \<le> n" "n < 16" | "16 \<le> n" "n < 24" | "24 \<le> n" "n < 32" by fastforce
  then show "bit (f32_at (f32_bytes w @ ys) 0) n = bit w n"
    by cases (simp_all add: f32_at_def f32_bytes_def bit_simps less_diff_conv2)
qed

lemma u16_at_bytes: "u16_at (u16_bytes w @ ys) 0 = w"
proof (rule bit_word_eqI)
  fix n
  assume "n < LENGTH(16)"
  then consider "n < 8" | "8 \<le> n" "n < 16" by fastforce
  then show "bit (u16_at (u16_bytes w @ ys) 0) n = bit w n"
    by cases (simp_all add: u16_at_def u16_bytes_def bit_simps less_diff_conv2)
qed

lemma at_append:
  "length xs \<le> i \<Longrightarrow> f32_at (xs @ ys) i = f32_at ys (i - length xs)"
  "length xs \<le> i \<Longrightarrow> u16_at (xs @ ys) i = u16_at ys (i - length xs)"
  by (simp_all add: f32_at_def u16_at_def nth_append Suc_diff_le add.commute)

lemma at_Cons:
  "0 < i \<Longrightarrow> f32_at (x # ys) i = f32_at ys (i - 1)" "0 < i \<Longrightarrow> u16_at (x # ys) i = u16_at ys (i - 1)"
  using at_append [of "[x]" i ys] by simp_all

lemma length_f32_bytes [simp]: "length (f32_bytes w) = 4" "length (u16_bytes v) = 2"
  by (simp_all add: f32_bytes_def u16_bytes_def)

lemma length_floats_bytes [simp]: "length (floats_bytes xs) = 4 * length xs"
  by (induction xs) (simp_all add: floats_bytes_def)

lemma floats_bytes_Cons [simp]: "floats_bytes (x # xs) = f32_bytes x @ floats_bytes xs" "floats_bytes [] = []"
  by (simp_all add: floats_bytes_def)

lemma floats_at_append: "length xs \<le> i \<Longrightarrow> floats_at (xs @ ys) i = floats_at ys (i - length xs)"
  by (simp add: floats_at_def at_append del: upt_rec_numeral)

lemma f32_at_floats: "j < length xs \<Longrightarrow> f32_at (floats_bytes xs @ ys) (4 * j) = xs ! j"
proof (induction xs arbitrary: j)
  case (Cons x xs)
  then show ?case
    by (cases j) (simp_all add: f32_at_bytes at_append)
qed simp

lemma floats_at_floats: "length xs = N_AXIS \<Longrightarrow> floats_at (floats_bytes xs @ ys) 0 = xs"
  by (rule nth_equalityI) (simp_all add: floats_at_def f32_at_floats del: upt_rec_numeral)

text \<open>A settings record whose arrays have one entry per axis.\<close>

definition settings_wf :: "settings_t \<Rightarrow> bool" where
  "settings_wf s \<longleftrightarrow> length (steps_per_mm s) = N_AXIS \<and> length (max_rate s) = N_AXIS
     \<and> length (acceleration s) = N_AXIS \<and> length (max_travel s) = N_AXIS"

lemma length_settings_bytes: "settings_wf s \<Longrightarrow> length (settings_bytes s) = SIZEOF_SETTINGS"
  by (simp add: settings_wf_def settings_bytes_def)

lemma settings_of_bytes_inverse:
  assumes "settings_wf s"
  shows "settings_of_bytes (settings_bytes s) = s"
proof -
  have l: "length (steps_per_mm s) = 8" "length (max_rate s) = 8" "length (acceleration s) = 8" "length (max_travel s) = 8"
    using assms by (simp_all add: settings_wf_def)
  show ?thesis
    unfolding settings_of_bytes_def settings_bytes_def
    by (simp add: l floats_at_append floats_at_floats at_append nth_append at_Cons u16_at_bytes f32_at_bytes
        f32_at_bytes [where ys = "[]", simplified])
qed

section \<open>The blocks of the store\<close>

text \<open>Address and length of everything the store holds; each block is followed by its checksum.\<close>

definition coord_block :: "u8 \<Rightarrow> nat \<times> nat" where
  "coord_block sel = (coord_data_addr sel, SIZEOF_COORD_DATA)"

definition store_blocks :: "(nat \<times> nat) list" where
  "store_blocks = (EEPROM_ADDR_GLOBAL, SIZEOF_SETTINGS) # map coord_block [0, 1, 2, 3, 4, 5, 6, 7]
     @ [(startup_line_addr 0, LINE_BUFFER_SIZE), (startup_line_addr 1, LINE_BUFFER_SIZE), (EEPROM_ADDR_BUILD_INFO, LINE_BUFFER_SIZE)]"

definition read_block :: "nat \<times> nat \<Rightarrow> machine \<Rightarrow> u8 list \<times> bool" where
  "read_block b m = memcpy_from_eeprom (fst b) (snd b) m"

text \<open>Two blocks, with their checksums, do not overlap.\<close>

definition apart :: "nat \<times> nat \<Rightarrow> nat \<times> nat \<Rightarrow> bool" where
  "apart a b \<longleftrightarrow> fst a + snd a < fst b \<or> fst b + snd b < fst a"

lemma read_block_apart:
  "apart b (a, length bs) \<Longrightarrow> read_block b (memcpy_to_eeprom a bs m) = read_block b m"
  unfolding read_block_def by (rule ee.write_elsewhere) (auto simp: apart_def)

lemma read_block_same:
  "a + length bs < length (eeprom m) \<Longrightarrow> read_block (a, length bs) (memcpy_to_eeprom a bs m) = (bs, True)"
  unfolding read_block_def by (simp add: ee.round_trip)

lemma read_block_store:
  assumes "eeprom m = eeprom m'"
  shows "read_block b m = read_block b m'"
proof -
  have "eeprom_get_char m = eeprom_get_char m'" using assms by (simp add: fun_eq_iff eeprom_get_char_def)
  then show ?thesis by (simp add: read_block_def ee.from_eeprom)
qed

lemma read_block_put:
  assumes "c < fst b \<or> fst b + snd b < c"
  shows "read_block b (eeprom_put_char c v m) = read_block b m"
proof -
  have "eeprom_get_char (eeprom_put_char c v m) x = eeprom_get_char m x" if "fst b \<le> x" "x \<le> fst b + snd b" for x
    using that assms by (intro ee.rd_wr_other) auto
  then have "map (eeprom_get_char (eeprom_put_char c v m)) [fst b..<fst b + snd b] =
      map (eeprom_get_char m) [fst b..<fst b + snd b]"
    "eeprom_get_char (eeprom_put_char c v m) (fst b + snd b) = eeprom_get_char m (fst b + snd b)"
    by auto
  then show ?thesis by (simp only: read_block_def ee.from_eeprom Let_def)
qed

text \<open>All blocks are apart but for the second startup line and the build info.\<close>

definition overlapping :: "((nat \<times> nat) \<times> (nat \<times> nat)) list" where
  "overlapping =
     (let s = (startup_line_addr 1, LINE_BUFFER_SIZE); i = (EEPROM_ADDR_BUILD_INFO, LINE_BUFFER_SIZE) in [(s, i), (i, s)])"

lemma blocks_apart_all:
  "list_all (\<lambda>a. list_all (\<lambda>b. a = b \<or> (a, b) \<in> set overlapping \<or> apart a b) store_blocks) store_blocks"
  by code_simp

lemma blocks_apart:
  "a \<in> set store_blocks \<Longrightarrow> b \<in> set store_blocks \<Longrightarrow> a \<noteq> b \<Longrightarrow> (a, b) \<notin> set overlapping \<Longrightarrow> apart a b"
  using blocks_apart_all unfolding list_all_iff by blast

lemma coord_block_in_store:
  assumes "sel \<le> 7"
  shows "coord_block sel \<in> set store_blocks" "(a, coord_block sel) \<notin> set overlapping"
proof -
  have "unat sel \<in> {0, 1, 2, 3, 4, 5, 6, 7}" using assms by (auto simp: word_le_nat_alt le_Suc_eq)
  then have "(of_nat (unat sel) :: u8) \<in> {0, 1, 2, 3, 4, 5, 6, 7}" by (elim insertE) (simp_all only: of_nat_simps, simp_all)
  then have "sel \<in> {0, 1, 2, 3, 4, 5, 6, 7}" by simp
  then show "coord_block sel \<in> set store_blocks" by (auto simp: store_blocks_def)
  show "(a, coord_block sel) \<notin> set overlapping" by (simp add: overlapping_def coord_block_def Let_def)
qed

section \<open>Writing and reading back\<close>

lemma write_global_fields [simp]:
  "settings (write_global_settings m) = settings m" "length (eeprom (write_global_settings m)) = length (eeprom m)"
  "sys (write_global_settings m) = sys m" "gc_state (write_global_settings m) = gc_state m"
  by (simp_all add: write_global_settings_def)

lemma write_global_version:
  assumes "0 < length (eeprom m)"
  shows "eeprom_get_char (write_global_settings m) 0 = SETTINGS_VERSION"
  using assms by (simp add: write_global_settings_def ee.rd_to_eeprom_other ee.rd_wr_same)

lemma read_written_settings:
  assumes "settings_wf (settings m)" "SIZEOF_SETTINGS + 1 < length (eeprom m)"
  shows "read_global_settings (write_global_settings m) = (True, write_global_settings m)"
proof -
  have "read_block (EEPROM_ADDR_GLOBAL, SIZEOF_SETTINGS) (write_global_settings m) = (settings_bytes (settings m), True)"
    using read_block_same [of EEPROM_ADDR_GLOBAL "settings_bytes (settings m)" "eeprom_put_char 0 SETTINGS_VERSION m"] assms
    by (simp add: write_global_settings_def length_settings_bytes)
  moreover have "write_global_settings m\<lparr>settings := settings m\<rparr> = write_global_settings m"
    by (metis machine.surjective machine.update_convs(9) write_global_fields(1))
  ultimately show ?thesis
    using assms write_global_version [OF less_trans [OF _ assms(2)]]
    by (simp add: read_global_settings_def read_block_def settings_of_bytes_inverse)
qed

lemma synchronize_store:
  assumes "protocol_buffer_synchronize m = Some m'"
  shows "eeprom m' = eeprom m" "settings m' = settings m"
  using rt_frame_synchronize [OF assms] by (simp_all add: rt_frame_def store_def)

lemma write_coord_result:
  assumes "settings_write_coord_data sel d m = Some m'"
  obtains k where "protocol_buffer_synchronize m = Some k" "m' = memcpy_to_eeprom (coord_data_addr sel) (floats_bytes d) k"
    "eeprom k = eeprom m" "settings k = settings m"
  using assms synchronize_store by (auto simp: settings_write_coord_data_def)

lemma write_coord_blocks:
  assumes "settings_write_coord_data sel d m = Some m'" "length d = N_AXIS" "sel \<le> 7"
    "b \<in> set store_blocks" "b \<noteq> coord_block sel"
  shows "read_block b m' = read_block b m"
proof -
  from assms(1) obtain k where k: "m' = memcpy_to_eeprom (coord_data_addr sel) (floats_bytes d) k" "eeprom k = eeprom m"
    by (rule write_coord_result)
  have "apart b (coord_block sel)"
    using assms(4,5) coord_block_in_store [OF assms(3)] by (intro blocks_apart)
  then have "read_block b m' = read_block b k"
    using assms(2) by (simp add: k read_block_apart coord_block_def)
  then show ?thesis using read_block_store [OF k(2)] by simp
qed

lemma write_coord_own:
  assumes "settings_write_coord_data sel d m = Some m'" "length d = N_AXIS" "sel \<le> 7" "length (eeprom m) = 2048"
  shows "read_block (coord_block sel) m' = (floats_bytes d, True)"
proof -
  from assms(1) obtain k where k: "m' = memcpy_to_eeprom (coord_data_addr sel) (floats_bytes d) k" "eeprom k = eeprom m"
    by (rule write_coord_result)
  have "unat sel \<le> 7" using assms(3) by (simp add: word_le_nat_alt)
  then show ?thesis
    using read_block_same [of "coord_data_addr sel" "floats_bytes d" k] assms
    by (simp add: k coord_block_def coord_data_addr_def)
qed

lemma read_coord_block:
  assumes "read_block (coord_block sel) m = (floats_bytes d, True)" "length d = N_AXIS"
  shows "settings_read_coord_data sel m = Some (True, d, m)"
  using assms floats_at_floats [OF assms(2), of "[]"]
  by (simp add: settings_read_coord_data_def settings_read_coord_data_into_def read_block_def coord_block_def)

lemma write_coord_read:
  assumes "settings_write_coord_data sel d m = Some m'" "length d = N_AXIS" "sel \<le> 7" "length (eeprom m) = 2048"
  shows "settings_read_coord_data sel m' = Some (True, d, m')"
  using read_coord_block [OF write_coord_own [OF assms] assms(2)] .

section \<open>Changing a setting\<close>

text \<open>A property of the machine every accepted setting has.\<close>

definition accepted :: "(machine \<Rightarrow> bool) \<Rightarrow> (u8 + machine) option \<Rightarrow> bool" where
  "accepted P r \<longleftrightarrow> (\<forall>k. r = Some (Inr k) \<longrightarrow> P k) \<and> (\<forall>code. r = Some (Inl code) \<longrightarrow> code \<noteq> STATUS_OK)"

lemma accepted_rules:
  "accepted P a \<Longrightarrow> accepted P b \<Longrightarrow> accepted P (if c then a else b)"
  "P k \<Longrightarrow> accepted P (Some (Inr k))"
  "code \<noteq> STATUS_OK \<Longrightarrow> accepted P (Some (Inl code))"
  "(\<And>k. r = Some k \<Longrightarrow> P k) \<Longrightarrow> accepted P (map_option Inr r)"
  by (auto simp: accepted_def)

lemma accepted_if_cond: "(c \<Longrightarrow> accepted P a) \<Longrightarrow> (\<not> c \<Longrightarrow> accepted P b) \<Longrightarrow> accepted P (if c then a else b)"
  by simp

lemma invert_masks_kept [simp]:
  "settings (st_generate_step_dir_invert_masks m) = settings m" "eeprom (st_generate_step_dir_invert_masks m) = eeprom m"
  using main_view_invert_masks [of m] by (simp_all add: main_view_def store_def)

lemma setting_drivers_kept [simp]:
  "settings (probe_configure_invert_mask b m) = settings m" "eeprom (probe_configure_invert_mask b m) = eeprom m"
  "settings (limits_init m) = settings m" "eeprom (limits_init m) = eeprom m"
  "settings (spindle_init m) = settings m" "eeprom (spindle_init m) = eeprom m"
  by (simp_all add: probe_configure_invert_mask_def limits_init_def spindle_init_def spindle_stop_def report_def Let_def)

lemma upd_settings_simps [simp]:
  "settings (upd_settings f m) = f (settings m)" "eeprom (upd_settings f m) = eeprom m"
  "settings (put_flag k b m) = (settings m)\<lparr>flags := (if b then flags (settings m) OR k else flags (settings m) AND NOT k)\<rparr>"
  "eeprom (put_flag k b m) = eeprom m"
  by (simp_all add: put_flag_def upd_settings_def)

lemma wco_change_kept:
  assumes "system_flag_wco_change m = Some k"
  shows "eeprom k = eeprom m" "settings k = settings m"
  using assms synchronize_store by (auto simp: system_flag_wco_change_def)

lemma store_setting_accepted:
  assumes "settings_wf (settings m)"
  shows "accepted (\<lambda>k. settings_wf (settings k) \<and> eeprom k = eeprom m) (store_setting parameter value m)"
  unfolding store_setting_def Let_def
  by (intro accepted_rules) (use assms in \<open>auto simp: settings_wf_def dest: wco_change_kept\<close>)

text \<open>Soft limits are on only when homing is.\<close>

definition soft_limit_ok :: "settings_t \<Rightarrow> bool" where
  "soft_limit_ok s \<longleftrightarrow> (bit_istrue (flags s) BITFLAG_SOFT_LIMIT_ENABLE \<longrightarrow> bit_istrue (flags s) BITFLAG_HOMING_ENABLE)"

lemma istrue_bits:
  "bit_istrue x 32 \<longleftrightarrow> bit x 5" "bit_istrue x 16 \<longleftrightarrow> bit x 4" for x :: u8
  by (simp_all add: bit_istrue_def bit_iff_and_push_bit_not_eq_0 push_bit_of_1)

lemma soft_limit_bits: "soft_limit_ok s \<longleftrightarrow> (bit (flags s) 5 \<longrightarrow> bit (flags s) 4)"
  by (simp add: soft_limit_ok_def istrue_bits)

lemma store_setting_soft_limit:
  assumes "soft_limit_ok (settings m)"
  shows "accepted (\<lambda>k. soft_limit_ok (settings k)) (store_setting parameter value m)"
proof -
  have d: "flags (settings k) = flags (settings k')" if "system_flag_wco_change k' = Some k" for k k'
    using that wco_change_kept by simp
  show ?thesis
    unfolding store_setting_def Let_def
    by (intro accepted_rules(2-4) accepted_if_cond; use assms in \<open>auto simp: soft_limit_bits istrue_bits bit_simps flag_simps d\<close>)
qed

text \<open>One setting changed through \<^verbatim>\<open>$x=value\<close>: the axis settings first.\<close>

lemma store_axis_setting_keeps:
  "settings_wf s \<Longrightarrow> settings_wf (store_axis_setting k axis value s)"
  "flags (store_axis_setting k axis value s) = flags s"
  by (simp_all add: store_axis_setting_def settings_wf_def)

lemma store_global_cases:
  assumes "settings_store_global_setting parameter value m = Some (code, m')" "settings_wf (settings m)"
  obtains (rejected) "code \<noteq> STATUS_OK" "m' = m"
  | (stored) k where "code = STATUS_OK" "m' = write_global_settings k" "settings_wf (settings k)" "eeprom k = eeprom m"
      "soft_limit_ok (settings m) \<longrightarrow> soft_limit_ok (settings k)"
proof -
  let ?ok = "\<lambda>k. settings_wf (settings k) \<and> eeprom k = eeprom m \<and> (soft_limit_ok (settings m) \<longrightarrow> soft_limit_ok (settings k))"
  have axis: "?ok (upd_settings (store_axis_setting idx ax value) m)" for idx ax
    using assms(2) by (simp add: store_axis_setting_keeps soft_limit_ok_def)
  have other: "accepted ?ok (store_setting parameter value m)"
    using store_setting_accepted [OF assms(2), of parameter "value"] store_setting_soft_limit [of m parameter "value"]
    by (auto simp: accepted_def)
  define R where "R c k' \<longleftrightarrow> c \<noteq> STATUS_OK \<and> k' = m \<or> (\<exists>k. c = STATUS_OK \<and> k' = write_global_settings k \<and> ?ok k)" for c k'
  have R1: "R c k" if "c \<noteq> STATUS_OK" "k = m" for c k using that by (simp add: R_def)
  have R2: "R 0 (write_global_settings k)" if "?ok k" for k using that unfolding R_def by blast
  have "R code m'"
  proof (cases "f32_lt value 0 \<or> AXIS_SETTINGS_START_VAL \<le> unat parameter")
    case True
    then show ?thesis
      using assms(1) by (auto simp: settings_store_global_setting_def split: if_splits option.splits intro: R1 R2 [OF axis])
  next
    case False
    then obtain r where r: "store_setting parameter value m = Some r"
      "(code, m') = (case r of Inl code \<Rightarrow> (code, m) | Inr m \<Rightarrow> (STATUS_OK, write_global_settings m))"
      using assms(1) unfolding settings_store_global_setting_def by auto
    then show ?thesis using other R1 R2 by (cases r) (auto simp: accepted_def)
  qed
  then show thesis using rejected stored unfolding R_def by blast
qed

text \<open>Writing the settings leaves every other block as it was.\<close>

lemma write_global_blocks:
  assumes "settings_wf (settings m)" "b \<in> set store_blocks" "b \<noteq> (EEPROM_ADDR_GLOBAL, SIZEOF_SETTINGS)"
  shows "read_block b (write_global_settings m) = read_block b m"
proof -
  have "(b, (EEPROM_ADDR_GLOBAL, SIZEOF_SETTINGS)) \<notin> set overlapping"
    by (simp add: overlapping_def Let_def)
  moreover have "(EEPROM_ADDR_GLOBAL, SIZEOF_SETTINGS) \<in> set store_blocks"
    by (simp add: store_blocks_def)
  ultimately have "apart b (EEPROM_ADDR_GLOBAL, SIZEOF_SETTINGS)"
    using assms blocks_apart by blast
  moreover have "0 < fst b" using assms(2) by (auto simp: store_blocks_def coord_block_def coord_data_addr_def startup_line_addr_def)
  ultimately show ?thesis
    by (simp add: write_global_settings_def read_block_apart length_settings_bytes [OF assms(1)] read_block_put)
qed

section \<open>Restoring and starting up\<close>

lemma default_settings_ok: "settings_wf default_settings" "soft_limit_ok default_settings"
  by (simp_all add: settings_wf_def default_settings_def soft_limit_ok_def default_flags_def set_flag_if_def bit_istrue_def)

text \<open>The settings are read from the version byte and one block.\<close>

lemma read_global_store:
  assumes "read_global_settings m = (ok, k)" "eeprom_get_char m' 0 = eeprom_get_char m 0"
    "read_block (EEPROM_ADDR_GLOBAL, SIZEOF_SETTINGS) m' = read_block (EEPROM_ADDR_GLOBAL, SIZEOF_SETTINGS) m"
    "settings k = settings m'" "eeprom_get_char m 0 = SETTINGS_VERSION"
  shows "read_global_settings m' = (ok, m')"
proof -
  have "m'\<lparr>settings := settings m'\<rparr> = m'" by simp
  then show ?thesis
    using assms by (auto simp: read_global_settings_def read_block_def split: prod.splits)
qed

text \<open>Restoring the parameters zeroes the coordinate vectors it goes through.\<close>

lemma restore_parameters_blocks:
  assumes "restore_parameters idxs m = Some m'" "set idxs \<subseteq> {..7}" "length (eeprom m) = 2048"
  shows "settings m' = settings m \<and> length (eeprom m') = 2048
    \<and> (\<forall>b\<in>set store_blocks. read_block b m' =
         (if b \<in> coord_block ` of_nat ` set idxs then (floats_bytes (replicate N_AXIS 0), True) else read_block b m))
    \<and> eeprom_get_char m' 0 = eeprom_get_char m 0"
  using assms
proof (induction idxs arbitrary: m)
  case (Cons idx idxs)
  let ?z = "replicate N_AXIS (0 :: f32)" and ?sel = "of_nat idx :: u8"
  from Cons.prems(1) obtain k where k: "settings_write_coord_data ?sel ?z m = Some k" "restore_parameters idxs k = Some m'"
    by (auto split: option.splits)
  from k(1) obtain k0 where k0: "k = memcpy_to_eeprom (coord_data_addr ?sel) (floats_bytes ?z) k0"
    "eeprom k0 = eeprom m" "settings k0 = settings m" by (rule write_coord_result)
  have s: "?sel \<le> 7" using Cons.prems(2) by (simp add: word_le_nat_alt unsigned_of_nat take_bit_nat_eq_self)
  have l: "length ?z = N_AXIS" by simp
  have v: "eeprom_get_char k 0 = eeprom_get_char m 0"
    using k0(2) unfolding k0(1) by (subst ee.rd_to_eeprom_other) (simp_all add: coord_data_addr_def eeprom_get_char_def)
  have ih: "settings m' = settings k \<and> length (eeprom m') = 2048
    \<and> (\<forall>b\<in>set store_blocks. read_block b m' =
         (if b \<in> coord_block ` of_nat ` set idxs then (floats_bytes ?z, True) else read_block b k))
    \<and> eeprom_get_char m' 0 = eeprom_get_char k 0"
    using Cons.IH [OF k(2)] Cons.prems by (simp add: k0)
  have "read_block b k = (if b = coord_block ?sel then (floats_bytes ?z, True) else read_block b m)"
    if "b \<in> set store_blocks" for b
    using write_coord_own [OF k(1) l s Cons.prems(3)] write_coord_blocks [OF k(1) l s that] by simp
  then show ?case using ih v k0(1,3) by simp
qed simp

text \<open>Clearing the startup lines and the build info touches neither the settings nor the parameters.\<close>

lemma restore_text_kept:
  assumes "b = (EEPROM_ADDR_GLOBAL, SIZEOF_SETTINGS) \<or> (\<exists>sel \<le> 7. b = coord_block sel)"
  shows "read_block b (restore_startup_lines m) = read_block b m" "read_block b (restore_build_info m) = read_block b m"
proof -
  have "unat sel \<le> 7" if "sel \<le> 7" for sel :: u8 using that by (simp add: word_le_nat_alt)
  then have "fst b + snd b < EEPROM_ADDR_STARTUP_BLOCK" using assms by (force simp: coord_block_def coord_data_addr_def)
  then show "read_block b (restore_startup_lines m) = read_block b m" "read_block b (restore_build_info m) = read_block b m"
    by (simp_all add: restore_startup_lines_def restore_build_info_def Let_def read_block_put)
qed

lemma eeprom_report [simp]: "eeprom (report r m) = eeprom m" "settings (report r m) = settings m"
  by (simp_all add: report_def)

lemma eeprom_get_report [simp]: "eeprom_get_char (report r m) = eeprom_get_char m"
  by (simp add: fun_eq_iff eeprom_get_char_def)

lemma read_global_kept:
  assumes "read_global_settings m = (True, k)"
  shows "read_global_settings k = (True, k)" "eeprom k = eeprom m"
proof -
  have k: "k = m\<lparr>settings := settings_of_bytes (fst (read_block (EEPROM_ADDR_GLOBAL, SIZEOF_SETTINGS) m))\<rparr>"
    "eeprom_get_char m 0 = SETTINGS_VERSION" "snd (read_block (EEPROM_ADDR_GLOBAL, SIZEOF_SETTINGS) m)"
    using assms by (auto simp: read_global_settings_def read_block_def split: if_splits prod.splits)
  then show e: "eeprom k = eeprom m" by simp
  have "eeprom_get_char k 0 = eeprom_get_char m 0" by (simp add: eeprom_get_char_def e)
  then show "read_global_settings k = (True, k)"
    using read_global_store [OF assms] read_block_store [OF e] k(2) by simp
qed

lemma settings_init_restored:
  assumes "settings_restore SETTINGS_RESTORE_ALL m = Some m'" "length (eeprom m) = 2048"
  shows "read_global_settings m' = (True, m') \<and> settings m' = default_settings \<and> length (eeprom m') = 2048
    \<and> (\<forall>sel \<le> 7. settings_read_coord_data sel m' = Some (True, replicate N_AXIS 0, m'))"
proof -
  let ?w = "write_global_settings (m\<lparr>settings := default_settings\<rparr>)"
  obtain k where k: "restore_parameters [0..<SETTING_INDEX_NCOORD + 1] ?w = Some k"
    "m' = restore_build_info (restore_startup_lines k)"
    using assms(1) unfolding settings_restore_def Let_def by (auto simp del: restore_parameters.simps upt_Suc upt_rec_numeral)
  have idx: "set [0..<SETTING_INDEX_NCOORD + 1] = {..7}" by auto
  have l: "length (eeprom ?w) = 2048" using assms(2) by simp
  note p = restore_parameters_blocks [OF k(1) _ l, unfolded idx]
  have f: "length (eeprom m') = 2048" "settings m' = default_settings"
    "\<And>a. a < EEPROM_ADDR_STARTUP_BLOCK \<Longrightarrow> eeprom_get_char m' a = eeprom_get_char k a"
    using p by (simp_all add: k(2) restore_build_info_def restore_startup_lines_def Let_def ee.rd_wr_other)
  have "(EEPROM_ADDR_GLOBAL, SIZEOF_SETTINGS) \<in> set store_blocks" "(EEPROM_ADDR_GLOBAL, SIZEOF_SETTINGS) \<notin> range coord_block"
    by (auto simp: store_blocks_def coord_block_def coord_data_addr_def)
  then have "read_block (EEPROM_ADDR_GLOBAL, SIZEOF_SETTINGS) k = read_block (EEPROM_ADDR_GLOBAL, SIZEOF_SETTINGS) ?w"
    using p by auto
  then have g: "read_block (EEPROM_ADDR_GLOBAL, SIZEOF_SETTINGS) m' = read_block (EEPROM_ADDR_GLOBAL, SIZEOF_SETTINGS) ?w"
    unfolding k(2) by (simp only: restore_text_kept simp_thms)
  have "read_global_settings ?w = (True, ?w)"
    using assms(2) by (intro read_written_settings) (simp_all add: default_settings_ok)
  moreover have "eeprom_get_char m' 0 = eeprom_get_char ?w 0" using f(3) [of 0] p by simp
  moreover have "settings ?w = settings m'" "eeprom_get_char ?w 0 = SETTINGS_VERSION"
    using f(2) write_global_version [of "m\<lparr>settings := default_settings\<rparr>"] assms(2) by (simp_all flip: length_greater_0_conv)
  ultimately have r: "read_global_settings m' = (True, m')"
    using g read_global_store by blast
  have "settings_read_coord_data sel m' = Some (True, replicate N_AXIS 0, m')" if "sel \<le> 7" for sel
  proof (rule read_coord_block)
    have "unat sel \<in> {..7}" using that by (simp add: word_le_nat_alt)
    then have "coord_block sel \<in> coord_block ` of_nat ` {..7}" using imageI [OF imageI, of "unat sel" "{..7}" coord_block of_nat] by simp
    then show "read_block (coord_block sel) m' = (floats_bytes (replicate N_AXIS 0), True)"
      using p coord_block_in_store(1) [OF that] that unfolding k(2) by (subst restore_text_kept, blast)+ auto
  qed simp
  then show ?thesis using r f by blast
qed

lemma second_startup_line_over_build_info:
  assumes "settings_store_startup_line 1 line m = Some m'" "length line = LINE_BUFFER_SIZE" "length (eeprom m) = 2048"
  shows "take 145 (fst (read_block (EEPROM_ADDR_BUILD_INFO, LINE_BUFFER_SIZE) m')) = drop 55 line
    \<and> fst (read_block (EEPROM_ADDR_BUILD_INFO, LINE_BUFFER_SIZE) m') ! 145 = checksum line"
proof -
  obtain k where k: "m' = memcpy_to_eeprom 1737 line k" "length (eeprom k) = 2048"
    using assms synchronize_store(1) by (auto simp: settings_store_startup_line_def startup_line_addr_def)
  have r: "map (eeprom_get_char m') [1737..<1737 + length line] = line" "eeprom_get_char m' (1737 + length line) = checksum line"
    unfolding k(1) by (rule ee.rd_to_eeprom; simp add: k(2) assms(2))+
  have b: "fst (read_block (EEPROM_ADDR_BUILD_INFO, LINE_BUFFER_SIZE) m') = map (eeprom_get_char m') [1792..<1992]"
    by (simp add: read_block_def ee.from_eeprom Let_def del: upt_rec_numeral)
  have "take 145 (map (eeprom_get_char m') [1792..<1992]) = drop 55 (map (eeprom_get_char m') [1737..<1737 + length line])"
    by (simp add: take_map drop_map assms(2) take_upt drop_upt del: upt_rec_numeral)
  moreover have "map (eeprom_get_char m') [1792..<1992] ! 145 = eeprom_get_char m' (1737 + length line)"
    by (simp add: assms(2) del: upt_rec_numeral)
  ultimately show ?thesis using b r by simp
qed

lemma read_global_report: "read_global_settings (report r m) = map_prod id (report r) (read_global_settings m)"
  using read_block_store [of "report r m" m "(EEPROM_ADDR_GLOBAL, SIZEOF_SETTINGS)"]
  by (auto simp: read_global_settings_def read_block_def report_def eeprom_get_char_def split: prod.splits)

lemma read_coord_store:
  assumes "settings_read_coord_data sel m = Some (True, d, k)" "eeprom m' = eeprom m"
  shows "settings_read_coord_data sel m' = Some (True, d, m')"
  using assms(1) read_block_store [OF assms(2), of "coord_block sel"]
  by (auto simp: settings_read_coord_data_def settings_read_coord_data_into_def read_block_def coord_block_def Let_def
      split: prod.splits bool.splits)

lemma settings_init_cases:
  assumes "settings_init m = Some m'" "length (eeprom m) = 2048"
  shows "read_global_settings m' = (True, m')
    \<and> (if fst (read_global_settings m) then eeprom m' = eeprom m
       else settings m' = default_settings
         \<and> (\<forall>sel \<le> 7. settings_read_coord_data sel m' = Some (True, replicate N_AXIS 0, m')))"
proof (cases "read_global_settings m")
  case (Pair ok k)
  have e: "eeprom k = eeprom m"
    using Pair by (auto simp: read_global_settings_def split: if_splits prod.splits)
  show ?thesis
  proof (cases ok)
    case True
    then have "m' = k" using assms(1) Pair by (simp add: settings_init_def)
    then show ?thesis using read_global_kept Pair True by simp
  next
    case False
    then obtain k' where k': "settings_restore SETTINGS_RESTORE_ALL (report (Status_message STATUS_SETTING_READ_FAIL CLIENT_SERIAL) k) = Some k'"
      "m' = report (Grbl_settings CLIENT_SERIAL) k'"
      using assms(1) Pair by (auto simp: settings_init_def)
    have "length (eeprom (report (Status_message STATUS_SETTING_READ_FAIL CLIENT_SERIAL) k)) = 2048"
      using e assms(2) by simp
    note r = settings_init_restored [OF k'(1) this]
    have g: "read_global_settings m' = (True, m')"
      using r by (simp add: k'(2) read_global_report)
    have "settings_read_coord_data sel m' = Some (True, replicate N_AXIS 0, m')" if "sel \<le> 7" for sel
      by (rule read_coord_store [where m = k' and k = k']) (use r that in \<open>simp_all add: k'(2)\<close>)
    then show ?thesis using g r Pair False by (simp add: k'(2))
  qed
qed

end
