(* ===== verification/Settings_Properties.thy ===== *)
theory Settings_Properties
  imports Settings_Facts
begin

text \<open>
  The properties of the parameter store and the settings.
\<close>

text \<open>C15. A setting given by \<^verbatim>\<open>$x=value\<close> is either rejected, and nothing has changed, or accepted:
  then the store reads back as exactly the settings the machine now works with, and all the other
  blocks of the store are as before.\<close>

theorem setting_rejected_or_stored:
  assumes "settings_store_global_setting parameter x m = Some (code, m')"
    and "settings_wf (settings m)" "length (eeprom m) = 2048"
  shows "(code \<noteq> STATUS_OK \<and> m' = m) \<or>
    (code = STATUS_OK \<and> read_global_settings m' = (True, m') \<and> settings_wf (settings m') \<and>
     (\<forall>b\<in>set store_blocks. b \<noteq> (EEPROM_ADDR_GLOBAL, SIZEOF_SETTINGS) \<longrightarrow> read_block b m' = read_block b m))"
  using assms(1,2)
proof (cases rule: store_global_cases)
  case (stored k)
  then show ?thesis
    using assms(3) read_written_settings [OF stored(3)] write_global_blocks [OF stored(3)] read_block_store [OF stored(4)]
    by simp
qed simp

text \<open>\<^verbatim>\<open>$24=1\<close> on the machine at power on.\<close>

lemma setting_rejected_or_stored_witness:
  "\<exists>m'. settings_store_global_setting 24 0x3F800000 machine0 = Some (STATUS_OK, m')
    \<and> read_global_settings m' = (True, m')"
proof -
  have "\<not> f32_lt 0x3F800000 0" by code_simp
  then obtain m' where "settings_store_global_setting 24 0x3F800000 machine0 = Some (STATUS_OK, m')"
    by (simp add: settings_store_global_setting_def store_setting_def Let_def)
  moreover have "settings_wf (settings machine0)" "length (eeprom machine0) = 2048"
    by (simp_all add: settings_wf_def settings0_def)
  ultimately show ?thesis using setting_rejected_or_stored by blast
qed

text \<open>C26. Soft limits are never on without homing: it holds of the defaults, and every change of a
  setting keeps it (turning homing off turns the soft limits off).\<close>

theorem soft_limits_need_homing:
  assumes "settings_store_global_setting parameter x m = Some (code, m')"
    and "settings_wf (settings m)" "soft_limit_ok (settings m)"
  shows "soft_limit_ok (settings m') \<and> soft_limit_ok default_settings"
  using assms(1,2)
proof (cases rule: store_global_cases)
  case (stored k)
  then show ?thesis using assms(3) default_settings_ok(2) by simp
qed (use assms default_settings_ok(2) in simp)

text \<open>\<^verbatim>\<open>$22=0\<close> with both on.\<close>

lemma soft_limits_need_homing_witness:
  "\<exists>m'. settings_store_global_setting 22 0 (machine0\<lparr>settings := settings0\<lparr>flags := 48\<rparr>\<rparr>) = Some (STATUS_OK, m')
     \<and> soft_limit_ok (settings m')"
proof -
  let ?m = "machine0\<lparr>settings := settings0\<lparr>flags := 48\<rparr>\<rparr>"
  have "\<not> f32_lt 0 0" by code_simp
  then obtain m' where "settings_store_global_setting 22 0 ?m = Some (STATUS_OK, m')"
    by (simp add: settings_store_global_setting_def store_setting_def Let_def)
  moreover have "settings_wf (settings ?m)" "soft_limit_ok (settings ?m)"
    by (simp_all add: settings_wf_def settings0_def soft_limit_ok_def bit_istrue_def)
  ultimately show ?thesis using soft_limits_need_homing by blast
qed

text \<open>C27. A coordinate vector written to the store is read back, and every other block of the store,
  the settings, the other vectors, the startup lines and the build info, reads as before.\<close>

theorem coord_data_roundtrip:
  assumes "settings_write_coord_data sel d m = Some m'" "length d = N_AXIS" "sel \<le> 7" "length (eeprom m) = 2048"
  shows "settings_read_coord_data sel m' = Some (True, d, m')
    \<and> (\<forall>b\<in>set store_blocks. b \<noteq> coord_block sel \<longrightarrow> read_block b m' = read_block b m)"
  using write_coord_read [OF assms] write_coord_blocks [OF assms(1-3)] by blast

lemma coord_data_roundtrip_witness:
  "\<exists>m'. settings_read_coord_data 3 m' = Some (True, replicate N_AXIS 0x3F800000, m')"
proof -
  obtain m' where "settings_write_coord_data 3 (replicate N_AXIS 0x3F800000) idle_machine = Some m'"
    by (simp add: settings_write_coord_data_def idle_synchronize)
  moreover have "length (eeprom idle_machine) = 2048" by (simp add: idle_machine_def)
  ultimately show ?thesis using coord_data_roundtrip [of 3] by fastforce
qed

text \<open>C29. The second startup line and the build info overlap in the store: after storing the line,
  the first 145 characters of the build info are the line's characters from the 55th on, and the
  next is the checksum of the line.\<close>

theorem startup_line_overwrites_build_info:
  assumes "settings_store_startup_line 1 line m = Some m'" "length line = LINE_BUFFER_SIZE" "length (eeprom m) = 2048"
  shows "take 145 (fst (read_block (EEPROM_ADDR_BUILD_INFO, LINE_BUFFER_SIZE) m')) = drop 55 line
    \<and> fst (read_block (EEPROM_ADDR_BUILD_INFO, LINE_BUFFER_SIZE) m') ! 145 = checksum line"
  by (rule second_startup_line_over_build_info [OF assms])

lemma startup_line_overwrites_build_info_witness:
  "\<exists>m'. take 145 (fst (read_block (EEPROM_ADDR_BUILD_INFO, LINE_BUFFER_SIZE) m')) = replicate 145 7"
proof -
  obtain m' where "settings_store_startup_line 1 (replicate LINE_BUFFER_SIZE 7) idle_machine = Some m'"
    by (simp add: settings_store_startup_line_def idle_synchronize)
  moreover have "length (eeprom idle_machine) = 2048" by (simp add: idle_machine_def)
  ultimately show ?thesis using startup_line_overwrites_build_info [of "replicate LINE_BUFFER_SIZE 7"] by fastforce
qed

text \<open>C28. After \<^verbatim>\<open>settings_init\<close> the store holds exactly the settings the machine works with. A store
  that read as valid is kept; from any other the defaults are stored and every coordinate system
  is zero.\<close>

theorem settings_init_result:
  assumes "settings_init m = Some m'" "length (eeprom m) = 2048"
  shows "read_global_settings m' = (True, m')
    \<and> (if fst (read_global_settings m) then eeprom m' = eeprom m
       else settings m' = default_settings
         \<and> (\<forall>sel \<le> 7. settings_read_coord_data sel m' = Some (True, replicate N_AXIS 0, m')))"
  by (rule settings_init_cases [OF assms])

lemma settings_init_result_witness:
  "\<exists>m'. settings_init (write_global_settings machine0) = Some m' \<and> read_global_settings m' = (True, m')"
proof -
  have "read_global_settings (write_global_settings machine0) = (True, write_global_settings machine0)"
    by (rule read_written_settings) (simp_all add: settings_wf_def settings0_def)
  then obtain m' where "settings_init (write_global_settings machine0) = Some m'"
    by (simp add: settings_init_def)
  moreover have "length (eeprom (write_global_settings machine0)) = 2048" by simp
  ultimately show ?thesis using settings_init_result by blast
qed

end
