(* ===== verification/Motion.thy ===== *)
theory Motion
  imports Protocol_RT
begin

text \<open>
  The motion primitives the parser calls (\<^verbatim>\<open>motion_control.cpp\<close>, \<^verbatim>\<open>jog.cpp\<close>), with the homing cycle
  and the soft limit check of \<^verbatim>\<open>limits.cpp\<close> and the synchronised setters of the spindle and the
  coolant. All of them wait for the planner or for the end of a motion, so they have no result
  when the schedule of interrupts ends before the wait does.

  The float versions of \<^verbatim>\<open>atan2\<close>, \<^verbatim>\<open>cos\<close> and \<^verbatim>\<open>sin\<close> come from the C library, which is not part of
  the repository: they are the fields of a record \<open>libm\<close> that the arc takes as an argument, and
  nothing is assumed of them.
\<close>

record libm =
  lm_atan2 :: "f32 \<Rightarrow> f32 \<Rightarrow> f32"
  lm_cos :: "f32 \<Rightarrow> f32"
  lm_sin :: "f32 \<Rightarrow> f32"

section \<open>Spindle and coolant, in step with the program\<close>

definition spindle_sync :: "u8 \<Rightarrow> f32 \<Rightarrow> machine \<Rightarrow> machine option" where
  "spindle_sync state rpm m =
     (if sys_state (sys m) = STATE_CHECK_MODE then Some m
      else map_option (spindle_set_state state rpm) (protocol_buffer_synchronize m))"

definition coolant_sync :: "u8 \<Rightarrow> machine \<Rightarrow> machine option" where
  "coolant_sync mode m =
     (if sys_state (sys m) = STATE_CHECK_MODE then Some m
      else map_option (coolant_set_state mode) (protocol_buffer_synchronize m))"

section \<open>Soft limits\<close>

definition system_check_travel_limits :: "f32 list \<Rightarrow> machine \<Rightarrow> bool" where
  "system_check_travel_limits target m =
     list_ex (\<lambda>idx. f32_lt 0 (target ! idx) \<or> f32_lt (target ! idx) (max_travel (settings m) ! idx)) [0..<N_AXIS]"

text \<open>The wait for the hold to end has no \<^verbatim>\<open>delay\<close>: only the pin and timer interrupts are served
  in it. Here it serves whatever the schedule holds.\<close>

partial_function (option) wait_idle :: "machine \<Rightarrow> machine option" where
  "wait_idle m =
     (case poll m of None \<Rightarrow> None
      | Some m \<Rightarrow> (case protocol_execute_realtime m of None \<Rightarrow> None
        | Some m \<Rightarrow>
            if sys_abort (sys m) then Some m
            else if sys_state (sys m) \<noteq> STATE_IDLE then wait_idle m else Some m))"

definition limits_soft_check :: "f32 list \<Rightarrow> machine \<Rightarrow> machine option" where
  "limits_soft_check target m =
     (if system_check_travel_limits target m then
        let m = upd_sys (\<lambda>s. s\<lparr>sys_soft_limit := True\<rparr>) m in
        case (if sys_state (sys m) = STATE_CYCLE then wait_idle (system_set_exec_state_flag EXEC_FEED_HOLD m) else Some m) of
          None \<Rightarrow> None
        | Some m \<Rightarrow>
            if sys_abort (sys m) then Some m
            else protocol_execute_realtime (system_set_exec_alarm EXEC_ALARM_SOFT_LIMIT (mc_reset m))
      else Some m)"

section \<open>Lines\<close>

text \<open>Waiting for room in the planner buffer; it ends with the machine aborted or with room.\<close>

partial_function (option) wait_for_room :: "machine \<Rightarrow> machine option" where
  "wait_for_room m =
     (case protocol_execute_realtime m of None \<Rightarrow> None
      | Some m \<Rightarrow>
          if sys_abort (sys m) then Some m
          else if plan_check_full_buffer m
          then (case poll (protocol_auto_cycle_start m) of None \<Rightarrow> None | Some m \<Rightarrow> wait_for_room m)
          else Some m)"

definition queue_line :: "f32 list \<Rightarrow> plan_line_data_t \<Rightarrow> machine \<Rightarrow> machine option" where
  "queue_line target pl_data m =
     (let (ok, m) = plan_buffer_line target pl_data m in
      if ok = PLAN_EMPTY_BLOCK \<and> bit_istrue (flags (settings m)) BITFLAG_LASER_MODE
         \<and> pld_condition pl_data AND PL_COND_FLAG_SPINDLE_CW \<noteq> 0
      then spindle_sync PL_COND_FLAG_SPINDLE_CW (pld_spindle_speed pl_data) m else Some m)"

definition mc_line :: "f32 list \<Rightarrow> plan_line_data_t \<Rightarrow> machine \<Rightarrow> machine option" where
  "mc_line target pl_data m =
     (case (if bit_istrue (flags (settings m)) BITFLAG_SOFT_LIMIT_ENABLE \<and> sys_state (sys m) \<noteq> STATE_JOG
            then limits_soft_check target m else Some m) of
        None \<Rightarrow> None
      | Some m \<Rightarrow>
          if sys_state (sys m) = STATE_CHECK_MODE then Some m
          else (case wait_for_room m of None \<Rightarrow> None
                | Some m \<Rightarrow> if sys_abort (sys m) then Some m else queue_line target pl_data m))"

section \<open>Arcs\<close>

text \<open>The position array of the arc is \<^verbatim>\<open>gc_state.position\<close> (its only caller passes it): the arc
  moves the parser's position along.\<close>

definition set_gc_position :: "f32 list \<Rightarrow> machine \<Rightarrow> machine" where
  "set_gc_position p m = m\<lparr>gc_state := (gc_state m)\<lparr>gs_position := p\<rparr>\<rparr>"

abbreviation (input) ARC_ANGULAR_TRAVEL_EPSILON :: rat where "ARC_ANGULAR_TRAVEL_EPSILON \<equiv> 5 / 10000000"
abbreviation (input) M_PI :: rat where "M_PI \<equiv> 314159265358979323846 / 100000000000000000000"

definition arc_angular_travel :: "libm \<Rightarrow> f32 \<Rightarrow> f32 \<Rightarrow> f32 \<Rightarrow> f32 \<Rightarrow> bool \<Rightarrow> f32" where
  "arc_angular_travel lm r_axis0 r_axis1 rt_axis0 rt_axis1 is_clockwise_arc =
     (let angular_travel = lm_atan2 lm
            (f32_sub (f32_mul r_axis0 rt_axis1) (f32_mul r_axis1 rt_axis0))
            (f32_add (f32_mul r_axis0 rt_axis0) (f32_mul r_axis1 rt_axis1));
          two_pi = f64_mul (lit 2) (lit M_PI)
      in if is_clockwise_arc then
           (if f64_le (lit (- ARC_ANGULAR_TRAVEL_EPSILON)) (dbl angular_travel)
            then flt (f64_sub (dbl angular_travel) two_pi) else angular_travel)
         else
           (if f64_le (dbl angular_travel) (lit ARC_ANGULAR_TRAVEL_EPSILON)
            then flt (f64_add (dbl angular_travel) two_pi) else angular_travel))"

definition arc_segments :: "f32 \<Rightarrow> f32 \<Rightarrow> settings_t \<Rightarrow> u16" where
  "arc_segments angular_travel radius s =
     (let tol = arc_tolerance s;
          arc = f64_abs (f64_mul (f64_mul (lit (1 / 2)) (dbl angular_travel)) (dbl radius));
          chord = f32_sqrt (f32_mul tol (f32_sub (f32_mul (f32_of_int 2) radius) tol))
      in to_u16 (fpd_floor (f64_dec (f64_div arc (dbl chord)))))"

text \<open>The small-angle rotation, \<^verbatim>\<open>cos_T\<close> and \<^verbatim>\<open>sin_T\<close>; the literals are doubles.\<close>

definition arc_rotation :: "f32 \<Rightarrow> f32 \<times> f32" where
  "arc_rotation theta_per_segment =
     (let cos_T = flt (f64_sub (lit 2) (dbl (f32_mul theta_per_segment theta_per_segment)));
          sin_T = flt (f64_mul (f64_mul (dbl theta_per_segment) (lit (16666667 / 100000000)))
                         (f64_add (dbl cos_T) (lit 4)))
      in (flt (f64_mul (dbl cos_T) (lit (1 / 2))), sin_T))"

text \<open>The radius vector of the next point: rotated, or recomputed from the offset every
  \<^verbatim>\<open>N_ARC_CORRECTION\<close> segments. \<open>count\<close> counts the rotations since.\<close>

definition arc_next_radius ::
    "libm \<Rightarrow> f32 \<Rightarrow> f32 \<Rightarrow> f32 \<Rightarrow> nat \<Rightarrow> nat \<times> f32 \<times> f32 \<Rightarrow> nat \<times> f32 \<times> f32" where
  "arc_next_radius lm theta_per_segment offset0 offset1 i = (\<lambda>(count, r_axis0, r_axis1).
     if count < N_ARC_CORRECTION then
       let (cos_T, sin_T) = arc_rotation theta_per_segment
       in (count + 1, f32_sub (f32_mul r_axis0 cos_T) (f32_mul r_axis1 sin_T),
           f32_add (f32_mul r_axis0 sin_T) (f32_mul r_axis1 cos_T))
     else
       let angle = f32_mul (f32_of_int (int i)) theta_per_segment;
           cos_Ti = lm_cos lm angle; sin_Ti = lm_sin lm angle
       in (0, f32_add (f32_mul (f32_neg offset0) cos_Ti) (f32_mul offset1 sin_Ti),
           f32_sub (f32_mul (f32_neg offset0) sin_Ti) (f32_mul offset1 cos_Ti)))"

text \<open>The loop over the segments but the last: \<open>n\<close> segments remain, \<open>i\<close> is the number of the next.
  The boolean is false when the machine was aborted, which ends the arc.\<close>

primrec arc_loop ::
    "(nat \<Rightarrow> nat \<times> f32 \<times> f32 \<Rightarrow> nat \<times> f32 \<times> f32) \<Rightarrow> (f32 \<Rightarrow> f32 \<Rightarrow> f32 list \<Rightarrow> f32 list) \<Rightarrow> plan_line_data_t
     \<Rightarrow> nat \<Rightarrow> nat \<Rightarrow> nat \<times> f32 \<times> f32 \<Rightarrow> machine \<Rightarrow> (bool \<times> machine) option" where
  "arc_loop next_radius place pl_data 0 i r m = Some (True, m)"
| "arc_loop next_radius place pl_data (Suc n) i r m =
     (let r = next_radius i r;
          m = set_gc_position (place (fst (snd r)) (snd (snd r)) (gs_position (gc_state m))) m
      in case mc_line (gs_position (gc_state m)) pl_data m of None \<Rightarrow> None
         | Some m \<Rightarrow>
             if sys_abort (sys m) then Some (False, m)
             else (case poll m of None \<Rightarrow> None | Some m \<Rightarrow> arc_loop next_radius place pl_data n (i + 1) r m))"

definition arc_place :: "nat \<Rightarrow> nat \<Rightarrow> nat \<Rightarrow> f32 \<Rightarrow> f32 \<Rightarrow> f32 \<Rightarrow> f32 \<Rightarrow> f32 \<Rightarrow> f32 list \<Rightarrow> f32 list" where
  "arc_place axis_0 axis_1 axis_linear center0 center1 linear_per_segment r_axis0 r_axis1 position =
     (let position = position[axis_0 := f32_add center0 r_axis0];
          position = position[axis_1 := f32_add center1 r_axis1]
      in position[axis_linear := f32_add (position ! axis_linear) linear_per_segment])"

definition arc_line_data :: "u16 \<Rightarrow> plan_line_data_t \<Rightarrow> plan_line_data_t" where
  "arc_line_data segments pl_data =
     (if segments \<noteq> 0 \<and> pld_condition pl_data AND PL_COND_FLAG_INVERSE_TIME \<noteq> 0
      then pl_data\<lparr>pld_feed_rate := f32_mul (pld_feed_rate pl_data) (f32_of_int (uint segments)),
                   pld_condition := bit_false (pld_condition pl_data) PL_COND_FLAG_INVERSE_TIME\<rparr>
      else pl_data)"

definition mc_arc ::
    "libm \<Rightarrow> f32 list \<Rightarrow> plan_line_data_t \<Rightarrow> f32 list \<Rightarrow> f32 \<Rightarrow> nat \<Rightarrow> nat \<Rightarrow> nat \<Rightarrow> bool \<Rightarrow> machine \<Rightarrow> machine option" where
  "mc_arc lm target pl_data offset radius axis_0 axis_1 axis_linear is_clockwise_arc m =
     (let position = gs_position (gc_state m);
          center0 = f32_add (position ! axis_0) (offset ! axis_0);
          center1 = f32_add (position ! axis_1) (offset ! axis_1);
          r_axis0 = f32_neg (offset ! axis_0); r_axis1 = f32_neg (offset ! axis_1);
          rt_axis0 = f32_sub (target ! axis_0) center0; rt_axis1 = f32_sub (target ! axis_1) center1;
          angular_travel = arc_angular_travel lm r_axis0 r_axis1 rt_axis0 rt_axis1 is_clockwise_arc;
          segments = arc_segments angular_travel radius (settings m);
          pl_data = arc_line_data segments pl_data;
          theta = f32_div angular_travel (f32_of_int (uint segments));
          linear = f32_div (f32_sub (target ! axis_linear) (position ! axis_linear)) (f32_of_int (uint segments))
      in case arc_loop (arc_next_radius lm theta (offset ! axis_0) (offset ! axis_1))
                (arc_place axis_0 axis_1 axis_linear center0 center1 linear) pl_data
                (unat segments - 1) 1 (0, r_axis0, r_axis1) m of
           None \<Rightarrow> None
         | Some (done, m) \<Rightarrow> if done then mc_line target pl_data m else Some m)"

section \<open>Dwell\<close>

definition mc_dwell :: "f32 \<Rightarrow> machine \<Rightarrow> machine option" where
  "mc_dwell seconds m =
     (if sys_state (sys m) = STATE_CHECK_MODE then Some m
      else case protocol_buffer_synchronize m of None \<Rightarrow> None
      | Some m \<Rightarrow> delay_sec seconds DELAY_MODE_DWELL m)"

section \<open>Jogging\<close>

definition jog_execute :: "plan_line_data_t \<Rightarrow> gc_values_t \<Rightarrow> machine \<Rightarrow> (u8 \<times> machine) option" where
  "jog_execute pl_data values m =
     (let pl_data = pl_data\<lparr>pld_feed_rate := gv_f values,
                            pld_condition := pld_condition pl_data OR PL_COND_FLAG_NO_FEED_OVERRIDE\<rparr> in
      if bit_istrue (flags (settings m)) BITFLAG_SOFT_LIMIT_ENABLE \<and> system_check_travel_limits (gv_xyz values) m
      then Some (STATUS_TRAVEL_EXCEEDED, m)
      else case mc_line (gv_xyz values) pl_data m of None \<Rightarrow> None
      | Some m \<Rightarrow>
          if sys_state (sys m) = STATE_IDLE \<and> plan_get_current_block m \<noteq> None then
            map_option (\<lambda>m. (STATUS_OK, st_wake_up m)) (st_prep_buffer (set_state STATE_JOG m))
          else Some (STATUS_OK, m))"

section \<open>Homing (limits.cpp)\<close>

abbreviation (input) HOMING_AXIS_SEARCH_SCALAR :: rat where "HOMING_AXIS_SEARCH_SCALAR \<equiv> 15 / 10"
abbreviation (input) HOMING_AXIS_LOCATE_SCALAR :: rat where "HOMING_AXIS_LOCATE_SCALAR \<equiv> 5"

definition homing_axes :: "u8 \<Rightarrow> nat list" where
  "homing_axes cycle_mask = filter (\<lambda>idx. bit_istrue cycle_mask (push_bit idx 1)) [0..<N_AXIS]"

text \<open>The longest search distance of the axes of the cycle.\<close>

definition homing_max_travel :: "u8 \<Rightarrow> settings_t \<Rightarrow> f32" where
  "homing_max_travel cycle_mask s =
     fold (\<lambda>idx travel.
        let d = f32_mul (flt (lit (- HOMING_AXIS_SEARCH_SCALAR))) (max_travel s ! idx)
        in if f32_lt d travel then travel else d) (homing_axes cycle_mask) 0"

text \<open>The axes whose limit switch is engaged are locked out.\<close>

definition homing_lock :: "u8 \<Rightarrow> u8 \<Rightarrow> u8" where
  "homing_lock limit_state axislock =
     fold (\<lambda>idx lock. if lock AND get_step_pin_mask idx \<noteq> 0 \<and> limit_state AND push_bit idx 1 \<noteq> 0
                      then lock AND NOT (get_step_pin_mask idx) else lock) [0..<N_AXIS] axislock"

definition set_homing_lock :: "u8 \<Rightarrow> machine \<Rightarrow> machine" where
  "set_homing_lock lock = upd_sys (\<lambda>s. s\<lparr>sys_homing_axis_lock := lock\<rparr>)"

text \<open>The alarms a flag raised during the motion leads to, in the order of the code: a later one
  replaces an earlier one.\<close>

definition homing_alarms :: "u8 \<Rightarrow> bool \<Rightarrow> u8 \<Rightarrow> machine \<Rightarrow> machine" where
  "homing_alarms cycle_mask approach rt_exec m =
     (let m = (if rt_exec AND EXEC_RESET \<noteq> 0 then system_set_exec_alarm EXEC_ALARM_HOMING_FAIL_RESET m else m);
          m = (if rt_exec AND EXEC_SAFETY_DOOR \<noteq> 0 then system_set_exec_alarm EXEC_ALARM_HOMING_FAIL_DOOR m else m);
          m = (if \<not> approach \<and> limits_get_state m AND cycle_mask \<noteq> 0
               then system_set_exec_alarm EXEC_ALARM_HOMING_FAIL_PULLOFF m else m)
      in if approach \<and> rt_exec AND EXEC_CYCLE_STOP \<noteq> 0
         then system_set_exec_alarm EXEC_ALARM_HOMING_FAIL_APPROACH m else m)"

text \<open>The motion of one round, while an axis is unlocked. The loop has no \<^verbatim>\<open>delay\<close>; the timer and
  pin interrupts are served at the start of a turn. False when homing failed.\<close>

partial_function (option) homing_motion :: "u8 \<Rightarrow> bool \<Rightarrow> u8 \<Rightarrow> machine \<Rightarrow> (bool \<times> machine) option" where
  "homing_motion cycle_mask approach axislock m =
     (case poll m of None \<Rightarrow> None
      | Some m \<Rightarrow>
        let axislock = (if approach then homing_lock (limits_get_state m) axislock else axislock);
            m = (if approach then set_homing_lock axislock m else m)
        in case st_prep_buffer m of None \<Rightarrow> None
        | Some m \<Rightarrow>
            if sys_rt_exec_state m AND (EXEC_SAFETY_DOOR OR EXEC_RESET OR EXEC_CYCLE_STOP) \<noteq> 0 then
              let m = homing_alarms cycle_mask approach (sys_rt_exec_state m) m in
              if sys_rt_exec_alarm m \<noteq> 0
              then map_option (Pair False) (protocol_execute_realtime (mc_reset m))
              else Some (True, system_clear_exec_state_flag EXEC_CYCLE_STOP m)
            else if STEP_MASK AND axislock \<noteq> 0 then homing_motion cycle_mask approach axislock m
            else Some (True, m))"

text \<open>The target of a round, with the positions of the homed axes zeroed.\<close>

definition homing_target :: "u8 \<Rightarrow> bool \<Rightarrow> f32 \<Rightarrow> machine \<Rightarrow> f32 list" where
  "homing_target cycle_mask approach travel m =
     fold (\<lambda>idx target. target[idx :=
         (if bit_istrue (homing_dir_mask (settings m)) (push_bit idx 1) = approach then f32_neg travel else travel)])
       (homing_axes cycle_mask) (system_convert_array_steps_to_mpos (sys_position m) m)"

definition zero_positions :: "nat list \<Rightarrow> machine \<Rightarrow> machine" where
  "zero_positions axes m = m\<lparr>sys_position := fold (\<lambda>idx p. p[idx := 0]) axes (sys_position m)\<rparr>"

definition homing_axislock :: "u8 \<Rightarrow> u8" where
  "homing_axislock cycle_mask = fold (\<lambda>idx lock. lock OR get_step_pin_mask idx) (homing_axes cycle_mask) 0"

definition plan_line_data0 :: plan_line_data_t where
  "plan_line_data0 = \<lparr>pld_feed_rate = 0, pld_spindle_speed = 0, pld_condition = 0\<rparr>"

definition homing_rate_scale :: "u8 \<Rightarrow> f32 \<Rightarrow> f32" where
  "homing_rate_scale cycle_mask homing_rate =
     flt (f64_mul (dbl homing_rate) (f64_sqrt (lit (of_nat (length (homing_axes cycle_mask))))))"

definition homing_start :: "u8 \<Rightarrow> bool \<Rightarrow> f32 \<Rightarrow> f32 \<Rightarrow> machine \<Rightarrow> machine option" where
  "homing_start cycle_mask approach travel homing_rate m =
     (let target = homing_target cycle_mask approach travel m;
          m = zero_positions (homing_axes cycle_mask) m;
          m = set_homing_lock (homing_axislock cycle_mask) m;
          pl_data = plan_line_data0\<lparr>pld_feed_rate := homing_rate_scale cycle_mask homing_rate,
                      pld_condition := PL_COND_FLAG_SYSTEM_MOTION OR PL_COND_FLAG_NO_FEED_OVERRIDE\<rparr>;
          m = snd (plan_buffer_line target pl_data m);
          m = set_step_control STEP_CONTROL_EXECUTE_SYS_MOTION m
      in map_option st_wake_up (st_prep_buffer m))"

text \<open>\<open>n\<close> more rounds follow; the rounds alternate between approach and pull-off. The
  debounce delay serves interrupts once.\<close>

primrec homing_rounds :: "nat \<Rightarrow> u8 \<Rightarrow> bool \<Rightarrow> f32 \<Rightarrow> f32 \<Rightarrow> machine \<Rightarrow> (bool \<times> machine) option" where
  "homing_rounds 0 cycle_mask approach travel homing_rate m = Some (True, m)"
| "homing_rounds (Suc n) cycle_mask approach travel homing_rate m =
     (case homing_start cycle_mask approach travel homing_rate m of None \<Rightarrow> None
      | Some m \<Rightarrow>
        (case homing_motion cycle_mask approach (homing_axislock cycle_mask) m of None \<Rightarrow> None
         | Some (ok, m) \<Rightarrow>
             if \<not> ok then Some (False, m)
             else (case poll (st_reset m) of None \<Rightarrow> None
               | Some m \<Rightarrow>
                   let s = settings m; approach = (\<not> approach) in
                   if approach then
                     homing_rounds n cycle_mask approach (f32_times_lit HOMING_AXIS_LOCATE_SCALAR (homing_pulloff s))
                       (homing_feed_rate s) m
                   else homing_rounds n cycle_mask approach (homing_pulloff s) (homing_seek_rate s) m)))"

definition homed_position :: "settings_t \<Rightarrow> nat \<Rightarrow> i32" where
  "homed_position s idx =
     (if bit_istrue (homing_dir_mask s) (push_bit idx 1)
      then lround_steps (f32_add (max_travel s ! idx) (homing_pulloff s)) (steps_per_mm s ! idx)
      else lround_steps (f32_neg (homing_pulloff s)) (steps_per_mm s ! idx))"

definition homing_set_positions :: "u8 \<Rightarrow> machine \<Rightarrow> machine" where
  "homing_set_positions cycle_mask m =
     m\<lparr>sys_position := fold (\<lambda>idx p. p[idx := homed_position (settings m) idx]) (homing_axes cycle_mask) (sys_position m)\<rparr>"

definition limits_go_home :: "u8 \<Rightarrow> machine \<Rightarrow> machine option" where
  "limits_go_home cycle_mask m =
     (if sys_abort (sys m) then Some m
      else case homing_rounds (2 * N_HOMING_LOCATE_CYCLE + 2) cycle_mask True (homing_max_travel cycle_mask (settings m))
                  (homing_seek_rate (settings m)) m of
        None \<Rightarrow> None
      | Some (ok, m) \<Rightarrow>
          if ok then Some (set_step_control STEP_CONTROL_NORMAL_OP (homing_set_positions cycle_mask m))
          else Some m)"

text \<open>Both cycles run even if the first fails: the second returns at once when the failure has
  aborted the machine.\<close>

definition mc_homing_cycle :: "machine \<Rightarrow> machine option" where
  "mc_homing_cycle m =
     (case limits_go_home HOMING_CYCLE_0 (limits_disable m) of None \<Rightarrow> None
      | Some m \<Rightarrow> (case limits_go_home HOMING_CYCLE_1 m of None \<Rightarrow> None
      | Some m \<Rightarrow> (case protocol_execute_realtime m of None \<Rightarrow> None
      | Some m \<Rightarrow>
          if sys_abort (sys m) then Some m
          else Some (limits_init (plan_sync_position (gc_sync_position m))))))"

section \<open>Probing\<close>

partial_function (option) probe_wait :: "machine \<Rightarrow> machine option" where
  "probe_wait m =
     (case protocol_execute_realtime m of None \<Rightarrow> None
      | Some m \<Rightarrow>
          if sys_abort (sys m) then Some m
          else (case poll m of None \<Rightarrow> None
                | Some m \<Rightarrow> if sys_state (sys m) \<noteq> STATE_IDLE then probe_wait m else Some m))"

definition set_probe_succeeded :: "bool \<Rightarrow> machine \<Rightarrow> machine" where
  "set_probe_succeeded b = upd_sys (\<lambda>s. s\<lparr>sys_probe_succeeded := b\<rparr>)"

definition probe_result :: "bool \<Rightarrow> machine \<Rightarrow> machine" where
  "probe_result is_no_error m =
     (let m = (if sys_probe_state m = PROBE_ACTIVE then
                 (if is_no_error then m\<lparr>sys_probe_position := sys_position m\<rparr>
                  else system_set_exec_alarm EXEC_ALARM_PROBE_FAIL_CONTACT m)
               else set_probe_succeeded True m)
      in probe_configure_invert_mask False (m\<lparr>sys_probe_state := PROBE_OFF\<rparr>))"

definition probe_finish :: "machine \<Rightarrow> u8 \<times> machine" where
  "probe_finish m =
     (let m = plan_sync_position (plan_reset (st_reset m));
          m = report (Probe_parameters CLIENT_ALL) m
      in (if sys_probe_succeeded (sys m) then GC_PROBE_FOUND else GC_PROBE_FAIL_END, m))"

definition probe_motion :: "f32 list \<Rightarrow> plan_line_data_t \<Rightarrow> bool \<Rightarrow> machine \<Rightarrow> (u8 \<times> machine) option" where
  "probe_motion target pl_data is_no_error m =
     (case mc_line target pl_data m of None \<Rightarrow> None
      | Some m \<Rightarrow>
        (case probe_wait (system_set_exec_state_flag EXEC_CYCLE_START (m\<lparr>sys_probe_state := PROBE_ACTIVE\<rparr>)) of None \<Rightarrow> None
         | Some m \<Rightarrow>
             if sys_abort (sys m) then Some (GC_PROBE_ABORT, m)
             else map_option probe_finish (protocol_execute_realtime (probe_result is_no_error m))))"

definition mc_probe_cycle :: "f32 list \<Rightarrow> plan_line_data_t \<Rightarrow> u8 \<Rightarrow> machine \<Rightarrow> (u8 \<times> machine) option" where
  "mc_probe_cycle target pl_data parser_flags m =
     (if sys_state (sys m) = STATE_CHECK_MODE then Some (GC_PROBE_CHECK_MODE, m)
      else case protocol_buffer_synchronize m of None \<Rightarrow> None
      | Some m \<Rightarrow>
          if sys_abort (sys m) then Some (GC_PROBE_ABORT, m)
          else
            let is_probe_away = bit_istrue parser_flags GC_PARSER_PROBE_IS_AWAY;
                is_no_error = bit_istrue parser_flags GC_PARSER_PROBE_IS_NO_ERROR;
                m = probe_configure_invert_mask is_probe_away (set_probe_succeeded False m)
            in if probe_get_state m \<noteq> 0 then
                 map_option (\<lambda>m. (GC_PROBE_FAIL_INIT, probe_configure_invert_mask False m))
                   (protocol_execute_realtime (system_set_exec_alarm EXEC_ALARM_PROBE_FAIL_INITIAL m))
               else probe_motion target pl_data is_no_error m)"

end
