(* ===== verification/Gcode_Parse.thy ===== *)
theory Gcode_Parse
  imports Settings Motion
begin

text \<open>
  The first two steps of \<^verbatim>\<open>gc_execute_line\<close> (\<^verbatim>\<open>gcode.cpp\<close>): a block of words is read into a
  parser block, with the flags that track which modal groups and value words it used. A word is a
  letter and a number; an unsupported or repeated word ends the parse with a status code.

  \<^verbatim>\<open>word_bit\<close> is not initialised in the source and an unsupported M command leaves it as the word
  before left it: it is part of the state here, with an unspecified first value. The flag sets are
  16 bits wide while \<^verbatim>\<open>WORD_D\<close> and \<^verbatim>\<open>WORD_E\<close> are 16 and 17; \<^verbatim>\<open>bit()\<close> is an \<^verbatim>\<open>int\<close>.
\<close>

section \<open>Results\<close>

text \<open>A status code on the left, a result on the right.\<close>

definition bindE :: "'e + 'a \<Rightarrow> ('a \<Rightarrow> 'e + 'b) \<Rightarrow> 'e + 'b" where
  "bindE r f = (case r of Inl e \<Rightarrow> Inl e | Inr x \<Rightarrow> f x)"

lemma bindE_simps [simp]: "bindE (Inl e) f = Inl e" "bindE (Inr x) f = f x"
  by (simp_all add: bindE_def)

lemma bindE_Inr_iff: "bindE r f = Inr y \<longleftrightarrow> (\<exists>x. r = Inr x \<and> f x = Inr y)"
  by (cases r) simp_all

text \<open>\<^verbatim>\<open>if (c) { FAIL(code); }\<close>\<close>

definition fail_if :: "bool \<Rightarrow> u8 \<Rightarrow> u8 + 'a \<Rightarrow> u8 + 'a" where
  "fail_if c code r = (if c then Inl code else r)"

lemma fail_if_Inr_iff [simp]: "fail_if c code r = Inr y \<longleftrightarrow> \<not> c \<and> r = Inr y"
  by (simp add: fail_if_def)

section \<open>The state of the parse\<close>

record parse_t =
  ps_block :: parser_block_t
  ps_axis_command :: u8
  ps_axis_words :: u8
  ps_ijk_words :: u8
  ps_command_words :: u16
  ps_value_words :: u16
  ps_flags :: u8
  ps_word_bit :: nat

text \<open>\<^verbatim>\<open>bit(n)\<close>, and testing and setting it in a 16-bit set.\<close>

definition int_bit :: "nat \<Rightarrow> i32" where
  "int_bit n = push_bit n 1"

definition word_seen :: "u16 \<Rightarrow> i32 \<Rightarrow> bool" where
  "word_seen ws k \<longleftrightarrow> ucast ws AND k \<noteq> 0"

definition mark_word :: "u16 \<Rightarrow> i32 \<Rightarrow> u16" where
  "mark_word ws k = ucast (ucast ws OR k)"

definition clear_words :: "u16 \<Rightarrow> i32 \<Rightarrow> u16" where
  "clear_words ws k = ucast (ucast ws AND NOT k)"

abbreviation upd_block :: "(parser_block_t \<Rightarrow> parser_block_t) \<Rightarrow> parse_t \<Rightarrow> parse_t" where
  "upd_block f ps \<equiv> ps\<lparr>ps_block := f (ps_block ps)\<rparr>"

abbreviation upd_modal :: "(gc_modal_t \<Rightarrow> gc_modal_t) \<Rightarrow> parse_t \<Rightarrow> parse_t" where
  "upd_modal f \<equiv> upd_block (\<lambda>b. b\<lparr>gb_modal := f (gb_modal b)\<rparr>)"

abbreviation upd_values :: "(gc_values_t \<Rightarrow> gc_values_t) \<Rightarrow> parse_t \<Rightarrow> parse_t" where
  "upd_values f \<equiv> upd_block (\<lambda>b. b\<lparr>gb_values := f (gb_values b)\<rparr>)"

abbreviation ps_modal :: "parse_t \<Rightarrow> gc_modal_t" where
  "ps_modal ps \<equiv> gb_modal (ps_block ps)"

abbreviation ps_values :: "parse_t \<Rightarrow> gc_values_t" where
  "ps_values ps \<equiv> gb_values (ps_block ps)"

abbreviation ps_non_modal :: "parse_t \<Rightarrow> u8" where
  "ps_non_modal ps \<equiv> gb_non_modal_command (ps_block ps)"

text \<open>Step 1: the block starts from the parser's modes; a line that starts with \<^verbatim>\<open>$\<close> is a jog.\<close>

definition parse_init :: "line \<Rightarrow> parser_state_t \<Rightarrow> parse_t" where
  "parse_init line gs =
     (let ps = \<lparr>ps_block = \<lparr>gb_non_modal_command = 0, gb_modal = gs_modal gs, gb_values = gc_values0\<rparr>,
                ps_axis_command = AXIS_COMMAND_NONE, ps_axis_words = 0, ps_ijk_words = 0, ps_command_words = 0,
                ps_value_words = 0, ps_flags = GC_PARSER_NONE, ps_word_bit = undefined\<rparr>
      in if char_at line 0 = ch CHR ''$'' then
           upd_modal (\<lambda>k. k\<lparr>gm_motion := MOTION_MODE_LINEAR, gm_feed_rate := FEED_RATE_MODE_UNITS_PER_MIN\<rparr>)
             (ps\<lparr>ps_flags := ps_flags ps OR GC_PARSER_JOG_MOTION\<rparr>)
         else ps)"

section \<open>G words\<close>

text \<open>The command of a G word: its modal group, the block it leaves, and the mantissa, cleared where
  the source clears it.\<close>

definition g_non_modal :: "u8 \<Rightarrow> u16 \<Rightarrow> parse_t \<Rightarrow> u8 + (u16 \<times> parse_t)" where
  "g_non_modal int_value mantissa ps =
     (let axis = (int_value \<in> {10, 28, 30, 92}) in
      fail_if (axis \<and> mantissa = 0 \<and> ps_axis_command ps \<noteq> 0) STATUS_GCODE_AXIS_COMMAND_CONFLICT
        (let ps = (if axis \<and> mantissa = 0 then ps\<lparr>ps_axis_command := AXIS_COMMAND_NON_MODAL\<rparr> else ps);
             ps = ps\<lparr>ps_word_bit := MODAL_GROUP_G0\<rparr>;
             ps = upd_block (\<lambda>b. b\<lparr>gb_non_modal_command := int_value\<rparr>) ps
         in if int_value \<in> {28, 30, 92} then
              fail_if (mantissa \<noteq> 0 \<and> mantissa \<noteq> 10) STATUS_GCODE_UNSUPPORTED_COMMAND
                (Inr (0, upd_block (\<lambda>b. b\<lparr>gb_non_modal_command := gb_non_modal_command b + ucast mantissa\<rparr>) ps))
            else Inr (mantissa, ps)))"

definition g_motion :: "u8 \<Rightarrow> u16 \<Rightarrow> parse_t \<Rightarrow> u8 + (u16 \<times> parse_t)" where
  "g_motion int_value mantissa ps =
     fail_if (int_value \<noteq> 80 \<and> ps_axis_command ps \<noteq> 0) STATUS_GCODE_AXIS_COMMAND_CONFLICT
       (let ps = (if int_value \<noteq> 80 then ps\<lparr>ps_axis_command := AXIS_COMMAND_MOTION_MODE\<rparr> else ps);
            ps = ps\<lparr>ps_word_bit := MODAL_GROUP_G1\<rparr>;
            ps = upd_modal (\<lambda>k. k\<lparr>gm_motion := int_value\<rparr>) ps
        in if int_value = 38 then
             fail_if (mantissa \<notin> {20, 30, 40, 50}) STATUS_GCODE_UNSUPPORTED_COMMAND
               (Inr (0, upd_modal (\<lambda>k. k\<lparr>gm_motion := gm_motion k + ucast (mantissa div 10 + 100)\<rparr>) ps))
           else Inr (mantissa, ps))"

definition g_distance :: "u8 \<Rightarrow> u16 \<Rightarrow> parse_t \<Rightarrow> u8 + (u16 \<times> parse_t)" where
  "g_distance int_value mantissa ps =
     (if mantissa = 0 then
        Inr (mantissa, upd_modal (\<lambda>k. k\<lparr>gm_distance := int_value - 90\<rparr>) (ps\<lparr>ps_word_bit := MODAL_GROUP_G3\<rparr>))
      else fail_if (mantissa \<noteq> 10 \<or> int_value = 90) STATUS_GCODE_UNSUPPORTED_COMMAND
             (Inr (0, ps\<lparr>ps_word_bit := MODAL_GROUP_G4\<rparr>)))"

definition g_tool_length :: "u8 \<Rightarrow> u16 \<Rightarrow> parse_t \<Rightarrow> u8 + (u16 \<times> parse_t)" where
  "g_tool_length int_value mantissa ps =
     fail_if (ps_axis_command ps \<noteq> 0) STATUS_GCODE_AXIS_COMMAND_CONFLICT
       (let ps = ps\<lparr>ps_word_bit := MODAL_GROUP_G8, ps_axis_command := AXIS_COMMAND_TOOL_LENGTH_OFFSET\<rparr>
        in if int_value = 49 then
             Inr (0, upd_modal (\<lambda>k. k\<lparr>gm_tool_length := TOOL_LENGTH_OFFSET_CANCEL\<rparr>) ps)
           else fail_if (mantissa \<noteq> 10) STATUS_GCODE_UNSUPPORTED_COMMAND
                  (Inr (0, upd_modal (\<lambda>k. k\<lparr>gm_tool_length := TOOL_LENGTH_OFFSET_ENABLE_DYNAMIC\<rparr>) ps)))"

definition g_command :: "u8 \<Rightarrow> u16 \<Rightarrow> parse_t \<Rightarrow> u8 + (u16 \<times> parse_t)" where
  "g_command int_value mantissa ps =
     (let group = (\<lambda>g ps. Inr (mantissa, ps\<lparr>ps_word_bit := g\<rparr>)) in
      if int_value \<in> {10, 28, 30, 92, 4, 53} then g_non_modal int_value mantissa ps
      else if int_value \<in> {0, 1, 2, 3, 38, 80} then g_motion int_value mantissa ps
      else if int_value \<in> {17, 18, 19} then group MODAL_GROUP_G2 (upd_modal (\<lambda>k. k\<lparr>gm_plane_select := int_value - 17\<rparr>) ps)
      else if int_value \<in> {90, 91} then g_distance int_value mantissa ps
      else if int_value \<in> {93, 94} then group MODAL_GROUP_G5 (upd_modal (\<lambda>k. k\<lparr>gm_feed_rate := 94 - int_value\<rparr>) ps)
      else if int_value \<in> {20, 21} then group MODAL_GROUP_G6 (upd_modal (\<lambda>k. k\<lparr>gm_units := 21 - int_value\<rparr>) ps)
      else if int_value = 40 then group MODAL_GROUP_G7 ps
      else if int_value \<in> {43, 49} then g_tool_length int_value mantissa ps
      else if int_value \<in> {54, 55, 56, 57, 58, 59} then
        group MODAL_GROUP_G12 (upd_modal (\<lambda>k. k\<lparr>gm_coord_select := int_value - 54\<rparr>) ps)
      else if int_value = 61 then
        fail_if (mantissa \<noteq> 0) STATUS_GCODE_UNSUPPORTED_COMMAND (group MODAL_GROUP_G13 ps)
      else Inl STATUS_GCODE_UNSUPPORTED_COMMAND)"

text \<open>A command may be the only one of its group in the block.\<close>

definition mark_command :: "parse_t \<Rightarrow> u8 + parse_t" where
  "mark_command ps =
     fail_if (word_seen (ps_command_words ps) (int_bit (ps_word_bit ps))) STATUS_GCODE_MODAL_GROUP_VIOLATION
       (Inr (ps\<lparr>ps_command_words := mark_word (ps_command_words ps) (int_bit (ps_word_bit ps))\<rparr>))"

definition g_word :: "u8 \<Rightarrow> u16 \<Rightarrow> parse_t \<Rightarrow> u8 + parse_t" where
  "g_word int_value mantissa ps =
     bindE (g_command int_value mantissa ps) (\<lambda>(mantissa, ps).
       fail_if (0 < mantissa) STATUS_GCODE_COMMAND_VALUE_NOT_INTEGER (mark_command ps))"

section \<open>M words\<close>

text \<open>The spindle commands are commented out, and an unknown command is ignored: it changes
  nothing, not even \<^verbatim>\<open>word_bit\<close>.\<close>

definition m_command :: "u8 \<Rightarrow> parse_t \<Rightarrow> parse_t" where
  "m_command int_value ps =
     (if int_value \<in> {0, 1, 2, 30} then
        let ps = ps\<lparr>ps_word_bit := MODAL_GROUP_M4\<rparr> in
        (if int_value = 0 then upd_modal (\<lambda>k. k\<lparr>gm_program_flow := PROGRAM_FLOW_PAUSED\<rparr>) ps
         else if int_value = 1 then ps
         else upd_modal (\<lambda>k. k\<lparr>gm_program_flow := int_value\<rparr>) ps)
      else if int_value \<in> {3, 4, 5} then ps\<lparr>ps_word_bit := MODAL_GROUP_M7\<rparr>
      else if int_value \<in> {8, 9} then
        let ps = ps\<lparr>ps_word_bit := MODAL_GROUP_M8\<rparr> in
        (if int_value = 8 then upd_modal (\<lambda>k. k\<lparr>gm_coolant := gm_coolant k OR COOLANT_FLOOD_ENABLE\<rparr>) ps
         else upd_modal (\<lambda>k. k\<lparr>gm_coolant := COOLANT_DISABLE\<rparr>) ps)
      else ps)"

definition m_word :: "u8 \<Rightarrow> u16 \<Rightarrow> parse_t \<Rightarrow> u8 + parse_t" where
  "m_word int_value mantissa ps =
     fail_if (0 < mantissa) STATUS_GCODE_COMMAND_VALUE_NOT_INTEGER (mark_command (m_command int_value ps))"

section \<open>Value words\<close>

definition axis_word :: "nat \<Rightarrow> nat \<Rightarrow> f32 \<Rightarrow> parse_t \<Rightarrow> parse_t" where
  "axis_word wbit axis value ps =
     upd_values (\<lambda>v. v\<lparr>gv_xyz := (gv_xyz v)[axis := value]\<rparr>)
       (ps\<lparr>ps_word_bit := wbit, ps_axis_words := ps_axis_words ps OR push_bit axis 1\<rparr>)"

definition ijk_word :: "nat \<Rightarrow> nat \<Rightarrow> f32 \<Rightarrow> parse_t \<Rightarrow> parse_t" where
  "ijk_word wbit axis value ps =
     upd_values (\<lambda>v. v\<lparr>gv_ijk := (gv_ijk v)[axis := value]\<rparr>)
       (ps\<lparr>ps_word_bit := wbit, ps_ijk_words := ps_ijk_words ps OR push_bit axis 1\<rparr>)"

definition value_word :: "nat \<Rightarrow> (gc_values_t \<Rightarrow> gc_values_t) \<Rightarrow> parse_t \<Rightarrow> parse_t" where
  "value_word wbit f ps = upd_values f (ps\<lparr>ps_word_bit := wbit\<rparr>)"

abbreviation (input) MAX_TOOL_NUMBER :: int where "MAX_TOOL_NUMBER \<equiv> 255"
abbreviation (input) MAX_LINE_NUMBER :: int where "MAX_LINE_NUMBER \<equiv> 10000000"

definition store_word :: "u8 \<Rightarrow> f32 \<Rightarrow> u8 \<Rightarrow> parse_t \<Rightarrow> u8 + parse_t" where
  "store_word letter value int_value ps =
     (if letter = ch CHR ''A'' then Inr (axis_word WORD_A A_AXIS value ps)
      else if letter = ch CHR ''B'' then Inr (axis_word WORD_B B_AXIS value ps)
      else if letter = ch CHR ''C'' then Inr (axis_word WORD_C C_AXIS value ps)
      else if letter = ch CHR ''D'' then Inr (axis_word WORD_D D_AXIS value ps)
      else if letter = ch CHR ''E'' then Inr (axis_word WORD_E E_AXIS value ps)
      else if letter = ch CHR ''F'' then Inr (value_word WORD_F (\<lambda>v. v\<lparr>gv_f := value\<rparr>) ps)
      else if letter = ch CHR ''I'' then Inr (ijk_word WORD_I X_AXIS value ps)
      else if letter = ch CHR ''J'' then Inr (ijk_word WORD_J Y_AXIS value ps)
      else if letter = ch CHR ''K'' then Inr (ijk_word WORD_K Z_AXIS value ps)
      else if letter = ch CHR ''L'' then Inr (value_word WORD_L (\<lambda>v. v\<lparr>gv_l := int_value\<rparr>) ps)
      else if letter = ch CHR ''N'' then
        Inr (value_word WORD_N (\<lambda>v. v\<lparr>gv_n := to_i32 (fpd_trunc (f32_dec value))\<rparr>) ps)
      else if letter = ch CHR ''P'' then Inr (value_word WORD_P (\<lambda>v. v\<lparr>gv_p := value\<rparr>) ps)
      else if letter = ch CHR ''R'' then Inr (value_word WORD_R (\<lambda>v. v\<lparr>gv_r := value\<rparr>) ps)
      else if letter = ch CHR ''S'' then Inr (value_word WORD_S (\<lambda>v. v\<lparr>gv_s := value\<rparr>) ps)
      else if letter = ch CHR ''T'' then
        fail_if (f32_lt (f32_of_int MAX_TOOL_NUMBER) value) STATUS_GCODE_MAX_VALUE_EXCEEDED
          (Inr (value_word WORD_T (\<lambda>v. v\<lparr>gv_t := int_value\<rparr>) ps))
      else if letter = ch CHR ''X'' then Inr (axis_word WORD_X X_AXIS value ps)
      else if letter = ch CHR ''Y'' then Inr (axis_word WORD_Y Y_AXIS value ps)
      else if letter = ch CHR ''Z'' then Inr (axis_word WORD_Z Z_AXIS value ps)
      else Inl STATUS_GCODE_UNSUPPORTED_COMMAND)"

definition other_word :: "u8 \<Rightarrow> f32 \<Rightarrow> u8 \<Rightarrow> parse_t \<Rightarrow> u8 + parse_t" where
  "other_word letter value int_value ps =
     bindE (store_word letter value int_value ps) (\<lambda>ps.
       let k = int_bit (ps_word_bit ps) in
       fail_if (word_seen (ps_value_words ps) k) STATUS_GCODE_WORD_REPEATED
         (fail_if (k AND (int_bit WORD_F OR int_bit WORD_N OR int_bit WORD_P OR int_bit WORD_T OR int_bit WORD_S) \<noteq> 0
                   \<and> f32_lt value 0) STATUS_NEGATIVE_VALUE
           (Inr (ps\<lparr>ps_value_words := mark_word (ps_value_words ps) k\<rparr>))))"

section \<open>The words of a line\<close>

text \<open>The integer part of a number as a byte, and a hundred times the rest.\<close>

definition word_int :: "f32 \<Rightarrow> u8" where
  "word_int value = to_u8 (fpd_trunc (f32_dec value))"

definition word_mantissa :: "f32 \<Rightarrow> u16" where
  "word_mantissa value =
     to_u16 (fpd_round (f32_dec (f32_mul (f32_of_int 100) (f32_sub value (f32_of_int (uint (word_int value)))))))"

definition parse_word :: "u8 \<Rightarrow> f32 \<Rightarrow> parse_t \<Rightarrow> u8 + parse_t" where
  "parse_word letter value ps =
     (let int_value = word_int value; mantissa = word_mantissa value in
      if letter = ch CHR ''G'' then g_word int_value mantissa ps
      else if letter = ch CHR ''M'' then m_word int_value mantissa ps
      else other_word letter value int_value ps)"

text \<open>Step 2: the loop over the words. A line longer than the counter can count would be read in a
  circle, so the loop is not known to end; \<open>Gcode_Facts\<close> shows that it does on every line of the
  protocol.\<close>

partial_function (option) parse_words :: "line \<Rightarrow> nat \<Rightarrow> parse_t \<Rightarrow> (u8 + parse_t) option" where
  "parse_words line char_counter ps =
     (let letter = char_at line char_counter in
      if letter = 0 then Some (Inr ps)
      else if letter < ch CHR ''A'' \<or> ch CHR ''Z'' < letter then Some (Inl STATUS_EXPECTED_COMMAND_LETTER)
      else (case read_float line ((char_counter + 1) mod 256) of
              None \<Rightarrow> Some (Inl STATUS_BAD_NUMBER_FORMAT)
            | Some (value, char_counter) \<Rightarrow>
                (case parse_word letter value ps of
                   Inl code \<Rightarrow> Some (Inl code)
                 | Inr ps \<Rightarrow> parse_words line char_counter ps)))"

definition parse_line :: "line \<Rightarrow> parser_state_t \<Rightarrow> (u8 + parse_t) option" where
  "parse_line line gs =
     (let ps = parse_init line gs
      in parse_words line (if ps_flags ps AND GC_PARSER_JOG_MOTION \<noteq> 0 then 3 else 0) ps)"

end
