(* ===== verification/Gcode_Check.thy ===== *)
theory Gcode_Check
  imports Gcode_Parse
begin

text \<open>
  The third step of \<^verbatim>\<open>gc_execute_line\<close>: the checks of a parsed block against the modes of the
  parser, with the values converted to millimetres and machine coordinates. Each definition is one
  numbered item of the source, in its order. Reading a coordinate system that fails its checksum
  writes a default to the store, so those items return the machine as well, on an error too.
\<close>

section \<open>Helpers\<close>

abbreviation in_mm :: "f32 \<Rightarrow> f32" where
  "in_mm x \<equiv> f32_times_lit (254 / 10) x"

definition has_axis :: "u8 \<Rightarrow> nat \<Rightarrow> bool" where
  "has_axis ws idx \<longleftrightarrow> bit_istrue ws (push_bit idx 1)"

text \<open>Updating the components of the axes in a set.\<close>

definition map_axes :: "(nat \<Rightarrow> bool) \<Rightarrow> (nat \<Rightarrow> f32 \<Rightarrow> f32) \<Rightarrow> f32 list \<Rightarrow> f32 list" where
  "map_axes P f v = map (\<lambda>idx. if P idx then f idx (v ! idx) else v ! idx) [0..<N_AXIS]"

definition upd_xyz :: "(f32 list \<Rightarrow> f32 list) \<Rightarrow> parse_t \<Rightarrow> parse_t" where
  "upd_xyz f = upd_values (\<lambda>v. v\<lparr>gv_xyz := f (gv_xyz v)\<rparr>)"

definition upd_ijk :: "(f32 list \<Rightarrow> f32 list) \<Rightarrow> parse_t \<Rightarrow> parse_t" where
  "upd_ijk f = upd_values (\<lambda>v. v\<lparr>gv_ijk := f (gv_ijk v)\<rparr>)"

definition is_jog :: "parse_t \<Rightarrow> bool" where
  "is_jog ps \<longleftrightarrow> ps_flags ps AND GC_PARSER_JOG_MOTION \<noteq> 0"

text \<open>The axes of the selected plane, and the one along it.\<close>

definition plane_axes :: "parse_t \<Rightarrow> nat \<times> nat \<times> nat" where
  "plane_axes ps =
     (if gm_plane_select (ps_modal ps) = PLANE_SELECT_XY then (X_AXIS, Y_AXIS, Z_AXIS)
      else if gm_plane_select (ps_modal ps) = PLANE_SELECT_ZX then (Z_AXIS, X_AXIS, Y_AXIS)
      else (Y_AXIS, Z_AXIS, X_AXIS))"

section \<open>Items 0 to 14\<close>

definition check_implicit_axis :: "parse_t \<Rightarrow> parse_t" where
  "check_implicit_axis ps =
     (if ps_axis_words ps \<noteq> 0 \<and> ps_axis_command ps = 0
      then ps\<lparr>ps_axis_command := AXIS_COMMAND_MOTION_MODE\<rparr> else ps)"

definition check_line_number :: "parse_t \<Rightarrow> u8 + parse_t" where
  "check_line_number ps =
     fail_if (word_seen (ps_value_words ps) (int_bit WORD_N) \<and> MAX_LINE_NUMBER < sint (gv_n (ps_values ps)))
       STATUS_GCODE_INVALID_LINE_NUMBER (Inr ps)"

definition feed_in_mm :: "parse_t \<Rightarrow> parse_t" where
  "feed_in_mm ps =
     (if gm_units (ps_modal ps) = UNITS_MODE_INCHES
      then upd_values (\<lambda>v. v\<lparr>gv_f := in_mm (gv_f v)\<rparr>) ps else ps)"

definition check_feed_rate :: "parser_state_t \<Rightarrow> parse_t \<Rightarrow> u8 + parse_t" where
  "check_feed_rate gs ps =
     (let has_f = word_seen (ps_value_words ps) (int_bit WORD_F) in
      if is_jog ps then fail_if (\<not> has_f) STATUS_GCODE_UNDEFINED_FEED_RATE (Inr (feed_in_mm ps))
      else if gm_feed_rate (ps_modal ps) = FEED_RATE_MODE_INVERSE_TIME then
        fail_if (ps_axis_command ps = AXIS_COMMAND_MOTION_MODE
                 \<and> gm_motion (ps_modal ps) \<noteq> MOTION_MODE_NONE \<and> gm_motion (ps_modal ps) \<noteq> MOTION_MODE_SEEK \<and> \<not> has_f)
          STATUS_GCODE_UNDEFINED_FEED_RATE (Inr ps)
      else if gm_feed_rate (gs_modal gs) = FEED_RATE_MODE_UNITS_PER_MIN then
        Inr (if has_f then feed_in_mm ps else upd_values (\<lambda>v. v\<lparr>gv_f := gs_feed_rate gs\<rparr>) ps)
      else Inr ps)"

definition check_spindle_speed :: "parser_state_t \<Rightarrow> parse_t \<Rightarrow> parse_t" where
  "check_spindle_speed gs ps =
     (if \<not> word_seen (ps_value_words ps) (int_bit WORD_S)
      then upd_values (\<lambda>v. v\<lparr>gv_s := gs_spindle_speed gs\<rparr>) ps else ps)"

definition drop_words :: "i32 \<Rightarrow> parse_t \<Rightarrow> parse_t" where
  "drop_words k ps = ps\<lparr>ps_value_words := clear_words (ps_value_words ps) k\<rparr>"

definition check_dwell :: "parse_t \<Rightarrow> u8 + parse_t" where
  "check_dwell ps =
     (if ps_non_modal ps = NON_MODAL_DWELL then
        fail_if (\<not> word_seen (ps_value_words ps) (int_bit WORD_P)) STATUS_GCODE_VALUE_WORD_MISSING
          (Inr (drop_words (int_bit WORD_P) ps))
      else Inr ps)"

definition check_units :: "parse_t \<Rightarrow> parse_t" where
  "check_units ps =
     (if gm_units (ps_modal ps) = UNITS_MODE_INCHES
      then upd_xyz (map_axes (has_axis (ps_axis_words ps)) (\<lambda>_. in_mm)) ps else ps)"

definition check_tool_length :: "parse_t \<Rightarrow> u8 + parse_t" where
  "check_tool_length ps =
     fail_if (ps_axis_command ps = AXIS_COMMAND_TOOL_LENGTH_OFFSET
              \<and> gm_tool_length (ps_modal ps) = TOOL_LENGTH_OFFSET_ENABLE_DYNAMIC
              \<and> ps_axis_words ps XOR push_bit TOOL_LENGTH_OFFSET_AXIS 1 \<noteq> 0)
       STATUS_GCODE_G43_DYNAMIC_AXIS_ERROR (Inr ps)"

definition check_words :: "parser_state_t \<Rightarrow> parse_t \<Rightarrow> u8 + parse_t" where
  "check_words gs ps =
     bindE (check_line_number (check_implicit_axis ps)) (\<lambda>ps.
     bindE (check_feed_rate gs ps) (\<lambda>ps.
     bindE (check_dwell (check_spindle_speed gs ps)) (\<lambda>ps.
     check_tool_length (check_units ps))))"

section \<open>Item 15: the coordinate system of the block\<close>

definition check_coord_system :: "parse_t \<Rightarrow> machine \<Rightarrow> ((u8 + f32 list) \<times> machine) option" where
  "check_coord_system ps m =
     (let own = gs_coord_system (gc_state m) in
      if word_seen (ps_command_words ps) (int_bit MODAL_GROUP_G12) then
        (if N_COORDINATE_SYSTEM < unat (gm_coord_select (ps_modal ps)) then Some (Inl STATUS_GCODE_UNSUPPORTED_COORD_SYS, m)
         else if gm_coord_select (gs_modal (gc_state m)) \<noteq> gm_coord_select (ps_modal ps) then
           map_option (\<lambda>(ok, data, m). (if ok then Inr data else Inl STATUS_SETTING_READ_FAIL, m))
             (settings_read_coord_data (gm_coord_select (ps_modal ps)) m)
         else Some (Inr own, m))
      else Some (Inr own, m))"

section \<open>Item 19: the non-modal commands\<close>

text \<open>G10. \<^verbatim>\<open>bit_isfalse\<close> of two bits holds only when both words are missing.\<close>

definition g10_check :: "parse_t \<Rightarrow> u8 + (u8 \<times> parse_t)" where
  "g10_check ps =
     (let v = ps_values ps; coord_select = to_u8 (fpd_trunc (f32_dec (gv_p v))) in
      fail_if (ps_axis_words ps = 0) STATUS_GCODE_NO_AXIS_WORDS
     (fail_if (\<not> word_seen (ps_value_words ps) (int_bit WORD_P OR int_bit WORD_L)) STATUS_GCODE_VALUE_WORD_MISSING
     (fail_if (N_COORDINATE_SYSTEM < unat coord_select) STATUS_GCODE_UNSUPPORTED_COORD_SYS
     (fail_if (gv_l v \<noteq> 20 \<and> gv_l v = 2 \<and> word_seen (ps_value_words ps) (int_bit WORD_R)) STATUS_GCODE_UNSUPPORTED_COMMAND
     (fail_if (gv_l v \<noteq> 20 \<and> gv_l v \<noteq> 2) STATUS_GCODE_UNSUPPORTED_COMMAND
       (Inr (if 0 < coord_select then coord_select - 1 else gm_coord_select (ps_modal ps),
             drop_words (int_bit WORD_L OR int_bit WORD_P) ps)))))))"

definition g10_values :: "parser_state_t \<Rightarrow> f32 list \<Rightarrow> parse_t \<Rightarrow> f32 list" where
  "g10_values gs stored ps =
     map_axes (has_axis (ps_axis_words ps))
       (\<lambda>idx _. if gv_l (ps_values ps) = 20 then
            let x = f32_sub (f32_sub (gs_position gs ! idx) (gs_coord_offset gs ! idx)) (gv_xyz (ps_values ps) ! idx)
            in if idx = TOOL_LENGTH_OFFSET_AXIS then f32_sub x (gs_tool_length_offset gs) else x
          else gv_xyz (ps_values ps) ! idx) stored"

definition check_g10 :: "parse_t \<Rightarrow> machine \<Rightarrow> ((u8 + (u8 \<times> parse_t)) \<times> machine) option" where
  "check_g10 ps m =
     (case g10_check ps of
        Inl code \<Rightarrow> Some (Inl code, m)
      | Inr (coord_select, ps) \<Rightarrow>
          map_option (\<lambda>(ok, data, m).
              (if ok then Inr (coord_select, upd_ijk (\<lambda>_. g10_values (gc_state m) data ps) ps)
               else Inl STATUS_SETTING_READ_FAIL, m))
            (settings_read_coord_data coord_select m))"

definition check_g92 :: "f32 list \<Rightarrow> parser_state_t \<Rightarrow> parse_t \<Rightarrow> u8 + parse_t" where
  "check_g92 block_coord_system gs ps =
     fail_if (ps_axis_words ps = 0) STATUS_GCODE_NO_AXIS_WORDS
       (Inr (upd_xyz (\<lambda>xyz. map (\<lambda>idx.
          if has_axis (ps_axis_words ps) idx then
            let x = f32_sub (f32_sub (gs_position gs ! idx) (block_coord_system ! idx)) (xyz ! idx)
            in if idx = TOOL_LENGTH_OFFSET_AXIS then f32_sub x (gs_tool_length_offset gs) else x
          else gs_coord_offset gs ! idx) [0..<N_AXIS]) ps))"

text \<open>The target position of every other command.\<close>

definition target_axis :: "f32 list \<Rightarrow> parser_state_t \<Rightarrow> parse_t \<Rightarrow> nat \<Rightarrow> f32 \<Rightarrow> f32" where
  "target_axis block_coord_system gs ps idx x =
     (if \<not> has_axis (ps_axis_words ps) idx then gs_position gs ! idx
      else if ps_non_modal ps = NON_MODAL_ABSOLUTE_OVERRIDE then x
      else if gm_distance (ps_modal ps) = DISTANCE_MODE_ABSOLUTE then
        let y = f32_add x (f32_add (block_coord_system ! idx) (gs_coord_offset gs ! idx))
        in if idx = TOOL_LENGTH_OFFSET_AXIS then f32_add y (gs_tool_length_offset gs) else y
      else f32_add x (gs_position gs ! idx))"

definition compute_target :: "f32 list \<Rightarrow> parser_state_t \<Rightarrow> parse_t \<Rightarrow> parse_t" where
  "compute_target block_coord_system gs ps =
     (if ps_axis_command ps \<noteq> AXIS_COMMAND_TOOL_LENGTH_OFFSET \<and> ps_axis_words ps \<noteq> 0
      then upd_xyz (map_axes (\<lambda>_. True) (target_axis block_coord_system gs ps)) ps else ps)"

definition check_go_home :: "u8 \<Rightarrow> parse_t \<Rightarrow> machine \<Rightarrow> ((u8 + parse_t) \<times> machine) option" where
  "check_go_home setting_index ps m =
     map_option (\<lambda>(ok, data, m).
         (if ok then
            Inr (if ps_axis_words ps \<noteq> 0 then
                   upd_ijk (\<lambda>_. map_axes (\<lambda>idx. \<not> has_axis (ps_axis_words ps) idx)
                                  (\<lambda>idx _. gs_position (gc_state m) ! idx) data) ps
                 else (upd_ijk (\<lambda>_. data) ps)\<lparr>ps_axis_command := AXIS_COMMAND_NONE\<rparr>)
          else Inl STATUS_SETTING_READ_FAIL, m))
       (settings_read_coord_data setting_index m)"

definition check_g53 :: "parse_t \<Rightarrow> u8 + parse_t" where
  "check_g53 ps =
     fail_if (gm_motion (ps_modal ps) \<noteq> MOTION_MODE_SEEK \<and> gm_motion (ps_modal ps) \<noteq> MOTION_MODE_LINEAR)
       STATUS_GCODE_G53_INVALID_MOTION_MODE (Inr ps)"

text \<open>The whole item: the number of the coordinate system G10 changes, and the block.\<close>

definition check_non_modal :: "f32 list \<Rightarrow> parse_t \<Rightarrow> machine \<Rightarrow> ((u8 + (u8 \<times> parse_t)) \<times> machine) option" where
  "check_non_modal block_coord_system ps m =
     (let no_select = map_sum id (Pair (0 :: u8)) in
      if ps_non_modal ps = NON_MODAL_SET_COORDINATE_DATA then check_g10 ps m
      else if ps_non_modal ps = NON_MODAL_SET_COORDINATE_OFFSET then
        Some (no_select (check_g92 block_coord_system (gc_state m) ps), m)
      else
        let ps = compute_target block_coord_system (gc_state m) ps in
        if ps_non_modal ps = NON_MODAL_GO_HOME_0 then
          map_option (map_prod no_select id) (check_go_home (of_nat SETTING_INDEX_G28) ps m)
        else if ps_non_modal ps = NON_MODAL_GO_HOME_1 then
          map_option (map_prod no_select id) (check_go_home (of_nat SETTING_INDEX_G30) ps m)
        else if ps_non_modal ps = NON_MODAL_ABSOLUTE_OVERRIDE then Some (no_select (check_g53 ps), m)
        else Some (Inr (0, ps), m))"

section \<open>Item 20: the motion modes\<close>

definition exceeds :: "f32 \<Rightarrow> f64 \<Rightarrow> bool" where
  "exceeds x d = f64_lt d (dbl x)"

text \<open>The centre of an arc given by its radius.\<close>

definition arc_by_radius :: "nat \<Rightarrow> nat \<Rightarrow> f32 \<Rightarrow> f32 \<Rightarrow> parser_state_t \<Rightarrow> parse_t \<Rightarrow> u8 + parse_t" where
  "arc_by_radius axis_0 axis_1 x y gs ps =
     (let ps = drop_words (int_bit WORD_R) ps in
      fail_if (gs_position gs = gv_xyz (ps_values ps)) STATUS_GCODE_INVALID_TARGET
     (let r = (if gm_units (ps_modal ps) = UNITS_MODE_INCHES then in_mm (gv_r (ps_values ps)) else gv_r (ps_values ps));
          h = flt (f64_sub (f64_sub (f64_mul (f64_mul (lit 4) (dbl r)) (dbl r)) (dbl (f32_mul x x))) (dbl (f32_mul y y)))
      in fail_if (f32_lt h 0) STATUS_GCODE_ARC_RADIUS_ERROR
        (let h = f32_div (f32_neg (f32_sqrt h)) (hypot_f x y);
             h = (if gm_motion (ps_modal ps) = MOTION_MODE_CCW_ARC then f32_neg h else h);
             neg = f32_lt r 0;
             h = (if neg then f32_neg h else h);
             r = (if neg then f32_neg r else r);
             ps = upd_values (\<lambda>v. v\<lparr>gv_r := r\<rparr>) ps;
             ps = upd_ijk (\<lambda>ijk. ijk[axis_0 := f32_times_lit (1 / 2) (f32_sub x (f32_mul y h))]) ps
         in Inr (upd_ijk (\<lambda>ijk. ijk[axis_1 := f32_times_lit (1 / 2) (f32_add y (f32_mul x h))]) ps))))"

text \<open>An arc given by the offset of its centre: the radius, and how far the target may be off it.\<close>

definition arc_by_offset :: "nat \<Rightarrow> nat \<Rightarrow> f32 \<Rightarrow> f32 \<Rightarrow> parse_t \<Rightarrow> u8 + parse_t" where
  "arc_by_offset axis_0 axis_1 x y ps =
     fail_if (ps_ijk_words ps AND (push_bit axis_0 1 OR push_bit axis_1 1) = 0) STATUS_GCODE_NO_OFFSETS_IN_PLANE
     (let ps = drop_words (int_bit WORD_I OR int_bit WORD_J OR int_bit WORD_K) ps;
          ps = (if gm_units (ps_modal ps) = UNITS_MODE_INCHES
                then upd_ijk (map_axes (has_axis (ps_ijk_words ps)) (\<lambda>_. in_mm)) ps else ps);
          ijk = gv_ijk (ps_values ps);
          target_r = hypot_f (f32_sub x (ijk ! axis_0)) (f32_sub y (ijk ! axis_1));
          r = hypot_f (ijk ! axis_0) (ijk ! axis_1);
          delta_r = f32_enc (fpd_abs (f32_dec (f32_sub target_r r)))
      in fail_if (exceeds delta_r (lit (5 / 1000)) \<and>
                  (exceeds delta_r (lit (1 / 2)) \<or> exceeds delta_r (f64_mul (lit (1 / 1000)) (dbl r))))
           STATUS_GCODE_INVALID_TARGET
           (Inr (upd_values (\<lambda>v. v\<lparr>gv_r := r\<rparr>) ps)))"

definition check_arc :: "parser_state_t \<Rightarrow> parse_t \<Rightarrow> u8 + parse_t" where
  "check_arc gs ps =
     (let (axis_0, axis_1, _) = plane_axes ps;
          ps = (if gm_motion (ps_modal ps) = MOTION_MODE_CW_ARC
                then ps\<lparr>ps_flags := ps_flags ps OR GC_PARSER_ARC_IS_CLOCKWISE\<rparr> else ps)
      in fail_if (ps_axis_words ps = 0) STATUS_GCODE_NO_AXIS_WORDS
        (fail_if (ps_axis_words ps AND (push_bit axis_0 1 OR push_bit axis_1 1) = 0) STATUS_GCODE_NO_AXIS_WORDS_IN_PLANE
        (let x = f32_sub (gv_xyz (ps_values ps) ! axis_0) (gs_position gs ! axis_0);
             y = f32_sub (gv_xyz (ps_values ps) ! axis_1) (gs_position gs ! axis_1)
         in if word_seen (ps_value_words ps) (int_bit WORD_R) then arc_by_radius axis_0 axis_1 x y gs ps
            else arc_by_offset axis_0 axis_1 x y ps)))"

definition check_probe :: "parser_state_t \<Rightarrow> parse_t \<Rightarrow> u8 + parse_t" where
  "check_probe gs ps =
     (let motion = gm_motion (ps_modal ps);
          ps = (if motion \<in> {MOTION_MODE_PROBE_TOWARD_NO_ERROR, MOTION_MODE_PROBE_AWAY_NO_ERROR}
                then ps\<lparr>ps_flags := ps_flags ps OR GC_PARSER_PROBE_IS_NO_ERROR\<rparr> else ps);
          ps = (if motion \<in> {MOTION_MODE_PROBE_AWAY, MOTION_MODE_PROBE_AWAY_NO_ERROR}
                then ps\<lparr>ps_flags := ps_flags ps OR GC_PARSER_PROBE_IS_AWAY\<rparr> else ps)
      in fail_if (ps_axis_words ps = 0) STATUS_GCODE_NO_AXIS_WORDS
        (fail_if (gs_position gs = gv_xyz (ps_values ps)) STATUS_GCODE_INVALID_TARGET (Inr ps)))"

definition check_motion :: "parser_state_t \<Rightarrow> parse_t \<Rightarrow> u8 + parse_t" where
  "check_motion gs ps =
     (let motion = gm_motion (ps_modal ps);
          no_motion = (if ps_axis_words ps = 0 then ps\<lparr>ps_axis_command := AXIS_COMMAND_NONE\<rparr> else ps)
      in if motion = MOTION_MODE_NONE then fail_if (ps_axis_words ps \<noteq> 0) STATUS_GCODE_AXIS_WORDS_EXIST (Inr ps)
      else if ps_axis_command ps = AXIS_COMMAND_MOTION_MODE then
        (if motion = MOTION_MODE_SEEK then Inr no_motion
         else fail_if (f32_eq (gv_f (ps_values ps)) 0) STATUS_GCODE_UNDEFINED_FEED_RATE
           (if motion = MOTION_MODE_LINEAR then Inr no_motion
            else if motion \<in> {MOTION_MODE_CW_ARC, MOTION_MODE_CCW_ARC} then check_arc gs ps
            else if motion \<in> {MOTION_MODE_PROBE_TOWARD_NO_ERROR, MOTION_MODE_PROBE_AWAY_NO_ERROR,
                              MOTION_MODE_PROBE_TOWARD, MOTION_MODE_PROBE_AWAY} then check_probe gs ps
            else Inr ps))
      else Inr ps)"

section \<open>Unused words\<close>

definition axis_value_words :: i32 where
  "axis_value_words = int_bit WORD_X OR int_bit WORD_Y OR int_bit WORD_Z OR int_bit WORD_A OR int_bit WORD_B
     OR int_bit WORD_C OR int_bit WORD_D OR int_bit WORD_E"

definition check_unused :: "parse_t \<Rightarrow> u8 + parse_t" where
  "check_unused ps =
     (let ps = drop_words (if is_jog ps then int_bit WORD_N OR int_bit WORD_F
                           else int_bit WORD_N OR int_bit WORD_F OR int_bit WORD_S OR int_bit WORD_T) ps;
          ps = (if ps_axis_command ps \<noteq> 0 then drop_words axis_value_words ps else ps)
      in fail_if (ps_value_words ps \<noteq> 0) STATUS_GCODE_UNUSED_WORDS (Inr ps))"

section \<open>All the checks\<close>

text \<open>The coordinate system of the block, the one G10 changes, and the block, ready to execute.\<close>

definition check_block :: "parse_t \<Rightarrow> machine \<Rightarrow> ((u8 + (f32 list \<times> u8 \<times> parse_t)) \<times> machine) option" where
  "check_block ps m =
     (case check_words (gc_state m) ps of
        Inl code \<Rightarrow> Some (Inl code, m)
      | Inr ps \<Rightarrow>
        (case check_coord_system ps m of
           None \<Rightarrow> None
         | Some (Inl code, m) \<Rightarrow> Some (Inl code, m)
         | Some (Inr block_coord_system, m) \<Rightarrow>
           (case check_non_modal block_coord_system ps m of
              None \<Rightarrow> None
            | Some (Inl code, m) \<Rightarrow> Some (Inl code, m)
            | Some (Inr (coord_select, ps), m) \<Rightarrow>
                Some (bindE (check_motion (gc_state m) ps) (\<lambda>ps.
                      map_sum id (\<lambda>ps. (block_coord_system, coord_select, ps)) (check_unused ps)), m))))"

end
