(* ===== verification/Gcode_Exec.thy ===== *)
theory Gcode_Exec
  imports Gcode_Check
begin

text \<open>
  The fourth step of \<^verbatim>\<open>gc_execute_line\<close>: the execution of a checked block, item by item in the
  order of the source, and the whole of \<^verbatim>\<open>gc_execute_line\<close> and \<^verbatim>\<open>gc_init\<close>. The planner data
  \<open>pld\<close> of the block is filled on the way.
\<close>

section \<open>Helpers\<close>

definition upd_gc :: "(parser_state_t \<Rightarrow> parser_state_t) \<Rightarrow> machine \<Rightarrow> machine" where
  "upd_gc f m = m\<lparr>gc_state := f (gc_state m)\<rparr>"

definition upd_gc_modal :: "(gc_modal_t \<Rightarrow> gc_modal_t) \<Rightarrow> machine \<Rightarrow> machine" where
  "upd_gc_modal f = upd_gc (\<lambda>gs. gs\<lparr>gs_modal := f (gs_modal gs)\<rparr>)"

abbreviation gc_modal :: "machine \<Rightarrow> gc_modal_t" where
  "gc_modal m \<equiv> gs_modal (gc_state m)"

definition add_condition :: "u8 \<Rightarrow> plan_line_data_t \<Rightarrow> plan_line_data_t" where
  "add_condition k pld = pld\<lparr>pld_condition := pld_condition pld OR k\<rparr>"

definition set_coord_system :: "f32 list \<Rightarrow> machine \<Rightarrow> machine" where
  "set_coord_system data = upd_gc (\<lambda>gs. gs\<lparr>gs_coord_system := data\<rparr>)"

section \<open>\<^verbatim>\<open>gc_init\<close>\<close>

definition gc_init :: "machine \<Rightarrow> machine option" where
  "gc_init m =
     (let m = m\<lparr>gc_state := parser_state0\<rparr> in
      map_option (\<lambda>(ok, _, m). if ok then m else report (Status_message STATUS_SETTING_READ_FAIL CLIENT_ALL) m)
        (settings_read_coord_data_into set_coord_system (gm_coord_select (gs_modal (gc_state m))) m))"

section \<open>Jogging\<close>

text \<open>Only distance, units and the absolute override are allowed beside the motion.\<close>

definition jog_groups :: i32 where
  "jog_groups = int_bit MODAL_GROUP_G3 OR int_bit MODAL_GROUP_G6 OR int_bit MODAL_GROUP_G0"

definition exec_jog :: "parse_t \<Rightarrow> machine \<Rightarrow> (u8 \<times> machine) option" where
  "exec_jog ps m =
     (if word_seen (ps_command_words ps) (NOT jog_groups) then Some (STATUS_INVALID_JOG_COMMAND, m)
      else if ps_non_modal ps \<noteq> NON_MODAL_ABSOLUTE_OVERRIDE \<and> ps_non_modal ps \<noteq> NON_MODAL_NO_ACTION
      then Some (STATUS_INVALID_JOG_COMMAND, m)
      else
        let pld = plan_line_data0\<lparr>pld_spindle_speed := gs_spindle_speed (gc_state m),
                   pld_condition := gm_spindle (gc_modal m) OR gm_coolant (gc_modal m)\<rparr>
        in map_option (\<lambda>(status, m).
               (status, if status = STATUS_OK then set_gc_position (gv_xyz (ps_values ps)) m else m))
             (jog_execute pld (ps_values ps) m))"

section \<open>Laser mode\<close>

definition is_cut :: "u8 \<Rightarrow> bool" where
  "is_cut motion \<longleftrightarrow> motion = MOTION_MODE_LINEAR \<or> motion = MOTION_MODE_CW_ARC \<or> motion = MOTION_MODE_CCW_ARC"

definition laser_flags :: "gc_modal_t \<Rightarrow> parse_t \<Rightarrow> parse_t" where
  "laser_flags old ps =
     (let set_flag = (\<lambda>k ps. ps\<lparr>ps_flags := ps_flags ps OR k\<rparr>);
          ps = (if \<not> is_cut (gm_motion (ps_modal ps)) then set_flag GC_PARSER_LASER_DISABLE ps else ps);
          disabled = bit_istrue (ps_flags ps) GC_PARSER_LASER_DISABLE
      in if ps_axis_words ps \<noteq> 0 \<and> ps_axis_command ps = AXIS_COMMAND_MOTION_MODE
         then set_flag GC_PARSER_LASER_ISMOTION ps
         else if gm_spindle old = SPINDLE_ENABLE_CW \<and> (if is_cut (gm_motion old) then disabled else \<not> disabled)
         then set_flag GC_PARSER_LASER_FORCE_SYNC ps
         else ps)"

section \<open>Items 0 to 10\<close>

definition exec_feed_rate :: "parse_t \<Rightarrow> plan_line_data_t \<Rightarrow> machine \<Rightarrow> plan_line_data_t \<times> machine" where
  "exec_feed_rate ps pld m =
     (let m = upd_gc (\<lambda>gs. gs\<lparr>gs_line_number := gv_n (ps_values ps)\<rparr>) m;
          m = upd_gc_modal (\<lambda>k. k\<lparr>gm_feed_rate := gm_feed_rate (ps_modal ps)\<rparr>) m;
          pld = (if gm_feed_rate (gc_modal m) \<noteq> 0 then add_condition PL_COND_FLAG_INVERSE_TIME pld else pld);
          m = upd_gc (\<lambda>gs. gs\<lparr>gs_feed_rate := gv_f (ps_values ps)\<rparr>) m
      in (pld\<lparr>pld_feed_rate := gs_feed_rate (gc_state m)\<rparr>, m))"

definition exec_spindle_speed :: "parse_t \<Rightarrow> machine \<Rightarrow> machine option" where
  "exec_spindle_speed ps m =
     (let s = gv_s (ps_values ps) in
      if \<not> f32_eq (gs_spindle_speed (gc_state m)) s \<or> bit_istrue (ps_flags ps) GC_PARSER_LASER_FORCE_SYNC then
        map_option (upd_gc (\<lambda>gs. gs\<lparr>gs_spindle_speed := s\<rparr>))
          (if gm_spindle (gc_modal m) \<noteq> SPINDLE_DISABLE \<and> bit_isfalse (ps_flags ps) GC_PARSER_LASER_ISMOTION
           then spindle_sync (gm_spindle (gc_modal m))
                  (if bit_istrue (ps_flags ps) GC_PARSER_LASER_DISABLE then 0 else s) m
           else Some m)
      else Some m)"

definition line_spindle_speed :: "parse_t \<Rightarrow> plan_line_data_t \<Rightarrow> machine \<Rightarrow> plan_line_data_t" where
  "line_spindle_speed ps pld m =
     (if bit_isfalse (ps_flags ps) GC_PARSER_LASER_DISABLE
      then pld\<lparr>pld_spindle_speed := gs_spindle_speed (gc_state m)\<rparr> else pld)"

definition exec_tool :: "parse_t \<Rightarrow> machine \<Rightarrow> machine" where
  "exec_tool ps = upd_gc (\<lambda>gs. gs\<lparr>gs_tool := gv_t (ps_values ps)\<rparr>)"

definition exec_spindle :: "parse_t \<Rightarrow> plan_line_data_t \<Rightarrow> machine \<Rightarrow> machine option" where
  "exec_spindle ps pld m =
     (let spindle = gm_spindle (ps_modal ps) in
      if gm_spindle (gc_modal m) \<noteq> spindle then
        map_option (upd_gc_modal (\<lambda>k. k\<lparr>gm_spindle := spindle\<rparr>)) (spindle_sync spindle (pld_spindle_speed pld) m)
      else Some m)"

definition exec_coolant :: "parse_t \<Rightarrow> machine \<Rightarrow> machine option" where
  "exec_coolant ps m =
     (let coolant = gm_coolant (ps_modal ps) in
      if gm_coolant (gc_modal m) \<noteq> coolant then
        map_option (upd_gc_modal (\<lambda>k. k\<lparr>gm_coolant := coolant\<rparr>)) (coolant_sync coolant m)
      else Some m)"

definition exec_dwell :: "parse_t \<Rightarrow> machine \<Rightarrow> machine option" where
  "exec_dwell ps m =
     (if ps_non_modal ps = NON_MODAL_DWELL then mc_dwell (gv_p (ps_values ps)) m else Some m)"

section \<open>Items 11 to 19\<close>

definition exec_plane_units :: "parse_t \<Rightarrow> machine \<Rightarrow> machine" where
  "exec_plane_units ps =
     upd_gc_modal (\<lambda>k. k\<lparr>gm_plane_select := gm_plane_select (ps_modal ps), gm_units := gm_units (ps_modal ps)\<rparr>)"

text \<open>The target of a block with a tool length command is only the offset, which G49 zeroes.\<close>

definition tool_length_xyz :: "parse_t \<Rightarrow> parse_t" where
  "tool_length_xyz ps =
     (if ps_axis_command ps = AXIS_COMMAND_TOOL_LENGTH_OFFSET \<and> gm_tool_length (ps_modal ps) = TOOL_LENGTH_OFFSET_CANCEL
      then upd_xyz (\<lambda>xyz. xyz[TOOL_LENGTH_OFFSET_AXIS := 0]) ps else ps)"

definition exec_tool_length :: "parse_t \<Rightarrow> machine \<Rightarrow> machine option" where
  "exec_tool_length ps m =
     (if ps_axis_command ps = AXIS_COMMAND_TOOL_LENGTH_OFFSET then
        let m = upd_gc_modal (\<lambda>k. k\<lparr>gm_tool_length := gm_tool_length (ps_modal ps)\<rparr>) m;
            offset = gv_xyz (ps_values ps) ! TOOL_LENGTH_OFFSET_AXIS
        in if \<not> f32_eq (gs_tool_length_offset (gc_state m)) offset
           then system_flag_wco_change (upd_gc (\<lambda>gs. gs\<lparr>gs_tool_length_offset := offset\<rparr>) m)
           else Some m
      else Some m)"

definition exec_coord_select :: "f32 list \<Rightarrow> parse_t \<Rightarrow> machine \<Rightarrow> machine option" where
  "exec_coord_select block_coord_system ps m =
     (let select = gm_coord_select (ps_modal ps) in
      if gm_coord_select (gc_modal m) \<noteq> select then
        system_flag_wco_change (set_coord_system block_coord_system (upd_gc_modal (\<lambda>k. k\<lparr>gm_coord_select := select\<rparr>) m))
      else Some m)"

definition exec_distance :: "parse_t \<Rightarrow> machine \<Rightarrow> machine" where
  "exec_distance ps = upd_gc_modal (\<lambda>k. k\<lparr>gm_distance := gm_distance (ps_modal ps)\<rparr>)"

definition exec_set_coordinate_data :: "u8 \<Rightarrow> parse_t \<Rightarrow> machine \<Rightarrow> machine option" where
  "exec_set_coordinate_data coord_select ps m =
     (let data = gv_ijk (ps_values ps) in
      case settings_write_coord_data coord_select data m of None \<Rightarrow> None
      | Some m \<Rightarrow> if gm_coord_select (gc_modal m) = coord_select
                  then system_flag_wco_change (set_coord_system data m) else Some m)"

definition exec_go_home :: "parse_t \<Rightarrow> plan_line_data_t \<Rightarrow> machine \<Rightarrow> machine option" where
  "exec_go_home ps pld m =
     (let pld = add_condition PL_COND_FLAG_RAPID_MOTION pld; home = gv_ijk (ps_values ps) in
      case (if ps_axis_command ps \<noteq> 0 then mc_line (gv_xyz (ps_values ps)) pld m else Some m) of None \<Rightarrow> None
      | Some m \<Rightarrow> map_option (set_gc_position home) (mc_line home pld m))"

definition exec_set_offset :: "f32 list \<Rightarrow> machine \<Rightarrow> machine option" where
  "exec_set_offset offset m = system_flag_wco_change (upd_gc (\<lambda>gs. gs\<lparr>gs_coord_offset := offset\<rparr>) m)"

text \<open>The planner data after the item: a move home marks the line as a rapid motion.\<close>

definition line_non_modal :: "parse_t \<Rightarrow> plan_line_data_t \<Rightarrow> plan_line_data_t" where
  "line_non_modal ps pld =
     (if ps_non_modal ps \<in> {NON_MODAL_GO_HOME_0, NON_MODAL_GO_HOME_1} then add_condition PL_COND_FLAG_RAPID_MOTION pld else pld)"

definition exec_non_modal :: "u8 \<Rightarrow> parse_t \<Rightarrow> plan_line_data_t \<Rightarrow> machine \<Rightarrow> machine option" where
  "exec_non_modal coord_select ps pld m =
     (let cmd = ps_non_modal ps in
      if cmd = NON_MODAL_SET_COORDINATE_DATA then exec_set_coordinate_data coord_select ps m
      else if cmd = NON_MODAL_GO_HOME_0 \<or> cmd = NON_MODAL_GO_HOME_1 then exec_go_home ps pld m
      else if cmd = NON_MODAL_SET_HOME_0 then
        settings_write_coord_data (of_nat SETTING_INDEX_G28) (gs_position (gc_state m)) m
      else if cmd = NON_MODAL_SET_HOME_1 then
        settings_write_coord_data (of_nat SETTING_INDEX_G30) (gs_position (gc_state m)) m
      else if cmd = NON_MODAL_SET_COORDINATE_OFFSET then exec_set_offset (gv_xyz (ps_values ps)) m
      else if cmd = NON_MODAL_RESET_COORDINATE_OFFSET then exec_set_offset (replicate N_AXIS 0) m
      else Some m)"

section \<open>Item 20: motion\<close>

text \<open>The motion itself, and where the parser's position is to be taken from.\<close>

definition run_motion :: "libm \<Rightarrow> parse_t \<Rightarrow> plan_line_data_t \<Rightarrow> machine \<Rightarrow> (u8 \<times> machine) option" where
  "run_motion lm ps pld m =
     (let motion = gm_motion (ps_modal ps); v = ps_values ps; (axis_0, axis_1, axis_linear) = plane_axes ps in
      if motion = MOTION_MODE_LINEAR then map_option (Pair GC_UPDATE_POS_TARGET) (mc_line (gv_xyz v) pld m)
      else if motion = MOTION_MODE_SEEK then
        map_option (Pair GC_UPDATE_POS_TARGET) (mc_line (gv_xyz v) (add_condition PL_COND_FLAG_RAPID_MOTION pld) m)
      else if motion = MOTION_MODE_CW_ARC \<or> motion = MOTION_MODE_CCW_ARC then
        map_option (Pair GC_UPDATE_POS_TARGET)
          (mc_arc lm (gv_xyz v) pld (gv_ijk v) (gv_r v) axis_0 axis_1 axis_linear
             (bit_istrue (ps_flags ps) GC_PARSER_ARC_IS_CLOCKWISE) m)
      else mc_probe_cycle (gv_xyz v) (add_condition PL_COND_FLAG_NO_FEED_OVERRIDE pld) (ps_flags ps) m)"

definition exec_motion :: "libm \<Rightarrow> parse_t \<Rightarrow> plan_line_data_t \<Rightarrow> machine \<Rightarrow> machine option" where
  "exec_motion lm ps pld m =
     (let m = upd_gc_modal (\<lambda>k. k\<lparr>gm_motion := gm_motion (ps_modal ps)\<rparr>) m in
      if gm_motion (gc_modal m) \<noteq> MOTION_MODE_NONE \<and> ps_axis_command ps = AXIS_COMMAND_MOTION_MODE then
        map_option (\<lambda>(update_pos, m).
            if update_pos = GC_UPDATE_POS_TARGET then set_gc_position (gv_xyz (ps_values ps)) m
            else if update_pos = GC_UPDATE_POS_SYSTEM then gc_sync_position m else m)
          (run_motion lm ps pld m)
      else Some m)"

section \<open>Item 21: program flow\<close>

definition reset_modes :: "gc_modal_t \<Rightarrow> gc_modal_t" where
  "reset_modes k = k\<lparr>gm_motion := MOTION_MODE_LINEAR, gm_plane_select := PLANE_SELECT_XY,
     gm_distance := DISTANCE_MODE_ABSOLUTE, gm_feed_rate := FEED_RATE_MODE_UNITS_PER_MIN, gm_coord_select := 0,
     gm_spindle := SPINDLE_DISABLE, gm_coolant := COOLANT_DISABLE\<rparr>"

definition restore_overrides :: "machine \<Rightarrow> machine" where
  "restore_overrides = upd_sys (\<lambda>s. s\<lparr>sys_f_override := DEFAULT_FEED_OVERRIDE, sys_r_override := DEFAULT_RAPID_OVERRIDE,
     sys_spindle_speed_ovr := DEFAULT_SPINDLE_SPEED_OVERRIDE\<rparr>)"

text \<open>The end of a program. A coordinate system that cannot be read leaves early.\<close>

definition program_end :: "machine \<Rightarrow> (bool \<times> machine) option" where
  "program_end m =
     (let m = restore_overrides (upd_gc_modal reset_modes m) in
      if sys_state (sys m) = STATE_CHECK_MODE then Some (True, report (Feedback_message MESSAGE_PROGRAM_END) m)
      else case settings_read_coord_data_into set_coord_system (gm_coord_select (gc_modal m)) m of None \<Rightarrow> None
      | Some (ok, _, m) \<Rightarrow>
          if \<not> ok then Some (False, m)
          else map_option (\<lambda>m. (True, report (Feedback_message MESSAGE_PROGRAM_END)
                     (coolant_set_state COOLANT_DISABLE (spindle_set_state SPINDLE_DISABLE 0 m))))
                 (system_flag_wco_change m))"

definition program_pause :: "machine \<Rightarrow> machine option" where
  "program_pause m =
     (if sys_state (sys m) \<noteq> STATE_CHECK_MODE
      then protocol_execute_realtime (system_set_exec_state_flag EXEC_FEED_HOLD m) else Some m)"

definition exec_program_flow :: "parse_t \<Rightarrow> machine \<Rightarrow> (u8 \<times> machine) option" where
  "exec_program_flow ps m =
     (let flow = gm_program_flow (ps_modal ps);
          m = upd_gc_modal (\<lambda>k. k\<lparr>gm_program_flow := flow\<rparr>) m;
          running = upd_gc_modal (\<lambda>k. k\<lparr>gm_program_flow := PROGRAM_FLOW_RUNNING\<rparr>)
      in if flow = 0 then Some (STATUS_OK, m)
      else case protocol_buffer_synchronize m of None \<Rightarrow> None
      | Some m \<Rightarrow>
          if flow = PROGRAM_FLOW_PAUSED then map_option (\<lambda>m. (STATUS_OK, running m)) (program_pause m)
          else map_option (\<lambda>(ok, m). if ok then (STATUS_OK, running m) else (STATUS_SETTING_READ_FAIL, m)) (program_end m))"

section \<open>Executing a block\<close>

text \<open>Everything up to the motion, with the planner data for it.\<close>

definition exec_accessories :: "parse_t \<Rightarrow> machine \<Rightarrow> (plan_line_data_t \<times> machine) option" where
  "exec_accessories ps m =
     (let (pld, m) = exec_feed_rate ps plan_line_data0 m in
      do {
        m \<leftarrow> exec_spindle_speed ps m;
        let pld = line_spindle_speed ps pld m;
        m \<leftarrow> exec_spindle ps pld (exec_tool ps m);
        let pld = add_condition (gm_spindle (gc_modal m)) pld;
        m \<leftarrow> exec_coolant ps m;
        Some (add_condition (gm_coolant (gc_modal m)) pld, m)
      })"

definition execute_block :: "libm \<Rightarrow> f32 list \<Rightarrow> u8 \<Rightarrow> parse_t \<Rightarrow> machine \<Rightarrow> (u8 \<times> machine) option" where
  "execute_block lm block_coord_system coord_select ps m =
     (let ps = (if bit_istrue (flags (settings m)) BITFLAG_LASER_MODE then laser_flags (gc_modal m) ps else ps) in
      do {
        (pld, m) \<leftarrow> exec_accessories ps m;
        m \<leftarrow> exec_dwell ps m;
        let ps = tool_length_xyz ps;
        m \<leftarrow> exec_tool_length ps (exec_plane_units ps m);
        m \<leftarrow> exec_coord_select block_coord_system ps m;
        m \<leftarrow> exec_non_modal coord_select ps pld (exec_distance ps m);
        m \<leftarrow> exec_motion lm ps (line_non_modal ps pld) m;
        exec_program_flow ps m
      })"

section \<open>A line of g-code\<close>

definition gc_execute_line :: "libm \<Rightarrow> line \<Rightarrow> machine \<Rightarrow> (u8 \<times> machine) option" where
  "gc_execute_line lm line m =
     (case parse_line line (gc_state m) of
        None \<Rightarrow> None
      | Some (Inl code) \<Rightarrow> Some (code, m)
      | Some (Inr ps) \<Rightarrow>
        (case check_block ps m of
           None \<Rightarrow> None
         | Some (Inl code, m) \<Rightarrow> Some (code, m)
         | Some (Inr (block_coord_system, coord_select, ps), m) \<Rightarrow>
             if is_jog ps then exec_jog ps m else execute_block lm block_coord_system coord_select ps m))"

end
