(* ===== verification/System_Exec.thy ===== *)
theory System_Exec
  imports Gcode_Exec
begin

text \<open>
  \<^verbatim>\<open>system_execute_line\<close> and \<^verbatim>\<open>system_execute_startup\<close> of \<^verbatim>\<open>system.cpp\<close>: the \<^verbatim>\<open>$\<close> commands. The
  line buffer is shared with the main loop and is rewritten by several commands, so it is returned
  with the machine.
\<close>

section \<open>Reports that read the store (report.cpp)\<close>

text \<open>The coordinate systems are read before anything is sent; one that cannot be read ends the
  report with an error.\<close>

primrec read_all_coord_data :: "nat list \<Rightarrow> machine \<Rightarrow> (bool \<times> machine) option" where
  "read_all_coord_data [] m = Some (True, m)"
| "read_all_coord_data (sel # rest) m =
     (case settings_read_coord_data (of_nat sel) m of None \<Rightarrow> None
      | Some (ok, _, m) \<Rightarrow> if ok then read_all_coord_data rest m else Some (False, m))"

definition report_ngc_parameters :: "u8 \<Rightarrow> machine \<Rightarrow> machine option" where
  "report_ngc_parameters client m =
     map_option (\<lambda>(ok, m).
         if ok then report (Probe_parameters client) (report (Ngc_parameters client) m)
         else report (Status_message STATUS_SETTING_READ_FAIL client) m)
       (read_all_coord_data [0..<SETTING_INDEX_NCOORD + 1] m)"

section \<open>The startup lines\<close>

definition run_startup_line :: "libm \<Rightarrow> u8 \<Rightarrow> line \<Rightarrow> machine \<Rightarrow> (line \<times> machine) option" where
  "run_startup_line lm n line m =
     (case settings_read_startup_line n m of None \<Rightarrow> None
      | Some (ok, line, m) \<Rightarrow>
          if \<not> ok then Some (line[0 := 0], report (Execute_startup_message (line[0 := 0]) STATUS_SETTING_READ_FAIL CLIENT_SERIAL) m)
          else if char_at line 0 \<noteq> 0 then
            map_option (\<lambda>(status_code, m). (line, report (Execute_startup_message line status_code CLIENT_SERIAL) m))
              (gc_execute_line lm line m)
          else Some (line, m))"

primrec startup_loop :: "libm \<Rightarrow> nat list \<Rightarrow> line \<Rightarrow> machine \<Rightarrow> (line \<times> machine) option" where
  "startup_loop lm [] line m = Some (line, m)"
| "startup_loop lm (n # rest) line m =
     (case run_startup_line lm (of_nat n) line m of None \<Rightarrow> None
      | Some (line, m) \<Rightarrow> startup_loop lm rest line m)"

definition system_execute_startup :: "libm \<Rightarrow> line \<Rightarrow> machine \<Rightarrow> (line \<times> machine) option" where
  "system_execute_startup lm line m = startup_loop lm [0..<N_STARTUP_LINE] line m"

section \<open>The commands\<close>

type_synonym command = "line \<Rightarrow> machine \<Rightarrow> (u8 \<times> line \<times> machine) option"

definition done_with :: "u8 \<Rightarrow> line \<Rightarrow> machine \<Rightarrow> (u8 \<times> line \<times> machine) option" where
  "done_with code line m = Some (code, line, m)"

text \<open>Moving the characters after an \<^verbatim>\<open>=\<close> to the start of the line, terminator included.\<close>

function shift_loop :: "line \<Rightarrow> nat \<Rightarrow> nat \<Rightarrow> line" where
  "shift_loop line src dst =
     (let c = char_at line src; line' = line[dst := c]
      in if c \<noteq> 0 then shift_loop line' (src + 1) (dst + 1) else line')"
  by pat_completeness auto
termination
  by (relation "measure (\<lambda>(line, src, dst). length line - src)") (auto simp: char_at_def split: if_splits)

declare shift_loop.simps [simp del]

definition shift_line :: "nat \<Rightarrow> line \<Rightarrow> line" where
  "shift_line start line = shift_loop line start 0"

definition cmd_check_mode :: command where
  "cmd_check_mode line m =
     (if sys_state (sys m) = STATE_CHECK_MODE then
        done_with STATUS_OK line (report (Feedback_message MESSAGE_DISABLED) (mc_reset m))
      else if sys_state (sys m) \<noteq> 0 then done_with STATUS_IDLE_ERROR line m
      else done_with STATUS_OK line (report (Feedback_message MESSAGE_ENABLED) (set_state STATE_CHECK_MODE m)))"

definition cmd_unlock :: command where
  "cmd_unlock line m =
     (if sys_state (sys m) = STATE_ALARM then
        (if system_check_safety_door_ajar m then done_with STATUS_CHECK_DOOR line m
         else done_with STATUS_OK line (set_state STATE_IDLE (report (Feedback_message MESSAGE_ALARM_UNLOCK) m)))
      else done_with STATUS_OK line m)"

definition cmd_settings :: "u8 \<Rightarrow> command" where
  "cmd_settings client line m =
     (if sys_state (sys m) AND (STATE_CYCLE OR STATE_HOLD) \<noteq> 0 then done_with STATUS_IDLE_ERROR line m
      else done_with STATUS_OK line (report (Grbl_settings client) m))"

text \<open>\<^verbatim>\<open>$H\<close>. A junk character after it leaves the state at homing.\<close>

definition cmd_home :: "libm \<Rightarrow> command" where
  "cmd_home lm line m =
     (if bit_isfalse (flags (settings m)) BITFLAG_HOMING_ENABLE then done_with STATUS_SETTING_DISABLED line m
      else if system_check_safety_door_ajar m then done_with STATUS_CHECK_DOOR line m
      else
        let m = set_state STATE_HOMING m in
        if char_at line 2 \<noteq> 0 then done_with STATUS_INVALID_STATEMENT line m
        else case mc_homing_cycle m of None \<Rightarrow> None
        | Some m \<Rightarrow>
            if sys_abort (sys m) then done_with STATUS_OK line m
            else map_option (\<lambda>(line, m). (STATUS_OK, line, m))
                   (system_execute_startup lm line (st_go_idle (set_state STATE_IDLE m))))"

definition cmd_sleep :: command where
  "cmd_sleep line m =
     (if char_at line 2 \<noteq> ch CHR ''L'' \<or> char_at line 3 \<noteq> ch CHR ''P'' \<or> char_at line 4 \<noteq> 0
      then done_with STATUS_INVALID_STATEMENT line m
      else done_with STATUS_OK line (system_set_exec_state_flag EXEC_SLEEP m))"

definition cmd_build_info :: "u8 \<Rightarrow> command" where
  "cmd_build_info client line m =
     (if char_at line 2 = 0 then
        let (_, line, m) = settings_read_build_info m in done_with STATUS_OK line (report (Build_info line client) m)
      else if char_at line 2 \<noteq> ch CHR ''='' then done_with STATUS_INVALID_STATEMENT line m
      else let line = shift_line 3 line in done_with STATUS_OK line (settings_store_build_info line m))"

definition restore_flag_of :: "u8 \<Rightarrow> u8 option" where
  "restore_flag_of c =
     (if c = ch CHR ''$'' then Some SETTINGS_RESTORE_DEFAULTS
      else if c = ch CHR ''#'' then Some SETTINGS_RESTORE_PARAMETERS
      else if c = ch CHR ''*'' then Some SETTINGS_RESTORE_ALL else None)"

definition cmd_restore :: command where
  "cmd_restore line m =
     (if char_at line 2 \<noteq> ch CHR ''S'' \<or> char_at line 3 \<noteq> ch CHR ''T'' \<or> char_at line 4 \<noteq> ch CHR ''='' \<or> char_at line 6 \<noteq> 0
      then done_with STATUS_INVALID_STATEMENT line m
      else case restore_flag_of (char_at line 5) of
        None \<Rightarrow> done_with STATUS_INVALID_STATEMENT line m
      | Some restore_flag \<Rightarrow>
          map_option (\<lambda>m. (STATUS_OK, line, mc_reset (report (Feedback_message MESSAGE_RESTORE_DEFAULTS) m)))
            (settings_restore restore_flag m))"

primrec print_startup_lines :: "nat list \<Rightarrow> line \<Rightarrow> machine \<Rightarrow> (line \<times> machine) option" where
  "print_startup_lines [] line m = Some (line, m)"
| "print_startup_lines (n # rest) line m =
     (case settings_read_startup_line (of_nat n) m of None \<Rightarrow> None
      | Some (ok, line, m) \<Rightarrow>
          print_startup_lines rest line
            (report (if ok then Startup_line (of_nat n) line CLIENT_ALL
                     else Status_message STATUS_SETTING_READ_FAIL CLIENT_ALL) m))"

text \<open>\<^verbatim>\<open>$x=value\<close> and \<^verbatim>\<open>$Nx=line\<close>: the number, the equals sign, and the rest from \<open>pos\<close>.\<close>

definition cmd_store_startup :: "libm \<Rightarrow> f32 \<Rightarrow> nat \<Rightarrow> command" where
  "cmd_store_startup lm parameter pos line m =
     (let line = shift_line pos line in
      case gc_execute_line lm line m of None \<Rightarrow> None
      | Some (status, m) \<Rightarrow>
          if status \<noteq> 0 then done_with status line m
          else map_option (\<lambda>m. (STATUS_OK, line, m))
                 (settings_store_startup_line (to_u8 (fpd_trunc (f32_dec parameter))) line m))"

definition cmd_store_setting :: "f32 \<Rightarrow> nat \<Rightarrow> command" where
  "cmd_store_setting parameter pos line m =
     (case read_float line pos of
        None \<Rightarrow> done_with STATUS_BAD_NUMBER_FORMAT line m
      | Some (value, pos) \<Rightarrow>
          if char_at line pos \<noteq> 0 \<or> f32_lt (f32_of_int 255) parameter then done_with STATUS_INVALID_STATEMENT line m
          else map_option (\<lambda>(status, m). (status, line, m))
                 (settings_store_global_setting (to_u8 (fpd_trunc (f32_dec parameter))) value m))"

definition cmd_store :: "libm \<Rightarrow> bool \<Rightarrow> nat \<Rightarrow> command" where
  "cmd_store lm startup pos line m =
     (case read_float line pos of
        None \<Rightarrow> done_with STATUS_BAD_NUMBER_FORMAT line m
      | Some (parameter, pos) \<Rightarrow>
          if char_at line pos \<noteq> ch CHR ''='' then done_with STATUS_INVALID_STATEMENT line m
          else if startup then cmd_store_startup lm parameter (pos + 1) line m
          else cmd_store_setting parameter (pos + 1) line m)"

definition cmd_startup :: "libm \<Rightarrow> command" where
  "cmd_startup lm line m =
     (if char_at line 2 = 0 then
        map_option (\<lambda>(line, m). (STATUS_OK, line, m)) (print_startup_lines [0..<N_STARTUP_LINE] line m)
      else if sys_state (sys m) \<noteq> STATE_IDLE then done_with STATUS_IDLE_ERROR line m
      else cmd_store lm True 2 line m)"

text \<open>The commands that need an idle or alarmed machine.\<close>

definition system_idle_command :: "libm \<Rightarrow> u8 \<Rightarrow> command" where
  "system_idle_command lm client line m =
     (let c = char_at line 1 in
      if sys_state (sys m) \<noteq> STATE_IDLE \<and> sys_state (sys m) \<noteq> STATE_ALARM then done_with STATUS_IDLE_ERROR line m
      else if c = ch CHR ''#'' then
        (if char_at line 2 \<noteq> 0 then done_with STATUS_INVALID_STATEMENT line m
         else map_option (\<lambda>m. (STATUS_OK, line, m)) (report_ngc_parameters client m))
      else if c = ch CHR ''H'' then cmd_home lm line m
      else if c = ch CHR ''S'' then cmd_sleep line m
      else if c = ch CHR ''I'' then cmd_build_info client line m
      else if c = ch CHR ''R'' then cmd_restore line m
      else if c = ch CHR ''N'' then cmd_startup lm line m
      else cmd_store lm False 1 line m)"

definition system_execute_line :: "libm \<Rightarrow> u8 \<Rightarrow> command" where
  "system_execute_line lm client line m =
     (let c = char_at line 1 in
      if c = 0 then done_with STATUS_OK line (report (Grbl_help client) m)
      else if c = ch CHR ''J'' then
        (if sys_state (sys m) \<noteq> STATE_IDLE \<and> sys_state (sys m) \<noteq> STATE_JOG then done_with STATUS_IDLE_ERROR line m
         else if char_at line 2 \<noteq> ch CHR ''='' then done_with STATUS_INVALID_STATEMENT line m
         else map_option (\<lambda>(status, m). (status, line, m)) (gc_execute_line lm line m))
      else if c \<in> {ch CHR ''$'', ch CHR ''G'', ch CHR ''C'', ch CHR ''X''} then
        (if char_at line 2 \<noteq> 0 then done_with STATUS_INVALID_STATEMENT line m
         else if c = ch CHR ''$'' then cmd_settings client line m
         else if c = ch CHR ''G'' then done_with STATUS_OK line (report (Gcode_modes client) m)
         else if c = ch CHR ''C'' then cmd_check_mode line m
         else cmd_unlock line m)
      else system_idle_command lm client line m)"

end
