(* ===== verification/Main_Loop.thy ===== *)
theory Main_Loop
  imports System_Exec
begin

text \<open>
  \<^verbatim>\<open>protocol_main_loop\<close> and the \<^verbatim>\<open>setup\<close> and \<^verbatim>\<open>loop\<close> of \<^verbatim>\<open>main.cpp\<close>: the main program collects
  the characters of each client into one line, without spaces and comments and in upper case,
  executes it at its end and sends one status code for it. It runs until the machine is aborted;
  \<^verbatim>\<open>loop\<close> then initialises everything and enters it again.
\<close>

section \<open>The line filter\<close>

text \<open>The line buffer, the number of characters in it and the flags of a comment or an overflow.
  All clients share them.\<close>

record line_t =
  ln_line :: line
  ln_count :: u8
  ln_flags :: u8

text \<open>\<^verbatim>\<open>c >= 'a' && c <= 'z'\<close>\<close>

definition upcase :: "u8 \<Rightarrow> u8" where
  "upcase c = (if ch CHR ''a'' \<le> c \<and> c \<le> ch CHR ''z'' then c - ch CHR ''a'' + ch CHR ''A'' else c)"

definition filter_char :: "u8 \<Rightarrow> line_t \<Rightarrow> line_t" where
  "filter_char c l =
     (if ln_flags l \<noteq> 0 then
        (if c = ch CHR '')'' \<and> ln_flags l AND LINE_FLAG_COMMENT_PARENTHESES \<noteq> 0
         then l\<lparr>ln_flags := ln_flags l AND NOT LINE_FLAG_COMMENT_PARENTHESES\<rparr> else l)
      else if c \<le> ch CHR '' '' then l
      else if c = ch CHR ''/'' then l
      else if c = ch CHR ''('' then l\<lparr>ln_flags := ln_flags l OR LINE_FLAG_COMMENT_PARENTHESES\<rparr>
      else if c = ch CHR '';'' then l\<lparr>ln_flags := ln_flags l OR LINE_FLAG_COMMENT_SEMICOLON\<rparr>
      else if LINE_BUFFER_SIZE - 1 \<le> unat (ln_count l) then l\<lparr>ln_flags := ln_flags l OR LINE_FLAG_OVERFLOW\<rparr>
      else l\<lparr>ln_line := (ln_line l)[unat (ln_count l) := upcase c], ln_count := ln_count l + 1\<rparr>)"

text \<open>The end of a line: the terminator, and who executes it.\<close>

definition execute_line :: "libm \<Rightarrow> u8 \<Rightarrow> u8 \<Rightarrow> command" where
  "execute_line lm client line_flags line m =
     (if line_flags AND LINE_FLAG_OVERFLOW \<noteq> 0 then done_with STATUS_OVERFLOW line m
      else if char_at line 0 = 0 then done_with STATUS_OK line m
      else if char_at line 0 = ch CHR ''$'' then system_execute_line lm client line m
      else if sys_state (sys m) AND (STATE_ALARM OR STATE_JOG) \<noteq> 0 then done_with STATUS_SYSTEM_GC_LOCK line m
      else map_option (\<lambda>(status, m). (status, line, m)) (gc_execute_line lm line m))"

definition end_of_line :: "libm \<Rightarrow> u8 \<Rightarrow> line_t \<Rightarrow> machine \<Rightarrow> (line_t \<times> machine) option" where
  "end_of_line lm client l m =
     (let line = (ln_line l)[unat (ln_count l) := 0] in
      map_option (\<lambda>(status, line, m).
          (\<lparr>ln_line = line, ln_count = 0, ln_flags = 0\<rparr>, report (Status_message status client) m))
        (execute_line lm client (ln_flags l) line m))"

definition is_eol :: "u8 \<Rightarrow> bool" where
  "is_eol c \<longleftrightarrow> c = 10 \<or> c = 13"

section \<open>The main loop\<close>

text \<open>Reading one client until its buffer is empty. The boolean is false when the machine was
  aborted, which leaves the main loop.\<close>

partial_function (option) read_client :: "libm \<Rightarrow> u8 \<Rightarrow> line_t \<Rightarrow> machine \<Rightarrow> (bool \<times> line_t \<times> machine) option" where
  "read_client lm client l m =
     (let (c, m) = serial_read client m in
      if c = SERIAL_NO_DATA then Some (True, l, m)
      else if is_eol c then
        (case protocol_execute_realtime m of None \<Rightarrow> None
         | Some m \<Rightarrow>
             if sys_abort (sys m) then Some (False, l, m)
             else (case end_of_line lm client l m of None \<Rightarrow> None
               | Some (l, m) \<Rightarrow> (case poll m of None \<Rightarrow> None | Some m \<Rightarrow> read_client lm client l m)))
      else (case poll m of None \<Rightarrow> None | Some m \<Rightarrow> read_client lm client (filter_char c l) m))"

primrec read_clients :: "libm \<Rightarrow> u8 list \<Rightarrow> line_t \<Rightarrow> machine \<Rightarrow> (bool \<times> line_t \<times> machine) option" where
  "read_clients lm [] l m = Some (True, l, m)"
| "read_clients lm (client # rest) l m =
     (case read_client lm client l m of None \<Rightarrow> None
      | Some (ok, l, m) \<Rightarrow> if ok then read_clients lm rest l m else Some (False, l, m))"

partial_function (option) main_loop :: "libm \<Rightarrow> line_t \<Rightarrow> machine \<Rightarrow> machine option" where
  "main_loop lm l m =
     (case read_clients lm [CLIENT_SERIAL, CLIENT_WEBSOCKET, CLIENT_TELNET] l m of None \<Rightarrow> None
      | Some (ok, l, m) \<Rightarrow>
          if \<not> ok then Some m
          else (case protocol_execute_realtime (protocol_auto_cycle_start m) of None \<Rightarrow> None
            | Some m \<Rightarrow>
                if sys_abort (sys m) then Some m
                else (case poll m of None \<Rightarrow> None | Some m \<Rightarrow> main_loop lm l m)))"

section \<open>Entering the main loop\<close>

definition check_limits_at_init :: "machine \<Rightarrow> machine" where
  "check_limits_at_init m =
     (if bit_istrue (flags (settings m)) BITFLAG_HARD_LIMIT_ENABLE \<and> limits_get_state m \<noteq> 0
      then report (Feedback_message MESSAGE_CHECK_LIMITS) (set_state STATE_ALARM m) else m)"

definition enter_main_loop :: "libm \<Rightarrow> line \<Rightarrow> machine \<Rightarrow> (line \<times> machine) option" where
  "enter_main_loop lm line m =
     (let m = check_limits_at_init m in
      if sys_state (sys m) AND (STATE_ALARM OR STATE_SLEEP) \<noteq> 0
      then Some (line, set_state STATE_ALARM (report (Feedback_message MESSAGE_ALARM_LOCK) m))
      else
        let m = set_state STATE_IDLE m in
        case (if system_check_safety_door_ajar m
              then protocol_execute_realtime (m\<lparr>sys_rt_exec_state := bit_true (sys_rt_exec_state m) EXEC_SAFETY_DOOR\<rparr>)
              else Some m) of None \<Rightarrow> None
        | Some m \<Rightarrow> system_execute_startup lm line m)"

definition protocol_main_loop :: "libm \<Rightarrow> line \<Rightarrow> machine \<Rightarrow> machine option" where
  "protocol_main_loop lm line m =
     (case enter_main_loop lm line m of None \<Rightarrow> None
      | Some (line, m) \<Rightarrow> main_loop lm \<lparr>ln_line = line, ln_count = 0, ln_flags = 0\<rparr> m)"

section \<open>main.cpp\<close>

text \<open>The serial port, the WiFi stack and the sizes of the heap are outside the model; the store
  is as it was found.\<close>

definition setup_machine :: "machine \<Rightarrow> machine option" where
  "setup_machine m =
     map_option
       (\<lambda>m. let m = system_init (stepper_init m);
                m = m\<lparr>sys_position := replicate N_AXIS 0\<rparr>;
                m = set_state STATE_IDLE m
            in if bit_istrue (flags (settings m)) BITFLAG_HOMING_ENABLE then set_state STATE_ALARM m else m)
       (settings_init m)"

definition clear_system :: "machine \<Rightarrow> machine" where
  "clear_system m =
     m\<lparr>sys := system0\<lparr>sys_state := sys_state (sys m), sys_f_override := DEFAULT_FEED_OVERRIDE,
         sys_r_override := DEFAULT_RAPID_OVERRIDE, sys_spindle_speed_ovr := DEFAULT_SPINDLE_SPEED_OVERRIDE\<rparr>,
       sys_probe_position := replicate N_AXIS 0, sys_probe_state := 0, sys_rt_exec_state := 0, sys_rt_exec_alarm := 0,
       sys_rt_exec_motion_override := 0, sys_rt_exec_accessory_override := 0\<rparr>"

definition init_systems :: "machine \<Rightarrow> machine option" where
  "init_systems m =
     map_option
       (\<lambda>m. let m = probe_init (limits_init (coolant_init (spindle_init m)));
                m = st_reset (plan_reset m);
                m = gc_sync_position (plan_sync_position m)
            in report (Init_message CLIENT_ALL) m)
       (gc_init (serial_reset_read_buffer CLIENT_ALL (clear_system m)))"

definition loop :: "libm \<Rightarrow> line \<Rightarrow> machine \<Rightarrow> machine option" where
  "loop lm line m = (case init_systems m of None \<Rightarrow> None | Some m \<Rightarrow> protocol_main_loop lm line m)"

end
