(* ===== verification/Motion_Facts.thy ===== *)
theory Motion_Facts
  imports Motion Realtime_Frame
begin

text \<open>
  What the motion primitives leave alone (the settings, the parameter store and the parser's modes)
  and how they end: a line outside the soft limits and a homing cycle that fails leave the machine
  aborted.
\<close>

section \<open>Lines and waits\<close>

lemma rt_frame_spindle_sync: "spindle_sync st rpm m = Some m' \<Longrightarrow> rt_frame m m'"
  using rt_frame_trans [OF rt_frame_synchronize rt_frame_drivers(3)]
  by (auto simp: spindle_sync_def split: if_splits)

lemma rt_frame_coolant_sync: "coolant_sync mode m = Some m' \<Longrightarrow> rt_frame m m'"
  using rt_frame_trans [OF rt_frame_synchronize rt_frame_drivers(4)]
  by (auto simp: coolant_sync_def split: if_splits)

lemma rt_frame_wait_idle: "wait_idle m = Some m' \<Longrightarrow> rt_frame m m'"
proof (erule wait_idle.raw_induct [where P = rt_frame, rotated])
  fix loop m m'
  assume "\<And>m m'. loop m = Some m' \<Longrightarrow> rt_frame m m'"
    "(case poll m of None \<Rightarrow> None
      | Some m \<Rightarrow> (case protocol_execute_realtime m of None \<Rightarrow> None
        | Some m \<Rightarrow> if sys_abort (sys m) then Some m else if sys_state (sys m) \<noteq> STATE_IDLE then loop m else Some m)) = Some m'"
  then show "rt_frame m m'"
    by (auto split: option.splits if_splits dest!: rt_frame_poll rt_frame_execute intro: rt_frame_trans)
qed

lemma rt_frame_soft_alarm: "rt_frame m (system_set_exec_alarm a (mc_reset m))"
  by (rule rt_frame_trans [OF rt_frame_drivers(9) rt_frame_updates(7)])

lemma rt_frame_soft_check:
  assumes "limits_soft_check target m = Some m'"
  shows "rt_frame m m'"
proof (cases "system_check_travel_limits target m")
  case True
  let ?k = "upd_sys (\<lambda>s. s\<lparr>sys_soft_limit := True\<rparr>) m"
  have w: "rt_frame ?k k" if "wait_idle (system_set_exec_state_flag EXEC_FEED_HOLD ?k) = Some k" for k
    by (rule rt_frame_trans [OF rt_frame_updates(4) rt_frame_wait_idle [OF that]])
  obtain k where "(if sys_state (sys ?k) = STATE_CYCLE then wait_idle (system_set_exec_state_flag EXEC_FEED_HOLD ?k) else Some ?k) = Some k"
    "(if sys_abort (sys k) then Some k else protocol_execute_realtime (system_set_exec_alarm EXEC_ALARM_SOFT_LIMIT (mc_reset k))) = Some m'"
    using assms True unfolding limits_soft_check_def Let_def by (simp only: if_True option.simps split: option.splits)
  then have k: "rt_frame ?k k"
    "m' = k \<or> protocol_execute_realtime (system_set_exec_alarm EXEC_ALARM_SOFT_LIMIT (mc_reset k)) = Some m'"
    using w by (auto split: if_splits)
  have "rt_frame k m'"
    using k(2) rt_frame_trans [OF rt_frame_soft_alarm rt_frame_execute] rt_frame_refl by metis
  then show ?thesis using rt_frame_trans [OF rt_frame_updates(12) rt_frame_trans [OF k(1)]] by blast
qed (use assms in \<open>simp add: limits_soft_check_def\<close>)

lemma rt_frame_wait_for_room: "wait_for_room m = Some m' \<Longrightarrow> rt_frame m m'"
proof (erule wait_for_room.raw_induct [where P = rt_frame, rotated])
  fix loop m m'
  assume 1: "\<And>m m'. loop m = Some m' \<Longrightarrow> rt_frame m m'"
    "(case protocol_execute_realtime m of None \<Rightarrow> None
      | Some m \<Rightarrow> if sys_abort (sys m) then Some m
          else if plan_check_full_buffer m
          then (case poll (protocol_auto_cycle_start m) of None \<Rightarrow> None | Some m \<Rightarrow> loop m)
          else Some m) = Some m'"
  have p: "rt_frame k k'" if "poll (protocol_auto_cycle_start k) = Some k'" for k k'
    by (rule rt_frame_trans [OF rt_frame_auto_start rt_frame_poll [OF that]])
  show "rt_frame m m'"
    using 1 by (auto split: option.splits if_splits dest!: p rt_frame_execute intro: rt_frame_trans)
qed

lemma main_view_push: "main_view (plan_push_block b m) = main_view m"
  by (simp add: plan_push_block_def set_block_def main_defs Let_def)

lemma main_view_buffer_line: "main_view (snd (plan_buffer_line target pld m)) = main_view m"
proof -
  have 1: "main_view (set_block i f m) = main_view m" for i f m
    by (simp add: main_view_plan_frame)
  have 2: "main_view (m\<lparr>pl := p\<rparr>) = main_view m" for p by (simp add: main_defs)
  show ?thesis
    by (simp add: plan_buffer_line_def Let_def case_prod_beta 1 2 main_view_push main_view_plan_frame [OF plan_frame_recalculate])
qed

lemma rt_frame_queue_line:
  assumes "queue_line target pld m = Some m'"
  shows "rt_frame m m'"
proof -
  have "rt_frame m (snd (plan_buffer_line target pld m))"
    using main_view_buffer_line by (rule rt_frame_view)
  then show ?thesis
    using assms rt_frame_trans rt_frame_spindle_sync by (fastforce simp: queue_line_def split: prod.splits if_splits)
qed

lemma rt_frame_line:
  assumes "mc_line target pld m = Some m'"
  shows "rt_frame m m'"
proof -
  obtain k where k: "rt_frame m k" "(if sys_state (sys k) = STATE_CHECK_MODE then Some k
          else (case wait_for_room k of None \<Rightarrow> None
                | Some m \<Rightarrow> if sys_abort (sys m) then Some m else queue_line target pld m)) = Some m'"
  proof (cases "bit_istrue (flags (settings m)) BITFLAG_SOFT_LIMIT_ENABLE \<and> sys_state (sys m) \<noteq> STATE_JOG")
    case True
    then obtain k where "limits_soft_check target m = Some k"
      using assms by (auto simp: mc_line_def split: option.splits)
    then show ?thesis using that [of k] assms True rt_frame_soft_check by (simp add: mc_line_def)
  next
    case False
    then show ?thesis using that [of m] assms by (simp only: mc_line_def if_False option.case rt_frame_refl)
  qed
  have "rt_frame k m'"
    using k(2) by (auto split: option.splits if_splits dest!: rt_frame_wait_for_room rt_frame_queue_line intro: rt_frame_trans)
  then show ?thesis by (rule rt_frame_trans [OF k(1)])
qed

lemma rt_frame_dwell: "mc_dwell seconds m = Some m' \<Longrightarrow> rt_frame m m'"
  by (auto simp: mc_dwell_def split: if_splits option.splits dest!: rt_frame_synchronize rt_frame_delay_sec intro: rt_frame_trans)

lemma rt_frame_position:
  "(position_ok m \<Longrightarrow> length p = N_AXIS) \<Longrightarrow> rt_frame m (set_gc_position p m)"
  by (auto simp: set_gc_position_def rt_frame_defs gc_fixed_def)

section \<open>Arcs and jogs\<close>

lemma rt_frame_arc_loop:
  assumes "\<And>a b p. length (place a b p) = length p"
  shows "arc_loop next_radius place pld n i r m = Some (ok, m') \<Longrightarrow> rt_frame m m'"
proof (induction n arbitrary: i r m)
  case (Suc n)
  let ?r = "next_radius i r"
  let ?k = "set_gc_position (place (fst (snd ?r)) (snd (snd ?r)) (gs_position (gc_state m))) m"
  obtain l where l: "mc_line (gs_position (gc_state ?k)) pld ?k = Some l"
    "(if sys_abort (sys l) then Some (False, l)
      else (case poll l of None \<Rightarrow> None | Some m \<Rightarrow> arc_loop next_radius place pld n (i + 1) ?r m)) = Some (ok, m')"
    using Suc.prems by (simp add: Let_def split: option.splits)
  have "rt_frame l m'"
    using l(2) Suc.IH rt_frame_trans [OF rt_frame_poll] by (auto split: if_splits option.splits)
  moreover have "rt_frame m ?k"
    by (rule rt_frame_position) (simp add: assms position_ok_def)
  ultimately show ?case using rt_frame_trans [OF _ rt_frame_trans [OF rt_frame_line [OF l(1)]]] by blast
qed simp

lemma rt_frame_arc:
  assumes "mc_arc lm target pld offset radius axis_0 axis_1 axis_linear cw m = Some m'"
  shows "rt_frame m m'"
proof -
  have p: "length (arc_place a b c x y z u v p) = length p" for a b c x y z u v p
    by (simp add: arc_place_def Let_def)
  show ?thesis
    using assms rt_frame_trans [OF rt_frame_arc_loop [OF p] rt_frame_line] rt_frame_arc_loop [OF p]
    by (auto simp: mc_arc_def Let_def split: option.splits if_splits)
qed

lemma rt_frame_jog:
  assumes "jog_execute pld v m = Some (code, m')"
  shows "rt_frame m m'"
proof -
  have p: "rt_frame k k'" if "st_prep_buffer (set_state s k) = Some k'" for s k k'
    by (rule rt_frame_trans [OF rt_frame_updates(1) rt_frame_prep [OF that]])
  show ?thesis
    using assms
    by (auto simp: jog_execute_def Let_def split: if_splits option.splits dest!: rt_frame_line p
        intro: rt_frame_trans [OF _ rt_frame_trans [OF _ rt_frame_drivers(1)]] rt_frame_trans)
qed

section \<open>Homing and probing\<close>

text \<open>The cycles arm the probe and clear its result, so only part of the frame is left.\<close>

definition motion_frame :: "machine \<Rightarrow> machine \<Rightarrow> bool" where
  "motion_frame m m' \<longleftrightarrow> settings m' = settings m \<and> eeprom m' = eeprom m \<and> gc_fixed (gc_state m') = gc_fixed (gc_state m)
     \<and> (sys_abort (sys m) \<longrightarrow> sys_abort (sys m')) \<and> (coolant_ok m \<longrightarrow> coolant_ok m') \<and> (position_ok m \<longrightarrow> position_ok m')"

lemma motion_frame_refl [simp]: "motion_frame m m"
  by (simp add: motion_frame_def)

lemma motion_frame_trans: "motion_frame a b \<Longrightarrow> motion_frame b c \<Longrightarrow> motion_frame a c"
  by (auto simp: motion_frame_def)

lemma motion_frame_rt: "rt_frame m m' \<Longrightarrow> motion_frame m m'"
  by (simp add: motion_frame_def rt_frame_def store_def)

text \<open>A step that changes nothing the frame speaks of.\<close>

lemma motion_frame_same:
  "settings m' = settings m \<Longrightarrow> eeprom m' = eeprom m \<Longrightarrow> gc_state m' = gc_state m \<Longrightarrow> sys_abort (sys m') = sys_abort (sys m) \<Longrightarrow>
   motion_frame m m'"
  by (simp add: motion_frame_def coolant_ok_def position_ok_def)

lemma motion_frame_updates [simp]:
  "motion_frame m (set_homing_lock w m)" "motion_frame m (zero_positions axes m)"
  "motion_frame m (homing_set_positions cm m)" "motion_frame m (limits_disable m)" "motion_frame m (limits_init m)"
  "motion_frame m (set_probe_succeeded b m)" "motion_frame m (probe_configure_invert_mask b m)"
  "motion_frame m (m\<lparr>sys_probe_state := s\<rparr>)" "motion_frame m (m\<lparr>sys_probe_position := p\<rparr>)"
  by (rule motion_frame_same; simp add: set_homing_lock_def zero_positions_def homing_set_positions_def limits_disable_def
      limits_init_def set_probe_succeeded_def probe_configure_invert_mask_def report_def)+

lemma motion_frame_homing_alarms: "motion_frame m (homing_alarms cm approach e m)"
proof -
  have a: "motion_frame k (if c then system_set_exec_alarm x k else k)" for c x k
    by (simp add: motion_frame_rt)
  show ?thesis
    unfolding homing_alarms_def Let_def by (intro motion_frame_trans [OF _ a] motion_frame_refl)
qed


lemma motion_frame_homing_motion: "homing_motion cm approach w m = Some (ok, m') \<Longrightarrow> motion_frame m m'"
proof (erule homing_motion.raw_induct [where P = "\<lambda>_ _ _ m r. motion_frame m (snd r)" and y = "(ok, m')", simplified, rotated])
  fix loop cm approach w m r
  assume 1: "\<And>cm approach w m r. loop cm approach w m = Some r \<Longrightarrow> motion_frame m (snd r)"
    "(case poll m of None \<Rightarrow> None
      | Some m \<Rightarrow>
        let axislock = (if approach then homing_lock (limits_get_state m) w else w);
            m = (if approach then set_homing_lock axislock m else m)
        in case st_prep_buffer m of None \<Rightarrow> None
        | Some m \<Rightarrow>
            if sys_rt_exec_state m AND (EXEC_SAFETY_DOOR OR EXEC_RESET OR EXEC_CYCLE_STOP) \<noteq> 0 then
              let m = homing_alarms cm approach (sys_rt_exec_state m) m in
              if sys_rt_exec_alarm m \<noteq> 0
              then map_option (Pair False) (protocol_execute_realtime (mc_reset m))
              else Some (True, system_clear_exec_state_flag EXEC_CYCLE_STOP m)
            else if STEP_MASK AND axislock \<noteq> 0 then loop cm approach axislock m
            else Some (True, m)) = Some r"
  obtain a where a: "poll m = Some a" using 1(2) by (auto split: option.splits)
  let ?w = "if approach then homing_lock (limits_get_state a) w else w"
  let ?b = "if approach then set_homing_lock ?w a else a"
  obtain c where c: "st_prep_buffer ?b = Some c" using 1(2) a by (auto simp: Let_def split: option.splits)
  have ac: "motion_frame m c"
    by (rule motion_frame_trans [OF motion_frame_rt [OF rt_frame_poll [OF a]]
          motion_frame_trans [OF _ motion_frame_rt [OF rt_frame_prep [OF c]]]]) simp
  have s: "motion_frame k (system_clear_exec_state_flag e k)" for k e by (simp add: motion_frame_rt)
  have e: "motion_frame k k'" if "protocol_execute_realtime (mc_reset k) = Some k'" for k k'
    by (rule motion_frame_rt [OF rt_frame_trans [OF rt_frame_drivers(9) rt_frame_execute [OF that]]])
  let ?h = "homing_alarms cm approach (sys_rt_exec_state c) c"
  have "motion_frame c (snd r)"
  proof (cases "sys_rt_exec_state c AND (EXEC_SAFETY_DOOR OR EXEC_RESET OR EXEC_CYCLE_STOP) \<noteq> 0")
    case True
    then have "(if sys_rt_exec_alarm ?h \<noteq> 0 then map_option (Pair False) (protocol_execute_realtime (mc_reset ?h))
       else Some (True, system_clear_exec_state_flag EXEC_CYCLE_STOP ?h)) = Some r"
      using 1(2) by (simp only: a c Let_def option.case if_True not_False_eq_True)
    then have "motion_frame ?h (snd r)" using e s by (auto split: if_splits)
    then show ?thesis by (rule motion_frame_trans [OF motion_frame_homing_alarms])
  next
    case False
    then have "(if STEP_MASK AND ?w \<noteq> 0 then loop cm approach ?w c else Some (True, c)) = Some r"
      using 1(2) by (simp only: a c Let_def option.case if_False not_True_eq_False)
    then show ?thesis using 1(1) [of cm approach ?w c r] by (auto split: if_splits)
  qed
  then show "motion_frame m (snd r)" by (rule motion_frame_trans [OF ac])
qed

lemma motion_frame_homing_start:
  assumes "homing_start cm approach travel rate m = Some m'"
  shows "motion_frame m m'"
proof -
  let ?p = "\<lambda>k t p. set_step_control STEP_CONTROL_EXECUTE_SYS_MOTION (snd (plan_buffer_line t p k))"
  have b: "rt_frame k (?p k t p)" for k t p
    by (rule rt_frame_trans [OF rt_frame_view [OF main_view_buffer_line] rt_frame_updates(16)])
  have "rt_frame k k'" if "map_option st_wake_up (st_prep_buffer (?p k t p)) = Some k'" for k k' t p
    using that rt_frame_trans [OF b rt_frame_trans [OF rt_frame_prep rt_frame_drivers(1)]] by blast
  then have "motion_frame (set_homing_lock (homing_axislock cm) (zero_positions (homing_axes cm) m)) m'"
    using assms unfolding homing_start_def Let_def by (blast intro: motion_frame_rt)
  then show ?thesis
    using motion_frame_trans [OF motion_frame_updates(2) motion_frame_trans [OF motion_frame_updates(1)]] by blast
qed

lemma motion_frame_homing_rounds:
  "homing_rounds n cm approach travel rate m = Some (ok, m') \<Longrightarrow> motion_frame m m'"
proof (induction n arbitrary: approach travel rate m)
  case (Suc n)
  obtain a b ok' where a: "homing_start cm approach travel rate m = Some a"
    and b: "homing_motion cm approach (homing_axislock cm) a = Some (ok', b)"
    using Suc.prems by (auto split: option.splits)
  have mb: "motion_frame m b"
    by (rule motion_frame_trans [OF motion_frame_homing_start [OF a] motion_frame_homing_motion [OF b]])
  have "motion_frame b m'"
  proof (cases ok')
    case True
    then obtain c where "poll (st_reset b) = Some c" using Suc.prems a b by (auto split: option.splits)
    moreover then have "motion_frame c m'"
      using Suc.prems Suc.IH a b True by (auto simp: Let_def split: if_splits)
    ultimately show ?thesis
      using motion_frame_trans [OF motion_frame_rt [OF rt_frame_trans [OF rt_frame_drivers(5) rt_frame_poll]]] by blast
  qed (use Suc.prems a b in simp)
  then show ?case by (rule motion_frame_trans [OF mb])
qed simp

lemma motion_frame_go_home:
  assumes "limits_go_home cm m = Some m'"
  shows "motion_frame m m'"
proof -
  have "motion_frame k (set_step_control STEP_CONTROL_NORMAL_OP (homing_set_positions cm k))" for k
    by (rule motion_frame_trans [OF motion_frame_updates(3) motion_frame_rt [OF rt_frame_updates(16)]])
  then show ?thesis
    using assms motion_frame_trans [OF motion_frame_homing_rounds] motion_frame_homing_rounds
    by (auto simp: limits_go_home_def split: if_splits option.splits)
qed

lemma motion_frame_homing:
  assumes "mc_homing_cycle m = Some m'"
  shows "motion_frame m m'"
proof -
  obtain a b c where a: "limits_go_home HOMING_CYCLE_0 (limits_disable m) = Some a" "limits_go_home HOMING_CYCLE_1 a = Some b"
    "protocol_execute_realtime b = Some c" "m' = c \<or> m' = limits_init (plan_sync_position (gc_sync_position c))"
    using assms by (auto simp: mc_homing_cycle_def split: option.splits if_splits)
  have "motion_frame m c"
    by (rule motion_frame_trans [OF motion_frame_updates(4) motion_frame_trans [OF motion_frame_go_home [OF a(1)]
          motion_frame_trans [OF motion_frame_go_home [OF a(2)] motion_frame_rt [OF rt_frame_execute [OF a(3)]]]]])
  moreover have "motion_frame c (limits_init (plan_sync_position (gc_sync_position c)))"
    by (rule motion_frame_trans [OF motion_frame_rt [OF rt_frame_trans [OF rt_frame_sync rt_frame_drivers(7)]] motion_frame_updates(5)])
  ultimately show ?thesis using a(4) motion_frame_trans by blast
qed

lemma rt_frame_probe_wait: "probe_wait m = Some m' \<Longrightarrow> rt_frame m m'"
proof (erule probe_wait.raw_induct [where P = rt_frame, rotated])
  fix loop m m'
  assume "\<And>m m'. loop m = Some m' \<Longrightarrow> rt_frame m m'"
    "(case protocol_execute_realtime m of None \<Rightarrow> None
      | Some m \<Rightarrow> if sys_abort (sys m) then Some m
          else (case poll m of None \<Rightarrow> None
                | Some m \<Rightarrow> if sys_state (sys m) \<noteq> STATE_IDLE then loop m else Some m)) = Some m'"
  then show "rt_frame m m'"
    by (auto split: option.splits if_splits dest!: rt_frame_poll rt_frame_execute intro: rt_frame_trans)
qed

lemma motion_frame_probe_motion:
  assumes "probe_motion target pld no_error m = Some (code, m')"
  shows "motion_frame m m'"
proof -
  obtain a b where a: "mc_line target pld m = Some a"
    and b: "probe_wait (system_set_exec_state_flag EXEC_CYCLE_START (a\<lparr>sys_probe_state := PROBE_ACTIVE\<rparr>)) = Some b"
    using assms by (auto simp: probe_motion_def split: option.splits)
  have mb: "motion_frame m b"
    by (rule motion_frame_trans [OF motion_frame_rt [OF rt_frame_line [OF a]] motion_frame_trans [OF motion_frame_updates(8)
          motion_frame_rt [OF rt_frame_trans [OF rt_frame_updates(4) rt_frame_probe_wait [OF b]]]]])
  have r: "motion_frame k (probe_result e k)" for e k
    by (rule motion_frame_same; simp add: probe_result_def Let_def exec_flag_defs set_probe_succeeded_def probe_configure_invert_mask_def)
  have f: "motion_frame k (snd (probe_finish k))" for k
    unfolding probe_finish_def Let_def snd_conv
    by (rule motion_frame_rt [OF rt_frame_trans [OF rt_frame_drivers(5) rt_frame_trans [OF rt_frame_drivers(6)
          rt_frame_trans [OF rt_frame_drivers(7) rt_frame_updates(3)]]]])
  have "motion_frame b m'"
  proof (cases "sys_abort (sys b)")
    case False
    then obtain c where "protocol_execute_realtime (probe_result no_error b) = Some c" "(code, m') = probe_finish c"
      using assms a b by (auto simp: probe_motion_def)
    then show ?thesis
      using motion_frame_trans [OF r motion_frame_trans [OF motion_frame_rt [OF rt_frame_execute] f]] by (metis snd_conv)
  qed (use assms a b in \<open>simp add: probe_motion_def\<close>)
  then show ?thesis by (rule motion_frame_trans [OF mb])
qed

lemma motion_frame_probe:
  assumes "mc_probe_cycle target pld parser_flags m = Some (code, m')"
  shows "motion_frame m m'"
proof (cases "sys_state (sys m) = STATE_CHECK_MODE")
  case False
  then obtain a where a: "protocol_buffer_synchronize m = Some a"
    using assms by (auto simp: mc_probe_cycle_def split: option.splits)
  let ?b = "probe_configure_invert_mask (bit_istrue parser_flags GC_PARSER_PROBE_IS_AWAY) (set_probe_succeeded False a)"
  have ab: "motion_frame a ?b" by (rule motion_frame_trans [OF motion_frame_updates(6) motion_frame_updates(7)])
  have e: "motion_frame ?b (probe_configure_invert_mask False k)"
    if "protocol_execute_realtime (system_set_exec_alarm EXEC_ALARM_PROBE_FAIL_INITIAL ?b) = Some k" for k
    by (rule motion_frame_trans [OF motion_frame_rt [OF rt_frame_trans [OF rt_frame_updates(7) rt_frame_execute [OF that]]]
          motion_frame_updates(7)])
  have "motion_frame a m'"
    using assms False a e motion_frame_probe_motion motion_frame_trans [OF ab]
    by (auto simp: mc_probe_cycle_def Let_def split: if_splits)
  then show ?thesis by (rule motion_frame_trans [OF motion_frame_rt [OF rt_frame_synchronize [OF a]]])
qed (use assms in \<open>simp add: mc_probe_cycle_def\<close>)

section \<open>How a failed motion ends\<close>

text \<open>An executor call that aborts is the last thing a check point does.\<close>

lemma execute_aborted:
  assumes "protocol_exec_rt_system m = Some k" "sys_abort (sys k)" "protocol_execute_realtime m = Some m'"
  shows "sys_abort (sys m') \<and> sys_state (sys m') = sys_state (sys k)"
proof (cases "sys_suspend (sys k) = 0")
  case False
  have l: "suspend_loop cond speed n = Some n" if "sys_abort (sys n)" for cond speed n
    using that by (subst suspend_loop.simps) simp
  let ?n = "if bit_istrue (flags (settings k)) BITFLAG_LASER_MODE
    then system_set_exec_accessory_override_flag EXEC_SPINDLE_OVR_STOP k else k"
  have n: "sys ?n = sys k" by (simp add: exec_flag_defs)
  have "protocol_exec_rt_suspend k = Some m'" using assms False by (simp add: protocol_execute_realtime_def)
  then have "m' = ?n" using l n assms(2) by (simp add: protocol_exec_rt_suspend_def Let_def case_prod_beta)
  then show ?thesis using n assms(2) by simp
qed (use assms in \<open>simp add: protocol_execute_realtime_def\<close>)

text \<open>A soft limit is a critical alarm; a pending reset aborts, in the alarm state if an alarm is set.\<close>

lemma soft_limit_aborts:
  assumes "protocol_execute_realtime (system_set_exec_alarm EXEC_ALARM_SOFT_LIMIT m) = Some m'"
  shows "sys_abort (sys m') \<and> sys_state (sys m') = STATE_ALARM"
proof -
  let ?m = "system_set_exec_alarm EXEC_ALARM_SOFT_LIMIT m"
  obtain k where k: "protocol_exec_rt_system ?m = Some k"
    using assms by (auto simp: protocol_execute_realtime_def split: option.splits)
  have "sys_rt_exec_alarm ?m \<in> {EXEC_ALARM_HARD_LIMIT, EXEC_ALARM_SOFT_LIMIT}" by (simp add: exec_flag_defs)
  then show ?thesis using critical_alarm_aborts [OF _ k] execute_aborted [OF k _ assms] by simp
qed

lemma reset_aborts:
  assumes "bit_istrue (sys_rt_exec_state m) EXEC_RESET" "protocol_execute_realtime m = Some m'"
  shows "sys_abort (sys m') \<and> (sys_rt_exec_alarm m \<noteq> 0 \<longrightarrow> sys_state (sys m') = STATE_ALARM)"
proof -
  obtain k where k: "protocol_exec_rt_system m = Some k"
    using assms(2) by (auto simp: protocol_execute_realtime_def split: option.splits)
  have "sys_abort (sys k) \<and> (sys_rt_exec_alarm m \<noteq> 0 \<longrightarrow> sys_state (sys k) = STATE_ALARM)"
  proof (cases "critical_alarm m")
    case True
    then show ?thesis using critical_alarm_aborts [OF _ k] by (simp add: critical_alarm_def)
  next
    case False
    note a = rt_alarm_other [OF False]
    have "protocol_exec_rt_system m = Some (upd_sys (\<lambda>s. s\<lparr>sys_abort := True\<rparr>) (the (rt_alarm m)))"
      using assms(1) a by (intro rt_system_reset) (simp_all add: system_clear_exec_alarm_def report_def)
    then show ?thesis using k a by (auto simp: system_clear_exec_alarm_def report_def)
  qed
  then show ?thesis using execute_aborted [OF k _ assms(2)] by auto
qed

section \<open>Soft limits\<close>

text \<open>A target inside the travel of every axis (travels are stored negative).\<close>

definition in_travel :: "f32 list \<Rightarrow> settings_t \<Rightarrow> bool" where
  "in_travel target s \<longleftrightarrow>
     list_all (\<lambda>idx. \<not> f32_lt 0 (target ! idx) \<and> \<not> f32_lt (target ! idx) (max_travel s ! idx)) [0..<N_AXIS]"

lemma check_travel_iff: "system_check_travel_limits target m \<longleftrightarrow> \<not> in_travel target (settings m)"
  by (simp add: system_check_travel_limits_def in_travel_def list_ex_iff list_all_iff del: upt_rec_numeral)

lemma soft_check_result:
  assumes "limits_soft_check target m = Some m'" "\<not> in_travel target (settings m)"
  shows "sys_abort (sys m')"
proof -
  let ?k = "upd_sys (\<lambda>s. s\<lparr>sys_soft_limit := True\<rparr>) m"
  obtain k where "(if sys_abort (sys k) then Some k
      else protocol_execute_realtime (system_set_exec_alarm EXEC_ALARM_SOFT_LIMIT (mc_reset k))) = Some m'"
    using assms check_travel_iff [of target m] unfolding limits_soft_check_def Let_def
    by (simp only: if_True not_False_eq_True option.simps split: option.splits)
  then show ?thesis using soft_limit_aborts [of "mc_reset k"] by (auto split: if_splits)
qed

lemma line_outside_travel:
  assumes "mc_line target pld m = Some m'" "\<not> in_travel target (settings m)"
    "bit_istrue (flags (settings m)) BITFLAG_SOFT_LIMIT_ENABLE" "sys_state (sys m) \<noteq> STATE_JOG"
  shows "sys_abort (sys m')"
proof -
  obtain k where k: "limits_soft_check target m = Some k" "(if sys_state (sys k) = STATE_CHECK_MODE then Some k
      else case wait_for_room k of None \<Rightarrow> None
      | Some m \<Rightarrow> if sys_abort (sys m) then Some m else queue_line target pld m) = Some m'"
    using assms by (auto simp: mc_line_def split: option.splits)
  have "sys_abort (sys k)" using soft_check_result [OF k(1) assms(2)] .
  then show ?thesis
    using k(2) rt_frame_wait_for_room [of k] by (auto simp: rt_frame_def split: if_splits option.splits)
qed

lemma jog_outside_travel:
  assumes "\<not> in_travel (gv_xyz v) (settings m)" "bit_istrue (flags (settings m)) BITFLAG_SOFT_LIMIT_ENABLE"
  shows "jog_execute pld v m = Some (STATUS_TRAVEL_EXCEEDED, m)"
  using assms by (simp add: jog_execute_def check_travel_iff)

section \<open>The end of homing\<close>

lemma mc_reset_alarm: "sys_rt_exec_alarm m \<noteq> 0 \<Longrightarrow> sys_rt_exec_alarm (mc_reset m) \<noteq> 0"
  using mc_reset_motion(3) [of m] mc_reset_still [of m]
  by (cases "bit_isfalse (sys_rt_exec_state m) EXEC_RESET"; cases "in_motion m")
    (simp_all add: mc_reset_def [of m] coolant_stop_def)

text \<open>A turn of the homing loop: how it ends, and what it goes on with.\<close>

lemma homing_turn_failed:
  assumes "(case poll m of None \<Rightarrow> None
      | Some m \<Rightarrow>
        let axislock = (if approach then homing_lock (limits_get_state m) w else w);
            m = (if approach then set_homing_lock axislock m else m)
        in case st_prep_buffer m of None \<Rightarrow> None
        | Some m \<Rightarrow>
            if sys_rt_exec_state m AND (EXEC_SAFETY_DOOR OR EXEC_RESET OR EXEC_CYCLE_STOP) \<noteq> 0 then
              let m = homing_alarms cm approach (sys_rt_exec_state m) m in
              if sys_rt_exec_alarm m \<noteq> 0
              then map_option (Pair False) (protocol_execute_realtime (mc_reset m))
              else Some (True, system_clear_exec_state_flag EXEC_CYCLE_STOP m)
            else if STEP_MASK AND axislock \<noteq> 0 then loop axislock m
            else Some (True, m)) = Some (ok, m')"
  shows "ok \<or> sys_abort (sys m') \<and> sys_state (sys m') = STATE_ALARM \<or> (\<exists>w m. loop w m = Some (ok, m'))"
proof -
  obtain a where a: "poll m = Some a" using assms by (auto split: option.splits)
  let ?w = "if approach then homing_lock (limits_get_state a) w else w"
  let ?b = "if approach then set_homing_lock ?w a else a"
  obtain c where c: "st_prep_buffer ?b = Some c" using assms a by (auto simp: Let_def split: option.splits)
  let ?h = "homing_alarms cm approach (sys_rt_exec_state c) c"
  show ?thesis
  proof (cases "sys_rt_exec_state c AND (EXEC_SAFETY_DOOR OR EXEC_RESET OR EXEC_CYCLE_STOP) \<noteq> 0")
    case True
    then have "(if sys_rt_exec_alarm ?h \<noteq> 0 then map_option (Pair False) (protocol_execute_realtime (mc_reset ?h))
       else Some (True, system_clear_exec_state_flag EXEC_CYCLE_STOP ?h)) = Some (ok, m')"
      using assms by (simp only: a c Let_def option.case if_True not_False_eq_True)
    then show ?thesis using reset_aborts [OF mc_reset_flag] mc_reset_alarm [of ?h] by (auto split: if_splits)
  next
    case False
    then have "(if STEP_MASK AND ?w \<noteq> 0 then loop ?w c else Some (True, c)) = Some (ok, m')"
      using assms by (simp only: a c Let_def option.case if_False not_True_eq_False)
    then show ?thesis by (auto split: if_splits)
  qed
qed

lemma homing_motion_failed:
  "homing_motion cm approach w m = Some (ok, m') \<Longrightarrow> ok \<or> sys_abort (sys m') \<and> sys_state (sys m') = STATE_ALARM"
proof (erule homing_motion.raw_induct [where P = "\<lambda>_ _ _ _ r. fst r \<or> sys_abort (sys (snd r)) \<and> sys_state (sys (snd r)) = STATE_ALARM"
      and y = "(ok, m')", simplified, rotated])
  fix loop cm approach w m r
  assume 1: "\<And>cm approach w m r. loop cm approach w m = Some r \<Longrightarrow>
      fst r \<or> sys_abort (sys (snd r)) \<and> sys_state (sys (snd r)) = STATE_ALARM"
    "(case poll m of None \<Rightarrow> None
      | Some m \<Rightarrow>
        let axislock = (if approach then homing_lock (limits_get_state m) w else w);
            m = (if approach then set_homing_lock axislock m else m)
        in case st_prep_buffer m of None \<Rightarrow> None
        | Some m \<Rightarrow>
            if sys_rt_exec_state m AND (EXEC_SAFETY_DOOR OR EXEC_RESET OR EXEC_CYCLE_STOP) \<noteq> 0 then
              let m = homing_alarms cm approach (sys_rt_exec_state m) m in
              if sys_rt_exec_alarm m \<noteq> 0
              then map_option (Pair False) (protocol_execute_realtime (mc_reset m))
              else Some (True, system_clear_exec_state_flag EXEC_CYCLE_STOP m)
            else if STEP_MASK AND axislock \<noteq> 0 then loop cm approach axislock m
            else Some (True, m)) = Some r"
  show "fst r \<or> sys_abort (sys (snd r)) \<and> sys_state (sys (snd r)) = STATE_ALARM"
    using homing_turn_failed [where loop = "loop cm approach" and ok = "fst r" and m' = "snd r", unfolded prod.collapse, OF 1(2)]
      1(1) by metis
qed

lemma homing_rounds_failed:
  "homing_rounds n cm approach travel rate m = Some (ok, m') \<Longrightarrow> ok \<or> sys_abort (sys m') \<and> sys_state (sys m') = STATE_ALARM"
proof (induction n arbitrary: approach travel rate m)
  case (Suc n)
  then show ?case
    by (auto simp: Let_def split: option.splits if_splits dest: homing_motion_failed)
qed simp

lemma set_positions_result:
  assumes "idx \<in> set (homing_axes cm)" "idx < length (sys_position m)"
  shows "sys_position (homing_set_positions cm m) ! idx = homed_position (settings m) idx"
proof -
  have "fold (\<lambda>idx p. p[idx := v idx]) xs p ! idx = (if idx \<in> set xs then v idx else p ! idx)"
    if "idx < length p" for xs v and p :: "i32 list"
    using that by (induction xs arbitrary: p) auto
  then show ?thesis using assms by (simp add: homing_set_positions_def)
qed

lemma go_home_result:
  assumes "limits_go_home cm m = Some m'" "\<not> sys_abort (sys m)"
  shows "sys_abort (sys m') \<and> sys_state (sys m') = STATE_ALARM \<or>
    sys_step_control (sys m') = STEP_CONTROL_NORMAL_OP \<and>
    (\<forall>idx\<in>set (homing_axes cm). idx < length (sys_position m') \<longrightarrow> sys_position m' ! idx = homed_position (settings m) idx)"
proof -
  obtain ok k where k: "homing_rounds (2 * N_HOMING_LOCATE_CYCLE + 2) cm True (homing_max_travel cm (settings m))
      (homing_seek_rate (settings m)) m = Some (ok, k)"
    "m' = (if ok then set_step_control STEP_CONTROL_NORMAL_OP (homing_set_positions cm k) else k)"
    using assms by (auto simp: limits_go_home_def split: option.splits if_splits)
  have l: "length (fold (\<lambda>idx p. p[idx := v idx]) xs p) = length p" for xs v and p :: "i32 list"
    by (induction xs arbitrary: p) auto
  have "settings k = settings m" using motion_frame_homing_rounds [OF k(1)] by (simp add: motion_frame_def)
  then show ?thesis
  proof (cases ok)
    case True
    have "sys_position m' = sys_position (homing_set_positions cm k)" "sys_step_control (sys m') = STEP_CONTROL_NORMAL_OP"
      using k(2) True by simp_all
    moreover have "length (sys_position (homing_set_positions cm k)) = length (sys_position k)"
      by (simp add: homing_set_positions_def l)
    ultimately show ?thesis using set_positions_result [of _ cm k] \<open>settings k = settings m\<close> by simp
  qed (use homing_rounds_failed [OF k(1)] k(2) in simp)
qed

end
