(* ===== verification/Gcode_Facts.thy ===== *)
theory Gcode_Facts
  imports Gcode_Exec Motion_Facts Settings_Facts
begin

text \<open>
  The g-code parser: reading a line is the same as splitting it into words and interpreting them
  one after the other, so it always ends; a value letter with a flag is used at most once; a block
  that is refused changes nothing; and the modes of the parser stay in their ranges.
\<close>

lemma ch_eq [simp]: "ch c = ch d \<longleftrightarrow> c = d"
proof
  assume "ch c = ch d"
  then have "unat (of_nat (of_char c) :: u8) = unat (of_nat (of_char d) :: u8)"
    by (simp add: ch_def of_nat_of_char)
  moreover have "unat (of_nat (of_char k) :: u8) = of_char k" for k :: char
    by (simp only: unsigned_of_nat) (simp add: take_bit_nat_eq_self)
  ultimately show "c = d" by simp
qed simp

section \<open>The words of a line\<close>

text \<open>The reference reading of a line: its words from position \<open>i\<close> on, and the error that ends
  them, if any. \<open>n\<close> bounds their number.\<close>

fun words_of :: "nat \<Rightarrow> line \<Rightarrow> nat \<Rightarrow> (u8 \<times> f32) list \<times> u8 option" where
  "words_of 0 line i = ([], None)"
| "words_of (Suc n) line i =
     (let letter = char_at line i in
      if letter = 0 then ([], None)
      else if letter \<notin> {ch CHR ''A''..ch CHR ''Z''} then ([], Some STATUS_EXPECTED_COMMAND_LETTER)
      else (case read_float line (i + 1) of
              None \<Rightarrow> ([], Some STATUS_BAD_NUMBER_FORMAT)
            | Some (x, j) \<Rightarrow> map_prod (Cons (letter, x)) id (words_of n line j)))"

text \<open>Interpreting words one after the other, until one is refused.\<close>

primrec fold_words :: "(u8 \<times> f32) list \<Rightarrow> parse_t \<Rightarrow> u8 + parse_t" where
  "fold_words [] ps = Inr ps"
| "fold_words (w # ws) ps = bindE (parse_word (fst w) (snd w) ps) (fold_words ws)"

definition ended_by :: "u8 option \<Rightarrow> parse_t \<Rightarrow> u8 + parse_t" where
  "ended_by err ps = (case err of None \<Rightarrow> Inr ps | Some code \<Rightarrow> Inl code)"

definition parse_reference :: "line \<Rightarrow> parser_state_t \<Rightarrow> u8 + parse_t" where
  "parse_reference line gs =
     (let ps = parse_init line gs;
          start = (if char_at line 0 = ch CHR ''$'' then 3 else 0);
          (ws, err) = words_of (length line) line start
      in bindE (fold_words ws ps) (ended_by err))"

lemma parse_words_eq:
  assumes "length line < 256" "length line \<le> n + i"
  shows "parse_words line i ps =
    Some (bindE (fold_words (fst (words_of n line i)) ps) (ended_by (snd (words_of n line i))))"
  using assms(2)
proof (induction n arbitrary: i ps)
  case 0
  then have "char_at line i = 0" by (simp add: char_at_def)
  then show ?case by (subst parse_words.simps) (simp add: ended_by_def)
next
  case (Suc n)
  let ?c = "char_at line i"
  consider "?c = 0" | "?c \<noteq> 0" "?c \<notin> {ch CHR ''A''..ch CHR ''Z''}" | "?c \<noteq> 0" "?c \<in> {ch CHR ''A''..ch CHR ''Z''}" by blast
  then show ?case
  proof cases
    case 1
    then show ?thesis by (subst parse_words.simps) (simp add: ended_by_def)
  next
    case 2
    then show ?thesis by (subst parse_words.simps) (auto simp: ended_by_def not_le Let_def)
  next
    case 3
    then have "i < length line" by (auto simp: char_at_def split: if_splits)
    then have i: "(i + 1) mod 256 = i + 1" using assms(1) by simp
    show ?thesis
    proof (cases "read_float line (i + 1)")
      case None
      then show ?thesis using 3 i by (subst parse_words.simps) (auto simp: ended_by_def Let_def not_less [symmetric])
    next
      case (Some r)
      obtain x j where r: "r = (x, j)" by (cases r)
      have "length line \<le> n + j" using read_float_progress [OF assms(1)] Some r Suc.prems by fastforce
      then have ih: "parse_words line j ps =
          Some (bindE (fold_words (fst (words_of n line j)) ps) (ended_by (snd (words_of n line j))))" for ps
        by (rule Suc.IH)
      have "parse_words line i ps = (case parse_word ?c x ps of Inl code \<Rightarrow> Some (Inl code) | Inr ps \<Rightarrow> parse_words line j ps)"
        using 3 i Some r by (subst parse_words.simps) (auto simp: Let_def not_less [symmetric])
      then show ?thesis
        using 3 Some r ih by (cases "parse_word ?c x ps") (simp_all add: Let_def)
    qed
  qed
qed

lemma parse_line_eq:
  assumes "length line < 256"
  shows "parse_line line gs = Some (parse_reference line gs)"
proof -
  have "ps_flags (parse_init line gs) AND GC_PARSER_JOG_MOTION \<noteq> 0 \<longleftrightarrow> char_at line 0 = ch CHR ''$''"
    by (simp add: parse_init_def Let_def)
  then show ?thesis
    using parse_words_eq [OF assms, of "length line"] by (simp add: parse_line_def parse_reference_def Let_def case_prod_beta)
qed


section \<open>Repeated words\<close>

lemma bit_mark_word: "bit (mark_word ws (int_bit k)) j \<longleftrightarrow> bit ws j \<or> j = k \<and> k < 16"
  using bit_imp_le_length [of ws j] by (auto simp: mark_word_def int_bit_def bit_simps)

lemma bit_word_seen: "word_seen ws (int_bit k) \<longleftrightarrow> bit ws k"
proof -
  have "word_seen ws (int_bit k) \<longleftrightarrow> bit (ucast ws :: i32) k"
    by (simp add: word_seen_def int_bit_def bit_iff_and_push_bit_not_eq_0)
  also have "\<dots> \<longleftrightarrow> bit ws k"
    using bit_imp_le_length [of ws k] by (auto simp: bit_simps)
  finally show ?thesis .
qed

text \<open>The flag of a value letter.\<close>

definition word_index :: "u8 \<Rightarrow> nat" where
  "word_index letter = the (map_of [(ch CHR ''A'', WORD_A), (ch CHR ''B'', WORD_B), (ch CHR ''C'', WORD_C),
     (ch CHR ''D'', WORD_D), (ch CHR ''E'', WORD_E), (ch CHR ''F'', WORD_F), (ch CHR ''I'', WORD_I), (ch CHR ''J'', WORD_J),
     (ch CHR ''K'', WORD_K), (ch CHR ''L'', WORD_L), (ch CHR ''N'', WORD_N), (ch CHR ''P'', WORD_P), (ch CHR ''R'', WORD_R),
     (ch CHR ''S'', WORD_S), (ch CHR ''T'', WORD_T), (ch CHR ''X'', WORD_X), (ch CHR ''Y'', WORD_Y), (ch CHR ''Z'', WORD_Z)] letter)"

lemma word_fields [simp]:
  "ps_word_bit (axis_word b a x ps) = b" "ps_value_words (axis_word b a x ps) = ps_value_words ps"
  "ps_word_bit (ijk_word b a x ps) = b" "ps_value_words (ijk_word b a x ps) = ps_value_words ps"
  "ps_word_bit (value_word b f ps) = b" "ps_value_words (value_word b f ps) = ps_value_words ps"
  by (simp_all add: axis_word_def ijk_word_def value_word_def)

lemma store_word_index:
  "store_word letter x i ps = Inr ps' \<Longrightarrow> ps_word_bit ps' = word_index letter \<and> ps_value_words ps' = ps_value_words ps"
proof -
  let ?P = "\<lambda>r. r = Inr ps' \<longrightarrow> ps_word_bit ps' = word_index letter \<and> ps_value_words ps' = ps_value_words ps"
  have i: "?P (if c then a else b)" if "c \<Longrightarrow> ?P a" "\<not> c \<Longrightarrow> ?P b" for c a b using that by simp
  have "?P (store_word letter x i ps)"
    unfolding store_word_def by (intro i) (auto simp: word_index_def)
  then show "store_word letter x i ps = Inr ps' \<Longrightarrow> ps_word_bit ps' = word_index letter \<and> ps_value_words ps' = ps_value_words ps" by blast
qed


text \<open>Only a value word marks a value letter, and each at most once; D and E have no flag.\<close>

lemma g_command_words:
  "g_command i mantissa ps = Inr (mantissa', ps') \<Longrightarrow> ps_value_words ps' = ps_value_words ps"
proof -
  let ?P = "\<lambda>r. r = Inr (mantissa', ps') \<longrightarrow> ps_value_words ps' = ps_value_words ps"
  have i: "?P (if c then a else b)" if "c \<Longrightarrow> ?P a" "\<not> c \<Longrightarrow> ?P b" for c a b using that by simp
  have 1: "?P (g_non_modal i mantissa ps)" "?P (g_motion i mantissa ps)" "?P (g_distance i mantissa ps)"
    "?P (g_tool_length i mantissa ps)"
    by (auto simp: g_non_modal_def g_motion_def g_distance_def g_tool_length_def Let_def)
  have "?P (g_command i mantissa ps)"
    unfolding g_command_def Let_def by (intro i 1) auto
  then show "g_command i mantissa ps = Inr (mantissa', ps') \<Longrightarrow> ps_value_words ps' = ps_value_words ps" by blast
qed

lemma command_words_kept:
  assumes "parse_word letter x ps = Inr ps'" "letter = ch CHR ''G'' \<or> letter = ch CHR ''M''"
  shows "ps_value_words ps' = ps_value_words ps"
proof -
  have m: "ps_value_words (m_command i ps) = ps_value_words ps" for i
    by (simp add: m_command_def Let_def)
  show ?thesis
    using assms m g_command_words [of "word_int x" "word_mantissa x" ps]
    by (auto simp: parse_word_def Let_def g_word_def m_word_def mark_command_def bindE_Inr_iff)
qed

lemma value_word_once:
  assumes "parse_word letter x ps = Inr ps'" "letter \<noteq> ch CHR ''G''" "letter \<noteq> ch CHR ''M''"
  shows "\<not> bit (ps_value_words ps) (word_index letter)"
    "bit (ps_value_words ps') j \<longleftrightarrow> bit (ps_value_words ps) j \<or> j = word_index letter \<and> j < 16"
proof -
  obtain q where "store_word letter x (word_int x) ps = Inr q" "\<not> word_seen (ps_value_words q) (int_bit (ps_word_bit q))"
    "ps_value_words ps' = mark_word (ps_value_words q) (int_bit (ps_word_bit q))"
    using assms by (auto simp: parse_word_def other_word_def Let_def bindE_Inr_iff)
  then show "\<not> bit (ps_value_words ps) (word_index letter)"
    "bit (ps_value_words ps') j \<longleftrightarrow> bit (ps_value_words ps) j \<or> j = word_index letter \<and> j < 16"
    using store_word_index [of letter x "word_int x" ps q] by (auto simp: bit_word_seen bit_mark_word)
qed

text \<open>The letters of value words that have a flag of their own.\<close>

definition flagged :: "u8 \<Rightarrow> bool" where
  "flagged letter \<longleftrightarrow> letter \<notin> {ch CHR ''G'', ch CHR ''M'', ch CHR ''D'', ch CHR ''E''}"

lemma store_word_letter:
  assumes "store_word letter x i ps = Inr ps'" "flagged letter"
  shows "word_index letter < 16"
proof -
  let ?P = "\<lambda>r. r = Inr ps' \<longrightarrow> word_index letter < 16"
  have i: "?P (if c then a else b)" if "c \<Longrightarrow> ?P a" "\<not> c \<Longrightarrow> ?P b" for c a b using that by simp
  have "?P (store_word letter x i ps)"
    unfolding store_word_def by (intro i) (use assms(2) in \<open>auto simp: word_index_def flagged_def\<close>)
  then show ?thesis using assms(1) by blast
qed

lemma fold_words_once:
  assumes "fold_words ws ps = Inr ps'"
  shows "distinct (filter flagged (map fst ws)) \<and>
    (\<forall>l\<in>set (map fst ws). flagged l \<longrightarrow> \<not> bit (ps_value_words ps) (word_index l))"
  using assms
proof (induction ws arbitrary: ps)
  case (Cons w ws)
  obtain q where q: "parse_word (fst w) (snd w) ps = Inr q" "fold_words ws q = Inr ps'"
    using Cons.prems by (auto simp: bindE_Inr_iff)
  note ih = Cons.IH [OF q(2)]
  have mono: "bit (ps_value_words q) j" if "bit (ps_value_words ps) j" for j
    using command_words_kept [OF q(1)] value_word_once(2) [OF q(1)] that by metis
  have "bit (ps_value_words q) (word_index (fst w)) \<and> \<not> bit (ps_value_words ps) (word_index (fst w))" if "flagged (fst w)"
  proof -
    have n: "fst w \<noteq> ch CHR ''G''" "fst w \<noteq> ch CHR ''M''" using that by (auto simp: flagged_def)
    then have "word_index (fst w) < 16"
      using q(1) store_word_letter [OF _ that] by (auto simp: parse_word_def other_word_def Let_def bindE_Inr_iff)
    then show ?thesis using value_word_once [OF q(1) n] by blast
  qed
  then show ?case using ih mono by auto
qed simp

lemma unflagged_repeat:
  assumes "letter \<in> {ch CHR ''D'', ch CHR ''E''}"
  shows "\<exists>ps'. parse_word letter x ps = Inr ps'"
proof -
  obtain k where k: "store_word letter x i ps = Inr (axis_word (if letter = ch CHR ''D'' then WORD_D else WORD_E) k x ps)" for i
    using assms by (auto simp: store_word_def)
  have "int_bit 16 AND (int_bit WORD_F OR int_bit WORD_N OR int_bit WORD_P OR int_bit WORD_T OR int_bit WORD_S) = 0"
    "int_bit 17 AND (int_bit WORD_F OR int_bit WORD_N OR int_bit WORD_P OR int_bit WORD_T OR int_bit WORD_S) = 0"
    by code_simp+
  moreover have "\<not> bit (w :: u16) 16" "\<not> bit (w :: u16) 17" for w
    using bit_imp_le_length [of w] by force+
  ultimately show ?thesis
    using assms by (auto simp: parse_word_def other_word_def k Let_def fail_if_def bit_word_seen)
qed

section \<open>A refused block changes nothing\<close>

lemma read_coord_ok:
  assumes "settings_read_coord_data sel m = Some (True, d, m')"
  shows "m' = m" "length d = N_AXIS"
  using assms
  by (auto simp: settings_read_coord_data_def settings_read_coord_data_into_def floats_at_def Let_def
      split: prod.splits bool.splits)

lemma read_coord_inert:
  assumes "map_option (\<lambda>(ok, d, m). (if ok then Inr (f d) else Inl STATUS_SETTING_READ_FAIL, m)) (settings_read_coord_data sel m) = Some (r, m')"
  shows "r = Inl STATUS_SETTING_READ_FAIL \<or> m' = m"
  using assms by (auto split: if_splits dest: read_coord_ok)

lemma check_coord_system_inert:
  assumes "check_coord_system ps m = Some (r, m')"
  shows "r = Inl STATUS_SETTING_READ_FAIL \<or> m' = m"
  using assms read_coord_inert [where f = id] by (fastforce simp: check_coord_system_def Let_def split: if_splits)

lemma check_non_modal_inert:
  assumes "check_non_modal bcs ps m = Some (r, m')"
  shows "r = Inl STATUS_SETTING_READ_FAIL \<or> m' = m"
proof -
  have g: "r = Inl STATUS_SETTING_READ_FAIL \<or> m' = m" if "check_g10 q m = Some (r, m')" for q
    using that by (auto simp: check_g10_def split: sum.splits if_splits dest: read_coord_ok)
  have h: "a = Inl STATUS_SETTING_READ_FAIL \<or> m' = m" if "check_go_home sel q m = Some (a, m')" for sel q a
    using that by (auto simp: check_go_home_def split: if_splits dest: read_coord_ok)
  show ?thesis
    using assms unfolding check_non_modal_def Let_def
    by (auto split: if_splits dest!: h dest: g)
qed

lemma check_block_inert:
  assumes "check_block ps m = Some (r, m')"
  shows "r = Inl STATUS_SETTING_READ_FAIL \<or> m' = m"
  using assms
  by (auto simp: check_block_def split: sum.splits option.splits dest!: check_coord_system_inert check_non_modal_inert)

lemma exec_jog_inert:
  assumes "exec_jog ps m = Some (code, m')"
  shows "code = STATUS_OK \<or> m' = m"
proof -
  have "code = STATUS_OK \<or> k = m" if "jog_execute pld v m = Some (code, k)" for pld v k
    using that by (auto simp: jog_execute_def Let_def split: if_splits option.splits)
  then show ?thesis
    using assms by (auto simp: exec_jog_def Let_def split: if_splits)
qed

lemma execute_block_code:
  assumes "execute_block lm bcs sel ps m = Some (code, m')"
  shows "code \<in> {STATUS_OK, STATUS_SETTING_READ_FAIL}"
  using assms
  by (auto simp: execute_block_def exec_program_flow_def Let_def bind_eq_Some_conv split: if_splits option.splits)

lemma execute_line_inert:
  assumes "gc_execute_line lm line m = Some (code, m')"
  shows "code \<in> {STATUS_OK, STATUS_SETTING_READ_FAIL} \<or> m' = m"
proof -
  have j: "code = STATUS_OK \<or> m' = k" if "exec_jog ps k = Some (code, m')" for ps k using exec_jog_inert [OF that] .
  have b: "code = STATUS_OK \<or> code = STATUS_SETTING_READ_FAIL" if "execute_block lm bcs sel ps k = Some (code, m')" for bcs sel ps k
    using execute_block_code [OF that] by simp
  show ?thesis
    using assms
    by (auto simp: gc_execute_line_def split: option.splits sum.splits if_splits dest!: check_block_inert j b)
qed

section \<open>The modes of the parser\<close>

text \<open>Every mode has a value the parser knows; the spindle is always disabled, as the commands
  that would enable it are commented out in the source.\<close>

definition modal_ok :: "gc_modal_t \<Rightarrow> bool" where
  "modal_ok k \<longleftrightarrow>
     gm_motion k \<in> {MOTION_MODE_SEEK, MOTION_MODE_LINEAR, MOTION_MODE_CW_ARC, MOTION_MODE_CCW_ARC, MOTION_MODE_PROBE_TOWARD,
       MOTION_MODE_PROBE_TOWARD_NO_ERROR, MOTION_MODE_PROBE_AWAY, MOTION_MODE_PROBE_AWAY_NO_ERROR, MOTION_MODE_NONE}
     \<and> gm_feed_rate k \<in> {0, 1} \<and> gm_units k \<in> {0, 1} \<and> gm_distance k \<in> {0, 1} \<and> gm_plane_select k \<in> {0, 1, 2}
     \<and> gm_tool_length k \<in> {0, 1} \<and> gm_coord_select k \<in> {0, 1, 2, 3, 4, 5}
     \<and> gm_program_flow k \<in> {PROGRAM_FLOW_RUNNING, PROGRAM_FLOW_PAUSED, PROGRAM_FLOW_COMPLETED_M2, PROGRAM_FLOW_COMPLETED_M30}
     \<and> gm_coolant k \<in> {COOLANT_DISABLE, COOLANT_FLOOD_ENABLE} \<and> gm_spindle k = SPINDLE_DISABLE"

definition gc_ok :: "machine \<Rightarrow> bool" where
  "gc_ok m \<longleftrightarrow> modal_ok (gs_modal (gc_state m)) \<and> length (gs_position (gc_state m)) = N_AXIS
     \<and> length (gs_coord_system (gc_state m)) = N_AXIS \<and> length (gs_coord_offset (gc_state m)) = N_AXIS"

lemma gc_ok_frame:
  assumes "motion_frame m m'" "gc_ok m"
  shows "gc_ok m'"
proof -
  have f: "gc_fixed (gc_state m') = gc_fixed (gc_state m)" "coolant_ok m \<longrightarrow> coolant_ok m'" "position_ok m \<longrightarrow> position_ok m'"
    using assms(1) by (simp_all add: motion_frame_def)
  have "gs_coord_system (gc_state m') = gs_coord_system (gc_state m)" "gs_coord_offset (gc_state m') = gs_coord_offset (gc_state m)"
    "(gs_modal (gc_state m'))\<lparr>gm_coolant := 0\<rparr> = (gs_modal (gc_state m))\<lparr>gm_coolant := 0\<rparr>"
    using arg_cong [OF f(1), of gs_coord_system] arg_cong [OF f(1), of gs_coord_offset] arg_cong [OF f(1), of gs_modal]
    by (simp_all add: gc_fixed_def)
  moreover from this(3) have "f ((gs_modal (gc_state m'))\<lparr>gm_coolant := 0\<rparr>) = f ((gs_modal (gc_state m))\<lparr>gm_coolant := 0\<rparr>)" for f :: "gc_modal_t \<Rightarrow> u8"
    by simp
  from this [of gm_motion] this [of gm_feed_rate] this [of gm_units] this [of gm_distance] this [of gm_plane_select]
    this [of gm_tool_length] this [of gm_coord_select] this [of gm_program_flow] this [of gm_spindle]
  have "modal_ok (gs_modal (gc_state m'))" if "modal_ok (gs_modal (gc_state m))"
    using that f(2) by (simp add: modal_ok_def coolant_ok_def)
  ultimately show ?thesis using assms(2) f(3) by (simp add: gc_ok_def position_ok_def)
qed

text \<open>What holds of a result unless it is an error.\<close>

definition okE :: "('a \<Rightarrow> bool) \<Rightarrow> 'e + 'a \<Rightarrow> bool" where
  "okE P r \<longleftrightarrow> (\<forall>x. r = Inr x \<longrightarrow> P x)"

lemma okE_rules:
  "okE P r \<Longrightarrow> okE P (fail_if c code r)" "P x \<Longrightarrow> okE P (Inr x)" "okE P (Inl e)"
  by (auto simp: okE_def fail_if_def)

lemma okE_bind: "okE Q r \<Longrightarrow> (\<And>x. Q x \<Longrightarrow> okE P (f x)) \<Longrightarrow> okE P (bindE r f)"
  by (auto simp: okE_def bindE_Inr_iff)

lemma okE_if: "(c \<Longrightarrow> okE P a) \<Longrightarrow> (\<not> c \<Longrightarrow> okE P b) \<Longrightarrow> okE P (if c then a else b)"
  by simp

lemma okE_fail: "(\<not> c \<Longrightarrow> okE P r) \<Longrightarrow> okE P (fail_if c code r)"
  by (simp add: okE_def fail_if_def)

definition ps_ok :: "parse_t \<Rightarrow> bool" where
  "ps_ok ps \<longleftrightarrow> modal_ok (ps_modal ps) \<and> length (gv_xyz (ps_values ps)) = N_AXIS \<and> length (gv_ijk (ps_values ps)) = N_AXIS"

lemma ps_ok_same:
  "ps_ok ps \<Longrightarrow> ps_block q = ps_block ps \<Longrightarrow> ps_ok q"
  by (simp add: ps_ok_def)

lemma ps_ok_modal:
  "ps_ok ps \<Longrightarrow> modal_ok (f (ps_modal ps)) \<Longrightarrow> ps_ok (upd_modal f ps)"
  by (simp add: ps_ok_def)

lemma ps_ok_init: "modal_ok (gs_modal gs) \<Longrightarrow> ps_ok (parse_init line gs)"
  by (simp add: ps_ok_def parse_init_def modal_ok_def Let_def gc_values0_def)

lemma modal_ok_updates:
  "modal_ok k \<Longrightarrow> v \<in> {0, 1, 2, 3, 80, 140, 141, 142, 143} \<Longrightarrow> modal_ok (k\<lparr>gm_motion := v\<rparr>)"
  "modal_ok k \<Longrightarrow> v \<in> {0, 1} \<Longrightarrow> modal_ok (k\<lparr>gm_feed_rate := v\<rparr>)"
  "modal_ok k \<Longrightarrow> v \<in> {0, 1} \<Longrightarrow> modal_ok (k\<lparr>gm_units := v\<rparr>)"
  "modal_ok k \<Longrightarrow> v \<in> {0, 1} \<Longrightarrow> modal_ok (k\<lparr>gm_distance := v\<rparr>)"
  "modal_ok k \<Longrightarrow> v \<in> {0, 1, 2} \<Longrightarrow> modal_ok (k\<lparr>gm_plane_select := v\<rparr>)"
  "modal_ok k \<Longrightarrow> v \<in> {0, 1} \<Longrightarrow> modal_ok (k\<lparr>gm_tool_length := v\<rparr>)"
  "modal_ok k \<Longrightarrow> v \<in> {0, 1, 2, 3, 4, 5} \<Longrightarrow> modal_ok (k\<lparr>gm_coord_select := v\<rparr>)"
  "modal_ok k \<Longrightarrow> v \<in> {0, 2, 3, 30} \<Longrightarrow> modal_ok (k\<lparr>gm_program_flow := v\<rparr>)"
  "modal_ok k \<Longrightarrow> v \<in> {0, COOLANT_FLOOD_ENABLE} \<Longrightarrow> modal_ok (k\<lparr>gm_coolant := v\<rparr>)"
  "modal_ok k \<Longrightarrow> v = 0 \<Longrightarrow> modal_ok (k\<lparr>gm_spindle := v\<rparr>)"
  by (auto simp: modal_ok_def)

lemma modal_ok_values:
  assumes "modal_ok k"
  shows "gm_motion k \<in> {0, 1, 2, 3, 80, 140, 141, 142, 143}" "gm_feed_rate k \<in> {0, 1}" "gm_units k \<in> {0, 1}"
    "gm_distance k \<in> {0, 1}" "gm_plane_select k \<in> {0, 1, 2}" "gm_tool_length k \<in> {0, 1}"
    "gm_coord_select k \<in> {0, 1, 2, 3, 4, 5}" "gm_program_flow k \<in> {0, 2, 3, 30}" "gm_coolant k \<in> {0, COOLANT_FLOOD_ENABLE}"
    "gm_spindle k = 0"
  using assms by (auto simp: modal_ok_def)

text \<open>The block of a parse under the changes the words make.\<close>

lemma ps_ok_fields [simp]:
  "ps_ok (ps\<lparr>ps_word_bit := b\<rparr>) = ps_ok ps" "ps_ok (ps\<lparr>ps_axis_command := c\<rparr>) = ps_ok ps"
  "ps_ok (ps\<lparr>ps_axis_words := w\<rparr>) = ps_ok ps" "ps_ok (ps\<lparr>ps_ijk_words := w\<rparr>) = ps_ok ps"
  "ps_ok (ps\<lparr>ps_command_words := cw\<rparr>) = ps_ok ps" "ps_ok (ps\<lparr>ps_value_words := cw\<rparr>) = ps_ok ps"
  "ps_ok (ps\<lparr>ps_flags := c\<rparr>) = ps_ok ps" "ps_ok (upd_block (\<lambda>b. b\<lparr>gb_non_modal_command := g b\<rparr>) ps) = ps_ok ps"
  by (simp_all add: ps_ok_def)

lemma ps_ok_dest: "ps_ok ps \<Longrightarrow> modal_ok (ps_modal ps)"
  by (simp add: ps_ok_def)

lemma g_command_ok:
  assumes "ps_ok ps"
  shows "okE (\<lambda>r. ps_ok (snd r)) (g_command i mantissa ps)"
proof -
  note u = modal_ok_updates [OF ps_ok_dest [OF assms]]
  have 1: "okE (\<lambda>r. ps_ok (snd r)) (g_non_modal i mantissa ps)"
    unfolding g_non_modal_def Let_def
    by (intro okE_rules(1-3) okE_if) (use assms in \<open>simp_all add: ps_ok_def\<close>)
  have m: "38 + ucast (mantissa div 10 + 100) \<in> {0, 1, 2, 3, 80, 140, 141, 142, 143 :: u8}" if "\<not> mantissa \<notin> {20, 30, 40, 50}"
    using that by auto
  have 2: "okE (\<lambda>r. ps_ok (snd r)) (g_motion i mantissa ps)" if i: "i \<in> {0, 1, 2, 3, 38, 80}"
  proof (cases "i = 38")
    case True
    have "modal_ok ((ps_modal ps)\<lparr>gm_motion := 38 + ucast (mantissa div 10 + 100)\<rparr>)" if "\<not> mantissa \<notin> {20, 30, 40, 50}"
      by (rule u(1) [OF m [OF that]])
    then show ?thesis
      unfolding g_motion_def Let_def True
      by (intro okE_fail okE_rules(2-3) okE_if) (use assms in \<open>simp_all add: ps_ok_def\<close>)
  next
    case False
    then have "modal_ok ((ps_modal ps)\<lparr>gm_motion := i\<rparr>)" using i by (intro u(1)) auto
    then show ?thesis
      unfolding g_motion_def Let_def
      by (intro okE_fail okE_rules(2-3) okE_if) (use assms False in \<open>auto simp: ps_ok_def\<close>)
  qed
  have d: "modal_ok ((ps_modal ps)\<lparr>gm_distance := i - 90\<rparr>)" if "i \<in> {90, 91}" by (rule u(4)) (use that in auto)
  have 3: "okE (\<lambda>r. ps_ok (snd r)) (g_distance i mantissa ps)" if "i \<in> {90, 91}"
    unfolding g_distance_def Let_def
    by (intro okE_rules(1-3) okE_if) (use assms d [OF that] in \<open>simp_all add: ps_ok_def\<close>)
  have 4: "okE (\<lambda>r. ps_ok (snd r)) (g_tool_length i mantissa ps)"
    unfolding g_tool_length_def Let_def
    by (intro okE_rules(1-3) okE_if) (use assms u(6) [of 0] u(6) [of 1] in \<open>simp_all add: ps_ok_def\<close>)
  have 5: "modal_ok ((ps_modal ps)\<lparr>gm_plane_select := i - 17\<rparr>)" if "i \<in> {17, 18, 19}" by (rule u(5)) (use that in auto)
  have 6: "modal_ok ((ps_modal ps)\<lparr>gm_feed_rate := 94 - i\<rparr>)" if "i \<in> {93, 94}" by (rule u(2)) (use that in auto)
  have 7: "modal_ok ((ps_modal ps)\<lparr>gm_units := 21 - i\<rparr>)" if "i \<in> {20, 21}" by (rule u(3)) (use that in auto)
  have 8: "modal_ok ((ps_modal ps)\<lparr>gm_coord_select := i - 54\<rparr>)" if "i \<in> {54, 55, 56, 57, 58, 59}" by (rule u(7)) (use that in auto)
  have s: "okE (\<lambda>r. ps_ok (snd r)) (Inr (c, (upd_modal f ps)\<lparr>ps_word_bit := b\<rparr>))" if "modal_ok (f (ps_modal ps))" for c f b
    using assms that by (simp add: okE_def ps_ok_def)
  have t: "okE (\<lambda>r. ps_ok (snd r)) (Inr (c, ps\<lparr>ps_word_bit := b\<rparr>))" for c b
    using assms by (simp add: okE_def ps_ok_def)
  show ?thesis
    unfolding g_command_def Let_def
    by (intro okE_if okE_rules(1,3) 1 2 3 4 s t 5 6 7 8) assumption+
qed

lemma parse_word_ok:
  assumes "ps_ok ps"
  shows "okE ps_ok (parse_word letter x ps)"
proof -
  have m: "okE ps_ok (mark_command q)" if "ps_ok q" for q
    using that by (simp add: mark_command_def okE_def)
  have g: "okE ps_ok (g_word i mantissa ps)" for i mantissa
    unfolding g_word_def by (rule okE_bind [OF g_command_ok [OF assms]]) (simp only: case_prod_beta, intro okE_rules(1) m)
  note u = modal_ok_updates [OF ps_ok_dest [OF assms]]
  have c: "modal_ok ((ps_modal ps)\<lparr>gm_coolant := gm_coolant (ps_modal ps) OR COOLANT_FLOOD_ENABLE\<rparr>)"
    "modal_ok ((ps_modal ps)\<lparr>gm_coolant := COOLANT_DISABLE\<rparr>)"
    by (rule u(9); use modal_ok_values(9) [OF ps_ok_dest [OF assms]] in auto)+
  have "ps_ok (m_command i ps)" for i
    using assms c u(8) [of PROGRAM_FLOW_PAUSED] u(8) [of 2] u(8) [of 30] by (simp add: m_command_def Let_def ps_ok_def)
  then have n: "okE ps_ok (m_word i mantissa ps)" for i mantissa
    unfolding m_word_def by (intro okE_rules(1) m)
  have v: "ps_ok (axis_word b a y ps)" "ps_ok (ijk_word b a y ps)"
    "(\<And>w. gv_xyz (f w) = gv_xyz w) \<Longrightarrow> (\<And>w. gv_ijk (f w) = gv_ijk w) \<Longrightarrow> ps_ok (value_word b f ps)" for a b y f
    using assms by (simp_all add: axis_word_def ijk_word_def value_word_def ps_ok_def)
  have s: "okE ps_ok (store_word letter x i ps)" for i
    unfolding store_word_def by (intro okE_if okE_rules(1-3) v) simp_all
  have o: "okE ps_ok (other_word letter x i ps)" for i
    unfolding other_word_def Let_def
    by (rule okE_bind [OF s]) (simp add: okE_def)
  show ?thesis
    unfolding parse_word_def Let_def by (intro okE_if g n o)
qed

lemma parse_line_ok:
  assumes "modal_ok (gs_modal gs)" "parse_line line gs = Some (Inr ps)"
  shows "ps_ok ps"
proof -
  have "ps_ok q \<longrightarrow> okE ps_ok r" if "parse_words line i q = Some r" for i q r
    using that
  proof (rule parse_words.raw_induct [where P = "\<lambda>_ _ q r. ps_ok q \<longrightarrow> okE ps_ok r", rotated])
    fix loop line i q r
    assume "\<And>line i q r. loop line i q = Some r \<Longrightarrow> ps_ok q \<longrightarrow> okE ps_ok r"
      "(let letter = char_at line i in
        if letter = 0 then Some (Inr q)
        else if letter < ch CHR ''A'' \<or> ch CHR ''Z'' < letter then Some (Inl STATUS_EXPECTED_COMMAND_LETTER)
        else (case read_float line ((i + 1) mod 256) of
                None \<Rightarrow> Some (Inl STATUS_BAD_NUMBER_FORMAT)
              | Some (value, i) \<Rightarrow>
                  (case parse_word letter value q of
                     Inl code \<Rightarrow> Some (Inl code)
                   | Inr q \<Rightarrow> loop line i q))) = Some r"
    then show "ps_ok q \<longrightarrow> okE ps_ok r"
      using parse_word_ok [of q]
      by (auto simp: Let_def okE_rules(2,3) okE_def [of _ "parse_word _ _ _"] split: if_splits option.splits sum.splits)
  qed
  then show ?thesis
    using assms ps_ok_init by (auto simp: parse_line_def Let_def okE_def)
qed

section \<open>The checks keep the block well formed\<close>

lemma length_map_axes [simp]: "length (map_axes P f v) = N_AXIS"
  by (simp add: map_axes_def)

lemma ps_ok_upd:
  "ps_ok ps \<Longrightarrow> length (f (gv_xyz (ps_values ps))) = N_AXIS \<Longrightarrow> ps_ok (upd_xyz f ps)"
  "ps_ok ps \<Longrightarrow> length (f (gv_ijk (ps_values ps))) = N_AXIS \<Longrightarrow> ps_ok (upd_ijk f ps)"
  "ps_ok ps \<Longrightarrow> (\<And>w. gv_xyz (g w) = gv_xyz w) \<Longrightarrow> (\<And>w. gv_ijk (g w) = gv_ijk w) \<Longrightarrow> ps_ok (upd_values g ps)"
  "ps_ok ps \<Longrightarrow> ps_ok (drop_words k ps)"
  by (simp_all add: ps_ok_def upd_xyz_def upd_ijk_def drop_words_def)

lemma ps_ok_parts:
  "ps_ok ps \<Longrightarrow> ps_ok (upd_ijk (\<lambda>ijk. ijk[a := v]) ps)" "ps_ok ps \<Longrightarrow> ps_ok (upd_ijk (map_axes P g) ps)"
  "ps_ok ps \<Longrightarrow> ps_ok (upd_values (\<lambda>w. w\<lparr>gv_r := r\<rparr>) ps)" "ps_ok ps \<Longrightarrow> ps_ok (drop_words k ps)"
  "(c \<Longrightarrow> ps_ok p) \<Longrightarrow> (\<not> c \<Longrightarrow> ps_ok q) \<Longrightarrow> ps_ok (if c then p else q)"
  by (simp_all add: ps_ok_def upd_ijk_def drop_words_def)

lemma ps_ok_lengths:
  "ps_ok ps \<Longrightarrow> length (gv_xyz (ps_values ps)) = N_AXIS" "ps_ok ps \<Longrightarrow> length (gv_ijk (ps_values ps)) = N_AXIS"
  by (simp_all add: ps_ok_def)

lemma check_words_ok:
  assumes "ps_ok ps"
  shows "okE ps_ok (check_words gs ps)"
proof -
  have 0: "okE ps_ok (check_line_number (check_implicit_axis ps))"
    using assms by (simp add: check_line_number_def check_implicit_axis_def okE_def)
  have f: "ps_ok (feed_in_mm q)" if "ps_ok q" for q
    using that by (simp add: feed_in_mm_def ps_ok_upd)
  have 1: "okE ps_ok (check_feed_rate gs q)" if "ps_ok q" for q
    using that f unfolding check_feed_rate_def Let_def by (intro okE_if okE_rules(1-3)) (auto simp: ps_ok_upd)
  have "ps_ok (check_spindle_speed gs q)" if "ps_ok q" for q
    using that by (simp add: check_spindle_speed_def ps_ok_upd)
  then have 2: "okE ps_ok (check_dwell (check_spindle_speed gs q))" if "ps_ok q" for q
    using that unfolding check_dwell_def by (intro okE_if okE_rules(1-3)) (auto simp: ps_ok_upd)
  have 3: "okE ps_ok (check_tool_length (check_units q))" if "ps_ok q" for q
    using that unfolding check_tool_length_def check_units_def by (intro okE_rules(1-3)) (simp add: ps_ok_upd)
  show ?thesis
    unfolding check_words_def
    by (rule okE_bind [OF 0], rule okE_bind [OF 1], assumption, rule okE_bind [OF 2], assumption, rule 3)
qed

lemma check_motion_ok:
  assumes "ps_ok ps"
  shows "okE ps_ok (check_motion gs ps)"
proof -
  have r: "okE ps_ok (arc_by_radius a b x y gs q)" if "ps_ok q" for a b x y q
    using that unfolding arc_by_radius_def Let_def
    by (intro okE_rules(1-3) ps_ok_parts)
  have o: "okE ps_ok (arc_by_offset a b x y q)" if "ps_ok q" for a b x y q
    using that unfolding arc_by_offset_def Let_def
    by (intro okE_rules(1-3) ps_ok_parts)
  have c: "okE ps_ok (check_arc gs q)" if "ps_ok q" for q
    using that unfolding check_arc_def Let_def case_prod_beta
    by (intro okE_rules(1-3) okE_if r o) simp_all
  have p: "okE ps_ok (check_probe gs q)" if "ps_ok q" for q
    using that unfolding check_probe_def Let_def by (intro okE_rules(1-3)) simp
  show ?thesis
    using assms unfolding check_motion_def Let_def by (intro okE_rules(1-3) okE_if c p) simp_all
qed

lemma check_coord_system_ok:
  assumes "check_coord_system ps m = Some (Inr d, m')" "gc_ok m"
  shows "length d = N_AXIS" "m' = m"
proof -
  have "m' = m" using check_coord_system_inert [OF assms(1)] by simp
  then show "m' = m" .
  show "length d = N_AXIS"
    using assms by (auto simp: check_coord_system_def Let_def gc_ok_def split: if_splits dest: read_coord_ok)
qed

lemma check_non_modal_ok:
  assumes "check_non_modal bcs ps m = Some (Inr (sel, q), m')" "ps_ok ps"
  shows "ps_ok q"
proof -
  have t: "ps_ok (compute_target bcs gs ps)" for gs
    using assms(2) by (simp add: compute_target_def ps_ok_upd)
  have 1: "okE (\<lambda>r. ps_ok (snd r)) (g10_check ps)"
    using assms(2) unfolding g10_check_def Let_def by (intro okE_rules(1-3)) (simp add: ps_ok_upd)
  have g: "ps_ok q" if "check_g10 ps m = Some (Inr (sel, q), m')"
    using that 1 by (auto simp: check_g10_def okE_def ps_ok_upd g10_values_def split: sum.splits if_splits)
  have h: "ps_ok q" if "check_go_home k p m = Some (Inr q, m')" "ps_ok p" for k p
    using that by (auto simp: check_go_home_def ps_ok_upd read_coord_ok split: if_splits)
  have i: "ps_ok q" if "check_g92 bcs gs ps = Inr q" for gs
    using that assms(2) by (auto simp: check_g92_def intro: ps_ok_upd)
  have j: "ps_ok q" if "check_g53 p = Inr q" "ps_ok p" for p
    using that by (simp add: check_g53_def)
  have m: "map_sum id (Pair (0 :: u8)) r = Inr (sel, q) \<longleftrightarrow> r = Inr q \<and> sel = 0" for r :: "u8 + parse_t"
    by (cases r) auto
  show ?thesis
    using assms(1) t unfolding check_non_modal_def Let_def
    by (auto simp: m split: if_splits dest: g h [OF _ t] i j [OF _ t])
qed

lemma check_unused_ok: "ps_ok ps \<Longrightarrow> okE ps_ok (check_unused ps)"
  unfolding check_unused_def Let_def by (intro okE_rules(1-3)) (simp add: ps_ok_upd)

lemma check_block_ok:
  assumes "check_block ps m = Some (Inr (bcs, sel, q), m')" "ps_ok ps" "gc_ok m"
  shows "ps_ok q \<and> length bcs = N_AXIS \<and> m' = m"
proof -
  obtain p d p' where p: "check_words (gc_state m) ps = Inr p"
    "check_coord_system p m = Some (Inr bcs, m)" "check_non_modal bcs p m = Some (Inr (sel, d), m)" "m' = m"
    "check_motion (gc_state m) d = Inr p'" "check_unused p' = Inr q"
  proof -
    have r: "map_sum id f r = Inr y \<longleftrightarrow> (\<exists>x. r = Inr x \<and> y = f x)" for f :: "parse_t \<Rightarrow> f32 list \<times> u8 \<times> parse_t" and r :: "u8 + parse_t" and y
      by (cases r) auto
    obtain p where p: "check_words (gc_state m) ps = Inr p" using assms(1) by (auto simp: check_block_def split: sum.splits)
    then obtain c k where k: "check_coord_system p m = Some (Inr c, k)"
      using assms(1) by (auto simp: check_block_def split: sum.splits option.splits)
    then have "k = m" using check_coord_system_inert by fastforce
    moreover have "m' = m" using check_block_inert [OF assms(1)] by simp
    ultimately show thesis
      using assms(1) that p k by (auto simp: check_block_def bindE_Inr_iff r split: sum.splits option.splits)
  qed
  have "ps_ok p" using check_words_ok [OF assms(2)] p(1) by (simp add: okE_def)
  then have "ps_ok d" using check_non_modal_ok p(3) by blast
  then have "ps_ok p'" using check_motion_ok p(5) by (simp add: okE_def)
  then have "ps_ok q" using check_unused_ok p(6) by (simp add: okE_def)
  then show ?thesis using check_coord_system_ok p assms(3) by blast
qed

end
