(* ===== verification/Gcode_Invariant.thy ===== *)
theory Gcode_Invariant
  imports Gcode_Facts
begin

text \<open>
  The invariant of the parser and the settings through the execution of a block and of a whole line:
  every mode keeps a value the parser knows, the vectors keep one component per axis, and soft
  limits are on only with homing. Each item of \<^verbatim>\<open>gc_execute_line\<close> keeps it.
\<close>

section \<open>Executing a block keeps the parser's state well formed\<close>

text \<open>With it the settings, which a block never changes.\<close>

definition prog_ok :: "machine \<Rightarrow> bool" where
  "prog_ok m \<longleftrightarrow> gc_ok m \<and> settings_wf (settings m) \<and> soft_limit_ok (settings m)"

lemma prog_ok_state: "gc_state m' = gc_state m \<Longrightarrow> settings m' = settings m \<Longrightarrow> prog_ok m \<Longrightarrow> prog_ok m'"
  by (simp add: prog_ok_def gc_ok_def)

lemma prog_ok_frame: "motion_frame m m' \<Longrightarrow> prog_ok m \<Longrightarrow> prog_ok m'"
  using gc_ok_frame [of m m'] by (simp add: prog_ok_def motion_frame_def)

lemma prog_ok_rt: "rt_frame m m' \<Longrightarrow> prog_ok m \<Longrightarrow> prog_ok m'"
  using prog_ok_frame motion_frame_rt by blast

lemma prog_ok_upd:
  "prog_ok m \<Longrightarrow> (modal_ok (gc_modal m) \<Longrightarrow> modal_ok (f (gc_modal m))) \<Longrightarrow> prog_ok (upd_gc_modal f m)"
  "prog_ok m \<Longrightarrow> length d = N_AXIS \<Longrightarrow> prog_ok (set_coord_system d m)"
  "prog_ok m \<Longrightarrow> length d = N_AXIS \<Longrightarrow> prog_ok (upd_gc (\<lambda>gs. gs\<lparr>gs_coord_offset := d\<rparr>) m)"
  "prog_ok m \<Longrightarrow> length d = N_AXIS \<Longrightarrow> prog_ok (set_gc_position d m)"
  "prog_ok m \<Longrightarrow> prog_ok (upd_gc (\<lambda>gs. gs\<lparr>gs_line_number := n\<rparr>) m)"
  "prog_ok m \<Longrightarrow> prog_ok (upd_gc (\<lambda>gs. gs\<lparr>gs_feed_rate := x\<rparr>) m)"
  "prog_ok m \<Longrightarrow> prog_ok (upd_gc (\<lambda>gs. gs\<lparr>gs_spindle_speed := x\<rparr>) m)"
  "prog_ok m \<Longrightarrow> prog_ok (upd_gc (\<lambda>gs. gs\<lparr>gs_tool := t\<rparr>) m)"
  "prog_ok m \<Longrightarrow> prog_ok (upd_gc (\<lambda>gs. gs\<lparr>gs_tool_length_offset := x\<rparr>) m)"
  by (simp_all add: prog_ok_def gc_ok_def upd_gc_modal_def upd_gc_def set_coord_system_def set_gc_position_def)

lemma prog_ok_modal: "prog_ok m \<Longrightarrow> modal_ok (gc_modal m)"
  by (simp add: prog_ok_def gc_ok_def)

lemma rt_frame_wco: "system_flag_wco_change m = Some m' \<Longrightarrow> rt_frame m m'"
  by (auto simp: system_flag_wco_change_def intro!: rt_frame_sys dest: rt_frame_synchronize)

lemma prog_ok_wco: "system_flag_wco_change m = Some m' \<Longrightarrow> prog_ok m \<Longrightarrow> prog_ok m'"
  by (rule prog_ok_rt [OF rt_frame_wco])

lemma prog_ok_write_coord:
  assumes "settings_write_coord_data sel d m = Some m'" "prog_ok m"
  shows "prog_ok m'"
proof -
  from assms(1) obtain k where k: "protocol_buffer_synchronize m = Some k"
    "m' = memcpy_to_eeprom (coord_data_addr sel) (floats_bytes d) k" by (rule write_coord_result)
  have "prog_ok k" using prog_ok_rt [OF rt_frame_synchronize [OF k(1)] assms(2)] .
  then show ?thesis by (rule prog_ok_state [rotated 2]) (simp_all add: k(2))
qed

lemma prog_ok_read_coord:
  assumes "settings_read_coord_data_into set_coord_system sel m = Some (ok, d, m')" "prog_ok m"
  shows "prog_ok m'"
proof -
  have "prog_ok (set_coord_system (floats_at bs 0) m)" "prog_ok (set_coord_system (replicate N_AXIS 0) m)" for bs
    using assms(2) by (auto intro!: prog_ok_upd simp: floats_at_def)
  then show ?thesis
    using assms(1) prog_ok_write_coord
    by (auto simp: settings_read_coord_data_into_def Let_def split: prod.splits bool.splits)
qed

lemma prog_ok_accessories:
  assumes "exec_accessories ps m = Some (pld, m')" "ps_ok ps" "prog_ok m"
  shows "prog_ok m'"
proof -
  note v = modal_ok_values [OF ps_ok_dest [OF assms(2)]]
  let ?f = "snd (exec_feed_rate ps plan_line_data0 m)"
  have f: "prog_ok ?f"
    using assms(3) v(2) unfolding exec_feed_rate_def Let_def snd_conv
    by (intro prog_ok_upd modal_ok_updates) auto
  have s: "prog_ok k'" if "exec_spindle_speed ps k = Some k'" "prog_ok k" for k k'
    using that prog_ok_rt [OF rt_frame_spindle_sync]
    by (auto simp: exec_spindle_speed_def Let_def split: if_splits intro!: prog_ok_upd)
  have t: "prog_ok (exec_tool ps k)" if "prog_ok k" for k using that by (simp add: exec_tool_def prog_ok_upd)
  have p: "prog_ok k'" if "exec_spindle ps q k = Some k'" "prog_ok k" for q k k'
    using that prog_ok_rt [OF rt_frame_spindle_sync] v(10)
    by (auto simp: exec_spindle_def Let_def split: if_splits intro!: prog_ok_upd modal_ok_updates(10))
  have c: "prog_ok k'" if "exec_coolant ps k = Some k'" "prog_ok k" for k k'
    using that prog_ok_rt [OF rt_frame_coolant_sync] v(9)
    by (auto simp: exec_coolant_def Let_def split: if_splits intro!: prog_ok_upd modal_ok_updates(9))
  obtain k1 k2 where k: "exec_spindle_speed ps ?f = Some k1"
    "exec_spindle ps (line_spindle_speed ps (fst (exec_feed_rate ps plan_line_data0 m)) k1) (exec_tool ps k1) = Some k2"
    "exec_coolant ps k2 = Some m'"
    using assms(1) by (auto simp: exec_accessories_def Let_def case_prod_beta bind_eq_Some_conv)
  show ?thesis by (rule c [OF k(3) p [OF k(2) t [OF s [OF k(1) f]]]])
qed

lemma prog_ok_selects:
  assumes "ps_ok ps"
  shows "exec_dwell ps m = Some m' \<Longrightarrow> prog_ok m \<Longrightarrow> prog_ok m'" "prog_ok m \<Longrightarrow> prog_ok (exec_plane_units ps m)"
    "exec_tool_length ps m = Some m' \<Longrightarrow> prog_ok m \<Longrightarrow> prog_ok m'" "prog_ok m \<Longrightarrow> prog_ok (exec_distance ps m)"
    "exec_coord_select bcs ps m = Some m' \<Longrightarrow> length bcs = N_AXIS \<Longrightarrow> prog_ok m \<Longrightarrow> prog_ok m'"
proof -
  note v = modal_ok_values [OF ps_ok_dest [OF assms]]
  show "exec_dwell ps m = Some m' \<Longrightarrow> prog_ok m \<Longrightarrow> prog_ok m'"
    using prog_ok_rt [OF rt_frame_dwell] by (auto simp: exec_dwell_def split: if_splits)
  have "modal_ok (k\<lparr>gm_plane_select := gm_plane_select (ps_modal ps), gm_units := gm_units (ps_modal ps)\<rparr>)" if "modal_ok k" for k
    by (intro modal_ok_updates v that)
  then show "prog_ok m \<Longrightarrow> prog_ok (exec_plane_units ps m)" by (simp add: exec_plane_units_def prog_ok_upd)
  show "prog_ok m \<Longrightarrow> prog_ok (exec_distance ps m)"
    unfolding exec_distance_def by (intro prog_ok_upd modal_ok_updates v)
  have l: "prog_ok (upd_gc_modal (\<lambda>k. k\<lparr>gm_tool_length := gm_tool_length (ps_modal ps)\<rparr>) k)" if "prog_ok k" for k
    using that by (intro prog_ok_upd modal_ok_updates v)
  show "exec_tool_length ps m = Some m' \<Longrightarrow> prog_ok m \<Longrightarrow> prog_ok m'"
    using l [of m] prog_ok_wco prog_ok_upd(9) by (auto simp: exec_tool_length_def Let_def split: if_splits)
  have s: "prog_ok (upd_gc_modal (\<lambda>k. k\<lparr>gm_coord_select := gm_coord_select (ps_modal ps)\<rparr>) k)" if "prog_ok k" for k
    using that by (intro prog_ok_upd modal_ok_updates v)
  show "exec_coord_select bcs ps m = Some m' \<Longrightarrow> length bcs = N_AXIS \<Longrightarrow> prog_ok m \<Longrightarrow> prog_ok m'"
    using s [of m] prog_ok_wco prog_ok_upd(2) by (auto simp: exec_coord_select_def Let_def split: if_splits)
qed

lemma prog_ok_mc_line: "mc_line target pld m = Some m' \<Longrightarrow> prog_ok m \<Longrightarrow> prog_ok m'"
  by (rule prog_ok_rt [OF rt_frame_line])

lemma prog_ok_non_modal:
  assumes "exec_non_modal sel ps pld m = Some m'" "ps_ok ps" "prog_ok m"
  shows "prog_ok m'"
proof -
  note l = ps_ok_lengths [OF assms(2)]
  have g: "prog_ok k" if "exec_set_coordinate_data sel ps m = Some k" for k
    using that prog_ok_write_coord assms(3) prog_ok_upd(2) [OF _ l(2)] prog_ok_wco
    by (auto simp: exec_set_coordinate_data_def Let_def split: option.splits if_splits)
  have h: "prog_ok k" if "exec_go_home ps pld m = Some k" for k
    using that prog_ok_mc_line assms(3) prog_ok_upd(4) [OF _ l(2)]
    by (auto simp: exec_go_home_def Let_def split: option.splits if_splits)
  have o: "prog_ok k" if "exec_set_offset d m = Some k" "length d = N_AXIS" for d k
    using that prog_ok_wco prog_ok_upd(3) assms(3) by (auto simp: exec_set_offset_def)
  show ?thesis
    using assms(1,3) prog_ok_write_coord g h o [OF _ l(1)] o [of "replicate N_AXIS 0"]
    by (auto simp: exec_non_modal_def Let_def split: if_splits)
qed

lemma prog_ok_motion:
  assumes "exec_motion lm ps pld m = Some m'" "ps_ok ps" "prog_ok m"
  shows "prog_ok m'"
proof -
  let ?m = "upd_gc_modal (\<lambda>k. k\<lparr>gm_motion := gm_motion (ps_modal ps)\<rparr>) m"
  have m: "prog_ok ?m"
    using assms(3) by (intro prog_ok_upd modal_ok_updates modal_ok_values ps_ok_dest [OF assms(2)])
  have r: "prog_ok k'" if "run_motion lm ps pld k = Some (u, k')" "prog_ok k" for u k k'
    using that prog_ok_mc_line prog_ok_rt [OF rt_frame_arc] prog_ok_frame [OF motion_frame_probe]
    by (auto simp: run_motion_def Let_def split: prod.splits if_splits)
  have p: "prog_ok (set_gc_position (gv_xyz (ps_values ps)) k)" "prog_ok (gc_sync_position k)" if "prog_ok k" for k
    using prog_ok_upd(4) [OF that ps_ok_lengths(1) [OF assms(2)]] prog_ok_rt [OF rt_frame_sync that] by simp_all
  show ?thesis
    using assms(1) m r [OF _ m] p by (auto simp: exec_motion_def Let_def split: if_splits)
qed

lemma modal_ok_reset: "modal_ok k \<Longrightarrow> modal_ok (reset_modes k)"
  unfolding reset_modes_def by (simp add: modal_ok_def)

lemma prog_ok_program_end:
  assumes "program_end m = Some (ok, m')" "prog_ok m"
  shows "prog_ok m'"
proof -
  let ?m = "restore_overrides (upd_gc_modal reset_modes m)"
  have "prog_ok (upd_gc_modal reset_modes m)"
    using assms(2) by (intro prog_ok_upd modal_ok_reset)
  then have m: "prog_ok ?m" by (rule prog_ok_state [rotated 2]) (simp_all add: restore_overrides_def)
  have r: "prog_ok (report x k)" if "prog_ok k" for x k using prog_ok_rt [OF rt_frame_updates(3) that] .
  have s: "prog_ok (report x (coolant_set_state c (spindle_set_state v rpm k)))" if "prog_ok k" for x c v rpm k
    by (intro r prog_ok_rt [OF rt_frame_drivers(4)] prog_ok_rt [OF rt_frame_drivers(3)] that)
  show ?thesis
    using assms(1) m r [OF m] prog_ok_read_coord [OF _ m] s prog_ok_wco
    by (auto simp: program_end_def Let_def split: if_splits option.splits)
qed

lemma prog_ok_program_flow:
  assumes "exec_program_flow ps m = Some (code, m')" "ps_ok ps" "prog_ok m"
  shows "prog_ok m'"
proof -
  let ?m = "upd_gc_modal (\<lambda>k. k\<lparr>gm_program_flow := gm_program_flow (ps_modal ps)\<rparr>) m"
  have m: "prog_ok ?m"
    using assms(3) by (intro prog_ok_upd modal_ok_updates modal_ok_values ps_ok_dest [OF assms(2)])
  have r: "prog_ok (upd_gc_modal (\<lambda>k. k\<lparr>gm_program_flow := PROGRAM_FLOW_RUNNING\<rparr>) k)" if "prog_ok k" for k
    using that by (intro prog_ok_upd modal_ok_updates(8)) simp_all
  have p: "prog_ok k'" if "program_pause k = Some k'" "prog_ok k" for k k'
    using that prog_ok_rt [OF rt_frame_execute] prog_ok_rt [OF rt_frame_updates(4)]
    by (auto simp: program_pause_def split: if_splits)
  show ?thesis
    using assms(1) m r p prog_ok_program_end prog_ok_rt [OF rt_frame_synchronize]
    by (auto simp: exec_program_flow_def Let_def split: if_splits option.splits)
qed

lemma ps_ok_laser: "ps_ok ps \<Longrightarrow> ps_ok (laser_flags old ps)"
  by (simp add: laser_flags_def Let_def)

lemma ps_ok_tool_length: "ps_ok ps \<Longrightarrow> ps_ok (tool_length_xyz ps)"
  by (auto simp: tool_length_xyz_def ps_ok_def upd_xyz_def)

lemma prog_ok_execute_block:
  assumes "execute_block lm bcs sel ps m = Some (code, m')" "ps_ok ps" "length bcs = N_AXIS" "prog_ok m"
  shows "prog_ok m'"
proof -
  define q where "q = (if bit_istrue (flags (settings m)) BITFLAG_LASER_MODE then laser_flags (gc_modal m) ps else ps)"
  have q: "ps_ok q" using assms(2) ps_ok_laser by (simp add: q_def)
  have t: "ps_ok (tool_length_xyz q)" by (rule ps_ok_tool_length [OF q])
  obtain pld a b c d e f where s: "exec_accessories q m = Some (pld, a)" "exec_dwell q a = Some b"
    "exec_tool_length (tool_length_xyz q) (exec_plane_units (tool_length_xyz q) b) = Some c"
    "exec_coord_select bcs (tool_length_xyz q) c = Some d"
    "exec_non_modal sel (tool_length_xyz q) pld (exec_distance (tool_length_xyz q) d) = Some e"
    "exec_motion lm (tool_length_xyz q) (line_non_modal (tool_length_xyz q) pld) e = Some f"
    "exec_program_flow (tool_length_xyz q) f = Some (code, m')"
    using assms(1) unfolding execute_block_def q_def [symmetric] Let_def by (auto simp: bind_eq_Some_conv)
  note g = prog_ok_selects [OF t]
  have "prog_ok b" by (rule prog_ok_selects(1) [OF q s(2) prog_ok_accessories [OF s(1) q assms(4)]])
  then have "prog_ok d" by (intro g(5) [OF s(4) assms(3)] g(3) [OF s(3)] g(2))
  then have "prog_ok e" by (intro prog_ok_non_modal [OF s(5) t] g(4))
  then show ?thesis by (intro prog_ok_program_flow [OF s(7) t] prog_ok_motion [OF s(6) t])
qed

lemma prog_ok_jog:
  assumes "exec_jog ps m = Some (code, m')" "ps_ok ps" "prog_ok m"
  shows "prog_ok m'"
  using assms(1,3) prog_ok_rt [OF rt_frame_jog] prog_ok_upd(4) [OF _ ps_ok_lengths(1) [OF assms(2)]]
  by (auto simp: exec_jog_def Let_def split: if_splits)

lemma prog_ok_check_block:
  assumes "check_block ps m = Some (r, m')" "prog_ok m"
  shows "prog_ok m'"
proof -
  have d: "prog_ok k" if "settings_read_coord_data sel j = Some (ok, x, k)" "prog_ok j" for sel ok x j k
    using that prog_ok_write_coord
    by (auto simp: settings_read_coord_data_def settings_read_coord_data_into_def Let_def split: prod.splits bool.splits)
  have c: "prog_ok k" if "check_coord_system p j = Some (x, k)" "prog_ok j" for p x j k
    using that d by (auto simp: check_coord_system_def Let_def split: if_splits)
  have n: "prog_ok k" if "check_non_modal b p j = Some (x, k)" "prog_ok j" for b p x j k
    using that d unfolding check_non_modal_def Let_def
    by (auto simp: check_g10_def check_go_home_def split: if_splits sum.splits)
  show ?thesis
    using assms by (auto simp: check_block_def split: sum.splits option.splits dest!: c n)
qed

lemma prog_ok_execute_line:
  assumes "gc_execute_line lm line m = Some (code, m')" "prog_ok m"
  shows "prog_ok m'"
proof (cases "parse_line line (gc_state m)")
  case (Some r)
  show ?thesis
  proof (cases r)
    case (Inl c) then show ?thesis using assms Some by (simp add: gc_execute_line_def)
  next
    case (Inr ps)
    have ps: "ps_ok ps" using parse_line_ok [OF prog_ok_modal [OF assms(2)]] Some Inr by simp
    obtain v k where v: "check_block ps m = Some (v, k)"
      using assms(1) Some Inr by (auto simp: gc_execute_line_def split: option.splits)
    have k: "prog_ok k" by (rule prog_ok_check_block [OF v assms(2)])
    show ?thesis
    proof (cases v)
      case (Inl c) then show ?thesis using assms(1) Some \<open>r = Inr ps\<close> v k by (simp add: gc_execute_line_def)
    next
      case R: (Inr x)
      obtain bcs sel q where x: "x = (bcs, sel, q)" by (metis prod_cases3)
      have "gc_ok m" using assms(2) by (simp add: prog_ok_def)
        note b = check_block_ok [OF v [unfolded R x] ps this]
      show ?thesis
        using assms(1) Some Inr v R x b k prog_ok_jog [of q k code m'] prog_ok_execute_block [of lm bcs sel q k code m']
        by (simp add: gc_execute_line_def split: if_splits)
    qed
  qed
qed (use assms in \<open>simp add: gc_execute_line_def\<close>)

lemma prog_ok_init:
  assumes "gc_init m = Some m'" "settings_wf (settings m)" "soft_limit_ok (settings m)"
  shows "prog_ok m'"
proof -
  have i: "prog_ok (m\<lparr>gc_state := parser_state0\<rparr>)"
    using assms(2,3) by (simp add: prog_ok_def gc_ok_def modal_ok_def parser_state0_def gc_modal0_def)
  show ?thesis
    using assms(1) prog_ok_read_coord [OF _ i] prog_ok_rt [OF rt_frame_updates(3)]
    by (auto simp: gc_init_def Let_def split: if_splits)
qed

end
