(* ===== verification/Main_Facts.thy ===== *)
theory Main_Facts
  imports Main_Loop Gcode_Invariant
begin

text \<open>
  The commands and the main loop: a line that is answered with an error has had no effect, the
  line filter keeps what a description of it by strings says, and the main loop is left only by an
  abort.
\<close>

section \<open>A refused line\<close>

text \<open>What a command may have done when it ends.\<close>

definition inert :: "machine \<Rightarrow> (u8 \<times> line \<times> machine) option \<Rightarrow> bool" where
  "inert m r \<longleftrightarrow> (\<forall>code line m'. r = Some (code, line, m') \<longrightarrow> code \<in> {STATUS_OK, STATUS_SETTING_READ_FAIL} \<or> m' = m)"

lemma inert_rules:
  "inert m a \<Longrightarrow> inert m b \<Longrightarrow> inert m (if c then a else b)"
  "inert m (done_with code line m)"
  "inert m (done_with STATUS_OK line k)"
  "inert m (map_option (\<lambda>k. (STATUS_OK, f k, k)) r)"
  by (auto simp: inert_def done_with_def)

lemma inert_ok: "(\<And>code line m'. r = Some (code, line, m') \<Longrightarrow> code = STATUS_OK) \<Longrightarrow> inert m r"
  by (force simp: inert_def)

lemma inert_gcode: "inert m (map_option (\<lambda>(status, k). (status, line, k)) (gc_execute_line lm l m))"
  by (auto simp: inert_def dest: execute_line_inert)

lemma global_setting_inert:
  assumes "settings_store_global_setting parameter x m = Some (code, m')"
  shows "code = STATUS_OK \<or> m' = m"
proof -
  have r: "code = STATUS_OK \<or> m' = m"
    if "(case r of Inl code \<Rightarrow> (code, m) | Inr m \<Rightarrow> (STATUS_OK, write_global_settings m)) = (code, m')" for r
    using that by (cases r) auto
  show ?thesis
    using assms by (auto simp: settings_store_global_setting_def split: if_splits option.splits dest!: r)
qed

lemma inert_store_setting: "inert m (cmd_store_setting parameter pos line m)"
  by (auto simp: inert_def cmd_store_setting_def done_with_def dest: global_setting_inert split: option.splits if_splits)

lemma inert_store_startup: "inert m (cmd_store_startup lm parameter pos line m)"
  by (auto simp: inert_def cmd_store_startup_def done_with_def Let_def
      split: option.splits if_splits dest!: execute_line_inert)

lemma inert_store: "inert m (cmd_store lm startup pos line m)"
  by (auto simp: cmd_store_def inert_store_setting inert_store_startup inert_rules split: option.split)

text \<open>The homing command is the exception.\<close>

definition homing_junk :: "line \<Rightarrow> machine \<Rightarrow> u8 \<Rightarrow> machine \<Rightarrow> bool" where
  "homing_junk line m code m' \<longleftrightarrow> char_at line 1 = ch CHR ''H'' \<and> char_at line 2 \<noteq> 0
     \<and> code = STATUS_INVALID_STATEMENT \<and> m' = set_state STATE_HOMING m"

lemma cmd_home_inert:
  assumes "cmd_home lm line m = Some (code, line', m')"
  shows "code = STATUS_OK \<or> m' = m \<or> char_at line 2 \<noteq> 0 \<and> code = STATUS_INVALID_STATEMENT \<and> m' = set_state STATE_HOMING m"
  using assms by (auto simp: cmd_home_def done_with_def Let_def split: option.splits if_splits)

lemma inert_commands:
  "inert m (cmd_check_mode line m)" "inert m (cmd_unlock line m)" "inert m (cmd_settings client line m)"
  "inert m (cmd_sleep line m)" "inert m (cmd_build_info client line m)" "inert m (cmd_restore line m)"
  "inert m (cmd_startup lm line m)"
  by (auto simp: cmd_check_mode_def cmd_unlock_def cmd_settings_def cmd_sleep_def cmd_build_info_def cmd_restore_def
      cmd_startup_def Let_def case_prod_beta inert_store intro!: inert_rules inert_ok split: option.split prod.split)

lemma idle_command_inert:
  assumes "system_idle_command lm client line m = Some (code, line', m')"
  shows "code \<in> {STATUS_OK, STATUS_SETTING_READ_FAIL} \<or> m' = m \<or> homing_junk line m code m'"
proof -
  have i: "code \<in> {STATUS_OK, STATUS_SETTING_READ_FAIL} \<or> m' = m" if "inert m r" "r = Some (code, line', m')" for r
    using that by (auto simp: inert_def)
  have h: "code \<in> {STATUS_OK, STATUS_SETTING_READ_FAIL} \<or> m' = m \<or> homing_junk line m code m'"
    if "cmd_home lm line m = Some (code, line', m')" "char_at line 1 = ch CHR ''H''"
    using cmd_home_inert [OF that(1)] that(2) by (auto simp: homing_junk_def)
  have n: "inert m (map_option (\<lambda>k. (STATUS_OK, line, k)) (report_ngc_parameters client m))"
    by (rule inert_rules(4))
  show ?thesis
  proof (cases "(sys_state (sys m) = STATE_IDLE \<or> sys_state (sys m) = STATE_ALARM) \<and> char_at line 1 = ch CHR ''H''")
    case True
    then show ?thesis using h assms by (auto simp: system_idle_command_def)
  next
    case False
    then have "inert m (system_idle_command lm client line m)"
      unfolding system_idle_command_def Let_def
      by (auto intro!: inert_rules inert_commands inert_store n)
    then show ?thesis using i assms by blast
  qed
qed

lemma system_line_inert:
  assumes "system_execute_line lm client line m = Some (code, line', m')"
  shows "code \<in> {STATUS_OK, STATUS_SETTING_READ_FAIL} \<or> m' = m \<or> homing_junk line m code m'"
proof -
  have i: "code \<in> {STATUS_OK, STATUS_SETTING_READ_FAIL} \<or> m' = m" if "inert m r" "r = Some (code, line', m')" for r
    using that by (auto simp: inert_def)
  show ?thesis
  proof (cases "system_execute_line lm client line m = system_idle_command lm client line m")
    case True
    then show ?thesis using idle_command_inert [of lm client line m] assms by metis
  next
    case False
    then have "inert m (system_execute_line lm client line m)"
      unfolding system_execute_line_def Let_def
      by (auto intro!: inert_rules inert_commands inert_gcode split: if_splits)
    then show ?thesis using i assms by blast
  qed
qed

lemma line_inert:
  assumes "execute_line lm client line_flags line m = Some (code, line', m')"
  shows "code \<in> {STATUS_OK, STATUS_SETTING_READ_FAIL} \<or> m' = m \<or> char_at line 0 = ch CHR ''$'' \<and> homing_junk line m code m'"
  using assms
  by (auto simp: execute_line_def done_with_def split: if_splits dest!: system_line_inert execute_line_inert)

section \<open>The line filter\<close>

text \<open>What a line is without its comments: from \<^verbatim>\<open>(\<close> to the next \<^verbatim>\<open>)\<close>, and from \<^verbatim>\<open>;\<close> to its end.\<close>

function strip_comments :: "u8 list \<Rightarrow> u8 list" where
  "strip_comments [] = []"
| "strip_comments (c # cs) =
     (if c = ch CHR '';'' then []
      else if c = ch CHR ''('' then strip_comments (tl (dropWhile (\<lambda>d. d \<noteq> ch CHR '')'') cs))
      else c # strip_comments cs)"
  by pat_completeness auto
termination
  by (relation "measure length") (auto intro: le_imp_less_Suc order.trans [OF diff_le_self] length_dropWhile_le)

text \<open>What the filter keeps: printing characters but the slash, in upper case.\<close>

definition kept_chars :: "u8 list \<Rightarrow> u8 list" where
  "kept_chars cs = map upcase (filter (\<lambda>c. ch CHR '' '' < c \<and> c \<noteq> ch CHR ''/'') (strip_comments cs))"

lemma ch_order: "ch CHR '' '' < ch CHR ''('' " "ch CHR '' '' < ch CHR '';''"
  by code_simp+

text \<open>A semicolon comment and an overflow swallow the rest of the line.\<close>

lemma filter_swallow:
  "ln_flags l \<noteq> 0 \<Longrightarrow> ln_flags l AND LINE_FLAG_COMMENT_PARENTHESES = 0 \<Longrightarrow> fold filter_char cs l = l"
  by (induction cs) (auto simp: filter_char_def)

lemma filter_paren:
  "ln_flags l = LINE_FLAG_COMMENT_PARENTHESES \<Longrightarrow>
   fold filter_char cs l = (if ch CHR '')'' \<in> set cs
     then fold filter_char (tl (dropWhile (\<lambda>d. d \<noteq> ch CHR '')'') cs)) (l\<lparr>ln_flags := 0\<rparr>) else l)"
  by (induction cs) (auto simp: filter_char_def)

text \<open>The line buffer after more characters.\<close>

definition filled :: "line_t \<Rightarrow> u8 list \<Rightarrow> line_t \<Rightarrow> bool" where
  "filled l k l' \<longleftrightarrow>
     (let n = unat (ln_count l) in
      unat (ln_count l') = min (n + length k) (LINE_BUFFER_SIZE - 1)
      \<and> length (ln_line l') = LINE_BUFFER_SIZE
      \<and> take (unat (ln_count l')) (ln_line l') = take (LINE_BUFFER_SIZE - 1) (take n (ln_line l) @ k)
      \<and> (ln_flags l' AND LINE_FLAG_OVERFLOW \<noteq> 0 \<longleftrightarrow> LINE_BUFFER_SIZE - 1 < n + length k))"

lemma filled_refl:
  assumes "ln_flags l' AND LINE_FLAG_OVERFLOW = 0" "ln_line l' = ln_line l" "ln_count l' = ln_count l"
    "unat (ln_count l) < LINE_BUFFER_SIZE" "length (ln_line l) = LINE_BUFFER_SIZE"
  shows "filled l [] l'"
  using assms by (cases "unat (ln_count l) = LINE_BUFFER_SIZE - 1") (simp_all add: filled_def Let_def min_def)

lemma filled_Cons:
  assumes "unat (ln_count l) < LINE_BUFFER_SIZE - 1" "length (ln_line l) = LINE_BUFFER_SIZE"
    and "filled (l\<lparr>ln_line := (ln_line l)[unat (ln_count l) := c], ln_count := ln_count l + 1\<rparr>) k l'"
  shows "filled l (c # k) l'"
proof -
  have n: "unat (ln_count l + 1) = Suc (unat (ln_count l))" using assms(1) by (simp add: unat_word_ariths)
  have "take (Suc (unat (ln_count l))) ((ln_line l)[unat (ln_count l) := c]) = take (unat (ln_count l)) (ln_line l) @ [c]"
    using assms(1,2) by (simp add: take_Suc_conv_app_nth)
  moreover define q where "q = l\<lparr>ln_line := (ln_line l)[unat (ln_count l) := c], ln_count := ln_count l + 1\<rparr>"
  then have "ln_count q = ln_count l + 1" "ln_line q = (ln_line l)[unat (ln_count l) := c]" by simp_all
  ultimately have "filled q k l' = filled l (c # k) l'"
    by (simp only: filled_def Let_def n append_assoc append_Cons append_Nil list.size
        add_Suc add_Suc_right add_0_right)
  then show ?thesis using assms(3) [folded q_def] by blast
qed

lemma filter_fills:
  assumes "ln_flags l = 0" "unat (ln_count l) < LINE_BUFFER_SIZE" "length (ln_line l) = LINE_BUFFER_SIZE"
  shows "filled l (kept_chars cs) (fold filter_char cs l)"
  using assms
proof (induction cs arbitrary: l rule: strip_comments.induct)
  case 1
  then show ?case by (simp add: kept_chars_def filled_refl)
next
  case (2 c cs)
  consider "c = ch CHR '';''" | "c = ch CHR ''(''" | "c \<le> ch CHR '' '' \<or> c = ch CHR ''/''"
    | "ch CHR '' '' < c" "c \<notin> {ch CHR '';'', ch CHR ''('', ch CHR ''/''}" by fastforce
  then show ?case
  proof cases
    case 1
    then have "fold filter_char (c # cs) l = l\<lparr>ln_flags := LINE_FLAG_COMMENT_SEMICOLON\<rparr>"
      using "2.prems"(1) ch_order by (simp add: filter_char_def filter_swallow)
    then show ?thesis using 1 "2.prems" by (simp add: kept_chars_def filled_refl)
  next
    case 2
    then have f: "fold filter_char (c # cs) l = fold filter_char cs (l\<lparr>ln_flags := LINE_FLAG_COMMENT_PARENTHESES\<rparr>)"
      using "2.prems"(1) ch_order by (simp add: filter_char_def)
    show ?thesis
    proof (cases "ch CHR '')'' \<in> set cs")
      case True
      let ?r = "tl (dropWhile (\<lambda>d. d \<noteq> ch CHR '')'') cs)"
      have l: "l\<lparr>ln_flags := 0\<rparr> = l" using "2.prems"(1) by (cases l) simp
      have "filled l (kept_chars (c # cs)) (fold filter_char ?r l)"
        using 2 "2.IH"(1) "2.prems" by (simp add: kept_chars_def)
      moreover have "fold filter_char (c # cs) l = fold filter_char ?r (l\<lparr>ln_flags := 0\<rparr>)"
        unfolding f using True filter_paren [of "l\<lparr>ln_flags := LINE_FLAG_COMMENT_PARENTHESES\<rparr>"] by simp
      ultimately show ?thesis by (simp only: l)
    next
      case False
      then have "dropWhile (\<lambda>d. d \<noteq> ch CHR '')'') cs = []" by (simp add: dropWhile_eq_Nil_conv) metis
      then have "kept_chars (c # cs) = []" using 2 by (simp only: kept_chars_def strip_comments.simps if_True if_False) simp
      then show ?thesis using f 2 False "2.prems" by (simp add: filter_paren kept_chars_def filled_refl)
    qed
  next
    case 3
    then have "filter_char c l = l" "c \<noteq> ch CHR '';''" "c \<noteq> ch CHR ''(''"
      using "2.prems"(1) ch_order by (auto simp: filter_char_def)
    then show ?thesis using 3 "2.IH"(2) "2.prems" by (auto simp: kept_chars_def not_less)
  next
    case 4
    then have k: "kept_chars (c # cs) = upcase c # kept_chars cs" by (simp add: kept_chars_def)
    show ?thesis
    proof (cases "LINE_BUFFER_SIZE - 1 \<le> unat (ln_count l)")
      case True
      then have n: "unat (ln_count l) = LINE_BUFFER_SIZE - 1" using "2.prems"(2) by simp
      have "filter_char c l = l\<lparr>ln_flags := LINE_FLAG_OVERFLOW\<rparr>" using 4 True "2.prems"(1) by (auto simp: filter_char_def)
      then have "fold filter_char (c # cs) l = l\<lparr>ln_flags := LINE_FLAG_OVERFLOW\<rparr>" by (simp add: filter_swallow)
      then show ?thesis using n k "2.prems" by (simp add: filled_def)
    next
      case False
      let ?l = "l\<lparr>ln_line := (ln_line l)[unat (ln_count l) := upcase c], ln_count := ln_count l + 1\<rparr>"
      have f: "filter_char c l = ?l" using 4 False "2.prems"(1) by (auto simp: filter_char_def)
      have c: "unat (ln_count l + 1) = unat (ln_count l) + 1" using False by (simp add: unat_word_ariths)
      have "filled ?l (kept_chars cs) (fold filter_char cs ?l)"
        using 4 False c "2.prems" by (intro "2.IH"(2)) simp_all
      then have "filled l (upcase c # kept_chars cs) (fold filter_char cs ?l)"
        using False "2.prems"(3) by (intro filled_Cons) simp_all
      then show ?thesis by (simp add: f k)
    qed
  qed
qed

section \<open>Leaving the main loop\<close>

lemma read_client_aborts:
  "read_client lm client l m = Some (ok, l', m') \<Longrightarrow> ok \<or> sys_abort (sys m')"
proof (erule read_client.raw_induct [where P = "\<lambda>_ _ _ _ r. fst r \<or> sys_abort (sys (snd (snd r)))" and y = "(ok, l', m')", simplified, rotated])
  fix loop lm client l m r
  assume 1: "\<And>lm client l m r. loop lm client l m = Some r \<Longrightarrow> fst r \<or> sys_abort (sys (snd (snd r)))"
    "(case serial_read client m of (c, m) \<Rightarrow>
      if c = SERIAL_NO_DATA then Some (True, l, m)
      else if is_eol c then
        (case protocol_execute_realtime m of None \<Rightarrow> None
         | Some m \<Rightarrow>
             if sys_abort (sys m) then Some (False, l, m)
             else (case end_of_line lm client l m of None \<Rightarrow> None
               | Some (l, m) \<Rightarrow> (case poll m of None \<Rightarrow> None | Some m \<Rightarrow> loop lm client l m)))
      else (case poll m of None \<Rightarrow> None | Some m \<Rightarrow> loop lm client (filter_char c l) m)) = Some r"
  then show "fst r \<or> sys_abort (sys (snd (snd r)))"
    by (auto split: option.splits if_splits prod.splits)
qed

lemma read_clients_abort:
  "read_clients lm cs l m = Some (ok, l', m') \<Longrightarrow> ok \<or> sys_abort (sys m')"
proof (induction cs arbitrary: l m)
  case (Cons client cs)
  obtain b k n where r: "read_client lm client l m = Some (b, k, n)" using Cons.prems by (auto split: option.splits)
  then show ?case using Cons read_client_aborts [OF r] by (auto split: if_splits)
qed simp

lemma main_loop_aborts: "main_loop lm l m = Some m' \<Longrightarrow> sys_abort (sys m')"
proof (erule main_loop.raw_induct [where P = "\<lambda>_ _ _ m'. sys_abort (sys m')", rotated])
  fix loop lm l m m'
  assume "\<And>lm l m m'. loop lm l m = Some m' \<Longrightarrow> sys_abort (sys m')"
    "(case read_clients lm [CLIENT_SERIAL, CLIENT_WEBSOCKET, CLIENT_TELNET] l m of None \<Rightarrow> None
      | Some (ok, l, m) \<Rightarrow>
          if \<not> ok then Some m
          else (case protocol_execute_realtime (protocol_auto_cycle_start m) of None \<Rightarrow> None
            | Some m \<Rightarrow>
                if sys_abort (sys m) then Some m
                else (case poll m of None \<Rightarrow> None | Some m \<Rightarrow> loop lm l m))) = Some m'"
  then show "sys_abort (sys m')"
    by (auto simp del: read_clients.simps split: option.splits if_splits prod.splits dest: read_clients_abort)
qed

end
