(* ===== verification/Main_Invariant.thy ===== *)
theory Main_Invariant
  imports Main_Facts
begin

text \<open>
  The invariant of the parser and the settings through the \<^verbatim>\<open>$\<close> commands, the lines of
  g-code, the reading of the clients and the main loop: whatever arrives, it holds when the main
  loop is left.
\<close>

section \<open>The settings and the store\<close>

lemma gc_ok_state: "gc_state m' = gc_state m \<Longrightarrow> gc_ok m \<Longrightarrow> gc_ok m'"
  by (simp add: gc_ok_def)

lemma store_setting_gc_ok:
  assumes "gc_ok m"
  shows "accepted gc_ok (store_setting parameter value m)"
proof -
  have w: "gc_ok k" if "system_flag_wco_change k' = Some k" "gc_ok k'" for k k'
    using that gc_ok_frame [OF motion_frame_rt [OF rt_frame_wco]] by blast
  have g: "gc_state (st_generate_step_dir_invert_masks k) = gc_state k" for k
    using main_view_invert_masks [of k] by (simp add: main_view_def)
  have s: "gc_ok (upd_settings f k) = gc_ok k" "gc_ok (put_flag b on k) = gc_ok k"
    "gc_ok (st_generate_step_dir_invert_masks k) = gc_ok k" "gc_ok (probe_configure_invert_mask on k) = gc_ok k"
    "gc_ok (limits_init k) = gc_ok k" "gc_ok (spindle_init k) = gc_ok k" for f b on k
    by (simp_all add: gc_ok_def upd_settings_def put_flag_def g
        probe_configure_invert_mask_def limits_init_def limits_disable_def spindle_init_def spindle_stop_def report_def Let_def)
  show ?thesis
    unfolding store_setting_def Let_def
    by (intro accepted_rules(2-4) accepted_if_cond; use assms w in \<open>simp add: s\<close>)
qed

lemma prog_ok_store_global:
  assumes "settings_store_global_setting parameter value m = Some (code, m')" "prog_ok m"
  shows "prog_ok m'"
proof -
  have g: "gc_ok m" "settings_wf (settings m)" "soft_limit_ok (settings m)"
    using assms(2) by (simp_all add: prog_ok_def)
  have w: "gc_ok (write_global_settings k)" if "gc_ok k" for k
    using that by (rule gc_ok_state [rotated]) simp
  have a: "gc_ok (upd_settings f m)" for f
    using g(1) by (rule gc_ok_state [rotated]) (simp add: upd_settings_def)
  have r: "gc_ok m'" if "accepted gc_ok (Some r)" "(case r of Inl code \<Rightarrow> (code, m) | Inr m \<Rightarrow> (STATUS_OK, write_global_settings m)) = (code, m')" for r
    using that g(1) w by (cases r) (auto simp: accepted_def)
  have "gc_ok m'"
    using assms(1) g(1) w [OF a] store_setting_gc_ok [OF g(1), of parameter "value"]
    by (auto simp: settings_store_global_setting_def split: if_splits option.splits intro: r)
  with g store_global_cases [OF assms(1) g(2)] show ?thesis
    unfolding prog_ok_def by (metis write_global_fields(1))
qed

lemma prog_ok_steps:
  "prog_ok m \<Longrightarrow> prog_ok (report r m)" "prog_ok m \<Longrightarrow> prog_ok (set_state st m)" "prog_ok m \<Longrightarrow> prog_ok (mc_reset m)"
  "prog_ok m \<Longrightarrow> prog_ok (st_go_idle m)" "prog_ok m \<Longrightarrow> prog_ok (system_set_exec_state_flag k m)"
  "prog_ok m \<Longrightarrow> prog_ok (memcpy_to_eeprom a bs m)" "prog_ok m \<Longrightarrow> prog_ok (eeprom_put_char a v m)"
  "prog_ok m \<Longrightarrow> prog_ok (write_global_settings m)"
  by (auto intro: prog_ok_rt [of m] prog_ok_state [of _ m])

lemma prog_ok_sync: "protocol_buffer_synchronize m = Some m' \<Longrightarrow> prog_ok m \<Longrightarrow> prog_ok m'"
  by (rule prog_ok_rt [OF rt_frame_synchronize])

lemma prog_ok_store_startup: "settings_store_startup_line n line m = Some m' \<Longrightarrow> prog_ok m \<Longrightarrow> prog_ok m'"
  using prog_ok_sync by (auto simp: settings_store_startup_line_def intro: prog_ok_steps)

lemma prog_ok_read_startup: "settings_read_startup_line n m = Some (ok, line, m') \<Longrightarrow> prog_ok m \<Longrightarrow> prog_ok m'"
  using prog_ok_store_startup
  by (auto simp: settings_read_startup_line_def Let_def split: prod.splits bool.splits)

lemma prog_ok_read_local: "settings_read_coord_data sel m = Some (ok, d, m') \<Longrightarrow> prog_ok m \<Longrightarrow> prog_ok m'"
  using prog_ok_write_coord
  by (auto simp: settings_read_coord_data_def settings_read_coord_data_into_def Let_def split: prod.splits bool.splits)

lemma prog_ok_restore_parameters: "restore_parameters idxs m = Some m' \<Longrightarrow> prog_ok m \<Longrightarrow> prog_ok m'"
  by (induction idxs arbitrary: m) (auto split: option.splits dest: prog_ok_write_coord)

lemma prog_ok_restore:
  assumes "settings_restore restore_flag m = Some m'" "prog_ok m"
  shows "prog_ok m'"
proof -
  have "prog_ok (m\<lparr>settings := default_settings\<rparr>)"
    using assms(2) default_settings_ok by (simp add: prog_ok_def gc_ok_def)
  moreover have "prog_ok (restore_startup_lines k)" "prog_ok (restore_build_info k)" if "prog_ok k" for k
    using that by (simp_all add: restore_startup_lines_def restore_build_info_def Let_def prog_ok_steps)
  ultimately show ?thesis
    using assms prog_ok_restore_parameters
    by (auto simp: settings_restore_def Let_def prog_ok_steps simp del: upt_rec_numeral upt_Suc restore_parameters.simps split: if_splits)
qed

lemma prog_ok_ngc: "report_ngc_parameters client m = Some m' \<Longrightarrow> prog_ok m \<Longrightarrow> prog_ok m'"
proof -
  have r: "read_all_coord_data sels k = Some (ok, k') \<Longrightarrow> prog_ok k \<Longrightarrow> prog_ok k'" for sels ok k k'
    by (induction sels arbitrary: k) (auto split: option.splits if_splits dest: prog_ok_read_local)
  show "report_ngc_parameters client m = Some m' \<Longrightarrow> prog_ok m \<Longrightarrow> prog_ok m'"
    using r by (auto simp: report_ngc_parameters_def prog_ok_steps simp del: read_all_coord_data.simps upt_rec_numeral upt_Suc split: if_splits)
qed

lemma prog_ok_startup: "system_execute_startup lm line m = Some (line', m') \<Longrightarrow> prog_ok m \<Longrightarrow> prog_ok m'"
proof -
  have r: "prog_ok k'" if "run_startup_line lm n line k = Some (line', k')" "prog_ok k" for n line line' k k'
    using that
    by (auto simp: run_startup_line_def split: option.splits if_splits
        intro!: prog_ok_steps(1) dest!: prog_ok_read_startup prog_ok_execute_line)
  have "startup_loop lm ns line m = Some (line', m') \<Longrightarrow> prog_ok m \<Longrightarrow> prog_ok m'" for ns
    by (induction ns arbitrary: line m) (auto split: option.splits dest: r)
  then show "system_execute_startup lm line m = Some (line', m') \<Longrightarrow> prog_ok m \<Longrightarrow> prog_ok m'"
    by (simp add: system_execute_startup_def)
qed

section \<open>The commands\<close>

text \<open>The result of a command.\<close>

definition keeps_ok :: "(u8 \<times> line \<times> machine) option \<Rightarrow> bool" where
  "keeps_ok r \<longleftrightarrow> (\<forall>code line m'. r = Some (code, line, m') \<longrightarrow> prog_ok m')"

lemma keeps_ok_rules:
  "(c \<Longrightarrow> keeps_ok a) \<Longrightarrow> (\<not> c \<Longrightarrow> keeps_ok b) \<Longrightarrow> keeps_ok (if c then a else b)"
  "prog_ok k \<Longrightarrow> keeps_ok (done_with code line k)"
  "(\<And>k. r = Some k \<Longrightarrow> prog_ok (g k)) \<Longrightarrow> keeps_ok (map_option (\<lambda>k. (e, f k, g k)) r)"
  "(\<And>l k. q = Some (l, k) \<Longrightarrow> prog_ok k) \<Longrightarrow> keeps_ok (map_option (\<lambda>(l, k). (e, l, k)) q)"
  "(\<And>l k. q = Some (l, k) \<Longrightarrow> prog_ok k) \<Longrightarrow> keeps_ok (map_option (Pair e) q)" "keeps_ok None"
  "(\<And>st k. p = Some (st, k) \<Longrightarrow> prog_ok k) \<Longrightarrow> keeps_ok (map_option (\<lambda>(st, k). (st, line, k)) p)"
  by (auto simp: keeps_ok_def done_with_def)

lemma keeps_ok_store_setting:
  assumes "prog_ok m"
  shows "keeps_ok (cmd_store_setting parameter pos line m)"
  using assms unfolding cmd_store_setting_def
  by (auto split: option.split intro!: keeps_ok_rules dest: prog_ok_store_global)

lemma keeps_ok_store_startup:
  assumes "prog_ok m"
  shows "keeps_ok (cmd_store_startup lm parameter pos line m)"
  using assms unfolding cmd_store_startup_def Let_def
  by (auto split: option.split intro!: keeps_ok_rules dest: prog_ok_execute_line prog_ok_store_startup)

lemma keeps_ok_store:
  assumes "prog_ok m"
  shows "keeps_ok (cmd_store lm startup pos line m)"
  using assms unfolding cmd_store_def
  by (auto split: option.split intro!: keeps_ok_rules keeps_ok_store_setting keeps_ok_store_startup)

lemma keeps_ok_home:
  assumes "prog_ok m"
  shows "keeps_ok (cmd_home lm line m)"
proof -
  have h: "prog_ok k'" if "mc_homing_cycle (set_state STATE_HOMING m) = Some k'" for k'
    by (rule prog_ok_frame [OF motion_frame_homing [OF that] prog_ok_steps(2) [OF assms]])
  have "prog_ok (st_go_idle (set_state STATE_IDLE k))" if "prog_ok k" for k
    using that by (intro prog_ok_steps)
  with assms h show ?thesis unfolding cmd_home_def Let_def
    by (auto split: option.split intro!: keeps_ok_rules prog_ok_steps(2) dest: prog_ok_startup)
qed

lemma prog_ok_print_startup: "print_startup_lines ns line m = Some (line', m') \<Longrightarrow> prog_ok m \<Longrightarrow> prog_ok m'"
  by (induction ns arbitrary: line m)
    (auto split: option.splits dest!: prog_ok_read_startup intro: prog_ok_steps)

lemma keeps_ok_build_info:
  assumes "prog_ok m"
  shows "keeps_ok (cmd_build_info client line m)"
  using assms unfolding cmd_build_info_def Let_def
  by (auto simp: settings_read_build_info_def settings_store_build_info_def Let_def
      split: prod.split bool.split intro!: keeps_ok_rules prog_ok_steps)

lemma keeps_ok_commands:
  assumes "prog_ok m"
  shows "keeps_ok (cmd_check_mode line m)" "keeps_ok (cmd_unlock line m)" "keeps_ok (cmd_settings client line m)"
    "keeps_ok (cmd_sleep line m)" "keeps_ok (cmd_restore line m)" "keeps_ok (cmd_startup lm line m)"
proof -
  show "keeps_ok (cmd_check_mode line m)" "keeps_ok (cmd_unlock line m)" "keeps_ok (cmd_settings client line m)"
    "keeps_ok (cmd_sleep line m)"
    using assms unfolding cmd_check_mode_def cmd_unlock_def cmd_settings_def cmd_sleep_def
    by (intro keeps_ok_rules prog_ok_steps; assumption)+
  show "keeps_ok (cmd_restore line m)"
    using assms unfolding cmd_restore_def
    by (auto split: option.split intro!: keeps_ok_rules prog_ok_steps dest: prog_ok_restore)
  show "keeps_ok (cmd_startup lm line m)"
    using assms unfolding cmd_startup_def
    by (auto intro!: keeps_ok_rules keeps_ok_store dest: prog_ok_print_startup)
qed

lemma prog_ok_line:
  assumes "execute_line lm client line_flags line m = Some (code, line', m')" "prog_ok m"
  shows "prog_ok m'"
proof -
  have n: "keeps_ok (map_option (\<lambda>k. (e, line, k)) (report_ngc_parameters client m))" for e
    using prog_ok_ngc assms(2) by (intro keeps_ok_rules(3)) blast
  have g: "keeps_ok (map_option (\<lambda>(status, k). (status, line, k)) (gc_execute_line lm line m))"
    using prog_ok_execute_line assms(2) by (intro keeps_ok_rules(7)) blast
  note d = keeps_ok_rules(2)
  note c = keeps_ok_commands [OF assms(2)] keeps_ok_home [OF assms(2)] keeps_ok_build_info [OF assms(2)] keeps_ok_store [OF assms(2)]
  have i: "keeps_ok (system_idle_command lm client line m)"
    unfolding system_idle_command_def Let_def by (intro keeps_ok_rules(1) n c d assms(2))
  have s: "keeps_ok (system_execute_line lm client line m)"
    unfolding system_execute_line_def Let_def by (intro keeps_ok_rules(1) g c i d prog_ok_steps(1) assms(2))
  have "keeps_ok (execute_line lm client line_flags line m)"
    unfolding execute_line_def by (intro keeps_ok_rules(1) s g d assms(2))
  then show ?thesis using assms(1) by (simp add: keeps_ok_def)
qed

section \<open>The main loop\<close>

lemma prog_ok_end_of_line:
  "end_of_line lm client l m = Some (l', m') \<Longrightarrow> prog_ok m \<longrightarrow> prog_ok m'"
  by (auto simp: end_of_line_def Let_def intro: prog_ok_steps dest: prog_ok_line)

lemma prog_ok_passed:
  "protocol_execute_realtime m = Some m' \<Longrightarrow> prog_ok m \<longrightarrow> prog_ok m'" "poll m = Some m' \<Longrightarrow> prog_ok m \<longrightarrow> prog_ok m'"
  using prog_ok_rt [OF rt_frame_execute] prog_ok_rt [OF rt_frame_poll] by blast+

lemma prog_ok_serial_read: "serial_read client m = (c, m') \<Longrightarrow> prog_ok m \<Longrightarrow> prog_ok m'"
  by (auto simp: serial_read_def serial_rx_pop_def Let_def split: if_splits intro: prog_ok_state [of _ m])

lemma prog_ok_read_client:
  "read_client lm client l m = Some (ok, l', m') \<Longrightarrow> prog_ok m \<longrightarrow> prog_ok m'"
proof (erule read_client.raw_induct [where P = "\<lambda>_ _ _ m r. prog_ok m \<longrightarrow> prog_ok (snd (snd r))" and y = "(ok, l', m')", simplified, rotated])
  fix loop lm client l m r
  assume 1: "\<And>lm client l m r. loop lm client l m = Some r \<Longrightarrow> prog_ok m \<longrightarrow> prog_ok (snd (snd r))"
    "(case serial_read client m of (c, m) \<Rightarrow>
      if c = SERIAL_NO_DATA then Some (True, l, m)
      else if is_eol c then
        (case protocol_execute_realtime m of None \<Rightarrow> None
         | Some m \<Rightarrow>
             if sys_abort (sys m) then Some (False, l, m)
             else (case end_of_line lm client l m of None \<Rightarrow> None
               | Some (l, m) \<Rightarrow> (case poll m of None \<Rightarrow> None | Some m \<Rightarrow> loop lm client l m)))
      else (case poll m of None \<Rightarrow> None | Some m \<Rightarrow> loop lm client (filter_char c l) m)) = Some r"
  obtain c k where c: "serial_read client m = (c, k)" by fastforce
  have k: "prog_ok m \<longrightarrow> prog_ok k" using prog_ok_serial_read [OF c] by blast
  show "prog_ok m \<longrightarrow> prog_ok (snd (snd r))"
    using 1(2) unfolding c prod.case
    by (auto split: option.splits if_splits prod.splits dest!: 1(1) prog_ok_passed prog_ok_end_of_line simp: k)
qed

lemma prog_ok_read_clients:
  "read_clients lm cs l m = Some (ok, l', m') \<Longrightarrow> prog_ok m \<longrightarrow> prog_ok m'"
proof (induction cs arbitrary: l m)
  case (Cons client cs)
  obtain b k n where r: "read_client lm client l m = Some (b, k, n)" using Cons.prems by (auto split: option.splits)
  then show ?case using Cons prog_ok_read_client [OF r] by (auto split: if_splits)
qed simp

lemma prog_ok_main_loop: "main_loop lm l m = Some m' \<Longrightarrow> prog_ok m \<longrightarrow> prog_ok m'"
proof (erule main_loop.raw_induct [where P = "\<lambda>_ _ m m'. prog_ok m \<longrightarrow> prog_ok m'", rotated])
  fix loop lm l m m'
  assume 1: "\<And>lm l m m'. loop lm l m = Some m' \<Longrightarrow> prog_ok m \<longrightarrow> prog_ok m'"
    "(case read_clients lm [CLIENT_SERIAL, CLIENT_WEBSOCKET, CLIENT_TELNET] l m of None \<Rightarrow> None
      | Some (ok, l, m) \<Rightarrow>
          if \<not> ok then Some m
          else (case protocol_execute_realtime (protocol_auto_cycle_start m) of None \<Rightarrow> None
            | Some m \<Rightarrow>
                if sys_abort (sys m) then Some m
                else (case poll m of None \<Rightarrow> None | Some m \<Rightarrow> loop lm l m))) = Some m'"
  have a: "prog_ok (protocol_auto_cycle_start k)" if "prog_ok k" for k
    using that by (simp add: protocol_auto_cycle_start_def prog_ok_steps)
  show "prog_ok m \<longrightarrow> prog_ok m'"
    using 1(2)
    by (auto simp del: read_clients.simps split: option.splits if_splits prod.splits
        dest!: 1(1) prog_ok_passed prog_ok_read_clients simp: a)
qed

lemma prog_ok_enter:
  assumes "enter_main_loop lm line m = Some (l, m')" "prog_ok m"
  shows "prog_ok m'"
proof -
  have c: "prog_ok (check_limits_at_init m)"
    using assms(2) by (simp add: check_limits_at_init_def prog_ok_steps)
  have x: "prog_ok (j\<lparr>sys_rt_exec_state := v\<rparr>)" if "prog_ok j" for j v
    using that by (rule prog_ok_state [rotated 2]) simp_all
  show ?thesis
    using assms(1) c unfolding enter_main_loop_def Let_def
    by (auto split: if_splits option.splits dest!: prog_ok_startup prog_ok_rt [OF rt_frame_execute x] intro: prog_ok_steps)
qed

lemma prog_ok_protocol_main_loop:
  assumes "protocol_main_loop lm line m = Some m'" "prog_ok m"
  shows "prog_ok m' \<and> sys_abort (sys m')"
  using assms prog_ok_enter prog_ok_main_loop main_loop_aborts
  by (auto simp: protocol_main_loop_def split: option.splits)

lemma prog_ok_init_systems:
  assumes "init_systems m = Some m'" "settings_wf (settings m)" "soft_limit_ok (settings m)"
  shows "prog_ok m'"
proof -
  let ?c = "serial_reset_read_buffer CLIENT_ALL (clear_system m)"
  have "settings ?c = settings m"
    by (simp add: serial_reset_read_buffer_def clear_system_def)
  then have g: "prog_ok k" if "gc_init ?c = Some k" for k
    using prog_ok_init [OF that] assms(2,3) by simp
  have i: "prog_ok (probe_init k)" "prog_ok (limits_init k)" "prog_ok (coolant_init k)" "prog_ok (spindle_init k)"
    if "prog_ok k" for k
    using prog_ok_state [OF _ _ that] by (simp_all add: probe_init_def probe_configure_invert_mask_def limits_init_def coolant_init_def coolant_stop_def spindle_init_def spindle_stop_def report_def Let_def)
  have d: "prog_ok (report r (gc_sync_position (plan_sync_position (st_reset (plan_reset k)))))" if "prog_ok k" for r k
    by (intro prog_ok_steps(1) prog_ok_rt [OF rt_frame_sync] prog_ok_rt [OF rt_frame_drivers(7)]
        prog_ok_rt [OF rt_frame_drivers(5)] prog_ok_rt [OF rt_frame_drivers(6)] that)
  obtain k where k: "gc_init ?c = Some k" "m' = report (Init_message CLIENT_ALL) (gc_sync_position
      (plan_sync_position (st_reset (plan_reset (probe_init (limits_init (coolant_init (spindle_init k))))))))"
    using assms(1) by (auto simp: init_systems_def Let_def)
  show ?thesis unfolding k(2) by (intro d i g k(1))
qed

lemma prog_ok_loop:
  assumes "loop lm line m = Some m'" "settings_wf (settings m)" "soft_limit_ok (settings m)"
  shows "prog_ok m' \<and> sys_abort (sys m')"
  using assms prog_ok_init_systems prog_ok_protocol_main_loop
  by (auto simp: loop_def split: option.splits)

section \<open>A reset leaves the main loop\<close>

lemma execute_reset_returns:
  assumes "bit_istrue (sys_rt_exec_state m) EXEC_RESET" "\<not> critical_alarm m"
  obtains m' where "protocol_execute_realtime m = Some m'" "sys_abort (sys m')"
proof -
  note a = rt_alarm_other [OF assms(2)]
  have "protocol_exec_rt_system m = Some (upd_sys (\<lambda>s. s\<lparr>sys_abort := True\<rparr>) (the (rt_alarm m)))"
    using assms(1) a by (intro rt_system_reset) (simp_all add: system_clear_exec_alarm_def report_def)
  then obtain k where k: "protocol_exec_rt_system m = Some k" "sys_abort (sys k)" by simp
  have l: "suspend_loop cond speed n = Some n" if "sys_abort (sys n)" for cond speed n
    using that by (subst suspend_loop.simps) simp
  have "\<exists>m'. protocol_execute_realtime m = Some m'"
    using k l by (simp add: protocol_execute_realtime_def protocol_exec_rt_suspend_def Let_def case_prod_beta exec_flag_defs)
  then show thesis using that reset_aborts [OF assms(1)] by blast
qed

text \<open>The clients have nothing left to read.\<close>

definition rx_empty :: "machine \<Rightarrow> bool" where
  "rx_empty m \<longleftrightarrow> (\<forall>client\<in>{CLIENT_SERIAL, CLIENT_WEBSOCKET, CLIENT_TELNET}. rx_head client m = rx_tail client m)"

lemma read_nothing:
  assumes "rx_empty m"
  shows "read_clients lm [CLIENT_SERIAL, CLIENT_WEBSOCKET, CLIENT_TELNET] l m = Some (True, l, m)"
proof -
  have "read_client lm client l m = Some (True, l, m)" if "client \<in> {CLIENT_SERIAL, CLIENT_WEBSOCKET, CLIENT_TELNET}" for client
    using assms that by (subst read_client.simps) (auto simp: rx_empty_def serial_read_def)
  then show ?thesis by simp
qed

lemma main_loop_reset:
  assumes "rx_empty m" "bit_istrue (sys_rt_exec_state m) EXEC_RESET" "\<not> critical_alarm m"
  obtains m' where "main_loop lm l m = Some m'" "sys_abort (sys m')"
proof -
  let ?m = "protocol_auto_cycle_start m"
  have "bit_istrue (sys_rt_exec_state ?m) EXEC_RESET" "\<not> critical_alarm ?m"
    using assms(2,3) by (auto simp: protocol_auto_cycle_start_def exec_flag_defs bit_istrue_def critical_alarm_def
        bit_simps istrue_bits bit_eq_iff)
  then obtain m' where "protocol_execute_realtime ?m = Some m'" "sys_abort (sys m')"
    by (rule execute_reset_returns)
  then show thesis
    by (intro that) (subst main_loop.simps, simp add: read_nothing [OF assms(1)] del: read_clients.simps)
qed

lemma main_loop_turn:
  assumes "rx_empty m" "quiet m" "plan_get_current_block m = None" "poll m = Some k"
  shows "main_loop lm l m = main_loop lm l k"
  using assms(2)
  by (subst main_loop.simps) (simp add: read_nothing [OF assms(1)] protocol_auto_cycle_start_def assms(3,4) quiet_execute quiet_def
      del: read_clients.simps)

end
