(* ===== verification/Machine_Wf.thy ===== *)
theory Machine_Wf
  imports Main_Invariant
begin

text \<open>
  The shape of the machine's data: the rings of the planner, of the step segments and of the
  clients, the indices one component keeps into the array of another, the positions and the state
  variable. The lemmas show that every interrupt and every part of the realtime executor keep it.
  Each operation is taken apart by rules for its control structure (\<open>wf_rules\<close>) and each step
  of it is a rule of the collection \<open>wf\<close>.
\<close>

section \<open>Results that may be missing\<close>

text \<open>What a result that may be missing satisfies is \<^const>\<open>pred_option\<close>; the results are machines,
  alone or behind other values.\<close>

abbreviation snd_sat :: "('m \<Rightarrow> bool) \<Rightarrow> 'a \<times> 'm \<Rightarrow> bool" where
  "snd_sat P \<equiv> \<lambda>(_, m). P m"

abbreviation thd_sat :: "('m \<Rightarrow> bool) \<Rightarrow> 'a \<times> 'b \<times> 'm \<Rightarrow> bool" where
  "thd_sat P \<equiv> \<lambda>(_, _, m). P m"

lemma sat_some: "P x \<Longrightarrow> pred_option P (Some x)"
  by simp

lemma sat_none: "pred_option P None"
  by simp

lemma sat_iff: "pred_option P r \<longleftrightarrow> (\<forall>x. r = Some x \<longrightarrow> P x)"
  by (cases r) simp_all

lemma sat_if: "(c \<Longrightarrow> pred_option P a) \<Longrightarrow> (\<not> c \<Longrightarrow> pred_option P b) \<Longrightarrow> pred_option P (if c then a else b)"
  by simp

lemma sat_case:
  "pred_option P r \<Longrightarrow> (\<And>k. P k \<Longrightarrow> pred_option Q (g k)) \<Longrightarrow> pred_option Q (case r of None \<Rightarrow> None | Some k \<Rightarrow> g k)"
  by (cases r) simp_all

lemma sat_case2:
  "pred_option (snd_sat P) r \<Longrightarrow> (\<And>a k. P k \<Longrightarrow> pred_option Q (g a k)) \<Longrightarrow>
   pred_option Q (case r of None \<Rightarrow> None | Some (a, k) \<Rightarrow> g a k)"
  by (cases r) auto

lemma sat_case3:
  "pred_option (thd_sat P) r \<Longrightarrow> (\<And>a b k. P k \<Longrightarrow> pred_option Q (g a b k)) \<Longrightarrow>
   pred_option Q (case r of None \<Rightarrow> None | Some (a, b, k) \<Rightarrow> g a b k)"
  by (cases r) auto

lemma sat_bind: "pred_option P r \<Longrightarrow> (\<And>k. P k \<Longrightarrow> pred_option Q (g k)) \<Longrightarrow> pred_option Q (r \<bind> g)"
  by (cases r) simp_all

lemma sat_bind2:
  "pred_option (snd_sat P) r \<Longrightarrow> (\<And>a k. P k \<Longrightarrow> pred_option Q (g a k)) \<Longrightarrow> pred_option Q (r \<bind> (\<lambda>(a, k). g a k))"
  by (cases r) auto

lemma sat_map: "pred_option P r \<Longrightarrow> (\<And>k. P k \<Longrightarrow> Q (g k)) \<Longrightarrow> pred_option Q (map_option g r)"
  by (cases r) simp_all

lemma sat_map2:
  "pred_option (snd_sat P) r \<Longrightarrow> (\<And>a k. P k \<Longrightarrow> Q (g a k)) \<Longrightarrow> pred_option Q (map_option (\<lambda>(a, k). g a k) r)"
  by (cases r) auto

text \<open>For the loops that may not end: what every result satisfies may be shown by fixed point
  induction.\<close>

lemma sat_admissible: "option.admissible (\<lambda>f. \<forall>m. I m \<longrightarrow> pred_option Q (f m))"
proof -
  have "(\<lambda>f. \<forall>m. I m \<longrightarrow> pred_option Q (f m)) = (\<lambda>f. \<forall>m r. f m = Some r \<longrightarrow> I m \<longrightarrow> Q r)"
    by (auto simp: fun_eq_iff sat_iff)
  then show ?thesis using option_admissible by simp
qed

lemma sat_admissible3: "option.admissible (\<lambda>f. \<forall>a b m. I m \<longrightarrow> pred_option Q (curry (curry f) a b m))"
  using sat_admissible [of "\<lambda>((_, _), m). I m" Q] by (simp add: curry_def)

lemma sat_admissible4: "option.admissible (\<lambda>f. \<forall>a b c m. I m \<longrightarrow> pred_option Q (curry (curry (curry f)) a b c m))"
  using sat_admissible [of "\<lambda>(((_, _), _), m). I m" Q] by (simp add: curry_def)

section \<open>The invariant\<close>

definition plan_ring :: "machine \<Rightarrow> bool" where
  "plan_ring m \<longleftrightarrow> length (block_buffer m) = BLOCK_BUFFER_SIZE
     \<and> in_ring (block_buffer_head m) \<and> in_ring (block_buffer_tail m) \<and> in_ring (block_buffer_planned m)
     \<and> next_buffer_head m = plan_next_block_index (block_buffer_head m)
     \<and> (\<forall>b. pl_block m = Some b \<longrightarrow> in_ring b)"

abbreviation "in_st (i :: u8) \<equiv> unat i < 5" \<comment> \<open>\<^verbatim>\<open>SEGMENT_BUFFER_SIZE-1\<close>\<close>

text \<open>Every index into the stepper's copies of the blocks, in the segments and in the two halves of
  the stepper.\<close>

definition st_indices :: "machine \<Rightarrow> bool" where
  "st_indices m \<longleftrightarrow> length (st_block_buffer m) = SEGMENT_BUFFER_SIZE - 1
     \<and> in_st (st_prep_block m) \<and> in_st (prep_st_block_index (prep m))
     \<and> (\<forall>s\<in>set (segment_buffer m). in_st (seg_st_block_index s))
     \<and> in_st (st_exec_block_index (stepper m))
     \<and> (\<forall>i. st_exec_block (stepper m) = Some i \<longrightarrow> in_st i)"

definition rx_rings :: "machine \<Rightarrow> bool" where
  "rx_rings m \<longleftrightarrow> rx_wf CLIENT_SERIAL m \<and> rx_wf CLIENT_WEBSOCKET m \<and> rx_wf CLIENT_TELNET m"

definition machine_wf :: "machine \<Rightarrow> bool" where
  "machine_wf m \<longleftrightarrow> plan_ring m \<and> seg_wf m \<and> st_indices m \<and> rx_rings m
     \<and> length (sys_position m) = N_AXIS \<and> sys_state (sys m) \<in> STATES"

named_theorems wf

lemmas wf_defs = machine_wf_def plan_ring_def seg_wf_def st_indices_def rx_rings_def rx_wf_def

lemma STATES_simps [simp]:
  "STATE_IDLE \<in> STATES" "STATE_ALARM \<in> STATES" "STATE_CHECK_MODE \<in> STATES" "STATE_HOMING \<in> STATES" "STATE_CYCLE \<in> STATES"
  "STATE_HOLD \<in> STATES" "STATE_JOG \<in> STATES" "STATE_SAFETY_DOOR \<in> STATES" "STATE_SLEEP \<in> STATES"
  by (simp_all add: STATES_def)

lemma wf_machine0: "machine_wf machine0"
  by (simp add: wf_defs system0_def st_prep0_def stepper0_def segment0_def plan_next_block_index_def ring_next_def)

text \<open>The fields the invariant does not speak of.\<close>

lemma wf_fields [simp]:
  "machine_wf (m\<lparr>sys_probe_position := p\<rparr>) = machine_wf m" "machine_wf (m\<lparr>sys_probe_state := x\<rparr>) = machine_wf m"
  "machine_wf (m\<lparr>sys_rt_exec_state := x\<rparr>) = machine_wf m" "machine_wf (m\<lparr>sys_rt_exec_alarm := x\<rparr>) = machine_wf m"
  "machine_wf (m\<lparr>sys_rt_exec_motion_override := x\<rparr>) = machine_wf m"
  "machine_wf (m\<lparr>sys_rt_exec_accessory_override := x\<rparr>) = machine_wf m" "machine_wf (m\<lparr>settings := s\<rparr>) = machine_wf m"
  "machine_wf (m\<lparr>eeprom := bs\<rparr>) = machine_wf m" "machine_wf (m\<lparr>eeprom_commits := n\<rparr>) = machine_wf m"
  "machine_wf (m\<lparr>gc_state := g\<rparr>) = machine_wf m" "machine_wf (m\<lparr>pl := q\<rparr>) = machine_wf m"
  "machine_wf (m\<lparr>step_port_invert_mask := x\<rparr>) = machine_wf m" "machine_wf (m\<lparr>dir_port_invert_mask := x\<rparr>) = machine_wf m"
  "machine_wf (m\<lparr>busy := b\<rparr>) = machine_wf m" "machine_wf (m\<lparr>timer1_enabled := b\<rparr>) = machine_wf m"
  "machine_wf (m\<lparr>timer1_period := y\<rparr>) = machine_wf m" "machine_wf (m\<lparr>probe_invert_mask := x\<rparr>) = machine_wf m"
  "machine_wf (m\<lparr>pwm_gradient := v\<rparr>) = machine_wf m" "machine_wf (m\<lparr>step_port := x\<rparr>) = machine_wf m"
  "machine_wf (m\<lparr>direction_port := x\<rparr>) = machine_wf m" "machine_wf (m\<lparr>steppers_disable_port := x\<rparr>) = machine_wf m"
  "machine_wf (m\<lparr>coolant_port := x\<rparr>) = machine_wf m" "machine_wf (m\<lparr>control_port := x\<rparr>) = machine_wf m"
  "machine_wf (m\<lparr>limit_port := x\<rparr>) = machine_wf m" "machine_wf (m\<lparr>control_port_inputs := x\<rparr>) = machine_wf m"
  "machine_wf (m\<lparr>limit_port_inputs := x\<rparr>) = machine_wf m" "machine_wf (m\<lparr>limit_isr_attached := b\<rparr>) = machine_wf m"
  "machine_wf (m\<lparr>out := ms\<rparr>) = machine_wf m" "machine_wf (m\<lparr>sched := es\<rparr>) = machine_wf m"
  by (simp_all add: wf_defs)

text \<open>The fields it does.\<close>

lemma wf_state: "machine_wf m \<Longrightarrow> sys_state (sys m) \<in> STATES"
  by (simp add: machine_wf_def)

lemma wf_sys: "machine_wf m \<Longrightarrow> sys_state s \<in> STATES \<Longrightarrow> machine_wf (m\<lparr>sys := s\<rparr>)"
  by (simp add: wf_defs)

lemma wf_sys_state: "machine_wf m \<Longrightarrow> sys_state s = sys_state (sys m) \<Longrightarrow> machine_wf (m\<lparr>sys := s\<rparr>)"
  by (simp add: wf_sys wf_state)

lemma wf_prep: "machine_wf m \<Longrightarrow> in_st (prep_st_block_index q) \<Longrightarrow> machine_wf (m\<lparr>prep := q\<rparr>)"
  by (simp add: wf_defs)

lemma wf_position: "machine_wf m \<Longrightarrow> length p = N_AXIS \<Longrightarrow> machine_wf (m\<lparr>sys_position := p\<rparr>)"
  by (simp add: wf_defs)

lemma wf_planned: "machine_wf m \<Longrightarrow> in_ring i \<Longrightarrow> machine_wf (m\<lparr>block_buffer_planned := i\<rparr>)"
  by (simp add: wf_defs)

lemma wf_pl_block: "machine_wf m \<Longrightarrow> (\<And>i. b = Some i \<Longrightarrow> in_ring i) \<Longrightarrow> machine_wf (m\<lparr>pl_block := b\<rparr>)"
  by (simp add: wf_defs)

lemma wf_stepper:
  "machine_wf m \<Longrightarrow> st_exec_segment s = st_exec_segment (stepper m) \<Longrightarrow> st_exec_block s = st_exec_block (stepper m) \<Longrightarrow>
   st_exec_block_index s = st_exec_block_index (stepper m) \<Longrightarrow> machine_wf (m\<lparr>stepper := s\<rparr>)"
  by (simp add: wf_defs)

lemma wf_st_block_buffer:
  "machine_wf m \<Longrightarrow> length bs = length (st_block_buffer m) \<Longrightarrow> machine_wf (m\<lparr>st_block_buffer := bs\<rparr>)"
  by (simp add: wf_defs)

lemma wf_prep_index: "machine_wf m \<Longrightarrow> in_st (prep_st_block_index (prep m))"
  by (simp add: machine_wf_def st_indices_def)

lemma wf_fold: "(\<And>x k. machine_wf k \<Longrightarrow> machine_wf (f x k)) \<Longrightarrow> machine_wf m \<Longrightarrow> machine_wf (fold f xs m)"
  by (induction xs arbitrary: m) simp_all

text \<open>The rules for the control structure: an intermediate machine is replaced by what is known of
  it.\<close>

lemma wf_if: "(c \<Longrightarrow> machine_wf a) \<Longrightarrow> (\<not> c \<Longrightarrow> machine_wf b) \<Longrightarrow> machine_wf (if c then a else b)"
  by simp

lemma wf_let: "machine_wf t \<Longrightarrow> (\<And>m. machine_wf m \<Longrightarrow> machine_wf (f m)) \<Longrightarrow> machine_wf (let m = t in f m)"
  by simp

lemma wf_let_value: "(\<And>x. machine_wf (f x)) \<Longrightarrow> machine_wf (let x = t in f x)"
  by simp

lemma wf_prod: "(\<And>a b. machine_wf (f a b)) \<Longrightarrow> machine_wf (case p of (a, b) \<Rightarrow> f a b)"
  by (cases p) simp

lemma sat_let: "machine_wf t \<Longrightarrow> (\<And>m. machine_wf m \<Longrightarrow> pred_option Q (f m)) \<Longrightarrow> pred_option Q (let m = t in f m)"
  by simp

lemma sat_let2:
  "machine_wf (snd p) \<Longrightarrow> (\<And>a m. machine_wf m \<Longrightarrow> pred_option Q (f a m)) \<Longrightarrow> pred_option Q (let (a, m) = p in f a m)"
  by (cases p) simp

lemma sat_let3:
  "machine_wf (snd (snd p)) \<Longrightarrow> (\<And>a b m. machine_wf m \<Longrightarrow> pred_option Q (f a b m)) \<Longrightarrow>
   pred_option Q (let (a, b, m) = p in f a b m)"
  by (cases p) simp

lemma sat_let_value: "(\<And>x. pred_option Q (f x)) \<Longrightarrow> pred_option Q (let x = t in f x)"
  by simp

lemma sat_sum:
  "(\<And>a. pred_option Q (f a)) \<Longrightarrow> (\<And>b. pred_option Q (g b)) \<Longrightarrow> pred_option Q (case x of Inl a \<Rightarrow> f a | Inr b \<Rightarrow> g b)"
  by (cases x) simp_all

lemma sat_prod: "(\<And>a b. pred_option Q (f a b)) \<Longrightarrow> pred_option Q (case p of (a, b) \<Rightarrow> f a b)"
  by (cases p) simp

lemmas wf_rules = wf_if wf_let wf_let_value wf_prod sat_if sat_let sat_let3 sat_let2 sat_let_value sat_prod sat_sum sat_some sat_none
  sat_case3 [where P = machine_wf] sat_case2 [where P = machine_wf] sat_case [where P = machine_wf]
  sat_bind2 [where P = machine_wf] sat_bind [where P = machine_wf] sat_map2 [where P = machine_wf] sat_map [where P = machine_wf]

section \<open>The drivers\<close>

lemma wf_report [wf]: "machine_wf m \<Longrightarrow> machine_wf (report r m)"
  by (simp add: report_def)

lemma wf_flags [wf]:
  assumes "machine_wf m"
  shows "machine_wf (system_set_exec_state_flag k m)" "machine_wf (system_clear_exec_state_flag k m)"
    "machine_wf (system_set_exec_alarm k m)" "machine_wf (system_clear_exec_alarm m)"
    "machine_wf (system_set_exec_motion_override_flag k m)" "machine_wf (system_set_exec_accessory_override_flag k m)"
    "machine_wf (system_clear_exec_motion_overrides m)" "machine_wf (system_clear_exec_accessory_overrides m)"
  using assms by (simp_all add: exec_flag_defs)

lemma wf_spindle [wf]:
  assumes "machine_wf m"
  shows "machine_wf (spindle_stop m)" "machine_wf (spindle_init m)" "machine_wf (spindle_set_speed w m)"
    "machine_wf (set_spindle_speed v m)" "machine_wf (snd (spindle_compute_pwm_value v m))" "machine_wf (spindle_set_state st v m)"
proof -
  show "machine_wf (spindle_stop m)" "machine_wf (spindle_init m)" "machine_wf (spindle_set_speed w m)"
    using assms by (simp_all add: spindle_stop_def spindle_init_def spindle_set_speed_def)
  show s: "machine_wf (set_spindle_speed v m)" for v
    using assms by (simp add: set_spindle_speed_def wf_sys_state)
  show "machine_wf (snd (spindle_compute_pwm_value v m))" using spindle_compute_frame [of v m] s by auto
  obtain a b where "spindle_set_state st v m = upd_sys (\<lambda>s. s\<lparr>sys_spindle_speed := a, sys_report_ovr_counter := b\<rparr>) m"
    using spindle_set_state_frame by blast
  then show "machine_wf (spindle_set_state st v m)" using assms by (simp add: wf_sys_state)
qed

lemma wf_coolant [wf]:
  assumes "machine_wf m"
  shows "machine_wf (coolant_stop m)" "machine_wf (coolant_init m)" "machine_wf (coolant_set_state c m)"
proof -
  show "machine_wf (coolant_stop m)" "machine_wf (coolant_init m)"
    using assms by (simp_all add: coolant_stop_def coolant_init_def)
  obtain p w where "coolant_set_state c m = upd_sys (\<lambda>s. s\<lparr>sys_report_ovr_counter := w\<rparr>) (m\<lparr>coolant_port := p\<rparr>)"
    using coolant_set_state_frame by blast
  then show "machine_wf (coolant_set_state c m)" using assms by (simp add: wf_sys_state)
qed

lemma wf_inputs [wf]:
  assumes "machine_wf m"
  shows "machine_wf (limits_disable m)" "machine_wf (limits_init m)" "machine_wf (system_init m)" "machine_wf (probe_init m)"
    "machine_wf (probe_configure_invert_mask b m)" "machine_wf (probe_state_monitor m)"
  using assms by (simp_all add: limits_disable_def limits_init_def system_init_def probe_init_def
      probe_configure_invert_mask_def probe_state_monitor_def wf_report Let_def)

section \<open>The planner\<close>

lemma wf_ring:
  assumes "machine_wf m"
  shows "in_ring (block_buffer_head m)" "in_ring (block_buffer_tail m)" "in_ring (block_buffer_planned m)"
    "in_ring (next_buffer_head m)"
  using assms by (simp_all add: machine_wf_def plan_ring_def)

lemma wf_set_block [wf]: "machine_wf m \<Longrightarrow> machine_wf (set_block i f m)"
  by (simp add: wf_defs set_block_def)

lemma wf_st_update [wf]: "machine_wf m \<Longrightarrow> machine_wf (st_update_plan_block_parameters m)"
  by (simp add: wf_defs st_update_plan_block_parameters_def set_block_def Let_def split: option.split)

lemma wf_reverse_step: "machine_wf m \<Longrightarrow> machine_wf (reverse_step i c n m)"
  unfolding reverse_step_def by (intro wf_rules wf)

lemma wf_reverse_pass: "machine_wf m \<Longrightarrow> machine_wf (reverse_pass n i c m)"
  by (induction n i c m rule: reverse_pass.induct) (simp_all add: wf_reverse_step)

lemma wf_forward_step: "machine_wf m \<Longrightarrow> in_ring i \<Longrightarrow> machine_wf (forward_step i c m)"
  unfolding forward_step_def by (intro wf_rules wf wf_planned)

lemma wf_forward_pass: "machine_wf m \<Longrightarrow> in_ring i \<Longrightarrow> machine_wf (forward_pass n i c m)"
  by (induction n i c m rule: forward_pass.induct) (simp_all add: wf_forward_step)

lemma wf_recalculate [wf]:
  assumes "machine_wf m"
  shows "machine_wf (planner_recalculate m)"
proof -
  have r: "machine_wf (planner_reverse i k)" if "machine_wf k" for i k
    unfolding planner_reverse_def by (intro wf_rules wf wf_reverse_pass that)
  have f: "machine_wf (forward_pass n (plan_next_block_index (block_buffer_planned k)) c k)" if "machine_wf k" for n c k
    using that wf_ring(3) [OF that] by (simp add: wf_forward_pass)
  show ?thesis unfolding planner_recalculate_def by (intro wf_rules f r assms)
qed

lemma wf_plan_reset [wf]: "machine_wf m \<Longrightarrow> machine_wf (plan_reset m)"
  by (simp add: wf_defs plan_reset_def plan_reset_buffer_def plan_next_block_index_def ring_next_def)

lemma wf_discard [wf]: "machine_wf m \<Longrightarrow> machine_wf (plan_discard_current_block m)"
  by (simp add: wf_defs plan_discard_current_block_def Let_def)

lemma wf_push [wf]: "machine_wf m \<Longrightarrow> machine_wf (plan_push_block b m)"
  by (simp add: wf_defs plan_push_block_def set_block_def Let_def)

lemma wf_buffer_line [wf]: "machine_wf m \<Longrightarrow> machine_wf (snd (plan_buffer_line target pld m))"
  by (simp add: plan_buffer_line_def case_prod_beta Let_def wf)

lemma wf_sync_position [wf]: "machine_wf m \<Longrightarrow> machine_wf (plan_sync_position m)" "machine_wf m \<Longrightarrow> machine_wf (gc_sync_position m)"
  by (simp_all add: plan_sync_position_def gc_sync_position_def)

lemma wf_cycle_reinitialize [wf]: "machine_wf m \<Longrightarrow> machine_wf (plan_cycle_reinitialize m)"
  unfolding plan_cycle_reinitialize_def by (intro wf_rules wf wf_planned wf_ring)

lemma wf_update_profile [wf]: "machine_wf m \<Longrightarrow> machine_wf (plan_update_velocity_profile_parameters m)"
proof -
  have "machine_wf (snd (update_profile_loop n i v k))" if "machine_wf k" for n i v k
    using that by (induction n i v k rule: update_profile_loop.induct) (simp_all add: Let_def wf)
  then show "machine_wf m \<Longrightarrow> ?thesis" by (simp add: plan_update_velocity_profile_parameters_def case_prod_beta)
qed

section \<open>The stepper\<close>

lemma wf_wake_up [wf]: "machine_wf m \<Longrightarrow> machine_wf (st_wake_up m)"
  by (simp add: st_wake_up_def set_steppers_disable_def wf_stepper Let_def)

lemma wf_spi_write [wf]: "machine_wf m \<Longrightarrow> machine_wf (spi_write32 m)"
  by (simp add: spi_write32_def wf_report)

lemma wf_go_idle [wf]: "machine_wf m \<Longrightarrow> machine_wf (st_go_idle m)"
  unfolding st_go_idle_def set_steppers_disable_def Let_def by (simp add: wf_spi_write)

lemma wf_invert_masks [wf]: "machine_wf m \<Longrightarrow> machine_wf (st_generate_step_dir_invert_masks m)"
  unfolding st_generate_step_dir_invert_masks_def by (rule wf_fold) (simp_all add: Let_def)

lemma wf_stepper_init [wf]: "machine_wf m \<Longrightarrow> machine_wf (stepper_init m)"
  by (simp add: stepper_init_def)

lemma wf_st_reset [wf]: "machine_wf m \<Longrightarrow> machine_wf (st_reset m)"
proof -
  have r: "machine_wf (k\<lparr>prep := st_prep0, stepper := stepper0, pl_block := None, segment_buffer_tail := 0,
      segment_buffer_head := 0, segment_next_head := 1, busy := False\<rparr>)" if "machine_wf k" for k
    using that by (simp add: wf_defs st_prep0_def stepper0_def ring_next_def)
  have s: "machine_wf (k\<lparr>stepper := (stepper k)\<lparr>st_dir_outbits := x\<rparr>\<rparr>)" if "machine_wf k" for k x
    using that by (simp add: wf_stepper)
  have p: "machine_wf (k\<lparr>direction_port := x, step_port := y\<rparr>)" if "machine_wf k" for k x y
    using that by simp
  assume "machine_wf m"
  then show ?thesis unfolding st_reset_def by (intro wf_rules wf r s p)
qed

text \<open>The step interrupt.\<close>

lemma wf_step_axis: "machine_wf m \<Longrightarrow> machine_wf (step_axis b i m)"
  unfolding step_axis_def Let_def
  by (simp add: wf_stepper) (simp add: wf_defs)

lemma wf_load_segment:
  assumes "machine_wf m" "segment_buffer_head m \<noteq> segment_buffer_tail m"
  shows "machine_wf (load_segment m)"
proof -
  have "in_st (seg_st_block_index (segment_buffer m ! unat (segment_buffer_tail m)))"
    using assms(1) by (auto simp: wf_defs)
  then show ?thesis
    using assms by (simp add: wf_defs load_segment_def spindle_set_speed_def Let_def)
qed

lemma wf_finish_step: "machine_wf m \<Longrightarrow> st_exec_segment (stepper m) \<noteq> None \<Longrightarrow> machine_wf (finish_step m)"
proof -
  assume "machine_wf m" "st_exec_segment (stepper m) \<noteq> None"
  moreover from this have "seg_wf (finish_step m)"
    by (auto simp: machine_wf_def seg_wf_def finish_step_def st_pop_segment_def Let_def unat_seg_next)
  ultimately show "machine_wf (finish_step m)"
    by (simp add: wf_defs finish_step_def st_pop_segment_def Let_def split: if_splits)
qed

lemma fold_step_axis_segment: "st_exec_segment (stepper (fold (step_axis b) is m)) = st_exec_segment (stepper m)"
  using seg_view_fold_step_axis [of b "is" m] by (simp add: seg_view_def)

lemma wf_execute_step:
  assumes "machine_wf m" "st_exec_segment (stepper m) \<noteq> None"
  shows "machine_wf (execute_step m)"
proof -
  have k: "machine_wf (finish_step (fold (step_axis b) [0..<N_AXIS] (k\<lparr>stepper := (stepper k)\<lparr>st_step_outbits := 0\<rparr>\<rparr>)))"
    if "machine_wf k" "st_exec_segment (stepper k) \<noteq> None" for b k
    by (intro wf_finish_step wf_fold wf_step_axis wf_stepper that) (simp_all add: fold_step_axis_segment that(2) del: upt_rec_numeral)
  have "st_exec_segment (stepper (probe_state_monitor m)) = st_exec_segment (stepper m)"
    by (simp add: probe_state_monitor_def)
  then show ?thesis
    using assms k wf_inputs(6) [OF assms(1)] unfolding execute_step_def Let_def by (simp del: upt_rec_numeral)
qed

lemma wf_timer1 [wf]:
  assumes "machine_wf m"
  shows "machine_wf (TIMER1_COMPA_vect m)"
proof -
  let ?k = "(spi_write32 (m\<lparr>direction_port := st_dir_outbits (stepper m), step_port := st_step_outbits (stepper m)\<rparr>))\<lparr>busy := True\<rparr>"
  have k: "machine_wf ?k" using assms by (simp add: wf_spi_write)
  have "st_exec_segment (stepper (load_segment ?k)) \<noteq> None"
    by (simp add: load_segment_def spindle_set_speed_def Let_def)
  then have l: "machine_wf (execute_step (load_segment ?k))" if "segment_buffer_head ?k \<noteq> segment_buffer_tail ?k"
    by (intro wf_execute_step wf_load_segment k that)
  show ?thesis
    unfolding TIMER1_COMPA_vect_def Let_def by (intro wf_if wf l k assms wf_execute_step)
qed

lemma wf_timer0 [wf]: "machine_wf m \<Longrightarrow> machine_wf (TIMER0_OVF_vect m)"
  by (simp add: TIMER0_OVF_vect_def wf_spi_write)

section \<open>The segment generator\<close>

lemma prep_index_profile:
  "prep_st_block_index (profile_hold p q) = prep_st_block_index q"
  "prep_st_block_index (profile_normal p v w n q) = prep_st_block_index q"
  by (simp_all add: profile_hold_def profile_normal_def Let_def)

lemma prep_index_ramp: "prep_st_block_index (fst (ramp_step a mm q t d)) = prep_st_block_index q"
  by (simp add: ramp_step_def Let_def)

lemma prep_index_ramp_loop:
  "ramp_loop a mm l q d t v r = Some (q', x) \<Longrightarrow> prep_st_block_index q' = prep_st_block_index q"
proof (erule ramp_loop.raw_induct
    [where P = "\<lambda>_ _ _ q _ _ _ _ r. prep_st_block_index (fst r) = prep_st_block_index q" and y = "(q', x)", simplified, rotated])
  fix loop a mm l q d t v r z
  assume 1: "\<And>a mm l q d t v r z. loop a mm l q d t v r = Some z \<Longrightarrow> prep_st_block_index (fst z) = prep_st_block_index q"
    "(case ramp_step a mm q v r of (q, v, r) \<Rightarrow>
      let t = f32_add t v
      in if f32_lt t d then
           (if f32_lt (prep_mm_complete q) r then loop a mm l q d t (f32_sub d t) r else Some (q, t, r))
         else if f32_lt l r then
           (let d = flt (f64_add (dbl d) DT_SEGMENT)
            in if f32_lt (prep_mm_complete q) r then loop a mm l q d t (f32_sub d t) r else Some (q, t, r))
         else Some (q, t, r)) = Some z"
  obtain q' v' r' where s: "ramp_step a mm q v r = (q', v', r')" by (cases "ramp_step a mm q v r") auto
  then have "prep_st_block_index q' = prep_st_block_index q" using prep_index_ramp [of a mm q v r] by simp
  then show "prep_st_block_index (fst z) = prep_st_block_index q"
    using 1(2) by (auto simp: s Let_def split: if_splits dest!: 1(1))
qed

lemma wf_upd_prep:
  "machine_wf m \<Longrightarrow> (\<And>q. prep_st_block_index (f q) = prep_st_block_index q) \<Longrightarrow> machine_wf (upd_prep f m)"
  unfolding upd_prep_def by (rule wf_prep) (simp_all add: wf_prep_index)

lemma wf_upd_segment:
  "machine_wf m \<Longrightarrow> (\<And>s. in_st (seg_st_block_index s) \<Longrightarrow> in_st (seg_st_block_index (f s))) \<Longrightarrow> machine_wf (upd_segment f m)"
  by (auto simp: wf_defs upd_segment_def Let_def dest!: subsetD [OF set_update_subset_insert])

lemma wf_set_step_control: "machine_wf m \<Longrightarrow> machine_wf (set_step_control c m)"
  by (simp add: wf_sys_state)

lemma wf_load_block [wf]:
  assumes "machine_wf m"
  shows "machine_wf (st_load_block b m)"
proof -
  have n: "in_st (st_next_block_index i)" if "in_st i" for i
    using that unat_ring_next_small [of 5 i] by (simp add: st_next_block_index_def)
  have c: "machine_wf (st_copy_block b m)"
    using assms n by (simp add: wf_defs st_copy_block_def Let_def)
  have b: "machine_wf (k\<lparr>st_block_buffer := (st_block_buffer k)[i := x]\<rparr>)" if "machine_wf k" for k i x
    using that by (simp add: wf_st_block_buffer)
  show ?thesis
    unfolding st_load_block_def by (intro wf_rules wf b c wf_upd_prep) simp_all
qed

lemma wf_profile [wf]: "machine_wf m \<Longrightarrow> machine_wf (st_block_profile b m)"
  unfolding st_block_profile_def by (intro wf_rules wf wf_upd_prep wf_set_step_control) (simp_all add: prep_index_profile)

lemma wf_fetch [wf]:
  assumes "machine_wf m"
  shows "machine_wf (fst (st_fetch_block m))"
proof -
  have p: "machine_wf (m\<lparr>pl_block := (if c then Some (plan_get_system_motion_block m) else plan_get_current_block m)\<rparr>)" for c
    using wf_ring [OF assms]
    by (intro wf_pl_block assms) (auto simp: plan_get_system_motion_block_def plan_get_current_block_def split: if_splits)
  have q: "machine_wf (st_block_profile b (if c then upd_prep (\<lambda>q. q\<lparr>prep_recalculate_flag := 0\<rparr>) k else st_load_block b k))"
    if "machine_wf k" for b c k
    by (intro wf wf_if wf_upd_prep that) simp
  have c: "machine_wf (fst a) \<Longrightarrow> (\<And>b. machine_wf (fst (g b))) \<Longrightarrow> machine_wf (fst (case x of None \<Rightarrow> a | Some b \<Rightarrow> g b))"
    for a :: "machine \<times> u8 option" and g x
    by (cases x) simp_all
  show ?thesis
    unfolding st_fetch_block_def Let_def by (intro c; simp only: fst_conv assms p q)
qed

lemma wf_segment_spindle [wf]: "machine_wf m \<Longrightarrow> machine_wf (segment_spindle b m)"
proof -
  have p: "machine_wf (let (pwm, k) = spindle_compute_pwm_value v k in upd_prep (\<lambda>q. q\<lparr>prep_current_spindle_pwm := pwm\<rparr>) k)"
    if "machine_wf k" for v k
    using wf_spindle(5) [OF that, of v] by (simp add: case_prod_beta wf_upd_prep)
  assume "machine_wf m"
  then show ?thesis
    unfolding segment_spindle_def by (intro wf_if wf_let wf_let_value p wf wf_upd_prep wf_upd_segment wf_set_step_control) simp_all
qed

lemma wf_push_segment: "machine_wf m \<Longrightarrow> segment_buffer_tail m \<noteq> segment_next_head m \<Longrightarrow> machine_wf (st_push_segment m)"
proof -
  assume "machine_wf m" "segment_buffer_tail m \<noteq> segment_next_head m"
  moreover from this have "seg_wf (st_push_segment m)" by (simp add: machine_wf_def seg_wf_push)
  ultimately show ?thesis by (simp add: wf_defs st_push_segment_def Let_def)
qed

lemma wf_check_exit [wf]: "machine_wf m \<Longrightarrow> machine_wf (snd (st_check_exit b mm m))"
  using wf_discard [OF wf_pl_block [of m None]] by (simp add: st_check_exit_def wf_set_step_control)

lemma wf_emit:
  assumes "machine_wf m" "segment_buffer_tail m \<noteq> segment_next_head m"
  shows "machine_wf (snd (st_emit_segment b dt mm m))"
proof -
  let ?u = "\<lambda>f k. upd_segment f k"
  have g: "seg_st_block_index (set_segment_rate n v s) = seg_st_block_index s" for n v s
    by (simp add: set_segment_rate_def Let_def)
  have s: "machine_wf (?u (\<lambda>s. s\<lparr>seg_n_step := n\<rparr>) (segment_spindle b m))" for n
    by (intro wf_upd_segment wf assms(1)) simp
  have "seg_same m (?u g (?u f (segment_spindle b m)))" for f g
    by (rule seg_same_trans [OF seg_same_spindle seg_same_trans [OF seg_same_basic(4) seg_same_basic(4)]])
  then have "machine_wf (st_push_segment (?u (set_segment_rate n v) (?u (\<lambda>s. s\<lparr>seg_n_step := w\<rparr>) (segment_spindle b m))))" for n v w
    using assms(2) by (intro wf_push_segment wf_upd_segment s) (simp_all add: g seg_same_def)
  then show ?thesis
    by (simp add: st_emit_segment_def Let_def wf_set_step_control [OF s] wf_check_exit wf_upd_prep wf_set_block)
qed

lemma wf_make_segment:
  assumes "machine_wf m" "segment_buffer_tail m \<noteq> segment_next_head m" "st_make_segment b m = Some (c, m')"
  shows "machine_wf m'"
proof -
  let ?k = "upd_segment (\<lambda>s. s\<lparr>seg_st_block_index := prep_st_block_index (prep m)\<rparr>) m"
  have k: "machine_wf ?k" "prep ?k = prep m"
    by (rule wf_upd_segment, rule assms(1), simp add: wf_prep_index [OF assms(1)]) (simp add: upd_segment_def Let_def)
  obtain a mm' l t t' mm q dt mm_remaining where r: "ramp_loop a mm' l (prep m) t 0 t' mm = Some (q, dt, mm_remaining)"
    "st_emit_segment b dt mm_remaining (?k\<lparr>prep := q\<rparr>) = (c, m')"
    using assms(3) unfolding st_make_segment_def Let_def k(2) by auto
  have "machine_wf (?k\<lparr>prep := q\<rparr>)"
    using prep_index_ramp_loop [OF r(1)] wf_prep_index [OF assms(1)] by (intro wf_prep k) simp
  moreover have "segment_buffer_tail (?k\<lparr>prep := q\<rparr>) \<noteq> segment_next_head (?k\<lparr>prep := q\<rparr>)"
    using assms(2) by (simp add: upd_segment_def Let_def)
  ultimately show ?thesis using wf_emit [of "?k\<lparr>prep := q\<rparr>" b dt mm_remaining] r(2) by simp
qed

lemma wf_prep_loop: "prep_loop m = Some m' \<Longrightarrow> machine_wf m \<longrightarrow> machine_wf m'"
proof (erule prep_loop.raw_induct [where P = "\<lambda>m m'. machine_wf m \<longrightarrow> machine_wf m'", rotated])
  fix loop m m'
  assume 1: "\<And>m m'. loop m = Some m' \<Longrightarrow> machine_wf m \<longrightarrow> machine_wf m'"
    "(if segment_buffer_tail m = segment_next_head m then Some m
      else case st_fetch_block m of
             (m, None) \<Rightarrow> Some m
           | (m, Some b) \<Rightarrow>
             (case st_make_segment b m of None \<Rightarrow> None
              | Some (continue, m) \<Rightarrow> (if continue then loop m else Some m))) = Some m'"
  obtain k o' where f: "st_fetch_block m = (k, o')" by fastforce
  have k: "machine_wf m \<Longrightarrow> machine_wf k" "seg_same m k"
    using wf_fetch [of m] seg_same_fetch [of m] f by simp_all
  show "machine_wf m \<longrightarrow> machine_wf m'"
  proof (rule impI, cases "segment_buffer_tail m = segment_next_head m")
    case False
    assume "machine_wf m"
    have "machine_wf k'" if "st_make_segment b k = Some (c, k')" for b c k'
      using wf_make_segment [OF k(1) _ that] \<open>machine_wf m\<close> False k(2) by (simp add: seg_same_def)
    then show "machine_wf m'"
      using 1(2) False k(1) \<open>machine_wf m\<close> by (auto simp: f split: option.splits if_splits dest!: 1(1))
  qed (use 1(2) in simp)
qed

lemma wf_prep_buffer [wf]: "machine_wf m \<Longrightarrow> pred_option machine_wf (st_prep_buffer m)"
  using wf_prep_loop by (auto simp: sat_iff st_prep_buffer_def split: if_splits)

section \<open>The interrupts\<close>

lemma wf_status [wf]: "machine_wf m \<Longrightarrow> machine_wf (report_realtime_status c m)"
  by (simp add: report_realtime_status_def wf_report wf_sys_state report_counters_def Let_def)

lemma wf_mc_reset [wf]: "machine_wf m \<Longrightarrow> machine_wf (mc_reset m)"
  unfolding mc_reset_def by (intro wf_rules wf)

lemma wf_rx_push: "machine_wf m \<Longrightarrow> machine_wf (serial_rx_push c d m)"
  by (simp add: machine_wf_def rx_rings_def) (simp add: wf_defs serial_rx_push_def Let_def)

lemma wf_rx_byte [wf]: "machine_wf m \<Longrightarrow> machine_wf (serial_rx_byte b m)"
proof -
  have s: "machine_wf (serial_store c d k)" if "machine_wf k" for c d k
    unfolding serial_store_def by (intro wf_rules wf_rx_push that)
  have e: "machine_wf (serial_extended d k)" if "machine_wf k" for d k
    unfolding serial_extended_def by (intro wf_rules wf that)
  show "machine_wf m \<Longrightarrow> ?thesis"
    by (cases b) (simp only: serial_rx_byte_def prod.case, intro wf_rules wf s e)
qed

lemma wf_pins [wf]:
  assumes "machine_wf m"
  shows "machine_wf (pin_limit_vect pins m)" "machine_wf (pin_control_vect pins m)"
proof -
  have s: "machine_wf (scan_limit_port k)" "machine_wf (scan_control_port k)" if "machine_wf k" for k
    using that unfolding scan_limit_port_def scan_control_port_def
    by (auto intro!: wf_fold wf_report simp: Let_def)
  have p: "machine_wf (k\<lparr>limit_port := x\<rparr>)" "machine_wf (k\<lparr>limit_port_inputs := x\<rparr>)" "machine_wf (k\<lparr>control_port := x\<rparr>)"
    "machine_wf (k\<lparr>control_port_inputs := x\<rparr>)" "machine_wf (k\<lparr>sys_rt_exec_state := x\<rparr>)" if "machine_wf k" for k x
    using that by simp_all
  show "machine_wf (pin_limit_vect pins m)"
    unfolding pin_limit_vect_def by (intro wf_rules wf s p assms)
  show "machine_wf (pin_control_vect pins m)"
    unfolding pin_control_vect_def by (intro wf_rules wf s p assms)
qed

lemma wf_event [wf]: "machine_wf m \<Longrightarrow> machine_wf (run_event e m)"
  by (simp add: run_event_def serial_poll_rx_def wf wf_fold split: event.split)

lemma wf_poll [wf]: "machine_wf m \<Longrightarrow> pred_option machine_wf (poll m)"
  by (auto simp: poll_def intro!: wf_fold wf_event split: list.split)

section \<open>The realtime executor\<close>

lemma wf_wait_reset [rule_format, wf]: "\<forall>m. machine_wf m \<longrightarrow> pred_option machine_wf (wait_reset m)"
  by (rule wait_reset.fixp_induct [OF sat_admissible]) (simp, (intro allI impI wf_rules wf; simp))

lemma wf_set_state: "machine_wf m \<Longrightarrow> v \<in> STATES \<Longrightarrow> machine_wf (set_state v m)"
  by (simp add: wf_sys)

lemma wf_sys_fields:
  assumes "machine_wf m"
  shows "machine_wf (set_suspend v m)" "machine_wf (upd_sys (\<lambda>s. s\<lparr>sys_abort := True\<rparr>) m)"
    "machine_wf (m\<lparr>sys := (sys m)\<lparr>sys_spindle_stop_ovr := x\<rparr>\<rparr>)"
  using assms by (simp_all add: wf_sys_state)

lemmas wf_writes = wf_set_state wf_sys_fields wf_set_step_control STATES_simps

lemma wf_alarm [wf]: "machine_wf m \<Longrightarrow> pred_option machine_wf (rt_alarm m)"
  unfolding rt_alarm_def by (intro wf_rules wf wf_writes)

lemma wf_rt_hold [wf]:
  assumes "machine_wf m"
  shows "machine_wf (rt_hold e m)"
proof -
  have 1: "machine_wf (rt_hold_motion e k)" if "machine_wf k" for k
    unfolding rt_hold_motion_def by (intro wf_rules wf wf_writes that)
  have 2: "machine_wf (rt_motion_cancel e k)" if "machine_wf k" for k
    unfolding rt_motion_cancel_def by (intro wf_rules wf_writes that)
  have 3: "machine_wf (rt_feed_hold e k)" if "machine_wf k" for k
    unfolding rt_feed_hold_def by (intro wf_rules wf_writes that)
  have 4: "machine_wf (rt_safety_door e k)" if "machine_wf k" for k
    unfolding rt_safety_door_def by (intro wf_rules wf wf_writes that)
  have 5: "machine_wf (rt_sleep e k)" if "machine_wf k" for k
    unfolding rt_sleep_def by (intro wf_rules wf_writes that)
  show ?thesis unfolding rt_hold_def by (intro wf_rules wf 1 2 3 4 5 assms)
qed

lemma wf_cycle_start [wf]: "machine_wf m \<Longrightarrow> pred_option machine_wf (rt_cycle_start e m)"
proof -
  have d: "machine_wf (rt_door_resume k)" if "machine_wf k" for k
    unfolding rt_door_resume_def by (intro wf_rules wf_writes that)
  have r: "pred_option machine_wf (rt_run_cycle k)" if "machine_wf k" for k
    unfolding rt_run_cycle_def by (intro wf_rules wf wf_writes that)
  assume "machine_wf m"
  then show ?thesis unfolding rt_cycle_start_def by (intro wf_rules wf d r)
qed

lemma wf_cycle_stop [wf]: "machine_wf m \<Longrightarrow> machine_wf (rt_cycle_stop e m)"
proof -
  have h: "machine_wf (rt_hold_done k)" if "machine_wf k" for k
    unfolding rt_hold_done_def by (intro wf_rules wf wf_writes that)
  have d: "machine_wf (rt_motion_done k)" if "machine_wf k" for k
    unfolding rt_motion_done_def by (intro wf_rules wf wf_writes that)
  assume "machine_wf m"
  then show ?thesis unfolding rt_cycle_stop_def by (intro wf_rules wf h d)
qed

lemma wf_motion_overrides [wf]: "machine_wf m \<Longrightarrow> machine_wf (rt_motion_overrides m)"
proof -
  have o: "machine_wf (upd_sys (\<lambda>s. s\<lparr>sys_f_override := f, sys_r_override := r, sys_report_ovr_counter := n\<rparr>) k)"
    if "machine_wf k" for f r n k
    using that by (simp add: wf_sys_state)
  assume "machine_wf m"
  then show ?thesis unfolding rt_motion_overrides_def by (intro wf_rules wf o)
qed

lemma wf_accessory_overrides [wf]: "machine_wf m \<Longrightarrow> machine_wf (rt_accessory_overrides m)"
proof -
  have o: "machine_wf (upd_sys (\<lambda>s. s\<lparr>sys_spindle_speed_ovr := v\<rparr>) k)" "machine_wf (upd_sys (\<lambda>s. s\<lparr>sys_report_ovr_counter := n\<rparr>) k)"
    if "machine_wf k" for v n k
    using that by (simp_all add: wf_sys_state)
  have 1: "machine_wf (rt_spindle_override e k)" if "machine_wf k" for e k
    unfolding rt_spindle_override_def by (intro wf_rules wf wf_writes o that)
  have 2: "machine_wf (rt_spindle_stop e k)" if "machine_wf k" for e k
    unfolding rt_spindle_stop_def by (intro wf_rules wf_writes that)
  have 3: "machine_wf (set_modal_coolant v k)" if "machine_wf k" for v k
    using that by (simp add: set_modal_coolant_def)
  have 4: "machine_wf (rt_coolant_toggle e k)" if "machine_wf k" for e k
    unfolding rt_coolant_toggle_def by (intro wf_rules wf 3 that)
  assume "machine_wf m"
  then show ?thesis unfolding rt_accessory_overrides_def by (intro wf_rules wf 1 2 4)
qed

lemma wf_exec_rt_system [wf]: "machine_wf m \<Longrightarrow> pred_option machine_wf (protocol_exec_rt_system m)"
proof -
  have r: "pred_option machine_wf (rt_reload k)" if "machine_wf k" for k
    unfolding rt_reload_def by (intro wf_rules wf that)
  have s: "machine_wf (rt_status_report e k)" if "machine_wf k" for e k
    unfolding rt_status_report_def by (intro wf_rules wf that)
  have f: "pred_option machine_wf (rt_exec_flags e k)" if "machine_wf k" for e k
    unfolding rt_exec_flags_def by (intro wf_rules wf s that)
  assume "machine_wf m"
  then show ?thesis unfolding protocol_exec_rt_system_def by (intro wf_rules wf wf_writes r f)
qed

section \<open>The suspend loop and the waits\<close>

lemma wf_delay_loop:
  assumes "\<And>m. machine_wf m \<Longrightarrow> pred_option machine_wf (realtime m)"
  shows "machine_wf m \<Longrightarrow> pred_option machine_wf (delay_loop realtime mode n m)"
  by (induction n arbitrary: m) (simp_all only: delay_loop.simps, (intro wf_rules wf assms; assumption)+)

lemma wf_sleep_loop [rule_format, wf]: "\<forall>m. machine_wf m \<longrightarrow> pred_option machine_wf (sleep_loop m)"
  by (rule sleep_loop.fixp_induct [OF sat_admissible]) (simp, (intro allI impI wf_rules wf; simp))

lemma wf_suspend_parts [wf]:
  assumes "machine_wf m"
  shows "machine_wf (suspend_deenergize m)" "machine_wf (suspend_retract m)" "machine_wf (suspend_feed_hold cond speed m)"
proof -
  have d: "machine_wf (suspend_deenergize k)" if "machine_wf k" for k
    unfolding suspend_deenergize_def by (intro wf that)
  have o: "machine_wf (suspend_spindle_on cond speed k)" if "machine_wf k" for k
    unfolding suspend_spindle_on_def by (intro wf that)
  have u: "machine_wf (update_spindle_pwm k)" if "machine_wf k" for k
    unfolding update_spindle_pwm_def by (intro wf_writes that)
  have s: "machine_wf (suspend_spindle_stop cond speed k)" if "machine_wf k" for k
    unfolding suspend_spindle_stop_def Let_def by (intro wf_rules wf wf_writes o u that)
  show "machine_wf (suspend_deenergize m)" using d assms by blast
  show "machine_wf (suspend_retract m)"
    unfolding suspend_retract_def by (intro wf_rules wf_writes d assms)
  show "machine_wf (suspend_feed_hold cond speed m)"
    unfolding suspend_feed_hold_def by (intro wf_rules wf_writes s o assms)
qed

lemma wf_suspend_round [wf]: "machine_wf m \<Longrightarrow> pred_option (snd_sat machine_wf) (suspend_round cond speed m)"
proof -
  note d = wf_delay_loop [OF wf_exec_rt_system]
  have 1: "pred_option machine_wf (restore_spindle cond speed k)" if "machine_wf k" for k
    unfolding restore_spindle_def update_spindle_pwm_def suspend_spindle_on_def by (intro wf_rules wf wf_writes d that)
  have 2: "pred_option machine_wf (restore_coolant cond k)" if "machine_wf k" for k
    unfolding restore_coolant_def by (intro wf_rules wf d that)
  have 3: "machine_wf (restore_done k)" if "machine_wf k" for k
    unfolding restore_done_def by (intro wf_rules wf wf_writes that)
  have 4: "pred_option machine_wf (suspend_restore cond speed k)" if "machine_wf k" for k
    unfolding suspend_restore_def by (intro wf_rules 1 2 3 that)
  have 5: "pred_option machine_wf (suspend_parked cond speed k)" if "machine_wf k" for k
    unfolding suspend_parked_def by (intro wf_rules wf_writes 4 that)
  have p: "machine_wf k \<Longrightarrow> snd_sat machine_wf (b, k)" for b :: bool and k by simp
  assume "machine_wf m"
  then show ?thesis unfolding suspend_round_def by (intro wf_rules p wf 5)
qed

lemma wf_suspend_loop [rule_format, wf]:
  "\<forall>cond speed m. machine_wf m \<longrightarrow> pred_option machine_wf (suspend_loop cond speed m)"
  by (rule suspend_loop.fixp_induct [OF sat_admissible3]) (simp, (intro allI impI wf_rules wf; simp))

lemma wf_execute_realtime [wf]: "machine_wf m \<Longrightarrow> pred_option machine_wf (protocol_execute_realtime m)"
  unfolding protocol_execute_realtime_def protocol_exec_rt_suspend_def by (intro wf_rules wf)

lemma wf_auto_cycle_start [wf]: "machine_wf m \<Longrightarrow> machine_wf (protocol_auto_cycle_start m)"
  unfolding protocol_auto_cycle_start_def by (intro wf_rules wf)

lemma wf_synchronize [wf]: "machine_wf m \<Longrightarrow> pred_option machine_wf (protocol_buffer_synchronize m)"
proof -
  have l: "\<forall>m. machine_wf m \<longrightarrow> pred_option machine_wf (synchronize_loop m)"
    by (rule synchronize_loop.fixp_induct [OF sat_admissible]) (simp, (intro allI impI wf_rules wf; simp))
  assume "machine_wf m"
  then show ?thesis unfolding protocol_buffer_synchronize_def by (intro wf l [rule_format])
qed

lemma wf_delay_sec [wf]: "machine_wf m \<Longrightarrow> pred_option machine_wf (delay_sec seconds mode m)"
  using wf_delay_loop [OF wf_execute_realtime] wf_delay_loop [OF wf_exec_rt_system] by (simp add: delay_sec_def)

end
