(* ===== verification/Program_Wf.thy ===== *)
theory Program_Wf
  imports Machine_Wf
begin

text \<open>
  The shape of the machine's data through the main program: the motion primitives, the parser, the
  settings, the \<^verbatim>\<open>$\<close> commands, the reading of the clients and the start-up.
\<close>

lemma snd_satI: "P m \<Longrightarrow> snd_sat P (a, m)" "P m \<Longrightarrow> thd_sat P (a, b, m)"
  by simp_all

section \<open>Settings and the store\<close>

lemma wf_eeprom [wf]:
  "machine_wf m \<Longrightarrow> machine_wf (memcpy_to_eeprom a bs m)" "machine_wf m \<Longrightarrow> machine_wf (eeprom_put_char a v m)"
  "machine_wf m \<Longrightarrow> machine_wf (write_global_settings m)" "machine_wf m \<Longrightarrow> machine_wf (settings_store_build_info line m)"
proof -
  show e: "machine_wf (memcpy_to_eeprom a bs m)" if "machine_wf m" for a bs m
    using memcpy_to_eeprom_frame [of a bs m] that by auto
  show p: "machine_wf (eeprom_put_char a v m)" if "machine_wf m" for a v m
    using that by (simp add: eeprom_put_char_def)
  show "machine_wf m \<Longrightarrow> machine_wf (write_global_settings m)" "machine_wf m \<Longrightarrow> machine_wf (settings_store_build_info line m)"
    by (simp_all add: write_global_settings_def settings_store_build_info_def e p)
qed

lemma wf_wco [wf]: "machine_wf m \<Longrightarrow> pred_option machine_wf (system_flag_wco_change m)"
proof -
  have c: "machine_wf (upd_sys (\<lambda>s. s\<lparr>sys_report_wco_counter := 0\<rparr>) k)" if "machine_wf k" for k
    using that by (simp add: wf_sys_state)
  assume "machine_wf m"
  then show ?thesis unfolding system_flag_wco_change_def by (intro wf_rules wf c)
qed

lemma wf_store_line [wf]:
  "machine_wf m \<Longrightarrow> pred_option machine_wf (settings_store_startup_line n line m)"
  "machine_wf m \<Longrightarrow> pred_option machine_wf (settings_write_coord_data sel data m)"
  unfolding settings_store_startup_line_def settings_write_coord_data_def by (rule wf_rules | intro wf | assumption)+

lemma wf_read_line [wf]: "machine_wf m \<Longrightarrow> pred_option (thd_sat machine_wf) (settings_read_startup_line n m)"
proof -
  assume m: "machine_wf m"
  obtain line ok where r: "memcpy_from_eeprom (startup_line_addr n) LINE_BUFFER_SIZE m = (line, ok)" by fastforce
  show ?thesis
    by (cases ok) (simp_all only: settings_read_startup_line_def r prod.case bool.case, (intro wf_rules wf snd_satI m)+)
qed

lemma wf_read_build_info [wf]: "machine_wf m \<Longrightarrow> machine_wf (snd (snd (settings_read_build_info m)))"
  by (auto simp: settings_read_build_info_def Let_def wf split: prod.splits bool.splits)

lemma wf_read_coord_into:
  assumes "machine_wf m" "\<And>d k. machine_wf k \<Longrightarrow> machine_wf (put d k)"
  shows "pred_option (thd_sat machine_wf) (settings_read_coord_data_into put sel m)"
proof -
  obtain bs ok where r: "memcpy_from_eeprom (coord_data_addr sel) SIZEOF_COORD_DATA m = (bs, ok)" by fastforce
  show ?thesis
    by (cases ok) (simp_all only: settings_read_coord_data_into_def r prod.case bool.case, (intro wf_rules wf snd_satI assms)+)
qed

lemma wf_gc [wf]:
  assumes "machine_wf m"
  shows "machine_wf (upd_gc f m)" "machine_wf (upd_gc_modal g m)" "machine_wf (set_coord_system d m)" "machine_wf (set_gc_position d m)"
  using assms by (simp_all add: upd_gc_def upd_gc_modal_def set_coord_system_def set_gc_position_def)

lemma wf_read_coord [wf]:
  assumes "machine_wf m"
  shows "pred_option (thd_sat machine_wf) (settings_read_coord_data sel m)"
    "pred_option (thd_sat machine_wf) (settings_read_coord_data_into set_coord_system sel m)"
proof -
  show "pred_option (thd_sat machine_wf) (settings_read_coord_data sel m)"
    unfolding settings_read_coord_data_def by (rule wf_read_coord_into [OF assms])
  show "pred_option (thd_sat machine_wf) (settings_read_coord_data_into set_coord_system sel m)"
    by (rule wf_read_coord_into [OF assms]) (rule wf)
qed

lemma wf_upd_settings [wf]: "machine_wf m \<Longrightarrow> machine_wf (upd_settings f m)" "machine_wf m \<Longrightarrow> machine_wf (put_flag b on m)"
  by (simp_all add: upd_settings_def put_flag_def)

lemma wf_store_global [wf]: "machine_wf m \<Longrightarrow> pred_option (snd_sat machine_wf) (settings_store_global_setting parameter value m)"
proof -
  have i: "pred_option (\<lambda>r. \<forall>k. r = Inr k \<longrightarrow> machine_wf k) (Some (Inl c))" for c :: u8 by simp
  have r: "pred_option (\<lambda>r. \<forall>k. r = Inr k \<longrightarrow> machine_wf k) (Some (Inr k))" if "machine_wf k" for k using that by simp
  have w: "pred_option (\<lambda>r. \<forall>k. r = Inr k \<longrightarrow> machine_wf k) (map_option Inr (system_flag_wco_change k))" if "machine_wf k" for k
    using wf_wco [OF that] by (cases "system_flag_wco_change k") simp_all
  have s: "pred_option (\<lambda>r. \<forall>k. r = Inr k \<longrightarrow> machine_wf k) (store_setting parameter value m)" if "machine_wf m" for parameter m
    unfolding store_setting_def Let_def by (intro sat_if i r w wf_if wf that)
  assume m: "machine_wf m"
  have "pred_option (snd_sat machine_wf) (map_option (\<lambda>r. case r of Inl code \<Rightarrow> (code, m) | Inr k \<Rightarrow> (STATUS_OK, write_global_settings k))
      (store_setting parameter value m))"
    by (rule sat_map [OF s [OF m]]) (auto simp: m wf split: sum.split)
  then show ?thesis
    using m unfolding settings_store_global_setting_def
    by (auto simp: wf split: option.split)
qed

lemma wf_restore [wf]: "machine_wf m \<Longrightarrow> pred_option machine_wf (settings_restore restore_flag m)"
proof -
  have p: "pred_option machine_wf (restore_parameters idxs k)" if "machine_wf k" for idxs k
    using that by (induction idxs arbitrary: k) (simp_all only: restore_parameters.simps, (intro wf_rules wf; simp)+)
  have l: "machine_wf (restore_startup_lines k)" "machine_wf (restore_build_info k)" if "machine_wf k" for k
    using that by (simp_all add: restore_startup_lines_def restore_build_info_def wf Let_def)
  have d: "machine_wf (write_global_settings (k\<lparr>settings := s\<rparr>))" if "machine_wf k" for k s
    using that by (simp add: wf)
  assume "machine_wf m"
  then show ?thesis unfolding settings_restore_def by (intro wf_rules p l d)
qed

lemma wf_settings_init [wf]: "machine_wf m \<Longrightarrow> pred_option machine_wf (settings_init m)"
proof -
  assume m: "machine_wf m"
  obtain ok k where r: "read_global_settings m = (ok, k)" by fastforce
  then have "machine_wf k" using m by (auto simp: read_global_settings_def Let_def split: if_splits prod.splits)
  then show ?thesis
    by (cases ok) (simp_all only: settings_init_def r prod.case bool.case, (intro wf_rules wf; simp)+)
qed

section \<open>Motion\<close>

lemma wf_syncs [wf]:
  "machine_wf m \<Longrightarrow> pred_option machine_wf (spindle_sync st rpm m)" "machine_wf m \<Longrightarrow> pred_option machine_wf (coolant_sync c m)"
proof -
  show "pred_option machine_wf (spindle_sync st rpm m)" if "machine_wf m"
    unfolding spindle_sync_def by (intro wf_rules wf that)
  show "pred_option machine_wf (coolant_sync c m)" if "machine_wf m"
    unfolding coolant_sync_def by (intro wf_rules wf that)
qed

lemma wf_wait_idle [rule_format, wf]: "\<forall>m. machine_wf m \<longrightarrow> pred_option machine_wf (wait_idle m)"
  by (rule wait_idle.fixp_induct [OF sat_admissible]) (simp, (intro allI impI wf_rules wf; simp))

lemma wf_wait_for_room [rule_format, wf]: "\<forall>m. machine_wf m \<longrightarrow> pred_option machine_wf (wait_for_room m)"
  by (rule wait_for_room.fixp_induct [OF sat_admissible]) (simp, (intro allI impI wf_rules wf; simp))

lemma wf_line [wf]: "machine_wf m \<Longrightarrow> pred_option machine_wf (mc_line target pld m)"
proof -
  have l: "machine_wf (upd_sys (\<lambda>s. s\<lparr>sys_soft_limit := True\<rparr>) k)" if "machine_wf k" for k
    using that by (simp add: wf_sys_state)
  have s: "pred_option machine_wf (limits_soft_check target k)" if "machine_wf k" for k
    unfolding limits_soft_check_def by (intro wf_rules wf l that)
  have q: "pred_option machine_wf (queue_line target pld k)" if "machine_wf k" for k
    unfolding queue_line_def by (intro wf_rules wf that)
  assume "machine_wf m"
  then show ?thesis unfolding mc_line_def by (intro wf_rules wf s q)
qed

lemma wf_arc [wf]: "machine_wf m \<Longrightarrow> pred_option machine_wf (mc_arc lm target pld offset radius a b c cw m)"
proof -
  have l: "pred_option (snd_sat machine_wf) (arc_loop nr place d n i r k)" if "machine_wf k" for nr place d n i r k
    using that
  proof (induction n arbitrary: i r k)
    case (Suc n)
    show ?case unfolding arc_loop.simps Let_def by (intro wf_rules wf snd_satI Suc)
  qed simp
  assume "machine_wf m"
  then show ?thesis unfolding mc_arc_def Let_def by (intro wf_rules l wf)
qed

lemma wf_dwell [wf]: "machine_wf m \<Longrightarrow> pred_option machine_wf (mc_dwell seconds m)"
  unfolding mc_dwell_def by (intro wf_rules wf)

lemma wf_jog [wf]: "machine_wf m \<Longrightarrow> pred_option (snd_sat machine_wf) (jog_execute pld v m)"
  unfolding jog_execute_def by (intro wf_rules wf wf_writes snd_satI)

lemma wf_positions:
  assumes "machine_wf m"
  shows "machine_wf (zero_positions axes m)" "machine_wf (homing_set_positions cm m)" "machine_wf (set_homing_lock w m)"
proof -
  have f: "length (fold (\<lambda>idx p. p[idx := g idx]) xs p) = length p" for g :: "nat \<Rightarrow> i32" and xs p
    by (induction xs arbitrary: p) simp_all
  have "length (sys_position m) = N_AXIS" using assms by (simp add: machine_wf_def)
  then show "machine_wf (zero_positions axes m)" "machine_wf (homing_set_positions cm m)"
    unfolding zero_positions_def homing_set_positions_def by (intro wf_position assms; simp add: f)+
  show "machine_wf (set_homing_lock w m)" using assms by (simp add: set_homing_lock_def wf_sys_state)
qed

lemma wf_homing_motion [rule_format]:
  "\<forall>cm approach w m. machine_wf m \<longrightarrow> pred_option (snd_sat machine_wf) (homing_motion cm approach w m)"
proof (rule homing_motion.fixp_induct [OF sat_admissible4])
  fix loop :: "u8 \<Rightarrow> bool \<Rightarrow> u8 \<Rightarrow> machine \<Rightarrow> (bool \<times> machine) option"
  assume i: "\<forall>cm approach w m. machine_wf m \<longrightarrow> pred_option (snd_sat machine_wf) (loop cm approach w m)"
  have a: "machine_wf (homing_alarms cm approach e k)" if "machine_wf k" for cm approach e k
    unfolding homing_alarms_def by (intro wf_rules wf that)
  show "\<forall>cm approach w m. machine_wf m \<longrightarrow> pred_option (snd_sat machine_wf)
      (case poll m of None \<Rightarrow> None
      | Some m \<Rightarrow>
        let axislock = (if approach then homing_lock (limits_get_state m) w else w);
            m = (if approach then set_homing_lock axislock m else m)
        in case st_prep_buffer m of None \<Rightarrow> None
        | Some m \<Rightarrow>
            if sys_rt_exec_state m AND (EXEC_SAFETY_DOOR OR EXEC_RESET OR EXEC_CYCLE_STOP) \<noteq> 0 then
              let m = homing_alarms cm approach (sys_rt_exec_state m) m in
              if sys_rt_exec_alarm m \<noteq> 0
              then map_option (Pair False) (protocol_execute_realtime (mc_reset m))
              else Some (True, system_clear_exec_state_flag EXEC_CYCLE_STOP m)
            else if STEP_MASK AND axislock \<noteq> 0 then loop cm approach axislock m
            else Some (True, m))"
    by (intro allI impI wf_rules wf wf_positions a snd_satI i [rule_format])
qed simp

lemma wf_go_home [wf]: "machine_wf m \<Longrightarrow> pred_option machine_wf (limits_go_home cm m)"
proof -
  have s: "pred_option machine_wf (homing_start cm approach travel rate k)" if "machine_wf k" for approach travel rate k
    unfolding homing_start_def by (intro wf_rules wf wf_writes wf_positions that)
  have r: "pred_option (snd_sat machine_wf) (homing_rounds n cm approach travel rate k)" if "machine_wf k" for n approach travel rate k
    using that
  proof (induction n arbitrary: approach travel rate k)
    case (Suc n)
    show ?case unfolding homing_rounds.simps by (intro wf_rules wf snd_satI s wf_homing_motion Suc)
  qed simp
  assume "machine_wf m"
  then show ?thesis unfolding limits_go_home_def by (intro wf_rules wf_writes wf_positions r)
qed

lemma wf_homing [wf]: "machine_wf m \<Longrightarrow> pred_option machine_wf (mc_homing_cycle m)"
  unfolding mc_homing_cycle_def by (intro wf_rules wf)

lemma wf_probe_wait [rule_format, wf]: "\<forall>m. machine_wf m \<longrightarrow> pred_option machine_wf (probe_wait m)"
  by (rule probe_wait.fixp_induct [OF sat_admissible]) (simp, (intro allI impI wf_rules wf; simp))

lemma wf_probe_cycle [wf]: "machine_wf m \<Longrightarrow> pred_option (snd_sat machine_wf) (mc_probe_cycle target pld fl m)"
proof -
  have p: "machine_wf (set_probe_succeeded b k)" if "machine_wf k" for b k
    using that by (simp add: set_probe_succeeded_def wf_sys_state)
  have q: "machine_wf (k\<lparr>sys_probe_state := x\<rparr>)" "machine_wf (k\<lparr>sys_probe_position := y\<rparr>)" if "machine_wf k" for k x y
    using that by simp_all
  have r: "machine_wf (probe_result b k)" if "machine_wf k" for b k
    unfolding probe_result_def by (intro wf_rules wf p q that)
  have f: "snd_sat machine_wf (probe_finish k)" if "machine_wf k" for k
    using that by (simp add: probe_finish_def wf Let_def)
  have m: "pred_option (snd_sat machine_wf) (probe_motion target pld b k)" if "machine_wf k" for b k
    unfolding probe_motion_def by (intro wf_rules wf q r f snd_satI that)
  assume "machine_wf m"
  then show ?thesis unfolding mc_probe_cycle_def by (intro wf_rules wf p m snd_satI)
qed

section \<open>The parser\<close>

lemma wf_check_block [wf]: "machine_wf m \<Longrightarrow> pred_option (snd_sat machine_wf) (check_block ps m)"
proof -
  assume m: "machine_wf m"
  have r: "pred_option (snd_sat machine_wf) (map_option (\<lambda>(ok, d, k). (g ok d k, k)) (settings_read_coord_data sel k))"
    if "machine_wf k" for sel k and g :: "bool \<Rightarrow> f32 list \<Rightarrow> machine \<Rightarrow> 'b"
    using wf_read_coord(1) [OF that, of sel] by (auto simp: sat_iff)
  have c: "pred_option (snd_sat machine_wf) (check_coord_system ps k)" if "machine_wf k" for ps k
    unfolding check_coord_system_def by (intro sat_if sat_let_value r sat_some snd_satI that)
  have h: "pred_option (snd_sat machine_wf) (check_go_home i ps k)" if "machine_wf k" for i ps k
    unfolding check_go_home_def by (rule r [OF that])
  have p: "pred_option (snd_sat machine_wf) (map_option (map_prod g id) (check_go_home i ps k))"
    if "machine_wf k" for i ps k and g :: "u8 + parse_t \<Rightarrow> 'b"
    using h [OF that, of i ps] by (auto simp: sat_iff)
  have g: "pred_option (snd_sat machine_wf) (check_g10 ps k)" if "machine_wf k" for ps k
    unfolding check_g10_def by (intro sat_sum sat_prod r sat_some snd_satI that)
  have n: "pred_option (snd_sat machine_wf) (check_non_modal d ps k)" if "machine_wf k" for d ps k
    unfolding check_non_modal_def by (intro sat_if sat_let_value p g sat_some snd_satI that)
  show ?thesis unfolding check_block_def by (intro wf_rules c n snd_satI m)
qed

lemma wf_exec_parts [wf]:
  assumes "machine_wf m"
  shows "pred_option (snd_sat machine_wf) (exec_jog ps m)" "pred_option (snd_sat machine_wf) (exec_accessories ps m)"
    "pred_option machine_wf (exec_dwell ps m)" "pred_option machine_wf (exec_tool_length ps (exec_plane_units ps m))"
    "pred_option machine_wf (exec_coord_select d ps m)" "pred_option machine_wf (exec_non_modal sel ps pld (exec_distance ps m))"
    "pred_option machine_wf (exec_motion lm ps pld m)" "pred_option (snd_sat machine_wf) (exec_program_flow ps m)"
proof -
  have f: "machine_wf (snd (exec_feed_rate ps pld k))" if "machine_wf k" for pld k
    using that by (simp add: exec_feed_rate_def wf Let_def)
  have s: "pred_option machine_wf (exec_spindle_speed ps k)" if "machine_wf k" for k
    unfolding exec_spindle_speed_def by (intro wf_rules wf that)
  have t: "machine_wf (exec_tool ps k)" "machine_wf (exec_plane_units ps k)" "machine_wf (exec_distance ps k)" if "machine_wf k" for k
    using that by (simp_all add: exec_tool_def exec_plane_units_def exec_distance_def wf)
  have c: "pred_option machine_wf (exec_spindle ps pld k)" if "machine_wf k" for pld k
    unfolding exec_spindle_def by (intro wf_rules wf that)
  have d: "pred_option machine_wf (exec_coolant ps k)" if "machine_wf k" for k
    unfolding exec_coolant_def by (intro wf_rules wf that)
  show "pred_option (snd_sat machine_wf) (exec_jog ps m)"
    unfolding exec_jog_def Let_def by (intro wf_rules wf snd_satI assms) (simp add: wf)
  show "pred_option (snd_sat machine_wf) (exec_accessories ps m)"
    unfolding exec_accessories_def by (intro wf_rules f s t c d snd_satI assms)
  show "pred_option machine_wf (exec_dwell ps m)"
    unfolding exec_dwell_def by (intro wf_rules wf assms)
  show "pred_option machine_wf (exec_tool_length ps (exec_plane_units ps m))"
    unfolding exec_tool_length_def by (intro wf_rules wf t assms)
  show "pred_option machine_wf (exec_coord_select d ps m)"
    unfolding exec_coord_select_def by (intro wf_rules wf assms)
  show "pred_option machine_wf (exec_non_modal sel ps pld (exec_distance ps m))"
    unfolding exec_non_modal_def exec_set_coordinate_data_def exec_go_home_def exec_set_offset_def
    by (intro wf_rules wf t assms)
  have r: "pred_option (snd_sat machine_wf) (run_motion lm ps pld k)" if "machine_wf k" for k
    unfolding run_motion_def Let_def by (intro wf_rules wf snd_satI that)
  show "pred_option machine_wf (exec_motion lm ps pld m)"
    unfolding exec_motion_def by (intro wf_rules wf r assms)
  have o: "machine_wf (restore_overrides k)" if "machine_wf k" for k
    using that by (simp add: restore_overrides_def wf_sys_state)
  have e: "pred_option (snd_sat machine_wf) (program_end k)" if "machine_wf k" for k
    unfolding program_end_def by (intro wf_rules wf snd_satI o that)
  have p: "pred_option machine_wf (program_pause k)" if "machine_wf k" for k
    unfolding program_pause_def by (intro wf_rules wf that)
  have l: "pred_option (snd_sat machine_wf) (map_option (\<lambda>(ok, m). if ok then (STATUS_OK, g m) else (STATUS_SETTING_READ_FAIL, m)) (program_end k))"
    if "machine_wf k" "\<And>x. machine_wf x \<Longrightarrow> machine_wf (g x)" for g k
    using e [OF that(1)] that(2) by (auto simp: sat_iff split: if_splits)
  show "pred_option (snd_sat machine_wf) (exec_program_flow ps m)"
    unfolding exec_program_flow_def Let_def by (intro wf_rules wf snd_satI l p assms)
qed

lemma wf_execute_line [wf]: "machine_wf m \<Longrightarrow> pred_option (snd_sat machine_wf) (gc_execute_line lm line m)"
proof -
  have b: "pred_option (snd_sat machine_wf) (execute_block lm d sel ps k)" if "machine_wf k" for d sel ps k
    unfolding execute_block_def Let_def by (intro wf_rules wf that)
  assume m: "machine_wf m"
  show ?thesis unfolding gc_execute_line_def
    by (cases "parse_line line (gc_state m)") (simp_all only: option.case, (intro wf_rules wf b snd_satI m)+)
qed

lemma wf_gc_init [wf]: "machine_wf m \<Longrightarrow> pred_option machine_wf (gc_init m)"
proof -
  assume m: "machine_wf m"
  then have k: "machine_wf (m\<lparr>gc_state := parser_state0\<rparr>)" by simp
  have r: "machine_wf (case r of (ok, d, k) \<Rightarrow> if ok then k else report x k)" if "thd_sat machine_wf r"
    for r :: "bool \<times> f32 list \<times> machine" and x
    using that by (cases r) (simp add: wf)
  show ?thesis
    unfolding gc_init_def Let_def by (rule sat_map, rule wf_read_coord(2) [OF k], rule r)
qed

section \<open>The commands and the main loop\<close>

abbreviation "cmd_wf r \<equiv> pred_option (thd_sat machine_wf) (r :: (u8 \<times> line \<times> machine) option)"

lemma wf_done: "machine_wf m \<Longrightarrow> cmd_wf (done_with code line m)"
  by (simp add: done_with_def)

lemma wf_status_line: "pred_option (snd_sat machine_wf) r \<Longrightarrow> cmd_wf (map_option (\<lambda>(status, m). (status, line, m)) r)"
  by (cases r) auto

lemma wf_ngc [wf]:
  assumes m: "machine_wf m"
  shows "pred_option machine_wf (report_ngc_parameters client m)"
proof -
  have r: "pred_option (snd_sat machine_wf) (read_all_coord_data sels k)" if "machine_wf k" for sels k
    using that by (induction sels arbitrary: k) (simp_all only: read_all_coord_data.simps, (intro wf_rules wf snd_satI; simp)+)
  have "machine_wf (case r of (ok, k) \<Rightarrow> if ok then report x (report y k) else report z k)" if "snd_sat machine_wf r"
    for r :: "bool \<times> machine" and x y z
    using that by (cases r) (simp add: wf)
  then show ?thesis
    unfolding report_ngc_parameters_def by (rule sat_map [OF r [OF m]])
qed

lemma wf_startup [wf]: "machine_wf m \<Longrightarrow> pred_option (snd_sat machine_wf) (system_execute_startup lm line m)"
proof -
  have e: "pred_option (snd_sat machine_wf) (map_option (\<lambda>(status, k). (line, report (f status) k)) r)"
    if "pred_option (snd_sat machine_wf) r" for line f and r :: "(u8 \<times> machine) option"
    using that by (cases r) (auto simp: wf)
  have r: "pred_option (snd_sat machine_wf) (run_startup_line lm n line k)" if "machine_wf k" for n line k
    unfolding run_startup_line_def by (intro wf_rules wf snd_satI e that)
  have "pred_option (snd_sat machine_wf) (startup_loop lm ns line k)" if "machine_wf k" for ns line k
    using that by (induction ns arbitrary: line k) (simp_all only: startup_loop.simps, (intro wf_rules wf snd_satI r; simp)+)
  then show "machine_wf m \<Longrightarrow> ?thesis" by (simp only: system_execute_startup_def)
qed

lemma wf_commands:
  assumes "machine_wf m"
  shows "cmd_wf (cmd_check_mode line m)" "cmd_wf (cmd_unlock line m)" "cmd_wf (cmd_settings client line m)"
    "cmd_wf (cmd_sleep line m)" "cmd_wf (cmd_build_info client line m)" "cmd_wf (cmd_restore line m)"
proof -
  show "cmd_wf (cmd_check_mode line m)"
    unfolding cmd_check_mode_def by (intro sat_if wf_done wf wf_writes assms)
  show "cmd_wf (cmd_unlock line m)"
    unfolding cmd_unlock_def by (intro sat_if wf_done wf wf_writes assms)
  show "cmd_wf (cmd_settings client line m)"
    unfolding cmd_settings_def by (intro sat_if wf_done wf assms)
  show "cmd_wf (cmd_sleep line m)"
    unfolding cmd_sleep_def by (intro sat_if wf_done wf assms)
  show "cmd_wf (cmd_build_info client line m)"
    unfolding cmd_build_info_def by (intro wf_rules wf_done wf assms)
  have r: "cmd_wf (map_option (\<lambda>m. (STATUS_OK, line, mc_reset (report x m))) (settings_restore fl m))" for x fl
    by (rule sat_map [OF wf_restore [OF assms]]) (simp add: wf)
  show "cmd_wf (cmd_restore line m)"
    unfolding cmd_restore_def by (cases "restore_flag_of (char_at line 5)") (simp_all add: wf_done r assms)
qed

lemma wf_cmd_home: "machine_wf m \<Longrightarrow> cmd_wf (cmd_home lm line m)"
proof -
  have s: "cmd_wf (map_option (\<lambda>(line, m). (STATUS_OK, line, m)) (system_execute_startup lm line k))" if "machine_wf k" for k
    using wf_startup [OF that, of lm line] by (auto simp: sat_iff)
  assume "machine_wf m"
  then show ?thesis unfolding cmd_home_def by (intro wf_rules wf_done s wf wf_writes)
qed

lemma wf_cmd_store: "machine_wf m \<Longrightarrow> cmd_wf (cmd_store lm startup pos line m)"
proof -
  assume m: "machine_wf m"
  have o: "cmd_wf (map_option (\<lambda>m. (code, l, m)) (settings_store_startup_line n l k))" if "machine_wf k" for code l n k
    by (rule sat_map [OF wf_store_line(1) [OF that]]) simp
  have 1: "cmd_wf (cmd_store_startup lm p pos line m)" for p pos
    unfolding cmd_store_startup_def Let_def by (intro wf_rules wf_done o wf m)
  have 2: "cmd_wf (cmd_store_setting p pos line m)" for p pos
    unfolding cmd_store_setting_def
    by (cases "read_float line pos") (simp_all only: option.case, (intro wf_rules wf_done wf_status_line wf m)+)
  show ?thesis
    unfolding cmd_store_def by (cases "read_float line pos") (auto simp: 1 2 wf_done m)
qed

lemma wf_cmd_startup: "machine_wf m \<Longrightarrow> cmd_wf (cmd_startup lm line m)"
proof -
  assume m: "machine_wf m"
  have p: "pred_option (snd_sat machine_wf) (print_startup_lines ns line k)" if "machine_wf k" for ns line k
    using that by (induction ns arbitrary: line k) (simp_all only: print_startup_lines.simps, (intro wf_rules wf snd_satI; simp add: wf)+)
  have "cmd_wf (map_option (\<lambda>(line, m). (STATUS_OK, line, m)) (print_startup_lines ns line m))" for ns
    using p [OF m, of ns line] by (auto simp: sat_iff)
  then show ?thesis unfolding cmd_startup_def by (intro sat_if wf_done wf_cmd_store m)
qed

lemma wf_line_executed [wf]: "machine_wf m \<Longrightarrow> cmd_wf (execute_line lm client fl line m)"
proof -
  assume m: "machine_wf m"
  have n: "cmd_wf (map_option (\<lambda>m. (STATUS_OK, line, m)) (report_ngc_parameters client m))"
    by (rule sat_map [OF wf_ngc [OF m]]) simp
  have g: "cmd_wf (map_option (\<lambda>(status, m). (status, line, m)) (gc_execute_line lm line m))"
    by (intro wf_status_line wf m)
  have i: "cmd_wf (system_idle_command lm client line m)"
    unfolding system_idle_command_def
    by (intro sat_if sat_let_value wf_done n wf_commands wf_cmd_home wf_cmd_startup wf_cmd_store m)
  have s: "cmd_wf (system_execute_line lm client line m)"
    unfolding system_execute_line_def by (intro sat_if sat_let_value wf_done g i wf_commands wf m)
  show ?thesis unfolding execute_line_def by (intro sat_if wf_done s g m)
qed

lemma wf_end_of_line [wf]: "machine_wf m \<Longrightarrow> pred_option (snd_sat machine_wf) (end_of_line lm client l m)"
proof -
  assume m: "machine_wf m"
  have "snd_sat machine_wf (case r of (status, line, k) \<Rightarrow> (f line, report (g status) k))" if "thd_sat machine_wf r"
    for r :: "u8 \<times> line \<times> machine" and f :: "line \<Rightarrow> line_t" and g
    using that by (cases r) (simp add: wf)
  then show ?thesis
    unfolding end_of_line_def Let_def by (rule sat_map [OF wf_line_executed [OF m]])
qed

lemma wf_serial_read [wf]: "machine_wf m \<Longrightarrow> machine_wf (snd (serial_read c m))"
proof -
  have "machine_wf (serial_rx_pop c k)" if "machine_wf k" for k
    using that by (simp add: wf_defs serial_rx_pop_def)
  then show "machine_wf m \<Longrightarrow> ?thesis" by (simp add: serial_read_def Let_def)
qed

lemma wf_read_client [rule_format, wf]:
  "\<forall>lm client l m. machine_wf m \<longrightarrow> pred_option (thd_sat machine_wf) (read_client lm client l m)"
proof (rule read_client.fixp_induct [OF sat_admissible4])
  fix loop :: "libm \<Rightarrow> u8 \<Rightarrow> line_t \<Rightarrow> machine \<Rightarrow> (bool \<times> line_t \<times> machine) option"
  assume i: "\<forall>lm client l m. machine_wf m \<longrightarrow> pred_option (thd_sat machine_wf) (loop lm client l m)"
  show "\<forall>lm client l m. machine_wf m \<longrightarrow> pred_option (thd_sat machine_wf)
     (let (c, m) = serial_read client m in
      if c = SERIAL_NO_DATA then Some (True, l, m)
      else if is_eol c then
        (case protocol_execute_realtime m of None \<Rightarrow> None
         | Some m \<Rightarrow>
             if sys_abort (sys m) then Some (False, l, m)
             else (case end_of_line lm client l m of None \<Rightarrow> None
               | Some (l, m) \<Rightarrow> (case poll m of None \<Rightarrow> None | Some m \<Rightarrow> loop lm client l m)))
      else (case poll m of None \<Rightarrow> None | Some m \<Rightarrow> loop lm client (filter_char c l) m))"
    by (intro allI impI wf_rules wf snd_satI i [rule_format])
qed simp

lemma wf_read_clients [wf]: "machine_wf m \<Longrightarrow> pred_option (thd_sat machine_wf) (read_clients lm cs l m)"
  by (induction cs arbitrary: l m) (simp_all only: read_clients.simps, (intro wf_rules wf snd_satI; simp)+)

lemma wf_main_loop [rule_format, wf]:
  "\<forall>lm l m. machine_wf m \<longrightarrow> pred_option machine_wf (main_loop lm l m)"
  by (rule main_loop.fixp_induct [OF sat_admissible3]) (simp, (intro allI impI wf_rules wf; simp))

lemma wf_enter_main_loop [wf]: "machine_wf m \<Longrightarrow> pred_option (snd_sat machine_wf) (enter_main_loop lm line m)"
proof -
  have c: "machine_wf (check_limits_at_init k)" if "machine_wf k" for k
    unfolding check_limits_at_init_def by (intro wf_rules wf wf_writes that)
  have f: "machine_wf (k\<lparr>sys_rt_exec_state := x\<rparr>)" if "machine_wf k" for k x using that by simp
  assume "machine_wf m"
  then show ?thesis unfolding enter_main_loop_def by (intro wf_rules wf wf_writes snd_satI c f)
qed

lemma wf_init_systems [wf]: "machine_wf m \<Longrightarrow> pred_option machine_wf (init_systems m)"
proof -
  have r: "machine_wf (serial_reset_read_buffer c k)" if "machine_wf k" for c k
    unfolding serial_reset_read_buffer_def
    by (rule wf_fold) (use that in \<open>simp_all add: wf_defs\<close>)
  have c: "machine_wf (clear_system k)" if "machine_wf k" for k
    using that wf_state [OF that] by (simp add: clear_system_def wf_sys)
  assume "machine_wf m"
  then show ?thesis unfolding init_systems_def by (intro wf_rules wf r c)
qed

lemma wf_loop: "machine_wf m \<Longrightarrow> pred_option machine_wf (loop lm line m)"
  unfolding loop_def protocol_main_loop_def by (intro wf_rules wf)

lemma wf_setup: "machine_wf m \<Longrightarrow> pred_option machine_wf (setup_machine m)"
proof -
  have p: "machine_wf (k\<lparr>sys_position := replicate N_AXIS 0\<rparr>)" if "machine_wf k" for k
    by (intro wf_position that) simp
  assume "machine_wf m"
  then show ?thesis unfolding setup_machine_def by (intro wf_rules wf wf_writes p)
qed

end
