(* ===== verification/State_Machine.thy ===== *)
theory State_Machine
  imports Program_Wf
begin

text \<open>
  The firmware as a transition system. The nine values of \<^verbatim>\<open>sys.state\<close> are the modes of an abstract
  machine, whose moves are the requests \<^verbatim>\<open>protocol_exec_rt_system\<close> serves; the executor refines it.
  A second relation is one operation of the firmware on the whole machine: an interrupt, a call of
  the realtime executor, a line, a start of \<^verbatim>\<open>loop\<close>; the well-formedness of the parser and of the
  settings is an invariant of every machine reachable from power-on.
\<close>

section \<open>The modes\<close>

datatype mode = Idle | Alarm | Check | Homing | Cycle | Hold | Jog | Door | Sleep

fun mode_state :: "mode \<Rightarrow> u8" where
  "mode_state Idle = STATE_IDLE"
| "mode_state Alarm = STATE_ALARM"
| "mode_state Check = STATE_CHECK_MODE"
| "mode_state Homing = STATE_HOMING"
| "mode_state Cycle = STATE_CYCLE"
| "mode_state Hold = STATE_HOLD"
| "mode_state Jog = STATE_JOG"
| "mode_state Door = STATE_SAFETY_DOOR"
| "mode_state Sleep = STATE_SLEEP"

definition in_mode :: "mode \<Rightarrow> machine \<Rightarrow> bool" where
  "in_mode k m \<longleftrightarrow> sys_state (sys m) = mode_state k"

lemma in_mode_unique: "in_mode k m \<Longrightarrow> in_mode j m \<Longrightarrow> k = j"
  by (cases k; cases j) (simp_all add: in_mode_def)

lemma in_mode_exists: "sys_state (sys m) \<in> STATES \<longleftrightarrow> (\<exists>k. in_mode k m)"
proof
  have s: "STATES = mode_state ` {Idle, Alarm, Check, Homing, Cycle, Hold, Jog, Door, Sleep}" by (auto simp: STATES_def)
  show "sys_state (sys m) \<in> STATES \<Longrightarrow> \<exists>k. in_mode k m" unfolding s in_mode_def by blast
  show "\<exists>k. in_mode k m \<Longrightarrow> sys_state (sys m) \<in> STATES"
  proof (elim exE)
    fix k assume "in_mode k m"
    then show "sys_state (sys m) \<in> STATES" by (cases k) (simp_all add: in_mode_def STATES_def)
  qed
qed

text \<open>The requests, as the executor reads them from \<^verbatim>\<open>sys_rt_exec_state\<close>: which mode each may be
  served in, and where it leads.\<close>

definition wants :: "u8 \<Rightarrow> u8 \<Rightarrow> bool" where
  "wants e flag \<longleftrightarrow> e AND flag \<noteq> 0"

inductive mode_step :: "u8 \<Rightarrow> mode \<Rightarrow> mode \<Rightarrow> bool" for e where
  feed_hold: "wants e EXEC_FEED_HOLD \<Longrightarrow> s \<in> {Idle, Homing, Cycle, Hold} \<Longrightarrow> mode_step e s Hold"
| safety_door: "wants e EXEC_SAFETY_DOOR \<Longrightarrow> s \<notin> {Alarm, Check, Sleep} \<Longrightarrow> mode_step e s Door"
| sleep: "wants e EXEC_SLEEP \<Longrightarrow> mode_step e s Sleep"
| start: "wants e EXEC_CYCLE_START \<Longrightarrow> \<not> wants e (EXEC_FEED_HOLD OR EXEC_MOTION_CANCEL OR EXEC_SAFETY_DOOR) \<Longrightarrow>
    s \<in> {Idle, Hold, Door} \<Longrightarrow> mode_step e s Cycle"
| nothing_to_run: "wants e EXEC_CYCLE_START \<Longrightarrow> \<not> wants e (EXEC_FEED_HOLD OR EXEC_MOTION_CANCEL OR EXEC_SAFETY_DOOR) \<Longrightarrow>
    s \<in> {Idle, Hold, Door} \<Longrightarrow> mode_step e s Idle"
| stop: "wants e EXEC_CYCLE_STOP \<Longrightarrow> mode_step e s Idle"
| stop_at_door: "wants e EXEC_CYCLE_STOP \<Longrightarrow> mode_step e s Door"

inductive_cases mode_step_cases: "mode_step e s t"

abbreviation mode_steps :: "u8 \<Rightarrow> mode \<Rightarrow> mode \<Rightarrow> bool" where
  "mode_steps e \<equiv> (mode_step e)\<^sup>*\<^sup>*"

text \<open>What the abstract machine never does, by induction along its moves: an alarm and the check
  mode are kept unless a cycle stops or the machine is put to sleep; a machine asleep is woken only
  by a cycle stop; no motion starts without a cycle start; and a held machine goes on only after one.\<close>

lemma mode_locked:
  assumes "mode_steps e s t" "s \<in> {Alarm, Check}" "\<not> wants e EXEC_CYCLE_STOP" "\<not> wants e EXEC_SLEEP"
  shows "t = s"
  using assms(1)
proof (induction rule: rtranclp_induct)
  case (step t u)
  then show ?case using assms(2-4) by (auto elim!: mode_step_cases)
qed simp

lemma mode_asleep:
  assumes "mode_steps e Sleep t" "\<not> wants e EXEC_CYCLE_STOP"
  shows "t = Sleep"
  using assms(1)
proof (induction rule: rtranclp_induct)
  case (step t u)
  then show ?case using assms(2) by (auto elim!: mode_step_cases)
qed simp

lemma mode_starts:
  assumes "mode_steps e s Cycle" "\<not> wants e EXEC_CYCLE_START"
  shows "s = Cycle"
  using assms(1) by (cases rule: rtranclp.cases) (use assms(2) in \<open>auto elim!: mode_step_cases\<close>)

lemma mode_held:
  assumes "mode_steps e s t" "s \<in> {Hold, Door}" "\<not> wants e EXEC_CYCLE_STOP" "\<not> wants e EXEC_CYCLE_START"
  shows "t \<in> {s, Door, Sleep}"
  using assms(1)
proof (induction rule: rtranclp_induct)
  case (step t u)
  then show ?case using assms(2-4) by (auto elim!: mode_step_cases)
qed simp

section \<open>The executor refines the modes\<close>

text \<open>A part of the executor that takes a machine from one mode to another along the moves.\<close>

definition moves :: "u8 \<Rightarrow> machine \<Rightarrow> machine \<Rightarrow> bool" where
  "moves e m m' \<longleftrightarrow> (\<forall>k. in_mode k m \<longrightarrow> (\<exists>k'. in_mode k' m' \<and> mode_steps e k k'))"

lemma moves_trans: "moves e a b \<Longrightarrow> moves e b c \<Longrightarrow> moves e a c"
  unfolding moves_def by (meson rtranclp_trans)

lemma moves_same: "sys_state (sys m') = sys_state (sys m) \<Longrightarrow> moves e m m'"
  by (auto simp: moves_def in_mode_def)

lemma moves_step:
  assumes "\<And>k. in_mode k m \<Longrightarrow> mode_step e k k'" "in_mode k' m'"
  shows "moves e m m'"
  unfolding moves_def using assms by blast

lemma moves_if: "(c \<Longrightarrow> moves e m a) \<Longrightarrow> (\<not> c \<Longrightarrow> moves e m b) \<Longrightarrow> moves e m (if c then a else b)"
  by simp

lemma moves_feed_hold:
  assumes "sys_state (sys m) AND (STATE_ALARM OR STATE_CHECK_MODE) = 0"
  shows "moves e m (rt_feed_hold e m)"
proof (cases "e AND EXEC_FEED_HOLD \<noteq> 0 \<and> sys_state (sys m) AND (STATE_SAFETY_DOOR OR STATE_JOG OR STATE_SLEEP) = 0")
  case True
  have "mode_step e k Hold" if "in_mode k m" for k
  proof (rule mode_step.feed_hold)
    show "wants e EXEC_FEED_HOLD" using True by (simp add: wants_def)
    show "k \<in> {Idle, Homing, Cycle, Hold}" using that True assms by (cases k) (simp_all add: in_mode_def)
  qed
  then show ?thesis using True by (intro moves_step [where k' = Hold]) (simp_all add: rt_feed_hold_def in_mode_def)
next
  case False
  then have "rt_feed_hold e m = m" unfolding rt_feed_hold_def by (rule if_not_P)
  then show ?thesis by (simp add: moves_same)
qed

lemma moves_safety_door:
  assumes "sys_state (sys m) AND (STATE_ALARM OR STATE_CHECK_MODE) = 0"
  shows "moves e m (rt_safety_door e m)"
proof (cases "sys_state (sys (rt_safety_door e m)) = sys_state (sys m)")
  case True
  then show ?thesis by (rule moves_same)
next
  case False
  then have d: "wants e EXEC_SAFETY_DOOR" "sys_state (sys m) \<noteq> STATE_SLEEP" "in_mode Door (rt_safety_door e m)"
    by (auto simp: rt_safety_door_def wants_def in_mode_def report_def Let_def split: if_splits)
  have "mode_step e k Door" if "in_mode k m" for k
    by (rule mode_step.safety_door [OF d(1)]) (use that d(2) assms in \<open>cases k; simp add: in_mode_def\<close>)
  then show ?thesis using d(3) by (intro moves_step [where k' = Door])
qed

lemma moves_hold: "moves e m (rt_hold e m)"
proof -
  have s: "moves e k (rt_sleep e k)" for k
  proof (cases "e AND EXEC_SLEEP \<noteq> 0")
    case True
    then have "in_mode Sleep (rt_sleep e k)" by (simp add: in_mode_def rt_hold_parts_state(5))
    moreover have "mode_step e j Sleep" for j using True by (intro mode_step.sleep) (simp add: wants_def)
    ultimately show ?thesis by (rule moves_step [rotated])
  qed (simp add: moves_same rt_hold_parts_state(5))
  have c: "moves e k (system_clear_exec_state_flag f k)" for f k
    by (rule moves_same) (simp add: system_clear_exec_state_flag_def)
  let ?a = "rt_motion_cancel e (rt_hold_motion e m)"
  have a: "sys_state (sys ?a) = sys_state (sys m)" by (simp add: rt_hold_parts_state(1,2))
  have "moves e m (rt_safety_door e (rt_feed_hold e ?a))" if n: "sys_state (sys m) AND (STATE_ALARM OR STATE_CHECK_MODE) = 0"
  proof -
    have f: "moves e ?a (rt_feed_hold e ?a)" using moves_feed_hold n a by simp
    have "sys_state (sys (rt_feed_hold e ?a)) AND (STATE_ALARM OR STATE_CHECK_MODE) = 0"
      using rt_hold_parts_state(3) [of e ?a] n a by auto
    then have "moves e (rt_feed_hold e ?a) (rt_safety_door e (rt_feed_hold e ?a))" by (rule moves_safety_door)
    then show ?thesis using moves_trans [OF moves_trans [OF moves_same [OF a] f]] by blast
  qed
  note h = moves_trans [OF moves_trans [OF this s] c]
  show ?thesis
    unfolding rt_hold_def Let_def
    by (intro moves_if) (use h moves_trans [OF s c] moves_same [of m m] in \<open>simp_all split: if_split\<close>)
qed

lemma moves_cycle_start:
  assumes "rt_cycle_start e m = Some m'"
  shows "moves e m m'"
proof (cases "e AND EXEC_CYCLE_START \<noteq> 0 \<and> e AND (EXEC_FEED_HOLD OR EXEC_MOTION_CANCEL OR EXEC_SAFETY_DOOR) = 0")
  case False
  then have "sys m' = sys m" using assms by (auto simp: rt_cycle_start_def system_clear_exec_state_flag_def split: if_splits)
  then show ?thesis by (intro moves_same) simp
next
  case True
  then have w: "wants e EXEC_CYCLE_START" "\<not> wants e (EXEC_FEED_HOLD OR EXEC_MOTION_CANCEL OR EXEC_SAFETY_DOOR)"
    by (simp_all add: wants_def)
  obtain k where k: "rt_run_cycle (rt_door_resume m) = Some k" "m' = system_clear_exec_state_flag EXEC_CYCLE_START k"
    using assms True by (auto simp: rt_cycle_start_def)
  have d: "moves e m (rt_door_resume m)"
  proof (cases "sys_state (sys (rt_door_resume m)) = sys_state (sys m)")
    case False
    then have "in_mode Door m" "in_mode Idle (rt_door_resume m)"
      by (auto simp: rt_door_resume_def in_mode_def split: if_splits)
    then show ?thesis using w by (intro moves_step [where k' = Idle]) (auto dest: in_mode_unique intro: mode_step.nothing_to_run)
  qed (rule moves_same)
  have q: "k \<in> {Idle, Hold, Door}" if "may_run n" "in_mode k n" for k n
    using that by (cases k) (simp_all add: may_run_def in_mode_def)
  from k(1) have r: "moves e (rt_door_resume m) k"
  proof (cases rule: rt_run_cycle_cases)
    case run
    have "in_mode Cycle k" using main_view_cong(1) [OF run(5)] by (simp add: in_mode_def)
    then show ?thesis using mode_step.start [OF w q [OF run(1)]] by (intro moves_step)
  next
    case idle
    have "in_mode Idle k" using main_view_cong(1) [OF idle(2)] by (simp add: in_mode_def)
    then show ?thesis using mode_step.nothing_to_run [OF w q [OF idle(1)]] by (intro moves_step)
  qed (simp_all add: moves_same)
  have "moves e k m'" using k(2) by (intro moves_same) (simp add: system_clear_exec_state_flag_def)
  then show ?thesis by (rule moves_trans [OF moves_trans [OF d r]])
qed

lemma moves_cycle_stop: "moves e m (rt_cycle_stop e m)"
proof (cases "sys_state (sys (rt_cycle_stop e m)) = sys_state (sys m)")
  case True
  then show ?thesis by (rule moves_same)
next
  case False
  then have w: "wants e EXEC_CYCLE_STOP" and "in_mode Door (rt_cycle_stop e m) \<or> in_mode Idle (rt_cycle_stop e m)"
    using rt_cycle_stop_state [of e m] by (auto simp: rt_cycle_stop_def wants_def in_mode_def split: if_splits)
  then show ?thesis by (metis moves_step mode_step.stop [OF w] mode_step.stop_at_door [OF w])
qed

text \<open>The alarm is the one change of mode the requests do not make.\<close>

definition alarmed :: "machine \<Rightarrow> mode \<Rightarrow> mode" where
  "alarmed m k = (if sys_rt_exec_alarm m \<noteq> 0 then Alarm else k)"

lemma executor_refines:
  assumes "protocol_exec_rt_system m = Some m'" "in_mode k m"
  shows "\<exists>k'. in_mode k' m' \<and> mode_steps (sys_rt_exec_state m) (alarmed m k) k'"
proof (cases "critical_alarm m")
  case True
  then have "in_mode Alarm m'" "alarmed m k = Alarm"
    using critical_alarm_aborts [OF _ assms(1)] by (auto simp: critical_alarm_def in_mode_def alarmed_def)
  then show ?thesis by auto
next
  case False
  let ?e = "sys_rt_exec_state m"
  obtain a where a: "rt_alarm m = Some a" "sys_rt_exec_state a = ?e" "in_mode (alarmed m k) a"
    using rt_alarm_other [OF False] assms(2)
    by (cases "sys_rt_exec_alarm m = 0") (simp_all add: in_mode_def alarmed_def system_clear_exec_alarm_def report_def)
  show ?thesis
  proof (cases "bit_istrue ?e EXEC_RESET")
    case True
    then have "in_mode (alarmed m k) m'" using rt_system_reset [OF a(1)] a(2,3) assms(1) by (auto simp: in_mode_def)
    then show ?thesis by auto
  next
    case nr: False
    obtain b c where p: "?e \<noteq> 0 \<Longrightarrow> rt_cycle_start ?e (rt_hold ?e (rt_status_report ?e a)) = Some b"
      "c = (if ?e = 0 then a else rt_cycle_stop ?e b)"
      "rt_reload (rt_accessory_overrides (rt_motion_overrides c)) = Some m'"
      using rt_system_parts [OF assms(1) False nr] a(1) by (metis option.inject)
    have "moves ?e a c"
    proof (cases "?e = 0")
      case False
      have "moves ?e a (rt_status_report ?e a)" by (intro moves_same ctl_state rt_status_report_keeps(1))
      from moves_trans [OF moves_trans [OF moves_trans [OF this moves_hold] moves_cycle_start [OF p(1) [OF False]]] moves_cycle_stop]
      show ?thesis using p(2) False by simp
    qed (simp add: p(2) moves_same)
    moreover have "moves ?e c m'"
      using main_view_cong(1) [OF main_view_reload [OF p(3)]] rt_accessory_keeps(1) [of "rt_motion_overrides c"]
        rt_motion_overrides_keeps(1) [of c] by (intro moves_same) simp
    ultimately show ?thesis using a(3) moves_trans unfolding moves_def by blast
  qed
qed

section \<open>The reachable machines\<close>

text \<open>One operation of the firmware, on the whole machine: what an interrupt does, or a call the main
  program makes, with any line or event.\<close>

inductive fw_step :: "libm \<Rightarrow> machine \<Rightarrow> machine \<Rightarrow> bool" for lm where
  interrupt: "fw_step lm m (run_event e m)"
| realtime: "protocol_execute_realtime m = Some m' \<Longrightarrow> fw_step lm m m'"
| synchronize: "protocol_buffer_synchronize m = Some m' \<Longrightarrow> fw_step lm m m'"
| auto_start: "fw_step lm m (protocol_auto_cycle_start m)"
| line: "execute_line lm client line_flags line m = Some (code, line', m') \<Longrightarrow> fw_step lm m m'"
| client: "read_client lm client l m = Some (ok, l', m') \<Longrightarrow> fw_step lm m m'"
| restart: "init_systems m = Some m' \<Longrightarrow> fw_step lm m m'"
| enter: "enter_main_loop lm line m = Some (line', m') \<Longrightarrow> fw_step lm m m'"

text \<open>The machine starts with any content of the store and any interrupts to come. The settings it finds
  must not have soft limits without homing; those the firmware writes never do.\<close>

definition powered :: "u8 list \<Rightarrow> event list list \<Rightarrow> machine" where
  "powered bs es = machine0\<lparr>eeprom := bs, sched := es\<rparr>"

inductive reachable :: "libm \<Rightarrow> machine \<Rightarrow> bool" for lm where
  power_on: "setup_machine (powered bs es) = Some k \<Longrightarrow> length bs = 2048 \<Longrightarrow> soft_limit_ok (settings k) \<Longrightarrow>
    init_systems k = Some m \<Longrightarrow> reachable lm m"
| step: "reachable lm m \<Longrightarrow> fw_step lm m m' \<Longrightarrow> reachable lm m'"

definition program_wf :: "machine \<Rightarrow> bool" where
  "program_wf m \<longleftrightarrow> prog_ok m \<and> machine_wf m"

lemma settings_wf_of_bytes: "settings_wf (settings_of_bytes bs)"
  by (simp add: settings_wf_def settings_of_bytes_def floats_at_def)

lemma setup_settings_wf:
  assumes "setup_machine m = Some k" "length (eeprom m) = 2048"
  shows "settings_wf (settings k)"
proof -
  obtain j where j: "settings_init m = Some j" "settings k = settings j"
    using assms(1) by (auto simp: setup_machine_def system_init_def stepper_init_def report_def Let_def)
  have "read_global_settings j = (True, j)" using settings_init_cases [OF j(1) assms(2)] by blast
  then obtain bs where "j\<lparr>settings := settings_of_bytes bs\<rparr> = j"
    by (auto simp: read_global_settings_def split: if_splits prod.splits)
  from arg_cong [OF this, of settings] have "settings j = settings_of_bytes bs" by simp
  then show ?thesis using settings_wf_of_bytes j(2) by simp
qed

lemma program_wf_step: "fw_step lm m m' \<Longrightarrow> program_wf m \<Longrightarrow> program_wf m'"
proof (induction rule: fw_step.induct)
  case (interrupt m e)
  then show ?case
    using prog_ok_rt [OF rt_frame_keeps [OF keeps_run_event]] wf_event by (simp add: program_wf_def)
next
  case (realtime m m')
  then show ?case using prog_ok_passed(1) wf_execute_realtime [of m] by (simp add: program_wf_def)
next
  case (synchronize m m')
  then show ?case using prog_ok_sync wf_synchronize [of m] by (simp add: program_wf_def)
next
  case (auto_start m)
  then show ?case using prog_ok_rt [OF rt_frame_auto_start] wf_auto_cycle_start by (simp add: program_wf_def)
next
  case (line client line_flags line m code line' m')
  then show ?case using prog_ok_line wf_line_executed [of m lm client line_flags line] by (auto simp: program_wf_def)
next
  case (client client l m ok l' m')
  then show ?case using prog_ok_read_client wf_read_client [of m lm client l] by (auto simp: program_wf_def)
next
  case (restart m m')
  then show ?case using prog_ok_init_systems wf_init_systems [of m] by (simp add: program_wf_def prog_ok_def)
next
  case (enter line m line' m')
  then show ?case using prog_ok_enter wf_enter_main_loop [of m lm line] by (auto simp: program_wf_def)
qed

lemma reachable_program_wf: "reachable lm m \<Longrightarrow> program_wf m"
proof (induction rule: reachable.induct)
  case (power_on bs es k m)
  have "machine_wf (powered bs es)" using wf_machine0 by (simp add: powered_def)
  then have "machine_wf k" using wf_setup [of "powered bs es"] power_on(1) by simp
  moreover have "settings_wf (settings k)"
    using setup_settings_wf [OF power_on(1)] power_on(2) by (simp add: powered_def)
  ultimately show ?case
    using power_on prog_ok_init_systems wf_init_systems [of k] by (simp add: program_wf_def)
qed (rule program_wf_step)

end
