(* ===== verification/Program_Properties.thy ===== *)
theory Program_Properties
  imports Main_Invariant
begin

text \<open>
  The properties of the parser, the commands, homing and the main loop, each with a witness.
\<close>

section \<open>Homing under a pending reset\<close>

lemma prep_full: "segment_buffer_tail m = segment_next_head m \<Longrightarrow> st_prep_buffer m = Some m"
  by (simp add: st_prep_buffer_def prep_loop.simps)

lemma plan_frame_segments:
  "plan_frame m m' \<Longrightarrow> segment_buffer_tail m' = segment_buffer_tail m \<and> segment_next_head m' = segment_next_head m"
  by (auto simp: plan_frame_def)

lemma buffer_line_segments:
  "segment_buffer_tail (snd (plan_buffer_line target pld m)) = segment_buffer_tail m"
  "segment_next_head (snd (plan_buffer_line target pld m)) = segment_next_head m"
proof -
  have p: "segment_buffer_tail (planner_recalculate (plan_push_block b k)) = segment_buffer_tail k"
    "segment_next_head (planner_recalculate (plan_push_block b k)) = segment_next_head k" for b k
    using plan_frame_segments [OF plan_frame_recalculate] by (simp_all add: plan_push_block_def set_block_def Let_def)
  show "segment_buffer_tail (snd (plan_buffer_line target pld m)) = segment_buffer_tail m"
    "segment_next_head (snd (plan_buffer_line target pld m)) = segment_next_head m"
    by (simp_all add: plan_buffer_line_def Let_def case_prod_beta p set_block_def)
qed

lemma homing_reset_returns:
  assumes "sched m = [] # rest" "segment_buffer_tail m = segment_next_head m" "\<not> sys_abort (sys m)"
    "bit_istrue (sys_rt_exec_state m) EXEC_RESET" "bit_isfalse (sys_rt_exec_state m) EXEC_CYCLE_STOP"
  obtains m' where "limits_go_home cycle_mask m = Some m'"
proof -
  have e: "\<exists>k'. protocol_execute_realtime (mc_reset (homing_alarms cycle_mask True (sys_rt_exec_state k) k)) = Some k'
      \<and> sys_rt_exec_alarm (homing_alarms cycle_mask True (sys_rt_exec_state k) k) \<noteq> 0"
    if k: "sys_rt_exec_state k = sys_rt_exec_state m" for k
  proof -
    let ?a = "homing_alarms cycle_mask True (sys_rt_exec_state k) k"
    have a: "sys_rt_exec_state ?a = sys_rt_exec_state m" "sys_rt_exec_alarm ?a \<in> {EXEC_ALARM_HOMING_FAIL_RESET, EXEC_ALARM_HOMING_FAIL_DOOR}"
      using assms(4,5) k by (auto simp: homing_alarms_def system_set_exec_alarm_def Let_def bit_istrue_def bit_isfalse_def)
    then have "mc_reset ?a = ?a" using assms(4) by (simp add: mc_reset_def bit_istrue_def bit_isfalse_def)
    moreover have "bit_istrue (sys_rt_exec_state ?a) EXEC_RESET" "\<not> critical_alarm ?a"
      using assms(4) a by (auto simp: critical_alarm_def)
    then obtain k' where "protocol_execute_realtime ?a = Some k'" by (rule execute_reset_returns)
    ultimately show ?thesis using a(2) by auto
  qed
  have s: "\<exists>k. homing_start cycle_mask True travel rate m = Some k \<and> sched k = [] # rest
      \<and> segment_buffer_tail k = segment_next_head k \<and> sys_rt_exec_state k = sys_rt_exec_state m" for travel rate
  proof -
    have w: "sched (st_wake_up k) = sched k \<and> segment_buffer_tail (st_wake_up k) = segment_buffer_tail k
        \<and> segment_next_head (st_wake_up k) = segment_next_head k \<and> sys_rt_exec_state (st_wake_up k) = sys_rt_exec_state k" for k
      by (simp add: st_wake_up_def set_steppers_disable_def spi_write32_def report_def Let_def)
    have b: "sched (snd (plan_buffer_line t p k)) = sched k" "sys_rt_exec_state (snd (plan_buffer_line t p k)) = sys_rt_exec_state k" for t p k
      using main_view_buffer_line [of t p k] by (simp_all add: main_view_def rt_flags_def)
    show ?thesis
      using assms(1,2) by (simp add: homing_start_def Let_def prep_full buffer_line_segments zero_positions_def set_homing_lock_def w b)
  qed
  have m: "\<exists>k'. homing_motion cycle_mask True lock k = Some (False, k')"
    if k: "sched k = [] # rest" "segment_buffer_tail k = segment_next_head k" "sys_rt_exec_state k = sys_rt_exec_state m" for lock k
  proof -
    let ?k = "set_homing_lock (homing_lock (limits_get_state (k\<lparr>sched := rest\<rparr>)) lock) (k\<lparr>sched := rest\<rparr>)"
    have "st_prep_buffer ?k = Some ?k" using k(2) by (intro prep_full) (simp add: set_homing_lock_def)
    moreover have x: "sys_rt_exec_state ?k = sys_rt_exec_state m" using k(3) by (simp add: set_homing_lock_def)
    moreover have "sys_rt_exec_state m AND (EXEC_SAFETY_DOOR OR EXEC_RESET OR EXEC_CYCLE_STOP) \<noteq> 0"
    proof
      assume "sys_rt_exec_state m AND (EXEC_SAFETY_DOOR OR EXEC_RESET OR EXEC_CYCLE_STOP) = 0"
      moreover have "x AND EXEC_RESET = (x AND (EXEC_SAFETY_DOOR OR EXEC_RESET OR EXEC_CYCLE_STOP)) AND EXEC_RESET" for x :: u8
        by (simp add: and.assoc)
      from this [of "sys_rt_exec_state m"] calculation have "sys_rt_exec_state m AND EXEC_RESET = 0" by simp
      then show False using assms(4) by (simp add: bit_istrue_def)
    qed
    ultimately show ?thesis
      using e [OF x] k(1) by (subst homing_motion.simps) (auto simp: poll_def Let_def)
  qed
  have "\<exists>k. homing_rounds (Suc n) cycle_mask True travel rate m = Some (False, k)" for n travel rate
  proof -
    obtain k where k: "homing_start cycle_mask True travel rate m = Some k" "sched k = [] # rest"
      "segment_buffer_tail k = segment_next_head k" "sys_rt_exec_state k = sys_rt_exec_state m" using s by blast
    obtain k' where "homing_motion cycle_mask True (homing_axislock cycle_mask) k = Some (False, k')" using m [OF k(2-4)] by blast
    then show ?thesis using k(1) by simp
  qed
  note this [of "2 * N_HOMING_LOCATE_CYCLE + 1" "homing_max_travel cycle_mask (settings m)" "homing_seek_rate (settings m)"]
  then show thesis using that assms(3) by (auto simp: limits_go_home_def split: option.splits)
qed

section \<open>The parser\<close>

text \<open>C3. On a line that fits the byte-sized index, reading it terminates and is the same as splitting it
  into letters and numbers and interpreting these words one after the other, until one is refused.\<close>

theorem parse_line_is_reference:
  assumes "length line < 256"
  shows "parse_line line gs = Some (parse_reference line gs)"
  by (rule parse_line_eq [OF assms])

text \<open>The line \<^verbatim>\<open>G0M99\<close>: the unknown M word is read as another motion command.\<close>

lemma parse_line_is_reference_witness:
  "parse_line (map ch ''G0M99'' @ [0]) parser_state0 = Some (Inl STATUS_GCODE_MODAL_GROUP_VIOLATION)"
proof -
  have "length (map ch ''G0M99'' @ [0]) < 256" by simp
  note parse_line_is_reference [OF this, of parser_state0]
  moreover have "parse_reference (map ch ''G0M99'' @ [0]) parser_state0 = Inl STATUS_GCODE_MODAL_GROUP_VIOLATION"
    by code_simp
  ultimately show ?thesis by simp
qed

text \<open>C22. In a line that is accepted no value letter occurs twice, but for D and E: their flags are
  beyond the 16 bits of \<^verbatim>\<open>value_words\<close>, so a D or E word is never refused as repeated.\<close>

theorem words_at_most_once:
  assumes "length line < 256" "parse_line line gs = Some (Inr ps)"
  shows "distinct (filter flagged (map fst (fst (words_of (length line) line (if char_at line 0 = ch CHR ''$'' then 3 else 0)))))
    \<and> (\<forall>letter\<in>{ch CHR ''D'', ch CHR ''E''}. \<forall>x q. \<exists>q'. parse_word letter x q = Inr q')"
proof -
  have "bindE (fold_words (fst (words_of (length line) line (if char_at line 0 = ch CHR ''$'' then 3 else 0))) (parse_init line gs))
      (ended_by (snd (words_of (length line) line (if char_at line 0 = ch CHR ''$'' then 3 else 0)))) = Inr ps"
    using assms(2) unfolding parse_line_eq [OF assms(1)] parse_reference_def by (simp add: Let_def case_prod_beta)
  then show ?thesis using fold_words_once unflagged_repeat by (auto simp: bindE_Inr_iff)
qed

lemma words_at_most_once_witness:
  "distinct (filter flagged (map ch ''XDD''))"
proof -
  let ?line = "map ch ''X1D1D2'' @ [0]"
  have l: "length ?line < 256" by simp
  have "case parse_reference ?line parser_state0 of Inl _ \<Rightarrow> False | Inr _ \<Rightarrow> True" by code_simp
  then obtain ps where "parse_line ?line parser_state0 = Some (Inr ps)"
    unfolding parse_line_eq [OF l] by (auto split: sum.splits)
  note words_at_most_once [OF l this]
  moreover have "map fst (fst (words_of (length ?line) ?line (if char_at ?line 0 = ch CHR ''$'' then 3 else 0))) = map ch ''XDD''"
    by code_simp
  ultimately show ?thesis by (simp only:)
qed




section \<open>Lines and commands\<close>



text \<open>C14. Whatever line is executed, the modes of the parser keep values it knows, its vectors one
  component per axis, and soft limits stay off without homing.\<close>

theorem line_keeps_modes:
  assumes "execute_line lm client line_flags line m = Some (code, line', m')" "prog_ok m"
  shows "modal_ok (gc_modal m') \<and> length (gs_position (gc_state m')) = N_AXIS
    \<and> length (gs_coord_system (gc_state m')) = N_AXIS \<and> length (gs_coord_offset (gc_state m')) = N_AXIS
    \<and> soft_limit_ok (settings m')"
  using prog_ok_line [OF assms] by (simp add: prog_ok_def gc_ok_def)

lemma line_keeps_modes_witness: "modal_ok (gc_modal (set_state STATE_CHECK_MODE machine0))"
proof -
  let ?line = "map ch ''$C'' @ [0]"
  have c: "map (char_at ?line) [0, 1, 2] = [ch CHR ''$'', ch CHR ''C'', 0]" by (simp add: char_at_def)
  have n: "ch CHR ''$'' \<noteq> 0" "ch CHR ''C'' \<noteq> 0" by code_simp+
  have "execute_line lm 1 0 ?line machine0
      = Some (STATUS_OK, ?line, report (Feedback_message MESSAGE_ENABLED) (set_state STATE_CHECK_MODE machine0))" for lm
    using c n by (simp add: execute_line_def system_execute_line_def cmd_check_mode_def done_with_def system0_def Let_def)
  moreover have "prog_ok machine0"
    by (simp add: prog_ok_def gc_ok_def modal_ok_def parser_state0_def gc_modal0_def settings_wf_def settings0_def
        soft_limit_ok_def bit_istrue_def)
  ultimately have "modal_ok (gc_modal (report (Feedback_message MESSAGE_ENABLED) (set_state STATE_CHECK_MODE machine0)))"
    using line_keeps_modes by blast
  then show ?thesis by (simp add: report_def)
qed

section \<open>Motion\<close>




text \<open>C12. A homing cycle that ends has either aborted the machine in the alarm state, or put the
  stepper back to normal operation with every homed axis at its position behind the switch.\<close>

theorem homing_succeeds_or_alarms:
  assumes "limits_go_home cycle_mask m = Some m'" "\<not> sys_abort (sys m)"
  shows "sys_abort (sys m') \<and> sys_state (sys m') = STATE_ALARM \<or>
    sys_step_control (sys m') = STEP_CONTROL_NORMAL_OP \<and>
    (\<forall>idx\<in>set (homing_axes cycle_mask). idx < length (sys_position m') \<longrightarrow>
       sys_position m' ! idx = homed_position (settings m) idx)"
  by (rule go_home_result [OF assms])

text \<open>A machine whose segment buffer is full, with a reset pending: the cycle ends in an alarm.\<close>

lemma homing_succeeds_or_alarms_witness:
  "\<exists>m'. limits_go_home HOMING_CYCLE_0 (machine0\<lparr>segment_next_head := 0, sys_rt_exec_state := EXEC_RESET, sched := [[]]\<rparr>) = Some m'
     \<and> (sys_state (sys m') = STATE_ALARM \<or> sys_step_control (sys m') = STEP_CONTROL_NORMAL_OP)"
proof -
  let ?m = "machine0\<lparr>segment_next_head := 0, sys_rt_exec_state := EXEC_RESET, sched := [[]]\<rparr>"
  have a: "\<not> sys_abort (sys ?m)" by (simp add: system0_def)
  obtain m' where "limits_go_home HOMING_CYCLE_0 ?m = Some m'"
    by (rule homing_reset_returns [of ?m "[]"]) (simp_all add: a bit_istrue_def bit_isfalse_def system0_def)
  then show ?thesis using homing_succeeds_or_alarms [OF _ a] by blast
qed

section \<open>A run of the whole program\<close>

text \<open>A machine that starts locked, with a reset command arriving in the first turn of its main loop.\<close>

definition reset_coming :: machine where
  "reset_coming = machine0\<lparr>sys := system0\<lparr>sys_state := STATE_ALARM\<rparr>, sched := [[Ev_rx [(CLIENT_SERIAL, CMD_RESET)]]]\<rparr>"

definition rx_view :: "machine \<Rightarrow> u8 list \<times> u8 list \<times> u8 \<times> u8 \<times> system_t" where
  "rx_view m = (serial_rx_buffer_head m, serial_rx_buffer_tail m, block_buffer_head m, block_buffer_tail m, sys m)"

lemma rx_view_masks: "rx_view (st_generate_step_dir_invert_masks m) = rx_view m"
proof -
  have "rx_view (fold (\<lambda>idx m.
       let m = (if bit_istrue (step_invert_mask (settings m)) (push_bit idx 1)
                then m\<lparr>step_port_invert_mask := step_port_invert_mask m OR get_step_pin_mask idx\<rparr> else m)
       in if bit_istrue (dir_invert_mask (settings m)) (push_bit idx 1)
          then m\<lparr>dir_port_invert_mask := dir_port_invert_mask m OR get_direction_pin_mask idx\<rparr> else m) xs k) = rx_view k" for xs k
    by (induction xs arbitrary: k) (simp_all add: Let_def rx_view_def)
  then show ?thesis by (simp only: st_generate_step_dir_invert_masks_def) (simp add: rx_view_def)
qed

lemma rx_view_init:
  "rx_view (report r (gc_sync_position (plan_sync_position (st_reset (plan_reset (probe_init (limits_init (coolant_init (spindle_init m)))))))))
     = (serial_rx_buffer_head m, serial_rx_buffer_tail m, 0, 0, sys m)"
proof -
  have u: "rx_view (m\<lparr>stepper := a, direction_port := b, step_port := c, out := d\<rparr>) = rx_view m" for a b c d m by (simp add: rx_view_def)
  have i: "rx_view (st_reset k) = rx_view k" for k
    using rx_view_masks by (simp add: rx_view_def st_reset_def Let_def st_go_idle_def set_steppers_disable_def spi_write32_def report_def)
  have v: "rx_view (report r (gc_sync_position (plan_sync_position k))) = rx_view k" for k
    by (simp add: rx_view_def report_def gc_sync_position_def plan_sync_position_def)
  show ?thesis unfolding v i
    by (simp add: rx_view_def plan_reset_def plan_reset_buffer_def probe_init_def probe_configure_invert_mask_def limits_init_def
        coolant_init_def coolant_stop_def spindle_init_def spindle_stop_def report_def Let_def)
qed

lemma zero_coord:
  assumes "eeprom m = replicate 2048 0" "a + n < 2048"
  shows "memcpy_from_eeprom a n m = (replicate n 0, True)"
proof -
  have "memcpy_from_loop rd i n 0 m = (replicate n 0, True)" if "\<forall>j<i + n + 1. rd m j = 0" for i n and rd :: "machine \<Rightarrow> nat \<Rightarrow> u8"
    using that by (induction n arbitrary: i) (simp_all add: checksum_step_def checksum_rotate_def)
  moreover have "\<forall>j<a + n + 1. eeprom_get_char m j = 0" using assms by (simp add: eeprom_get_char_def)
  ultimately show ?thesis by (simp add: memcpy_from_eeprom_with_checksum_def)
qed

lemma init_reset_coming:
  obtains n where "init_systems reset_coming = Some n" "rx_view n = (replicate 3 0, replicate 3 0, 0, 0, sys (clear_system reset_coming))"
    "settings n = settings0" "quiet n" "sched n = sched reset_coming"
proof -
  let ?c = "serial_reset_read_buffer CLIENT_ALL (clear_system reset_coming)"
  have e: "eeprom (?c\<lparr>gc_state := parser_state0\<rparr>) = replicate 2048 0"
    by (simp add: serial_reset_read_buffer_def clear_system_def reset_coming_def)
  let ?k = "set_coord_system (floats_at (replicate 32 0) 0) (?c\<lparr>gc_state := parser_state0\<rparr>)"
  have "gc_init ?c = Some ?k"
    using zero_coord [OF e, of "coord_data_addr 0" 32]
    by (simp add: gc_init_def Let_def settings_read_coord_data_into_def coord_data_addr_def parser_state0_def gc_modal0_def)
  then have i: "init_systems reset_coming = Some (report (Init_message CLIENT_ALL)
      (gc_sync_position (plan_sync_position (st_reset (plan_reset (probe_init (limits_init (coolant_init (spindle_init ?k)))))))))"
    by (simp add: init_systems_def Let_def)
  let ?i = "probe_init (limits_init (coolant_init (spindle_init ?k)))"
  let ?n = "report (Init_message CLIENT_ALL) (gc_sync_position (plan_sync_position (st_reset (plan_reset ?i))))"
  have r: "rx_view ?n = (replicate 3 0, replicate 3 0, 0, 0, sys (clear_system reset_coming))"
    unfolding rx_view_init
    by (simp add: serial_reset_read_buffer_def clear_system_def reset_coming_def set_coord_system_def upd_gc_def
        rx_head_def client_idx_def numeral_3_eq_3)
  have v: "main_view (st_reset (plan_reset ?i)) = main_view ?i"
    unfolding main_view_st_reset by (simp add: plan_reset_def plan_reset_buffer_def main_defs)
  have w: "rt_flags (report x (gc_sync_position (plan_sync_position k))) = rt_flags k"
    "settings (report x (gc_sync_position (plan_sync_position k))) = settings k"
    "sched (report x (gc_sync_position (plan_sync_position k))) = sched k" for x k
    by (simp_all add: report_def gc_sync_position_def plan_sync_position_def rt_flags_def)
  have f: "rt_flags ?i = (0, 0, 0, 0)" "settings ?i = settings0" "sched ?i = sched reset_coming"
    by (simp_all add: rt_flags_def probe_init_def probe_configure_invert_mask_def limits_init_def
        coolant_init_def coolant_stop_def spindle_init_def spindle_stop_def report_def Let_def set_coord_system_def upd_gc_def
        serial_reset_read_buffer_def clear_system_def reset_coming_def)
  have g: "rt_flags ?n = (0, 0, 0, 0)" "settings ?n = settings0" "sched ?n = sched reset_coming"
    unfolding w using v f by (simp_all add: main_view_def)
  then have "quiet ?n"
    using r by (simp add: quiet_def rt_flags_def rx_view_def clear_system_def reset_coming_def system0_def)
  then show thesis using that i r g by blast
qed

lemma loop_ends: "\<exists>m'. loop lm line reset_coming = Some m'"
proof -
  obtain n where n: "init_systems reset_coming = Some n" "rx_view n = (replicate 3 0, replicate 3 0, 0, 0, sys (clear_system reset_coming))"
    "settings n = settings0" "quiet n" "sched n = sched reset_coming" by (rule init_reset_coming)
  let ?n = "set_state STATE_ALARM (report (Feedback_message MESSAGE_ALARM_LOCK) n)"
  have s: "sys_state (sys n) = STATE_ALARM" using n(2) by (simp add: rx_view_def clear_system_def reset_coming_def system0_def)
  have "check_limits_at_init n = n" using n(3) by (simp add: check_limits_at_init_def settings0_def bit_istrue_def)
  then have e: "enter_main_loop lm line n = Some (line, ?n)" using s by (simp add: enter_main_loop_def Let_def)
  have q: "quiet ?n" using n(4) s by (simp add: quiet_def report_def)
  have rx: "rx_empty ?n" "plan_get_current_block ?n = None"
    using n(2) by (auto simp: rx_view_def rx_empty_def rx_head_def rx_tail_def client_idx_def report_def plan_get_current_block_def)
  let ?k = "mc_reset (?n\<lparr>sched := []\<rparr>)"
  have p: "poll ?n = Some ?k"
    using n(5) by (simp add: poll_def reset_coming_def run_event_def serial_poll_rx_def serial_rx_byte_def report_def)
  have k: "?k = coolant_stop (?n\<lparr>sched := [], sys_rt_exec_state := EXEC_RESET\<rparr>)"
    using q s n(2) by (subst mc_reset_still)
      (simp_all add: quiet_def report_def in_motion_def rx_view_def clear_system_def reset_coming_def system0_def bit_isfalse_def)
  have "rx_empty ?k" using rx(1) unfolding k by (simp add: rx_empty_def rx_head_def rx_tail_def coolant_stop_def)
  moreover have "bit_istrue (sys_rt_exec_state ?k) EXEC_RESET" "\<not> critical_alarm ?k"
    using q unfolding k by (simp_all add: coolant_stop_def bit_istrue_def critical_alarm_def quiet_def)
  ultimately obtain m' where "main_loop lm \<lparr>ln_line = line, ln_count = 0, ln_flags = 0\<rparr> ?k = Some m'"
    by (rule main_loop_reset)
  then have "protocol_main_loop lm line n = Some m'"
    using main_loop_turn [OF rx(1) q rx(2) p] by (simp add: protocol_main_loop_def e)
  then show ?thesis by (simp add: loop_def n(1))
qed

section \<open>The main loop\<close>

text \<open>C21. The characters of a line that are kept: the filter leaves in the line buffer the characters
  outside comments, without blanks and slashes and in upper case, cut at the size of the buffer,
  and it marks an overflow exactly when they are too many.\<close>

theorem line_filter_reference:
  assumes "ln_flags l = 0" "ln_count l = 0" "length (ln_line l) = LINE_BUFFER_SIZE"
  shows "let l' = fold filter_char cs l; k = kept_chars cs in
    take (unat (ln_count l')) (ln_line l') = take (LINE_BUFFER_SIZE - 1) k
    \<and> unat (ln_count l') = min (length k) (LINE_BUFFER_SIZE - 1)
    \<and> (ln_flags l' AND LINE_FLAG_OVERFLOW \<noteq> 0 \<longleftrightarrow> LINE_BUFFER_SIZE - 1 < length k)"
proof -
  have "unat (ln_count l) < LINE_BUFFER_SIZE" using assms(2) by simp
  note f = filter_fills [OF assms(1) this assms(3), of cs]
  from f [unfolded filled_def Let_def assms(2) take_0 append_Nil unsigned_0 add_0] show ?thesis
    unfolding Let_def by blast
qed

lemma line_filter_reference_witness:
  "let l' = fold filter_char (map ch ''g1 (up) x2;end'') \<lparr>ln_line = replicate LINE_BUFFER_SIZE 0, ln_count = 0, ln_flags = 0\<rparr>
   in take (unat (ln_count l')) (ln_line l') = map ch ''G1X2''"
proof -
  let ?l = "\<lparr>ln_line = replicate LINE_BUFFER_SIZE 0, ln_count = 0, ln_flags = 0\<rparr> :: line_t"
  have "kept_chars (map ch ''g1 (up) x2;end'') = map ch ''G1X2''" by code_simp
  then have "take (LINE_BUFFER_SIZE - 1) (kept_chars (map ch ''g1 (up) x2;end'')) = map ch ''G1X2''" by simp
  moreover have "ln_flags ?l = 0" "ln_count ?l = 0" "length (ln_line ?l) = LINE_BUFFER_SIZE" by simp_all
  note line_filter_reference [OF this, of "map ch ''g1 (up) x2;end''", unfolded Let_def, THEN conjunct1]
  ultimately show ?thesis unfolding Let_def by (rule trans [rotated])
qed

text \<open>C13. From power on: the program, started with any settings that have soft limits only with
  homing, leaves its main loop only when the machine is aborted, and then the modes of the parser
  and the settings are still well formed, whatever the clients sent.\<close>

theorem program_ends_well_formed:
  assumes "loop lm line m = Some m'" "settings_wf (settings m)" "soft_limit_ok (settings m)"
  shows "sys_abort (sys m') \<and> gc_ok m' \<and> settings_wf (settings m') \<and> soft_limit_ok (settings m')"
  using prog_ok_loop [OF assms] by (simp add: prog_ok_def)

lemma program_ends_well_formed_witness:
  "\<forall>lm line. \<exists>m'. loop lm line reset_coming = Some m' \<and> sys_abort (sys m') \<and> gc_ok m'"
proof -
  have s: "settings_wf (settings reset_coming)" "soft_limit_ok (settings reset_coming)"
    by (simp_all add: reset_coming_def settings_wf_def settings0_def soft_limit_ok_def bit_istrue_def)
  show ?thesis using loop_ends program_ends_well_formed [OF _ s] by blast
qed

text \<open>C23. A reset gets through: when the clients have been served and a reset is pending (and no
  critical alarm is), the main loop returns, aborted.\<close>

theorem reset_leaves_main_loop:
  assumes "rx_empty m" "bit_istrue (sys_rt_exec_state m) EXEC_RESET" "\<not> critical_alarm m"
  shows "\<exists>m'. main_loop lm l m = Some m' \<and> sys_abort (sys m')"
  using main_loop_reset [OF assms] by blast

lemma reset_leaves_main_loop_witness:
  "\<forall>lm l. \<exists>m'. main_loop lm l (machine0\<lparr>sys_rt_exec_state := EXEC_RESET\<rparr>) = Some m' \<and> sys_abort (sys m')"
proof -
  let ?m = "machine0\<lparr>sys_rt_exec_state := EXEC_RESET\<rparr>"
  have "rx_empty ?m" by (simp add: rx_empty_def rx_head_def rx_tail_def client_idx_def)
  moreover have "bit_istrue (sys_rt_exec_state ?m) EXEC_RESET" "\<not> critical_alarm ?m"
    by (simp_all add: bit_istrue_def critical_alarm_def)
  ultimately show ?thesis using reset_leaves_main_loop by blast
qed

end
