(* ===== verification/Machine_Properties.thy ===== *)
theory Machine_Properties
  imports State_Machine Program_Properties Realtime_Properties
begin

text \<open>
  The properties of the whole machine: the executor is a refinement of the abstract machine of the
  nine modes, and every machine the firmware reaches from power-on is well formed.
\<close>

section \<open>The modes\<close>

text \<open>C10. One run of the realtime executor takes the machine from its mode (or from the alarm, if one is
  raised) to another along the moves of the abstract machine, with the requests it found: every
  change of \<^verbatim>\<open>sys.state\<close> is a hold, a door, a sleep, a start or a stop that was asked for, in a
  mode that may do it.\<close>

theorem executor_follows_modes:
  assumes "protocol_exec_rt_system m = Some m'" "in_mode k m"
  shows "\<exists>k'. in_mode k' m' \<and> mode_steps (sys_rt_exec_state m) (alarmed m k) k'"
  by (rule executor_refines [OF assms])

text \<open>The last segment of a motion has been executed.\<close>

definition motion_over :: machine where
  "motion_over = idle_cancel\<lparr>sys_rt_exec_state := EXEC_CYCLE_STOP, sys := (sys idle_cancel)\<lparr>sys_state := STATE_CYCLE\<rparr>\<rparr>"

lemma motion_over_run:
  "protocol_exec_rt_system motion_over =
     Some (system_clear_exec_state_flag EXEC_CYCLE_STOP (set_state STATE_IDLE (set_suspend SUSPEND_DISABLE motion_over)))"
  by (simp add: protocol_exec_rt_system_def rt_alarm_def rt_exec_flags_def rt_status_report_def rt_hold_def EXEC_HOLDS_def
      rt_cycle_start_def rt_cycle_stop_def rt_motion_done_def rt_motion_overrides_def rt_accessory_overrides_def rt_reload_def
      motion_over_def idle_cancel_def system_clear_exec_state_flag_def system0_def Let_def)

lemma executor_follows_modes_witness:
  "\<exists>k. in_mode k (the (protocol_exec_rt_system motion_over)) \<and> mode_steps EXEC_CYCLE_STOP Cycle k"
proof -
  have "in_mode Cycle motion_over" by (simp add: in_mode_def motion_over_def)
  from executor_follows_modes [OF motion_over_run this] show ?thesis
    by (simp add: motion_over_run alarmed_def) (simp add: motion_over_def idle_cancel_def)
qed

section \<open>The reachable machines\<close>

text \<open>C2. Whatever interrupts arrive, whatever the clients send and however often it is reset, a
  machine started with any content of the store (whose settings, if it has any, do not have soft
  limits without homing) is well formed: the modes of the parser, its
  vectors and the settings; the rings of the planner, of the segments and of the clients; every
  index one of these keeps into another; the positions; and the state, which is one of the nine.\<close>

theorem reachable_well_formed:
  assumes "reachable lm m"
  shows "prog_ok m \<and> machine_wf m"
  using reachable_program_wf [OF assms] by (simp add: program_wf_def)

text \<open>A machine whose store holds its settings, when its loop has been initialised and a client then
  asks for a reset.\<close>

definition stored :: "u8 list" where
  "stored = eeprom (write_global_settings machine0)"

lemma stored_setup:
  obtains k where "setup_machine (powered stored []) = Some k" "settings k = settings0" "eeprom k = stored"
proof -
  let ?m = "powered stored []" and ?w = "write_global_settings machine0"
  have e: "eeprom ?m = eeprom ?w" "settings ?w = settings ?m" by (simp_all add: powered_def stored_def)
  have w: "read_global_settings ?w = (True, ?w)"
    by (intro read_written_settings) (simp_all add: settings_wf_def settings0_def)
  have "eeprom_get_char ?m 0 = eeprom_get_char ?w 0" using e(1) by (simp add: eeprom_get_char_def)
  then have "read_global_settings ?m = (True, ?m)"
    by (rule read_global_store [OF w _ read_block_store [OF e(1)] e(2)]) (simp add: write_global_version)
  moreover have "settings ?m = settings0" "bit_istrue (flags settings0) BITFLAG_HOMING_ENABLE = False"
    by (simp_all add: powered_def settings0_def bit_istrue_def)
  ultimately have "setup_machine ?m = Some (set_state STATE_IDLE ((system_init (stepper_init ?m))\<lparr>sys_position := replicate N_AXIS 0\<rparr>))"
    by (simp add: setup_machine_def settings_init_def system_init_def stepper_init_def report_def Let_def)
  then show thesis
    by (rule that) (simp_all add: system_init_def stepper_init_def report_def powered_def)
qed

lemma stored_init:
  assumes "settings k = settings0" "eeprom k = stored"
  obtains m where "init_systems k = Some m"
proof -
  let ?c = "serial_reset_read_buffer CLIENT_ALL (clear_system k)"
  let ?z = "replicate (N_AXIS * 4) 0 :: u8 list"
  have e: "eeprom (?c\<lparr>gc_state := parser_state0\<rparr>) = stored"
    using assms(2) by (simp add: serial_reset_read_buffer_def clear_system_def)
  have a: "apart (coord_block 0) (EEPROM_ADDR_GLOBAL, length (settings_bytes (settings machine0)))"
    by (simp add: apart_def coord_block_def coord_data_addr_def length_settings_bytes settings_wf_def settings0_def)
  have "read_block (coord_block 0) (?c\<lparr>gc_state := parser_state0\<rparr>) = read_block (coord_block 0) (write_global_settings machine0)"
    using e by (intro read_block_store) (simp add: stored_def)
  also have "\<dots> = read_block (coord_block 0) machine0"
    unfolding write_global_settings_def using a
    by (simp add: read_block_apart read_block_put coord_block_def coord_data_addr_def)
  also have "\<dots> = (replicate 32 0, True)"
    using zero_coord [of machine0 "coord_data_addr 0" 32] by (simp add: read_block_def coord_block_def coord_data_addr_def)
  finally have "\<exists>j. gc_init ?c = Some j"
    by (simp add: gc_init_def settings_read_coord_data_into_def read_block_def coord_block_def parser_state0_def gc_modal0_def Let_def)
  then show thesis using that by (auto simp: init_systems_def)
qed

lemma reachable_well_formed_witness:
  "\<forall>lm. \<exists>m. reachable lm m \<and> bit_istrue (sys_rt_exec_state m) EXEC_RESET \<and> machine_wf m"
proof
  fix lm
  obtain k where k: "setup_machine (powered stored []) = Some k" "settings k = settings0" "eeprom k = stored" by (rule stored_setup)
  obtain m where m: "init_systems k = Some m" by (rule stored_init [OF k(2,3)])
  let ?r = "run_event (Ev_rx [(CLIENT_SERIAL, CMD_RESET)]) m"
  have "reachable lm m"
    by (rule reachable.power_on [OF k(1) _ _ m]) (simp_all add: k(2) stored_def settings0_def soft_limit_ok_def bit_istrue_def)
  then have "reachable lm ?r" using fw_step.interrupt by (rule reachable.step)
  moreover have "bit_istrue (sys_rt_exec_state ?r) EXEC_RESET"
    using reset_byte_sets [of CLIENT_SERIAL m] by (simp add: run_event_def serial_poll_rx_def)
  ultimately show "\<exists>m. reachable lm m \<and> bit_istrue (sys_rt_exec_state m) EXEC_RESET \<and> machine_wf m"
    using reachable_well_formed by blast
qed

end
