(* ===== verification/Print.thy ===== *)
theory Print
  imports Interrupts
begin

text \<open>
  \<^verbatim>\<open>print.cpp\<close>, and \<^verbatim>\<open>serial_write\<close> of \<^verbatim>\<open>serial.cpp\<close> which only it calls: numbers written digit
  by digit to the serial port. The readings of \<^verbatim>\<open>Serial.availableForWrite\<close> are an argument, one
  for each time the wait of \<^verbatim>\<open>serial_write\<close> asks; interrupts are served between two of them. A
  function has no result when the readings or the interrupts end before a wait does.
\<close>

section \<open>Writing a character\<close>

type_synonym tx = "nat list \<times> machine"

fun serial_write :: "u8 \<Rightarrow> tx \<Rightarrow> tx option" where
  "serial_write data ([], m) = None"
| "serial_write data (n # rs, m) =
     (if n = 0 then
        (case poll m of None \<Rightarrow> None
         | Some m \<Rightarrow> if bit_istrue (sys_rt_exec_state m) EXEC_RESET then Some (rs, m) else serial_write data (rs, m))
      else Some (rs, report (Serial_tx data) m))"

primrec write_all :: "u8 list \<Rightarrow> tx \<Rightarrow> tx option" where
  "write_all [] s = Some s"
| "write_all (b # bs) s = (case serial_write b s of None \<Rightarrow> None | Some s \<Rightarrow> write_all bs s)"

section \<open>Integers\<close>

definition print_uint8_base10 :: "u8 \<Rightarrow> tx \<Rightarrow> tx option" where
  "print_uint8_base10 n =
     (let (digit_a, n) = (if 100 \<le> n then (48 + n mod 10, n div 10) else (0, n));
          (digit_b, n) = (if 10 \<le> n then (48 + n mod 10, n div 10) else (0, n))
      in write_all ([48 + n] @ (if digit_b \<noteq> 0 then [digit_b] else []) @ (if digit_a \<noteq> 0 then [digit_a] else [])))"

text \<open>The digits as the loops generate them, the lowest first.\<close>

primrec digits_base2 :: "nat \<Rightarrow> u8 \<Rightarrow> u8 list" where
  "digits_base2 0 n = []"
| "digits_base2 (Suc digits) n = (n mod 2) # digits_base2 digits (n div 2)"

definition print_uint8_base2_ndigit :: "u8 \<Rightarrow> u8 \<Rightarrow> tx \<Rightarrow> tx option" where
  "print_uint8_base2_ndigit n digits = write_all (map (\<lambda>d. 48 + d) (rev (digits_base2 (unat digits) n)))"

function digits_base10 :: "u32 \<Rightarrow> u8 list" where
  "digits_base10 n = (if n = 0 then [] else ucast (n mod 10) # digits_base10 (n div 10))"
  by pat_completeness auto
termination
  by (relation "measure unat") (auto simp: unat_div unat_gt_0 div_less_dividend)

declare digits_base10.simps [simp del]

text \<open>The buffers hold 10 and 13 characters; a character behind the end is no result.\<close>

definition print_uint32_base10 :: "u32 \<Rightarrow> tx \<Rightarrow> tx option" where
  "print_uint32_base10 n s =
     (if n = 0 then serial_write 48 s
      else let buf = digits_base10 n
           in if 10 < length buf then None else write_all (map (\<lambda>d. 48 + d) (rev buf)) s)"

definition printInteger :: "i32 \<Rightarrow> tx \<Rightarrow> tx option" where
  "printInteger n s =
     (if n <s 0 then
        (case serial_write 45 s of None \<Rightarrow> None
         | Some s \<Rightarrow> print_uint32_base10 (if n = 0x80000000 then undefined else - n) s)
      else print_uint32_base10 n s)"

section \<open>Floating point values\<close>

text \<open>\<^verbatim>\<open>n *= 100\<close> multiplies as \<^verbatim>\<open>float\<close>; the \<^verbatim>\<open>0.5\<close> of the rounding is a \<^verbatim>\<open>double\<close>.\<close>

function shift_decimals :: "u8 \<Rightarrow> f32 \<Rightarrow> f32" where
  "shift_decimals decimals n =
     (if 2 \<le> decimals then shift_decimals (decimals - 2) (f32_mul n (f32_of_int 100))
      else if decimals \<noteq> 0 then f32_mul n (f32_of_int 10) else n)"
  by pat_completeness auto
termination
proof (relation "measure (\<lambda>(d, n). unat d)")
  fix d :: u8 assume "2 \<le> d"
  then show "((d - 2, n'), d, n) \<in> measure (\<lambda>(d, n). unat d)" for n n' :: f32
    by (simp add: unat_sub word_le_nat_alt)
qed simp

declare shift_decimals.simps [simp del]

definition round_half :: "f32 \<Rightarrow> f32" where
  "round_half n = f32_of_f64 (f64_add (f64_of_f32 n) (f64_of_rat (1 / 2)))"

text \<open>The text is built backwards: the digits, zeros up to the decimal point, and a leading zero
  where only decimals were generated.\<close>

definition float_digits :: "u32 \<Rightarrow> nat \<Rightarrow> u8 list" where
  "float_digits a decimal_places =
     (let buf = map (\<lambda>d. 48 + d) (digits_base10 a);
          buf = buf @ replicate (decimal_places - length buf) 48
      in if length buf = decimal_places then buf @ [48] else buf)"

primrec with_point :: "nat \<Rightarrow> u8 list \<Rightarrow> nat \<Rightarrow> u8 list" where
  "with_point decimal_places buf 0 = []"
| "with_point decimal_places buf (Suc i) =
     (if Suc i = decimal_places then [46] else []) @ [buf ! i] @ with_point decimal_places buf i"

definition printFloat :: "f32 \<Rightarrow> u8 \<Rightarrow> tx \<Rightarrow> tx option" where
  "printFloat n decimal_places s =
     (case (if f32_lt n 0 then map_option (Pair (f32_neg n)) (serial_write 45 s) else Some (n, s)) of
        None \<Rightarrow> None
      | Some (n, s) \<Rightarrow>
          let n = round_half (shift_decimals decimal_places n);
              a = to_i32 (fpd_trunc (f32_dec n));
              buf = float_digits a (unat decimal_places)
          in if 13 < length buf then None else write_all (with_point (unat decimal_places) buf (length buf)) s)"

abbreviation (input) INCH_PER_MM :: rat where "INCH_PER_MM \<equiv> 393701 / 10000000"
abbreviation (input) N_DECIMAL_COORDVALUE_INCH :: u8 where "N_DECIMAL_COORDVALUE_INCH \<equiv> 4"
abbreviation (input) N_DECIMAL_COORDVALUE_MM :: u8 where "N_DECIMAL_COORDVALUE_MM \<equiv> 3"
abbreviation (input) N_DECIMAL_RATEVALUE_INCH :: u8 where "N_DECIMAL_RATEVALUE_INCH \<equiv> 1"
abbreviation (input) N_DECIMAL_RATEVALUE_MM :: u8 where "N_DECIMAL_RATEVALUE_MM \<equiv> 0"

definition printFloat_CoordValue :: "f32 \<Rightarrow> tx \<Rightarrow> tx option" where
  "printFloat_CoordValue n s =
     (if bit_istrue (flags (settings (snd s))) BITFLAG_REPORT_INCHES
      then printFloat (f32_times_lit INCH_PER_MM n) N_DECIMAL_COORDVALUE_INCH s
      else printFloat n N_DECIMAL_COORDVALUE_MM s)"

definition printFloat_RateValue :: "f32 \<Rightarrow> tx \<Rightarrow> tx option" where
  "printFloat_RateValue n s =
     (if bit_istrue (flags (settings (snd s))) BITFLAG_REPORT_INCHES
      then printFloat (f32_times_lit INCH_PER_MM n) N_DECIMAL_RATEVALUE_INCH s
      else printFloat n N_DECIMAL_RATEVALUE_MM s)"

section \<open>What is written\<close>

text \<open>A port with room for every character, and no reset, takes the whole text.\<close>

definition ready :: "nat \<Rightarrow> tx \<Rightarrow> bool" where
  "ready k s \<longleftrightarrow> k \<le> length (fst s) \<and> (\<forall>n\<in>set (fst s). 0 < n)"

definition sent :: "u8 list \<Rightarrow> tx \<Rightarrow> tx" where
  "sent bs s = (drop (length bs) (fst s), (snd s)\<lparr>out := rev (map Serial_tx bs) @ out (snd s)\<rparr>)"

lemma serial_write_ready: "ready (Suc k) s \<Longrightarrow> serial_write b s = Some (sent [b] s) \<and> ready k (sent [b] s)"
  by (cases s; cases "fst s") (auto simp: ready_def sent_def report_def)

lemma sent_sent [simp]: "sent bs (sent as s) = sent (as @ bs) s"
  by (simp add: sent_def add.commute)

lemma write_all_ready: "ready (length bs) s \<Longrightarrow> write_all bs s = Some (sent bs s)"
proof (induction bs arbitrary: s)
  case Nil
  then show ?case by (simp add: sent_def)
next
  case (Cons b bs)
  then show ?case using serial_write_ready [of "length bs" s b] by simp
qed

lemma ready_mono: "ready k s \<Longrightarrow> j \<le> k \<Longrightarrow> ready j s"
  by (simp add: ready_def)

section \<open>Digits\<close>

lemma digits_base10_step: "n \<noteq> 0 \<Longrightarrow> digits_base10 n = ucast (n mod 10) # digits_base10 (n div 10)"
  by (subst digits_base10.simps) simp

lemma unat_last_digit: "unat (ucast (n mod 10 :: u32) :: u8) = unat n mod 10"
proof -
  have "unat n mod 10 < 10" by simp
  then show ?thesis by (simp add: unsigned_ucast_eq unat_mod take_bit_eq_mod)
qed

lemma digits_base10_digit: "d \<in> set (digits_base10 n) \<Longrightarrow> d \<le> 9"
proof (induction n rule: digits_base10.induct)
  case (1 n)
  have "ucast (n mod 10) \<le> (9 :: u8)" by (simp add: word_le_nat_alt unat_last_digit)
  then show ?case using 1 by (subst (asm) digits_base10.simps) (auto split: if_splits)
qed

lemma digits_base10_value: "dec_value (rev (digits_base10 n)) = unat n"
proof (induction n rule: digits_base10.induct)
  case (1 n)
  show ?case
  proof (cases "n = 0")
    case False
    then show ?thesis using 1 [OF False] by (simp add: digits_base10_step unat_last_digit unat_div)
  qed (simp add: digits_base10.simps)
qed

lemma digits_base10_length: "unat n < 10 ^ k \<Longrightarrow> length (digits_base10 n) \<le> k"
proof (induction k arbitrary: n)
  case 0
  then have "n = 0" by (simp add: unat_eq_0)
  then show ?case by (simp add: digits_base10.simps)
next
  case (Suc k)
  then have "unat (n div 10) < 10 ^ k" by (simp add: unat_div less_mult_imp_div_less mult.commute)
  then show ?case using Suc.IH by (subst digits_base10.simps) simp
qed

text \<open>The text of a number, without a leading zero, is read back as the number.\<close>

definition number_text :: "u32 \<Rightarrow> u8 list" where
  "number_text n = (if n = 0 then [48] else map (\<lambda>d. 48 + d) (rev (digits_base10 n)))"

lemma digits_of_text: "digits_of (map (\<lambda>d. 48 + d) ds) = ds"
  by (simp add: digits_of_def comp_def)

lemma number_text:
  "dec_value (digits_of (number_text n)) = unat n" "length (number_text n) \<le> 10"
  "c \<in> set (number_text n) \<Longrightarrow> is_digit c" "number_text n \<noteq> []"
proof -
  show "dec_value (digits_of (number_text n)) = unat n"
    by (simp add: number_text_def digits_of_text digits_base10_value) (simp add: digits_of_def dec_value_def)
  have "unat n < 10 ^ 10" using unsigned_less [of n, where ?'a = nat] by simp
  then show "length (number_text n) \<le> 10"
    by (simp add: number_text_def digits_base10_length)
  show "c \<in> set (number_text n) \<Longrightarrow> is_digit c"
    by (auto simp: number_text_def is_digit_def digits_base10_digit split: if_splits)
  show "number_text n \<noteq> []" by (simp add: number_text_def digits_base10_step)
qed

lemma print_uint32_base10_eq:
  "print_uint32_base10 n s = write_all (number_text n) s"
proof -
  have "serial_write 48 s = write_all [48] s" by (simp split: option.split)
  moreover have "length (digits_base10 n) \<le> 10"
    using unsigned_less [of n, where ?'a = nat] by (intro digits_base10_length) simp
  ultimately show ?thesis by (simp add: print_uint32_base10_def number_text_def Let_def)
qed

lemma byte_eq_iff: "a = b \<longleftrightarrow> unat a = unat b" for a b :: u8
  by (auto intro: unsigned_word_eqI)

lemma u32_eq_iff: "a = b \<longleftrightarrow> unat a = unat b" for a b :: u32
  by (auto intro: unsigned_word_eqI)

lemma unat_byte: "unat (ucast n :: u32) = unat n" for n :: u8
  using unsigned_less [of n, where ?'a = nat] by (simp add: unsigned_ucast_eq take_bit_eq_mod)

lemma digits_base10_byte:
  "n \<noteq> 0 \<Longrightarrow> digits_base10 (ucast (n :: u8)) = (n mod 10) # digits_base10 (ucast (n div 10))"
proof -
  assume "n \<noteq> 0"
  then have "(ucast n :: u32) \<noteq> 0" by (simp add: u32_eq_iff byte_eq_iff unat_byte)
  moreover have "ucast (ucast n mod 10 :: u32) = n mod 10" "(ucast n :: u32) div 10 = ucast (n div 10)"
    by (simp_all add: byte_eq_iff u32_eq_iff unat_last_digit unat_mod unat_div unat_byte)
  ultimately show ?thesis by (simp add: digits_base10_step)
qed

lemma print_uint8_base10_eq: "print_uint8_base10 n s = write_all (number_text (ucast n)) s"
proof -
  have z: "(ucast n :: u32) = 0 \<longleftrightarrow> n = 0"
    by (simp add: byte_eq_iff u32_eq_iff unat_byte)
  have d: "48 + k mod 10 \<noteq> 0" for k :: u8
    by (simp add: byte_eq_iff unat_word_ariths unat_mod)
  have t: "k div 10 = 0 \<longleftrightarrow> \<not> 10 \<le> k" for k :: u8
    by (simp add: div_eq_0_iff not_le byte_eq_iff unat_div word_le_nat_alt)
  have h: "10 \<le> k div 10 \<longleftrightarrow> 100 \<le> k" "\<not> 10 \<le> k div 10 div 10" for k :: u8
    using unsigned_less [of k, where ?'a = nat] by (simp_all add: word_le_nat_alt unat_div) arith
  have l: "k mod 10 = k" if "\<not> 10 \<le> k" for k :: u8
    using that by (simp add: word_le_nat_alt byte_eq_iff unat_mod)
  have e: "digits_base10 (ucast (k div 10)) = []" if "\<not> 10 \<le> k" for k :: u8
    using that t [of k] by (simp add: digits_base10.simps)
  have g: "100 \<le> n \<Longrightarrow> 10 \<le> n"
    by (simp add: word_le_nat_alt)
  show ?thesis
    using h(2) [of n] g by (auto simp: e print_uint8_base10_def number_text_def z d digits_base10_byte t h(1) l
        digits_base10.simps [of 0] Let_def)
qed

text \<open>The digits of a bit pattern: the low \<open>digits\<close> bits, the highest first.\<close>

lemma digits_base2_nth:
  "length (digits_base2 k n) = k" "i < k \<Longrightarrow> digits_base2 k n ! i = (if bit n i then 1 else 0)"
proof -
  show "length (digits_base2 k n) = k" by (induction k arbitrary: n) auto
  show "i < k \<Longrightarrow> digits_base2 k n ! i = (if bit n i then 1 else 0)"
  proof (induction k arbitrary: i n)
    case (Suc k)
    show ?case
    proof (cases i)
      case 0
      then show ?thesis by (simp add: bit_0 mod2_eq_if)
    next
      case (Suc j)
      then show ?thesis using Suc.IH [of j "n div 2"] Suc.prems by (simp add: bit_Suc)
    qed
  qed simp
qed

end
