(* ===== verification/Net_Buffers.thy ===== *)
theory Net_Buffers
  imports Interrupts
begin

text \<open>
  The network clients: the websocket bridge \<^verbatim>\<open>Serial_2_Socket\<close> with its event handler, the
  \<^verbatim>\<open>Telnet_Server\<close>, the routing of \<^verbatim>\<open>grbl_send\<close>, and the loop of \<^verbatim>\<open>serial_poll_rx\<close> that takes
  the bytes of the serial port and of both network clients. The libraries below (the UART driver,
  \<^verbatim>\<open>AsyncWebSocket\<close>, \<^verbatim>\<open>AsyncClient\<close>, \<^verbatim>\<open>millis\<close>) are arguments: the bytes the UART holds, whether
  a socket has clients, which TCP clients are connected and what their \<^verbatim>\<open>write\<close> returns, and the
  readings of the clock, the \<open>n\<close>-th of a call as \<open>clk n\<close>.
\<close>

abbreviation (input) TXBUFFERSIZE :: nat where "TXBUFFERSIZE \<equiv> 1200"
abbreviation (input) RXBUFFERSIZE :: nat where "RXBUFFERSIZE \<equiv> 128"
abbreviation (input) FLUSHTIMEOUT :: u32 where "FLUSHTIMEOUT \<equiv> 300"
abbreviation (input) MAX_TELNET_CLIENTS :: nat where "MAX_TELNET_CLIENTS \<equiv> 1"
abbreviation (input) TELNET_RXBUFFERSIZE :: nat where "TELNET_RXBUFFERSIZE \<equiv> 1200"
abbreviation (input) TELNET_SERVER_PORT :: u16 where "TELNET_SERVER_PORT \<equiv> 23"

type_synonym clock = "nat \<Rightarrow> u32"

section \<open>Filling a receive buffer\<close>

text \<open>Both classes write with the same loop: the index goes back to 0 behind the last slot.\<close>

fun rx_fill :: "nat \<Rightarrow> u8 list \<Rightarrow> nat \<Rightarrow> u8 list \<Rightarrow> u8 list" where
  "rx_fill cap buf current [] = buf"
| "rx_fill cap buf current (d # ds) =
     (let current = (if cap - 1 < current then 0 else current)
      in rx_fill cap (buf[current := d]) (current + 1) ds)"

text \<open>The slot behind the last byte; the loop takes care of an index equal to the size.\<close>

definition rx_end :: "nat \<Rightarrow> u16 \<Rightarrow> u16 \<Rightarrow> nat" where
  "rx_end cap pos sz =
     (let current = unat pos + unat sz in if cap < current then current - cap else current)"

section \<open>serial2socket.cpp\<close>

text \<open>\<open>s2s_web_socket\<close> is whether a socket is attached; \<open>s2s_frames\<close> are the frames given to it.\<close>

record s2s_t =
  s2s_web_socket :: bool
  s2s_lastflush :: u32
  s2s_TXbuffer :: "u8 list"
  s2s_TXbufferSize :: u16
  s2s_RXbuffer :: "u8 list"
  s2s_RXbufferSize :: u16
  s2s_RXbufferpos :: u16
  s2s_frames :: "u8 list list"

definition s2s_begin :: "s2s_t \<Rightarrow> s2s_t" where
  "s2s_begin s = s\<lparr>s2s_TXbufferSize := 0, s2s_RXbufferSize := 0, s2s_RXbufferpos := 0\<rparr>"

definition s2s_end :: "s2s_t \<Rightarrow> s2s_t" where
  "s2s_end s = s\<lparr>s2s_TXbufferSize := 0, s2s_RXbufferSize := 0, s2s_RXbufferpos := 0\<rparr>"

definition s2s_attachWS :: "bool \<Rightarrow> s2s_t \<Rightarrow> bool \<times> s2s_t" where
  "s2s_attachWS web_socket s =
     (if web_socket then (True, s\<lparr>s2s_web_socket := True, s2s_TXbufferSize := 0\<rparr>) else (False, s))"

definition s2s_detachWS :: "s2s_t \<Rightarrow> bool \<times> s2s_t" where
  "s2s_detachWS s = (True, s\<lparr>s2s_web_socket := False\<rparr>)"

definition s2s_available :: "s2s_t \<Rightarrow> nat" where
  "s2s_available s = unat (s2s_RXbufferSize s)"

text \<open>\<open>clients\<close> is the number of clients of the socket.\<close>

definition s2s_flush :: "nat \<Rightarrow> u32 \<Rightarrow> s2s_t \<Rightarrow> s2s_t" where
  "s2s_flush clients now s =
     (if 0 < s2s_TXbufferSize s then
        let s = (if 0 < clients
                 then s\<lparr>s2s_frames := s2s_frames s @ [take (unat (s2s_TXbufferSize s)) (s2s_TXbuffer s)]\<rparr> else s)
        in s\<lparr>s2s_lastflush := now, s2s_TXbufferSize := 0\<rparr>
      else s)"

definition s2s_handle_flush :: "nat \<Rightarrow> clock \<Rightarrow> s2s_t \<Rightarrow> s2s_t" where
  "s2s_handle_flush clients clk s =
     (if 0 < s2s_TXbufferSize s then
        if TXBUFFERSIZE \<le> unat (s2s_TXbufferSize s) \<or> FLUSHTIMEOUT < clk 0 - s2s_lastflush s
        then s2s_flush clients (clk 1) s else s
      else s)"

text \<open>Appending to the transmit buffer; nothing when it would be overrun.\<close>

fun s2s_append :: "u8 list \<Rightarrow> s2s_t \<Rightarrow> s2s_t option" where
  "s2s_append [] s = Some s"
| "s2s_append (b # bs) s =
     (if unat (s2s_TXbufferSize s) < TXBUFFERSIZE then
        s2s_append bs (s\<lparr>s2s_TXbuffer := (s2s_TXbuffer s)[unat (s2s_TXbufferSize s) := b],
                         s2s_TXbufferSize := s2s_TXbufferSize s + 1\<rparr>)
      else None)"

definition s2s_write :: "nat \<Rightarrow> clock \<Rightarrow> u8 list \<Rightarrow> s2s_t \<Rightarrow> (nat \<times> s2s_t) option" where
  "s2s_write clients clk buffer s =
     (if \<not> s2s_web_socket s then Some (0, s)
      else
        let s = (if s2s_TXbufferSize s = 0 then s\<lparr>s2s_lastflush := clk 0\<rparr> else s);
            s = (if TXBUFFERSIZE < unat (s2s_TXbufferSize s) + length buffer then s2s_flush clients (clk 1) s else s)
        in map_option (\<lambda>s. (length buffer, s2s_handle_flush clients (\<lambda>n. clk (n + 2)) s)) (s2s_append buffer s))"

definition s2s_write_byte :: "nat \<Rightarrow> clock \<Rightarrow> u8 \<Rightarrow> s2s_t \<Rightarrow> (nat \<times> s2s_t) option" where
  "s2s_write_byte clients clk c s =
     (if \<not> s2s_web_socket s then Some (0, s)
      else map_option (\<lambda>(_, s). (1, s)) (s2s_write clients clk [c] s))"

text \<open>\<^verbatim>\<open>-1\<close> for an empty buffer is \<open>None\<close>.\<close>

definition s2s_peek :: "s2s_t \<Rightarrow> u8 option" where
  "s2s_peek s = (if 0 < s2s_RXbufferSize s then Some (s2s_RXbuffer s ! unat (s2s_RXbufferpos s)) else None)"

text \<open>A C string ends at its first zero.\<close>

definition c_string :: "u8 list \<Rightarrow> u8 list" where
  "c_string = takeWhile (\<lambda>c. c \<noteq> 0)"

definition s2s_push :: "u8 list \<Rightarrow> s2s_t \<Rightarrow> bool \<times> s2s_t" where
  "s2s_push data s =
     (let data = c_string data; data_size = length data in
      if data_size + unat (s2s_RXbufferSize s) \<le> RXBUFFERSIZE then
        (True, s\<lparr>s2s_RXbuffer :=
                   rx_fill RXBUFFERSIZE (s2s_RXbuffer s) (rx_end RXBUFFERSIZE (s2s_RXbufferpos s) (s2s_RXbufferSize s)) data,
                 s2s_RXbufferSize := s2s_RXbufferSize s + of_nat data_size\<rparr>)
      else (False, s))"

definition s2s_read :: "s2s_t \<Rightarrow> u8 option \<times> s2s_t" where
  "s2s_read s =
     (if 0 < s2s_RXbufferSize s then
        let v = s2s_RXbuffer s ! unat (s2s_RXbufferpos s);
            pos = s2s_RXbufferpos s + 1;
            pos = (if RXBUFFERSIZE - 1 < unat pos then 0 else pos)
        in (Some v, s\<lparr>s2s_RXbufferpos := pos, s2s_RXbufferSize := s2s_RXbufferSize s - 1\<rparr>)
      else (None, s))"

section \<open>websocket.cpp\<close>

datatype ws_event =
    WS_EVT_CONNECT
  | WS_EVT_DISCONNECT
  | WS_EVT_ERROR
  | WS_EVT_PONG
  | WS_EVT_DATA bool nat nat "u8 list" \<comment> \<open>\<open>final\<close>, \<open>index\<close> and \<open>len\<close> of the frame, the data\<close>

text \<open>A frame that is whole is pushed as one line, its end added; other events only send or print.\<close>

definition onWsEvent :: "ws_event \<Rightarrow> s2s_t \<Rightarrow> s2s_t" where
  "onWsEvent type s =
     (case type of
        WS_EVT_DATA final index info_len data \<Rightarrow>
          if final \<and> index = 0 \<and> info_len = length data then snd (s2s_push (data @ [10]) s) else s
      | _ \<Rightarrow> s)"

section \<open>telnet_server.cpp\<close>

text \<open>Clients are numbered; \<open>tn_sent\<close> is what each was sent, \<open>tn_stopped\<close> who was turned away.\<close>

record telnet_t =
  tn_setupdone :: bool
  tn_server :: bool
  tn_port :: u16
  tn_clients :: "nat option list"
  tn_RXbuffer :: "u8 list"
  tn_RXbufferSize :: u16
  tn_RXbufferpos :: u16
  tn_sent :: "(nat \<times> u8 list) list"
  tn_stopped :: "nat list"

definition tn_end :: "telnet_t \<Rightarrow> telnet_t" where
  "tn_end t = t\<lparr>tn_setupdone := False, tn_RXbufferSize := 0, tn_RXbufferpos := 0, tn_server := False\<rparr>"

text \<open>\<open>tcp_write c bs\<close> is what the \<^verbatim>\<open>write\<close> of client \<open>c\<close> returns for \<open>bs\<close>. The result is that of
  the last connected client.\<close>

definition tn_write :: "(nat \<Rightarrow> bool) \<Rightarrow> (nat \<Rightarrow> u8 list \<Rightarrow> nat) \<Rightarrow> u8 list \<Rightarrow> telnet_t \<Rightarrow> nat \<times> telnet_t" where
  "tn_write is_connected tcp_write buffer t =
     (if \<not> tn_setupdone t \<or> \<not> tn_server t then (0, t)
      else fold (\<lambda>i (wsize, t).
          (case tn_clients t ! i of
             Some c \<Rightarrow> if is_connected c then (tcp_write c buffer, t\<lparr>tn_sent := tn_sent t @ [(c, buffer)]\<rparr>) else (wsize, t)
           | None \<Rightarrow> (wsize, t)))
        [0..<MAX_TELNET_CLIENTS] (0, t))"

text \<open>The first slot with a property.\<close>

definition tn_slot :: "(nat option \<Rightarrow> bool) \<Rightarrow> telnet_t \<Rightarrow> nat option" where
  "tn_slot P t = List.find (\<lambda>i. P (tn_clients t ! i)) [0..<MAX_TELNET_CLIENTS]"

definition tn_handleDisconnect :: "nat \<Rightarrow> telnet_t \<Rightarrow> telnet_t" where
  "tn_handleDisconnect client t =
     (case tn_slot (\<lambda>c. c = Some client) t of
        Some i \<Rightarrow> t\<lparr>tn_clients := (tn_clients t)[i := None]\<rparr>
      | None \<Rightarrow> t)"

definition tn_handleNewClient :: "(nat \<Rightarrow> bool) \<Rightarrow> nat \<Rightarrow> telnet_t \<Rightarrow> telnet_t" where
  "tn_handleNewClient is_connected client t =
     (case tn_slot (\<lambda>c. case c of None \<Rightarrow> True | Some c \<Rightarrow> \<not> is_connected c) t of
        Some i \<Rightarrow> t\<lparr>tn_clients := (tn_clients t)[i := Some client]\<rparr>
      | None \<Rightarrow> t\<lparr>tn_stopped := tn_stopped t @ [client]\<rparr>)"

definition tn_peek :: "telnet_t \<Rightarrow> u8 option" where
  "tn_peek t = (if 0 < tn_RXbufferSize t then Some (tn_RXbuffer t ! unat (tn_RXbufferpos t)) else None)"

definition tn_available :: "telnet_t \<Rightarrow> nat" where
  "tn_available t = unat (tn_RXbufferSize t)"

definition tn_get_rx_buffer_available :: "telnet_t \<Rightarrow> int" where
  "tn_get_rx_buffer_available t = int TELNET_RXBUFFERSIZE - uint (tn_RXbufferSize t)"

definition tn_push_byte :: "u8 \<Rightarrow> telnet_t \<Rightarrow> bool \<times> telnet_t" where
  "tn_push_byte data t =
     (if 1 + unat (tn_RXbufferSize t) \<le> TELNET_RXBUFFERSIZE then
        let current = rx_end TELNET_RXBUFFERSIZE (tn_RXbufferpos t) (tn_RXbufferSize t);
            current = (if TELNET_RXBUFFERSIZE - 1 < current then 0 else current)
        in (True, t\<lparr>tn_RXbuffer := (tn_RXbuffer t)[current := data], tn_RXbufferSize := tn_RXbufferSize t + 1\<rparr>)
      else (False, t))"

definition tn_push :: "u8 list \<Rightarrow> telnet_t \<Rightarrow> bool \<times> telnet_t" where
  "tn_push data t =
     (if length data + unat (tn_RXbufferSize t) \<le> TELNET_RXBUFFERSIZE then
        (True, t\<lparr>tn_RXbuffer := rx_fill TELNET_RXBUFFERSIZE (tn_RXbuffer t)
                    (rx_end TELNET_RXBUFFERSIZE (tn_RXbufferpos t) (tn_RXbufferSize t)) data,
                 tn_RXbufferSize := tn_RXbufferSize t + of_nat (length data)\<rparr>)
      else (False, t))"

definition tn_handleData :: "u8 list \<Rightarrow> telnet_t \<Rightarrow> telnet_t" where
  "tn_handleData data t = snd (tn_push data t)"

definition tn_read :: "telnet_t \<Rightarrow> u8 option \<times> telnet_t" where
  "tn_read t =
     (if 0 < tn_RXbufferSize t then
        let v = tn_RXbuffer t ! unat (tn_RXbufferpos t);
            pos = tn_RXbufferpos t + 1;
            pos = (if TELNET_RXBUFFERSIZE - 1 < unat pos then 0 else pos)
        in (Some v, t\<lparr>tn_RXbufferpos := pos, tn_RXbufferSize := tn_RXbufferSize t - 1\<rparr>)
      else (None, t))"

section \<open>Sending to the clients (report.cpp)\<close>

text \<open>The bytes waiting in the UART and those sent through it.\<close>

record net_t =
  net_serial_in :: "u8 list"
  net_serial_out :: "u8 list"
  net_ws :: s2s_t
  net_telnet :: telnet_t

text \<open>What the libraries answer during a call.\<close>

record net_env =
  env_ws_clients :: nat
  env_clock :: clock
  env_connected :: "nat \<Rightarrow> bool"
  env_tcp_write :: "nat \<Rightarrow> u8 list \<Rightarrow> nat"

definition grbl_send :: "net_env \<Rightarrow> u8 \<Rightarrow> u8 list \<Rightarrow> net_t \<Rightarrow> net_t option" where
  "grbl_send e client text n =
     (case (if client = CLIENT_WEBSOCKET \<or> client = CLIENT_ALL
            then map_option (\<lambda>(_, s). n\<lparr>net_ws := s\<rparr>) (s2s_write (env_ws_clients e) (env_clock e) text (net_ws n))
            else Some n) of None \<Rightarrow> None
      | Some n \<Rightarrow>
          let n = (if client = CLIENT_TELNET \<or> client = CLIENT_ALL
                   then n\<lparr>net_telnet := snd (tn_write (env_connected e) (env_tcp_write e) text (net_telnet n))\<rparr> else n)
          in Some (if client = CLIENT_SERIAL \<or> client = CLIENT_ALL
                   then n\<lparr>net_serial_out := net_serial_out n @ text\<rparr> else n))"

text \<open>Starting the telnet server: the announcement is sent before the server takes anything.\<close>

definition telnet_started :: "u8 list" where
  "telnet_started = map ch ''[MSG:TELNET Started 23]'' @ [13, 10]"

definition tn_begin :: "net_env \<Rightarrow> net_t \<Rightarrow> (bool \<times> net_t) option" where
  "tn_begin e n =
     (let t = tn_end (net_telnet n);
          t = t\<lparr>tn_RXbufferSize := 0, tn_RXbufferpos := 0, tn_port := TELNET_SERVER_PORT, tn_server := True\<rparr>
      in map_option (\<lambda>n. (True, n\<lparr>net_telnet := (net_telnet n)\<lparr>tn_setupdone := True\<rparr>\<rparr>))
           (grbl_send e CLIENT_ALL telnet_started (n\<lparr>net_telnet := t\<rparr>)))"

section \<open>Polling the clients (serial.cpp)\<close>

text \<open>The next byte of the loop of \<^verbatim>\<open>serial_poll_rx\<close>, with its client: the serial port first, then
  the websocket, then telnet.\<close>

definition poll_source :: "net_t \<Rightarrow> ((u8 \<times> u8) \<times> net_t) option" where
  "poll_source n =
     (if net_serial_in n \<noteq> [] then Some ((CLIENT_SERIAL, hd (net_serial_in n)), n\<lparr>net_serial_in := tl (net_serial_in n)\<rparr>)
      else if 0 < s2s_available (net_ws n) then
        (case s2s_read (net_ws n) of (data, s) \<Rightarrow> Some ((CLIENT_WEBSOCKET, the data), n\<lparr>net_ws := s\<rparr>))
      else if 0 < tn_available (net_telnet n) then
        (case tn_read (net_telnet n) of (data, t) \<Rightarrow> Some ((CLIENT_TELNET, the data), n\<lparr>net_telnet := t\<rparr>))
      else None)"

definition net_pending :: "net_t \<Rightarrow> nat" where
  "net_pending n = length (net_serial_in n) + s2s_available (net_ws n) + tn_available (net_telnet n)"

lemma poll_source_less: "poll_source n = Some (b, n') \<Longrightarrow> net_pending n' < net_pending n"
proof -
  have "unat (w - 1) < unat w" if "0 < w" for w :: u16
    using that by (simp add: unat_minus_one word_gt_0 unat_gt_0)
  then show "poll_source n = Some (b, n') \<Longrightarrow> net_pending n' < net_pending n"
    by (auto simp: poll_source_def net_pending_def s2s_available_def tn_available_def s2s_read_def tn_read_def Let_def
        word_gt_0 unat_gt_0 split: if_splits)
qed

function poll_loop :: "net_t \<Rightarrow> machine \<Rightarrow> net_t \<times> machine" where
  "poll_loop n m =
     (case poll_source n of
        None \<Rightarrow> (n, m)
      | Some (byte, n) \<Rightarrow> poll_loop n (serial_rx_byte byte m))"
  by pat_completeness auto
termination
  by (relation "measure (net_pending \<circ> fst)") (auto dest: poll_source_less)

declare poll_loop.simps [simp del]

text \<open>The whole task: the websocket is flushed at its end.\<close>

definition serial_poll_task :: "net_env \<Rightarrow> net_t \<Rightarrow> machine \<Rightarrow> net_t \<times> machine" where
  "serial_poll_task e n m =
     (let (n, m) = poll_loop n m
      in (n\<lparr>net_ws := s2s_handle_flush (env_ws_clients e) (env_clock e) (net_ws n)\<rparr>, m))"

section \<open>Starting the network (wifi.cpp)\<close>

text \<open>The readings of \<^verbatim>\<open>WiFi.status() == WL_CONNECTED\<close> are an argument, and the text of the address.
  The wait has no limit: while nothing is connected the start-up does not end.\<close>

fun wifi_wait :: "bool list \<Rightarrow> bool list option" where
  "wifi_wait [] = None"
| "wifi_wait (up # rest) = (if up then Some rest else wifi_wait rest)"

definition websocket_init :: "net_t \<Rightarrow> net_t" where
  "websocket_init n = n\<lparr>net_ws := snd (s2s_attachWS True (net_ws n))\<rparr>"

definition wifi_init :: "net_env \<Rightarrow> bool list \<Rightarrow> u8 list \<Rightarrow> net_t \<Rightarrow> net_t option" where
  "wifi_init e statuses ip n =
     (case wifi_wait statuses of None \<Rightarrow> None
      | Some _ \<Rightarrow>
          let n = n\<lparr>net_serial_out := net_serial_out n @ [10] @ map ch ''[Connected: '' @ ip @ map ch '']'' @ [13, 10]\<rparr>
          in map_option (\<lambda>(_, n). websocket_init n) (tn_begin e n))"

end
