(* ===== verification/Report_Text.thy ===== *)
theory Report_Text
  imports Print Net_Buffers System_Exec
begin

text \<open>
  The texts of \<^verbatim>\<open>report.cpp\<close>. The functions that call a report record which report they make
  (\<^typ>\<open>outmsg\<close>); here is what each one formats and hands to \<^verbatim>\<open>grbl_send\<close>, as a list of texts with
  the client they are for. \<open>None\<close> is a text that does not fit the character array the code
  builds it in: \<^verbatim>\<open>sprintf\<close> and \<^verbatim>\<open>strcat\<close> then write behind its end. An allocation of
  \<^verbatim>\<open>grbl_sendf\<close> is taken to succeed.
\<close>

section \<open>Formatting (\<open>sprintf\<close>)\<close>

definition chars :: "string \<Rightarrow> u8 list" where
  "chars s = map ch s"

definition eol :: "u8 list" where
  "eol = [13, 10]"

fun dec_nat :: "nat \<Rightarrow> u8 list" where
  "dec_nat n = (if n < 10 then [] else dec_nat (n div 10)) @ [48 + of_nat (n mod 10)]"

declare dec_nat.simps [simp del]

definition sign_text :: "bool \<Rightarrow> u8 list" where
  "sign_text neg = (if neg then [45] else [])"

text \<open>\<^verbatim>\<open>%d\<close>\<close>

definition fmt_d :: "int \<Rightarrow> u8 list" where
  "fmt_d i = sign_text (i < 0) @ dec_nat (nat \<bar>i\<bar>)"

text \<open>\<^verbatim>\<open>%w.pf\<close>: the value with \<open>p\<close> decimals, correctly rounded, behind blanks up to the width \<open>w\<close>.
  A \<^verbatim>\<open>float\<close> argument is promoted, which keeps its value.\<close>

definition pad_left :: "nat \<Rightarrow> u8 \<Rightarrow> u8 list \<Rightarrow> u8 list" where
  "pad_left w c t = replicate (w - length t) c @ t"

definition scaled :: "nat \<Rightarrow> rat \<Rightarrow> nat" where
  "scaled p q = (case quotient_of q of (a, b) \<Rightarrow> rne (nat \<bar>a\<bar> * 10 ^ p) (nat b))"

definition fixed_text :: "nat \<Rightarrow> nat \<Rightarrow> u8 list" where
  "fixed_text p n = dec_nat (n div 10 ^ p) @ (if p = 0 then [] else 46 # pad_left p 48 (dec_nat (n mod 10 ^ p)))"

fun fmt_f :: "nat \<Rightarrow> nat \<Rightarrow> fpd \<Rightarrow> u8 list" where
  "fmt_f w p (s, Fin q) = pad_left w 32 (sign_text s @ fixed_text p (scaled p q))"
| "fmt_f w p (s, Infty) = pad_left w 32 (sign_text s @ chars ''inf'')"
| "fmt_f w p (s, NotNum) = pad_left w 32 (sign_text s @ chars ''nan'')"

section \<open>Character arrays\<close>

text \<open>A string with its terminator in an array of \<open>n\<close> characters, and \<^verbatim>\<open>strcat\<close> behind it.\<close>

definition fits :: "nat \<Rightarrow> u8 list \<Rightarrow> u8 list option" where
  "fits n t = (if length t < n then Some t else None)"

definition strcat :: "nat \<Rightarrow> u8 list \<Rightarrow> u8 list \<Rightarrow> u8 list option" where
  "strcat n t rpt = fits n (rpt @ t)"

text \<open>\<^verbatim>\<open>sprintf(temp, ...); strcat(rpt, temp)\<close>, with arrays of \<open>k\<close> and \<open>n\<close> characters.\<close>

definition sprintf_cat :: "nat \<Rightarrow> nat \<Rightarrow> u8 list \<Rightarrow> u8 list \<Rightarrow> u8 list option" where
  "sprintf_cat k n t rpt = do { temp \<leftarrow> fits k t; strcat n temp rpt }"

primrec sprintf_cat_all :: "nat \<Rightarrow> nat \<Rightarrow> u8 list list \<Rightarrow> u8 list \<Rightarrow> u8 list option" where
  "sprintf_cat_all k n [] rpt = Some rpt"
| "sprintf_cat_all k n (t # ts) rpt = do { rpt \<leftarrow> sprintf_cat k n t rpt; sprintf_cat_all k n ts rpt }"

section \<open>Axis values\<close>

definition report_inches :: "machine \<Rightarrow> bool" where
  "report_inches m = bit_istrue (flags (settings m)) BITFLAG_REPORT_INCHES"

definition unit_conv :: "bool \<Rightarrow> f32" where
  "unit_conv inches =
     (if inches then f32_of_f64 (f64_div (f64_of_rat 1) (f64_of_rat (254 / 10))) else f32_of_rat 1)"

definition axis_text :: "bool \<Rightarrow> f32 \<Rightarrow> u8 list" where
  "axis_text inches x = fmt_f 4 (if inches then 4 else 3) (f32_dec (f32_mul x (unit_conv inches)))"

text \<open>\<open>n\<close> is the size of the caller's array.\<close>

primrec axis_values_loop :: "nat \<Rightarrow> bool \<Rightarrow> f32 list \<Rightarrow> nat list \<Rightarrow> u8 list \<Rightarrow> u8 list option" where
  "axis_values_loop n inches axis_value [] rpt = Some rpt"
| "axis_values_loop n inches axis_value (idx # rest) rpt =
     do { rpt \<leftarrow> sprintf_cat 10 n (axis_text inches (axis_value ! idx)) rpt;
          rpt \<leftarrow> (if idx < N_AXIS - 1 then strcat n [44] rpt else Some rpt);
          axis_values_loop n inches axis_value rest rpt }"

definition report_util_axis_values :: "nat \<Rightarrow> f32 list \<Rightarrow> machine \<Rightarrow> u8 list option" where
  "report_util_axis_values n axis_value m =
     axis_values_loop n (report_inches m) axis_value [0..<N_AXIS] []"

section \<open>Answers, alarms and messages\<close>

type_synonym sends = "(u8 \<times> u8 list) list"

definition text_status_message :: "u8 \<Rightarrow> u8 \<Rightarrow> sends" where
  "text_status_message status_code client =
     [(client, if status_code = STATUS_OK then chars ''ok'' @ eol
               else chars ''error:'' @ fmt_d (uint status_code) @ eol)]"

definition text_alarm_message :: "u8 \<Rightarrow> sends" where
  "text_alarm_message alarm_code = [(CLIENT_ALL, chars ''ALARM:'' @ fmt_d (uint alarm_code) @ eol)]"

abbreviation (input) MSG_LEVEL_INFO :: u8 where "MSG_LEVEL_INFO \<equiv> 3"
abbreviation (input) GRBL_MSG_LEVEL :: u8 where "GRBL_MSG_LEVEL \<equiv> MSG_LEVEL_INFO"

definition grbl_msg_sendf :: "u8 \<Rightarrow> u8 \<Rightarrow> u8 list \<Rightarrow> sends" where
  "grbl_msg_sendf client level text =
     (if GRBL_MSG_LEVEL < level then [] else [(client, chars ''[MSG:'' @ text @ chars '']'' @ eol)])"

definition text_feedback_message :: "u8 \<Rightarrow> sends" where
  "text_feedback_message message_code =
     (let msg = (\<lambda>s. grbl_msg_sendf CLIENT_SERIAL MSG_LEVEL_INFO (chars s)) in
      if message_code = MESSAGE_CRITICAL_EVENT then msg ''Reset to continue''
      else if message_code = MESSAGE_ALARM_LOCK then
        grbl_msg_sendf CLIENT_SERIAL MSG_LEVEL_INFO ([39] @ chars ''$H'' @ [39, 124, 39] @ chars ''$X'' @ [39] @ chars '' to unlock'')
      else if message_code = MESSAGE_ALARM_UNLOCK then msg ''Caution: Unlocked''
      else if message_code = MESSAGE_ENABLED then msg ''Enabled''
      else if message_code = MESSAGE_DISABLED then msg ''Disabled''
      else if message_code = MESSAGE_SAFETY_DOOR_AJAR then msg ''Check door''
      else if message_code = MESSAGE_CHECK_LIMITS then msg ''Check limits''
      else if message_code = MESSAGE_PROGRAM_END then msg ''Program End''
      else if message_code = MESSAGE_RESTORE_DEFAULTS then msg ''Restoring defaults''
      else if message_code = MESSAGE_SPINDLE_RESTORE then msg ''Restoring spindle''
      else if message_code = MESSAGE_SLEEP_MODE then msg ''Sleeping''
      else [])"

definition text_init_message :: "u8 \<Rightarrow> sends" where
  "text_init_message client = [(client, eol @ chars ''Grbl 1.1g ['' @ [39] @ chars ''$'' @ [39] @ chars '' for help]'' @ eol)]"

definition text_grbl_help :: "u8 \<Rightarrow> sends" where
  "text_grbl_help client =
     [(client, chars ''[HLP:$$ $+ $# $G $I $N $x=val $Nx=line $J=line $SLP $C $X $H ~ ! ? ctrl-x]'' @ eol)]"

text \<open>A line is sent up to its terminator.\<close>

definition text_startup_line :: "u8 \<Rightarrow> line \<Rightarrow> u8 \<Rightarrow> sends" where
  "text_startup_line n line client = [(client, chars ''$N'' @ fmt_d (uint n) @ chars ''='' @ c_string line @ eol)]"

definition text_execute_startup_message :: "line \<Rightarrow> u8 \<Rightarrow> u8 \<Rightarrow> sends" where
  "text_execute_startup_message line status_code client =
     (client, chars ''>'' @ c_string line @ chars '':'') # text_status_message status_code client"

definition text_echo_line_received :: "line \<Rightarrow> u8 \<Rightarrow> sends" where
  "text_echo_line_received line client = [(client, chars ''[echo: '' @ c_string line @ chars '']'' @ eol)]"

text \<open>Of the options \<^verbatim>\<open>VARIABLE_SPINDLE\<close> and \<^verbatim>\<open>ENABLE_WIFI\<close> are shown.\<close>

definition text_build_info :: "line \<Rightarrow> u8 \<Rightarrow> sends option" where
  "text_build_info line client =
     do { build_info \<leftarrow> fits 50 (chars ''[VER:1.1g.20181112:'');
          build_info \<leftarrow> strcat 50 (c_string line) build_info;
          build_info \<leftarrow> strcat 50 (chars '']'' @ eol @ chars ''[OPT:'') build_info;
          build_info \<leftarrow> strcat 50 (chars ''V'') build_info;
          build_info \<leftarrow> strcat 50 (chars ''W'') build_info;
          build_info \<leftarrow> strcat 50 (chars '']'' @ eol) build_info;
          Some [(client, build_info)] }"

section \<open>Settings\<close>

definition setting_d :: "int \<Rightarrow> int \<Rightarrow> u8 list" where
  "setting_d k v = chars ''$'' @ fmt_d k @ chars ''='' @ fmt_d v @ eol"

definition setting_f :: "int \<Rightarrow> f32 \<Rightarrow> u8 list" where
  "setting_f k x = chars ''$'' @ fmt_d k @ chars ''='' @ fmt_f 4 3 (f32_dec x) @ eol"

definition flag_value :: "u8 \<Rightarrow> settings_t \<Rightarrow> int" where
  "flag_value b s = (if bit_istrue (flags s) b then 1 else 0)"

definition general_lines :: "settings_t \<Rightarrow> u8 list list" where
  "general_lines s =
     [setting_d 0 (uint (pulse_microseconds s)),
      setting_d 1 (uint (stepper_idle_lock_time s)),
      setting_d 2 (uint (step_invert_mask s)),
      setting_d 3 (uint (dir_invert_mask s)),
      setting_d 4 (flag_value BITFLAG_INVERT_ST_ENABLE s),
      setting_d 5 (flag_value BITFLAG_INVERT_LIMIT_PINS s),
      setting_d 6 (flag_value BITFLAG_INVERT_PROBE_PIN s),
      setting_d 10 (uint (status_report_mask s)),
      setting_f 11 (junction_deviation s),
      setting_f 12 (arc_tolerance s),
      setting_d 13 (flag_value BITFLAG_REPORT_INCHES s),
      setting_d 20 (flag_value BITFLAG_SOFT_LIMIT_ENABLE s),
      setting_d 21 (flag_value BITFLAG_HARD_LIMIT_ENABLE s),
      setting_d 22 (flag_value BITFLAG_HOMING_ENABLE s),
      setting_d 23 (uint (homing_dir_mask s)),
      setting_f 24 (homing_feed_rate s),
      setting_f 25 (homing_seek_rate s),
      setting_d 26 (uint (homing_debounce_delay s)),
      setting_f 27 (homing_pulloff s),
      setting_f 30 (rpm_max s),
      setting_f 31 (rpm_min s),
      setting_d 32 (flag_value BITFLAG_LASER_MODE s)]"

definition axis_setting_value :: "nat \<Rightarrow> nat \<Rightarrow> settings_t \<Rightarrow> f32" where
  "axis_setting_value set_idx idx s =
     (if set_idx = 0 then steps_per_mm s ! idx
      else if set_idx = 1 then max_rate s ! idx
      else if set_idx = 2 then f32_div (acceleration s ! idx) (f32_of_int (60 * 60))
      else f32_neg (max_travel s ! idx))"

definition axis_lines :: "settings_t \<Rightarrow> u8 list list" where
  "axis_lines s =
     concat (map (\<lambda>set_idx. map (\<lambda>idx.
         setting_f (int (AXIS_SETTINGS_START_VAL + AXIS_SETTINGS_INCREMENT * set_idx + idx)) (axis_setting_value set_idx idx s))
       [0..<N_AXIS]) [0..<AXIS_N_SETTINGS])"

definition text_grbl_settings :: "u8 \<Rightarrow> settings_t \<Rightarrow> sends option" where
  "text_grbl_settings client s =
     do { rpt \<leftarrow> sprintf_cat_all 20 1000 (general_lines s) [];
          rpt \<leftarrow> sprintf_cat_all 20 1000 (axis_lines s) rpt;
          Some [(client, rpt)] }"

section \<open>Parameters and modes\<close>

definition text_probe_parameters :: "u8 \<Rightarrow> machine \<Rightarrow> sends option" where
  "text_probe_parameters client m =
     do { probe_rpt \<leftarrow> fits 120 (chars ''[PRB:'');
          temp \<leftarrow> report_util_axis_values 60 (system_convert_array_steps_to_mpos (sys_probe_position m) m) m;
          probe_rpt \<leftarrow> strcat 120 temp probe_rpt;
          probe_rpt \<leftarrow> sprintf_cat 60 120
             (chars '':'' @ fmt_d (if sys_probe_succeeded (sys m) then 1 else 0) @ chars '']'' @ eol) probe_rpt;
          Some [(client, probe_rpt)] }"

text \<open>The coordinate systems are read from the store one by one; \<open>Inl\<close> is a failed read, which
  ends the report with an error.\<close>

definition ngc_coord_name :: "nat \<Rightarrow> u8 list" where
  "ngc_coord_name coord_select =
     (if coord_select = 6 then chars ''28'' else if coord_select = 7 then chars ''30''
      else fmt_d (int coord_select + 54))"

definition ngc_coord :: "nat \<Rightarrow> f32 list \<Rightarrow> machine \<Rightarrow> u8 list \<Rightarrow> u8 list option" where
  "ngc_coord coord_select coord_data m ngc_rpt =
     do { ngc_rpt \<leftarrow> strcat 1000 (chars ''[G'') ngc_rpt;
          ngc_rpt \<leftarrow> sprintf_cat 100 1000 (ngc_coord_name coord_select) ngc_rpt;
          ngc_rpt \<leftarrow> strcat 1000 (chars '':'') ngc_rpt;
          temp \<leftarrow> report_util_axis_values 100 coord_data m;
          ngc_rpt \<leftarrow> strcat 1000 temp ngc_rpt;
          strcat 1000 (chars '']'' @ eol) ngc_rpt }"

primrec ngc_coords :: "nat list \<Rightarrow> machine \<Rightarrow> u8 list \<Rightarrow> (unit + u8 list) option" where
  "ngc_coords [] m ngc_rpt = Some (Inr ngc_rpt)"
| "ngc_coords (coord_select # rest) m ngc_rpt =
     (case settings_read_coord_data (of_nat coord_select) m of None \<Rightarrow> None
      | Some (ok, coord_data, m) \<Rightarrow>
          if \<not> ok then Some (Inl ())
          else do { ngc_rpt \<leftarrow> ngc_coord coord_select coord_data m ngc_rpt; ngc_coords rest m ngc_rpt })"

definition tool_length_text :: "machine \<Rightarrow> u8 list" where
  "tool_length_text m =
     (let x = gs_tool_length_offset (gc_state m) in
      fmt_f 4 3 (if report_inches m then f64_dec (f64_mul (f64_of_f32 x) (f64_of_rat INCH_PER_MM)) else f32_dec x)
        @ chars '']'' @ eol)"

definition text_ngc_parameters :: "u8 \<Rightarrow> machine \<Rightarrow> sends option" where
  "text_ngc_parameters client m =
     do { r \<leftarrow> ngc_coords [0..<SETTING_INDEX_NCOORD + 1] m [];
          (case r of
             Inl _ \<Rightarrow> Some (text_status_message STATUS_SETTING_READ_FAIL client)
           | Inr ngc_rpt \<Rightarrow>
               do { ngc_rpt \<leftarrow> strcat 1000 (chars ''[G92:'') ngc_rpt;
                    temp \<leftarrow> report_util_axis_values 100 (gs_coord_offset (gc_state m)) m;
                    ngc_rpt \<leftarrow> strcat 1000 temp ngc_rpt;
                    ngc_rpt \<leftarrow> strcat 1000 (chars '']'' @ eol) ngc_rpt;
                    ngc_rpt \<leftarrow> strcat 1000 (chars ''[TLO:'') ngc_rpt;
                    ngc_rpt \<leftarrow> sprintf_cat 100 1000 (tool_length_text m) ngc_rpt;
                    probe \<leftarrow> text_probe_parameters client m;
                    Some ((client, ngc_rpt) # probe) }) }"

text \<open>The words of \<^verbatim>\<open>$G\<close>. The feed rate has a decimal when reporting in inches.\<close>

definition mode_texts :: "machine \<Rightarrow> u8 list list" where
  "mode_texts m =
     (let gs = gc_state m; gm = gs_modal gs in
      [if MOTION_MODE_PROBE_TOWARD \<le> gm_motion gm
       then chars ''38.'' @ fmt_d (uint (gm_motion gm) - (uint MOTION_MODE_PROBE_TOWARD - 2))
       else fmt_d (uint (gm_motion gm)),
       chars '' G'' @ fmt_d (uint (gm_coord_select gm) + 54),
       chars '' G'' @ fmt_d (uint (gm_plane_select gm) + 17),
       chars '' G'' @ fmt_d (21 - uint (gm_units gm)),
       chars '' G'' @ fmt_d (uint (gm_distance gm) + 90),
       chars '' G'' @ fmt_d (94 - uint (gm_feed_rate gm))])"

definition flow_text :: "u8 \<Rightarrow> u8 list" where
  "flow_text program_flow =
     (if program_flow = PROGRAM_FLOW_PAUSED then chars '' M0''
      else if program_flow = PROGRAM_FLOW_COMPLETED_M2 \<or> program_flow = PROGRAM_FLOW_COMPLETED_M30
      then chars '' M'' @ fmt_d (uint program_flow) else [])"

definition spindle_text :: "u8 \<Rightarrow> u8 list" where
  "spindle_text spindle =
     (if spindle = SPINDLE_ENABLE_CW then chars '' M3'' else if spindle = SPINDLE_ENABLE_CCW then chars '' M4''
      else if spindle = SPINDLE_DISABLE then chars '' M5'' else [])"

definition value_texts :: "machine \<Rightarrow> u8 list list" where
  "value_texts m =
     (let gs = gc_state m in
      [chars '' T'' @ fmt_d (uint (gs_tool gs)),
       chars '' F'' @ fmt_f 0 (if report_inches m then 1 else 0) (f32_dec (gs_feed_rate gs)),
       chars '' S'' @ fmt_f 4 3 (f32_dec (gs_spindle_speed gs))])"

definition text_gcode_modes :: "u8 \<Rightarrow> machine \<Rightarrow> sends option" where
  "text_gcode_modes client m =
     (let gm = gs_modal (gc_state m) in
      do { modes_rpt \<leftarrow> fits 75 (chars ''[GC:G'');
           modes_rpt \<leftarrow> sprintf_cat_all 20 75 (mode_texts m) modes_rpt;
           modes_rpt \<leftarrow> sprintf_cat 20 75 (flow_text (gm_program_flow gm)) modes_rpt;
           modes_rpt \<leftarrow> strcat 75 (spindle_text (gm_spindle gm)) modes_rpt;
           modes_rpt \<leftarrow> strcat 75 (if gm_coolant gm \<noteq> 0 then chars '' M8'' else chars '' M9'') modes_rpt;
           modes_rpt \<leftarrow> sprintf_cat_all 20 75 (value_texts m) modes_rpt;
           modes_rpt \<leftarrow> strcat 75 (chars '']'' @ eol) modes_rpt;
           Some [(client, modes_rpt)] })"

section \<open>The status report\<close>

text \<open>The work offset of each axis, and the position shown: machine or work position.\<close>

definition shows_mpos :: "machine \<Rightarrow> bool" where
  "shows_mpos m = bit_istrue (status_report_mask (settings m)) BITFLAG_RT_STATUS_POSITION_TYPE"

definition work_offset :: "machine \<Rightarrow> nat \<Rightarrow> f32" where
  "work_offset m idx =
     (let gs = gc_state m; wco = f32_add (gs_coord_system gs ! idx) (gs_coord_offset gs ! idx)
      in if idx = TOOL_LENGTH_OFFSET_AXIS then f32_add wco (gs_tool_length_offset gs) else wco)"

definition shown_position :: "machine \<Rightarrow> f32 list" where
  "shown_position m =
     (let mpos = system_convert_array_steps_to_mpos (sys_position m) m
      in if shows_mpos m then mpos else map (\<lambda>idx. f32_sub (mpos ! idx) (work_offset m idx)) [0..<N_AXIS])"

text \<open>The free places of the receive buffer: those of telnet are counted by its server.\<close>

definition buffer_text :: "u8 \<Rightarrow> telnet_t \<Rightarrow> machine \<Rightarrow> u8 list" where
  "buffer_text client t m =
     (let bufsize = (if client = CLIENT_TELNET then tn_get_rx_buffer_available t
                     else uint (serial_get_rx_buffer_available client m))
      in chars ''|Bf:'' @ fmt_d (uint (plan_get_block_buffer_available m)) @ [44] @ fmt_d bufsize)"

definition speed_text :: "machine \<Rightarrow> u8 list" where
  "speed_text m =
     (let rate = f32_dec (st_get_realtime_rate m); speed = sys_spindle_speed (sys m) in
      if report_inches m
      then chars ''|FS:'' @ fmt_f 0 1 rate @ [44] @ fmt_f 0 0 (f64_dec (f64_div (f64_of_f32 speed) (f64_of_rat (254 / 10))))
      else chars ''|FS:'' @ fmt_f 0 0 rate @ [44] @ fmt_f 0 0 (f32_dec speed))"

definition pin_text :: "machine \<Rightarrow> u8 list" where
  "pin_text m =
     (let lim = limits_get_state m; ctrl = system_control_get_state m; prb = probe_get_state m;
          shown = (\<lambda>on t. if on then chars t else []) in
      if lim OR ctrl OR prb \<noteq> 0 then
        chars ''|Pn:'' @ shown (prb \<noteq> 0) ''P'' @
        (if lim \<noteq> 0 then
           shown (bit_istrue lim (push_bit X_AXIS 1)) ''X'' @ shown (bit_istrue lim (push_bit Y_AXIS 1)) ''Y'' @
           shown (bit_istrue lim (push_bit Z_AXIS 1)) ''Z'' @ shown (bit_istrue lim (push_bit A_AXIS 1)) ''A'' @
           shown (bit_istrue lim (push_bit B_AXIS 1)) ''B'' @ shown (bit_istrue lim (push_bit C_AXIS 1)) ''C'' @
           shown (bit_istrue lim (push_bit D_AXIS 1)) ''D'' @ shown (bit_istrue lim (push_bit E_AXIS 1)) ''E''
         else []) @
        (if ctrl \<noteq> 0 then
           shown (bit_istrue ctrl CONTROL_PIN_INDEX_RESET) ''R'' @ shown (bit_istrue ctrl CONTROL_PIN_INDEX_FEED_HOLD) ''H'' @
           shown (bit_istrue ctrl CONTROL_PIN_INDEX_CYCLE_START) ''S''
         else [])
      else [])"

text \<open>The overrides, and the accessories that are on.\<close>

definition override_text :: "machine \<Rightarrow> u8 list" where
  "override_text m =
     chars ''|Ov:'' @ fmt_d (uint (sys_f_override (sys m))) @ [44] @ fmt_d (uint (sys_r_override (sys m))) @ [44]
       @ fmt_d (uint (sys_spindle_speed_ovr (sys m)))"

definition accessory_text :: "machine \<Rightarrow> u8 list" where
  "accessory_text m =
     (let sp_state = spindle_get_state m; cl_state = coolant_get_state m in
      if sp_state \<noteq> 0 \<or> cl_state \<noteq> 0 then
        chars ''|A:'' @
        (if sp_state \<noteq> 0 then (if sp_state = SPINDLE_STATE_CW then chars ''S'' else chars ''C'') else []) @
        (if cl_state AND COOLANT_STATE_FLOOD \<noteq> 0 then chars ''F'' else [])
      else [])"

text \<open>The counters as the report finds them decide whether it ends with the work offset or, once
  this is done, with the overrides; \<open>report_counters\<close> is how it leaves them.\<close>

definition shows_wco :: "machine \<Rightarrow> bool" where
  "shows_wco m \<longleftrightarrow> sys_report_wco_counter (sys m) = 0"

definition shows_overrides :: "machine \<Rightarrow> bool" where
  "shows_overrides m \<longleftrightarrow> \<not> shows_wco m \<and> sys_report_ovr_counter (sys m) = 0"

definition text_realtime_status :: "u8 \<Rightarrow> telnet_t \<Rightarrow> machine \<Rightarrow> sends option" where
  "text_realtime_status client t m =
     do { status \<leftarrow> fits 200 (chars ''<'');
          status \<leftarrow> strcat 200 (chars (report_state_name (sys m))) status;
          status \<leftarrow> strcat 200 (if shows_mpos m then chars ''|MPos:'' else chars ''|WPos:'') status;
          temp \<leftarrow> report_util_axis_values 80 (shown_position m) m;
          status \<leftarrow> strcat 200 temp status;
          status \<leftarrow> (if bit_istrue (status_report_mask (settings m)) BITFLAG_RT_STATUS_BUFFER_STATE
                    then sprintf_cat 80 200 (buffer_text client t m) status else Some status);
          status \<leftarrow> sprintf_cat 80 200 (speed_text m) status;
          status \<leftarrow> strcat 200 (pin_text m) status;
          status \<leftarrow> (if shows_wco m then
                      do { status \<leftarrow> strcat 200 (chars ''|WCO:'') status;
                           temp \<leftarrow> report_util_axis_values 80 (map (work_offset m) [0..<N_AXIS]) m;
                           strcat 200 temp status }
                    else Some status);
          status \<leftarrow> (if shows_overrides m then
                      do { status \<leftarrow> sprintf_cat 80 200 (override_text m) status; strcat 200 (accessory_text m) status }
                    else Some status);
          status \<leftarrow> strcat 200 (chars ''>'' @ eol) status;
          Some [(client, status)] }"

section \<open>Sending a report\<close>

text \<open>What a report sends on a machine as it is when the report is made. A startup line that was
  read and its status are two texts. The other records are no text of \<^verbatim>\<open>report.cpp\<close>.\<close>

fun text_of :: "telnet_t \<Rightarrow> outmsg \<Rightarrow> machine \<Rightarrow> sends option" where
  "text_of t (Status_message code client) m = Some (text_status_message code client)"
| "text_of t (Alarm_message code) m = Some (text_alarm_message code)"
| "text_of t (Feedback_message code) m = Some (text_feedback_message code)"
| "text_of t (Init_message client) m = Some (text_init_message client)"
| "text_of t (Grbl_help client) m = Some (text_grbl_help client)"
| "text_of t (Grbl_settings client) m = text_grbl_settings client (settings m)"
| "text_of t (Realtime_status client _) m = text_realtime_status client t m"
| "text_of t (Probe_parameters client) m = text_probe_parameters client m"
| "text_of t (Ngc_parameters client) m = text_ngc_parameters client m"
| "text_of t (Gcode_modes client) m = text_gcode_modes client m"
| "text_of t (Startup_line n line client) m = Some (text_startup_line n line client)"
| "text_of t (Execute_startup_message line code client) m = Some (text_execute_startup_message line code client)"
| "text_of t (Build_info line client) m = text_build_info line client"
| "text_of t _ m = Some []"

primrec send_all :: "net_env \<Rightarrow> sends \<Rightarrow> net_t \<Rightarrow> net_t option" where
  "send_all e [] n = Some n"
| "send_all e (s # rest) n = do { n \<leftarrow> grbl_send e (fst s) (snd s) n; send_all e rest n }"

definition send_report :: "net_env \<Rightarrow> outmsg \<Rightarrow> machine \<Rightarrow> net_t \<Rightarrow> net_t option" where
  "send_report e r m n = do { sends \<leftarrow> text_of (net_telnet n) r m; send_all e sends n }"

end
