(* ===== verification/Report_Facts.thy ===== *)
theory Report_Facts
  imports Report_Text Gcode_Facts
begin

text \<open>
  Facts about the texts of the reports: how long a formatted number is, that it is read back by
  \<^verbatim>\<open>read_float\<close>, which reports fit the character arrays they are built in and which do not.
\<close>

section \<open>Decimal digits\<close>

lemma dec_nat_value [simp]: "dec_value (digits_of (dec_nat n)) = n"
proof (induction n rule: dec_nat.induct)
  case (1 n)
  have "unat (of_nat (n mod 10) :: u8) = n mod 10" by (simp add: unat_of_nat take_bit_eq_mod)
  moreover have "digits_of (xs @ [48 + d]) = digits_of xs @ [d]" for xs d by (simp add: digits_of_def)
  ultimately show ?case using 1
    by (subst dec_nat.simps) (simp add: digits_of_def)
qed

lemma dec_nat_digit: "c \<in> set (dec_nat n) \<Longrightarrow> is_digit c"
proof (induction n rule: dec_nat.induct)
  case (1 n)
  have "of_nat (n mod 10) \<le> (9 :: u8)" by (simp add: word_le_nat_alt unat_of_nat take_bit_eq_mod)
  then show ?case using 1 by (subst (asm) dec_nat.simps) (auto simp: is_digit_def split: if_splits)
qed

lemma dec_nat_not_Nil [simp]: "dec_nat n \<noteq> []"
  by (subst dec_nat.simps) simp

lemma dec_nat_length: "n < 10 ^ Suc k \<Longrightarrow> length (dec_nat n) \<le> Suc k"
proof (induction k arbitrary: n)
  case (Suc k)
  then have "n div 10 < 10 ^ Suc k" by (simp add: less_mult_imp_div_less mult.commute)
  then show ?case using Suc.IH by (subst dec_nat.simps) simp
qed (subst dec_nat.simps, simp)

lemma dec_nat_long: "10 ^ k \<le> n \<Longrightarrow> k < length (dec_nat n)"
proof (induction k arbitrary: n)
  case (Suc k)
  then have "10 ^ k \<le> n div 10" by (simp add: less_eq_div_iff_mult_less_eq mult.commute)
  moreover have "\<not> n < 10"
    using Suc.prems order_trans [of 10 "10 ^ Suc k" n] by (simp add: not_less)
  ultimately show ?case using Suc.IH by (subst dec_nat.simps) simp
qed simp

lemma fmt_d_length: "\<bar>i\<bar> < 10 ^ Suc k \<Longrightarrow> length (fmt_d i) \<le> Suc k + (if i < 0 then 1 else 0)"
proof -
  assume "\<bar>i\<bar> < 10 ^ Suc k"
  then have "nat \<bar>i\<bar> < 10 ^ Suc k" by (simp add: nat_less_iff del: power_Suc)
  from dec_nat_length [OF this] show ?thesis by (cases "i < 0") (simp_all add: fmt_d_def sign_text_def)
qed

section \<open>Formatted floating point numbers\<close>

lemma rne_le:
  assumes "x \<le> n * b" "0 < b"
  shows "rne x b \<le> n"
proof (cases "x div b = n")
  case True
  then have "x mod b = 0" using assms by (metis div_mult_mod_eq le_add_same_cancel1 mult_le_mono1 le_antisym nat_le_iff_add add_diff_cancel_left' diff_is_0_eq)
  then show ?thesis using True assms(2) by (simp add: rne_def)
next
  case False
  have "x div b \<le> n" using div_le_mono [OF assms(1), of b] assms(2) by simp
  then show ?thesis using False by (simp add: rne_def Let_def)
qed

lemma rne_ge: "n * b \<le> x \<Longrightarrow> 0 < b \<Longrightarrow> n \<le> rne x b"
  using div_le_mono [of "n * b" x b] by (simp add: rne_def Let_def)

lemma scaled_le: "\<bar>q\<bar> \<le> of_nat n \<Longrightarrow> scaled p q \<le> n * 10 ^ p"
proof -
  assume a: "\<bar>q\<bar> \<le> of_nat n"
  obtain x y where q: "quotient_of q = (x, y)" by (cases "quotient_of q")
  then have y: "0 < y" "q = of_int x / of_int y" using quotient_of_denom_pos quotient_of_div by auto
  have "of_int \<bar>x\<bar> \<le> (of_int (int n * y) :: rat)" using a y by (simp add: abs_div pos_divide_le_eq)
  then have "\<bar>x\<bar> \<le> int n * y" by linarith
  then have "nat \<bar>x\<bar> \<le> n * nat y" using y(1) by (simp add: nat_le_iff)
  then have "nat \<bar>x\<bar> * 10 ^ p \<le> n * 10 ^ p * nat y" by (simp add: mult.commute mult.left_commute)
  then show ?thesis using rne_le [of _ "n * 10 ^ p" "nat y"] y(1) q by (simp add: scaled_def)
qed

lemma scaled_ge: "of_nat n \<le> \<bar>q\<bar> \<Longrightarrow> n * 10 ^ p \<le> scaled p q"
proof -
  assume a: "of_nat n \<le> \<bar>q\<bar>"
  obtain x y where q: "quotient_of q = (x, y)" by (cases "quotient_of q")
  then have y: "0 < y" "q = of_int x / of_int y" using quotient_of_denom_pos quotient_of_div by auto
  have "(of_int (int n * y) :: rat) \<le> of_int \<bar>x\<bar>" using a y by (simp add: abs_div pos_le_divide_eq)
  then have "int n * y \<le> \<bar>x\<bar>" by linarith
  then have "n * nat y \<le> nat \<bar>x\<bar>" using y(1) by (simp add: le_nat_iff)
  then have "n * 10 ^ p * nat y \<le> nat \<bar>x\<bar> * 10 ^ p" by (simp add: mult.commute mult.left_commute)
  then show ?thesis using rne_ge [of "n * 10 ^ p" "nat y"] y(1) q by (simp add: scaled_def)
qed

lemma pad_left_length [simp]: "length (pad_left w c t) = max w (length t)"
  by (simp add: pad_left_def)

lemma fixed_text_length:
  assumes "n < 10 ^ (Suc k + p)"
  shows "length (fixed_text p n) \<le> Suc k + (if p = 0 then 0 else p + 1)"
proof -
  have "n div 10 ^ p < 10 ^ Suc k" using assms by (simp add: less_mult_imp_div_less power_add)
  note d = dec_nat_length [OF this]
  have "length (dec_nat (n mod 10 ^ p)) \<le> p" if "p \<noteq> 0"
  proof -
    obtain j where "p = Suc j" using \<open>p \<noteq> 0\<close> by (cases p) auto
    then show ?thesis using dec_nat_length [of "n mod 10 ^ p" j] by simp
  qed
  then show ?thesis using d by (cases "p = 0") (simp_all add: fixed_text_def)
qed

lemma fixed_text_long:
  assumes "10 ^ (k + p) \<le> n"
  shows "k < length (fixed_text p n) - (if p = 0 then 0 else p + 1)"
proof -
  have "10 ^ k \<le> n div 10 ^ p" using assms by (simp add: less_eq_div_iff_mult_less_eq power_add)
  then have "k < length (dec_nat (n div 10 ^ p))" by (rule dec_nat_long)
  then show ?thesis by (cases "p = 0") (simp_all add: fixed_text_def)
qed

lemma fmt_f_length:
  assumes "x = (s, Fin q)" "\<bar>q\<bar> \<le> 10 ^ Suc k - 1"
  shows "length (fmt_f w p x) \<le> max w (Suc k + (if p = 0 then 0 else p + 1) + (if s then 1 else 0))"
proof -
  have "\<bar>q\<bar> \<le> of_nat (10 ^ Suc k - 1)" using assms(2) by (simp add: of_nat_diff)
  then have "scaled p q \<le> (10 ^ Suc k - 1) * 10 ^ p" by (rule scaled_le)
  also have "\<dots> < 10 ^ Suc k * 10 ^ p" by (intro mult_less_mono1) simp_all
  also have "\<dots> = 10 ^ (Suc k + p)" by (simp add: power_add)
  finally show ?thesis using fixed_text_length [of "scaled p q" k p]
    by (auto simp: assms(1) sign_text_def)
qed

lemma fmt_f_long:
  assumes "x = (s, Fin q)" "10 ^ k \<le> \<bar>q\<bar>"
  shows "k + (if p = 0 then 0 else p + 1) + (if s then 1 else 0) < length (fmt_f w p x)"
proof -
  have "of_nat (10 ^ k) \<le> \<bar>q\<bar>" using assms(2) by simp
  then have "10 ^ k * 10 ^ p \<le> scaled p q" by (rule scaled_ge)
  then have "10 ^ (k + p) \<le> scaled p q" by (simp add: power_add)
  from fixed_text_long [OF this] show ?thesis by (auto simp: assms(1) sign_text_def)
qed

section \<open>Building a text in an array\<close>

lemma sprintf_cat_Some: "length t < k \<Longrightarrow> length rpt + length t < n \<Longrightarrow> sprintf_cat k n t rpt = Some (rpt @ t)"
  by (simp add: sprintf_cat_def fits_def strcat_def)

lemma strcat_Some: "length rpt + length t < n \<Longrightarrow> strcat n t rpt = Some (rpt @ t)"
  by (simp add: fits_def strcat_def)

lemma sprintf_cat_None: "k \<le> length t \<or> n \<le> length rpt + length t \<Longrightarrow> sprintf_cat k n t rpt = None"
  by (auto simp: sprintf_cat_def fits_def strcat_def)

lemma sprintf_cat_all_Some:
  assumes "\<forall>t\<in>set ts. length t < k" "length rpt + length (concat ts) < n"
  shows "sprintf_cat_all k n ts rpt = Some (rpt @ concat ts)"
  using assms by (induction ts arbitrary: rpt) (simp_all add: sprintf_cat_Some)

lemma sprintf_cat_all_None:
  assumes "\<exists>t\<in>set ts. k \<le> length t"
  shows "sprintf_cat_all k n ts rpt = None"
  using assms
proof (induction ts arbitrary: rpt)
  case (Cons t ts)
  then show ?case by (cases "sprintf_cat k n t rpt") (auto simp: sprintf_cat_None)
qed simp

lemma length_concat_le: "\<forall>t\<in>set ts. length t \<le> k \<Longrightarrow> length (concat ts) \<le> length ts * k"
  by (induction ts) auto

section \<open>Axis values\<close>

text \<open>The list of axis values, from axis \<open>i\<close> on.\<close>

definition axis_list_text :: "bool \<Rightarrow> f32 list \<Rightarrow> nat \<Rightarrow> u8 list" where
  "axis_list_text inches v i =
     concat (map (\<lambda>idx. axis_text inches (v ! idx) @ (if idx < N_AXIS - 1 then [44] else [])) [i..<N_AXIS])"

lemma axis_list_text_step:
  "i < N_AXIS \<Longrightarrow> axis_list_text inches v i =
     axis_text inches (v ! i) @ (if i < N_AXIS - 1 then [44] else []) @ axis_list_text inches v (Suc i)"
  by (simp add: axis_list_text_def upt_conv_Cons del: upt.simps)

lemma axis_values_loop_fits:
  assumes "i \<le> N_AXIS" "\<forall>j<N_AXIS. length (axis_text inches (v ! j)) \<le> l" "l < 10"
    "length rpt + (N_AXIS - i) * (l + 1) \<le> n"
  shows "axis_values_loop n inches v [i..<N_AXIS] rpt = Some (rpt @ axis_list_text inches v i)
    \<and> length (axis_list_text inches v i) \<le> (N_AXIS - i) * (l + 1) - 1"
  using assms
proof (induction "N_AXIS - i" arbitrary: i rpt)
  case 0
  then show ?case by (simp add: axis_list_text_def)
next
  case (Suc d)
  then have i: "i < N_AXIS" "d = N_AXIS - Suc i" "Suc i \<le> N_AXIS" by simp_all
  let ?a = "axis_text inches (v ! i)" and ?c = "if i < N_AXIS - 1 then [44] else [] :: u8 list"
  have a: "length ?a \<le> l" using Suc.prems(2) i(1) by blast
  have r: "(N_AXIS - i) * (l + 1) = (l + 1) + (N_AXIS - Suc i) * (l + 1)" using i by (simp flip: i(2) Suc.hyps(2))
  have fits: "length rpt + length ?a + length ?c + (N_AXIS - Suc i) * (l + 1) \<le> n"
    using Suc.prems(4) a r by (auto split: if_splits)
  have lt: "length rpt + length ?a < n" "i < N_AXIS - 1 \<Longrightarrow> length rpt + length ?a + 1 < n"
  proof -
    show "length rpt + length ?a < n" using Suc.prems(4) a r by linarith
    assume "i < N_AXIS - 1"
    then have "1 * (l + 1) \<le> (N_AXIS - Suc i) * (l + 1)" by (intro mult_le_mono1) linarith
    then have "l + 1 \<le> (N_AXIS - Suc i) * (l + 1)" by simp
    then show "length rpt + length ?a + 1 < n" using Suc.prems(4) a r by linarith
  qed
  note ih = Suc.hyps(1) [OF i(2) i(3) Suc.prems(2,3), of "rpt @ ?a @ ?c"]
  have step: "axis_values_loop n inches v [i..<N_AXIS] rpt = axis_values_loop n inches v [Suc i..<N_AXIS] (rpt @ ?a @ ?c)"
    using i(1) lt a Suc.prems(3) by (simp add: upt_conv_Cons sprintf_cat_Some strcat_Some del: upt.simps)
  have "length ?a + length ?c + ((N_AXIS - Suc i) * (l + 1) - 1) \<le> (N_AXIS - i) * (l + 1) - 1"
  proof (cases "i < N_AXIS - 1")
    case True
    then have "1 \<le> (N_AXIS - Suc i) * (l + 1)" "length ?c = 1" by simp_all
    then show ?thesis using a r by linarith
  next
    case False
    then show ?thesis using a r i(1) by simp
  qed
  then show ?case using ih fits step by (simp add: axis_list_text_step [OF i(1)])
qed

lemma axis_values_loop_overruns:
  assumes "i < N_AXIS" "\<forall>j<N_AXIS. l \<le> length (axis_text inches (v ! j))"
    "n < length rpt + (N_AXIS - i) * (l + 1)"
  shows "axis_values_loop n inches v [i..<N_AXIS] rpt = None"
  using assms
proof (induction "N_AXIS - i" arbitrary: i rpt)
  case (Suc d)
  let ?a = "axis_text inches (v ! i)"
  have a: "l \<le> length ?a" using Suc.prems(1,2) by blast
  have u: "[i..<N_AXIS] = i # [Suc i..<N_AXIS]" using Suc.prems(1) by (rule upt_conv_Cons)
  show ?case
  proof (cases "length ?a < 10 \<and> length rpt + length ?a < n")
    case True
    then have s: "sprintf_cat 10 n ?a rpt = Some (rpt @ ?a)" by (simp add: sprintf_cat_Some)
    show ?thesis
    proof (cases "i < N_AXIS - 1")
      case lt: True
      have "(N_AXIS - i) * (l + 1) = (l + 1) + (N_AXIS - Suc i) * (l + 1)" 
        using Suc_diff_Suc [OF Suc.prems(1)] by (metis Suc_eq_plus1 add.commute mult_Suc)
      then have "n < length (rpt @ ?a @ [44]) + (N_AXIS - Suc i) * (l + 1)" using Suc.prems(3) a by simp
      moreover have "d = N_AXIS - Suc i" "Suc i < N_AXIS" using Suc.hyps(2) lt by simp_all
      ultimately have "axis_values_loop n inches v [Suc i..<N_AXIS] (rpt @ ?a @ [44]) = None"
        using Suc.hyps(1) Suc.prems(2) by blast
      then show ?thesis using lt s by (cases "length rpt + length ?a + 1 < n") (simp_all add: u strcat_def fits_def del: upt.simps)
    next
      case False
      then have "n < length rpt + (l + 1)" using Suc.prems(1,3) by (cases "i = N_AXIS - 1") simp_all
      then show ?thesis using True a by simp
    qed
  next
    case False
    then have "sprintf_cat 10 n ?a rpt = None" by (intro sprintf_cat_None) auto
    then show ?thesis by (simp add: u del: upt.simps)
  qed
qed simp

section \<open>Reading a formatted number back\<close>

lemma dec_value_append: "dec_value (a @ b) = dec_value a * 10 ^ length b + dec_value b"
  by (induction b rule: rev_induct) (simp_all flip: append_assoc add: algebra_simps)

lemma pad_zeros: "dec_value (digits_of (pad_left w 48 t)) = dec_value (digits_of t)"
proof -
  have "dec_value (replicate k 0) = 0" for k
    by (induction k) (simp_all add: dec_value_def)
  then show ?thesis by (simp add: pad_left_def digits_of_def dec_value_append)
qed

text \<open>A non-negative setting of at most five digits before the point: its text, and that the
  parser reads it to the end of the line.\<close>

lemma setting_f_text:
  assumes "f32_dec x = (False, Fin q)"
  shows "setting_f k x = (chars ''$'' @ fmt_d k @ chars ''='') @ dec_nat (scaled 3 q div 1000) @ [46]
    @ pad_left 3 48 (dec_nat (scaled 3 q mod 1000)) @ eol"
proof -
  have "dec_nat (scaled 3 q mod 1000) \<noteq> []" "dec_nat (scaled 3 q div 1000) \<noteq> []" by simp_all
  then have "4 < length (fixed_text 3 (scaled 3 q))"
    by (cases "dec_nat (scaled 3 q div 1000)") (simp_all add: fixed_text_def)
  then have "fmt_f 4 3 (f32_dec x) = fixed_text 3 (scaled 3 q)"
    by (simp add: assms sign_text_def pad_left_def)
  then show ?thesis by (simp add: setting_f_def fixed_text_def)
qed

lemma setting_f_read_back:
  assumes "f32_dec x = (False, Fin q)" "\<bar>q\<bar> \<le> 99999" "0 \<le> k" "k < 1000"
  shows "read_float (setting_f k x) (length (chars ''$'' @ fmt_d k @ chars ''='')) =
    Some (decimal_float (scaled 3 q) 3, length (setting_f k x) - 2)"
proof -
  let ?n = "scaled 3 q"
  let ?pre = "chars ''$'' @ fmt_d k @ chars ''=''"
  let ?ip = "dec_nat (?n div 1000)" and ?fp = "pad_left 3 48 (dec_nat (?n mod 1000))"
  have n: "?n \<le> 99999 * 10 ^ 3" using assms(2) by (intro scaled_le) simp
  then have ip: "length ?ip \<le> 5" using dec_nat_length [of "?n div 1000" 4] by simp
  have "length (dec_nat (?n mod 1000)) \<le> 3" using dec_nat_length [of "?n mod 1000" 2] by simp
  then have fp: "length ?fp = 3" by simp
  have pre: "length ?pre \<le> 5" using fmt_d_length [of k 2] assms(3,4) by (simp add: chars_def)
  have dig: "\<forall>c\<in>set (?ip @ ?fp). is_digit c"
    using dec_nat_digit by (auto simp: pad_left_def) (simp add: is_digit_def)
  have val: "dec_value (digits_of (?ip @ ?fp)) = ?n"
  proof -
    have "digits_of (?ip @ ?fp) = digits_of ?ip @ digits_of ?fp" by (simp add: digits_of_def)
    moreover have "length (digits_of ?fp) = 3" using fp by (simp add: digits_of_def)
    ultimately show ?thesis by (simp add: dec_value_append pad_zeros)
  qed
  have "read_float (?pre @ [] @ ?ip @ [46] @ ?fp @ eol) (length ?pre) =
    Some (let x = decimal_float (dec_value (digits_of (?ip @ ?fp))) (length ?fp) in if [] = [45 :: u8] then f32_neg x else x,
      length (?pre @ [] @ ?ip @ [46] @ ?fp))"
    by (rule read_float_decimal_digits) (use ip fp pre dig in \<open>auto simp: eol_def is_digit_def\<close>)
  then show ?thesis unfolding setting_f_text [OF assms(1)] val fp by (simp add: Let_def eol_def)
qed

lemma fmt_d_nat: "fmt_d (int n) = dec_nat n"
  by (simp add: fmt_d_def sign_text_def)

section \<open>The settings report\<close>

text \<open>A number of at most \<open>k\<close> digits before the point.\<close>

definition digits_within :: "nat \<Rightarrow> fpd \<Rightarrow> bool" where
  "digits_within k x = (case snd x of Fin q \<Rightarrow> \<bar>q\<bar> \<le> 10 ^ k - 1 | _ \<Rightarrow> False)"

lemma digits_within_length:
  assumes "digits_within (Suc k) x"
  shows "length (fmt_f w p x) \<le> max w (Suc k + (if p = 0 then 0 else p + 1) + (if fst x then 1 else 0))"
proof -
  obtain q where "snd x = Fin q" "\<bar>q\<bar> \<le> 10 ^ Suc k - 1"
    using assms by (auto simp: digits_within_def split: fpv.splits)
  then show ?thesis using fmt_f_length [of x "fst x" q k w p] by (cases x) simp
qed

text \<open>The numbers the settings report prints with decimals, and those that fit its lines.\<close>

definition printed_settings :: "settings_t \<Rightarrow> f32 list" where
  "printed_settings s =
     [junction_deviation s, arc_tolerance s, homing_feed_rate s, homing_seek_rate s, homing_pulloff s, rpm_max s, rpm_min s]
       @ concat (map (\<lambda>set_idx. map (\<lambda>idx. axis_setting_value set_idx idx s) [0..<N_AXIS]) [0..<AXIS_N_SETTINGS])"

definition setting_fits :: "f32 \<Rightarrow> bool" where
  "setting_fits x = digits_within (if fst (f32_dec x) then 7 else 8) (f32_dec x)"

lemma setting_f_length:
  assumes "setting_fits x" "0 \<le> k" "k < 10 ^ Suc j"
  shows "length (setting_f k x) \<le> 17 + j"
proof -
  have "length (fmt_f 4 3 (f32_dec x)) \<le> 12"
    using assms(1) digits_within_length [of 6 "f32_dec x" 4 3] digits_within_length [of 7 "f32_dec x" 4 3]
    by (auto simp: setting_fits_def split: if_splits)
  moreover have "length (fmt_d k) \<le> Suc j" using fmt_d_length [of k j] assms(2,3) by simp
  ultimately show ?thesis by (simp add: setting_f_def chars_def eol_def)
qed

lemma setting_d_length:
  assumes "0 \<le> k" "k < 100" "0 \<le> v" "v < 10 ^ Suc j"
  shows "length (setting_d k v) \<le> 7 + j"
proof -
  have "length (fmt_d k) \<le> 2" "length (fmt_d v) \<le> Suc j"
    using fmt_d_length [of k 1] fmt_d_length [of v j] assms by simp_all
  then show ?thesis by (simp add: setting_d_def chars_def eol_def)
qed

lemma general_lines_length:
  assumes "\<forall>x\<in>set (printed_settings s). setting_fits x"
  shows "(\<forall>t\<in>set (general_lines s). length t < 20) \<and> length (concat (general_lines s)) \<le> 291"
proof -
  have f: "length (setting_f k x) \<le> 18" if "x \<in> set (printed_settings s)" "0 \<le> k" "k < 100" for k x
    using setting_f_length [of x k 1] assms that by simp
  have d: "length (setting_d k v) \<le> 11" if "0 \<le> k" "k < 100" "0 \<le> v" "v < 100000" for k v
    using setting_d_length [of k v 4] that by simp
  have b: "uint w < 100000" for w :: u8 using uint_bounded [of w] by (rule order.strict_trans2) simp
  have h: "uint w < 100000" for w :: u16 using uint_bounded [of w] by (rule order.strict_trans2) simp
  have g: "0 \<le> flag_value bf s \<and> flag_value bf s < 100000" for bf by (simp add: flag_value_def)
  note fs = f [of "junction_deviation s" 11] f [of "arc_tolerance s" 12] f [of "homing_feed_rate s" 24]
    f [of "homing_seek_rate s" 25] f [of "homing_pulloff s" 27] f [of "rpm_max s" 30] f [of "rpm_min s" 31]
  have "list_all2 (\<lambda>t n. length t \<le> n) (general_lines s)
    [11, 11, 11, 11, 11, 11, 11, 11, 18, 18, 11, 11, 11, 11, 11, 18, 18, 11, 18, 18, 18, 11 :: nat]"
    unfolding general_lines_def using fs b h g by (simp add: d printed_settings_def)
  then have "(\<forall>t\<in>set (general_lines s). length t < 20) \<and> length (concat (general_lines s)) \<le>
    sum_list [11, 11, 11, 11, 11, 11, 11, 11, 18, 18, 11, 11, 11, 11, 11, 18, 18, 11, 18, 18, 18, 11 :: nat]"
    unfolding general_lines_def by simp
  then show ?thesis by simp
qed

lemma axis_lines_length:
  assumes "\<forall>x\<in>set (printed_settings s). setting_fits x"
  shows "(\<forall>t\<in>set (axis_lines s). length t < 20) \<and> length (concat (axis_lines s)) \<le> 608"
proof -
  have "\<forall>t\<in>set (axis_lines s). length t \<le> 19"
    using setting_f_length [where j = 2] assms by (fastforce simp: axis_lines_def printed_settings_def)
  moreover have "length (axis_lines s) = 32" by (simp add: axis_lines_def length_concat comp_def sum_list_triv)
  ultimately show ?thesis using length_concat_le [of "axis_lines s" 19] by fastforce
qed

lemma settings_report_fits:
  assumes "\<forall>x\<in>set (printed_settings s). setting_fits x"
  shows "text_grbl_settings client s = Some [(client, concat (general_lines s @ axis_lines s))]
    \<and> length (concat (general_lines s @ axis_lines s)) < 1000"
proof -
  note g = general_lines_length [OF assms] and a = axis_lines_length [OF assms]
  have "sprintf_cat_all 20 1000 (general_lines s) [] = Some (concat (general_lines s))"
    using g by (simp add: sprintf_cat_all_Some)
  moreover have "sprintf_cat_all 20 1000 (axis_lines s) (concat (general_lines s)) = Some (concat (general_lines s) @ concat (axis_lines s))"
    using g a by (intro sprintf_cat_all_Some) linarith+
  ultimately show ?thesis using g a by (simp add: text_grbl_settings_def)
qed

text \<open>An axis setting of nine digits or more writes behind the line it is formatted in.\<close>

lemma settings_report_overruns:
  assumes "set_idx < AXIS_N_SETTINGS" "idx < N_AXIS" "f32_dec (axis_setting_value set_idx idx s) = (b, Fin q)" "10 ^ 8 \<le> \<bar>q\<bar>"
  shows "text_grbl_settings client s = None"
proof -
  let ?k = "AXIS_SETTINGS_START_VAL + AXIS_SETTINGS_INCREMENT * set_idx + idx"
  let ?t = "setting_f (int ?k) (axis_setting_value set_idx idx s)"
  have "12 < length (fmt_f 4 3 (f32_dec (axis_setting_value set_idx idx s)))"
    using fmt_f_long [OF assms(3,4), of 3 4] by simp
  moreover have "3 \<le> length (fmt_d (int ?k))" using dec_nat_long [of 2 ?k] unfolding fmt_d_nat by simp
  ultimately have "20 \<le> length ?t" by (simp add: setting_f_def chars_def eol_def)
  moreover have "?t \<in> set (axis_lines s)" 
    using assms(1,2) by (simp add: axis_lines_def) (intro bexI [of _ set_idx] imageI, simp_all)
  ultimately have "sprintf_cat_all 20 1000 (axis_lines s) rpt = None" for rpt
    using sprintf_cat_all_None by blast
  then show ?thesis by (cases "sprintf_cat_all 20 1000 (general_lines s) []") (simp_all add: text_grbl_settings_def)
qed

text \<open>Such a setting is accepted for the steps of an axis.\<close>

lemma stored_steps_overrun:
  assumes "settings_wf (settings m)" "idx < N_AXIS" "f32_dec x = (False, Fin q)" "10 ^ 8 \<le> q"
  shows "\<exists>m'. settings_store_global_setting (100 + of_nat idx) x m = Some (STATUS_OK, m')
    \<and> text_grbl_settings client (settings m') = None"
proof -
  let ?s = "(settings m)\<lparr>steps_per_mm := (steps_per_mm (settings m))[idx := x]\<rparr>"
  have u: "unat (of_nat idx :: u8) = idx" "unat (100 + of_nat idx :: u8) = 100 + idx"
    using assms(2) by (simp_all add: unat_word_ariths unat_of_nat take_bit_eq_mod)
  have "\<not> f32_lt x 0" using assms(3,4) by (simp add: f32_lt_def) (simp add: f32_dec_def)
  moreover have "axis_setting 0 (of_nat idx) = Some (0, of_nat idx)"
    using u(1) assms(2) by (simp add: axis_setting.simps)
  ultimately have "settings_store_global_setting (100 + of_nat idx) x m
      = Some (STATUS_OK, write_global_settings (upd_settings (store_axis_setting 0 idx x) m))"
    using u by (simp add: settings_store_global_setting_def)
  moreover have "settings (write_global_settings (upd_settings (store_axis_setting 0 idx x) m)) = ?s"
    by (simp add: upd_settings_def store_axis_setting_def)
  moreover have "axis_setting_value 0 idx ?s = x"
    using assms(1,2) by (simp add: axis_setting_value_def settings_wf_def)
  then have "text_grbl_settings client ?s = None"
    using assms(2-4) by (intro settings_report_overruns [of 0 idx ?s False q]) simp_all
  ultimately show ?thesis by simp
qed

section \<open>The probe report\<close>

definition axis_shown :: "bool \<Rightarrow> f32 \<Rightarrow> fpd" where
  "axis_shown inches x = f32_dec (f32_mul x (unit_conv inches))"

lemma axis_text_shown: "axis_text inches x = fmt_f 4 (if inches then 4 else 3) (axis_shown inches x)"
  by (simp add: axis_text_def axis_shown_def)

lemma report_util_axis_values_fits:
  assumes "\<forall>j<N_AXIS. length (axis_text (report_inches m) (v ! j)) \<le> l" "l < 10" "8 * l + 8 \<le> n"
  shows "report_util_axis_values n v m = Some (axis_list_text (report_inches m) v 0)
    \<and> length (axis_list_text (report_inches m) v 0) \<le> 8 * l + 7"
  using axis_values_loop_fits [of 0 "report_inches m" v l "[]" n] assms
  by (simp add: report_util_axis_values_def del: upt.simps)

lemma axis_text_within:
  assumes "digits_within (Suc k) (axis_shown False x)"
  shows "length (axis_text False x) \<le> k + 6"
  using digits_within_length [OF assms, of 4 3] unfolding axis_text_shown by (simp split: if_splits)

text \<open>What is printed of the probe position.\<close>

definition probe_position :: "machine \<Rightarrow> f32 list" where
  "probe_position m = system_convert_array_steps_to_mpos (sys_probe_position m) m"

lemma probe_report_fits:
  assumes "\<not> report_inches m" "\<forall>j<N_AXIS. digits_within 1 (axis_shown False (probe_position m ! j))"
  shows "text_probe_parameters client m = Some [(client, chars ''[PRB:'' @ axis_list_text False (probe_position m) 0
    @ chars '':'' @ fmt_d (if sys_probe_succeeded (sys m) then 1 else 0) @ chars '']'' @ eol)]"
proof -
  let ?e = "chars '':'' @ fmt_d (if sys_probe_succeeded (sys m) then 1 else 0) @ chars '']'' @ eol"
  have "\<forall>j<N_AXIS. length (axis_text False (probe_position m ! j)) \<le> 6"
    using axis_text_within [of 0] assms(2) by simp
  then have a: "report_util_axis_values 60 (probe_position m) m = Some (axis_list_text False (probe_position m) 0)"
    "length (axis_list_text False (probe_position m) 0) \<le> 55"
    using report_util_axis_values_fits [of m "probe_position m" 6 60] assms(1) by simp_all
  have e: "length ?e \<le> 6" using fmt_d_length [of 1 0] fmt_d_length [of 0 0] by (simp add: chars_def eol_def)
  have p: "fits 120 (chars ''[PRB:'') = Some (chars ''[PRB:'')" by (simp add: fits_def chars_def)
  have l: "length (chars ''[PRB:'') = 5" by (simp add: chars_def)
  have "strcat 120 (axis_list_text False (probe_position m) 0) (chars ''[PRB:'') = Some (chars ''[PRB:'' @ axis_list_text False (probe_position m) 0)"
    using a(2) l by (intro strcat_Some) simp
  moreover have "sprintf_cat 60 120 ?e (chars ''[PRB:'' @ axis_list_text False (probe_position m) 0) =
    Some ((chars ''[PRB:'' @ axis_list_text False (probe_position m) 0) @ ?e)"
    using a(2) l e by (intro sprintf_cat_Some) (simp_all del: append_assoc)
  ultimately show ?thesis using a(1) p by (simp add: text_probe_parameters_def probe_position_def)
qed

lemma probe_report_overruns:
  assumes "\<not> report_inches m"
    "\<forall>j<N_AXIS. \<exists>s q. axis_shown False (probe_position m ! j) = (s, Fin q) \<and> (if s then 10 else 100) \<le> \<bar>q\<bar>"
  shows "text_probe_parameters client m = None"
proof -
  have "7 \<le> length (axis_text False (probe_position m ! j))" if j: "j < N_AXIS" for j
  proof -
    obtain s q where x: "axis_shown False (probe_position m ! j) = (s, Fin q)" "(if s then 10 else 100) \<le> \<bar>q\<bar>"
      using assms(2) j by blast
    show ?thesis unfolding axis_text_shown
      using fmt_f_long [OF x(1), of 1 3 4] fmt_f_long [OF x(1), of 2 3 4] x(2) by (auto split: if_splits)
  qed
  then have "axis_values_loop 60 False (probe_position m) [0..<N_AXIS] [] = None"
    by (intro axis_values_loop_overruns [where l = 7]) simp_all
  then show ?thesis using assms(1)
    by (simp add: text_probe_parameters_def probe_position_def report_util_axis_values_def fits_def chars_def del: upt.simps)
qed

section \<open>The modes and the status report\<close>

lemma fmt_d_byte: "length (fmt_d (uint w)) \<le> 3" for w :: u8
  using fmt_d_length [of "uint w" 2] uint_bounded [of w] by simp

lemma fmt_d_small: "0 \<le> i \<Longrightarrow> i < 1000 \<Longrightarrow> length (fmt_d i) \<le> 3"
  using fmt_d_length [of i 2] by simp

lemma mode_texts_length:
  assumes "modal_ok (gs_modal (gc_state m))"
  shows "list_all2 (\<lambda>t n. length t \<le> n) (mode_texts m) [4, 4, 4, 4, 4, 4]"
proof -
  let ?gm = "gs_modal (gc_state m)"
  have d: "length (fmt_d i) \<le> 2" if "0 \<le> i" "i < 100" for i
    using fmt_d_length [of i 1] that by simp
  have mo: "gm_motion ?gm \<in> {0, 1, 2, 3, 140, 141, 142, 143, 80}"
    and r: "gm_coord_select ?gm \<in> {0, 1, 2, 3, 4, 5}" "gm_plane_select ?gm \<in> {0, 1, 2}" "gm_units ?gm \<in> {0, 1}"
      "gm_distance ?gm \<in> {0, 1}" "gm_feed_rate ?gm \<in> {0, 1}"
    using assms unfolding modal_ok_def by simp_all
  have "length (fmt_d i) \<le> 1" if "0 \<le> i" "i < 10" for i using fmt_d_length [of i 0] that by simp
  then have "length (if 140 \<le> gm_motion ?gm then chars ''38.'' @ fmt_d (uint (gm_motion ?gm) - 138) else fmt_d (uint (gm_motion ?gm))) \<le> 4"
    using mo fmt_d_byte [of "gm_motion ?gm"] by (auto simp: chars_def word_le_def)
  moreover have "uint (gm_coord_select ?gm) \<le> 5" using r(1) by auto
  moreover have "uint (gm_plane_select ?gm) \<le> 2" using r(2) by auto
  moreover have "0 \<le> 21 - uint (gm_units ?gm)" "21 - uint (gm_units ?gm) < 100" using r(3) by auto
  moreover have "uint (gm_distance ?gm) \<le> 1" using r(4) by auto
  moreover have "0 \<le> 94 - uint (gm_feed_rate ?gm)" "94 - uint (gm_feed_rate ?gm) < 100" using r(5) by auto
  ultimately show ?thesis
    by (cases "140 \<le> gm_motion ?gm") (simp_all add: mode_texts_def Let_def chars_def d)
qed

lemma sprintf_cat_all_bounds:
  assumes "list_all2 (\<lambda>t n. length t \<le> n) ts ns" "\<forall>n\<in>set ns. n < k" "length rpt + sum_list ns < n"
  shows "sprintf_cat_all k n ts rpt = Some (rpt @ concat ts) \<and> length (concat ts) \<le> sum_list ns"
proof -
  have "length (concat ts) \<le> sum_list ns \<and> (\<forall>t\<in>set ts. length t < k)"
    using assms(1,2) by (induction ts ns rule: list_all2_induct) auto
  then show ?thesis using sprintf_cat_all_Some [of ts k rpt n] assms(3) by auto
qed

lemma value_texts_length:
  assumes "digits_within 7 (f32_dec (gs_feed_rate (gc_state m)))" "digits_within 7 (f32_dec (gs_spindle_speed (gc_state m)))"
  shows "list_all2 (\<lambda>t n. length t \<le> n) (value_texts m) [5, 12, 14]"
  using digits_within_length [of 6 "f32_dec (gs_feed_rate (gc_state m))" 0 0] digits_within_length [of 6 "f32_dec (gs_feed_rate (gc_state m))" 0 1]
    digits_within_length [of 6 "f32_dec (gs_spindle_speed (gc_state m))" 4 3] fmt_d_byte [of "gs_tool (gc_state m)"] assms
  by (auto simp: value_texts_def Let_def chars_def split: if_splits)

definition modes_text :: "machine \<Rightarrow> u8 list" where
  "modes_text m =
     (let gm = gs_modal (gc_state m) in
      chars ''[GC:G'' @ concat (mode_texts m) @ flow_text (gm_program_flow gm) @ spindle_text (gm_spindle gm)
        @ (if gm_coolant gm \<noteq> 0 then chars '' M8'' else chars '' M9'') @ concat (value_texts m) @ chars '']'' @ eol)"

lemma modes_report_fits:
  assumes "modal_ok (gs_modal (gc_state m))"
    "digits_within 7 (f32_dec (gs_feed_rate (gc_state m)))" "digits_within 7 (f32_dec (gs_spindle_speed (gc_state m)))"
  shows "text_gcode_modes client m = Some [(client, modes_text m)] \<and> length (modes_text m) < 75"
proof -
  let ?gm = "gs_modal (gc_state m)"
  define r1 where "r1 = chars ''[GC:G'' @ concat (mode_texts m)"
  define r2 where "r2 = r1 @ flow_text (gm_program_flow ?gm)"
  define r3 where "r3 = r2 @ spindle_text (gm_spindle ?gm)"
  define r4 where "r4 = r3 @ (if gm_coolant ?gm \<noteq> 0 then chars '' M8'' else chars '' M9'')"
  define r5 where "r5 = r4 @ concat (value_texts m)"
  have h: "fits 75 (chars ''[GC:G'') = Some (chars ''[GC:G'')" "length (chars ''[GC:G'') = 5" by (simp_all add: fits_def chars_def)
  have c1: "sprintf_cat_all 20 75 (mode_texts m) (chars ''[GC:G'') = Some r1" "length r1 \<le> 29"
    using sprintf_cat_all_bounds [OF mode_texts_length [OF assms(1)], of 20 "chars ''[GC:G''" 75] h(2) by (simp_all add: r1_def)
  have f: "length (flow_text w) \<le> 4" for w using fmt_d_length [of 2 0] fmt_d_length [of 30 1] by (simp add: flow_text_def chars_def)
  have c2: "sprintf_cat 20 75 (flow_text (gm_program_flow ?gm)) r1 = Some r2" "length r2 \<le> 33"
    using f [of "gm_program_flow ?gm"] c1(2) by (simp_all add: r2_def sprintf_cat_Some)
  have "length (spindle_text (gm_spindle ?gm)) \<le> 3" by (simp add: spindle_text_def chars_def)
  then have c3: "strcat 75 (spindle_text (gm_spindle ?gm)) r2 = Some r3" "length r3 \<le> 36"
    using c2(2) by (simp_all add: r3_def strcat_Some)
  have c4: "strcat 75 (if gm_coolant ?gm \<noteq> 0 then chars '' M8'' else chars '' M9'') r3 = Some r4" "length r4 \<le> 39"
    using c3(2) by (simp_all add: r4_def strcat_Some chars_def)
  have c5: "sprintf_cat_all 20 75 (value_texts m) r4 = Some r5" "length r5 \<le> 70"
    using sprintf_cat_all_bounds [OF value_texts_length [OF assms(2,3)], of 20 r4 75] c4(2) by (simp_all add: r5_def)
  have c6: "strcat 75 (chars '']'' @ eol) r5 = Some (r5 @ chars '']'' @ eol)" "length (r5 @ chars '']'' @ eol) < 75"
    using c5(2) by (simp_all add: strcat_Some chars_def eol_def)
  have "modes_text m = r5 @ chars '']'' @ eol"
    by (simp add: modes_text_def Let_def r5_def r4_def r3_def r2_def r1_def)
  then show ?thesis using h(1) c1(1) c2(1) c3(1) c4(1) c5(1) c6 by (simp add: text_gcode_modes_def Let_def)
qed

text \<open>A feed rate of eighteen digits writes behind the array of one word.\<close>

lemma modes_report_overruns:
  assumes "f32_dec (gs_feed_rate (gc_state m)) = (b, Fin q)" "10 ^ 17 \<le> \<bar>q\<bar>"
  shows "text_gcode_modes client m = None"
proof -
  let ?t = "chars '' F'' @ fmt_f 0 (if report_inches m then 1 else 0) (f32_dec (gs_feed_rate (gc_state m)))"
  have "17 < length (fmt_f 0 p (f32_dec (gs_feed_rate (gc_state m))))" for p
    using fmt_f_long [OF assms, of p 0] by simp
  note l = this [of 0] this [of 1]
  have "20 \<le> length ?t" using l by (simp add: chars_def)
  moreover have "?t \<in> set (value_texts m)" by (simp add: value_texts_def Let_def)
  ultimately have "sprintf_cat_all 20 75 (value_texts m) rpt = None" for rpt
    using sprintf_cat_all_None by blast
  then show ?thesis by (simp add: text_gcode_modes_def Let_def split: option.splits bind_splits)
qed

text \<open>The parts of the status report.\<close>

definition status_text :: "u8 \<Rightarrow> telnet_t \<Rightarrow> machine \<Rightarrow> u8 list" where
  "status_text client t m =
     chars ''<'' @ chars (report_state_name (sys m)) @ (if shows_mpos m then chars ''|MPos:'' else chars ''|WPos:'')
       @ axis_list_text (report_inches m) (shown_position m) 0
       @ (if bit_istrue (status_report_mask (settings m)) BITFLAG_RT_STATUS_BUFFER_STATE then buffer_text client t m else [])
       @ speed_text m @ pin_text m
       @ (if shows_wco m then chars ''|WCO:'' @ axis_list_text (report_inches m) (map (work_offset m) [0..<N_AXIS]) 0 else [])
       @ (if shows_overrides m then override_text m @ accessory_text m else []) @ chars ''>'' @ eol"

lemma state_name_length: "length (report_state_name s) \<le> 6"
  by (simp add: report_state_name_def)

lemma chars_length [simp]: "length (chars s) = length s"
  by (simp add: chars_def)

lemma eol_length [simp]: "length eol = 2"
  by (simp add: eol_def)

lemma append_bound: "length a \<le> j \<Longrightarrow> length b \<le> k \<Longrightarrow> length (a @ b) \<le> j + k"
  by simp

lemma shown_bound: "length (if b then chars [c] else []) \<le> 1"
  by simp

lemma if_bound: "length a \<le> k \<Longrightarrow> length (if b then a else []) \<le> k"
  by simp

lemma pin_text_length: "length (pin_text m) \<le> 16"
proof -
  have "length (pin_text m) \<le> 4 + (1 + ((1 + (1 + (1 + (1 + (1 + (1 + (1 + 1))))))) + (1 + (1 + 1))))"
    unfolding pin_text_def Let_def by (intro if_bound append_bound shown_bound) simp
  then show ?thesis by simp
qed

lemma override_text_length: "length (override_text m) \<le> 15" "length (accessory_text m) \<le> 5"
  using fmt_d_byte [of "sys_f_override (sys m)"] fmt_d_byte [of "sys_r_override (sys m)"] fmt_d_byte [of "sys_spindle_speed_ovr (sys m)"]
  by (simp_all add: override_text_def accessory_text_def Let_def)

lemma buffer_text_length:
  assumes "unat (tn_RXbufferSize t) \<le> TELNET_RXBUFFERSIZE"
  shows "length (buffer_text client t m) \<le> 12"
proof -
  have "uint (tn_RXbufferSize t) \<le> 1200" using assms by (metis int_nat_eq nat_le_iff of_nat_numeral unat_eq_nat_uint)
  then have "0 \<le> tn_get_rx_buffer_available t \<and> tn_get_rx_buffer_available t < 10000"
    using uint_ge_0 [of "tn_RXbufferSize t"] unfolding tn_get_rx_buffer_available_def by linarith
  then have "length (fmt_d (tn_get_rx_buffer_available t)) \<le> 4"
    using fmt_d_length [of "tn_get_rx_buffer_available t" 3] by simp
  moreover have "length (fmt_d (uint (serial_get_rx_buffer_available client m))) \<le> 4"
    using fmt_d_byte [of "serial_get_rx_buffer_available client m"] by linarith
  ultimately have "length (fmt_d (if client = CLIENT_TELNET then tn_get_rx_buffer_available t
      else uint (serial_get_rx_buffer_available client m))) \<le> 4"
    by (metis (full_types))
  then have "length (buffer_text client t m) \<le> 4 + (3 + (1 + 4))"
    unfolding buffer_text_def Let_def by (intro append_bound fmt_d_byte) simp_all
  then show ?thesis by simp
qed

definition spindle_shown :: "machine \<Rightarrow> fpd" where
  "spindle_shown m =
     (let speed = sys_spindle_speed (sys m) in
      if report_inches m then f64_dec (f64_div (f64_of_f32 speed) (f64_of_rat (254 / 10))) else f32_dec speed)"

lemma speed_text_length:
  assumes "digits_within 5 (f32_dec (st_get_realtime_rate m))" "digits_within 5 (spindle_shown m)"
  shows "length (speed_text m) \<le> 19"
  using assms digits_within_length [of 4 "f32_dec (st_get_realtime_rate m)" 0 0] digits_within_length [of 4 "f32_dec (st_get_realtime_rate m)" 0 1]
    digits_within_length [of 4 "spindle_shown m" 0 0]
  by (auto simp: speed_text_def spindle_shown_def Let_def split: if_splits)

lemma axis_within_2:
  assumes "\<not> report_inches m" "\<forall>j<N_AXIS. digits_within 2 (axis_shown False (v ! j))"
  shows "report_util_axis_values 80 v m = Some (axis_list_text False v 0) \<and> length (axis_list_text False v 0) \<le> 63"
proof -
  have "\<forall>j<N_AXIS. length (axis_text False (v ! j)) \<le> 7" using axis_text_within [of 1] assms(2) by (simp add: numeral_2_eq_2)
  then show ?thesis using report_util_axis_values_fits [of m v 7 80] assms(1) by simp
qed

lemma status_report_fits:
  assumes "\<not> report_inches m" "\<forall>j<N_AXIS. digits_within 2 (axis_shown False (shown_position m ! j))"
    "\<forall>j<N_AXIS. digits_within 2 (axis_shown False (work_offset m j))"
    "digits_within 5 (f32_dec (st_get_realtime_rate m))" "digits_within 5 (spindle_shown m)"
    "unat (tn_RXbufferSize t) \<le> TELNET_RXBUFFERSIZE"
  shows "text_realtime_status client t m = Some [(client, status_text client t m)] \<and> length (status_text client t m) < 200"
proof -
  note pos = axis_within_2 [OF assms(1,2)]
  have wco: "report_util_axis_values 80 (map (work_offset m) [0..<N_AXIS]) m = Some (axis_list_text False (map (work_offset m) [0..<N_AXIS]) 0)
      \<and> length (axis_list_text False (map (work_offset m) [0..<N_AXIS]) 0) \<le> 63"
    by (rule axis_within_2 [OF assms(1)]) (use assms(3) in \<open>simp del: upt.simps\<close>)
  let ?w = "axis_list_text False (map (work_offset m) [0..<N_AXIS]) 0"
  define b where "b = (if bit_istrue (status_report_mask (settings m)) BITFLAG_RT_STATUS_BUFFER_STATE then buffer_text client t m else [])"
  define r1 where "r1 = chars ''<'' @ chars (report_state_name (sys m))"
  define r2 where "r2 = r1 @ (if shows_mpos m then chars ''|MPos:'' else chars ''|WPos:'')"
  define r3 where "r3 = r2 @ axis_list_text False (shown_position m) 0"
  define r4 where "r4 = r3 @ b"
  define r5 where "r5 = r4 @ speed_text m"
  define r6 where "r6 = r5 @ pin_text m"
  define r7 where "r7 = r6 @ (if shows_wco m then chars ''|WCO:'' @ ?w else [])"
  define r8 where "r8 = r7 @ (if shows_overrides m then override_text m @ accessory_text m else [])"
  have bl: "length b \<le> 12" using buffer_text_length [OF assms(6)] by (simp add: b_def)
  note sp = speed_text_length [OF assms(4,5)]
  have c0: "fits 200 (chars ''<'') = Some (chars ''<'')" by (simp add: fits_def)
  have c1: "strcat 200 (chars (report_state_name (sys m))) (chars ''<'') = Some r1" "length r1 \<le> 7"
    using state_name_length [of "sys m"] by (simp_all add: r1_def strcat_Some)
  have c2: "strcat 200 (if shows_mpos m then chars ''|MPos:'' else chars ''|WPos:'') r1 = Some r2" "length r2 \<le> 13"
    using c1(2) by (simp_all add: r2_def strcat_Some)
  have c3: "strcat 200 (axis_list_text False (shown_position m) 0) r2 = Some r3" "length r3 \<le> 76"
    using c2(2) pos by (simp_all add: r3_def strcat_Some)
  have c4: "(if bit_istrue (status_report_mask (settings m)) BITFLAG_RT_STATUS_BUFFER_STATE
      then sprintf_cat 80 200 (buffer_text client t m) r3 else Some r3) = Some r4" "length r4 \<le> 88"
    using c3(2) bl buffer_text_length [OF assms(6), of client m] by (simp_all add: r4_def b_def sprintf_cat_Some)
  have c5: "sprintf_cat 80 200 (speed_text m) r4 = Some r5" "length r5 \<le> 107"
    using c4(2) sp by (simp_all add: r5_def sprintf_cat_Some)
  have c6: "strcat 200 (pin_text m) r5 = Some r6" "length r6 \<le> 123"
    using c5(2) pin_text_length [of m] by (simp_all add: r6_def strcat_Some)
  have c7: "(if shows_wco m then do { status \<leftarrow> strcat 200 (chars ''|WCO:'') r6;
      temp \<leftarrow> report_util_axis_values 80 (map (work_offset m) [0..<N_AXIS]) m; strcat 200 temp status } else Some r6) = Some r7"
    "length r7 \<le> (if shows_wco m then 191 else 123)"
    using c6(2) wco by (simp_all add: r7_def strcat_Some del: upt.simps)
  have c8: "(if shows_overrides m then do { status \<leftarrow> sprintf_cat 80 200 (override_text m) r7; strcat 200 (accessory_text m) status }
      else Some r7) = Some r8" "length r8 \<le> 191"
    using c7(2) override_text_length [of m] by (auto simp: r8_def strcat_Some sprintf_cat_Some shows_overrides_def split: if_splits)
  have c9: "strcat 200 (chars ''>'' @ eol) r8 = Some (r8 @ chars ''>'' @ eol)" "length (r8 @ chars ''>'' @ eol) < 200"
    using c8(2) by (simp_all add: strcat_Some)
  have "status_text client t m = r8 @ chars ''>'' @ eol"
    using assms(1) by (simp add: status_text_def b_def r8_def r7_def r6_def r5_def r4_def r3_def r2_def r1_def del: upt.simps)
  moreover have "text_realtime_status client t m = Some [(client, r8 @ chars ''>'' @ eol)]"
    unfolding text_realtime_status_def c0 bind.bind_lunit c1(1) c2(1) conjunct1 [OF pos] c3(1) c4(1) c5(1) c6(1) c7(1) c8(1) c9(1) by simp
  ultimately show ?thesis using c9(2) by simp
qed

end
