(* ===== verification/Net_Facts.thy ===== *)
theory Net_Facts
  imports Net_Buffers Interrupts_Facts
begin

text \<open>
  The network clients as queues: both receive buffers, kept as a position and a count, take messages
  whole or not at all and give them back in order (one interface, proved for each class); the poll
  gives the machine the bytes of the three sources in turn; what is sent to the websocket is
  neither lost nor reordered by its transmit buffer.
\<close>

section \<open>A buffer kept as a position and a count\<close>

definition ring_bytes :: "nat \<Rightarrow> u8 list \<Rightarrow> nat \<Rightarrow> nat \<Rightarrow> u8 list" where
  "ring_bytes cap buf pos n = map (\<lambda>i. buf ! ((pos + i) mod cap)) [0..<n]"

lemma length_ring_bytes [simp]: "length (ring_bytes cap buf pos n) = n"
  by (simp add: ring_bytes_def)

lemma length_rx_fill [simp]: "length (rx_fill cap buf current ds) = length buf"
  by (induction cap buf current ds rule: rx_fill.induct) (simp_all add: Let_def)

lemma ring_bytes_write:
  assumes "length buf = cap" "pos < cap" "n < cap"
  shows "ring_bytes cap (buf[(pos + n) mod cap := d]) pos (Suc n) = ring_bytes cap buf pos n @ [d]"
proof -
  have "(pos + n) mod cap \<noteq> (pos + i) mod cap" if "i < n" for i
    using that assms(2,3) by (auto simp: ring_add_cases)
  then have "map (\<lambda>i. buf[(pos + n) mod cap := d] ! ((pos + i) mod cap)) [0..<n] = map (\<lambda>i. buf ! ((pos + i) mod cap)) [0..<n]"
    by (intro map_cong refl nth_list_update_neq) auto
  moreover have "(pos + n) mod cap < length buf" using assms by simp
  ultimately show ?thesis by (simp add: ring_bytes_def)
qed

lemma ring_bytes_fill:
  assumes "length buf = cap" "pos < cap" "n + length ds \<le> cap" "current \<le> cap" "current mod cap = (pos + n) mod cap"
  shows "ring_bytes cap (rx_fill cap buf current ds) pos (n + length ds) = ring_bytes cap buf pos n @ ds"
  using assms
proof (induction ds arbitrary: buf n current)
  case (Cons d ds)
  let ?c = "if cap - 1 < current then 0 else current"
  have "?c = current mod cap" using Cons.prems(2,4) by (cases "current = cap") auto
  then have c: "?c = (pos + n) mod cap" using Cons.prems(5) by simp
  have m: "(?c + 1) mod cap = (pos + Suc n) mod cap" unfolding c by (simp add: mod_Suc_eq)
  have "?c < cap" unfolding c using Cons.prems(2) by simp
  then have "ring_bytes cap (rx_fill cap (buf[?c := d]) (?c + 1) ds) pos (Suc n + length ds)
      = ring_bytes cap (buf[?c := d]) pos (Suc n) @ ds"
    using Cons.prems m by (intro Cons.IH) auto
  also have "ring_bytes cap (buf[?c := d]) pos (Suc n) = ring_bytes cap buf pos n @ [d]"
    unfolding c using Cons.prems by (intro ring_bytes_write) auto
  finally show ?case by (simp add: Let_def)
qed simp

lemma rx_end_mod:
  assumes "unat pos < cap" "unat sz \<le> cap"
  shows "rx_end cap pos sz \<le> cap" "rx_end cap pos sz mod cap = (unat pos + unat sz) mod cap"
  using assms by (auto simp: rx_end_def Let_def le_mod_geq)

lemma ring_bytes_pushed:
  assumes "length buf = cap" "unat pos < cap" "length ds + unat sz \<le> cap"
  shows "ring_bytes cap (rx_fill cap buf (rx_end cap pos sz) ds) (unat pos) (unat sz + length ds)
    = ring_bytes cap buf (unat pos) (unat sz) @ ds"
  using assms rx_end_mod [of pos cap sz] by (intro ring_bytes_fill) auto

lemma ring_bytes_read:
  assumes "pos < cap" "0 < n"
  shows "ring_bytes cap buf pos n = buf ! pos # ring_bytes cap buf (if cap - 1 < pos + 1 then 0 else pos + 1) (n - 1)"
proof -
  obtain k where k: "n = Suc k" using assms(2) by (cases n) auto
  have p: "(if cap - 1 < pos + 1 then 0 else pos + 1) = Suc pos mod cap" using assms(1) by (auto simp: mod_Suc)
  have "(Suc pos mod cap + i) mod cap = (pos + Suc i) mod cap" for i by (simp add: mod_simps)
  then show ?thesis unfolding p k using assms(1)
    by (simp add: ring_bytes_def map_upt_Suc del: upt_Suc)
qed

section \<open>The interface\<close>

text \<open>Reading \<open>n\<close> times, until nothing is left.\<close>

primrec read_n :: "('s \<Rightarrow> u8 option \<times> 's) \<Rightarrow> nat \<Rightarrow> 's \<Rightarrow> u8 list \<times> 's" where
  "read_n rd 0 s = ([], s)"
| "read_n rd (Suc n) s =
     (case rd s of (None, s) \<Rightarrow> ([], s)
      | (Some b, s) \<Rightarrow> (let (bs, s) = read_n rd n s in (b # bs, s)))"

text \<open>What of a sequence of messages a queue of a given length takes: a message is taken whole or
  not at all.\<close>

fun accepted_msgs :: "nat \<Rightarrow> nat \<Rightarrow> u8 list list \<Rightarrow> u8 list" where
  "accepted_msgs cap n [] = []"
| "accepted_msgs cap n (d # ds) =
     (if length d + n \<le> cap then d @ accepted_msgs cap (length d + n) ds else accepted_msgs cap n ds)"

locale net_queue =
  fixes cap :: nat
    and wf :: "'s \<Rightarrow> bool"
    and queue :: "'s \<Rightarrow> u8 list"
    and clean :: "u8 list \<Rightarrow> u8 list"
    and push :: "u8 list \<Rightarrow> 's \<Rightarrow> bool \<times> 's"
    and rd :: "'s \<Rightarrow> u8 option \<times> 's"
  assumes bound: "wf s \<Longrightarrow> length (queue s) \<le> cap"
    and push_fits: "wf s \<Longrightarrow> length (clean d) + length (queue s) \<le> cap \<Longrightarrow>
      fst (push d s) \<and> wf (snd (push d s)) \<and> queue (snd (push d s)) = queue s @ clean d"
    and push_full: "wf s \<Longrightarrow> cap < length (clean d) + length (queue s) \<Longrightarrow> push d s = (False, s)"
    and read_empty: "wf s \<Longrightarrow> queue s = [] \<Longrightarrow> rd s = (None, s)"
    and read_first: "wf s \<Longrightarrow> queue s \<noteq> [] \<Longrightarrow>
      fst (rd s) = Some (hd (queue s)) \<and> wf (snd (rd s)) \<and> queue (snd (rd s)) = tl (queue s)"
begin

lemma read_prefix:
  "wf s \<Longrightarrow> fst (read_n rd n s) = take n (queue s) \<and> wf (snd (read_n rd n s)) \<and> queue (snd (read_n rd n s)) = drop n (queue s)"
proof (induction n arbitrary: s)
  case (Suc n)
  show ?case
  proof (cases "queue s")
    case Nil
    then show ?thesis using read_empty [OF Suc.prems] Suc.prems by simp
  next
    case (Cons b bs)
    then have r: "fst (rd s) = Some b" "wf (snd (rd s))" "queue (snd (rd s)) = bs"
      using read_first [OF Suc.prems] by simp_all
    show ?thesis using Suc.IH [OF r(2)] r Cons by (cases "rd s") (simp add: case_prod_beta Let_def)
  qed
qed simp

lemma push_all:
  "wf s \<Longrightarrow> wf (fold (\<lambda>d s. snd (push d s)) ds s)
    \<and> queue (fold (\<lambda>d s. snd (push d s)) ds s) = queue s @ accepted_msgs cap (length (queue s)) (map clean ds)"
proof (induction ds arbitrary: s)
  case (Cons d ds)
  show ?case
  proof (cases "length (clean d) + length (queue s) \<le> cap")
    case True
    then show ?thesis using push_fits [OF Cons.prems True] Cons.IH [of "snd (push d s)"] by (simp add: add.commute)
  next
    case False
    then show ?thesis using push_full [OF Cons.prems] Cons.IH [OF Cons.prems] by simp
  qed
qed simp

text \<open>First in, first out.\<close>

lemma fifo:
  "wf s \<Longrightarrow> fst (read_n rd n (fold (\<lambda>d s. snd (push d s)) ds s)) = take n (queue s @ accepted_msgs cap (length (queue s)) (map clean ds))"
  using push_all [of s ds] read_prefix by simp

end


section \<open>The two receive buffers\<close>

definition s2s_wf :: "s2s_t \<Rightarrow> bool" where
  "s2s_wf s \<longleftrightarrow> length (s2s_RXbuffer s) = RXBUFFERSIZE \<and> unat (s2s_RXbufferpos s) < RXBUFFERSIZE
     \<and> unat (s2s_RXbufferSize s) \<le> RXBUFFERSIZE"

definition s2s_queue :: "s2s_t \<Rightarrow> u8 list" where
  "s2s_queue s = ring_bytes RXBUFFERSIZE (s2s_RXbuffer s) (unat (s2s_RXbufferpos s)) (unat (s2s_RXbufferSize s))"

definition tn_wf :: "telnet_t \<Rightarrow> bool" where
  "tn_wf t \<longleftrightarrow> length (tn_RXbuffer t) = TELNET_RXBUFFERSIZE \<and> unat (tn_RXbufferpos t) < TELNET_RXBUFFERSIZE
     \<and> unat (tn_RXbufferSize t) \<le> TELNET_RXBUFFERSIZE"

definition tn_queue :: "telnet_t \<Rightarrow> u8 list" where
  "tn_queue t = ring_bytes TELNET_RXBUFFERSIZE (tn_RXbuffer t) (unat (tn_RXbufferpos t)) (unat (tn_RXbufferSize t))"

text \<open>The 16-bit counts never wrap.\<close>

lemma u16_counts:
  "unat (sz :: u16) + n \<le> 1200 \<Longrightarrow> unat (sz + of_nat n) = unat sz + n"
  "0 < (sz :: u16) \<Longrightarrow> unat (sz - 1) = unat sz - 1"
  "unat (p :: u16) < 1200 \<Longrightarrow> unat (p + 1) = unat p + 1"
proof -
  assume "unat sz + n \<le> 1200"
  then have "unat sz + n < 65536" by simp
  then show "unat (sz + of_nat n) = unat sz + n"
    by (simp add: unat_word_ariths unsigned_of_nat take_bit_nat_eq_self_iff take_bit_nat_eq_self)
qed (simp_all add: unat_minus_one word_gt_0 unat_word_ariths)

lemma net_index:
  assumes "unat (p :: u16) < cap" "cap \<le> 1200"
  shows "unat (if cap - 1 < unat (p + 1) then 0 else p + 1) = (if cap - 1 < unat p + 1 then 0 else unat p + 1)"
  using assms u16_counts(3) [of p] by simp

interpretation tn: net_queue TELNET_RXBUFFERSIZE tn_wf tn_queue "\<lambda>d. d" tn_push tn_read
proof
  fix t :: telnet_t and d :: "u8 list"
  assume wf: "tn_wf t"
  show "length (tn_queue t) \<le> TELNET_RXBUFFERSIZE" using wf by (simp add: tn_queue_def tn_wf_def)
  show "fst (tn_push d t) \<and> tn_wf (snd (tn_push d t)) \<and> tn_queue (snd (tn_push d t)) = tn_queue t @ d"
    if "length d + length (tn_queue t) \<le> TELNET_RXBUFFERSIZE"
    using that wf ring_bytes_pushed [of "tn_RXbuffer t" TELNET_RXBUFFERSIZE "tn_RXbufferpos t" d "tn_RXbufferSize t"]
    by (simp add: tn_push_def tn_queue_def tn_wf_def u16_counts)
  show "tn_push d t = (False, t)" if "TELNET_RXBUFFERSIZE < length d + length (tn_queue t)"
    using that by (simp add: tn_push_def tn_queue_def)
  show "tn_read t = (None, t)" if "tn_queue t = []"
    using that by (simp add: tn_read_def tn_queue_def ring_bytes_def word_gt_0 unat_eq_0)
  show "fst (tn_read t) = Some (hd (tn_queue t)) \<and> tn_wf (snd (tn_read t)) \<and> tn_queue (snd (tn_read t)) = tl (tn_queue t)"
    if "tn_queue t \<noteq> []"
  proof -
    have s: "0 < tn_RXbufferSize t" using that by (auto simp: tn_queue_def ring_bytes_def word_gt_0)
    then have q: "tn_queue t = tn_RXbuffer t ! unat (tn_RXbufferpos t) # ring_bytes TELNET_RXBUFFERSIZE (tn_RXbuffer t)
        (if TELNET_RXBUFFERSIZE - 1 < unat (tn_RXbufferpos t) + 1 then 0 else unat (tn_RXbufferpos t) + 1) (unat (tn_RXbufferSize t) - 1)"
      using wf unfolding tn_queue_def tn_wf_def by (intro ring_bytes_read) (simp_all add: word_gt_0 unat_gt_0)
    show ?thesis
      using s wf unfolding q
      by (simp add: tn_read_def Let_def tn_wf_def tn_queue_def net_index [of _ TELNET_RXBUFFERSIZE, simplified] u16_counts le_diff_conv)
  qed
qed

text \<open>The websocket takes C strings.\<close>

interpretation s2s: net_queue RXBUFFERSIZE s2s_wf s2s_queue c_string s2s_push s2s_read
proof
  fix s :: s2s_t and d :: "u8 list"
  assume wf: "s2s_wf s"
  show "length (s2s_queue s) \<le> RXBUFFERSIZE" using wf by (simp add: s2s_queue_def s2s_wf_def)
  show "fst (s2s_push d s) \<and> s2s_wf (snd (s2s_push d s)) \<and> s2s_queue (snd (s2s_push d s)) = s2s_queue s @ c_string d"
    if "length (c_string d) + length (s2s_queue s) \<le> RXBUFFERSIZE"
    using that wf ring_bytes_pushed [of "s2s_RXbuffer s" RXBUFFERSIZE "s2s_RXbufferpos s" "c_string d" "s2s_RXbufferSize s"]
    by (simp add: s2s_push_def s2s_queue_def s2s_wf_def u16_counts Let_def)
  show "s2s_push d s = (False, s)" if "RXBUFFERSIZE < length (c_string d) + length (s2s_queue s)"
    using that by (simp add: s2s_push_def s2s_queue_def Let_def)
  show "s2s_read s = (None, s)" if "s2s_queue s = []"
    using that by (simp add: s2s_read_def s2s_queue_def ring_bytes_def word_gt_0 unat_eq_0)
  show "fst (s2s_read s) = Some (hd (s2s_queue s)) \<and> s2s_wf (snd (s2s_read s)) \<and> s2s_queue (snd (s2s_read s)) = tl (s2s_queue s)"
    if "s2s_queue s \<noteq> []"
  proof -
    have s: "0 < s2s_RXbufferSize s" using that by (auto simp: s2s_queue_def ring_bytes_def word_gt_0)
    then have q: "s2s_queue s = s2s_RXbuffer s ! unat (s2s_RXbufferpos s) # ring_bytes RXBUFFERSIZE (s2s_RXbuffer s)
        (if RXBUFFERSIZE - 1 < unat (s2s_RXbufferpos s) + 1 then 0 else unat (s2s_RXbufferpos s) + 1) (unat (s2s_RXbufferSize s) - 1)"
      using wf unfolding s2s_queue_def s2s_wf_def by (intro ring_bytes_read) (simp_all add: word_gt_0 unat_gt_0)
    show ?thesis
      using s wf unfolding q
      by (simp add: s2s_read_def Let_def s2s_wf_def s2s_queue_def net_index [of _ RXBUFFERSIZE, simplified] u16_counts le_diff_conv)
  qed
qed

section \<open>Polling\<close>

text \<open>The bytes waiting for the poll, in the order it takes them.\<close>

definition net_bytes :: "net_t \<Rightarrow> (u8 \<times> u8) list" where
  "net_bytes n = map (Pair CLIENT_SERIAL) (net_serial_in n) @ map (Pair CLIENT_WEBSOCKET) (s2s_queue (net_ws n))
     @ map (Pair CLIENT_TELNET) (tn_queue (net_telnet n))"

definition net_wf :: "net_t \<Rightarrow> bool" where
  "net_wf n \<longleftrightarrow> s2s_wf (net_ws n) \<and> tn_wf (net_telnet n)"

lemma net_available:
  "0 < s2s_available s \<longleftrightarrow> s2s_queue s \<noteq> []" "0 < tn_available t \<longleftrightarrow> tn_queue t \<noteq> []"
  by (simp_all add: s2s_available_def s2s_queue_def tn_available_def tn_queue_def ring_bytes_def)

lemma poll_source_bytes:
  assumes "net_wf n"
  shows "case poll_source n of None \<Rightarrow> net_bytes n = [] | Some (b, n') \<Rightarrow> net_bytes n = b # net_bytes n' \<and> net_wf n'"
proof -
  have w: "s2s_wf (net_ws n)" "tn_wf (net_telnet n)" using assms by (simp_all add: net_wf_def)
  consider "net_serial_in n \<noteq> []" | "net_serial_in n = []" "s2s_queue (net_ws n) \<noteq> []"
    | "net_serial_in n = []" "s2s_queue (net_ws n) = []" by blast
  then show ?thesis
  proof cases
    case 1
    then show ?thesis using w by (cases "net_serial_in n") (simp_all add: poll_source_def net_bytes_def net_wf_def)
  next
    case 2
    note r = s2s.read_first [OF w(1) 2(2)]
    show ?thesis using r 2 w(2)
      by (cases "s2s_read (net_ws n)"; cases "s2s_queue (net_ws n)")
        (simp_all add: poll_source_def net_bytes_def net_wf_def net_available)
  next
    case 3
    then show ?thesis
    proof (cases "tn_queue (net_telnet n) = []")
      case False
      note r = tn.read_first [OF w(2) False]
      show ?thesis using r 3 False w(1)
        by (cases "tn_read (net_telnet n)"; cases "tn_queue (net_telnet n)")
          (simp_all add: poll_source_def net_bytes_def net_wf_def net_available)
    qed (simp add: poll_source_def net_bytes_def net_available)
  qed
qed

lemma poll_loop_bytes:
  assumes "net_wf n"
  shows "snd (poll_loop n m) = serial_poll_rx (net_bytes n) m \<and> net_bytes (fst (poll_loop n m)) = [] \<and> net_wf (fst (poll_loop n m))"
  using assms
proof (induction n m rule: poll_loop.induct)
  case (1 n m)
  show ?case
  proof (cases "poll_source n")
    case None
    then show ?thesis using poll_source_bytes [OF 1(2)] 1(2) by (simp add: poll_loop.simps [of n m] serial_poll_rx_def)
  next
    case (Some r)
    obtain b n' where r: "r = (b, n')" by (cases r)
    have "net_bytes n = b # net_bytes n'" "net_wf n'" using poll_source_bytes [OF 1(2)] Some r by simp_all
    then show ?thesis using 1(1) [OF Some [unfolded r]] Some r
      by (simp add: poll_loop.simps [of n m] serial_poll_rx_def)
  qed
qed

section \<open>Sending\<close>

text \<open>What the websocket was given, and what still waits for a flush.\<close>

definition s2s_pending :: "s2s_t \<Rightarrow> u8 list" where
  "s2s_pending s = take (unat (s2s_TXbufferSize s)) (s2s_TXbuffer s)"

definition s2s_stream :: "s2s_t \<Rightarrow> u8 list" where
  "s2s_stream s = concat (s2s_frames s) @ s2s_pending s"

definition s2s_tx_wf :: "s2s_t \<Rightarrow> bool" where
  "s2s_tx_wf s \<longleftrightarrow> length (s2s_TXbuffer s) = TXBUFFERSIZE \<and> unat (s2s_TXbufferSize s) \<le> TXBUFFERSIZE"

lemma flush_stream:
  assumes "s2s_tx_wf s" "0 < clients"
  shows "s2s_stream (s2s_flush clients now s) = s2s_stream s" "s2s_tx_wf (s2s_flush clients now s)"
    "s2s_TXbufferSize (s2s_flush clients now s) = 0" "s2s_web_socket (s2s_flush clients now s) = s2s_web_socket s"
  using assms by (auto simp: s2s_flush_def s2s_stream_def s2s_pending_def s2s_tx_wf_def word_gt_0 Let_def)

lemma handle_flush_stream:
  assumes "s2s_tx_wf s" "0 < clients"
  shows "s2s_stream (s2s_handle_flush clients clk s) = s2s_stream s" "s2s_tx_wf (s2s_handle_flush clients clk s)"
    "s2s_web_socket (s2s_handle_flush clients clk s) = s2s_web_socket s"
  using flush_stream [OF assms] assms by (simp_all add: s2s_handle_flush_def)

lemma append_stream:
  assumes "s2s_tx_wf s" "unat (s2s_TXbufferSize s) + length bs \<le> TXBUFFERSIZE"
  shows "\<exists>s'. s2s_append bs s = Some s' \<and> s2s_stream s' = s2s_stream s @ bs \<and> s2s_tx_wf s'
    \<and> s2s_web_socket s' = s2s_web_socket s"
  using assms
proof (induction bs arbitrary: s)
  case (Cons b bs)
  let ?n = "unat (s2s_TXbufferSize s)"
  let ?s = "s\<lparr>s2s_TXbuffer := (s2s_TXbuffer s)[?n := b], s2s_TXbufferSize := s2s_TXbufferSize s + 1\<rparr>"
  have n: "?n < TXBUFFERSIZE" "unat (s2s_TXbufferSize s + 1) = Suc ?n" using Cons.prems(2) u16_counts(3) [of "s2s_TXbufferSize s"] by simp_all
  then have st: "s2s_stream ?s = s2s_stream s @ [b]" "s2s_tx_wf ?s"
    using Cons.prems(1) by (simp_all add: s2s_stream_def s2s_pending_def s2s_tx_wf_def take_Suc_conv_app_nth)
  show ?case using Cons.IH [OF st(2)] Cons.prems(2) n st(1) by simp
qed simp

lemma append_overrun:
  assumes "unat (s2s_TXbufferSize s) \<le> TXBUFFERSIZE" "TXBUFFERSIZE < unat (s2s_TXbufferSize s) + length bs"
  shows "s2s_append bs s = None"
  using assms
proof (induction bs arbitrary: s)
  case (Cons b bs)
  show ?case
  proof (cases "unat (s2s_TXbufferSize s) < TXBUFFERSIZE")
    case True
    then have "unat (s2s_TXbufferSize s + 1) = Suc (unat (s2s_TXbufferSize s))" using u16_counts(3) by simp
    then show ?thesis using True Cons.prems(2) by (simp add: Cons.IH)
  qed simp
qed simp

lemma write_stream:
  assumes "s2s_tx_wf s" "0 < clients" "s2s_web_socket s" "length bs \<le> TXBUFFERSIZE"
  shows "\<exists>s'. s2s_write clients clk bs s = Some (length bs, s') \<and> s2s_stream s' = s2s_stream s @ bs \<and> s2s_tx_wf s'
    \<and> s2s_web_socket s'"
proof -
  define a where "a = (if s2s_TXbufferSize s = 0 then s\<lparr>s2s_lastflush := clk 0\<rparr> else s)"
  have a: "s2s_tx_wf a" "s2s_stream a = s2s_stream s" "s2s_web_socket a"
    using assms(1,3) by (simp_all add: a_def s2s_tx_wf_def s2s_stream_def s2s_pending_def)
  define b where "b = (if TXBUFFERSIZE < unat (s2s_TXbufferSize a) + length bs then s2s_flush clients (clk 1) a else a)"
  have b: "s2s_tx_wf b" "s2s_stream b = s2s_stream s" "s2s_web_socket b" "unat (s2s_TXbufferSize b) + length bs \<le> TXBUFFERSIZE"
    using flush_stream [OF a(1) assms(2)] a assms(4) by (simp_all add: b_def)
  obtain c where c: "s2s_append bs b = Some c" "s2s_stream c = s2s_stream s @ bs" "s2s_tx_wf c" "s2s_web_socket c"
    using append_stream [OF b(1,4)] b(2,3) by auto
  have "s2s_write clients clk bs s = Some (length bs, s2s_handle_flush clients (\<lambda>n. clk (n + 2)) c)"
    using assms(3) c(1) by (simp add: s2s_write_def Let_def a_def [symmetric] b_def [symmetric])
  then show ?thesis using handle_flush_stream [OF c(3) assms(2)] c(2,4) by simp
qed

lemma write_overrun:
  assumes "s2s_tx_wf s" "s2s_web_socket s" "TXBUFFERSIZE < length bs"
  shows "s2s_write clients clk bs s = None"
proof -
  have "s2s_append bs k = None" if "unat (s2s_TXbufferSize k) \<le> TXBUFFERSIZE" for k
    using append_overrun [OF that] assms(3) by simp
  moreover have "unat (s2s_TXbufferSize (s2s_flush clients now k)) \<le> TXBUFFERSIZE" if "unat (s2s_TXbufferSize k) \<le> TXBUFFERSIZE" for now k
    using that by (simp add: s2s_flush_def Let_def)
  ultimately show ?thesis using assms by (simp add: s2s_write_def Let_def s2s_tx_wf_def)
qed

lemma tn_write_sent:
  assumes "length (tn_clients t) = MAX_TELNET_CLIENTS"
  shows "tn_sent (snd (tn_write is_connected tcp_write bs t)) = tn_sent t @
    (if tn_setupdone t \<and> tn_server t then map (\<lambda>c. (c, bs)) (filter is_connected (map the (filter (\<lambda>c. c \<noteq> None) (tn_clients t)))) else [])"
proof -
  obtain c where "tn_clients t = [c]" using assms by (cases "tn_clients t") auto
  then show ?thesis by (cases c) (simp_all add: tn_write_def)
qed

lemma grbl_send_all:
  assumes "s2s_tx_wf (net_ws n)" "0 < env_ws_clients e" "s2s_web_socket (net_ws n)" "length text \<le> TXBUFFERSIZE"
  obtains n' where "grbl_send e CLIENT_ALL text n = Some n'" "s2s_stream (net_ws n') = s2s_stream (net_ws n) @ text"
    "net_serial_out n' = net_serial_out n @ text" "s2s_tx_wf (net_ws n')"
    "net_telnet n' = snd (tn_write (env_connected e) (env_tcp_write e) text (net_telnet n))"
proof -
  obtain s where s: "s2s_write (env_ws_clients e) (env_clock e) text (net_ws n) = Some (length text, s)"
    "s2s_stream s = s2s_stream (net_ws n) @ text" "s2s_tx_wf s"
    using write_stream [OF assms] by blast
  then show thesis by (intro that) (auto simp: grbl_send_def Let_def)
qed

section \<open>Starting the network\<close>

lemma wifi_wait_ends: "wifi_wait statuses = None \<longleftrightarrow> True \<notin> set statuses"
  by (induction statuses) auto

text \<open>Once connected, both clients can be served.\<close>

lemma wifi_init_ready:
  assumes "True \<in> set statuses" "\<not> s2s_web_socket (net_ws n)"
  shows "\<exists>n'. wifi_init e statuses ip n = Some n' \<and> s2s_web_socket (net_ws n')
    \<and> tn_setupdone (net_telnet n') \<and> tn_server (net_telnet n') \<and> tn_queue (net_telnet n') = []"
proof -
  obtain rest where w: "wifi_wait statuses = Some rest" using wifi_wait_ends [of statuses] assms(1) by auto
  have "tn_write c t bs x = (0, x)" if "\<not> tn_setupdone x" for c t bs x
    using that by (simp add: tn_write_def)
  then show ?thesis using assms(2)
    by (simp add: wifi_init_def w tn_begin_def tn_end_def Let_def grbl_send_def s2s_write_def websocket_init_def s2s_attachWS_def
        tn_queue_def ring_bytes_def)
qed

end
