(* ===== verification/Output_Properties.thy ===== *)
theory Output_Properties
  imports Report_Facts Net_Facts
begin

text \<open>
  Properties of what the firmware takes from its network clients and of the reports it sends.
\<close>

section \<open>The network clients\<close>

text \<open>A network with one websocket and one telnet client and empty buffers.\<close>

definition net0 :: net_t where
  "net0 = \<lparr>net_serial_in = [], net_serial_out = [],
     net_ws = \<lparr>s2s_web_socket = True, s2s_lastflush = 0, s2s_TXbuffer = replicate TXBUFFERSIZE 0, s2s_TXbufferSize = 0,
       s2s_RXbuffer = replicate RXBUFFERSIZE 0, s2s_RXbufferSize = 0, s2s_RXbufferpos = 0, s2s_frames = []\<rparr>,
     net_telnet = \<lparr>tn_setupdone = True, tn_server = True, tn_port = TELNET_SERVER_PORT, tn_clients = [Some 7],
       tn_RXbuffer = replicate TELNET_RXBUFFERSIZE 0, tn_RXbufferSize = 0, tn_RXbufferpos = 0, tn_sent = [], tn_stopped = []\<rparr>\<rparr>"

definition env0 :: net_env where
  "env0 = \<lparr>env_ws_clients = 1, env_clock = (\<lambda>n. of_nat n), env_connected = (\<lambda>c. True), env_tcp_write = (\<lambda>c bs. length bs)\<rparr>"

lemma net0_wf: "net_wf net0" "net_serial_in net0 = []" "s2s_queue (net_ws net0) = []" "tn_queue (net_telnet net0) = []"
  by (simp_all add: net0_def net_wf_def s2s_wf_def tn_wf_def s2s_queue_def tn_queue_def ring_bytes_def)

text \<open>C18. Whatever messages the websocket and telnet clients send, the poll hands the machine the
  bytes of the serial port and of every message that found room, whole and in order, each with its
  client, and leaves nothing waiting.\<close>

theorem network_messages_reach_machine:
  assumes "net_wf n"
  shows "let n' = n\<lparr>net_ws := fold (\<lambda>d s. snd (s2s_push d s)) ws_msgs (net_ws n),
              net_telnet := fold (\<lambda>d t. snd (tn_push d t)) tn_msgs (net_telnet n)\<rparr>;
            ws = s2s_queue (net_ws n); tn = tn_queue (net_telnet n)
    in snd (poll_loop n' m) = serial_poll_rx
          (map (Pair CLIENT_SERIAL) (net_serial_in n)
           @ map (Pair CLIENT_WEBSOCKET) (ws @ accepted_msgs RXBUFFERSIZE (length ws) (map c_string ws_msgs))
           @ map (Pair CLIENT_TELNET) (tn @ accepted_msgs TELNET_RXBUFFERSIZE (length tn) tn_msgs)) m
       \<and> net_bytes (fst (poll_loop n' m)) = []"
proof -
  let ?n = "n\<lparr>net_ws := fold (\<lambda>d s. snd (s2s_push d s)) ws_msgs (net_ws n),
    net_telnet := fold (\<lambda>d t. snd (tn_push d t)) tn_msgs (net_telnet n)\<rparr>"
  have wf: "s2s_wf (net_ws n)" "tn_wf (net_telnet n)" using assms by (simp_all add: net_wf_def)
  note p = s2s.push_all [OF wf(1), of ws_msgs] tn.push_all [OF wf(2), of tn_msgs]
  have "net_wf ?n" using p by (simp add: net_wf_def)
  then show ?thesis using poll_loop_bytes [of ?n m] p by (simp add: Let_def net_bytes_def)
qed

text \<open>A status request from the websocket and a feed hold from telnet.\<close>

lemma network_messages_reach_machine_witness:
  "\<exists>n'. snd (poll_loop n' machine0) = serial_poll_rx [(CLIENT_WEBSOCKET, CMD_STATUS_REPORT), (CLIENT_TELNET, CMD_FEED_HOLD)] machine0
     \<and> net_bytes (fst (poll_loop n' machine0)) = []"
proof -
  have c: "c_string [CMD_STATUS_REPORT, 0] = [CMD_STATUS_REPORT]" by (simp add: c_string_def)
  show ?thesis
    using network_messages_reach_machine [OF net0_wf(1), where ws_msgs = "[[CMD_STATUS_REPORT, 0]]" and tn_msgs = "[[CMD_FEED_HOLD]]" and m = machine0]
    unfolding Let_def net0_wf(2-4) by (auto simp: c simp del: fold.simps)
qed

text \<open>C36. A report for all clients whose text fits the websocket's transmit buffer is sent to
  each: it is appended to the serial port, to the websocket's stream (frames sent and bytes still
  buffered), and given to the telnet client when one is connected.\<close>

theorem report_reaches_all_clients:
  assumes "text_of (net_telnet n) r m = Some [(CLIENT_ALL, text)]" "length text \<le> TXBUFFERSIZE"
    "s2s_tx_wf (net_ws n)" "0 < env_ws_clients e" "s2s_web_socket (net_ws n)"
    "tn_clients (net_telnet n) = [Some c]" "tn_setupdone (net_telnet n)" "tn_server (net_telnet n)"
  shows "\<exists>n'. send_report e r m n = Some n' \<and> net_serial_out n' = net_serial_out n @ text
    \<and> s2s_stream (net_ws n') = s2s_stream (net_ws n) @ text
    \<and> tn_sent (net_telnet n') = tn_sent (net_telnet n) @ (if env_connected e c then [(c, text)] else [])"
proof -
  obtain n' where n': "grbl_send e CLIENT_ALL text n = Some n'" "s2s_stream (net_ws n') = s2s_stream (net_ws n) @ text"
    "net_serial_out n' = net_serial_out n @ text"
    "net_telnet n' = snd (tn_write (env_connected e) (env_tcp_write e) text (net_telnet n))"
    by (rule grbl_send_all [OF assms(3-5,2)])
  have "tn_sent (net_telnet n') = tn_sent (net_telnet n) @ (if env_connected e c then [(c, text)] else [])"
    unfolding n'(4) using tn_write_sent [of "net_telnet n"] assms(6-8) by simp
  then show ?thesis using n' assms(1) by (simp add: send_report_def)
qed

text \<open>\<^verbatim>\<open>ALARM:2\<close>\<close>

lemma report_reaches_all_clients_witness:
  "\<exists>n'. send_report env0 (Alarm_message 2) machine0 net0 = Some n'
     \<and> net_serial_out n' = [65, 76, 65, 82, 77, 58, 50, 13, 10] \<and> tn_sent (net_telnet n') = [(7, [65, 76, 65, 82, 77, 58, 50, 13, 10])]"
proof -
  have t: "text_of (net_telnet net0) (Alarm_message 2) machine0 = Some [(CLIENT_ALL, [65, 76, 65, 82, 77, 58, 50, 13, 10])]"
    by (simp add: text_alarm_message_def) code_simp
  have n: "tn_clients (net_telnet net0) = [Some 7]" "tn_setupdone (net_telnet net0)" "tn_server (net_telnet net0)"
    "s2s_web_socket (net_ws net0)" "s2s_tx_wf (net_ws net0)" "0 < env_ws_clients env0"
    by (simp_all add: net0_def env0_def s2s_tx_wf_def)
  show ?thesis
    using report_reaches_all_clients [OF t _ n(5,6,4,1-3)] by (auto simp: env0_def net0_def)
qed

section \<open>The settings report\<close>



text \<open>C33. The settings report is the list of all settings, within its arrays, when every value has
  at most eight digits before the point (seven and a sign). A step rate of nine digits is accepted by
  \<^verbatim>\<open>$100=\<close> to \<^verbatim>\<open>$107=\<close>, and the next report writes behind the line it formats.\<close>

theorem settings_report_bounds:
  "((\<forall>x\<in>set (printed_settings (settings m)). setting_fits x) \<longrightarrow>
      text_grbl_settings client (settings m) = Some [(client, concat (general_lines (settings m) @ axis_lines (settings m)))]
      \<and> length (concat (general_lines (settings m) @ axis_lines (settings m))) < 1000)
   \<and> (settings_wf (settings m) \<and> idx < N_AXIS \<and> f32_dec x = (False, Fin q) \<and> 10 ^ 8 \<le> q \<longrightarrow>
      (\<exists>m'. settings_store_global_setting (100 + of_nat idx) x m = Some (STATUS_OK, m')
         \<and> text_grbl_settings client (settings m') = None))"
proof (intro conjI impI)
  assume "\<forall>x\<in>set (printed_settings (settings m)). setting_fits x"
  note settings_report_fits [OF this]
  then show "text_grbl_settings client (settings m) = Some [(client, concat (general_lines (settings m) @ axis_lines (settings m)))]"
    "length (concat (general_lines (settings m) @ axis_lines (settings m))) < 1000" by blast+
next
  assume "settings_wf (settings m) \<and> idx < N_AXIS \<and> f32_dec x = (False, Fin q) \<and> 10 ^ 8 \<le> q"
  then show "\<exists>m'. settings_store_global_setting (100 + of_nat idx) x m = Some (STATUS_OK, m')
      \<and> text_grbl_settings client (settings m') = None"
    using stored_steps_overrun by blast
qed

text \<open>All settings 0, and then 100000000 steps per millimetre.\<close>

lemma settings_report_bounds_witness:
  "(\<exists>t. text_grbl_settings CLIENT_SERIAL (settings machine0) = Some [(CLIENT_SERIAL, t)] \<and> length t < 1000)
   \<and> (\<exists>m'. settings_store_global_setting 100 0x4CBEBC20 machine0 = Some (STATUS_OK, m')
         \<and> text_grbl_settings CLIENT_SERIAL (settings m') = None)"
proof -
  have "setting_fits 0" "setting_fits (f32_div 0 (f32_of_int 3600))" "setting_fits (f32_neg 0)" by code_simp+
  then have "setting_fits (axis_setting_value k j settings0)" if "j < N_AXIS" for k j
    using that by (simp add: axis_setting_value_def settings0_def)
  moreover have s0: "junction_deviation settings0 = 0" "arc_tolerance settings0 = 0" "homing_feed_rate settings0 = 0"
    "homing_seek_rate settings0 = 0" "homing_pulloff settings0 = 0" "rpm_max settings0 = 0" "rpm_min settings0 = 0"
    by (simp_all add: settings0_def)
  ultimately have z: "\<forall>x\<in>set (printed_settings (settings machine0)). setting_fits x"
    using \<open>setting_fits 0\<close> s0 by (auto simp: printed_settings_def machine0_def simp del: upt.simps)
  have x: "f32_dec 0x4CBEBC20 = (False, Fin 100000000)" by code_simp
  have "settings_wf (settings machine0)" by (simp add: settings_wf_def machine0_def settings0_def)
  then show ?thesis using settings_report_bounds [of machine0 CLIENT_SERIAL 0 "0x4CBEBC20" 100000000] z x by simp
qed

section \<open>The probe report\<close>





end
