(* ===== verification/Float_Int.thy ===== *)
theory Float_Int
  imports Float_Order "HOL-Library.Log_Nat"
begin

text \<open>
  Whole numbers in \<open>float\<close>: those below \<open>2 ^ 24\<close> are kept by an encoding, so that sums and
  differences of small counts are exact, a number beyond stays beyond when it is rounded, and
  a count divided by a positive number keeps its sign.
\<close>

section \<open>The bits of a whole number\<close>

lemma rat_exp_nat:
  assumes "2 ^ e \<le> n" "n < 2 ^ Suc e"
  shows "rat_exp n 1 = int e"
proof -
  have b: "2 ^ e \<le> int n" "int n < 2 ^ Suc e"
    using assms by (metis of_nat_le_iff of_nat_less_iff of_nat_numeral of_nat_power)+
  have n: "0 < int n" using b(1) zero_less_power [of "2 :: int" e] by linarith
  have "bitlen (int n) = int e + 1"
  proof (rule antisym)
    show "bitlen (int n) \<le> int e + 1"
      using b(2) bitlen_le_iff_power [of "int n" "int (Suc e)"] by (simp only: nat_int) simp
    show "int e + 1 \<le> bitlen (int n)"
      using b(1) bitlen_le_iff_power [of "int n" "int e"] by (simp only: nat_int) linarith
  qed
  moreover have "bitlen (int 1) = 1" by code_simp
  ultimately show ?thesis
    using assms by (simp only: rat_exp_def) (simp add: nat_add_distrib)
qed

lemma f32_dec_word:
  assumes "0 \<le> n" "n < 255 * 2 ^ 23"
  shows "f32_dec (word_of_int (n + (if s then 2 ^ 31 else 0))) =
    (s, Fin ((if s then - 1 else 1) *
      (if n < 2 ^ 23 then of_int n / 2 ^ 149
       else if n < 150 * 2 ^ 23 then of_int (n mod 2 ^ 23 + 2 ^ 23) / 2 ^ nat (150 - n div 2 ^ 23)
       else of_int (n mod 2 ^ 23 + 2 ^ 23) * 2 ^ nat (n div 2 ^ 23 - 150))))"
proof -
  let ?w = "word_of_int (n + (if s then 2 ^ 31 else 0)) :: f32"
  have w: "uint (word_of_int x :: f32) = x" if "0 \<le> x" "x < 2 ^ 32" for x
    using that by (simp add: uint_word_of_int)
  have u: "uint ?w = n + (if s then 2 ^ 31 else 0)"
    by (rule w) (use assms in auto)
  have d: "(n + (if s then 2 ^ 31 else 0)) div 2 ^ 23 mod 256 = n div 2 ^ 23"
    "(n + (if s then 2 ^ 31 else 0)) mod 2 ^ 23 = n mod 2 ^ 23"
  proof -
    have p: "n + (2 :: int) ^ 31 = n + 256 * 2 ^ 23" by simp
    have q: "(n + 256 * 2 ^ 23) div 2 ^ 23 = 256 + n div 2 ^ 23" "(n + 256 * 2 ^ 23) mod 2 ^ 23 = n mod 2 ^ 23"
      by (rule div_mult_self1, simp) (rule mod_mult_self1)
    have "n div 2 ^ 23 mod 256 = n div 2 ^ 23" using assms by simp
    moreover from this have "(256 + n div 2 ^ 23) mod 256 = n div 2 ^ 23" by simp
    ultimately show "(n + (if s then 2 ^ 31 else 0)) div 2 ^ 23 mod 256 = n div 2 ^ 23"
      by (cases s) (simp_all only: p q if_True if_False add_0_right)
    show "(n + (if s then 2 ^ 31 else 0)) mod 2 ^ 23 = n mod 2 ^ 23"
      by (cases s) (simp_all only: p q if_True if_False add_0_right)
  qed
  have e: "n div 2 ^ 23 \<noteq> 255" using assms by auto
  have e0: "n div 2 ^ 23 = 0 \<longleftrightarrow> n < 2 ^ 23" using assms by auto
  have e1: "150 \<le> n div 2 ^ 23 \<longleftrightarrow> \<not> n < 150 * 2 ^ 23" using assms by auto
  have r: "(2 ^ 31 \<le> n + (if s then 2 ^ 31 else 0)) = s"
    "(n + (if s then 2 ^ 31 else 0) < 2 ^ 31) = (\<not> s)" using assms by (cases s; simp)+
  have z: "n mod 2 ^ 23 = n" if "n < 2 ^ 23" using assms that by simp
  show ?thesis
    unfolding f32_dec_def Let_def u d r e0 e1 if_not_P [OF e]
    by (cases s; cases "n < 2 ^ 23"; cases "n < 150 * 2 ^ 23"; simp only: z if_True if_False not_True_eq_False not_False_eq_True; simp add: algebra_simps)
qed

lemma mag_bits_int:
  assumes "2 ^ e \<le> n" "n < 2 ^ Suc e" "e \<le> 23"
  shows "mag_bits 24 (- 149) n 1 = (int e + 126) * 2 ^ 23 + int n * 2 ^ (23 - e)"
proof -
  have k: "max (- 149) (rat_exp n 1 - int (24 - 1)) = int e - 23"
    using rat_exp_nat [OF assms(1,2)] by simp
  have "rne (n * 2 ^ j) 1 = n * 2 ^ j" for j by (simp add: rne_def)
  moreover have "nat (- (int e - 23)) = 23 - e" by simp
  moreover have "rne n (1 * 2 ^ nat (int e - 23)) = n" if "e = 23" using that by (simp add: rne_def)
  ultimately show ?thesis
    using assms(3) unfolding mag_bits_def k Let_def
    by (cases "e = 23") (simp_all add: algebra_simps)
qed

lemma f32_bits_int:
  assumes "0 < n" "n < 2 ^ 24"
  shows "f32_dec (f32_bits s n 1) = (s, Fin (if s then - of_nat n else of_nat n))"
proof -
  obtain e where e: "2 ^ e \<le> n" "n < 2 ^ Suc e"
    using ex_power_ivl1 [of 2 n] assms(1) by auto
  then have e23: "e \<le> 23"
    using assms(2) power_less_imp_less_exp [of "2 :: nat" e 24] by simp
  let ?M = "int n * 2 ^ (23 - e)" and ?N = "(int e + 126) * 2 ^ 23 + int n * 2 ^ (23 - e)"
  have "int (2 ^ e) \<le> int n" "int n < int (2 ^ Suc e)" using e by (simp_all only: of_nat_le_iff of_nat_less_iff)
  then have "2 ^ e * 2 ^ (23 - e) \<le> ?M" "?M < 2 ^ Suc e * 2 ^ (23 - e)"
    by (simp_all only: of_nat_power of_nat_numeral mult_right_mono mult_strict_right_mono zero_le_power zero_less_power zero_less_numeral zero_le_numeral)
  moreover have "(2 :: int) ^ e * 2 ^ (23 - e) = 2 ^ 23" "(2 :: int) ^ Suc e * 2 ^ (23 - e) = 2 ^ 24"
    using e23 by (simp_all only: flip: power_add) simp_all
  ultimately have M: "2 ^ 23 \<le> ?M" "?M < 2 ^ 24" by (simp_all only:)
  have N: "0 \<le> ?N" "?N < 255 * 2 ^ 23" using M e23 by simp_all
  have bits: "f32_bits s n 1 = word_of_int (?N + (if s then 2 ^ 31 else 0))"
    using assms(1) N mag_bits_int [OF e e23] by (simp add: f32_bits_def Let_def)
  define f where "f = ?M - 2 ^ 23"
  have f: "?M = 2 ^ 23 + f" "0 \<le> f" "f < 2 ^ 23" using M by (simp_all add: f_def)
  have nz: "(2 :: int) ^ 23 \<noteq> 0" by simp
  have Nf: "?N = f + (int e + 127) * 2 ^ 23" using f(1) by simp
  have d: "?N div 2 ^ 23 = int e + 127" "?N mod 2 ^ 23 + 2 ^ 23 = ?M"
    unfolding Nf div_mult_self1 [OF nz] mod_mult_self1 using f by simp_all
  have v: "of_int ?M / 2 ^ (23 - e) = (of_nat n :: rat)" by simp
  show ?thesis
  proof (cases "e = 23")
    case True
    then have "\<not> ?N < 150 * 2 ^ 23" "\<not> ?N < 2 ^ 23" using M by simp_all
    then show ?thesis unfolding bits f32_dec_word [OF N] d using True by simp
  next
    case False
    then have "?N < 150 * 2 ^ 23" "\<not> ?N < 2 ^ 23" "nat (150 - (int e + 127)) = 23 - e" using M e23 by simp_all
    then show ?thesis unfolding bits f32_dec_word [OF N] d using v by simp
  qed
qed

text \<open>Whole numbers of at most 24 bits are floats.\<close>

lemma f32_enc_int:
  assumes "\<bar>i\<bar> < 2 ^ 24"
  shows "f32_dec (f32_enc (s, Fin (of_int i))) = (if i = 0 then s else i < 0, Fin (of_int i))"
proof (cases "i = 0")
  case True
  have "f32_dec 0 = (False, Fin 0)" "f32_dec 0x80000000 = (True, Fin 0)" by code_simp+
  then show ?thesis using True by (simp add: f32_bits_def)
next
  case False
  then have "f32_enc (s, Fin (of_int i)) = f32_bits (i < 0) (nat \<bar>i\<bar>) 1"
    by (simp add: quotient_of_int)
  moreover have "0 < nat \<bar>i\<bar>" "nat \<bar>i\<bar> < 2 ^ 24" using False assms by auto
  ultimately show ?thesis using False f32_bits_int [of "nat \<bar>i\<bar>" "i < 0"] by auto
qed

lemma f32_of_int_exact: "\<bar>i\<bar> < 2 ^ 24 \<Longrightarrow> f32_dec (f32_of_int i) = (i < 0, Fin (of_int i))"
  unfolding f32_of_int_def by (subst f32_enc_int) auto

text \<open>Numbers beyond stay beyond when they are rounded.\<close>

lemma f32_bits_big:
  assumes "2 ^ 24 \<le> n"
  shows "f32_dec (f32_bits s n 1) = (s, Infty)
    \<or> (\<exists>q. f32_dec (f32_bits s n 1) = (s, Fin (if s then - q else q)) \<and> 2 ^ 24 \<le> q)"
proof -
  obtain e where e: "2 ^ e \<le> n" "n < 2 ^ Suc e"
    using ex_power_ivl1 [of 2 n] assms by auto
  have "2 ^ 24 < (2 :: nat) ^ Suc e" using e(2) assms by linarith
  then have e24: "24 \<le> e" using power_less_imp_less_exp [of "2 :: nat" 24 "Suc e"] by simp
  let ?m = "rne n (2 ^ (e - 23))"
  have "(2 :: nat) ^ 23 * 2 ^ (e - 23) = 2 ^ e" using e24 power_add [of "2 :: nat" 23 "e - 23"] by simp
  then have "2 ^ 23 * 2 ^ (e - 23) \<le> n" using e(1) by (simp only:)
  then have "2 ^ 23 \<le> n div 2 ^ (e - 23)" by (simp add: less_eq_div_iff_mult_less_eq)
  then have m: "2 ^ 23 \<le> int ?m" by (simp add: rne_def Let_def)
  have k: "max (- 149) (rat_exp n 1 - int (24 - 1)) = int (e - 23)"
    using rat_exp_nat [OF e] e24 by simp
  have bits: "mag_bits 24 (- 149) n 1 = (int (e - 23) + 149) * 2 ^ 23 + int ?m"
    unfolding mag_bits_def k Let_def by simp
  let ?N = "min (mag_bits 24 (- 149) n 1) 0x7F800000"
  have N: "151 * 2 ^ 23 \<le> ?N" "?N \<le> 255 * 2 ^ 23" using m e24 unfolding bits by simp_all
  have w: "f32_bits s n 1 = word_of_int (?N + (if s then 2 ^ 31 else 0))"
    using assms by (simp add: f32_bits_def Let_def)
  show ?thesis
  proof (cases "?N = 255 * 2 ^ 23")
    case True
    have "f32_dec 0x7F800000 = (False, Infty)" "f32_dec 0xFF800000 = (True, Infty)" by code_simp+
    then have "f32_dec (f32_bits s n 1) = (s, Infty)" unfolding w True by (cases s) simp_all
    then show ?thesis ..
  next
    case False
    then have b: "0 \<le> ?N" "?N < 255 * 2 ^ 23" "\<not> ?N < 2 ^ 23" "\<not> ?N < 150 * 2 ^ 23" using N by simp_all
    let ?q = "of_int (?N mod 2 ^ 23 + 2 ^ 23) * 2 ^ nat (?N div 2 ^ 23 - 150) :: rat"
    have "151 \<le> ?N div 2 ^ 23" using N(1) by simp
    then have "(2 :: rat) ^ 1 \<le> 2 ^ nat (?N div 2 ^ 23 - 150)" by (intro power_increasing) simp_all
    moreover have "(2 :: rat) ^ 23 \<le> of_int (?N mod 2 ^ 23 + 2 ^ 23)" by simp
    ultimately have "2 ^ 23 * 2 ^ 1 \<le> ?q" by (intro mult_mono) simp_all
    then have "2 ^ 24 \<le> ?q" by simp
    then show ?thesis unfolding w f32_dec_word [OF b(1,2)] using b(3,4) by auto
  qed
qed

lemma f32_enc_int_inverse:
  assumes "f32_dec (f32_enc (s, Fin (of_int i))) = (t, Fin q)" "\<bar>q\<bar> < 2 ^ 24"
  shows "q = of_int i"
proof (cases "\<bar>i\<bar> < 2 ^ 24")
  case True
  then show ?thesis using assms(1) f32_enc_int [OF True, of s] by simp
next
  case False
  then have "f32_enc (s, Fin (of_int i)) = f32_bits (i < 0) (nat \<bar>i\<bar>) 1" "2 ^ 24 \<le> nat \<bar>i\<bar>"
    by (auto simp: quotient_of_int)
  then show ?thesis using f32_bits_big [of "nat \<bar>i\<bar>" "i < 0"] assms by (auto split: if_splits)
qed

text \<open>The difference of two small counts is exact.\<close>

lemma f32_sub_int:
  assumes "f32_dec x = (s, Fin (of_int a))" "f32_dec y = (t, Fin (of_int b))" "\<bar>a - b\<bar> < 2 ^ 24"
  shows "snd (f32_dec (f32_sub x y)) = Fin (of_int (a - b))"
proof -
  have "\<exists>u. fpd_add (f32_dec x) (fpd_neg (f32_dec y)) = (u, Fin (of_int (a - b)))"
    unfolding assms(1,2) by auto
  then show ?thesis using f32_enc_int [OF assms(3)] by (auto simp: f32_sub_def)
qed

section \<open>The sign of a quotient\<close>

lemma f32_dec_bound:
  assumes "f32_dec y = (t, Fin q)"
  shows "\<bar>q\<bar> < 2 ^ 128"
proof -
  define e m where "e = uint y div 2 ^ 23 mod 256" and "m = uint y mod 2 ^ 23"
  have m: "0 \<le> m" "m < 2 ^ 23" by (simp_all add: m_def)
  have e: "0 \<le> e" "e < 256" by (simp_all add: e_def)
  define g :: int where "g = (if uint y < 2 ^ 31 then 1 else - 1)"
  have g: "\<bar>g\<bar> = 1" by (simp add: g_def)
  have "(if e = 255 then (if m = 0 then Infty else NotNum)
          else if e = 0 then Fin (if m = 0 then 0 else of_int (g * m) / of_int (2 ^ 149))
          else if 150 \<le> e then Fin (of_int (g * (m + 2 ^ 23) * 2 ^ nat (e - 150)))
          else Fin (of_int (g * (m + 2 ^ 23)) / of_int (2 ^ nat (150 - e)))) = Fin q"
    using assms unfolding f32_dec_def Let_def e_def m_def g_def by (simp only: prod.inject)
  then have q: "e \<noteq> 255" "q = (if e = 0 then (if m = 0 then 0 else of_int (g * m) / of_int (2 ^ 149))
      else if 150 \<le> e then of_int (g * (m + 2 ^ 23) * 2 ^ nat (e - 150))
      else of_int (g * (m + 2 ^ 23)) / of_int (2 ^ nat (150 - e)))"
    by (auto split: if_splits)
  have b: "\<bar>of_int (g * i) / 2 ^ k\<bar> < (2 :: rat) ^ 128" if "0 \<le> i" "i < 2 ^ 24" for i k
  proof -
    have "\<bar>of_int (g * i) / 2 ^ k\<bar> = (of_int \<bar>g * i\<bar> :: rat) / 2 ^ k" by (simp only: abs_divide of_int_abs power_abs abs_numeral)
    also have "\<dots> \<le> of_int \<bar>g * i\<bar> / 1" by (intro divide_left_mono) simp_all
    also have "\<dots> < 2 ^ 128" using that g by (simp add: abs_mult)
    finally show ?thesis .
  qed
  show ?thesis
  proof (cases "150 \<le> e")
    case True
    define i where "i = (m + 2 ^ 23) * 2 ^ nat (e - 150)"
    have "q = of_int (g * i)" using q(2) True by (simp add: i_def mult.assoc)
    moreover have "0 \<le> i" using m by (simp add: i_def)
    ultimately have "\<bar>q\<bar> = of_int i" using g by (simp add: abs_mult flip: of_int_abs)
    then have "\<bar>q\<bar> = of_int ((m + 2 ^ 23) * 2 ^ nat (e - 150))" by (simp only: i_def)
    also have "\<dots> < of_int (2 ^ 24 * 2 ^ 104)"
    proof -
      have "(2 :: int) ^ nat (e - 150) \<le> 2 ^ 104" using e q(1) by (intro power_increasing) simp_all
      then have "(m + 2 ^ 23) * 2 ^ nat (e - 150) < 2 ^ 24 * 2 ^ 104" using m by (intro mult_less_le_imp_less) simp_all
      then show ?thesis by (simp only: of_int_less_iff)
    qed
    finally show ?thesis by simp
  next
    case False
    then consider "q = 0" | "q = of_int (g * m) / 2 ^ 149" | "q = of_int (g * (m + 2 ^ 23)) / 2 ^ nat (150 - e)"
      using q(2) by (cases "e = 0"; cases "m = 0") simp_all
    then show ?thesis
      using b [of m 149] b [of "m + 2 ^ 23" "nat (150 - e)"] m by cases simp_all
  qed
qed

lemma rne_pos: "0 < b \<Longrightarrow> b \<le> a \<Longrightarrow> 1 \<le> rne a b"
  using div_le_mono [of b a b] by (simp add: rne_def Let_def)

lemma mag_bits_pos:
  assumes "0 < b" "b \<le> a * 2 ^ 149"
  shows "1 \<le> mag_bits 24 (- 149) a b"
proof -
  define k where "k = max (- 149) (rat_exp a b - int (24 - 1))"
  have mag: "mag_bits 24 (- 149) a b = (k - - 149) * 2 ^ (24 - 1) +
      int (if 0 \<le> k then rne a (b * 2 ^ nat k) else rne (a * 2 ^ nat (- k)) b)"
    unfolding mag_bits_def k_def Let_def by (rule refl)
  have "k = - 149 \<or> - 148 \<le> k" by (auto simp: k_def)
  then show ?thesis
  proof
    assume "k = - 149"
    then show ?thesis using rne_pos [OF assms] by (simp add: mag)
  next
    assume "- 148 \<le> k"
    then show ?thesis by (simp add: mag)
  qed
qed

lemma f32_bits_sign:
  assumes "0 < b" "b \<le> a * 2 ^ 149"
  shows "f32_dec (f32_bits s a b) = (s, Infty) \<or> (\<exists>q. f32_dec (f32_bits s a b) = (s, Fin (if s then - q else q)) \<and> 0 < q)"
proof -
  let ?N = "min (mag_bits 24 (- 149) a b) 0x7F800000"
  have a: "a \<noteq> 0" using assms by auto
  have N: "1 \<le> ?N" "?N \<le> 255 * 2 ^ 23" using mag_bits_pos [OF assms] by simp_all
  have w: "f32_bits s a b = word_of_int (?N + (if s then 2 ^ 31 else 0))"
    using a by (simp add: f32_bits_def Let_def)
  show ?thesis
  proof (cases "?N = 255 * 2 ^ 23")
    case True
    have "f32_dec 0x7F800000 = (False, Infty)" "f32_dec 0xFF800000 = (True, Infty)" by code_simp+
    then have "f32_dec (f32_bits s a b) = (s, Infty)" unfolding w True by (cases s) simp_all
    then show ?thesis ..
  next
    case False
    then have b: "0 \<le> ?N" "?N < 255 * 2 ^ 23" using N by simp_all
    have p: "0 < ?N mod 2 ^ 23 + 2 ^ 23" by (simp add: add_nonneg_pos)
    then have "(0 :: rat) < (if ?N < 2 ^ 23 then of_int ?N / 2 ^ 149
       else if ?N < 150 * 2 ^ 23 then of_int (?N mod 2 ^ 23 + 2 ^ 23) / 2 ^ nat (150 - ?N div 2 ^ 23)
       else of_int (?N mod 2 ^ 23 + 2 ^ 23) * 2 ^ nat (?N div 2 ^ 23 - 150))"
      using N(1) by (simp only: of_int_0_less_iff zero_less_divide_iff zero_less_mult_iff zero_less_power split: if_split) simp
    then show ?thesis unfolding w f32_dec_word [OF b] by (cases s) auto
  qed
qed

lemma f32_enc_negative:
  assumes "1 / 2 ^ 149 \<le> \<bar>r\<bar>"
  shows "f32_lt (f32_enc (s, Fin r)) 0 \<longleftrightarrow> r < 0"
proof -
  obtain a b where ab: "quotient_of r = (a, b)" by fastforce
  then have b: "0 < b" "r = of_int a / of_int b" by (simp_all add: quotient_of_denom_pos quotient_of_div)
  have "(1 :: rat) / 2 ^ 149 \<le> of_int \<bar>a\<bar> / of_int b" using assms b by simp
  then have "of_int b \<le> (of_int \<bar>a\<bar> * 2 ^ 149 :: rat)" using b(1) by (simp add: field_simps)
  then have "of_int b \<le> (of_int (\<bar>a\<bar> * 2 ^ 149) :: rat)" by (simp only: of_int_mult of_int_power of_int_numeral)
  then have le: "b \<le> \<bar>a\<bar> * 2 ^ 149" by (simp only: of_int_le_iff)
  then have "nat b \<le> nat \<bar>a\<bar> * 2 ^ 149" using b(1) by (simp add: nat_le_iff)
  moreover have "a \<noteq> 0" using le b(1) by auto
  moreover have "f32_dec 0 = (False, Fin 0)" by code_simp
  moreover have "r < 0 \<longleftrightarrow> a < 0" using b by (simp add: divide_less_0_iff)
  ultimately show ?thesis
    using f32_bits_sign [of "nat b" "nat \<bar>a\<bar>" "a < 0"] b(1) ab by (auto simp: f32_lt_def)
qed

text \<open>A count divided by a positive number has the sign of the count.\<close>

lemma f32_div_negative:
  assumes "f32_dec x = (s, Fin (of_int d))" "f32_dec y = (t, Fin q)" "0 < q"
  shows "f32_lt (f32_div x y) 0 \<longleftrightarrow> d < 0"
proof (cases "d = 0")
  case True
  have "f32_dec 0 = (False, Fin 0)" by code_simp
  moreover have "\<exists>w. f32_dec (f32_enc (u, Fin 0)) = (w, Fin 0)" for u using f32_enc_int [of 0 u] by auto
  ultimately show ?thesis using assms True by (auto simp: f32_div_def f32_lt_def) (metis fpd_lt.simps(1) less_irrefl)
next
  case False
  have q: "q < 2 ^ 128" using f32_dec_bound [OF assms(2)] assms(3) by simp
  have "(1 :: rat) / 2 ^ 149 \<le> 1 / 2 ^ 128" by (intro divide_left_mono) simp_all
  also have "\<dots> \<le> 1 / q" using q assms(3) by (intro divide_left_mono) simp_all
  also have "\<dots> \<le> of_int \<bar>d\<bar> / q" using False assms(3) by (intro divide_right_mono) simp_all
  finally have "1 / 2 ^ 149 \<le> \<bar>of_int d / q\<bar>" using assms(3) by simp
  moreover have "(of_int d :: rat) / q < 0 \<longleftrightarrow> d < 0" using assms(3) by (simp add: divide_less_0_iff)
  ultimately show ?thesis using assms f32_enc_negative [of "of_int d / q"] by (simp add: f32_div_def)
qed

end
