(* ===== verification/Step_Flow.thy ===== *)
theory Step_Flow
  imports Stepper_Facts Float_Int
begin

text \<open>
  The flow of steps from the planner's blocks to the positions. The segment generator cuts the block
  it has loaded into segments, the step interrupt executes them, and the two run interleaved with
  each other and with the rest of the program. In every such run each axis moves by exactly the steps
  of the blocks that were loaded: none is lost, added or executed with the data of another block.
\<close>

section \<open>Runs\<close>

text \<open>A block is being cut while the generator holds it, or is told to take it up again after a
  replan.\<close>

definition cutting :: "machine \<Rightarrow> bool" where
  "cutting m \<longleftrightarrow> pl_block m \<noteq> None \<or> prep_recalculate_flag (prep m) AND PREP_FLAG_RECALCULATE \<noteq> 0"

text \<open>The steps of it that are not in a segment yet.\<close>

definition steps_left :: "machine \<Rightarrow> int" where
  "steps_left m = (case f32_dec (prep_steps_remaining (prep m)) of (_, Fin q) \<Rightarrow> \<lceil>q\<rceil> | _ \<Rightarrow> - 1)"

text \<open>The segments in the buffer, oldest first.\<close>

definition segments :: "machine \<Rightarrow> segment_t list" where
  "segments m = ring_contents SEGMENT_BUFFER_SIZE ((!) (segment_buffer m))
     (unat (segment_buffer_head m)) (unat (segment_buffer_tail m))"

text \<open>One round of the loop of \<^verbatim>\<open>st_prep_buffer\<close>, when the buffer has room and there is a block; and the
  block it loads, if it takes a new one.\<close>

definition prep_round :: "machine \<Rightarrow> machine option" where
  "prep_round m =
     (if segment_buffer_tail m = segment_next_head m then None
      else case st_fetch_block m of (m, None) \<Rightarrow> None
           | (m, Some b) \<Rightarrow> map_option snd (st_make_segment b m))"

definition loaded_block :: "machine \<Rightarrow> plan_block_t list" where
  "loaded_block m =
     (if cutting m then []
      else if sys_step_control (sys m) AND STEP_CONTROL_EXECUTE_SYS_MOTION \<noteq> 0
      then [block_at m (plan_get_system_motion_block m)]
      else case plan_get_current_block m of None \<Rightarrow> [] | Some b \<Rightarrow> [block_at m b])"

text \<open>The number of steps of a segment is computed in \<^verbatim>\<open>float\<close>, converted to \<^verbatim>\<open>uint16_t\<close> and shifted by up to
  three bits: the conversion is defined and loses no bit when the steps left decrease, by less than
  \<open>2 ^ 13\<close>. The condition is only on a round that writes a segment.\<close>

definition round_fits :: "machine \<Rightarrow> machine \<Rightarrow> bool" where
  "round_fits m m' \<longleftrightarrow> segment_buffer_head m' = segment_buffer_head m
     \<or> 0 \<le> steps_left m' \<and> steps_left m' < steps_left (fst (st_fetch_block m))
       \<and> steps_left (fst (st_fetch_block m)) < steps_left m' + 2 ^ 13"

text \<open>What the rest of the program does: it leaves the stepper's and the generator's data alone,
  except that it may tell the generator to replan the block it holds
  (\<^verbatim>\<open>st_update_plan_block_parameters\<close>).\<close>

definition step_view :: "machine \<Rightarrow> _" where
  "step_view m = (segment_buffer m, segment_buffer_head m, segment_buffer_tail m, segment_next_head m,
     st_block_buffer m, (st_counter (stepper m), st_steps (stepper m), st_step_count (stepper m)),
     (st_exec_block_index (stepper m), st_exec_block (stepper m), st_exec_segment (stepper m)),
     (prep_st_block_index (prep m), prep_steps_remaining (prep m), prep_mm_complete (prep m)), sys_position m)"

definition holds_block :: "machine \<Rightarrow> bool \<times> bool" where
  "holds_block m = (pl_block m \<noteq> None, prep_recalculate_flag (prep m) AND PREP_FLAG_RECALCULATE \<noteq> 0)"

definition elsewhere :: "machine \<Rightarrow> machine \<Rightarrow> bool" where
  "elsewhere m m' \<longleftrightarrow> step_view m' = step_view m \<and> busy m' = busy m
     \<and> (holds_block m' = holds_block m \<or> fst (holds_block m) \<and> holds_block m' = (False, True))"

text \<open>A run, with the blocks loaded on the way.\<close>

inductive step_run :: "machine \<Rightarrow> plan_block_t list \<Rightarrow> machine \<Rightarrow> bool" for m0 where
  start: "step_run m0 [] m0"
| tick: "step_run m0 bs m \<Longrightarrow> step_run m0 bs (TIMER1_COMPA_vect m)"
| cut: "step_run m0 bs m \<Longrightarrow> prep_round m = Some m' \<Longrightarrow> round_fits m m' \<Longrightarrow> step_run m0 (bs @ loaded_block m) m'"
| other: "step_run m0 bs m \<Longrightarrow> elsewhere m m' \<Longrightarrow> step_run m0 bs m'"

text \<open>Before a motion: nothing in the buffer, nothing being cut. After it, nothing more is owed.\<close>

definition at_rest :: "machine \<Rightarrow> bool" where
  "at_rest m \<longleftrightarrow> seg_wf m \<and> segments m = [] \<and> \<not> cutting m \<and> \<not> busy m
     \<and> length (st_block_buffer m) = SEGMENT_BUFFER_SIZE - 1 \<and> axes_complete m
     \<and> unat (st_exec_block_index (stepper m)) < SEGMENT_BUFFER_SIZE - 1
     \<and> prep_st_block_index (prep m) = st_exec_block_index (stepper m)"

definition nothing_owed :: "machine \<Rightarrow> bool" where
  "nothing_owed m \<longleftrightarrow> segments m = [] \<and> (cutting m \<longrightarrow> steps_left m = 0)"

text \<open>Blocks the stepper can execute: no axis makes more steps than there are step events, which
  are few enough for a \<^verbatim>\<open>float\<close> to count them.\<close>

definition executable_block :: "plan_block_t \<Rightarrow> bool" where
  "executable_block b \<longleftrightarrow> length (pb_steps b) = N_AXIS \<and> 0 < pb_step_event_count b
     \<and> unat (pb_step_event_count b) < 2 ^ 24 \<and> (\<forall>s\<in>set (pb_steps b). s \<le> pb_step_event_count b)"

definition displacement :: "nat \<Rightarrow> plan_block_t \<Rightarrow> i32" where
  "displacement idx b =
     (if pb_direction_bits b AND push_bit idx 1 \<noteq> 0 then - ucast (pb_steps b ! idx) else ucast (pb_steps b ! idx))"

section \<open>The invariant\<close>

text \<open>Units are eighths of a step event: what one tick at the highest smoothing level carries.\<close>

definition units :: "segment_t list \<Rightarrow> nat" where
  "units Q = (\<Sum>s\<leftarrow>Q. unat (seg_n_step s) * 2 ^ (3 - unat (seg_amass_level s)))"

lemma units_simps [simp]:
  "units [] = 0" "units (s # Q) = unat (seg_n_step s) * 2 ^ (3 - unat (seg_amass_level s)) + units Q"
  "units (Q @ R) = units Q + units R"
  by (simp_all add: units_def)

definition seg_ok :: "segment_t \<Rightarrow> bool" where
  "seg_ok s \<longleftrightarrow> unat (seg_amass_level s) \<le> 3 \<and> 0 < unat (seg_n_step s)"

definition copies :: "st_block_t \<Rightarrow> plan_block_t \<Rightarrow> bool" where
  "copies d b \<longleftrightarrow> sb_steps d = map (push_bit MAX_AMASS_LEVEL) (pb_steps b)
     \<and> sb_step_event_count d = push_bit MAX_AMASS_LEVEL (pb_step_event_count b)
     \<and> sb_direction_bits d = pb_direction_bits b"

abbreviation events :: "plan_block_t \<Rightarrow> nat" where
  "events b \<equiv> unat (pb_step_event_count b)"

text \<open>The blocks in flight behind the one being executed: from slot \<open>i\<close> on, each has its data in the
  next slot and its segments in the buffer; together with the steps \<open>c\<close> still to be cut of the last one,
  they make up its step events.\<close>

definition uncut :: "nat \<Rightarrow> plan_block_t list \<Rightarrow> nat" where
  "uncut c bs = (if bs = [] then 8 * c else 0)"

lemma uncut_simps [simp]: "uncut 0 bs = 0" "uncut c [] = 8 * c" "uncut c (b # bs) = 0" "uncut c (bs @ [b]) = 0"
  by (simp_all add: uncut_def)

fun flight :: "st_block_t list \<Rightarrow> nat \<Rightarrow> segment_t list \<Rightarrow> nat \<Rightarrow> plan_block_t list \<Rightarrow> bool" where
  "flight sb i Q c [] \<longleftrightarrow> Q = []"
| "flight sb i Q c (b # bs) \<longleftrightarrow> copies (sb ! (i mod 5)) b
     \<and> (\<exists>Q1 Q2. Q = Q1 @ Q2 \<and> (\<forall>s\<in>set Q1. unat (seg_st_block_index s) = i mod 5)
          \<and> units Q1 + uncut c bs = 8 * events b \<and> flight sb (Suc i) Q2 c bs)"

lemma flightI:
  "copies (sb ! (i mod 5)) b \<Longrightarrow> \<forall>s\<in>set Q1. unat (seg_st_block_index s) = i mod 5 \<Longrightarrow>
   units Q1 + uncut c bs = 8 * events b \<Longrightarrow> flight sb (Suc i) Q2 c bs \<Longrightarrow> flight sb i (Q1 @ Q2) c (b # bs)"
  by auto

lemma flightE:
  assumes "flight sb i Q c (b # bs)"
  obtains Q1 Q2 where "Q = Q1 @ Q2" "copies (sb ! (i mod 5)) b" "\<forall>s\<in>set Q1. unat (seg_st_block_index s) = i mod 5"
    "units Q1 + uncut c bs = 8 * events b" "flight sb (Suc i) Q2 c bs"
  using assms unfolding flight.simps by blast

lemma flight_mod: "i mod 5 = j mod 5 \<Longrightarrow> flight sb i Q c bs = flight sb j Q c bs"
proof (induction bs arbitrary: i j Q)
  case (Cons b bs)
  have "Suc i mod 5 = Suc j mod 5" using Cons.prems by (metis mod_Suc_eq)
  then show ?case using Cons.IH [of "Suc i" "Suc j"] Cons.prems by simp
qed simp

lemma flight_length:
  "flight sb i Q 0 bs \<Longrightarrow> \<forall>b\<in>set bs. 0 < events b \<Longrightarrow> length bs \<le> length Q"
proof (induction bs arbitrary: i Q)
  case (Cons b bs)
  obtain Q1 Q2 where q: "Q = Q1 @ Q2" "units Q1 + uncut 0 bs = 8 * events b" "flight sb (Suc i) Q2 0 bs"
    using flightE [OF Cons.prems(1)] .
  then have "Q1 \<noteq> []" using Cons.prems(2) by auto
  then show ?case using Cons.IH [OF q(3)] Cons.prems(2) q(1) by (cases Q1) auto
qed simp

lemma flight_slots:
  "flight sb i Q c bs \<Longrightarrow> (\<And>j. j < length bs \<Longrightarrow> sb' ! ((i + j) mod 5) = sb ! ((i + j) mod 5)) \<Longrightarrow>
   flight sb' i Q c bs"
proof (induction bs arbitrary: i Q)
  case (Cons b bs)
  obtain Q1 Q2 where q: "Q = Q1 @ Q2" "copies (sb ! (i mod 5)) b" "\<forall>s\<in>set Q1. unat (seg_st_block_index s) = i mod 5"
      "units Q1 + uncut c bs = 8 * events b" "flight sb (Suc i) Q2 c bs"
    using flightE [OF Cons.prems(1)] .
  have "flight sb' (Suc i) Q2 c bs"
    using Cons.prems(2) [of "Suc _"] by (intro Cons.IH q(5)) auto
  moreover have "sb' ! (i mod 5) = sb ! (i mod 5)" using Cons.prems(2) [of 0] by simp
  ultimately show ?case unfolding q(1) using q(2-4) by (intro flightI) simp_all
qed simp

text \<open>A block is loaded, a segment of the last one written, the first one taken up.\<close>

lemma flight_load:
  "flight sb i Q 0 bs \<Longrightarrow> copies (sb ! ((i + length bs) mod 5)) b \<Longrightarrow> flight sb i Q (events b) (bs @ [b])"
proof (induction bs arbitrary: i Q)
  case Nil
  then show ?case using flightI [of sb i b "[]" "events b" "[]" "[]"] by simp
next
  case (Cons a bs)
  obtain Q1 Q2 where q: "Q = Q1 @ Q2" "copies (sb ! (i mod 5)) a" "\<forall>s\<in>set Q1. unat (seg_st_block_index s) = i mod 5"
      "units Q1 + uncut 0 bs = 8 * events a" "flight sb (Suc i) Q2 0 bs"
    using flightE [OF Cons.prems(1)] .
  have "flight sb (Suc i) Q2 (events b) (bs @ [b])" using Cons.prems(2) by (intro Cons.IH q(5)) simp
  then show ?case unfolding q(1) append_Cons using q(2-4) by (intro flightI) simp_all
qed

lemma flight_write:
  "flight sb i Q c bs \<Longrightarrow> bs \<noteq> [] \<Longrightarrow> unat (seg_st_block_index s) = (i + length bs - 1) mod 5 \<Longrightarrow>
   units [s] = 8 * k \<Longrightarrow> c = c' + k \<Longrightarrow> flight sb i (Q @ [s]) c' bs"
proof (induction bs arbitrary: i Q)
  case (Cons b bs)
  obtain Q1 Q2 where q: "Q = Q1 @ Q2" "copies (sb ! (i mod 5)) b" "\<forall>s\<in>set Q1. unat (seg_st_block_index s) = i mod 5"
      "units Q1 + uncut c bs = 8 * events b" "flight sb (Suc i) Q2 c bs"
    using flightE [OF Cons.prems(1)] .
  show ?case
  proof (cases "bs = []")
    case True
    then have "flight sb i ((Q1 @ [s]) @ []) c' (b # bs)"
      using q Cons.prems by (intro flightI) auto
    then show ?thesis using q True by simp
  next
    case False
    then have "flight sb (Suc i) (Q2 @ [s]) c' bs" using Cons.prems by (intro Cons.IH q(5)) simp_all
    then show ?thesis unfolding q(1) append_assoc using q(2-4) False by (intro flightI) (simp_all add: uncut_def)
  qed
qed simp

lemma flight_first:
  assumes "flight sb i (s # Q) c (b # bs)" "0 < events b"
  obtains Q1 Q2 where "Q = Q1 @ Q2" "\<forall>t\<in>set (s # Q1). unat (seg_st_block_index t) = i mod 5"
    "units (s # Q1) + uncut c bs = 8 * events b" "flight sb (Suc i) Q2 c bs" "copies (sb ! (i mod 5)) b"
proof -
  obtain R Q2 where r: "s # Q = R @ Q2" "copies (sb ! (i mod 5)) b" "\<forall>t\<in>set R. unat (seg_st_block_index t) = i mod 5"
      "units R + uncut c bs = 8 * events b" "flight sb (Suc i) Q2 c bs"
    using flightE [OF assms(1)] .
  have "R \<noteq> []"
  proof
    assume "R = []"
    then have "bs = []" using r(4) assms(2) by (cases bs) auto
    then show False using r(1,5) \<open>R = []\<close> by simp
  qed
  then obtain Q1 where "R = s # Q1" using r(1) by (cases R) auto
  then show thesis using r that [of Q1 Q2] by simp
qed

text \<open>How the block in execution stands on one axis: with \<open>U\<close> units to come, \<open>r\<close> steps are to come, and the
  Bresenham counter holds the rest.\<close>

definition uncut_steps :: "machine \<Rightarrow> nat" where
  "uncut_steps m = (if cutting m then nat (steps_left m) else 0)"

definition todo :: "machine \<Rightarrow> segment_t list \<Rightarrow> nat" where
  "todo m Q = (if st_exec_segment (stepper m) = None then units Q
     else unat (st_step_count (stepper m)) * 2 ^ (3 - unat (seg_amass_level (hd Q))) + units (tl Q))"

definition due :: "nat \<Rightarrow> machine \<Rightarrow> plan_block_t \<Rightarrow> nat \<Rightarrow> int \<Rightarrow> bool" where
  "due idx m b U r \<longleftrightarrow> int U * int (unat (pb_steps b ! idx)) + int (unat (st_counter (stepper m) ! idx))
       = r * (8 * int (events b)) + 4 * int (events b)
     \<and> 0 < unat (st_counter (stepper m) ! idx) \<and> unat (st_counter (stepper m) ! idx) \<le> 8 * events b"

definition moves_by :: "nat \<Rightarrow> plan_block_t \<Rightarrow> int \<Rightarrow> i32" where
  "moves_by idx b r = (if pb_direction_bits b AND push_bit idx 1 \<noteq> 0 then - of_int r else of_int r)"

abbreviation exec_slot :: "machine \<Rightarrow> nat" where
  "exec_slot m \<equiv> unat (st_exec_block_index (stepper m))"

definition in_execution :: "nat \<Rightarrow> machine \<Rightarrow> i32 \<Rightarrow> plan_block_t list \<Rightarrow> nat \<Rightarrow> bool" where
  "in_execution idx m p0 taken U \<longleftrightarrow> (\<exists>d b r. taken = d @ [b] \<and> copies (st_block_buffer m ! exec_slot m) b
     \<and> st_exec_block (stepper m) = Some (st_exec_block_index (stepper m)) \<and> due idx m b U r
     \<and> sys_position m ! idx = p0 + sum_list (map (displacement idx) taken) - moves_by idx b r)"

definition flow :: "nat \<Rightarrow> i32 \<Rightarrow> plan_block_t list \<Rightarrow> machine \<Rightarrow> bool" where
  "flow idx p0 bs m \<longleftrightarrow> (\<exists>taken later Q R. bs = taken @ later \<and> segments m = Q @ R
     \<and> (\<forall>s\<in>set Q. unat (seg_st_block_index s) = exec_slot m)
     \<and> flight (st_block_buffer m) (Suc (exec_slot m)) R (uncut_steps m) later
     \<and> unat (prep_st_block_index (prep m)) = (exec_slot m + length later) mod 5 \<and> length later \<le> 5
     \<and> (st_exec_segment (stepper m) \<noteq> None \<longrightarrow> Q \<noteq> [] \<and> 0 < unat (st_step_count (stepper m)) \<and>
          st_steps (stepper m) ! idx =
            drop_bit (unat (seg_amass_level (hd Q))) (sb_steps (st_block_buffer m ! exec_slot m) ! idx))
     \<and> (todo m Q + uncut (uncut_steps m) later = 0 \<longrightarrow>
          sys_position m ! idx = p0 + sum_list (map (displacement idx) taken))
     \<and> (todo m Q + uncut (uncut_steps m) later \<noteq> 0 \<longrightarrow>
          length later \<le> 4 \<and> in_execution idx m p0 taken (todo m Q + uncut (uncut_steps m) later)))"

lemma flowI:
  assumes "bs = taken @ later" "segments m = Q @ R" "\<forall>s\<in>set Q. unat (seg_st_block_index s) = exec_slot m"
    "flight (st_block_buffer m) (Suc (exec_slot m)) R (uncut_steps m) later"
    "unat (prep_st_block_index (prep m)) = (exec_slot m + length later) mod 5" "length later \<le> 5"
    "st_exec_segment (stepper m) \<noteq> None \<Longrightarrow> Q \<noteq> [] \<and> 0 < unat (st_step_count (stepper m)) \<and>
       st_steps (stepper m) ! idx =
         drop_bit (unat (seg_amass_level (hd Q))) (sb_steps (st_block_buffer m ! exec_slot m) ! idx)"
    "todo m Q + uncut (uncut_steps m) later = 0 \<Longrightarrow> sys_position m ! idx = p0 + sum_list (map (displacement idx) taken)"
    "todo m Q + uncut (uncut_steps m) later \<noteq> 0 \<Longrightarrow>
       length later \<le> 4 \<and> in_execution idx m p0 taken (todo m Q + uncut (uncut_steps m) later)"
  shows "flow idx p0 bs m"
  unfolding flow_def using assms by (intro exI [of _ taken] exI [of _ later] exI [of _ Q] exI [of _ R]) blast

lemma flowE:
  assumes "flow idx p0 bs m"
  obtains taken later Q R where "bs = taken @ later" "segments m = Q @ R"
    "\<forall>s\<in>set Q. unat (seg_st_block_index s) = exec_slot m"
    "flight (st_block_buffer m) (Suc (exec_slot m)) R (uncut_steps m) later"
    "unat (prep_st_block_index (prep m)) = (exec_slot m + length later) mod 5" "length later \<le> 5"
    "st_exec_segment (stepper m) \<noteq> None \<longrightarrow> Q \<noteq> [] \<and> 0 < unat (st_step_count (stepper m)) \<and>
       st_steps (stepper m) ! idx =
         drop_bit (unat (seg_amass_level (hd Q))) (sb_steps (st_block_buffer m ! exec_slot m) ! idx)"
    "todo m Q + uncut (uncut_steps m) later = 0 \<longrightarrow> sys_position m ! idx = p0 + sum_list (map (displacement idx) taken)"
    "todo m Q + uncut (uncut_steps m) later \<noteq> 0 \<longrightarrow>
       length later \<le> 4 \<and> in_execution idx m p0 taken (todo m Q + uncut (uncut_steps m) later)"
  using assms unfolding flow_def by (elim exE conjE) (rule that)

definition flow_ok :: "machine \<Rightarrow> bool" where
  "flow_ok m \<longleftrightarrow> seg_wf m \<and> length (st_block_buffer m) = 5 \<and> exec_slot m < 5 \<and> axes_complete m
     \<and> (\<forall>s\<in>set (segments m). seg_ok s)
     \<and> (pl_block m \<noteq> None \<longrightarrow> prep_recalculate_flag (prep m) AND PREP_FLAG_RECALCULATE = 0
          \<and> \<not> f32_lt (prep_mm_complete (prep m)) 0)
     \<and> (cutting m \<longrightarrow> (\<exists>s L. f32_dec (prep_steps_remaining (prep m)) = (s, Fin (of_int L)) \<and> 0 \<le> L \<and> L < 2 ^ 24))"

section \<open>The rest of the program\<close>

lemma holds_block_cutting: "cutting m \<longleftrightarrow> fst (holds_block m) \<or> snd (holds_block m)"
  by (simp add: cutting_def holds_block_def)

text \<open>What the invariant reads of the machine.\<close>

definition step_data :: "machine \<Rightarrow> _" where
  "step_data m = (segments m, st_block_buffer m,
     (st_counter (stepper m), st_steps (stepper m), st_step_count (stepper m)),
     (st_exec_block_index (stepper m), st_exec_block (stepper m), st_exec_segment (stepper m)),
     (prep_st_block_index (prep m), prep_steps_remaining (prep m)), sys_position m)"

lemma step_view_data: "step_view m' = step_view m \<Longrightarrow> step_data m' = step_data m"
  by (simp add: step_view_def step_data_def segments_def)

lemma flow_view:
  assumes "step_data m' = step_data m" "cutting m' = cutting m"
  shows "flow idx p0 bs m' = flow idx p0 bs m"
proof -
  have "segments m' = segments m" "exec_slot m' = exec_slot m" "uncut_steps m' = uncut_steps m" "todo m' Q = todo m Q"
    "due idx m' b U r = due idx m b U r" "st_exec_segment (stepper m') = st_exec_segment (stepper m)"
    "in_execution idx m' p taken U = in_execution idx m p taken U" "st_step_count (stepper m') = st_step_count (stepper m)"
    "st_steps (stepper m') = st_steps (stepper m)" "prep_st_block_index (prep m') = prep_st_block_index (prep m)"
    "st_block_buffer m' = st_block_buffer m" "sys_position m' = sys_position m" for Q b U r p taken
    using assms by (simp_all add: step_data_def uncut_steps_def steps_left_def todo_def due_def in_execution_def)
  then show ?thesis by (simp only: flow_def)
qed

lemma flow_ok_view:
  assumes "step_view m' = step_view m"
    "holds_block m' = holds_block m \<or> fst (holds_block m) \<and> holds_block m' = (False, True)"
  shows "flow_ok m \<Longrightarrow> flow_ok m'"
  using assms unfolding flow_ok_def holds_block_cutting
  by (auto simp: step_view_def segments_def seg_wf_def axes_complete_def holds_block_def)

lemma flow_kept:
  assumes "step_view m' = step_view m"
    "holds_block m' = holds_block m \<or> fst (holds_block m) \<and> holds_block m' = (False, True)"
    "flow_ok m" "flow idx p0 bs m"
  shows "flow_ok m' \<and> flow idx p0 bs m'"
proof -
  have "cutting m' = cutting m" using assms(2) by (auto simp: holds_block_cutting)
  then show ?thesis using flow_view [OF step_view_data [OF assms(1)]] flow_ok_view [OF assms(1,2)] assms(3,4) by blast
qed

section \<open>A tick\<close>

lemma fold_step_axis_rest [simp]:
  "st_exec_block_index (stepper (fold (step_axis b) is m)) = st_exec_block_index (stepper m)"
  "st_exec_segment (stepper (fold (step_axis b) is m)) = st_exec_segment (stepper m)"
  "segment_buffer (fold (step_axis b) is m) = segment_buffer m"
  "segment_buffer_head (fold (step_axis b) is m) = segment_buffer_head m"
  "segment_buffer_tail (fold (step_axis b) is m) = segment_buffer_tail m"
  "segment_next_head (fold (step_axis b) is m) = segment_next_head m"
  "prep (fold (step_axis b) is m) = prep m" "pl_block (fold (step_axis b) is m) = pl_block m"
  by (induction "is" arbitrary: m) (simp_all add: step_axis_def Let_def)

lemma execute_step_rest:
  "st_exec_block_index (stepper (execute_step m)) = st_exec_block_index (stepper m)"
  "st_exec_block (stepper (execute_step m)) = st_exec_block (stepper m)"
  "segment_buffer (execute_step m) = segment_buffer m" "segment_buffer_head (execute_step m) = segment_buffer_head m"
  "segment_next_head (execute_step m) = segment_next_head m" "prep (execute_step m) = prep m"
  "pl_block (execute_step m) = pl_block m" "st_block_buffer (execute_step m) = st_block_buffer m"
  "\<not> busy (execute_step m)"
  "segment_buffer_tail (execute_step m) = (if st_step_count (stepper m) - 1 = 0
     then ring_next SEGMENT_BUFFER_SIZE (segment_buffer_tail m) else segment_buffer_tail m)"
  "st_exec_segment (stepper (execute_step m)) = (if st_step_count (stepper m) - 1 = 0
     then None else st_exec_segment (stepper m))"
  by (simp_all add: execute_step_def finish_step_def st_pop_segment_def probe_state_monitor_def Let_def)


lemma segments_queue: "segments m = segq.queue m"
  by (simp add: segments_def)

lemma segments_empty_iff: "seg_wf m \<Longrightarrow> segments m = [] \<longleftrightarrow> segment_buffer_head m = segment_buffer_tail m"
  using segq.queue_empty_iff [OF seg_wf_ring] by (simp add: segments_queue word_unat_eq_iff)

lemma segments_pop:
  assumes "seg_wf m" "segments m \<noteq> []"
  shows "segments m = segment_buffer m ! unat (segment_buffer_tail m) # segments (st_pop_segment m)"
proof -
  have "segment_buffer_head m \<noteq> segment_buffer_tail m"
    using assms segq.queue_empty_iff [OF seg_wf_ring [OF assms(1)]] by (auto simp: segments_queue)
  then show ?thesis
    using segq.queue_pop [OF seg_wf_ring [OF assms(1)]] by (simp add: segments_queue word_unat_eq_iff)
qed

lemma segments_execute_step:
  assumes "seg_wf m" "segments m \<noteq> []"
  shows "segments (execute_step m) = (if st_step_count (stepper m) - 1 = 0 then tl (segments m) else segments m)"
proof (cases "st_step_count (stepper m) - 1 = 0")
  case True
  have "segments (execute_step m) = segments (st_pop_segment m)"
    using True by (simp add: segments_def execute_step_rest st_pop_segment_def)
  then show ?thesis using True segments_pop [OF assms] by simp
next
  case False
  then show ?thesis by (simp add: segments_def execute_step_rest)
qed

lemma unat_increment_exact:
  assumes "unat (x :: u32) < 2 ^ 24" "l \<le> 3"
  shows "unat (drop_bit l (push_bit MAX_AMASS_LEVEL x)) = unat x * 2 ^ (3 - l)"
proof -
  have "l \<in> {0, 1, 2, 3}" using assms(2) by auto
  then show ?thesis
    using unat_scaled [of x] assms(1) unfolding unat_drop_bit_div by auto
qed

lemma moves_by_diff: "moves_by idx b (r - int n) = moves_by idx b r - moves_by idx b (int n)"
  by (simp add: moves_by_def)

lemma axis_moved_moves_by:
  "axis_moved (block_neg d idx) p n = p + moves_by idx b (int n)" if "sb_direction_bits d = pb_direction_bits b"
  using that by (simp add: axis_moved_def moves_by_def block_neg_def)


lemma displacement_moves_by: "displacement idx b = moves_by idx b (int (unat (pb_steps b ! idx)))"
  by (simp add: displacement_def moves_by_def)

text \<open>One tick carries one unit of the level, on the counter and on the due steps alike.\<close>

lemma due_tick:
  assumes "due idx m b U r" "executable_block b" "copies d b" "idx < N_AXIS" "l \<le> 3" "U = U' + 2 ^ (3 - l)"
    and "axis_of idx m' = axis_next (sb_step_event_count d) (drop_bit l (sb_steps d ! idx)) (block_neg d idx) (axis_of idx m)"
  obtains n where "due idx m' b U' (r - int n)" "sys_position m' ! idx = sys_position m ! idx + moves_by idx b (int n)"
proof -
  let ?c = "st_counter (stepper m) ! idx" and ?s = "unat (pb_steps b ! idx)" and ?e = "events b"
  let ?inc = "drop_bit l (sb_steps d ! idx)"
  have b: "?s \<le> ?e" "?e < 2 ^ 24" "sb_steps d ! idx = push_bit MAX_AMASS_LEVEL (pb_steps b ! idx)"
    using assms(2-4) by (auto simp: executable_block_def copies_def word_le_nat_alt)
  then have inc: "unat ?inc = ?s * 2 ^ (3 - l)" using assms(5) by (simp add: unat_increment_exact)
  have e: "unat (sb_step_event_count d) = 8 * ?e"
    using assms(3) b(2) by (simp add: copies_def unat_scaled)
  have "(2 :: nat) ^ (3 - l) \<le> 2 ^ 3" by (intro power_increasing) simp_all
  then have "?s * 2 ^ (3 - l) \<le> ?e * 2 ^ 3" using b(1) by (intro mult_mono) simp_all
  then have le: "unat ?inc \<le> unat (sb_step_event_count d)" using inc e by simp
  obtain c' n where n: "axis_next (sb_step_event_count d) ?inc (block_neg d idx) (?c, sys_position m ! idx) =
        (c', if block_neg d idx then sys_position m ! idx - of_nat n else sys_position m ! idx + of_nat n)"
      "0 < unat c'" "unat c' \<le> 8 * ?e" "unat ?c + ?s * 2 ^ (3 - l) = unat c' + n * (8 * ?e)"
    using axis_next_count [of "sb_step_event_count d" ?c ?inc "block_neg d idx" "sys_position m ! idx"]
      le assms(1) b(2) unfolding e inc due_def by auto
  then have m': "st_counter (stepper m') ! idx = c'"
      "sys_position m' ! idx = axis_moved (block_neg d idx) (sys_position m ! idx) n"
    using assms(7) by (simp_all add: axis_of_def axis_moved_def)
  have "int (unat ?c) + int ?s * 2 ^ (3 - l) = int (unat c') + int n * (8 * int ?e)"
    using n(4) by (metis of_nat_add of_nat_mult of_nat_numeral of_nat_power)
  then have "int U' * int ?s + int (unat c') = (r - int n) * (8 * int ?e) + 4 * int ?e"
    using assms(1) unfolding assms(6) due_def by (simp add: algebra_simps)
  then have "due idx m' b U' (r - int n)" using n(2,3) m'(1) by (simp add: due_def)
  moreover have "sys_position m' ! idx = sys_position m ! idx + moves_by idx b (int n)"
    using m'(2) axis_moved_moves_by [of d b] assms(3) by (simp add: copies_def)
  ultimately show thesis by (rule that)
qed

lemma due_done:
  assumes "due idx m b 0 r"
  shows "r = 0"
proof -
  define C E where "C = int (unat (st_counter (stepper m) ! idx))" and "E = int (events b)"
  have c: "C = r * (8 * E) + 4 * E"
    using assms by (simp add: due_def C_def E_def)
  have "0 < unat (st_counter (stepper m) ! idx)" "unat (st_counter (stepper m) ! idx) \<le> 8 * events b"
    using assms by (simp_all only: due_def)
  then have "0 < C" "C \<le> 8 * E" unfolding C_def E_def by linarith+
  then have e: "0 < E" "r * (8 * E) < 1 * (8 * E)" "- 1 * (8 * E) < r * (8 * E)" using c by linarith+
  then have "r < 1" "- 1 < r" by (simp_all only: mult_less_cancel_right)
  then show "r = 0" by simp
qed

lemma in_execution_result:
  assumes "in_execution idx m p0 taken 0"
  shows "sys_position m ! idx = p0 + sum_list (map (displacement idx) taken)"
  using assms due_done by (fastforce simp: in_execution_def moves_by_def)

lemma seg_ok_first: "flow_ok m \<Longrightarrow> segments m = s # Q \<Longrightarrow> unat (seg_amass_level s) \<le> 3 \<and> 0 < unat (seg_n_step s)"
  by (simp add: flow_ok_def seg_ok_def)

lemma flow_ok_execute_step:
  assumes "flow_ok m" "st_exec_segment (stepper m) \<noteq> None" "segments m \<noteq> []"
  shows "flow_ok (execute_step m)"
proof -
  have w: "seg_wf m" "axes_complete m" using assms(1) by (simp_all add: flow_ok_def)
  have "set (segments (execute_step m)) \<subseteq> set (segments m)"
    unfolding segments_execute_step [OF w(1) assms(3)] by (cases "segments m") auto
  then show ?thesis
    using assms(1) seg_wf_execute_step [OF w(1) assms(2)] execute_step_frame(1) [OF w(2)] execute_step_rest(9) [of m]
    unfolding flow_ok_def cutting_def execute_step_rest by blast
qed

lemma flow_execute_step:
  assumes "flow_ok m" "flow idx p0 bs m" "st_exec_segment (stepper m) \<noteq> None"
    and "\<forall>b\<in>set bs. executable_block b" "idx < N_AXIS"
  shows "flow_ok (execute_step m) \<and> flow idx p0 bs (execute_step m)"
proof -
  let ?m = "execute_step m" and ?sb = "st_block_buffer m" and ?x = "exec_slot m" and ?k = "st_step_count (stepper m)"
  let ?d = "st_block_buffer m ! exec_slot m"
  obtain taken later Q R where f: "bs = taken @ later" "segments m = Q @ R"
      "\<forall>s\<in>set Q. unat (seg_st_block_index s) = ?x" "flight ?sb (Suc ?x) R (uncut_steps m) later"
      "unat (prep_st_block_index (prep m)) = (?x + length later) mod 5" "length later \<le> 5"
      and run: "st_exec_segment (stepper m) \<noteq> None \<longrightarrow> Q \<noteq> [] \<and> 0 < unat (st_step_count (stepper m)) \<and>
         st_steps (stepper m) ! idx = drop_bit (unat (seg_amass_level (hd Q))) (sb_steps (?sb ! ?x) ! idx)"
      and fin: "todo m Q + uncut (uncut_steps m) later = 0 \<longrightarrow> sys_position m ! idx = p0 + sum_list (map (displacement idx) taken)"
      and ex: "todo m Q + uncut (uncut_steps m) later \<noteq> 0 \<longrightarrow>
         length later \<le> 4 \<and> in_execution idx m p0 taken (todo m Q + uncut (uncut_steps m) later)"
    by (rule flowE [OF assms(2)])
  note r = mp [OF run assms(3)]
  note f = f conjunct1 [OF r] conjunct1 [OF conjunct2 [OF r]] conjunct2 [OF conjunct2 [OF r]] ex
  have w: "seg_wf m" "axes_complete m" "segments m \<noteq> []" using assms(1) f(2,7) by (simp_all add: flow_ok_def)
  obtain s Q' where Q: "Q = s # Q'" using f(7) by (cases Q) auto
  obtain y where y: "st_exec_segment (stepper m) = Some y" using assms(3) by blast
  let ?l = "unat (seg_amass_level s)" and ?Q = "if ?k - 1 = 0 then Q' else Q"
  have l: "?l \<le> 3" using seg_ok_first [OF assms(1)] f(2) Q by simp
  have todo: "todo m Q = todo ?m ?Q + 2 ^ (3 - ?l)"
  proof (cases "?k - 1 = 0")
    case True
    then have "?k = 1" by simp
    then show ?thesis using Q y by (simp add: todo_def execute_step_rest)
  next
    case False
    have "unat ?k = Suc (unat (?k - 1))" using f(8) by (simp add: unat_minus_one unat_gt_0)
    then show ?thesis using Q y False by (simp add: todo_def execute_step_rest execute_step_frame(4))
  qed
  let ?U = "todo ?m ?Q + uncut (uncut_steps m) later"
  have pos: "todo m Q + uncut (uncut_steps m) later = ?U + 2 ^ (3 - ?l)" using todo by simp
  have nz: "?U + 2 ^ (3 - ?l) \<noteq> 0" by simp
  have n4: "length later \<le> 4" and ex: "in_execution idx m p0 taken (?U + 2 ^ (3 - ?l))"
    using f(10) unfolding pos using nz by blast+
  obtain d b r where b: "taken = d @ [b]" "copies ?d b" "st_exec_block (stepper m) = Some (st_exec_block_index (stepper m))"
      "due idx m b (?U + 2 ^ (3 - ?l)) r" "sys_position m ! idx = p0 + sum_list (map (displacement idx) taken) - moves_by idx b r"
    using ex unfolding in_execution_def by blast
  have "exec_block m = ?d" using b(3) by (simp add: exec_block_def)
  then have "axis_of idx ?m = axis_next (sb_step_event_count ?d) (drop_bit ?l (sb_steps ?d ! idx)) (block_neg ?d idx) (axis_of idx m)"
    using execute_step_axis [OF w(2) assms(5)] f(9) Q by simp
  moreover have "executable_block b" using assms(4) f(1) b(1) by simp
  ultimately obtain n where n: "due idx ?m b ?U (r - int n)"
      "sys_position ?m ! idx = sys_position m ! idx + moves_by idx b (int n)"
    using due_tick [OF b(4) _ b(2) assms(5) l refl] by blast
  have ex': "in_execution idx ?m p0 taken ?U"
    unfolding in_execution_def execute_step_rest using b n by (auto simp: moves_by_diff)
  have u: "uncut_steps ?m = uncut_steps m"
    by (simp add: uncut_steps_def cutting_def steps_left_def execute_step_rest)
  have sg: "segments ?m = ?Q @ R" using segments_execute_step [OF w(1,3)] f(2) Q by simp
  have x: "st_exec_segment (stepper ?m) \<noteq> None \<longrightarrow> ?Q \<noteq> [] \<and> 0 < unat (st_step_count (stepper ?m)) \<and>
      st_steps (stepper ?m) ! idx = drop_bit (unat (seg_amass_level (hd ?Q))) (sb_steps (st_block_buffer ?m ! exec_slot ?m) ! idx)"
    using f(9) Q by (simp add: execute_step_rest execute_step_frame unat_gt_0)
  have "flow idx p0 bs ?m"
  proof (rule flowI [OF f(1) sg])
    show "\<forall>t\<in>set ?Q. unat (seg_st_block_index t) = exec_slot ?m" using f(3) Q by (auto simp: execute_step_rest)
    show "sys_position ?m ! idx = p0 + sum_list (map (displacement idx) taken)"
      if "todo ?m ?Q + uncut (uncut_steps ?m) later = 0"
      using ex' that unfolding u by (intro in_execution_result) (simp only:)
    show "length later \<le> 4 \<and> in_execution idx ?m p0 taken (todo ?m ?Q + uncut (uncut_steps ?m) later)"
      unfolding u using ex' n4 by blast
  qed (use f(4-6) u x in \<open>simp_all only: execute_step_rest simp_thms\<close>)
  then show ?thesis using flow_ok_execute_step [OF assms(1,3) w(3)] by blast
qed


lemma executable_events: "executable_block b \<Longrightarrow> 0 < events b \<and> events b < 2 ^ 24"
  by (auto simp: executable_block_def unat_gt_0 word_neq_0_conv)

text \<open>Taking up the next segment: of the block in execution, or the first of the next block, whose
  counters start at half of its step events.\<close>

lemma load_segment_rest:
  "segment_buffer (load_segment m) = segment_buffer m" "segment_buffer_head (load_segment m) = segment_buffer_head m"
  "segment_buffer_tail (load_segment m) = segment_buffer_tail m" "segment_next_head (load_segment m) = segment_next_head m"
  "prep (load_segment m) = prep m" "pl_block (load_segment m) = pl_block m" "busy (load_segment m) = busy m"
  "st_block_buffer (load_segment m) = st_block_buffer m" "sys_position (load_segment m) = sys_position m"
  "st_exec_segment (stepper (load_segment m)) = Some (segment_buffer_tail m)"
  by (simp_all add: load_segment_def spindle_set_speed_def Let_def)

lemma load_segment_stepper:
  fixes m defines "s \<equiv> segment_buffer m ! unat (segment_buffer_tail m)"
  defines "b \<equiv> st_block_buffer m ! unat (the (st_exec_block (stepper (load_segment m))))"
  shows "st_step_count (stepper (load_segment m)) = seg_n_step s"
    "st_exec_block_index (stepper (load_segment m)) = seg_st_block_index s"
    "st_exec_block (stepper (load_segment m)) = (if st_exec_block_index (stepper m) = seg_st_block_index s
       then st_exec_block (stepper m) else Some (seg_st_block_index s))"
    "st_counter (stepper (load_segment m)) = (if st_exec_block_index (stepper m) = seg_st_block_index s
       then st_counter (stepper m) else replicate N_AXIS (drop_bit 1 (sb_step_event_count b)))"
    "st_steps (stepper (load_segment m)) = map (drop_bit (unat (seg_amass_level s))) (sb_steps b)"
  by (simp_all add: assms load_segment_def spindle_set_speed_def Let_def)

lemma seg_index_small: "flow_ok m \<Longrightarrow> exec_slot m < 5"
  by (simp add: flow_ok_def)

lemma flow_ok_load_segment:
  assumes "flow_ok m" "segments m = s # S" "unat (seg_st_block_index s) < 5"
  shows "flow_ok (load_segment m)"
proof -
  have w: "seg_wf m" using assms(1) by (simp add: flow_ok_def)
  have s: "segment_buffer m ! unat (segment_buffer_tail m) = s" and "segment_buffer_head m \<noteq> segment_buffer_tail m"
    using segments_pop [OF w] assms(2) segq.queue_empty_iff [OF seg_wf_ring [OF w]] by (auto simp: segments_queue)
  moreover have "segments (load_segment m) = segments m" by (simp add: segments_def load_segment_rest)
  moreover have "axes_complete (load_segment m)"
    using assms(1) by (simp add: flow_ok_def axes_complete_def load_segment_rest load_segment_stepper)
  ultimately show ?thesis
    using assms by (auto simp: flow_ok_def seg_wf_def cutting_def load_segment_rest load_segment_stepper)
qed

lemma flow_load_same:
  assumes "flow_ok m" "segments m = s # Q @ R" "bs = taken @ later" "unat (seg_st_block_index s) = exec_slot m"
    "\<forall>t\<in>set Q. unat (seg_st_block_index t) = exec_slot m" "st_exec_segment (stepper m) = None"
    "flight (st_block_buffer m) (Suc (exec_slot m)) R (uncut_steps m) later"
    "unat (prep_st_block_index (prep m)) = (exec_slot m + length later) mod 5" "length later \<le> 4"
    "in_execution idx m p0 taken (units (s # Q) + uncut (uncut_steps m) later)" "executable_block (last taken)" "idx < N_AXIS"
  shows "flow idx p0 bs (load_segment m)"
proof -
  let ?m = "load_segment m" and ?sb = "st_block_buffer m" and ?x = "exec_slot m"
  have w: "seg_wf m" and ok: "0 < unat (seg_n_step s)" using assms(1,2) by (simp_all add: flow_ok_def seg_ok_def)
  have st: "segment_buffer m ! unat (segment_buffer_tail m) = s" using segments_pop [OF w] assms(2) by simp
  have sg: "segments ?m = segments m" by (simp add: segments_def load_segment_rest)
  have u: "uncut_steps ?m = uncut_steps m" by (simp add: uncut_steps_def cutting_def steps_left_def load_segment_rest)
  have same: "st_exec_block_index (stepper m) = seg_st_block_index s" using assms(4) by (simp add: word_unat_eq_iff)
  have slot: "exec_slot ?m = exec_slot m" unfolding load_segment_stepper st same ..
  have todo: "todo ?m (s # Q) = units (s # Q)" by (simp add: todo_def load_segment_rest load_segment_stepper st)
  obtain d b r where e: "taken = d @ [b]" "copies (?sb ! ?x) b"
      "st_exec_block (stepper m) = Some (st_exec_block_index (stepper m))"
    using assms(10) unfolding in_execution_def by blast
  have ex: "in_execution idx ?m p0 taken (units (s # Q) + uncut (uncut_steps m) later)"
    using assms(10) unfolding in_execution_def due_def load_segment_rest load_segment_stepper st if_P [OF same] slot
    by (simp only: same)
  have "idx < length (sb_steps (?sb ! ?x))"
    using e(1,2) assms(11,12) by (simp add: copies_def executable_block_def)
  then have steps: "st_steps (stepper ?m) ! idx = drop_bit (unat (seg_amass_level s)) (sb_steps (?sb ! ?x) ! idx)"
    using e(3) unfolding load_segment_stepper st if_P [OF same] by simp
  show ?thesis
  proof (rule flowI [OF assms(3), of ?m "s # Q" R])
    show "st_exec_segment (stepper ?m) \<noteq> None \<Longrightarrow> s # Q \<noteq> [] \<and> 0 < unat (st_step_count (stepper ?m)) \<and>
      st_steps (stepper ?m) ! idx = drop_bit (unat (seg_amass_level (hd (s # Q)))) (sb_steps (st_block_buffer ?m ! exec_slot ?m) ! idx)"
      using steps ok unfolding slot by (simp add: load_segment_rest load_segment_stepper st)
    show "length later \<le> 4 \<and> in_execution idx ?m p0 taken (todo ?m (s # Q) + uncut (uncut_steps ?m) later)"
      unfolding todo u using ex assms(9) by blast
    show "todo ?m (s # Q) + uncut (uncut_steps ?m) later = 0 \<Longrightarrow> sys_position ?m ! idx = p0 + sum_list (map (displacement idx) taken)"
      unfolding todo using ok by simp
  qed (use assms(2,4,5,7-9) in \<open>simp_all add: slot u sg load_segment_rest\<close>)
qed


lemma flow_load_next:
  assumes "flow_ok m" "segments m = s # Q @ R" "bs = taken @ b # later" "unat (seg_st_block_index s) = Suc (exec_slot m) mod 5"
    "\<forall>t\<in>set Q. unat (seg_st_block_index t) = Suc (exec_slot m) mod 5"
    "flight (st_block_buffer m) (Suc (Suc (exec_slot m))) R (uncut_steps m) later"
    "unat (prep_st_block_index (prep m)) = (Suc (exec_slot m) + length later) mod 5" "length later \<le> 4"
    "units (s # Q) + uncut (uncut_steps m) later = 8 * events b" "copies (st_block_buffer m ! (Suc (exec_slot m) mod 5)) b"
    "sys_position m ! idx = p0 + sum_list (map (displacement idx) taken)" "executable_block b" "idx < N_AXIS"
  shows "flow idx p0 bs (load_segment m)"
proof -
  let ?m = "load_segment m" and ?sb = "st_block_buffer m" and ?x = "exec_slot m"
  have w: "seg_wf m" and ok: "0 < unat (seg_n_step s)" and x: "?x < 5"
    using assms(1,2) by (simp_all add: flow_ok_def seg_ok_def)
  have st: "segment_buffer m ! unat (segment_buffer_tail m) = s" using segments_pop [OF w] assms(2) by simp
  have sg: "segments ?m = segments m" by (simp add: segments_def load_segment_rest)
  have u: "uncut_steps ?m = uncut_steps m" by (simp add: uncut_steps_def cutting_def steps_left_def load_segment_rest)
  have new: "st_exec_block_index (stepper m) \<noteq> seg_st_block_index s"
  proof
    assume "st_exec_block_index (stepper m) = seg_st_block_index s"
    then have "?x = Suc ?x mod 5" using assms(4) by (simp only:)
    then show False using x by (cases "?x = 4") simp_all
  qed
  have slot: "exec_slot ?m = Suc ?x mod 5" unfolding load_segment_stepper st by (rule assms(4))
  have todo: "todo ?m (s # Q) = units (s # Q)" by (simp add: todo_def load_segment_rest load_segment_stepper st)
  have U: "todo ?m (s # Q) + uncut (uncut_steps ?m) later = 8 * events b" using assms(9) unfolding todo u .
  have e: "0 < events b" "events b < 2 ^ 24" and len: "length (pb_steps b) = N_AXIS"
    using assms(12) executable_events [OF assms(12)] by (simp_all add: executable_block_def)
  let ?d = "?sb ! (Suc ?x mod 5)"
  have d: "sb_steps ?d = map (push_bit MAX_AMASS_LEVEL) (pb_steps b)"
      "unat (drop_bit 1 (sb_step_event_count ?d)) = 4 * events b"
    using assms(10) e unat_scaled [of "pb_step_event_count b"] by (simp_all add: copies_def unat_drop_bit_div)
  have eb: "st_exec_block (stepper ?m) = Some (seg_st_block_index s)"
    unfolding load_segment_stepper st using new by simp
  have cnt: "st_counter (stepper ?m) ! idx = drop_bit 1 (sb_step_event_count ?d)"
    using assms(13) eb new unfolding load_segment_stepper st by (simp add: assms(4))
  have steps: "st_steps (stepper ?m) ! idx = drop_bit (unat (seg_amass_level s)) (sb_steps ?d ! idx)"
    using d(1) len assms(13) eb unfolding load_segment_stepper st by (simp add: assms(4))
  have "due idx ?m b (8 * events b) (int (unat (pb_steps b ! idx)))"
    using d(2) e unfolding due_def cnt by (simp add: algebra_simps)
  moreover have "sys_position ?m ! idx = p0 + sum_list (map (displacement idx) (taken @ [b])) - moves_by idx b (int (unat (pb_steps b ! idx)))"
    using assms(11) by (simp add: load_segment_rest displacement_moves_by)
  moreover have "st_exec_block (stepper ?m) = Some (st_exec_block_index (stepper ?m))"
    using eb unfolding load_segment_stepper(2) st .
  moreover have "copies (st_block_buffer ?m ! exec_slot ?m) b" unfolding slot load_segment_rest by (rule assms(10))
  ultimately have ex: "in_execution idx ?m p0 (taken @ [b]) (8 * events b)"
    unfolding in_execution_def by blast
  show ?thesis
  proof (rule flowI [of bs "taken @ [b]" later ?m "s # Q" R])
    show "st_exec_segment (stepper ?m) \<noteq> None \<Longrightarrow> s # Q \<noteq> [] \<and> 0 < unat (st_step_count (stepper ?m)) \<and>
      st_steps (stepper ?m) ! idx = drop_bit (unat (seg_amass_level (hd (s # Q)))) (sb_steps (st_block_buffer ?m ! exec_slot ?m) ! idx)"
      using steps ok unfolding slot by (simp add: load_segment_rest load_segment_stepper st)
    show "length later \<le> 4 \<and> in_execution idx ?m p0 (taken @ [b]) (todo ?m (s # Q) + uncut (uncut_steps ?m) later)"
      unfolding U using ex assms(8) by blast
    show "todo ?m (s # Q) + uncut (uncut_steps ?m) later = 0 \<Longrightarrow>
      sys_position ?m ! idx = p0 + sum_list (map (displacement idx) (taken @ [b]))"
      unfolding U using e by simp
    show "flight (st_block_buffer ?m) (Suc (exec_slot ?m)) R (uncut_steps ?m) later"
      using assms(6) unfolding slot u load_segment_rest flight_mod [OF mod_Suc_eq] .
    show "unat (prep_st_block_index (prep ?m)) = (exec_slot ?m + length later) mod 5"
      using assms(7) unfolding slot load_segment_rest mod_add_left_eq .
    show "bs = (taken @ [b]) @ later" using assms(3) by simp
    show "segments ?m = (s # Q) @ R" unfolding sg using assms(2) by simp
    show "\<forall>t\<in>set (s # Q). unat (seg_st_block_index t) = exec_slot ?m" unfolding slot using assms(4,5) by simp
    show "length later \<le> 5" using assms(8) by simp
  qed
qed

lemma flow_load_segment:
  assumes "flow_ok m" "flow idx p0 bs m" "st_exec_segment (stepper m) = None" "segments m = s # S"
    and "\<forall>b\<in>set bs. executable_block b" "idx < N_AXIS"
  shows "flow_ok (load_segment m) \<and> flow idx p0 bs (load_segment m)"
proof -
  let ?sb = "st_block_buffer m" and ?x = "exec_slot m"
  obtain taken later Q R where f: "bs = taken @ later" "segments m = Q @ R"
      "\<forall>s\<in>set Q. unat (seg_st_block_index s) = ?x" "flight ?sb (Suc ?x) R (uncut_steps m) later"
      "unat (prep_st_block_index (prep m)) = (?x + length later) mod 5" "length later \<le> 5"
      and run: "st_exec_segment (stepper m) \<noteq> None \<longrightarrow> Q \<noteq> [] \<and> 0 < unat (st_step_count (stepper m)) \<and>
         st_steps (stepper m) ! idx = drop_bit (unat (seg_amass_level (hd Q))) (sb_steps (?sb ! ?x) ! idx)"
      and fin: "todo m Q + uncut (uncut_steps m) later = 0 \<longrightarrow> sys_position m ! idx = p0 + sum_list (map (displacement idx) taken)"
      and ex: "todo m Q + uncut (uncut_steps m) later \<noteq> 0 \<longrightarrow>
         length later \<le> 4 \<and> in_execution idx m p0 taken (todo m Q + uncut (uncut_steps m) later)"
    by (rule flowE [OF assms(2)])
  have x: "?x < 5" and ok: "0 < unat (seg_n_step s)" using assms(1,4) by (simp_all add: flow_ok_def seg_ok_def)
  have todo: "todo m Q = units Q" using assms(3) by (simp add: todo_def)
  show ?thesis
  proof (cases Q)
    case (Cons t Q')
    then have t: "t = s" "unat (seg_st_block_index s) = ?x" "S = Q' @ R" using f(2,3) assms(4) by auto
    have "units (s # Q') \<noteq> 0" using ok by simp
    then have e: "length later \<le> 4" "in_execution idx m p0 taken (units (s # Q') + uncut (uncut_steps m) later)"
      using ex ok unfolding todo unfolding Cons t(1) by simp_all
    then have "executable_block (last taken)" using assms(5) f(1) by (auto simp: in_execution_def)
    then have "flow idx p0 bs (load_segment m)"
      using assms(1,3,4,6) f(1,3,4,5) t e unfolding Cons by (intro flow_load_same [of m s Q' R]) auto
    then show ?thesis using flow_ok_load_segment [OF assms(1,4)] t(2) x by simp
  next
    case Nil
    then have R: "R = s # S" using f(2) assms(4) by simp
    then obtain b ls where later: "later = b # ls" using f(4) by (cases later) auto
    have b: "executable_block b" using assms(5) f(1) later by simp
    then have "0 < events b" using executable_events by blast
    then obtain Q1 Q2 where q: "S = Q1 @ Q2" "\<forall>t\<in>set (s # Q1). unat (seg_st_block_index t) = Suc ?x mod 5"
        "units (s # Q1) + uncut (uncut_steps m) ls = 8 * events b" "flight ?sb (Suc (Suc ?x)) Q2 (uncut_steps m) ls"
        "copies (?sb ! (Suc ?x mod 5)) b"
      using flight_first f(4) unfolding R later by blast
    have "sys_position m ! idx = p0 + sum_list (map (displacement idx) taken)"
      using fin Nil unfolding todo later by simp
    then have "flow idx p0 bs (load_segment m)"
      using q b assms(1,4,6) f(1,5,6) later by (intro flow_load_next [of m s Q1 Q2 bs taken b ls]) simp_all
    then show ?thesis using flow_ok_load_segment [OF assms(1,4)] q(2) by simp
  qed
qed


text \<open>The whole interrupt.\<close>

lemma views_basic [simp]:
  "step_view (spi_write32 m) = step_view m" "holds_block (spi_write32 m) = holds_block m"
  "step_view (set_steppers_disable d m) = step_view m" "holds_block (set_steppers_disable d m) = holds_block m"
  "step_view (system_set_exec_state_flag k m) = step_view m" "holds_block (system_set_exec_state_flag k m) = holds_block m"
  "step_view (spindle_set_speed v m) = step_view m" "holds_block (spindle_set_speed v m) = holds_block m"
  "step_view (m\<lparr>busy := z\<rparr>) = step_view m" "holds_block (m\<lparr>busy := z\<rparr>) = holds_block m"
  "step_view (m\<lparr>step_port := o1\<rparr>) = step_view m" "holds_block (m\<lparr>step_port := o1\<rparr>) = holds_block m"
  "step_view (m\<lparr>direction_port := o2\<rparr>) = step_view m" "holds_block (m\<lparr>direction_port := o2\<rparr>) = holds_block m"
  "step_view (m\<lparr>timer1_enabled := on\<rparr>) = step_view m" "holds_block (m\<lparr>timer1_enabled := on\<rparr>) = holds_block m"
  by (simp_all add: spi_write32_def report_def step_view_def holds_block_def set_steppers_disable_def
      system_set_exec_state_flag_def spindle_set_speed_def)

lemma views_go_idle [simp]:
  "step_view (st_go_idle m) = step_view m" "holds_block (st_go_idle m) = holds_block m" "\<not> busy (st_go_idle m)"
  by (simp_all add: st_go_idle_def Let_def) (simp add: spi_write32_def report_def set_steppers_disable_def)

lemma timer1_idle:
  assumes "\<not> busy m" "st_exec_segment (stepper m) = None" "segment_buffer_head m = segment_buffer_tail m"
  shows "step_view (TIMER1_COMPA_vect m) = step_view m" "holds_block (TIMER1_COMPA_vect m) = holds_block m"
    "\<not> busy (TIMER1_COMPA_vect m)"
proof -
  let ?k = "(spi_write32 (m\<lparr>direction_port := st_dir_outbits (stepper m), step_port := st_step_outbits (stepper m)\<rparr>))\<lparr>busy := True\<rparr>"
  have k: "st_exec_segment (stepper ?k) = None" "segment_buffer_head ?k = segment_buffer_tail ?k"
    using assms(2,3) by (simp_all add: spi_write32_def report_def)
  have b: "busy (system_set_exec_state_flag e w) = busy w" "busy (spindle_set_speed v w) = busy w" for e v w
    by (simp_all add: system_set_exec_state_flag_def spindle_set_speed_def)
  define c where "c = sb_is_pwm_rate_adjusted (st_block_buffer (st_go_idle ?k) ! unat (the (st_exec_block (stepper (st_go_idle ?k)))))"
  have n: "\<not> segment_buffer_head ?k \<noteq> segment_buffer_tail ?k" using k(2) by blast
  have t: "TIMER1_COMPA_vect m = system_set_exec_state_flag EXEC_CYCLE_STOP
      (if c then spindle_set_speed SPINDLE_PWM_OFF_VALUE (st_go_idle ?k) else st_go_idle ?k)"
    unfolding TIMER1_COMPA_vect_def Let_def c_def if_not_P [OF assms(1)] if_P [OF k(1)] if_not_P [OF n]
    by (rule refl)
  show "step_view (TIMER1_COMPA_vect m) = step_view m" "holds_block (TIMER1_COMPA_vect m) = holds_block m"
    "\<not> busy (TIMER1_COMPA_vect m)"
    unfolding t by (cases c; simp add: b)+
qed

lemma flow_timer1:
  assumes "\<not> busy m" "flow_ok m" "flow idx p0 bs m" "\<forall>b\<in>set bs. executable_block b" "idx < N_AXIS"
  shows "\<not> busy (TIMER1_COMPA_vect m) \<and> flow_ok (TIMER1_COMPA_vect m) \<and> flow idx p0 bs (TIMER1_COMPA_vect m)"
proof -
  let ?k = "(spi_write32 (m\<lparr>direction_port := st_dir_outbits (stepper m), step_port := st_step_outbits (stepper m)\<rparr>))\<lparr>busy := True\<rparr>"
  have "step_view ?k = step_view m" "holds_block ?k = holds_block m" by simp_all
  then have k: "flow_ok ?k" "flow idx p0 bs ?k" using flow_kept [of ?k m] assms(2,3) by blast+
  have run: "\<not> busy (execute_step a) \<and> flow_ok (execute_step a) \<and> flow idx p0 bs (execute_step a)"
    if "flow_ok a" "flow idx p0 bs a" "st_exec_segment (stepper a) \<noteq> None" for a
    using flow_execute_step [OF that assms(4,5)] execute_step_rest(9) by blast
  consider y where "st_exec_segment (stepper ?k) = Some y"
    | "st_exec_segment (stepper ?k) = None" "segment_buffer_head ?k \<noteq> segment_buffer_tail ?k"
    | "st_exec_segment (stepper ?k) = None" "segment_buffer_head ?k = segment_buffer_tail ?k"
    by blast
  then show ?thesis
  proof cases
    case 1
    then have "TIMER1_COMPA_vect m = execute_step ?k" using assms(1) by (simp add: TIMER1_COMPA_vect_def Let_def)
    then show ?thesis using run [OF k] 1 by simp
  next
    case 2
    have "seg_wf ?k" using k(1) by (simp add: flow_ok_def)
    then have "segments ?k \<noteq> []" using segments_empty_iff 2(2) by blast
    then obtain s S where "segments ?k = s # S" by (cases "segments ?k") auto
    then have "flow_ok (load_segment ?k) \<and> flow idx p0 bs (load_segment ?k)"
      by (rule flow_load_segment [OF k 2(1) _ assms(4,5)])
    moreover have "TIMER1_COMPA_vect m = execute_step (load_segment ?k)" using assms(1) 2 by (simp add: TIMER1_COMPA_vect_def Let_def)
    ultimately show ?thesis using run [of "load_segment ?k"] by (simp add: load_segment_rest)
  next
    case 3
    then have "st_exec_segment (stepper m) = None" "segment_buffer_head m = segment_buffer_tail m"
      by (simp_all add: spi_write32_def report_def)
    then show ?thesis using timer1_idle [OF assms(1)] flow_kept [of "TIMER1_COMPA_vect m" m] assms(2,3) by blast
  qed
qed

section \<open>The interrupt alone\<close>

text \<open>The ticks the buffer holds: what is left of the segment in execution and the counts of the rest.\<close>

definition ticks_left :: "machine \<Rightarrow> nat" where
  "ticks_left m = (if st_exec_segment (stepper m) = None then \<Sum>s\<leftarrow>segments m. unat (seg_n_step s)
     else unat (st_step_count (stepper m)) + (\<Sum>s\<leftarrow>tl (segments m). unat (seg_n_step s)))"

definition can_tick :: "machine \<Rightarrow> bool" where
  "can_tick m \<longleftrightarrow> seg_wf m \<and> \<not> busy m \<and> (\<forall>s\<in>set (segments m). 0 < seg_n_step s)
     \<and> (st_exec_segment (stepper m) \<noteq> None \<longrightarrow> 0 < st_step_count (stepper m))"

lemma unat_pred: "0 < (w :: 'a::len word) \<Longrightarrow> unat w = Suc (unat (w - 1))"
  by (simp add: unat_minus_one unat_gt_0 word_neq_0_conv)

lemma executing_not_empty: "seg_wf m \<Longrightarrow> st_exec_segment (stepper m) \<noteq> None \<Longrightarrow> segments m \<noteq> []"
  by (auto simp: segments_empty_iff seg_wf_def)

lemma ticks_left_execute_step:
  assumes "seg_wf m" "\<forall>s\<in>set (segments m). 0 < seg_n_step s" "st_exec_segment (stepper m) \<noteq> None"
    "0 < st_step_count (stepper m)"
  shows "can_tick (execute_step m)" "ticks_left m = Suc (ticks_left (execute_step m))"
proof -
  let ?m = "execute_step m" and ?k = "st_step_count (stepper m)"
  obtain y where y: "st_exec_segment (stepper m) = Some y" using assms(3) by blast
  have ne: "segments m \<noteq> []" by (rule executing_not_empty [OF assms(1,3)])
  have k: "unat ?k = Suc (unat (?k - 1))" using assms(4) by (rule unat_pred)
  note sg = segments_execute_step [OF assms(1) ne]
  have "set (segments ?m) \<subseteq> set (segments m)" unfolding sg by (cases "segments m") auto
  then show "can_tick ?m"
    using seg_wf_execute_step [OF assms(1,3)] assms(2) k
    by (auto simp: can_tick_def execute_step_rest execute_step_frame(4) word_neq_0_conv [symmetric])
  show "ticks_left m = Suc (ticks_left ?m)"
  proof (cases "?k - 1 = 0")
    case True
    then show ?thesis using y k sg by (simp add: ticks_left_def execute_step_rest)
  next
    case False
    then show ?thesis using y k sg by (simp add: ticks_left_def execute_step_rest execute_step_frame(4))
  qed
qed

lemma ticks_left_load_segment:
  assumes "seg_wf m" "\<forall>s\<in>set (segments m). 0 < seg_n_step s" "st_exec_segment (stepper m) = None" "segments m \<noteq> []"
  defines "m' \<equiv> load_segment m"
  shows "seg_wf m'" "segments m' = segments m" "0 < st_step_count (stepper m')" "ticks_left m' = ticks_left m"
proof -
  let ?s = "segment_buffer m ! unat (segment_buffer_tail m)"
  obtain Q where Q: "segments m = ?s # Q" using segments_pop [OF assms(1,4)] by blast
  show sg: "segments m' = segments m" by (simp add: m'_def segments_def load_segment_rest)
  show "seg_wf m'" using assms(1,4) segments_empty_iff [OF assms(1)] by (simp add: m'_def seg_wf_def load_segment_rest)
  show "0 < st_step_count (stepper m')" using assms(2) Q by (simp add: m'_def load_segment_stepper)
  show "ticks_left m' = ticks_left m"
    using assms(3) Q sg by (simp add: ticks_left_def) (simp add: m'_def load_segment_rest load_segment_stepper)
qed

lemma timer1_ticks:
  assumes "can_tick m" "segments m \<noteq> []"
  shows "can_tick (TIMER1_COMPA_vect m)" "ticks_left m = Suc (ticks_left (TIMER1_COMPA_vect m))"
proof -
  let ?k = "(spi_write32 (m\<lparr>direction_port := st_dir_outbits (stepper m), step_port := st_step_outbits (stepper m)\<rparr>))\<lparr>busy := True\<rparr>"
  have v: "segments ?k = segments m" "seg_wf ?k = seg_wf m" "stepper ?k = stepper m" "ticks_left ?k = ticks_left m"
    by (simp_all add: spi_write32_def report_def segments_def seg_wf_def ticks_left_def)
  have w: "seg_wf ?k" "\<forall>s\<in>set (segments ?k). 0 < seg_n_step s" "segments ?k \<noteq> []" "\<not> busy m"
    using assms v by (simp_all add: can_tick_def)
  have "can_tick (TIMER1_COMPA_vect m) \<and> ticks_left ?k = Suc (ticks_left (TIMER1_COMPA_vect m))"
  proof (cases "st_exec_segment (stepper ?k) = None")
    case True
    have "segment_buffer_head ?k \<noteq> segment_buffer_tail ?k" using segments_empty_iff [OF w(1)] w(3) by blast
    then have t: "TIMER1_COMPA_vect m = execute_step (load_segment ?k)"
      using w(4) True by (simp add: TIMER1_COMPA_vect_def Let_def)
    note l = ticks_left_load_segment [OF w(1,2) True w(3)]
    have x: "st_exec_segment (stepper (load_segment ?k)) \<noteq> None" by (simp add: load_segment_rest)
    show ?thesis
      using ticks_left_execute_step [OF l(1) _ x l(3)] w(2) l(2,4) unfolding t by simp
  next
    case False
    then have t: "TIMER1_COMPA_vect m = execute_step ?k" using w(4) by (auto simp: TIMER1_COMPA_vect_def Let_def)
    have "0 < st_step_count (stepper ?k)" using assms(1) False v(3) by (simp add: can_tick_def)
    then show ?thesis using ticks_left_execute_step [OF w(1,2) False] unfolding t by blast
  qed
  then show "can_tick (TIMER1_COMPA_vect m)" "ticks_left m = Suc (ticks_left (TIMER1_COMPA_vect m))"
    using v(4) by auto
qed

lemma ticks_left_zero: "can_tick m \<Longrightarrow> ticks_left m = 0 \<longleftrightarrow> segments m = []"
proof
  assume m: "can_tick m" "ticks_left m = 0"
  show "segments m = []"
  proof (rule ccontr)
    assume "segments m \<noteq> []"
    then show False using timer1_ticks(2) [OF m(1)] m(2) by simp
  qed
next
  assume m: "can_tick m" "segments m = []"
  then have "st_exec_segment (stepper m) = None" using executing_not_empty [of m] unfolding can_tick_def by blast
  then show "ticks_left m = 0" using m(2) by (simp add: ticks_left_def)
qed

lemma drain_ticks:
  assumes "can_tick m" "k \<le> ticks_left m"
  shows "can_tick ((TIMER1_COMPA_vect ^^ k) m) \<and> ticks_left ((TIMER1_COMPA_vect ^^ k) m) = ticks_left m - k"
  using assms(2)
proof (induction k)
  case (Suc k)
  let ?m = "(TIMER1_COMPA_vect ^^ k) m"
  have IH: "can_tick ?m" "ticks_left ?m = ticks_left m - k" using Suc by simp_all
  then have "segments ?m \<noteq> []" using ticks_left_zero [OF IH(1)] Suc.prems by auto
  then show ?case using timer1_ticks [OF IH(1)] IH(2) by simp
qed (use assms(1) in simp)

lemma segments_drain:
  assumes "can_tick m" "k \<le> ticks_left m"
  shows "segments ((TIMER1_COMPA_vect ^^ k) m) = [] \<longleftrightarrow> k = ticks_left m"
  using drain_ticks [OF assms] ticks_left_zero [of "(TIMER1_COMPA_vect ^^ k) m"] assms(2) by auto

end
