(* ===== verification/Step_Cut.thy ===== *)
theory Step_Cut
  imports Step_Flow
begin

text \<open>
  The generator's side of the flow of steps: a round of \<^verbatim>\<open>st_prep_buffer\<close> keeps the invariant of
  \<^verbatim>\<open>Step_Flow\<close>, and with the interrupt's side every run of the two does.
\<close>

section \<open>A round of the generator\<close>

text \<open>The ramps change neither what is left to cut nor the flags.\<close>

definition prep_same :: "st_prep_t \<Rightarrow> st_prep_t \<Rightarrow> bool" where
  "prep_same q q' \<longleftrightarrow> prep_st_block_index q' = prep_st_block_index q \<and> prep_recalculate_flag q' = prep_recalculate_flag q
     \<and> prep_steps_remaining q' = prep_steps_remaining q \<and> prep_mm_complete q' = prep_mm_complete q"

lemma prep_same_refl: "prep_same q q"
  by (simp add: prep_same_def)

lemma prep_same_trans: "prep_same a b \<Longrightarrow> prep_same b c \<Longrightarrow> prep_same a c"
  by (simp add: prep_same_def)

lemma ramp_step_same: "prep_same q (fst (ramp_step accel mm q t r))"
  by (simp add: ramp_step_def prep_same_def Let_def)

lemma ramp_loop_same:
  assumes "ramp_loop accel mm lo q dt_max dt t r = Some z"
  shows "prep_same q (fst z)"
proof (rule ramp_loop.raw_induct [where P = "\<lambda>_ _ _ q _ _ _ _ z. prep_same q (fst z)", OF _ assms])
  fix loop accel mm lo q dt_max dt t r z
  assume IH: "\<And>accel mm lo q dt_max dt t r z. loop accel mm lo q dt_max dt t r = Some z \<Longrightarrow> prep_same q (fst z)"
    and z: "(let (q, time_var, mm_remaining) = ramp_step accel mm q t r; dt = f32_add dt time_var
      in if f32_lt dt dt_max then
           (if f32_lt (prep_mm_complete q) mm_remaining
            then loop accel mm lo q dt_max dt (f32_sub dt_max dt) mm_remaining
            else Some (q, dt, mm_remaining))
         else if f32_lt lo mm_remaining then
           (let dt_max = flt (f64_add (dbl dt_max) DT_SEGMENT)
            in if f32_lt (prep_mm_complete q) mm_remaining
               then loop accel mm lo q dt_max dt (f32_sub dt_max dt) mm_remaining
               else Some (q, dt, mm_remaining))
         else Some (q, dt, mm_remaining)) = Some z"
  obtain q' t' r' where s: "ramp_step accel mm q t r = (q', t', r')" by (cases "ramp_step accel mm q t r") auto
  then have q': "prep_same q q'" using ramp_step_same [of q accel mm t r] by simp
  have "prep_same q' (fst z)"
    using z unfolding s by (auto simp: Let_def prep_same_refl dest: IH split: if_splits)
  then show "prep_same q (fst z)" using q' prep_same_trans by blast
qed

text \<open>Fetching: the block is held already, taken up again, or loaded.\<close>

lemma resume_bit:
  "(f OR PREP_FLAG_DECEL_OVERRIDE) AND PREP_FLAG_RECALCULATE = f AND (PREP_FLAG_RECALCULATE :: u8)"
  "bit_false f PREP_FLAG_DECEL_OVERRIDE AND PREP_FLAG_RECALCULATE = f AND (PREP_FLAG_RECALCULATE :: u8)"
  by (simp_all add: bit_false_def word_ao_dist and.assoc)

lemma profile_rest:
  "prep_st_block_index (prep (st_block_profile b m)) = prep_st_block_index (prep m)"
  "prep_steps_remaining (prep (st_block_profile b m)) = prep_steps_remaining (prep m)"
  "prep_recalculate_flag (prep (st_block_profile b m)) AND PREP_FLAG_RECALCULATE =
     prep_recalculate_flag (prep m) AND PREP_FLAG_RECALCULATE"
  "\<not> f32_lt (prep_mm_complete (prep (st_block_profile b m))) 0"
proof -
  have z: "\<not> f32_lt 0 0" by code_simp
  show "prep_st_block_index (prep (st_block_profile b m)) = prep_st_block_index (prep m)"
    "prep_steps_remaining (prep (st_block_profile b m)) = prep_steps_remaining (prep m)"
    "prep_recalculate_flag (prep (st_block_profile b m)) AND PREP_FLAG_RECALCULATE =
       prep_recalculate_flag (prep m) AND PREP_FLAG_RECALCULATE"
    "\<not> f32_lt (prep_mm_complete (prep (st_block_profile b m))) 0"
    using z by (simp_all add: st_block_profile_def upd_prep_def profile_hold_def profile_normal_def Let_def
        resume_bit [simplified])
qed

lemma profile_same:
  "segment_buffer (st_block_profile b m) = segment_buffer m" "segment_buffer_head (st_block_profile b m) = segment_buffer_head m"
  "segment_buffer_tail (st_block_profile b m) = segment_buffer_tail m" "segment_next_head (st_block_profile b m) = segment_next_head m"
  "st_block_buffer (st_block_profile b m) = st_block_buffer m" "stepper (st_block_profile b m) = stepper m"
  "pl_block (st_block_profile b m) = pl_block m" "sys_position (st_block_profile b m) = sys_position m"
  "busy (st_block_profile b m) = busy m"
  by (simp_all add: st_block_profile_def upd_prep_def Let_def)

lemma load_block_same:
  "segment_buffer (st_load_block b m) = segment_buffer m" "segment_buffer_head (st_load_block b m) = segment_buffer_head m"
  "segment_buffer_tail (st_load_block b m) = segment_buffer_tail m" "segment_next_head (st_load_block b m) = segment_next_head m"
  "stepper (st_load_block b m) = stepper m" "pl_block (st_load_block b m) = pl_block m"
  "sys_position (st_load_block b m) = sys_position m" "busy (st_load_block b m) = busy m"
  by (simp_all add: st_load_block_def st_copy_block_def upd_prep_def set_block_def Let_def)

lemma load_block_prep:
  "prep_st_block_index (prep (st_load_block b m)) = st_next_block_index (prep_st_block_index (prep m))"
  "prep_recalculate_flag (prep (st_load_block b m)) AND PREP_FLAG_RECALCULATE =
     prep_recalculate_flag (prep m) AND PREP_FLAG_RECALCULATE"
  "prep_steps_remaining (prep (st_load_block b m)) = f32_of_int (uint (pb_step_event_count (block_at m b)))"
  by (simp_all add: st_load_block_def st_copy_block_def upd_prep_def set_block_def block_at_def Let_def resume_bit [simplified])

lemma load_block_slots:
  fixes m b defines "i \<equiv> unat (st_next_block_index (prep_st_block_index (prep m)))"
  assumes "i < length (st_block_buffer m)"
  shows "length (st_block_buffer (st_load_block b m)) = length (st_block_buffer m)"
    "copies (st_block_buffer (st_load_block b m) ! i) (block_at m b)"
    "j \<noteq> i \<Longrightarrow> st_block_buffer (st_load_block b m) ! j = st_block_buffer m ! j"
  using assms by (simp_all add: st_load_block_def st_copy_block_def upd_prep_def set_block_def block_at_def Let_def copies_def)

lemma fetch_cases:
  assumes "st_fetch_block m = (m1, Some b)"
  obtains (held) "pl_block m = Some b" "m1 = m"
  | (resumed) "pl_block m = None" "prep_recalculate_flag (prep m) AND PREP_FLAG_RECALCULATE \<noteq> 0"
      "m1 = st_block_profile b (upd_prep (\<lambda>q. q\<lparr>prep_recalculate_flag := 0\<rparr>) (m\<lparr>pl_block := Some b\<rparr>))"
  | (loaded) "\<not> cutting m" "loaded_block m = [block_at m b]"
      "m1 = st_block_profile b (st_load_block b (m\<lparr>pl_block := Some b\<rparr>))"
proof (cases "pl_block m")
  case (Some a)
  then have "st_fetch_block m = (m, Some a)" by (simp add: st_fetch_block_def)
  then show ?thesis using assms Some by (intro held) simp_all
next
  case None
  let ?o = "if sys_step_control (sys m) AND STEP_CONTROL_EXECUTE_SYS_MOTION \<noteq> 0
    then Some (plan_get_system_motion_block m) else plan_get_current_block m"
  let ?take = "\<lambda>b. if prep_recalculate_flag (prep m) AND PREP_FLAG_RECALCULATE \<noteq> 0
    then upd_prep (\<lambda>q. q\<lparr>prep_recalculate_flag := 0\<rparr>) (m\<lparr>pl_block := Some b\<rparr>)
    else st_load_block b (m\<lparr>pl_block := Some b\<rparr>)"
  have f: "st_fetch_block m = (case ?o of None \<Rightarrow> (m\<lparr>pl_block := ?o\<rparr>, None)
      | Some b \<Rightarrow> (st_block_profile b (?take b), Some b))"
    unfolding st_fetch_block_def None Let_def option.case by (cases ?o) simp_all
  obtain a where a: "?o = Some a" using assms unfolding f by (cases ?o) (simp_all only: option.case prod.inject, blast)
  have o: "?o = Some b" and m1: "m1 = st_block_profile b (?take b)"
    using assms a unfolding f a option.case prod.inject option.inject by blast+
  show ?thesis
  proof (cases "prep_recalculate_flag (prep m) AND PREP_FLAG_RECALCULATE \<noteq> 0")
    case True
    then show ?thesis using None m1 by (intro resumed) simp_all
  next
    case False
    moreover from this have "\<not> cutting m" using None by (simp add: cutting_def)
    moreover from this have "loaded_block m = [block_at m b]"
      using o by (auto simp: loaded_block_def split: if_splits)
    ultimately show ?thesis using m1 by (intro loaded) simp_all
  qed
qed

lemma block_at_pl [simp]: "block_at (m\<lparr>pl_block := z\<rparr>) b = block_at m b"
  by (simp add: block_at_def)

lemma cutting_held: "pl_block m \<noteq> None \<Longrightarrow> cutting m"
  by (simp add: cutting_def)

lemma segments_not_full:
  assumes "seg_wf m" "segment_buffer_tail m \<noteq> segment_next_head m"
  shows "length (segments m) \<le> 4"
proof -
  have w: "seg_ring m" using assms(1) by (rule seg_wf_ring)
  have "unat (segment_next_head m) = (unat (segment_buffer_head m) + 1) mod 6"
    using assms(1) unat_seg_next by (simp add: seg_wf_def)
  then have "(unat (segment_buffer_head m) + 1) mod 6 \<noteq> unat (segment_buffer_tail m)"
    using assms(2) by (metis word_unat_eq_iff)
  then have "length (segments m) \<noteq> 5"
    using segq.queue_full_iff [OF w] by (simp add: segments_queue)
  then show ?thesis using segq.queue_bound [OF w] by (simp add: segments_queue)
qed

lemma mod5_distinct: "j < n \<Longrightarrow> n \<le> 4 \<Longrightarrow> (x + j) mod 5 \<noteq> (x + n) mod (5 :: nat)"
proof
  assume "j < n" "n \<le> 4" "(x + j) mod 5 = (x + n) mod (5 :: nat)"
  then have "5 dvd (x + n) - (x + j)" by (metis mod_eq_dvd_iff_nat add_le_mono le_refl less_imp_le)
  then show False using \<open>j < n\<close> \<open>n \<le> 4\<close> by (auto dest!: dvd_imp_le)
qed

lemma unat_next_block: "unat (st_next_block_index i) = (unat i + 1) mod 5" if "unat i < 5"
  using that unat_ring_next_small [of 5 i] by (simp add: st_next_block_index_def)

lemma flow_loaded:
  assumes "flow_ok m" "flow idx p0 bs m" "\<not> cutting m" "length (segments m) \<le> 4"
    "\<forall>b\<in>set bs. executable_block b" "segments m1 = segments m" "stepper m1 = stepper m" "sys_position m1 = sys_position m"
    "unat (prep_st_block_index (prep m1)) = (unat (prep_st_block_index (prep m)) + 1) mod 5"
    "copies (st_block_buffer m1 ! unat (prep_st_block_index (prep m1))) a"
    "\<And>j. j \<noteq> unat (prep_st_block_index (prep m1)) \<Longrightarrow> st_block_buffer m1 ! j = st_block_buffer m ! j"
    "cutting m1" "steps_left m1 = int (events a)"
  shows "flow idx p0 (bs @ [a]) m1"
proof -
  let ?sb = "st_block_buffer m" and ?sb1 = "st_block_buffer m1" and ?x = "exec_slot m"
  obtain taken later Q R where f: "bs = taken @ later" "segments m = Q @ R" "\<forall>s\<in>set Q. unat (seg_st_block_index s) = ?x"
      "flight ?sb (Suc ?x) R (uncut_steps m) later" "unat (prep_st_block_index (prep m)) = (?x + length later) mod 5"
      "length later \<le> 5"
      and run: "st_exec_segment (stepper m) \<noteq> None \<longrightarrow> Q \<noteq> [] \<and> 0 < unat (st_step_count (stepper m)) \<and>
         st_steps (stepper m) ! idx = drop_bit (unat (seg_amass_level (hd Q))) (sb_steps (?sb ! ?x) ! idx)"
      and fin: "todo m Q + uncut (uncut_steps m) later = 0 \<longrightarrow> sys_position m ! idx = p0 + sum_list (map (displacement idx) taken)"
      and ex: "todo m Q + uncut (uncut_steps m) later \<noteq> 0 \<longrightarrow>
         length later \<le> 4 \<and> in_execution idx m p0 taken (todo m Q + uncut (uncut_steps m) later)"
    by (rule flowE [OF assms(2)])
  have u: "uncut_steps m = 0" "uncut_steps m1 = events a" using assms(3,12,13) by (simp_all add: uncut_steps_def)
  have x: "?x < 5" using assms(1) by (rule seg_index_small)
  have "\<forall>b\<in>set later. 0 < events b" using assms(5) f(1) executable_events by auto
  then have n: "length later \<le> length R" using flight_length f(4) unfolding u by blast
  have n4: "length later \<le> 4" using n f(2) assms(4) by simp
  have n3: "length later \<le> 3" if "Q \<noteq> []" using that n f(2) assms(4) by (cases Q) simp_all
  have i: "unat (prep_st_block_index (prep m1)) = (?x + Suc (length later)) mod 5"
    unfolding assms(9) f(5) by (simp add: mod_simps)
  have old: "?sb1 ! ((Suc ?x + j) mod 5) = ?sb ! ((Suc ?x + j) mod 5)" if "j < length later" for j
    using assms(11) mod5_distinct [of j "length later" "Suc ?x"] that n4 unfolding i by simp
  have here: "?sb1 ! ?x = ?sb ! ?x" if "length later \<le> 3"
    using assms(11) mod5_distinct [of 0 "Suc (length later)" ?x] that x unfolding i by simp
  have todo: "todo m1 Q' = todo m Q'" for Q' using assms(7) by (simp add: todo_def)
  have due: "in_execution idx m1 p0 taken U \<longleftrightarrow> in_execution idx m p0 taken U" if "length later \<le> 3" for U
    using here [OF that] assms(7,8) by (simp add: in_execution_def due_def)
  have pos: "todo m1 Q + uncut (uncut_steps m1) (later @ [a]) = todo m Q + uncut (uncut_steps m) later"
    by (simp add: todo u)
  have Q0: "Q \<noteq> []" if "todo m Q + uncut (uncut_steps m) later \<noteq> 0"
  proof
    assume Q: "Q = []"
    then have "st_exec_segment (stepper m) = None" using run by blast
    then have "todo m Q = 0" using Q by (simp add: todo_def)
    then show False using that by (simp add: u)
  qed
  show ?thesis
  proof (rule flowI [of _ taken "later @ [a]" m1 Q R])
    show "flight ?sb1 (Suc (exec_slot m1)) R (uncut_steps m1) (later @ [a])"
      unfolding u assms(7)
    proof (rule flight_load)
      show "flight ?sb1 (Suc ?x) R 0 later" using f(4) unfolding u by (rule flight_slots) (rule old)
      show "copies (?sb1 ! ((Suc ?x + length later) mod 5)) a" using assms(10) unfolding i by simp
    qed
    show "st_exec_segment (stepper m1) \<noteq> None \<Longrightarrow> Q \<noteq> [] \<and> 0 < unat (st_step_count (stepper m1)) \<and>
      st_steps (stepper m1) ! idx = drop_bit (unat (seg_amass_level (hd Q))) (sb_steps (?sb1 ! exec_slot m1) ! idx)"
      using run here n3 unfolding assms(7) by simp
    show "todo m1 Q + uncut (uncut_steps m1) (later @ [a]) = 0 \<Longrightarrow>
      sys_position m1 ! idx = p0 + sum_list (map (displacement idx) taken)"
      using fin unfolding pos assms(8) by simp
    show "length (later @ [a]) \<le> 4 \<and> in_execution idx m1 p0 taken (todo m1 Q + uncut (uncut_steps m1) (later @ [a]))"
      if "todo m1 Q + uncut (uncut_steps m1) (later @ [a]) \<noteq> 0"
      using that ex n3 [OF Q0] due [OF n3 [OF Q0]] unfolding pos by simp
    show "length (later @ [a]) \<le> 5" using n4 by simp
    show "unat (prep_st_block_index (prep m1)) = (exec_slot m1 + length (later @ [a])) mod 5"
      using i unfolding assms(7) by simp
  qed (use f assms(6,7) in simp_all)
qed

lemma segments_same:
  assumes "segment_buffer m' = segment_buffer m" "segment_buffer_head m' = segment_buffer_head m"
    "segment_buffer_tail m' = segment_buffer_tail m"
  shows "segments m' = segments m"
  using assms by (simp add: segments_def)

lemma steps_left_int:
  "f32_dec (prep_steps_remaining (prep m)) = (s, Fin (of_int L)) \<Longrightarrow> steps_left m = L"
  by (simp add: steps_left_def)

lemma flow_fetch:
  assumes "flow_ok m" "flow idx p0 bs m" "segment_buffer_tail m \<noteq> segment_next_head m"
    "st_fetch_block m = (m1, Some b)" "\<forall>b\<in>set (bs @ loaded_block m). executable_block b"
  shows "flow_ok m1 \<and> flow idx p0 (bs @ loaded_block m) m1 \<and> pl_block m1 = Some b \<and> busy m1 = busy m"
proof -
  have w: "seg_wf m" "exec_slot m < 5" "length (st_block_buffer m) = 5" using assms(1) by (simp_all add: flow_ok_def)
  have same: "seg_same m m1" using seg_same_fetch [of m] assms(4) by simp
  then have w1: "seg_wf m1" by (rule seg_wf_keep [OF w(1)])
  from assms(4) show ?thesis
  proof (cases rule: fetch_cases)
    case held
    then have "loaded_block m = []" by (simp add: loaded_block_def cutting_def)
    then show ?thesis using held assms(1,2) by simp
  next
    case resumed
    let ?k = "upd_prep (\<lambda>q. q\<lparr>prep_recalculate_flag := 0\<rparr>) (m\<lparr>pl_block := Some b\<rparr>)"
    have c: "cutting m" "cutting m1" using resumed by (simp_all add: cutting_def profile_same upd_prep_def)
    have "step_data m1 = step_data m"
      unfolding resumed(3) step_data_def profile_rest profile_same
      using segments_same [of m1 m] resumed(3) by (simp add: profile_same upd_prep_def)
    then have fl: "flow idx p0 bs m1" and d: "segments m1 = segments m" "prep_steps_remaining (prep m1) = prep_steps_remaining (prep m)"
      using flow_view [of m1 m] c assms(2) by (simp_all add: step_data_def)
    have "flow_ok m1"
      using assms(1) w1 c d profile_rest(4) [of b ?k]
      by (auto simp: flow_ok_def axes_complete_def resumed(3) profile_rest profile_same upd_prep_def)
    moreover have "loaded_block m = []" using c by (simp add: loaded_block_def)
    ultimately show ?thesis using fl by (simp add: resumed(3) profile_same upd_prep_def)
  next
    case loaded
    let ?k = "m\<lparr>pl_block := Some b\<rparr>" and ?a = "block_at m b"
    let ?i = "unat (st_next_block_index (prep_st_block_index (prep m)))"
    have a: "executable_block ?a" using assms(5) loaded(2) by simp
    then have ev: "\<bar>int (events ?a)\<bar> < 2 ^ 24"
      using executable_events [OF a] by (simp only: abs_of_nat of_nat_less_numeral_power_cancel_iff)
    obtain later :: "plan_block_t list" where "unat (prep_st_block_index (prep m)) = (exec_slot m + length later) mod 5"
      using assms(2) by (rule flowE)
    then have "unat (prep_st_block_index (prep m)) < 5" by simp
    then have i: "?i = (unat (prep_st_block_index (prep m)) + 1) mod 5" by (rule unat_next_block)
    then have "unat (st_next_block_index (prep_st_block_index (prep ?k))) < length (st_block_buffer ?k)" using w(3) by simp
    note slots = load_block_slots [where m = ?k and b = b, OF this, simplified]
    have st: "prep_steps_remaining (prep m1) = f32_of_int (int (events ?a))"
      unfolding loaded(3) profile_rest load_block_prep by simp
    have dec: "f32_dec (prep_steps_remaining (prep m1)) = (False, Fin (of_int (int (events ?a))))"
      unfolding st f32_of_int_exact [OF ev] by simp
    have c: "cutting m1" unfolding loaded(3) by (rule cutting_held) (simp add: profile_same load_block_same)
    have sg: "segments m1 = segments m" unfolding loaded(3) by (rule segments_same) (simp_all add: profile_same load_block_same)
    have "flow idx p0 (bs @ [?a]) m1"
    proof (rule flow_loaded [OF assms(1,2) loaded(1) segments_not_full [OF w(1) assms(3)]])
      show "\<forall>b\<in>set bs. executable_block b" using assms(5) by simp
      show "steps_left m1 = int (events ?a)" using dec by (rule steps_left_int)
      show "unat (prep_st_block_index (prep m1)) = (unat (prep_st_block_index (prep m)) + 1) mod 5"
        unfolding loaded(3) profile_rest load_block_prep using i by simp
    qed (use sg c slots in \<open>simp_all add: loaded(3) profile_same load_block_same profile_rest load_block_prep\<close>)
    moreover have "flow_ok m1"
    proof -
      have fl: "prep_recalculate_flag (prep m1) AND PREP_FLAG_RECALCULATE = 0"
        using loaded(1) unfolding loaded(3) profile_rest load_block_prep by (simp add: cutting_def)
      have ex: "\<exists>s L. f32_dec (prep_steps_remaining (prep m1)) = (s, Fin (of_int L)) \<and> 0 \<le> L \<and> L < 2 ^ 24"
        using dec ev by (intro exI [of _ False] exI [of _ "int (events ?a)"] conjI) (simp_all only: abs_of_nat of_nat_0_le_iff)
      have "stepper m1 = stepper m" "sys_position m1 = sys_position m" "length (st_block_buffer m1) = 5"
        using slots(1) w(3) by (simp_all add: loaded(3) profile_same load_block_same)
      moreover have "\<not> f32_lt (prep_mm_complete (prep m1)) 0" unfolding loaded(3) by (rule profile_rest(4))
      ultimately show ?thesis
        using assms(1) w1 fl ex unfolding flow_ok_def axes_complete_def sg by simp
    qed
    ultimately show ?thesis using loaded(2) by (simp add: loaded(3) profile_same load_block_same)
  qed
qed

text \<open>Writing a segment: it takes from the uncut steps of the block what it will execute.\<close>

lemma todo_snoc:
  "stepper m' = stepper m \<Longrightarrow> st_exec_segment (stepper m) \<noteq> None \<longrightarrow> Q \<noteq> [] \<Longrightarrow>
   todo m' (Q @ [s]) = todo m Q + units [s]"
  by (cases Q) (simp_all add: todo_def)

lemma segment_units:
  assumes "unat (seg_n_step s) = k * 2 ^ unat (seg_amass_level s)" "unat (seg_amass_level s) \<le> 3"
  shows "units [s] = 8 * k"
proof -
  have "(2 :: nat) ^ unat (seg_amass_level s) * 2 ^ (3 - unat (seg_amass_level s)) = 2 ^ 3"
    using assms(2) by (simp flip: power_add)
  then show ?thesis using assms(1) by simp
qed

lemma flow_written:
  assumes "flow_ok m" "flow idx p0 bs m" "pl_block m \<noteq> None" "segments m' = segments m @ [s]"
    "stepper m' = stepper m" "st_block_buffer m' = st_block_buffer m" "sys_position m' = sys_position m"
    "prep_st_block_index (prep m') = prep_st_block_index (prep m)" "seg_st_block_index s = prep_st_block_index (prep m)"
    "unat (seg_amass_level s) \<le> 3" "unat (seg_n_step s) = k * 2 ^ unat (seg_amass_level s)" "0 < k"
    "uncut_steps m = uncut_steps m' + k"
  shows "flow idx p0 bs m'"
proof -
  let ?sb = "st_block_buffer m" and ?x = "exec_slot m"
  obtain taken later Q R where f: "bs = taken @ later" "segments m = Q @ R" "\<forall>s\<in>set Q. unat (seg_st_block_index s) = ?x"
      "flight ?sb (Suc ?x) R (uncut_steps m) later" "unat (prep_st_block_index (prep m)) = (?x + length later) mod 5"
      "length later \<le> 5"
      and run: "st_exec_segment (stepper m) \<noteq> None \<longrightarrow> Q \<noteq> [] \<and> 0 < unat (st_step_count (stepper m)) \<and>
         st_steps (stepper m) ! idx = drop_bit (unat (seg_amass_level (hd Q))) (sb_steps (?sb ! ?x) ! idx)"
      and fin: "todo m Q + uncut (uncut_steps m) later = 0 \<longrightarrow> sys_position m ! idx = p0 + sum_list (map (displacement idx) taken)"
      and ex: "todo m Q + uncut (uncut_steps m) later \<noteq> 0 \<longrightarrow>
         length later \<le> 4 \<and> in_execution idx m p0 taken (todo m Q + uncut (uncut_steps m) later)"
    by (rule flowE [OF assms(2)])
  have x: "?x < 5" using assms(1) by (rule seg_index_small)
  have s: "units [s] = 8 * k" using assms(11,10) by (rule segment_units)
  have due: "in_execution idx m' p0 taken U \<longleftrightarrow> in_execution idx m p0 taken U" for U
    using assms(5-7) by (simp add: in_execution_def due_def)
  have i: "unat (prep_st_block_index (prep m')) = (exec_slot m' + length later) mod 5"
    using f(5) unfolding assms(5,8) .
  show ?thesis
  proof (cases "later = []")
    case True
    have R: "R = []" using f(4) True by simp
    have Q: "todo m' (Q @ [s]) = todo m Q + 8 * k" 
      unfolding s [symmetric] using run by (intro todo_snoc [OF assms(5)]) blast
    have sum: "todo m' (Q @ [s]) + uncut (uncut_steps m') later = todo m Q + uncut (uncut_steps m) later"
      unfolding Q True using assms(13) by simp
    have nz: "todo m Q + uncut (uncut_steps m) later \<noteq> 0" using assms(12,13) True by simp
    have hd: "hd (Q @ [s]) = hd Q" if "Q \<noteq> []" using that by simp
    show ?thesis
    proof (rule flowI [OF f(1), of m' "Q @ [s]" "[]"])
      show "\<forall>t\<in>set (Q @ [s]). unat (seg_st_block_index t) = exec_slot m'"
        using f(3,5) x unfolding assms(5) by (simp add: assms(9) True)
      show "st_exec_segment (stepper m') \<noteq> None \<Longrightarrow> Q @ [s] \<noteq> [] \<and> 0 < unat (st_step_count (stepper m')) \<and>
        st_steps (stepper m') ! idx =
          drop_bit (unat (seg_amass_level (hd (Q @ [s])))) (sb_steps (st_block_buffer m' ! exec_slot m') ! idx)"
        using run hd unfolding assms(5,6) by simp
      show "length later \<le> 4 \<and> in_execution idx m' p0 taken (todo m' (Q @ [s]) + uncut (uncut_steps m') later)"
        unfolding sum due using ex nz by blast
      show "sys_position m' ! idx = p0 + sum_list (map (displacement idx) taken)"
        if "todo m' (Q @ [s]) + uncut (uncut_steps m') later = 0" using that nz unfolding sum by blast
    qed (use f(2) R True i f(6) assms(4) in simp_all)
  next
    case False
    have R: "flight ?sb (Suc ?x) (R @ [s]) (uncut_steps m') later"
      using f(5) by (intro flight_write [OF f(4) False _ s assms(13)]) (simp add: assms(9))
    have sum: "todo m' Q + uncut (uncut_steps m') later = todo m Q + uncut (uncut_steps m) later"
      using False by (simp add: todo_def assms(5) uncut_def)
    show ?thesis
    proof (rule flowI [OF f(1), of m' Q "R @ [s]"])
      show "st_exec_segment (stepper m') \<noteq> None \<Longrightarrow> Q \<noteq> [] \<and> 0 < unat (st_step_count (stepper m')) \<and>
        st_steps (stepper m') ! idx = drop_bit (unat (seg_amass_level (hd Q))) (sb_steps (st_block_buffer m' ! exec_slot m') ! idx)"
        using run unfolding assms(5,6) by blast
      show "length later \<le> 4 \<and> in_execution idx m' p0 taken (todo m' Q + uncut (uncut_steps m') later)"
        if "todo m' Q + uncut (uncut_steps m') later \<noteq> 0" using that ex unfolding sum due by blast
      show "sys_position m' ! idx = p0 + sum_list (map (displacement idx) taken)"
        if "todo m' Q + uncut (uncut_steps m') later = 0" using that fin unfolding sum assms(7) by simp
    qed (use f(2,3,6) R i assms(4-6) in simp_all)
  qed
qed

text \<open>What the generator does aside: it fills the head slot and keeps its ramp and the spindle's value.\<close>

definition aside :: "machine \<Rightarrow> machine \<Rightarrow> bool" where
  "aside m m' \<longleftrightarrow> seg_same m m' \<and> st_block_buffer m' = st_block_buffer m \<and> sys_position m' = sys_position m
     \<and> pl_block m' = pl_block m \<and> busy m' = busy m \<and> prep_same (prep m) (prep m')
     \<and> (\<forall>j. j \<noteq> unat (segment_buffer_head m) \<longrightarrow> segment_buffer m' ! j = segment_buffer m ! j)"

lemma aside_trans: "aside a b \<Longrightarrow> aside b c \<Longrightarrow> aside a c"
  unfolding aside_def seg_same_def by (simp add: prep_same_def)

lemma aside_basic:
  "aside m (upd_segment f m)" "prep_same (prep m) q \<Longrightarrow> aside m (m\<lparr>prep := q\<rparr>)" "aside m (set_block i g m)"
  "aside m (set_step_control c m)" "aside m (set_spindle_speed v m)"
  by (simp_all add: aside_def seg_same_def prep_same_def upd_segment_def set_block_def set_spindle_speed_def Let_def)

lemma aside_pwm: "aside m (upd_prep (\<lambda>q. q\<lparr>prep_current_spindle_pwm := v\<rparr>) m)"
  unfolding upd_prep_def by (rule aside_basic(2)) (simp add: prep_same_def)

lemma aside_spindle: "aside m (segment_spindle b m)"
proof -
  have r: "aside m m" by (simp add: aside_def prep_same_def)
  have c: "aside m (snd (spindle_compute_pwm_value rpm m))" for rpm
    using spindle_compute_frame [of rpm m] aside_basic(5) by metis
  have p: "aside m k \<Longrightarrow> aside m (upd_prep (\<lambda>q. q\<lparr>prep_current_spindle_pwm := v\<rparr>) k)"
    "aside m k \<Longrightarrow> aside m (set_step_control d k)" "aside m k \<Longrightarrow> aside m (upd_segment f k)"
    "aside m k \<Longrightarrow> aside m (set_spindle_speed w k)" for k v d f w
    using aside_trans aside_pwm aside_basic by blast+
  show ?thesis
    unfolding segment_spindle_def Let_def case_prod_beta by (intro p(3)) (simp add: r c p)
qed

lemma ring_other:
  assumes "h < n" "t < (n :: nat)" "i < ring_len n h t"
  shows "(t + i) mod n \<noteq> h"
proof -
  have "i < n" using assms(1,3) ring_len_less [of n h t] by simp
  then show ?thesis
    using assms by (auto simp: ring_len_cases ring_add_cases split: if_splits)
qed

lemma segments_aside:
  assumes "seg_wf m" "aside m m'"
  shows "segments m' = segments m"
proof -
  have w: "unat (segment_buffer_head m) < 6" "unat (segment_buffer_tail m) < 6" using assms(1) by (simp_all add: seg_wf_def)
  have ix: "segment_buffer_head m' = segment_buffer_head m" "segment_buffer_tail m' = segment_buffer_tail m"
    and off: "\<And>j. j \<noteq> unat (segment_buffer_head m) \<Longrightarrow> segment_buffer m' ! j = segment_buffer m ! j"
    using assms(2) by (simp_all add: aside_def seg_same_def)
  show ?thesis
    unfolding segments_def ix by (rule ring_contents_cong, rule off, rule ring_other [OF w])
qed

lemma segments_push:
  assumes "seg_wf m" "segment_buffer_tail m \<noteq> segment_next_head m" "aside m m1"
  shows "segments (st_push_segment m1) = segments m @ [segment_buffer m1 ! unat (segment_buffer_head m)]"
proof -
  let ?h = "unat (segment_buffer_head m)"
  have same: "seg_same m m1" using assms(3) by (simp add: aside_def)
  then have w: "seg_wf m1" by (rule seg_wf_keep [OF assms(1)])
  have "upd_segment (\<lambda>_. segment_buffer m1 ! unat (segment_buffer_head m1)) m1 = m1"
    by (simp add: upd_segment_def Let_def)
  moreover have "(unat (segment_buffer_head m1) + 1) mod 6 \<noteq> unat (segment_buffer_tail m1)"
    using assms(1,2) same unat_seg_next [of "segment_buffer_head m"] by (auto simp: seg_wf_def seg_same_def word_unat_eq_iff)
  ultimately have "segq.queue (st_push_segment m1) = segq.queue m1 @ [segment_buffer m1 ! unat (segment_buffer_head m1)]"
    using segq.queue_push [OF seg_wf_ring [OF w], of "segment_buffer m1 ! unat (segment_buffer_head m1)"] by simp
  then show ?thesis
    using same segments_aside [OF assms(1,3)] by (simp add: segments_queue seg_same_def)
qed

lemma flow_aside:
  assumes "flow_ok m" "flow idx p0 bs m" "aside m m'"
  shows "flow_ok m' \<and> flow idx p0 bs m'"
proof -
  have w: "seg_wf m" using assms(1) by (simp add: flow_ok_def)
  have sg: "segments m' = segments m" by (rule segments_aside [OF w assms(3)])
  have w': "seg_wf m'" using seg_wf_keep [OF w] assms(3) by (simp add: aside_def)
  have c: "cutting m' = cutting m" using assms(3) by (simp add: aside_def cutting_def prep_same_def)
  have "step_data m' = step_data m" using assms(3) sg by (simp add: aside_def step_data_def seg_same_def prep_same_def)
  then have "flow idx p0 bs m'" using flow_view c assms(2) by blast
  moreover have "flow_ok m'"
    using assms(1,3) sg w' c by (simp add: flow_ok_def aside_def seg_same_def prep_same_def axes_complete_def)
  ultimately show ?thesis by (intro conjI)
qed

text \<open>The counts of steps are whole numbers, and their difference fits the segment's counter.\<close>

lemma ceil_int:
  assumes "f32_dec x = (s, Fin (of_int L))" "\<bar>L\<bar> < 2 ^ 24"
  obtains t where "f32_dec (f32_ceil x) = (t, Fin (of_int L))"
proof -
  have "f32_ceil x = f32_enc (s, Fin (of_int L))" unfolding f32_ceil_def assms(1) by (simp only: prod.case fpv.case ceiling_of_int)
  then show thesis using f32_enc_int [OF assms(2), of s] by (intro that) (simp only:)
qed

lemma ceil_whole:
  assumes "f32_dec (f32_ceil x) = (t, Fin q)" "\<bar>q\<bar> < 2 ^ 24"
  shows "q = of_int \<lceil>q\<rceil>"
proof (cases "f32_dec x")
  case (Pair s v)
  show ?thesis
  proof (cases v)
    case (Fin r)
    then have "f32_dec (f32_enc (s, Fin (of_int \<lceil>r\<rceil>))) = (t, Fin q)" using assms(1) Pair by (simp add: f32_ceil_def)
    then have "q = of_int \<lceil>r\<rceil>" using assms(2) by (rule f32_enc_int_inverse)
    then show ?thesis by simp
  qed (use assms(1) Pair in \<open>simp_all add: f32_ceil_def\<close>)
qed

lemma ceil_of_nothing:
  assumes "f32_dec y = (u, Fin 0)" "f32_dec (f32_ceil (f32_mul x y)) = (t, Fin q)"
  shows "q = 0"
proof -
  have z: "\<exists>w. f32_dec (f32_enc (s, Fin 0)) = (w, Fin 0)" for s using f32_enc_int [of 0 s] by auto
  have n: "snd (f32_dec (f32_enc (s, NotNum))) = NotNum" for s by (cases s; code_simp)
  obtain s v where x: "f32_dec x = (s, v)" by fastforce
  have "(\<exists>w. f32_dec (f32_mul x y) = (w, Fin 0)) \<or> snd (f32_dec (f32_mul x y)) = NotNum"
    using z n [of False] unfolding f32_mul_def x assms(1) by (cases v) auto
  then show ?thesis
  proof
    assume "\<exists>w. f32_dec (f32_mul x y) = (w, Fin 0)"
    then obtain w where w: "f32_dec (f32_mul x y) = (w, Fin 0)" ..
    then show ?thesis using assms(2) z [of w] by (auto simp: f32_ceil_def)
  next
    assume "snd (f32_dec (f32_mul x y)) = NotNum"
    then have "f32_ceil (f32_mul x y) = f32_mul x y" "snd (f32_dec (f32_mul x y)) \<noteq> Fin q"
      by (auto simp: f32_ceil_def split: prod.split fpv.split)
    then show ?thesis using assms(2) by simp
  qed
qed

lemma segment_count:
  assumes "f32_dec x = (s, Fin (of_int L))" "f32_dec y = (t, Fin (of_int K))" "K < L" "L < K + 2 ^ 13"
  shows "unat (to_u16 (fpd_trunc (f32_dec (f32_sub x y)))) = nat (L - K)"
proof -
  have "\<bar>L - K\<bar> < 2 ^ 24" using assms(3,4) by simp
  then have "snd (f32_dec (f32_sub x y)) = Fin (of_int (L - K))" by (rule f32_sub_int [OF assms(1,2)])
  then obtain u where "f32_dec (f32_sub x y) = (u, Fin (of_int (L - K)))" by (cases "f32_dec (f32_sub x y)") simp
  moreover have "\<not> (of_int (L - K) :: rat) < 0" using assms(3) by simp
  ultimately have "fpd_trunc (f32_dec (f32_sub x y)) = Some (L - K)" by (simp only: fpd_trunc.simps if_False floor_of_int)
  moreover have n: "unat (to_u16 (Some i)) = nat i" if "0 \<le> i" "i < 65536" for i
    using that by (simp add: to_u16_def unsigned_of_int take_bit_int_eq_self)
  have "0 \<le> L - K" "L - K < 65536" using assms(3,4) by simp_all
  then have "unat (to_u16 (Some (L - K))) = nat (L - K)" by (rule n)
  ultimately show ?thesis by (simp only:)
qed

lemma segment_rate:
  assumes "unat n < 2 ^ 13"
  shows "unat (seg_n_step (set_segment_rate n r s)) = unat n * 2 ^ unat (seg_amass_level (set_segment_rate n r s))"
    "unat (seg_amass_level (set_segment_rate n r s)) \<le> 3"
    "seg_st_block_index (set_segment_rate n r s) = seg_st_block_index s"
proof -
  have l: "unat (amass_level c) \<in> {0, 1, 2, 3}" for c by (simp add: amass_level_def)
  have p: "unat (push_bit k n) = unat n * 2 ^ k" if "k \<in> {0, 1, 2, 3}" for k
    using that assms by (auto simp: push_bit_eq_mult unat_word_ariths)
  show "unat (seg_n_step (set_segment_rate n r s)) = unat n * 2 ^ unat (seg_amass_level (set_segment_rate n r s))"
    using p [OF l] by (simp add: set_segment_rate_def Let_def)
  have "k \<in> {0, 1, 2, 3} \<Longrightarrow> k \<le> (3 :: nat)" for k by auto
  then show "unat (seg_amass_level (set_segment_rate n r s)) \<le> 3" using l by (simp add: set_segment_rate_def Let_def)
  show "seg_st_block_index (set_segment_rate n r s) = seg_st_block_index s" by (simp add: set_segment_rate_def Let_def)
qed

text \<open>The segment made: none, or one that is cut from the steps left. The block is done when its ramps
  reach the end of it.\<close>

definition wrote :: "machine \<Rightarrow> segment_t \<Rightarrow> f32 \<Rightarrow> f32 \<Rightarrow> machine \<Rightarrow> bool" where
  "wrote m s x mm m' \<longleftrightarrow> segments m' = segments m @ [s] \<and> stepper m' = stepper m
     \<and> segment_buffer_head m' \<noteq> segment_buffer_head m
     \<and> st_block_buffer m' = st_block_buffer m \<and> sys_position m' = sys_position m \<and> busy m' = busy m
     \<and> prep_same (prep m) ((prep m')\<lparr>prep_steps_remaining := prep_steps_remaining (prep m)\<rparr>)
     \<and> prep_steps_remaining (prep m') = f32_ceil (f32_mul x mm)
     \<and> seg_st_block_index s = prep_st_block_index (prep m)
     \<and> (\<exists>r s0. s = set_segment_rate (to_u16 (fpd_trunc (f32_dec
           (f32_sub (f32_ceil (prep_steps_remaining (prep m))) (prep_steps_remaining (prep m')))))) r s0)
     \<and> (pl_block m' = pl_block m \<or> pl_block m' = None \<and> f32_eq mm (prep_mm_complete (prep m)) \<and> \<not> f32_lt 0 mm)"

lemma check_exit_frame:
  fixes b mm m defines "m' \<equiv> snd (st_check_exit b mm m)"
  shows "segment_buffer m' = segment_buffer m" "segment_buffer_head m' = segment_buffer_head m"
    "segment_buffer_tail m' = segment_buffer_tail m" "stepper m' = stepper m" "st_block_buffer m' = st_block_buffer m"
    "sys_position m' = sys_position m" "busy m' = busy m" "prep m' = prep m"
    "pl_block m' = pl_block m \<or> pl_block m' = None \<and> f32_eq mm (prep_mm_complete (prep m)) \<and> \<not> f32_lt 0 mm"
  by (simp_all add: m'_def st_check_exit_def plan_discard_current_block_def Let_def)

lemma emit_written:
  fixes m1 b x mm d g
  defines "m' \<equiv> snd (st_check_exit b mm (upd_prep (\<lambda>q. q\<lparr>prep_steps_remaining := f32_ceil (f32_mul x mm), prep_dt_remainder := d\<rparr>)
    (set_block b g (st_push_segment m1))))"
  assumes "seg_wf m" "segment_buffer_tail m \<noteq> segment_next_head m" "aside m m1"
    "segment_buffer m1 ! unat (segment_buffer_head m) = set_segment_rate (to_u16 (fpd_trunc (f32_dec
      (f32_sub (f32_ceil (prep_steps_remaining (prep m))) (f32_ceil (f32_mul x mm)))))) r s0"
    "seg_st_block_index s0 = prep_st_block_index (prep m)"
  shows "wrote m (segment_buffer m1 ! unat (segment_buffer_head m)) x mm m'"
proof -
  let ?k = "upd_prep (\<lambda>q. q\<lparr>prep_steps_remaining := f32_ceil (f32_mul x mm), prep_dt_remainder := d\<rparr>)
    (set_block b g (st_push_segment m1))"
  have k: "segment_buffer ?k = segment_buffer m1" "segment_buffer_head ?k = segment_next_head m1"
    "segment_buffer_tail ?k = segment_buffer_tail m1" "stepper ?k = stepper m1" "st_block_buffer ?k = st_block_buffer m1"
    "sys_position ?k = sys_position m1" "busy ?k = busy m1" "pl_block ?k = pl_block m1"
    "prep ?k = (prep m1)\<lparr>prep_steps_remaining := f32_ceil (f32_mul x mm), prep_dt_remainder := d\<rparr>"
    by (simp_all add: upd_prep_def set_block_def st_push_segment_def Let_def)
  note frame = check_exit_frame [of b mm ?k, folded m'_def, unfolded k]
  have "segments m' = segments (st_push_segment m1)"
    unfolding segments_def frame by (simp add: st_push_segment_def Let_def)
  then have sg: "segments m' = segments m @ [segment_buffer m1 ! unat (segment_buffer_head m)]"
    unfolding segments_push [OF assms(2-4)] .
  have nh: "segment_next_head m \<noteq> segment_buffer_head m"
  proof
    assume "segment_next_head m = segment_buffer_head m"
    then have "(unat (segment_buffer_head m) + 1) mod 6 = unat (segment_buffer_head m)"
      using assms(2) unat_seg_next [of "segment_buffer_head m"] by (simp add: seg_wf_def)
    moreover have "unat (segment_buffer_head m) < 6" using assms(2) by (simp add: seg_wf_def)
    ultimately show False by (cases "unat (segment_buffer_head m) = 5") simp_all
  qed
  have a: "seg_same m m1" "st_block_buffer m1 = st_block_buffer m" "sys_position m1 = sys_position m"
    "pl_block m1 = pl_block m" "busy m1 = busy m" "prep_same (prep m) (prep m1)"
    using assms(4) by (simp_all add: aside_def)
  show ?thesis
    unfolding wrote_def
  proof (intro conjI)
    show "pl_block m' = pl_block m \<or> pl_block m' = None \<and> f32_eq mm (prep_mm_complete (prep m)) \<and> \<not> f32_lt 0 mm"
      using frame(9) a(4,6) by (auto simp: prep_same_def)
    show "\<exists>r s0. segment_buffer m1 ! unat (segment_buffer_head m) = set_segment_rate (to_u16 (fpd_trunc (f32_dec
      (f32_sub (f32_ceil (prep_steps_remaining (prep m))) (prep_steps_remaining (prep m')))))) r s0"
      using assms(5) unfolding frame by auto
    show "seg_st_block_index (segment_buffer m1 ! unat (segment_buffer_head m)) = prep_st_block_index (prep m)"
      unfolding assms(5) using assms(6) by (simp add: set_segment_rate_def Let_def)
    show "segment_buffer_head m' \<noteq> segment_buffer_head m"
      unfolding frame using nh a(1) by (simp add: seg_same_def)
  qed (use sg a in \<open>simp_all add: frame seg_same_def prep_same_def\<close>)
qed

lemma upd_segment_head:
  assumes "seg_wf m"
  shows "segment_buffer (upd_segment f m) ! unat (segment_buffer_head m) = f (segment_buffer m ! unat (segment_buffer_head m))"
    "segment_buffer_head (upd_segment f m) = segment_buffer_head m" "seg_wf (upd_segment f m)"
  using assms seg_wf_keep [OF assms seg_same_basic(4)] by (simp_all add: upd_segment_def Let_def seg_wf_def)

lemma spindle_slot:
  assumes "seg_wf m"
  shows "seg_st_block_index (segment_buffer (segment_spindle b m) ! unat (segment_buffer_head m)) =
    seg_st_block_index (segment_buffer m ! unat (segment_buffer_head m))"
proof -
  have s: "segment_buffer (snd (spindle_compute_pwm_value rpm m)) = segment_buffer m"
    "segment_buffer_head (snd (spindle_compute_pwm_value rpm m)) = segment_buffer_head m" for rpm
    using spindle_compute_frame [of rpm m] by (auto simp: set_spindle_speed_def)
  have u: "segment_buffer (upd_segment f k) ! unat (segment_buffer_head m) = f (segment_buffer m ! unat (segment_buffer_head m))"
    if "segment_buffer k = segment_buffer m" "segment_buffer_head k = segment_buffer_head m" for f k
    using assms that by (simp add: upd_segment_def Let_def seg_wf_def)
  show ?thesis
    unfolding segment_spindle_def Let_def case_prod_beta
    by (subst u) (simp_all add: s upd_prep_def set_spindle_speed_def)
qed

lemma emit_cases:
  assumes "seg_wf m" "segment_buffer_tail m \<noteq> segment_next_head m" "aside m k"
    "seg_st_block_index (segment_buffer k ! unat (segment_buffer_head m)) = prep_st_block_index (prep m)"
    "st_emit_segment b dt mm k = (c, m')"
  obtains (none) "aside m m'" | (written) s x where "wrote m s x mm m'"
proof -
  let ?k = "segment_spindle b k" and ?h = "unat (segment_buffer_head m)"
  have wk: "seg_wf k" using assms(1,3) seg_wf_keep by (auto simp: aside_def)
  have ak: "aside m ?k" by (rule aside_trans [OF assms(3) aside_spindle])
  then have w: "seg_wf ?k" using assms(1) seg_wf_keep by (auto simp: aside_def)
  have h: "segment_buffer_head ?k = segment_buffer_head m" "segment_buffer_head k = segment_buffer_head m"
    "prep_steps_remaining (prep ?k) = prep_steps_remaining (prep m)"
    using ak assms(3) by (simp_all add: aside_def seg_same_def prep_same_def)
  define x where "x = prep_step_per_mm (prep ?k)"
  define n where "n = to_u16 (fpd_trunc (f32_dec
    (f32_sub (f32_ceil (prep_steps_remaining (prep m))) (f32_ceil (f32_mul x mm)))))"
  let ?n = "upd_segment (\<lambda>s. s\<lparr>seg_n_step := n\<rparr>) ?k"
  have an: "aside m ?n" by (rule aside_trans [OF ak aside_basic(1)])
  have p: "prep ?n = prep ?k" by (simp add: upd_segment_def Let_def)
  define e where "e = f32_add dt (prep_dt_remainder (prep ?n))"
  define r where "r = f32_div e (f32_sub (f32_ceil (prep_steps_remaining (prep m))) (f32_mul x mm))"
  let ?m1 = "upd_segment (set_segment_rate n r) ?n"
  define d where "d = f32_mul (f32_sub (f32_ceil (f32_mul x mm)) (f32_mul x mm)) r"
  have emit: "st_emit_segment b dt mm k =
    (if n = 0 \<and> sys_step_control (sys ?n) AND STEP_CONTROL_EXECUTE_HOLD \<noteq> 0
     then (False, set_step_control (sys_step_control (sys ?n) OR STEP_CONTROL_END_MOTION) ?n)
     else st_check_exit b mm (upd_prep (\<lambda>q. q\<lparr>prep_steps_remaining := f32_ceil (f32_mul x mm), prep_dt_remainder := d\<rparr>)
       (set_block b (\<lambda>p. p\<lparr>pb_millimeters := mm\<rparr>) (st_push_segment ?m1))))"
    unfolding st_emit_segment_def Let_def d_def r_def e_def n_def x_def h ..
  show thesis
  proof (cases "n = 0 \<and> sys_step_control (sys ?n) AND STEP_CONTROL_EXECUTE_HOLD \<noteq> 0")
    case True
    then have "m' = set_step_control (sys_step_control (sys ?n) OR STEP_CONTROL_END_MOTION) ?n"
      using assms(5) unfolding emit if_P [OF True] by blast
    then show thesis using aside_trans [OF an aside_basic(4)] none by blast
  next
    case False
    have m': "m' = snd (st_check_exit b mm (upd_prep (\<lambda>q. q\<lparr>prep_steps_remaining := f32_ceil (f32_mul x mm), prep_dt_remainder := d\<rparr>)
        (set_block b (\<lambda>p. p\<lparr>pb_millimeters := mm\<rparr>) (st_push_segment ?m1))))"
      using assms(5) unfolding emit if_not_P [OF False] by (simp only: snd_conv)
    have slot: "segment_buffer ?m1 ! ?h = set_segment_rate n r ((segment_buffer ?k ! ?h)\<lparr>seg_n_step := n\<rparr>)"
      using upd_segment_head [OF w] upd_segment_head(1) [OF upd_segment_head(3) [OF w]] unfolding h by simp
    have "wrote m (segment_buffer ?m1 ! ?h) x mm m'"
      unfolding m'
    proof (rule emit_written [OF assms(1,2)])
      show "aside m ?m1" by (rule aside_trans [OF an aside_basic(1)])
      show "seg_st_block_index ((segment_buffer ?k ! ?h)\<lparr>seg_n_step := n\<rparr>) = prep_st_block_index (prep m)"
        using spindle_slot [OF wk] assms(4) unfolding h by simp
    qed (unfold n_def [symmetric], rule slot)
    then show thesis by (rule written)
  qed
qed

lemma make_segment_cases:
  assumes "seg_wf m" "segment_buffer_tail m \<noteq> segment_next_head m" "st_make_segment b m = Some (c, m')"
  obtains (none) "aside m m'" | (written) s x mm where "wrote m s x mm m'"
proof -
  let ?m1 = "upd_segment (\<lambda>s. s\<lparr>seg_st_block_index := prep_st_block_index (prep m)\<rparr>) m"
  obtain accel lo dt t q e mm where r: "ramp_loop accel (pb_millimeters (block_at ?m1 b)) lo (prep ?m1) dt 0 t
        (pb_millimeters (block_at ?m1 b)) = Some (q, e, mm)"
      and emit: "st_emit_segment b e mm (?m1\<lparr>prep := q\<rparr>) = (c, m')"
    using assms(3) unfolding st_make_segment_def Let_def by (auto simp only: map_option_eq_Some prod.case split_paired_all)
  have q: "prep_same (prep m) q"
    using ramp_loop_same [OF r] by (simp add: upd_segment_def Let_def)
  have a: "aside m (?m1\<lparr>prep := q\<rparr>)"
    using aside_trans [OF aside_basic(1) aside_basic(2)] q by (simp add: upd_segment_def Let_def)
  have "seg_st_block_index (segment_buffer (?m1\<lparr>prep := q\<rparr>) ! unat (segment_buffer_head m)) = prep_st_block_index (prep m)"
    using upd_segment_head(1) [OF assms(1)] by simp
  from emit_cases [OF assms(1,2) a this emit] show thesis using none written by metis
qed

lemma end_reached:
  assumes "f32_eq mm z" "\<not> f32_lt 0 mm" "\<not> f32_lt z 0"
  obtains u where "f32_dec mm = (u, Fin 0)"
proof -
  have "f32_dec 0 = (False, Fin 0)" by code_simp
  then show thesis
    using assms that unfolding f32_eq_def f32_lt_def
    by (cases "f32_dec mm"; cases "f32_dec z"; cases "snd (f32_dec mm)"; cases "snd (f32_dec z)") auto
qed

lemma flow_wrote:
  assumes "flow_ok m" "flow idx p0 bs m" "pl_block m \<noteq> None" "wrote m s x mm m'" "seg_wf m'"
    "0 \<le> steps_left m'" "steps_left m' < steps_left m" "steps_left m < steps_left m' + 2 ^ 13"
  shows "flow_ok m' \<and> flow idx p0 bs m'"
proof -
  let ?K = "steps_left m'" and ?L = "steps_left m"
  note w = assms(4) [unfolded wrote_def]
  have c: "cutting m" using assms(3) by (rule cutting_held)
  then obtain t where t: "f32_dec (prep_steps_remaining (prep m)) = (t, Fin (of_int ?L))" and L: "?L < 2 ^ 24"
    using assms(1) steps_left_int unfolding flow_ok_def by metis
  obtain u q where u: "f32_dec (prep_steps_remaining (prep m')) = (u, Fin q)" "?K = \<lceil>q\<rceil>"
    using assms(6) by (auto simp: steps_left_def split: prod.splits fpv.splits)
  have "of_int ?K - 1 < q" "q \<le> of_int ?K" unfolding u(2) by linarith+
  moreover have "of_int ?K \<le> (2 ^ 24 :: rat)" "(0 :: rat) \<le> of_int ?K" "(of_int ?K :: rat) < of_int (2 ^ 24)"
    using assms(6,7) L by (simp_all only: of_int_0_le_iff of_int_less_iff) simp_all
  ultimately have "\<bar>q\<bar> < 2 ^ 24" by simp
  then have q: "f32_dec (prep_steps_remaining (prep m')) = (u, Fin (of_int ?K))"
    using ceil_whole [of "f32_mul x mm" u q] w u by simp
  have "\<bar>?L\<bar> < 2 ^ 24" using L assms(6,7) by simp
  then obtain v where v: "f32_dec (f32_ceil (prep_steps_remaining (prep m))) = (v, Fin (of_int ?L))"
    using ceil_int [OF t] by blast
  let ?n = "to_u16 (fpd_trunc (f32_dec (f32_sub (f32_ceil (prep_steps_remaining (prep m))) (prep_steps_remaining (prep m')))))"
  have n: "unat ?n = nat (?L - ?K)" by (rule segment_count [OF v q assms(7,8)])
  then have n13: "unat ?n < 2 ^ 13" using assms(7,8) by simp
  obtain r s0 where s: "s = set_segment_rate ?n r s0" using w by blast
  have sn: "unat (seg_n_step s) = nat (?L - ?K) * 2 ^ unat (seg_amass_level s)" "unat (seg_amass_level s) \<le> 3"
    using segment_rate [OF n13] unfolding s n by blast+
  have K0: "?K = 0" if "\<not> cutting m'"
  proof -
    have "pl_block m' = None" using that by (auto simp: cutting_def)
    then have "f32_eq mm (prep_mm_complete (prep m))" "\<not> f32_lt 0 mm" using w assms(3) by auto
    moreover have "\<not> f32_lt (prep_mm_complete (prep m)) 0" using assms(1,3) by (simp add: flow_ok_def)
    ultimately obtain z where "f32_dec mm = (z, Fin 0)" by (rule end_reached)
    then have "q = 0" using ceil_of_nothing [of mm z x u q] w u(1) by simp
    then show ?thesis using u(2) by simp
  qed
  have "uncut_steps m' = nat ?K" using K0 by (simp add: uncut_steps_def)
  then have un: "uncut_steps m = uncut_steps m' + nat (?L - ?K)" using c assms(6,7) by (simp add: uncut_steps_def)
  have pos: "0 < nat (?L - ?K)" using assms(7) by simp
  have "prep_st_block_index (prep m') = prep_st_block_index (prep m)" using w by (simp add: prep_same_def)
  then have "flow idx p0 bs m'"
    using w by (intro flow_written [OF assms(1-3) _ _ _ _ _ _ sn(2,1) pos un]) simp_all
  moreover have "flow_ok m'"
  proof -
    have "seg_ok s" using sn pos by (simp add: seg_ok_def)
    then have "\<forall>s\<in>set (segments m'). seg_ok s" using assms(1) w by (simp add: flow_ok_def)
    moreover have "\<exists>s L. f32_dec (prep_steps_remaining (prep m')) = (s, Fin (of_int L)) \<and> 0 \<le> L \<and> L < 2 ^ 24"
      using q assms(6,7) L by (intro exI [of _ u] exI [of _ ?K]) simp
    moreover have "prep_recalculate_flag (prep m') = prep_recalculate_flag (prep m)"
      "prep_mm_complete (prep m') = prep_mm_complete (prep m)" "stepper m' = stepper m"
      "st_block_buffer m' = st_block_buffer m" "sys_position m' = sys_position m" using w by (simp_all add: prep_same_def)
    ultimately show ?thesis using assms(1,3,5) by (simp add: flow_ok_def axes_complete_def)
  qed
  ultimately show ?thesis by (intro conjI)
qed

lemma flow_prep_round:
  assumes "flow_ok m" "flow idx p0 bs m" "prep_round m = Some m'" "round_fits m m'"
    and "\<forall>b\<in>set (bs @ loaded_block m). executable_block b"
  shows "busy m' = busy m \<and> flow_ok m' \<and> flow idx p0 (bs @ loaded_block m) m'"
proof -
  have full: "segment_buffer_tail m \<noteq> segment_next_head m" using assms(3) by (auto simp: prep_round_def)
  obtain m1 b c where f: "st_fetch_block m = (m1, Some b)" and e: "st_make_segment b m1 = Some (c, m')"
    using assms(3) full by (auto simp: prep_round_def split: prod.splits option.splits)
  have m1: "flow_ok m1" "flow idx p0 (bs @ loaded_block m) m1" "pl_block m1 \<noteq> None" "busy m1 = busy m"
    using flow_fetch [OF assms(1,2) full f assms(5)] by simp_all
  have same: "seg_same m m1" using seg_same_fetch [of m] f by simp
  then have w1: "seg_wf m1" "segment_buffer_tail m1 \<noteq> segment_next_head m1"
    using m1(1) full by (simp_all add: flow_ok_def seg_same_def)
  from w1 e show ?thesis
  proof (cases rule: make_segment_cases)
    case none
    then show ?thesis using flow_aside [OF m1(1,2)] m1(4) by (simp add: aside_def)
  next
    case (written s x mm)
    then have "segment_buffer_head m' \<noteq> segment_buffer_head m" "busy m' = busy m"
      using same m1(4) by (simp_all add: wrote_def seg_same_def)
    then show ?thesis
      using flow_wrote [OF m1(1-3) written seg_wf_make_segment [OF w1 e]] assms(4) f by (simp add: round_fits_def)
  qed
qed

section \<open>Runs\<close>

lemma at_rest_flow:
  assumes "at_rest m"
  shows "flow_ok m \<and> flow idx (sys_position m ! idx) [] m"
proof
  have r: "seg_wf m" "segments m = []" "\<not> cutting m" "length (st_block_buffer m) = 5" "axes_complete m" "exec_slot m < 5"
      "prep_st_block_index (prep m) = st_exec_block_index (stepper m)"
    using assms by (simp_all add: at_rest_def)
  then show "flow_ok m" by (auto simp: flow_ok_def cutting_def)
  have "st_exec_segment (stepper m) = None"
    using r(1,2) segments_empty_iff [OF r(1)] by (auto simp: seg_wf_def)
  then show "flow idx (sys_position m ! idx) [] m"
    using r by (intro flowI [of _ "[]" "[]" _ "[]" "[]"]) (simp_all add: uncut_steps_def todo_def)
qed

lemma step_run_flow:
  assumes "step_run m0 bs m" "at_rest m0" "\<forall>b\<in>set bs. executable_block b" "idx < N_AXIS"
  shows "\<not> busy m \<and> flow_ok m \<and> flow idx (sys_position m0 ! idx) bs m"
  using assms(1,3)
proof (induction rule: step_run.induct)
  case start
  then show ?case using at_rest_flow assms(2) by (simp add: at_rest_def)
next
  case (tick bs m)
  then show ?case using flow_timer1 assms(4) by blast
next
  case (cut bs m m')
  then show ?case using flow_prep_round [of m idx "sys_position m0 ! idx" bs m'] by auto
next
  case (other bs m m')
  then show ?case using flow_kept [of m' m] by (auto simp: elsewhere_def)
qed

lemma flow_nothing_owed:
  assumes "flow_ok m" "flow idx p0 bs m" "nothing_owed m" "\<forall>b\<in>set bs. executable_block b"
  shows "sys_position m ! idx = p0 + sum_list (map (displacement idx) bs)"
proof -
  obtain taken later Q R where f: "bs = taken @ later" "segments m = Q @ R"
      "flight (st_block_buffer m) (Suc (exec_slot m)) R (uncut_steps m) later"
      and run: "st_exec_segment (stepper m) \<noteq> None \<longrightarrow> Q \<noteq> [] \<and> 0 < unat (st_step_count (stepper m)) \<and>
         st_steps (stepper m) ! idx = drop_bit (unat (seg_amass_level (hd Q))) (sb_steps (st_block_buffer m ! exec_slot m) ! idx)"
      and fin: "todo m Q + uncut (uncut_steps m) later = 0 \<longrightarrow> sys_position m ! idx = p0 + sum_list (map (displacement idx) taken)"
    using assms(2) by (rule flowE)
  have none: "Q = []" "R = []" "uncut_steps m = 0"
    using assms(3) f(2) by (auto simp: nothing_owed_def uncut_steps_def)
  have "\<forall>b\<in>set later. 0 < events b" using assms(4) f(1) executable_events by auto
  then have "length later \<le> length R" using f(3) none by (intro flight_length) simp_all
  then have later: "later = []" using none by simp
  have "st_exec_segment (stepper m) = None" using run none by blast
  then have "todo m Q = 0" using none by (simp add: todo_def)
  then show ?thesis using fin f(1) none later by simp
qed

text \<open>The generator is a sequence of rounds, and a reset leaves the stepper at rest.\<close>

lemma prep_loop_rounds:
  assumes "prep_loop m = Some m'"
  shows "(\<lambda>a b. prep_round a = Some b)\<^sup>*\<^sup>* m m'"
proof (rule prep_loop.raw_induct [where P = "\<lambda>m m'. (\<lambda>a b. prep_round a = Some b)\<^sup>*\<^sup>* m m'", OF _ assms])
  fix loop m m'
  assume 1: "\<And>m m'. loop m = Some m' \<Longrightarrow> (\<lambda>a b. prep_round a = Some b)\<^sup>*\<^sup>* m m'"
    "(if segment_buffer_tail m = segment_next_head m then Some m
      else case st_fetch_block m of
             (m, None) \<Rightarrow> Some m
           | (m, Some b) \<Rightarrow>
             (case st_make_segment b m of None \<Rightarrow> None
              | Some (continue, m) \<Rightarrow> (if continue then loop m else Some m))) = Some m'"
  show "(\<lambda>a b. prep_round a = Some b)\<^sup>*\<^sup>* m m'"
  proof (cases "segment_buffer_tail m = segment_next_head m")
    case False
    obtain k z where f: "st_fetch_block m = (k, z)" by fastforce
    show ?thesis
    proof (cases z)
      case None
      then have "k = m" using f by (auto simp: st_fetch_block_def Let_def split: option.splits if_splits)
      then show ?thesis using 1(2) False f None by simp
    next
      case (Some b)
      then obtain c k' where e: "st_make_segment b k = Some (c, k')"
        using 1(2) False f by (auto split: option.splits)
      then have "prep_round m = Some k'" using False f Some by (simp add: prep_round_def)
      moreover have "(\<lambda>a b. prep_round a = Some b)\<^sup>*\<^sup>* k' m'"
        using 1(1) [of k' m'] 1(2) False f Some e by (cases c) simp_all
      ultimately show ?thesis by (rule converse_rtranclp_into_rtranclp)
    qed
  qed (use 1(2) in simp)
qed

definition reset_view :: "machine \<Rightarrow> _" where
  "reset_view m = (segment_buffer m, (segment_buffer_head m, segment_buffer_tail m, segment_next_head m),
     st_block_buffer m, stepper m, prep m, pl_block m, sys_position m, busy m)"

lemma reset_view_masks: "reset_view (st_generate_step_dir_invert_masks m) = reset_view m"
proof -
  have "reset_view (fold (\<lambda>idx m.
       let m = (if bit_istrue (step_invert_mask (settings m)) (push_bit idx 1)
                then m\<lparr>step_port_invert_mask := step_port_invert_mask m OR get_step_pin_mask idx\<rparr> else m)
       in if bit_istrue (dir_invert_mask (settings m)) (push_bit idx 1)
          then m\<lparr>dir_port_invert_mask := dir_port_invert_mask m OR get_direction_pin_mask idx\<rparr> else m)
       is k) = reset_view k" for "is" k
    by (induction "is" arbitrary: k) (simp_all add: reset_view_def Let_def)
  then show ?thesis unfolding st_generate_step_dir_invert_masks_def by (simp add: reset_view_def)
qed

lemma st_reset_at_rest:
  assumes "length (segment_buffer m) = SEGMENT_BUFFER_SIZE" "length (st_block_buffer m) = SEGMENT_BUFFER_SIZE - 1"
    "length (sys_position m) = N_AXIS"
  shows "at_rest (st_reset m)"
proof -
  let ?k = "(st_go_idle m)\<lparr>prep := st_prep0, stepper := stepper0, pl_block := None, segment_buffer_tail := 0,
                segment_buffer_head := 0, segment_next_head := 1, busy := False\<rparr>"
  let ?g = "st_generate_step_dir_invert_masks ?k"
  have g: "segment_buffer ?g = segment_buffer m" "segment_buffer_head ?g = 0" "segment_buffer_tail ?g = 0" "segment_next_head ?g = 1"
    "st_block_buffer ?g = st_block_buffer m" "stepper ?g = stepper0" "prep ?g = st_prep0" "pl_block ?g = None"
    "sys_position ?g = sys_position m" "\<not> busy ?g"
    using reset_view_masks [of ?k] by (simp_all add: reset_view_def st_go_idle_def Let_def spi_write32_def report_def set_steppers_disable_def)
  have "unat (1 :: u8) = 1" "ring_next SEGMENT_BUFFER_SIZE 0 = (1 :: u8)" by (code_simp, code_simp)
  then show ?thesis
    using assms g by (simp add: st_reset_def Let_def at_rest_def seg_wf_def segments_def ring_contents_def ring_len_def cutting_def
        axes_complete_def spi_write32_def report_def stepper0_def st_prep0_def)
qed

end
