(* ===== verification/Step_Plan.thy ===== *)
theory Step_Plan
  imports Step_Cut
begin

text \<open>
  From the planner's target to the positions: lines are buffered, replanned, cut into segments and
  executed, in any interleaving, and when nothing is left the machine stands exactly where the
  planner was told to go.
\<close>

section \<open>Runs with the planner\<close>

text \<open>What replanning leaves alone in a block.\<close>

definition block_moves :: "plan_block_t \<Rightarrow> u32 list \<times> u32 \<times> u8" where
  "block_moves b = (pb_steps b, pb_step_event_count b, pb_direction_bits b)"

definition plan_kept :: "machine \<Rightarrow> machine \<Rightarrow> bool" where
  "plan_kept m m' \<longleftrightarrow> block_buffer_head m' = block_buffer_head m \<and> block_buffer_tail m' = block_buffer_tail m
     \<and> next_buffer_head m' = next_buffer_head m \<and> length (block_buffer m') = length (block_buffer m)
     \<and> pl_position (pl m') = pl_position (pl m) \<and> (pl_block m' = pl_block m \<or> pl_block m' = None) \<and> (\<forall>j. block_moves (block_buffer m' ! j) = block_moves (block_buffer m ! j))"

text \<open>A line whose step counts a \<^verbatim>\<open>float\<close> can hold, with proper settings.\<close>

definition line_fits :: "f32 list \<Rightarrow> machine \<Rightarrow> bool" where
  "line_fits target m \<longleftrightarrow> length target = N_AXIS \<and> length (steps_per_mm (settings m)) = N_AXIS
     \<and> (\<forall>idx<N_AXIS. (case f32_dec (steps_per_mm (settings m) ! idx) of (_, Fin q) \<Rightarrow> 0 < q | _ \<Rightarrow> False)
          \<and> \<bar>sint (lround_steps (target ! idx) (steps_per_mm (settings m) ! idx) - pl_position (pl m) ! idx)\<bar> < 2 ^ 24)"

text \<open>A run starts at rest, with an empty plan at the machine's position. System motions, which
  do not pass through the queue, are not part of it.\<close>

definition motion_start :: "machine \<Rightarrow> bool" where
  "motion_start m \<longleftrightarrow> at_rest m \<and> plan_wf m \<and> plan_get_current_block m = None \<and> pl_position (pl m) = sys_position m"

inductive motion_run :: "machine \<Rightarrow> machine \<Rightarrow> bool" for m0 where
  start: "motion_run m0 m0"
| tick: "motion_run m0 m \<Longrightarrow> motion_run m0 (TIMER1_COMPA_vect m)"
| cut: "motion_run m0 m \<Longrightarrow> prep_round m = Some m' \<Longrightarrow> round_fits m m' \<Longrightarrow>
    sys_step_control (sys m) AND STEP_CONTROL_EXECUTE_SYS_MOTION = 0 \<Longrightarrow> motion_run m0 m'"
| line: "motion_run m0 m \<Longrightarrow> \<not> plan_check_full_buffer m \<Longrightarrow> line_fits target m \<Longrightarrow>
    pld_condition pl_data AND PL_COND_FLAG_SYSTEM_MOTION = 0 \<Longrightarrow>
    motion_run m0 (snd (plan_buffer_line target pl_data m))"
| other: "motion_run m0 m \<Longrightarrow> elsewhere m m' \<Longrightarrow> plan_kept m m' \<Longrightarrow> (plan_wf m \<Longrightarrow> plan_wf m') \<Longrightarrow> motion_run m0 m'"

section \<open>Replanning\<close>

lemma elsewhere_refl [simp]: "elsewhere m m"
  by (simp add: elsewhere_def)

lemma elsewhere_trans: "elsewhere a b \<Longrightarrow> elsewhere b c \<Longrightarrow> elsewhere a c"
  by (auto simp: elsewhere_def)

lemma plan_kept_refl [simp]: "plan_kept m m"
  by (simp add: plan_kept_def)

lemma plan_kept_trans: "plan_kept a b \<Longrightarrow> plan_kept b c \<Longrightarrow> plan_kept a c"
  by (auto simp: plan_kept_def)

definition replan :: "machine \<Rightarrow> machine \<Rightarrow> bool" where
  "replan m m' \<longleftrightarrow> elsewhere m m' \<and> plan_kept m m'"

lemma replan_refl [simp]: "replan m m"
  by (simp add: replan_def)

lemma replan_trans: "replan a b \<Longrightarrow> replan b c \<Longrightarrow> replan a c"
  unfolding replan_def using elsewhere_trans plan_kept_trans by blast

lemma plan_kept_set_block: "(\<And>b. block_moves (f b) = block_moves b) \<Longrightarrow> plan_kept m (set_block i f m)"
  by (cases "unat i < length (block_buffer m)") (auto simp: plan_kept_def set_block_def block_at_def nth_list_update list_update_beyond)

lemma elsewhere_set_block: "elsewhere m (set_block i f m)"
  by (simp add: elsewhere_def step_view_def holds_block_def set_block_def)

lemma replan_set_block: "(\<And>b. block_moves (f b) = block_moves b) \<Longrightarrow> replan m (set_block i f m)"
  by (simp add: replan_def plan_kept_set_block elsewhere_set_block)

lemma replan_speed [simp]: "replan m (set_entry_speed i v m)"
  by (rule replan_set_block) (simp add: block_moves_def)

lemma replan_planned [simp]: "replan m (m\<lparr>block_buffer_planned := i\<rparr>)"
  by (simp add: replan_def elsewhere_def step_view_def holds_block_def plan_kept_def)

lemma replan_st_update [simp]: "replan m (st_update_plan_block_parameters m)"
proof (cases "pl_block m")
  case None
  then show ?thesis by (simp add: st_update_plan_block_parameters_def)
next
  case (Some b)
  let ?m = "m\<lparr>prep := (prep m)\<lparr>prep_recalculate_flag := prep_recalculate_flag (prep m) OR PREP_FLAG_RECALCULATE\<rparr>\<rparr>"
  let ?v = "f32_mul (prep_current_speed (prep m)) (prep_current_speed (prep m))"
  have "elsewhere m ((set_entry_speed b ?v ?m)\<lparr>pl_block := None\<rparr>)"
    using Some by (simp add: elsewhere_def step_view_def holds_block_def set_block_def word_ao_dist)
  moreover have "plan_kept m ((set_entry_speed b ?v ?m)\<lparr>pl_block := None\<rparr>)"
    using plan_kept_set_block [of "\<lambda>b. b\<lparr>pb_entry_speed_sqr := ?v\<rparr>" ?m b] by (simp add: plan_kept_def block_moves_def)
  ultimately show ?thesis using Some by (simp add: replan_def st_update_plan_block_parameters_def Let_def)
qed

lemma replan_reverse_step: "replan m (reverse_step bi c nx m)"
  unfolding reverse_step_def Let_def by (auto intro: replan_trans [OF replan_st_update])

lemma replan_forward_step: "replan m (forward_step bi c m)"
  unfolding forward_step_def Let_def
  by (auto intro: replan_trans [OF replan_speed replan_planned]
      replan_trans [OF replan_trans [OF replan_speed replan_planned] replan_planned])

lemma replan_reverse: "replan m (reverse_pass n i c m)"
  by (induction n i c m rule: reverse_pass.induct) (auto intro: replan_trans [OF replan_reverse_step])

lemma replan_forward: "replan m (forward_pass n i c m)"
  by (induction n i c m rule: forward_pass.induct) (auto intro: replan_trans [OF replan_forward_step])

lemma replan_planner_reverse: "replan m (planner_reverse i m)"
  unfolding planner_reverse_def Let_def
  by (auto intro: replan_trans [OF replan_speed replan_reverse] replan_trans [OF replan_speed replan_st_update])

lemma replan_recalculate: "replan m (planner_recalculate m)"
  unfolding planner_recalculate_def Let_def
  by (auto intro: replan_trans [OF replan_planner_reverse replan_forward])

lemma replan_cycle_reinitialize: "replan m (plan_cycle_reinitialize m)"
  unfolding plan_cycle_reinitialize_def Let_def
  by (rule replan_trans [OF replan_st_update replan_trans [OF replan_planned replan_recalculate]])

lemma replan_profile_parameters: "replan m (plan_update_velocity_profile_parameters m)"
proof -
  have f: "block_moves (plan_compute_profile_parameters a p b) = block_moves b" for a p b
    by (simp add: block_moves_def plan_compute_profile_parameters_def Let_def)
  have g: "replan m (set_block i (plan_compute_profile_parameters a p) m)" for m i a p
    by (rule replan_set_block) (rule f)
  have "replan m (snd (update_profile_loop n i p m))" for n i p
  proof (induction n arbitrary: i p m)
    case (Suc n)
    show ?case using replan_trans [OF g Suc] by (simp add: Let_def)
  qed simp
  moreover have "replan k (k\<lparr>pl := (pl k)\<lparr>pl_previous_nominal_speed := v\<rparr>\<rparr>)" for k v
    by (simp add: replan_def elsewhere_def step_view_def holds_block_def plan_kept_def)
  ultimately show ?thesis
    unfolding plan_update_velocity_profile_parameters_def case_prod_beta Let_def by (rule replan_trans)
qed

section \<open>The timer interrupt\<close>

definition plan_view :: "machine \<Rightarrow> _" where
  "plan_view m = (block_buffer m, (block_buffer_head m, block_buffer_tail m, next_buffer_head m, block_buffer_planned m),
     pl m, pl_block m, prep_recalculate_flag (prep m))"

lemma plan_view_basic [simp]:
  "plan_view (spi_write32 m) = plan_view m" "plan_view (set_steppers_disable d m) = plan_view m"
  "plan_view (system_set_exec_state_flag k m) = plan_view m" "plan_view (spindle_set_speed v m) = plan_view m"
  "plan_view (m\<lparr>busy := z\<rparr>) = plan_view m" "plan_view (m\<lparr>step_port := o1\<rparr>) = plan_view m"
  "plan_view (m\<lparr>direction_port := o2\<rparr>) = plan_view m" "plan_view (m\<lparr>timer1_enabled := on\<rparr>) = plan_view m"
  "plan_view (m\<lparr>stepper := st\<rparr>) = plan_view m" "plan_view (load_segment m) = plan_view m"
  "plan_view (probe_state_monitor m) = plan_view m" "plan_view (finish_step m) = plan_view m"
  by (simp_all add: spi_write32_def report_def plan_view_def set_steppers_disable_def system_set_exec_state_flag_def
      spindle_set_speed_def load_segment_def probe_state_monitor_def finish_step_def st_pop_segment_def Let_def)

lemma plan_view_execute_step [simp]: "plan_view (execute_step m) = plan_view m"
proof -
  have "plan_view (fold (step_axis b) is k) = plan_view k" for b "is" k
    by (induction "is" arbitrary: k) (simp_all add: step_axis_def plan_view_def Let_def)
  then show ?thesis by (simp add: execute_step_def Let_def)
qed

lemma plan_view_go_idle [simp]: "plan_view (st_go_idle m) = plan_view m"
  by (simp add: st_go_idle_def Let_def)

lemma plan_view_timer1: "plan_view (TIMER1_COMPA_vect m) = plan_view m"
  by (simp add: TIMER1_COMPA_vect_def Let_def)

section \<open>The blocks waiting\<close>

definition blocks_waiting :: "machine \<Rightarrow> plan_block_t list" where
  "blocks_waiting m = (if cutting m then tl (planned_blocks m) else planned_blocks m)"

text \<open>Well-formedness: the block being cut is at the tail, and all blocks can be executed.\<close>

definition plan_ok :: "machine \<Rightarrow> bool" where
  "plan_ok m \<longleftrightarrow> plan_wf m \<and> exec_at_tail m \<and> (cutting m \<longrightarrow> planned_blocks m \<noteq> [])
     \<and> (\<forall>b\<in>set (planned_blocks m). executable_block b) \<and> length (pl_position (pl m)) = N_AXIS"

text \<open>The planner's position is ahead of the steps of the loaded blocks by those that wait.\<close>

definition ahead_by :: "nat \<Rightarrow> i32 \<Rightarrow> plan_block_t list \<Rightarrow> machine \<Rightarrow> bool" where
  "ahead_by idx p0 bs m \<longleftrightarrow> pl_position (pl m) ! idx =
     p0 + sum_list (map (displacement idx) bs) + sum_list (map (displacement idx) (blocks_waiting m))"

lemma map_moves:
  assumes "map block_moves bs = map block_moves cs"
  shows "map (displacement idx) bs = map (displacement idx) cs" "list_all executable_block bs = list_all executable_block cs"
proof -
  have d: "displacement idx b = (\<lambda>(s, _, dir). if dir AND push_bit idx 1 \<noteq> 0 then - ucast (s ! idx) else ucast (s ! idx)) (block_moves b)" for b
    by (simp add: displacement_def block_moves_def)
  have x: "executable_block b = (\<lambda>(s, n, _). length s = N_AXIS \<and> 0 < n \<and> unat n < 2 ^ 24 \<and> (\<forall>k\<in>set s. k \<le> n)) (block_moves b)" for b
    by (simp add: executable_block_def block_moves_def)
  have m: "map (f \<circ> block_moves) bs = map (f \<circ> block_moves) cs" for f :: "_ \<Rightarrow> 'a" using assms by (simp only: map_map [symmetric])
  show "map (displacement idx) bs = map (displacement idx) cs" unfolding d using m unfolding comp_def .
  have "list_all (f \<circ> block_moves) bs = list_all (f \<circ> block_moves) cs" for f
    using assms by (simp only: list.pred_map [symmetric])
  then show "list_all executable_block bs = list_all executable_block cs" unfolding x comp_def .
qed

lemma planned_kept: "plan_kept m m' \<Longrightarrow> map block_moves (planned_blocks m') = map block_moves (planned_blocks m)"
  by (simp add: planned_blocks_def ring_contents_def plan_kept_def)

lemma plan_ok_kept:
  assumes "plan_ok m" "plan_kept m m'" "plan_wf m'" "cutting m' = cutting m"
  shows "plan_ok m' \<and> (ahead_by idx p0 bs m \<longrightarrow> ahead_by idx p0 bs m')"
proof -
  note pm = planned_kept [OF assms(2)]
  have e: "(planned_blocks m' = []) = (planned_blocks m = [])" using pm by (metis map_is_Nil_conv)
  have "list_all executable_block (planned_blocks m')" using map_moves(2) [OF pm] assms(1) by (simp add: plan_ok_def list_all_iff)
  then have ok: "plan_ok m'"
    using assms e by (auto simp: plan_ok_def plan_kept_def exec_at_tail_def list_all_iff)
  have "map block_moves (blocks_waiting m') = map block_moves (blocks_waiting m)"
    using pm assms(4) by (simp add: blocks_waiting_def map_tl)
  then have "map (displacement idx) (blocks_waiting m') = map (displacement idx) (blocks_waiting m)" by (rule map_moves(1))
  then show ?thesis using ok assms(2) by (simp add: ahead_by_def plan_kept_def)
qed

section \<open>A new line\<close>

lemma labs_bound:
  assumes "\<bar>sint d\<bar> < 2 ^ 24"
  shows "unat (labs d) < 2 ^ 24"
proof -
  have "labs d = word_of_int \<bar>sint d\<bar>" by (simp add: labs_def)
  then have "uint (labs d) = \<bar>sint d\<bar>" using assms by (simp add: unsigned_of_int take_bit_int_eq_self)
  then show ?thesis using assms by (simp add: unat_eq_nat_uint nat_less_iff)
qed

lemma pin_mask:
  assumes "idx < N_AXIS"
  shows "get_direction_pin_mask idx = push_bit idx 1"
proof -
  have "idx \<in> {0, 1, 2, 3, 4, 5, 6, 7}" using assms by auto
  then show ?thesis by (auto simp: get_direction_pin_mask_def)
qed

lemma pin_bit: "i < 8 \<Longrightarrow> (w :: u8) AND push_bit i 1 \<noteq> 0 \<longleftrightarrow> bit w i"
  using bit_istrue_iff_bit [of w "push_bit i 1"] by (auto simp: bit_istrue_def bit_exp_iff)

text \<open>After the loop over the axes: the steps are the distances, the event count bounds them and
  is one of them, and the direction bits are the signs.\<close>

lemma plan_axes:
  fixes t p d b0
  defines "bl \<equiv> \<lambda>n. fold (plan_axis t p d) [0..<n] b0"
  assumes "pb_steps b0 = replicate N_AXIS 0" "pb_step_event_count b0 = 0" "pb_direction_bits b0 = 0" "n \<le> N_AXIS"
  shows "length (pb_steps (bl n)) = N_AXIS
    \<and> (\<forall>i<N_AXIS. pb_steps (bl n) ! i = (if i < n then labs (t ! i - p ! i) else 0))
    \<and> (\<forall>i<N_AXIS. pb_steps (bl n) ! i \<le> pb_step_event_count (bl n))
    \<and> (pb_step_event_count (bl n) = 0 \<or> (\<exists>i<n. pb_step_event_count (bl n) = labs (t ! i - p ! i)))
    \<and> (\<forall>i<N_AXIS. bit (pb_direction_bits (bl n)) i \<longleftrightarrow> i < n \<and> f32_lt (d ! i) 0)"
  using assms(5)
proof (induction n)
  case 0
  then show ?case using assms(2-4) by (simp add: bl_def)
next
  case (Suc n)
  have s: "bl (Suc n) = plan_axis t p d n (bl n)" by (simp add: bl_def)
  have n: "n < 8" using Suc.prems by simp
  let ?b = "bl n" and ?s = "labs (t ! n - p ! n)"
  have "n \<le> 8" using n by simp
  note Suc.IH [OF this]
  then have IH: "length (pb_steps ?b) = 8"
      "\<forall>i<8. pb_steps ?b ! i = (if i < n then labs (t ! i - p ! i) else 0)"
      "\<forall>i<8. pb_steps ?b ! i \<le> pb_step_event_count ?b"
      "pb_step_event_count ?b = 0 \<or> (\<exists>i<n. pb_step_event_count ?b = labs (t ! i - p ! i))"
      "\<forall>i<8. bit (pb_direction_bits ?b) i \<longleftrightarrow> i < n \<and> f32_lt (d ! i) 0"
    by blast+
  have st: "pb_steps (bl (Suc n)) = (pb_steps ?b)[n := ?s]"
    and ev: "pb_step_event_count (bl (Suc n)) = max ?s (pb_step_event_count ?b)"
    and di: "pb_direction_bits (bl (Suc n)) = (if f32_lt (d ! n) 0
      then pb_direction_bits ?b OR push_bit n 1 else pb_direction_bits ?b)"
    unfolding s plan_axis_def Let_def using IH(1) n pin_mask [of n] by (auto simp: max_def not_less intro: antisym)
  show ?case
  proof (intro conjI allI impI)
    show "length (pb_steps (bl (Suc n))) = 8" using IH(1) by (simp add: st)
    fix i :: nat
    assume i: "i < 8"
    show "pb_steps (bl (Suc n)) ! i = (if i < Suc n then labs (t ! i - p ! i) else 0)"
      using IH(1,2) i n by (auto simp: st nth_list_update)
    show "pb_steps (bl (Suc n)) ! i \<le> pb_step_event_count (bl (Suc n))"
      using IH(1,3) i n by (auto simp: st ev nth_list_update le_max_iff_disj)
    show "bit (pb_direction_bits (bl (Suc n))) i \<longleftrightarrow> i < Suc n \<and> f32_lt (d ! i) 0"
      using IH(5) i n by (auto simp: di bit_or_iff bit_exp_iff less_Suc_eq)
  next
    show "pb_step_event_count (bl (Suc n)) = 0 \<or> (\<exists>i<Suc n. pb_step_event_count (bl (Suc n)) = labs (t ! i - p ! i))"
      using IH(4) by (auto simp: ev max_def less_Suc_eq)
  qed
qed

lemma line_block:
  assumes "line_fits target m" "length (pl_position (pl m)) = N_AXIS" "pld_condition pl_data AND PL_COND_FLAG_SYSTEM_MOTION = 0"
    "plan_block_steps target pl_data m = (b, t, d)"
  shows "length t = N_AXIS" "pb_step_event_count b \<noteq> 0 \<Longrightarrow> executable_block b"
    "idx < N_AXIS \<Longrightarrow> displacement idx b = t ! idx - pl_position (pl m) ! idx"
proof -
  let ?p = "pl_position (pl m)" and ?k = "steps_per_mm (settings m)"
  let ?b0 = "plan_block0\<lparr>pb_condition := pld_condition pl_data, pb_spindle_speed := pld_spindle_speed pl_data\<rparr>"
  have td: "t = map2 lround_steps target ?k" "d = map2 (\<lambda>(t, p) k. axis_delta_mm t p k) (zip t ?p) ?k"
    "b = fold (plan_axis t ?p d) [0..<N_AXIS] ?b0"
    using assms(3,4) by (auto simp: plan_block_steps_def Let_def)
  have len: "length target = 8" "length ?k = 8" using assms(1) by (simp_all add: line_fits_def)
  then show lt: "length t = N_AXIS" by (simp add: td(1))
  have "pb_steps ?b0 = replicate N_AXIS 0" "pb_step_event_count ?b0 = 0" "pb_direction_bits ?b0 = 0" "8 \<le> N_AXIS"
    by (simp_all add: plan_block0_def)
  note A = plan_axes [OF this, of t ?p d, folded td(3)]
  then have steps: "\<forall>i<8. pb_steps b ! i = (if i < 8 then labs (t ! i - ?p ! i) else 0)"
    and ax: "length (pb_steps b) = 8" "\<forall>i<8. pb_steps b ! i \<le> pb_step_event_count b"
      "pb_step_event_count b = 0 \<or> (\<exists>i<8. pb_step_event_count b = labs (t ! i - ?p ! i))"
      "\<forall>i<8. bit (pb_direction_bits b) i \<longleftrightarrow> i < 8 \<and> f32_lt (d ! i) 0"
    by blast+
  have fits: "\<bar>sint (t ! i - ?p ! i)\<bar> < 2 ^ 24" if "i < 8" for i
    using assms(1) that len by (simp add: line_fits_def td(1))
  show "executable_block b" if "pb_step_event_count b \<noteq> 0"
  proof -
    obtain i where i: "i < 8" "pb_step_event_count b = labs (t ! i - ?p ! i)" using ax(3) \<open>pb_step_event_count b \<noteq> 0\<close> by blast
    then have "unat (pb_step_event_count b) < 2 ^ 24" using labs_bound [OF fits] by simp
    moreover have "\<forall>s\<in>set (pb_steps b). s \<le> pb_step_event_count b" using ax(1,2) by (auto simp: in_set_conv_nth)
    ultimately show ?thesis using ax(1) that by (simp add: executable_block_def word_neq_0_conv)
  qed
  show "displacement idx b = t ! idx - ?p ! idx" if "idx < N_AXIS"
  proof -
    have i: "idx < 8" using that by simp
    let ?d = "t ! idx - ?p ! idx"
    have "case f32_dec (?k ! idx) of (_, Fin q) \<Rightarrow> 0 < q | _ \<Rightarrow> False"
      using assms(1) i by (simp add: line_fits_def)
    then obtain s q where q: "f32_dec (?k ! idx) = (s, Fin q)" "0 < q"
      by (auto split: prod.splits fpv.splits)
    have "d ! idx = axis_delta_mm (t ! idx) (?p ! idx) (?k ! idx)"
      using i len lt assms(2) by (simp add: td(2))
    then have "f32_lt (d ! idx) 0 \<longleftrightarrow> sint ?d < 0"
      using f32_div_negative [OF f32_of_int_exact [OF fits [OF i]] q] by (simp add: axis_delta_mm_def)
    then have "pb_direction_bits b AND push_bit idx 1 \<noteq> 0 \<longleftrightarrow> sint ?d < 0" unfolding pin_bit [OF i] using ax(4) i by blast
    then show ?thesis using steps i by (simp add: displacement_def labs_def)
  qed
qed

lemma moves_limits: "block_moves (fst (plan_block_limits pl_data d m b)) = block_moves b"
  by (simp add: plan_block_limits_def Let_def case_prod_beta block_moves_def)

lemma moves_profile: "block_moves (plan_compute_profile_parameters v w b) = block_moves b"
  by (simp add: plan_compute_profile_parameters_def Let_def block_moves_def)

lemma elsewhere_push: "elsewhere m (plan_push_block b (m\<lparr>pl := q\<rparr>))"
  by (simp add: elsewhere_def step_view_def holds_block_def plan_push_block_def set_block_def Let_def)

lemma elsewhere_cutting: "elsewhere m m' \<Longrightarrow> cutting m' = cutting m"
  by (auto simp: elsewhere_def holds_block_cutting)

lemma exec_at_tail_push: "exec_at_tail m \<Longrightarrow> exec_at_tail (plan_push_block b (m\<lparr>pl := q\<rparr>))"
  by (simp add: exec_at_tail_def plan_push_block_def set_block_def Let_def)

lemma planned_push:
  assumes "plan_wf m" "\<not> plan_check_full_buffer m"
  shows "planned_blocks (plan_push_block b (m\<lparr>pl := q\<rparr>)) = planned_blocks m @ [b]"
proof -
  let ?m = "m\<lparr>pl := q\<rparr>"
  have h: "in_ring (block_buffer_head m)" "next_buffer_head m = plan_next_block_index (block_buffer_head m)"
    using assms(1) by (simp_all add: plan_wf_def)
  have "unat (plan_next_block_index (block_buffer_head m)) = (unat (block_buffer_head m) + 1) mod BLOCK_BUFFER_SIZE"
    using unat_ring_next_small [of BLOCK_BUFFER_SIZE] h by (simp add: plan_next_block_index_def)
  then have "(unat (block_buffer_head ?m) + 1) mod BLOCK_BUFFER_SIZE \<noteq> unat (block_buffer_tail ?m)"
    using assms(2) h by (auto simp: plan_check_full_buffer_def word_unat_eq_iff)
  moreover have "plan_wf ?m" using assms(1) by simp
  ultimately have "planned_blocks (plan_push_block b ?m) = planned_blocks ?m @ [b]"
    using planq.queue_push [of ?m b] by (simp only: planned_blocks_queue simp_thms)
  then show ?thesis by (simp add: planned_blocks_def)
qed

lemma planned_head_slot:
  assumes "plan_wf m"
  shows "planned_blocks (set_block (block_buffer_head m) f m) = planned_blocks m"
proof -
  have w: "unat (block_buffer_head m) < BLOCK_BUFFER_SIZE" "unat (block_buffer_tail m) < BLOCK_BUFFER_SIZE"
    using assms by (simp_all add: plan_wf_def)
  have ix: "block_buffer_head (set_block (block_buffer_head m) f m) = block_buffer_head m"
    "block_buffer_tail (set_block (block_buffer_head m) f m) = block_buffer_tail m" by (simp_all add: set_block_def)
  have off: "block_buffer (set_block (block_buffer_head m) f m) ! j = block_buffer m ! j" if "j \<noteq> unat (block_buffer_head m)" for j
    using that by (simp add: set_block_def)
  show ?thesis
    unfolding planned_blocks_def ix by (rule ring_contents_cong, rule off, rule ring_other [OF w])
qed

lemma buffer_line_pushes:
  assumes "plan_block_steps target pl_data m = (b, t, d)" "pld_condition pl_data AND PL_COND_FLAG_SYSTEM_MOTION = 0"
    "pb_step_event_count b \<noteq> 0"
  obtains c q where "block_moves c = block_moves b" "pl_position q = t"
    "snd (plan_buffer_line target pl_data m) = planner_recalculate (plan_push_block c (m\<lparr>pl := q\<rparr>))"
proof -
  have "pb_condition (fst (plan_block_limits pl_data d m b)) = pld_condition pl_data"
    using condition_block_steps [of target pl_data m] assms(1) by (simp add: condition_block_limits)
  then show thesis
    using assms moves_limits [of pl_data d m b]
    by (intro that [of "plan_compute_profile_parameters (plan_compute_profile_nominal_speed (fst (plan_block_limits pl_data d m b)) m)
          (pl_previous_nominal_speed (pl m)) (fst (plan_block_limits pl_data d m b))"
        "(pl m)\<lparr>pl_previous_nominal_speed := plan_compute_profile_nominal_speed (fst (plan_block_limits pl_data d m b)) m,
           pl_previous_unit_vec := snd (plan_block_limits pl_data d m b), pl_position := t\<rparr>"])
      (simp_all add: plan_buffer_line_def Let_def case_prod_beta moves_profile)
qed

lemma buffer_line_keeps:
  assumes "plan_ok m" "\<not> plan_check_full_buffer m" "line_fits target m"
    "pld_condition pl_data AND PL_COND_FLAG_SYSTEM_MOTION = 0"
  defines "m' \<equiv> snd (plan_buffer_line target pl_data m)"
  shows "elsewhere m m'" "plan_ok m'" "idx < N_AXIS \<Longrightarrow> ahead_by idx p0 bs m \<Longrightarrow> ahead_by idx p0 bs m'"
proof -
  obtain b t d where s: "plan_block_steps target pl_data m = (b, t, d)" by (metis prod_cases3)
  have len: "length (pl_position (pl m)) = N_AXIS" and wf: "plan_wf m" using assms(1) by (simp_all add: plan_ok_def)
  note lb = line_block [OF assms(3) len assms(4) s]
  have "elsewhere m m' \<and> plan_ok m' \<and> (idx < N_AXIS \<longrightarrow> ahead_by idx p0 bs m \<longrightarrow> ahead_by idx p0 bs m')"
  proof (cases "pb_step_event_count b = 0")
    case True
    then have m': "m' = set_block (block_buffer_head m) (\<lambda>_. b) m"
      using s by (simp add: m'_def plan_buffer_line_def Let_def)
    have e: "elsewhere m m'" unfolding m' by (rule elsewhere_set_block)
    have p: "planned_blocks m' = planned_blocks m" unfolding m' by (rule planned_head_slot [OF wf])
    have "pl m' = pl m" "plan_wf m'" "exec_at_tail m'"
      using plan_wf_set_block [OF wf] assms(1) by (simp_all add: m' plan_ok_def) (simp add: set_block_def)
    then show ?thesis
      using assms(1) e p elsewhere_cutting [OF e] by (simp add: plan_ok_def ahead_by_def blocks_waiting_def)
  next
    case False
    then obtain c q where c: "block_moves c = block_moves b" "pl_position q = t"
        "m' = planner_recalculate (plan_push_block c (m\<lparr>pl := q\<rparr>))"
      using buffer_line_pushes [OF s assms(4)] unfolding m'_def by blast
    let ?k = "plan_push_block c (m\<lparr>pl := q\<rparr>)"
    have wk: "plan_wf ?k" "block_buffer_head ?k \<noteq> block_buffer_tail ?k"
      using plan_wf_push [of "m\<lparr>pl := q\<rparr>" c] wf assms(2) by (simp_all add: plan_check_full_buffer_def)
    have ek: "elsewhere m ?k" by (rule elsewhere_push)
    have ck: "cutting ?k = cutting m" by (rule elsewhere_cutting [OF ek])
    have pk: "planned_blocks ?k = planned_blocks m @ [c]" by (rule planned_push [OF wf assms(2)])
    have xc: "executable_block c" using lb(2) [OF False] map_moves(2) [of "[c]" "[b]"] c(1) by simp
    have pos: "pl_position (pl ?k) = t" using c(2) by (simp add: plan_push_block_def set_block_def Let_def)
    have ok: "plan_ok ?k"
      using assms(1) wk(1) exec_at_tail_push [of m c q] pk xc pos lb(1) by (auto simp: plan_ok_def)
    have wait: "blocks_waiting ?k = blocks_waiting m @ [c]"
      using assms(1) pk ck by (auto simp: blocks_waiting_def plan_ok_def)
    have dc: "displacement idx c = displacement idx b" using map_moves(1) [of "[c]" "[b]" idx] c(1) by simp
    have ah: "ahead_by idx p0 bs ?k" if "idx < N_AXIS" "ahead_by idx p0 bs m"
      using that lb(3) [OF that(1)] dc by (simp add: ahead_by_def wait pos)
    have r: "replan ?k m'" unfolding c(3) by (rule replan_recalculate)
    have "plan_wf m'" unfolding c(3) by (rule plan_wf_recalculate [OF wk])
    then have "plan_ok m' \<and> (ahead_by idx p0 bs ?k \<longrightarrow> ahead_by idx p0 bs m')"
      using r ok by (intro plan_ok_kept) (simp_all add: replan_def elsewhere_cutting)
    then show ?thesis using ah elsewhere_trans [OF ek] r by (auto simp: replan_def)
  qed
  then show "elsewhere m m'" "plan_ok m'" "idx < N_AXIS \<Longrightarrow> ahead_by idx p0 bs m \<Longrightarrow> ahead_by idx p0 bs m'" by blast+
qed

section \<open>A round of the generator\<close>

definition ring_kept :: "machine \<Rightarrow> machine \<Rightarrow> bool" where
  "ring_kept m m' \<longleftrightarrow> plan_kept m (m'\<lparr>pl_block := pl_block m\<rparr>) \<and> block_buffer_planned m' = block_buffer_planned m"

definition ring_view :: "machine \<Rightarrow> _" where
  "ring_view m = (block_buffer m, (block_buffer_head m, block_buffer_tail m, next_buffer_head m, block_buffer_planned m), pl m)"

lemma ring_view_kept: "ring_view m' = ring_view m \<Longrightarrow> ring_kept m m'"
  by (simp add: ring_view_def ring_kept_def plan_kept_def)

lemma ring_kept_trans: "ring_kept a b \<Longrightarrow> ring_kept b c \<Longrightarrow> ring_kept a c"
  by (simp add: ring_kept_def plan_kept_def)

lemma ring_kept_set_block: "(\<And>b. block_moves (f b) = block_moves b) \<Longrightarrow> ring_kept m (set_block i f m)"
  using plan_kept_set_block [of f m i] by (simp add: ring_kept_def plan_kept_def set_block_def)

lemma ring_kept_wf: "ring_kept m m' \<Longrightarrow> plan_wf m \<Longrightarrow> plan_wf m'"
  by (simp add: ring_kept_def plan_kept_def plan_wf_def)

lemma ring_kept_planned: "ring_kept m m' \<Longrightarrow> map block_moves (planned_blocks m') = map block_moves (planned_blocks m)"
  using planned_kept [of m "m'\<lparr>pl_block := pl_block m\<rparr>"] by (simp add: ring_kept_def planned_blocks_def)

lemma ring_view_basic [simp]:
  "ring_view (upd_prep f m) = ring_view m" "ring_view (m\<lparr>prep := q\<rparr>) = ring_view m"
  "ring_view (m\<lparr>pl_block := z\<rparr>) = ring_view m" "ring_view (upd_segment h m) = ring_view m"
  "ring_view (set_step_control c m) = ring_view m" "ring_view (set_spindle_speed v m) = ring_view m"
  "ring_view (st_push_segment m) = ring_view m" "ring_view (st_copy_block b m) = ring_view m"
  "ring_view (m\<lparr>st_block_buffer := s\<rparr>) = ring_view m"
  by (simp_all add: ring_view_def upd_prep_def upd_segment_def set_spindle_speed_def st_push_segment_def st_copy_block_def Let_def)

lemma ring_view_spindle [simp]: "ring_view (segment_spindle b m) = ring_view m"
proof -
  have "ring_view (snd (spindle_compute_pwm_value rpm m)) = ring_view m" for rpm
    using spindle_compute_frame [of rpm m] by auto
  then show ?thesis by (simp add: segment_spindle_def Let_def case_prod_beta)
qed

lemma ring_kept_load: "ring_kept m (st_load_block b m)"
proof -
  have speed: "block_moves (p\<lparr>pb_entry_speed_sqr := v\<rparr>) = block_moves p" for p v by (simp add: block_moves_def)
  have v: "ring_kept k k' \<Longrightarrow> ring_kept k (upd_prep f k')" "ring_kept k k' \<Longrightarrow> ring_kept k (k'\<lparr>st_block_buffer := s\<rparr>)"
    "ring_kept k k' \<Longrightarrow> ring_kept k (set_entry_speed i v k')" "ring_kept k (st_copy_block j k)" for k k' f s i v j
    by (blast intro: ring_kept_trans ring_view_kept ring_view_basic ring_kept_set_block speed)+
  show ?thesis unfolding st_load_block_def Let_def by (simp add: v)
qed

lemma ring_view_profile: "ring_view (st_block_profile b m) = ring_view m"
  by (simp add: st_block_profile_def Let_def)

lemma fetch_plan:
  assumes "st_fetch_block m = (m1, Some b)" "exec_at_tail m"
    "sys_step_control (sys m) AND STEP_CONTROL_EXECUTE_SYS_MOTION = 0"
  shows "ring_kept m m1" "b = block_buffer_tail m" "pl_block m \<noteq> None \<or> block_buffer_head m \<noteq> block_buffer_tail m"
proof -
  from assms(1) show "ring_kept m m1"
  proof (cases rule: fetch_cases)
    case loaded
    have "ring_kept m (st_load_block b (m\<lparr>pl_block := Some b\<rparr>))"
      by (rule ring_kept_trans [OF ring_view_kept [OF ring_view_basic(3)] ring_kept_load])
    then show ?thesis unfolding loaded(3) by (rule ring_kept_trans) (rule ring_view_kept [OF ring_view_profile])
  qed (auto intro: ring_view_kept simp: ring_view_profile)
  have "b = block_buffer_tail m \<and> (pl_block m \<noteq> None \<or> block_buffer_head m \<noteq> block_buffer_tail m)"
  proof (cases "pl_block m")
    case None
    then show ?thesis
      using assms(1,3) by (cases "block_buffer_head m = block_buffer_tail m")
        (simp_all add: st_fetch_block_def plan_get_current_block_def Let_def)
  next
    case (Some a)
    then have "st_fetch_block m = (m, Some a)" by (simp add: st_fetch_block_def)
    then show ?thesis using assms(1,2) Some by (auto simp: exec_at_tail_def)
  qed
  then show "b = block_buffer_tail m" "pl_block m \<noteq> None \<or> block_buffer_head m \<noteq> block_buffer_tail m" by blast+
qed

lemma check_exit_cases:
  "snd (st_check_exit b mm m) = set_step_control (sys_step_control (sys m) OR STEP_CONTROL_END_MOTION) m
   \<or> snd (st_check_exit b mm m) = plan_discard_current_block (m\<lparr>pl_block := None\<rparr>)
   \<or> snd (st_check_exit b mm m) = m"
  by (simp add: st_check_exit_def)

lemma emit_plan:
  assumes "st_emit_segment b dt mm k = (c, m')"
  obtains k' where "ring_kept k k'" "pl_block k' = pl_block k" "m' = k' \<or> m' = plan_discard_current_block (k'\<lparr>pl_block := None\<rparr>)"
proof -
  have len: "block_moves (p\<lparr>pb_millimeters := v\<rparr>) = block_moves p" for p v by (simp add: block_moves_def)
  have pl: "pl_block (segment_spindle b k) = pl_block k" using aside_spindle [of k b] by (simp add: aside_def)
  have v: "ring_kept k k' \<Longrightarrow> ring_view k'' = ring_view k' \<Longrightarrow> ring_kept k k''" for k' k''
    by (blast intro: ring_kept_trans ring_view_kept)
  have w: "ring_kept k (set_block b (\<lambda>p. p\<lparr>pb_millimeters := mm\<rparr>) k')" if "ring_view k' = ring_view k" for k'
    by (rule ring_kept_trans [OF ring_view_kept [OF that] ring_kept_set_block [OF len]])
  let ?n = "\<lambda>n. upd_segment (\<lambda>s. s\<lparr>seg_n_step := n\<rparr>) (segment_spindle b k)"
  have "\<exists>n g h cc. m' = set_step_control cc (?n n) \<or>
      m' = snd (st_check_exit b mm (upd_prep h (set_block b (\<lambda>p. p\<lparr>pb_millimeters := mm\<rparr>) (st_push_segment (upd_segment g (?n n))))))"
    using assms unfolding st_emit_segment_def Let_def by (auto split: if_splits) (metis snd_conv)+
  then obtain n g h cc where "m' = set_step_control cc (?n n) \<or>
      m' = snd (st_check_exit b mm (upd_prep h (set_block b (\<lambda>p. p\<lparr>pb_millimeters := mm\<rparr>) (st_push_segment (upd_segment g (?n n))))))"
    by blast
  then show thesis
  proof
    assume m': "m' = set_step_control cc (?n n)"
    have "ring_view m' = ring_view k" by (simp add: m')
    moreover have "pl_block m' = pl_block k" using pl by (simp add: m' upd_segment_def Let_def)
    ultimately show thesis by (intro that [of m'] ring_view_kept) simp_all
  next
    let ?k = "upd_prep h (set_block b (\<lambda>p. p\<lparr>pb_millimeters := mm\<rparr>) (st_push_segment (upd_segment g (?n n))))"
    assume m': "m' = snd (st_check_exit b mm ?k)"
    have r: "ring_kept k ?k" by (rule v [OF w]) simp_all
    have p: "pl_block ?k = pl_block k" using pl by (simp add: upd_prep_def set_block_def st_push_segment_def upd_segment_def Let_def)
    consider "m' = set_step_control (sys_step_control (sys ?k) OR STEP_CONTROL_END_MOTION) ?k"
      | "m' = plan_discard_current_block (?k\<lparr>pl_block := None\<rparr>)" | "m' = ?k"
      unfolding m' using check_exit_cases [of b mm ?k] by blast
    then show thesis
    proof cases
      case 1
      have "ring_kept k m'" by (rule v [OF r]) (simp add: 1)
      then show thesis using p by (intro that [of m']) (simp_all add: 1)
    qed (use r p in \<open>auto intro: that\<close>)
  qed
qed

lemma make_segment_plan:
  assumes "st_make_segment b m = Some (c, m')"
  obtains k where "ring_kept m k" "pl_block k = pl_block m" "m' = k \<or> m' = plan_discard_current_block (k\<lparr>pl_block := None\<rparr>)"
proof -
  let ?m1 = "upd_segment (\<lambda>s. s\<lparr>seg_st_block_index := prep_st_block_index (prep m)\<rparr>) m"
  obtain q e mm where emit: "st_emit_segment b e mm (?m1\<lparr>prep := q\<rparr>) = (c, m')"
    using assms unfolding st_make_segment_def Let_def by (auto simp only: map_option_eq_Some prod.case split_paired_all)
  then obtain k where k: "ring_kept (?m1\<lparr>prep := q\<rparr>) k" "pl_block k = pl_block (?m1\<lparr>prep := q\<rparr>)"
      "m' = k \<or> m' = plan_discard_current_block (k\<lparr>pl_block := None\<rparr>)"
    by (rule emit_plan)
  have "ring_kept m (?m1\<lparr>prep := q\<rparr>)" by (rule ring_view_kept) simp
  then show thesis
    using k by (intro that [of k] ring_kept_trans [of m _ k]) (simp_all add: upd_segment_def Let_def)
qed

lemma planned_pop:
  assumes "plan_wf m" "planned_blocks m \<noteq> []"
  shows "planned_blocks m = block_at m (block_buffer_tail m) # planned_blocks (plan_discard_current_block m)"
    "block_buffer_head m \<noteq> block_buffer_tail m"
proof -
  have "unat (block_buffer_head m) \<noteq> unat (block_buffer_tail m)"
    using assms planq.queue_empty_iff [OF assms(1)] by (auto simp: planned_blocks_queue)
  then show "planned_blocks m = block_at m (block_buffer_tail m) # planned_blocks (plan_discard_current_block m)"
    "block_buffer_head m \<noteq> block_buffer_tail m"
    using planq.queue_pop [OF assms(1)] by (auto simp: planned_blocks_queue block_at_def)
qed

lemma planned_nonempty: "plan_wf m \<Longrightarrow> planned_blocks m \<noteq> [] \<longleftrightarrow> block_buffer_head m \<noteq> block_buffer_tail m"
  using planq.queue_empty_iff [of m] by (auto simp: planned_blocks_queue word_unat_eq_iff)

lemma fetch_keeps_plan:
  assumes "plan_ok m" "st_fetch_block m = (m1, Some b)" "cutting m1" "pl_block m1 = Some b"
    "sys_step_control (sys m) AND STEP_CONTROL_EXECUTE_SYS_MOTION = 0"
  shows "plan_ok m1" "\<forall>b\<in>set (loaded_block m). executable_block b"
    "ahead_by idx p0 bs m \<Longrightarrow> ahead_by idx p0 (bs @ loaded_block m) m1"
proof -
  have ok: "plan_wf m" "exec_at_tail m" "cutting m \<longrightarrow> planned_blocks m \<noteq> []" "\<forall>b\<in>set (planned_blocks m). executable_block b"
    using assms(1) by (simp_all add: plan_ok_def)
  note f = fetch_plan [OF assms(2) ok(2) assms(5)]
  have w1: "plan_wf m1" by (rule ring_kept_wf [OF f(1) ok(1)])
  have pm: "map block_moves (planned_blocks m1) = map block_moves (planned_blocks m)" by (rule ring_kept_planned [OF f(1)])
  have ne: "planned_blocks m \<noteq> []" using f(3) ok(3) planned_nonempty [OF ok(1)] cutting_held [of m] by blast
  then have ne1: "planned_blocks m1 \<noteq> []" using pm by (metis map_is_Nil_conv)
  have "list_all executable_block (planned_blocks m1)" using map_moves(2) [OF pm] ok(4) by (simp add: list_all_iff)
  then show "plan_ok m1"
    using w1 ne1 f(1,2) ok(2) assms(1,4) by (simp add: plan_ok_def exec_at_tail_def ring_kept_def plan_kept_def list_all_iff)
  have hd: "planned_blocks m = block_at m b # tl (planned_blocks m)" using planned_pop(1) [OF ok(1) ne] f(2) by (metis list.sel(3))
  have ld: "loaded_block m = (if cutting m then [] else [block_at m b])"
    using assms(2,5) f(2) planned_pop(2) [OF ok(1) ne] by (simp add: loaded_block_def plan_get_current_block_def)
  have "block_at m b \<in> set (planned_blocks m)" using hd by (metis list.set_intros(1))
  then show "\<forall>b\<in>set (loaded_block m). executable_block b" using ok(4) by (simp add: ld)
  have wt: "map (displacement idx) (blocks_waiting m) = map (displacement idx) (loaded_block m @ tl (planned_blocks m))"
    using arg_cong [OF hd, of "map (displacement idx)"] unfolding list.map by (simp add: blocks_waiting_def ld)
  have "map block_moves (blocks_waiting m1) = map block_moves (tl (planned_blocks m))" using pm assms(3) by (simp add: blocks_waiting_def map_tl)
  then have "map (displacement idx) (blocks_waiting m1) = map (displacement idx) (tl (planned_blocks m))" by (rule map_moves(1))
  then show "ahead_by idx p0 (bs @ loaded_block m) m1" if "ahead_by idx p0 bs m"
    using that f(1) wt by (simp add: ahead_by_def ring_kept_def plan_kept_def algebra_simps)
qed

lemma make_segment_flag:
  assumes "seg_wf m" "segment_buffer_tail m \<noteq> segment_next_head m" "st_make_segment b m = Some (c, m')"
  shows "prep_recalculate_flag (prep m') = prep_recalculate_flag (prep m)"
  using assms by (cases rule: make_segment_cases) (simp_all add: aside_def wrote_def prep_same_def)

lemma discard_keeps_plan:
  assumes "plan_ok m1" "cutting m1" "ring_kept m1 k" "pl_block k = None" "\<not> cutting (plan_discard_current_block k)"
  defines "m' \<equiv> plan_discard_current_block k"
  shows "plan_ok m'" "ahead_by idx p0 bs m1 \<Longrightarrow> ahead_by idx p0 bs m'"
proof -
  have ok: "plan_wf m1" "planned_blocks m1 \<noteq> []" "\<forall>b\<in>set (planned_blocks m1). executable_block b"
    "length (pl_position (pl m1)) = N_AXIS" using assms(1,2) by (simp_all add: plan_ok_def)
  have wk: "plan_wf k" by (rule ring_kept_wf [OF assms(3) ok(1)])
  have pm: "map block_moves (planned_blocks k) = map block_moves (planned_blocks m1)" by (rule ring_kept_planned [OF assms(3)])
  then have ne: "planned_blocks k \<noteq> []" using ok(2) by (metis map_is_Nil_conv)
  have "planned_blocks m' = tl (planned_blocks k)" using planned_pop(1) [OF wk ne] unfolding m'_def by (metis list.sel(3))
  then have tl: "map block_moves (planned_blocks m') = map block_moves (tl (planned_blocks m1))" using pm by (metis map_tl)
  have pl: "pl m' = pl k" "pl_block m' = None" using assms(4) by (simp_all add: m'_def plan_discard_current_block_def Let_def)
  have w': "plan_wf m'" unfolding m'_def by (rule plan_wf_discard [OF wk])
  have "list_all executable_block (tl (planned_blocks m1))" using ok(3) by (cases "planned_blocks m1") (auto simp: list_all_iff)
  then have "list_all executable_block (planned_blocks m')" using map_moves(2) [OF tl] by simp
  then show "plan_ok m'"
    using w' pl assms(3,5) ok(4)
    by (simp add: plan_ok_def exec_at_tail_def plan_wf_def ring_kept_def plan_kept_def list_all_iff m'_def [symmetric])
  have "map (displacement idx) (blocks_waiting m') = map (displacement idx) (blocks_waiting m1)"
    using map_moves(1) [OF tl] assms(2,5) by (simp add: blocks_waiting_def m'_def)
  then show "ahead_by idx p0 bs m'" if "ahead_by idx p0 bs m1"
    using that pl(1) assms(3) by (simp add: ahead_by_def ring_kept_def plan_kept_def)
qed

lemma prep_round_keeps_plan:
  assumes "flow_ok m" "flow jdx q0 bs m" "plan_ok m" "prep_round m = Some m'"
    "sys_step_control (sys m) AND STEP_CONTROL_EXECUTE_SYS_MOTION = 0" "\<forall>b\<in>set bs. executable_block b"
  shows "\<forall>b\<in>set (loaded_block m). executable_block b" "plan_ok m'"
    "ahead_by idx p0 bs m \<Longrightarrow> ahead_by idx p0 (bs @ loaded_block m) m'"
proof -
  have full: "segment_buffer_tail m \<noteq> segment_next_head m" using assms(4) by (auto simp: prep_round_def)
  obtain m1 b c where f: "st_fetch_block m = (m1, Some b)" and e: "st_make_segment b m1 = Some (c, m')"
    using assms(4) full by (auto simp: prep_round_def split: prod.splits option.splits)
  have p1: "pl_block m1 = Some b" using f by (cases rule: fetch_cases) (simp_all add: profile_same load_block_same upd_prep_def)
  then have c1: "cutting m1" by (simp add: cutting_held)
  note p = fetch_keeps_plan [OF assms(3) f c1 p1 assms(5)]
  show ld: "\<forall>b\<in>set (loaded_block m). executable_block b" by (rule p(2))
  then have "flow_ok m1" using flow_fetch [OF assms(1,2) full f] assms(6) by auto
  then have "seg_wf m1" "segment_buffer_tail m1 \<noteq> segment_next_head m1" "prep_recalculate_flag (prep m1) AND PREP_FLAG_RECALCULATE = 0"
    using seg_same_fetch [of m] f full p1 by (simp_all add: flow_ok_def seg_same_def)
  then have fl: "prep_recalculate_flag (prep m') AND PREP_FLAG_RECALCULATE = 0"
    using make_segment_flag [OF _ _ e] by simp
  have "plan_ok m' \<and> (ahead_by idx p0 (bs @ loaded_block m) m1 \<longrightarrow> ahead_by idx p0 (bs @ loaded_block m) m')"
    using e
  proof (rule make_segment_plan)
    fix k
    assume k: "ring_kept m1 k" "pl_block k = pl_block m1" "m' = k \<or> m' = plan_discard_current_block (k\<lparr>pl_block := None\<rparr>)"
    show ?thesis
      using k(3)
    proof
      assume m': "m' = k"
      have "plan_kept m1 m'" using k(1,2) by (simp add: m' ring_kept_def plan_kept_def)
      moreover have "plan_wf m'" using ring_kept_wf [OF k(1)] p(1) by (simp add: m' plan_ok_def)
      moreover have "cutting m' = cutting m1" using k(2) p1 by (simp add: m' cutting_def)
      ultimately show ?thesis by (rule plan_ok_kept [OF p(1)])
    next
      assume m': "m' = plan_discard_current_block (k\<lparr>pl_block := None\<rparr>)"
      have "\<not> cutting m'" using fl by (simp add: cutting_def m' plan_discard_current_block_def Let_def)
      moreover have "ring_kept m1 (k\<lparr>pl_block := None\<rparr>)"
        by (rule ring_kept_trans [OF k(1) ring_view_kept]) simp
      ultimately show ?thesis
        using discard_keeps_plan [OF p(1) c1, of "k\<lparr>pl_block := None\<rparr>"] unfolding m' by simp
    qed
  qed
  then show "plan_ok m'" "ahead_by idx p0 bs m \<Longrightarrow> ahead_by idx p0 (bs @ loaded_block m) m'" using p(3) by blast+
qed

section \<open>The whole run\<close>

text \<open>The end of a motion: no segment is left, and no block.\<close>

definition motion_done :: "machine \<Rightarrow> bool" where
  "motion_done m \<longleftrightarrow> segments m = [] \<and> plan_get_current_block m = None"

lemma start_plan:
  assumes "motion_start m"
  shows "plan_ok m \<and> ahead_by idx (pl_position (pl m) ! idx) [] m"
proof -
  have m: "plan_wf m" "\<not> cutting m" "plan_get_current_block m = None" "pl_position (pl m) = sys_position m" "axes_complete m"
    using assms by (simp_all add: motion_start_def at_rest_def)
  then have p: "planned_blocks m = []" using plan_get_block_buffer_available_eq(4) by blast
  then show ?thesis
    using m by (simp add: plan_ok_def exec_at_tail_def plan_wf_def cutting_def axes_complete_def ahead_by_def blocks_waiting_def)
qed

lemma timer1_plan:
  "plan_kept m (TIMER1_COMPA_vect m)" "plan_wf (TIMER1_COMPA_vect m) = plan_wf m"
  "cutting (TIMER1_COMPA_vect m) = cutting m"
  using plan_view_timer1 [of m] by (simp_all add: plan_view_def plan_kept_def plan_wf_def cutting_def)

definition run_ok :: "machine \<Rightarrow> plan_block_t list \<Rightarrow> machine \<Rightarrow> bool" where
  "run_ok m0 bs m \<longleftrightarrow> step_run m0 bs m \<and> (\<forall>b\<in>set bs. executable_block b) \<and> plan_ok m
     \<and> (\<forall>idx<N_AXIS. ahead_by idx (pl_position (pl m0) ! idx) bs m)"

lemma run_ok_kept:
  assumes "run_ok m0 bs m" "step_run m0 bs m'" "plan_kept m m'" "plan_wf m'" "cutting m' = cutting m"
  shows "run_ok m0 bs m'"
proof -
  have "plan_ok m" using assms(1) by (simp add: run_ok_def)
  then have "plan_ok m' \<and> (ahead_by idx p bs m \<longrightarrow> ahead_by idx p bs m')" for idx p
    by (rule plan_ok_kept [OF _ assms(3-5)])
  then show ?thesis using assms(1,2) by (simp add: run_ok_def)
qed

lemma motion_run_steps:
  assumes "motion_run m0 m" "motion_start m0"
  shows "\<exists>bs. run_ok m0 bs m"
  using assms(1)
proof (induction rule: motion_run.induct)
  case start
  show ?case using start_plan [OF assms(2)] by (intro exI [of _ "[]"]) (simp add: run_ok_def step_run.start)
next
  case (tick m)
  then obtain bs where bs: "run_ok m0 bs m" by blast
  then have "step_run m0 bs m" "plan_wf m" by (simp_all add: run_ok_def plan_ok_def)
  then have "run_ok m0 bs (TIMER1_COMPA_vect m)"
    using timer1_plan by (intro run_ok_kept [OF bs step_run.tick]) simp_all
  then show ?case by blast
next
  case (cut m m')
  then obtain bs where bs: "run_ok m0 bs m" by blast
  then have r: "step_run m0 bs m" "\<forall>b\<in>set bs. executable_block b" "plan_ok m" by (simp_all add: run_ok_def)
  have "at_rest m0" using assms(2) by (simp add: motion_start_def)
  then have "flow_ok m" "flow 0 (sys_position m0 ! 0) bs m" using step_run_flow [OF r(1) _ r(2), of 0] by simp_all
  note k = prep_round_keeps_plan [OF this r(3) cut.hyps(2,4) r(2)]
  have "step_run m0 (bs @ loaded_block m) m'" by (rule step_run.cut [OF r(1) cut.hyps(2,3)])
  then have "run_ok m0 (bs @ loaded_block m) m'" using k bs by (auto simp: run_ok_def)
  then show ?case by blast
next
  case (line m target pl_data)
  then obtain bs where bs: "run_ok m0 bs m" by blast
  then have r: "step_run m0 bs m" "plan_ok m" by (simp_all add: run_ok_def)
  note k = buffer_line_keeps [OF r(2) line.hyps(2-4)]
  have "run_ok m0 bs (snd (plan_buffer_line target pl_data m))"
    using step_run.other [OF r(1) k(1)] k(2,3) bs by (simp add: run_ok_def)
  then show ?case by blast
next
  case (other m m')
  then obtain bs where bs: "run_ok m0 bs m" by blast
  then have "step_run m0 bs m" "plan_wf m" by (simp_all add: run_ok_def plan_ok_def)
  then have "run_ok m0 bs m'"
    using other.hyps elsewhere_cutting by (intro run_ok_kept [OF bs step_run.other]) blast+
  then show ?case by blast
qed

lemma motion_positions:
  assumes "motion_start m0" "motion_run m0 m" "motion_done m"
  shows "sys_position m = pl_position (pl m)"
proof -
  obtain bs where "run_ok m0 bs m" using motion_run_steps [OF assms(2,1)] by blast
  then have bs: "step_run m0 bs m" "\<forall>b\<in>set bs. executable_block b" "plan_ok m"
      "\<forall>idx<N_AXIS. ahead_by idx (pl_position (pl m0) ! idx) bs m" by (simp_all add: run_ok_def)
  have r: "at_rest m0" "pl_position (pl m0) = sys_position m0" using assms(1) by (simp_all add: motion_start_def)
  have p: "planned_blocks m = []" "segments m = []"
    using bs(3) assms(3) plan_get_block_buffer_available_eq(4) by (auto simp: motion_done_def plan_ok_def)
  then have c: "\<not> cutting m" using bs(3) by (auto simp: plan_ok_def)
  then have n: "nothing_owed m" using p by (simp add: nothing_owed_def)
  note fl = step_run_flow [OF bs(1) r(1) bs(2)]
  show ?thesis
  proof (rule nth_equalityI)
    show "length (sys_position m) = length (pl_position (pl m))"
      using fl [of 0] bs(3) by (simp add: plan_ok_def flow_ok_def axes_complete_def)
    fix idx
    assume "idx < length (sys_position m)"
    then have idx: "idx < N_AXIS" using fl [of 0] by (simp add: flow_ok_def axes_complete_def)
    have "sys_position m ! idx = sys_position m0 ! idx + sum_list (map (displacement idx) bs)"
      using flow_nothing_owed fl [OF idx] n bs(2) by blast
    moreover have "pl_position (pl m) ! idx = sys_position m0 ! idx + sum_list (map (displacement idx) bs)"
      using bs(4) idx p(1) c r(2) by (simp add: ahead_by_def blocks_waiting_def)
    ultimately show "sys_position m ! idx = pl_position (pl m) ! idx" by simp
  qed
qed

text \<open>Start-up and reset prepare a run.\<close>

lemma ring_view_reset: "ring_view (st_reset m) = ring_view m"
proof -
  have "ring_view (fold (\<lambda>idx m.
       let m = (if bit_istrue (step_invert_mask (settings m)) (push_bit idx 1)
                then m\<lparr>step_port_invert_mask := step_port_invert_mask m OR get_step_pin_mask idx\<rparr> else m)
       in if bit_istrue (dir_invert_mask (settings m)) (push_bit idx 1)
          then m\<lparr>dir_port_invert_mask := dir_port_invert_mask m OR get_direction_pin_mask idx\<rparr> else m)
       is k) = ring_view k" for "is" k
    by (induction "is" arbitrary: k) (simp_all add: ring_view_def Let_def)
  then have "ring_view (st_generate_step_dir_invert_masks k) = ring_view k" for k
    unfolding st_generate_step_dir_invert_masks_def by (simp add: ring_view_def)
  then show ?thesis
    by (simp add: st_reset_def Let_def ring_view_def st_go_idle_def spi_write32_def report_def set_steppers_disable_def)
qed

lemma reset_starts_motion:
  assumes "length (segment_buffer m) = SEGMENT_BUFFER_SIZE" "length (st_block_buffer m) = SEGMENT_BUFFER_SIZE - 1"
    "length (sys_position m) = N_AXIS" "length (block_buffer m) = BLOCK_BUFFER_SIZE"
  shows "motion_start (plan_sync_position (st_reset (plan_reset m)))"
proof -
  let ?k = "st_reset (plan_reset m)"
  have "at_rest ?k" using assms by (intro st_reset_at_rest) (simp_all add: plan_reset_def plan_reset_buffer_def)
  then have r: "at_rest (plan_sync_position ?k)"
    by (simp add: at_rest_def plan_sync_position_def seg_wf_def segments_def cutting_def axes_complete_def)
  have v: "block_buffer ?k = block_buffer (plan_reset m)" "block_buffer_head ?k = 0" "block_buffer_tail ?k = 0"
    "next_buffer_head ?k = 1" "block_buffer_planned ?k = 0"
    using ring_view_reset [of "plan_reset m"] by (simp_all add: ring_view_def plan_reset_def plan_reset_buffer_def)
  have "plan_wf (plan_reset_buffer (m\<lparr>pl := planner0\<rparr>))" using assms(4) by (intro plan_wf_reset) simp
  then have "plan_wf (plan_sync_position ?k)"
    using v by (simp add: plan_wf_def plan_sync_position_def plan_reset_def plan_reset_buffer_def)
  then show ?thesis using r v by (simp add: motion_start_def plan_sync_position_def plan_get_current_block_def)
qed

section \<open>What the rest of the program does in a run\<close>

lemma run_replan: "motion_run m0 m \<Longrightarrow> replan m m' \<Longrightarrow> (plan_wf m \<Longrightarrow> plan_wf m') \<Longrightarrow> motion_run m0 m'"
  unfolding replan_def using motion_run.other by blast

lemma run_reinitialize:
  assumes "motion_run m0 m" "plan_wf m" "block_buffer_head m \<noteq> block_buffer_tail m"
  shows "motion_run m0 (plan_cycle_reinitialize m)"
proof (rule run_replan [OF assms(1) replan_cycle_reinitialize])
  let ?k = "st_update_plan_block_parameters m"
  have f: "block_buffer_tail ?k = block_buffer_tail m" "block_buffer_head ?k = block_buffer_head m"
    using plan_frame_fields [OF plan_frame_st_update [of m]] by simp_all
  have w: "plan_wf ?k" by (rule plan_wf_st_update [OF assms(2)])
  then have r: "in_ring (block_buffer_tail ?k)" "in_ring (block_buffer_head ?k)" by (simp_all add: plan_wf_def)
  have lt: "ahead (block_buffer_tail ?k) (block_buffer_tail ?k) < ahead (block_buffer_tail ?k) (block_buffer_head ?k)"
    using r f assms(3) ahead_0_iff [OF r(2,1)] by simp
  have "plan_wf (?k\<lparr>block_buffer_planned := block_buffer_tail ?k\<rparr>)"
    by (rule plan_wf_planned [OF w plan_frame_planned _ r(1) lt]) simp
  then have "plan_wf (planner_recalculate (?k\<lparr>block_buffer_planned := block_buffer_tail ?k\<rparr>))"
    using f assms(3) by (intro plan_wf_recalculate) simp_all
  then show "plan_wf (plan_cycle_reinitialize m)" by (simp add: plan_cycle_reinitialize_def Let_def)
qed

lemma run_aside:
  assumes "motion_run m0 m"
  shows "motion_run m0 (TIMER0_OVF_vect m)" "motion_run m0 (st_wake_up m)" "motion_run m0 (system_set_exec_state_flag k m)"
    "motion_run m0 (set_step_control c m)" "motion_run m0 (set_state s m)"
proof -
  have r: "motion_run m0 m'" if "step_view m' = step_view m" "busy m' = busy m" "plan_view m' = plan_view m" for m'
    using that by (intro motion_run.other [OF assms])
      (simp_all add: elsewhere_def holds_block_def plan_kept_def plan_view_def plan_wf_def)
  show "motion_run m0 (TIMER0_OVF_vect m)" "motion_run m0 (st_wake_up m)" "motion_run m0 (system_set_exec_state_flag k m)"
    "motion_run m0 (set_step_control c m)" "motion_run m0 (set_state s m)"
    by (rule r; simp add: TIMER0_OVF_vect_def st_wake_up_def Let_def spi_write32_def report_def set_steppers_disable_def
        system_set_exec_state_flag_def step_view_def plan_view_def)+
qed

text \<open>The generator, called as a whole, is a sequence of rounds of the run.\<close>

lemma run_prep_buffer:
  assumes "motion_run m0 m" "st_prep_buffer m = Some m'"
    and "\<And>a b. (\<lambda>a b. prep_round a = Some b)\<^sup>*\<^sup>* m a \<Longrightarrow> prep_round a = Some b \<Longrightarrow>
      round_fits a b \<and> sys_step_control (sys a) AND STEP_CONTROL_EXECUTE_SYS_MOTION = 0"
  shows "motion_run m0 m'"
proof (cases "bit_istrue (sys_step_control (sys m)) STEP_CONTROL_END_MOTION")
  case True
  then show ?thesis using assms(1,2) by (simp add: st_prep_buffer_def)
next
  case False
  then have "(\<lambda>a b. prep_round a = Some b)\<^sup>*\<^sup>* m m'" using assms(2) by (intro prep_loop_rounds) (simp add: st_prep_buffer_def)
  then show ?thesis
  proof (induction rule: rtranclp_induct)
    case (step a b)
    then show ?case using assms(3) [OF step.hyps] motion_run.cut by blast
  qed (rule assms(1))
qed

end
