(* ===== verification/Step_Example.thy ===== *)
theory Step_Example
  imports Step_Plan
begin

text \<open>
  A concrete motion, evaluated in the kernel: one step backwards on the first axis, planned, cut
  into one segment and executed by one tick. The settings are powers of two, so that the numbers
  stay short.
\<close>

definition demo_idle :: machine where
  "demo_idle = machine0\<lparr>eeprom := [], serial_rx_buffer := [], settings := settings0\<lparr>steps_per_mm := replicate N_AXIS 0x3F800000,
     max_rate := replicate N_AXIS 0x4B000000, acceleration := replicate N_AXIS 0x53000000\<rparr>\<rparr>"

lemma demo_idle_code [code]: "demo_idle = \<lparr>sys = system0, sys_position = replicate N_AXIS 0,
     sys_probe_position = replicate N_AXIS 0, sys_probe_state = 0, sys_rt_exec_state = 0,
     sys_rt_exec_alarm = 0, sys_rt_exec_motion_override = 0, sys_rt_exec_accessory_override = 0,
     settings = settings0\<lparr>steps_per_mm := replicate N_AXIS 0x3F800000,
     max_rate := replicate N_AXIS 0x4B000000, acceleration := replicate N_AXIS 0x53000000\<rparr>, eeprom = [], eeprom_commits = 0,
     serial_rx_buffer = [],
     serial_rx_buffer_head = replicate CLIENT_COUNT 0,
     serial_rx_buffer_tail = replicate CLIENT_COUNT 0, gc_state = parser_state0,
     block_buffer = replicate BLOCK_BUFFER_SIZE plan_block0, block_buffer_tail = 0,
     block_buffer_head = 0, next_buffer_head = 1, block_buffer_planned = 0, pl = planner0,
     st_block_buffer = replicate (SEGMENT_BUFFER_SIZE - 1) st_block0,
     segment_buffer = replicate SEGMENT_BUFFER_SIZE segment0, segment_buffer_tail = 0,
     segment_buffer_head = 0, segment_next_head = 1, stepper = stepper0, prep = st_prep0,
     pl_block = None, st_prep_block = 0, step_port_invert_mask = 0, dir_port_invert_mask = 0,
     busy = False, timer1_enabled = False, timer1_period = 0, probe_invert_mask = 0,
     pwm_gradient = 0, step_port = 0, direction_port = 0, steppers_disable_port = 0,
     coolant_port = 0, control_port = 0, limit_port = 0, control_port_inputs = 0,
     limit_port_inputs = 0, limit_isr_attached = False, out = [], sched = []\<rparr>"
  by (simp add: demo_idle_def machine0_def)
definition demo_target :: "f32 list" where "demo_target = 0xBF800000 # replicate 7 0"
definition demo_line :: plan_line_data_t where "demo_line = \<lparr>pld_feed_rate = 0x49000000, pld_spindle_speed = 0, pld_condition = PL_COND_FLAG_NO_FEED_OVERRIDE\<rparr>"
definition demo_planned where "demo_planned = snd (plan_buffer_line demo_target demo_line demo_idle)"


lemma isqrt_pow: "isqrt (4 ^ k) = 2 ^ k"
proof (induction k)
  case (Suc k)
  have "(2 * 2 ^ k + 1) * (2 * 2 ^ k + 1) = (4 :: nat) ^ Suc k + 4 * 2 ^ k + 1"
    by (simp add: algebra_simps flip: power_mult_distrib)
  then show ?case using Suc by (subst isqrt.simps) (simp add: Let_def)
qed (simp add: isqrt.simps)

lemma f32_sqrt_one: "f32_sqrt 0x3F800000 = 0x3F800000"
proof -
  have "f32_dec 0x3F800000 = (False, Fin 1)" by code_simp
  moreover have "sqrt_frac 1 = 1"
  proof -
    have "bitlen 1 = 1" by code_simp
    then have "nat (60 + bitlen 1) = 61" "quotient_of 1 = (1, 1)" by simp_all
    then show ?thesis using isqrt_pow [of 61] by (simp add: sqrt_frac_def Let_def)
  qed
  moreover have "f32_enc (False, Fin 1) = 0x3F800000" by code_simp
  ultimately show ?thesis by (simp only: f32_sqrt_def fpd_sqrt.simps) simp
qed

lemma demo_unit_vector: "convert_delta_vector_to_unit_vector [0xBF800000, 0, 0, 0, 0, 0, 0, 0] = (0x3F800000, [0xBF800000, 0, 0, 0, 0, 0, 0, 0])"
proof -
  have "fold (\<lambda>v acc. if f32_eq v 0 then acc else f32_add acc (f32_mul v v)) [0xBF800000, 0, 0, 0, 0, 0, 0, 0] 0 = 0x3F800000" by code_simp
  moreover have "map (\<lambda>v. f32_mul v (f32_of_f64 (f64_div (f64_of_rat 1) (f64_of_f32 0x3F800000)))) [0xBF800000, 0, 0, 0, 0, 0, 0, 0] = [0xBF800000, 0, 0, 0, 0, 0, 0, 0]"
    by code_simp
  ultimately show ?thesis by (simp only: convert_delta_vector_to_unit_vector_def Let_def f32_sqrt_one)
qed
definition demo_steps :: plan_block_t where "demo_steps = plan_block0\<lparr>pb_steps := [1, 0, 0, 0, 0, 0, 0, 0], pb_step_event_count := 1, pb_direction_bits := 1, pb_condition := 4\<rparr>"
lemma demo_block_steps: "plan_block_steps demo_target demo_line demo_idle = (demo_steps, [- 1, 0, 0, 0, 0, 0, 0, 0], [0xBF800000, 0, 0, 0, 0, 0, 0, 0])"
  by code_simp




lemma demo_limits: "limit_value_by_axis_maximum (replicate 8 0x4B000000) [0xBF800000, 0, 0, 0, 0, 0, 0, 0] = 0x4B000000"
    "limit_value_by_axis_maximum (replicate 8 0x53000000) [0xBF800000, 0, 0, 0, 0, 0, 0, 0] = 0x53000000"
proof -
  have e: "f32_eq 0xBF800000 0 = False" "f32_eq 0 0 = True" by code_simp+
  have q: "f64_abs (f64_of_f32 (f32_div 0x4B000000 0xBF800000)) = f64_of_f32 0x4B000000"
    "f64_abs (f64_of_f32 (f32_div 0x53000000 0xBF800000)) = f64_of_f32 0x53000000"
    "f64_lt (f64_of_f32 0x4B000000) (f64_of_f32 SOME_LARGE_VALUE) = True" "f64_lt (f64_of_f32 0x53000000) (f64_of_f32 SOME_LARGE_VALUE) = True"
    "f32_of_f64 (f64_of_f32 0x4B000000) = 0x4B000000" "f32_of_f64 (f64_of_f32 0x53000000) = 0x53000000"
    by code_simp+
  have r: "replicate 8 x = [x, x, x, x, x, x, x, x]" for x :: f32 by (simp add: numeral_eq_Suc)
  show "limit_value_by_axis_maximum (replicate 8 0x4B000000) [0xBF800000, 0, 0, 0, 0, 0, 0, 0] = 0x4B000000"
    "limit_value_by_axis_maximum (replicate 8 0x53000000) [0xBF800000, 0, 0, 0, 0, 0, 0, 0] = 0x53000000"
    by (simp_all add: limit_value_by_axis_maximum_def r e q Let_def)
qed

definition demo_block :: plan_block_t where "demo_block = demo_steps\<lparr>pb_acceleration := 0x53000000, pb_millimeters := 0x3F800000, pb_rapid_rate := 0x4B000000, pb_programmed_rate := 0x49000000\<rparr>"

lemma demo_block_limits: "plan_block_limits demo_line [0xBF800000, 0, 0, 0, 0, 0, 0, 0] demo_idle demo_steps = (demo_block, [0xBF800000, 0, 0, 0, 0, 0, 0, 0])"
  by (simp add: plan_block_limits_def demo_unit_vector demo_limits demo_steps_def demo_block_def demo_idle_def demo_line_def Let_def plan_block0_def)
lemma demo_parameters: "plan_compute_profile_parameters (plan_compute_profile_nominal_speed demo_block demo_idle) (pl_previous_nominal_speed (pl demo_idle)) demo_block = demo_block" by code_simp
lemma demo_nominal_speed: "plan_compute_profile_nominal_speed demo_block demo_idle = 0x49000000" by code_simp

lemma demo_idle_fields: "pl demo_idle = planner0" "block_buffer demo_idle = replicate 16 plan_block0" "block_buffer_head demo_idle = 0"
  "block_buffer_tail demo_idle = 0" "block_buffer_planned demo_idle = 0"
  by (simp_all add: demo_idle_def)

declare demo_planned_def [code del]

lemma demo_planned_code [code]: "demo_planned = demo_idle\<lparr>pl := \<lparr>pl_position = [- 1, 0, 0, 0, 0, 0, 0, 0], pl_previous_unit_vec = [0xBF800000, 0, 0, 0, 0, 0, 0, 0],
    pl_previous_nominal_speed = 0x49000000\<rparr>, block_buffer := demo_block # replicate 15 plan_block0, block_buffer_head := 1, next_buffer_head := 2\<rparr>"
proof -
  have n: "pb_step_event_count demo_steps = 1" "pb_condition demo_block = 4" by (simp_all add: demo_steps_def demo_block_def)
  have p: "plan_compute_profile_parameters 0x49000000 0 demo_block = demo_block"
    using demo_parameters unfolding demo_nominal_speed demo_idle_fields by (simp add: planner0_def)
  have i: "plan_next_block_index 1 = 2" "plan_prev_block_index 1 = 0" by code_simp+
  have f: "next_buffer_head demo_idle = 1" by (simp add: demo_idle_def)
  have "replicate 16 plan_block0 = plan_block0 # replicate 15 plan_block0" by (simp add: numeral_eq_Suc)
  then have l: "(replicate 16 plan_block0)[0 := x] = x # replicate 15 plan_block0" for x by (simp only: list_update_code)
  have z: "unat (0 :: u8) = 0" by simp
  have "plan_buffer_line demo_target demo_line demo_idle = (True, demo_idle\<lparr>pl := \<lparr>pl_position = [- 1, 0, 0, 0, 0, 0, 0, 0], pl_previous_unit_vec = [0xBF800000, 0, 0, 0, 0, 0, 0, 0],
    pl_previous_nominal_speed = 0x49000000\<rparr>, block_buffer := demo_block # replicate 15 plan_block0, block_buffer_head := 1, next_buffer_head := 2\<rparr>)"
    by (simp add: plan_buffer_line_def demo_block_steps demo_block_limits demo_nominal_speed p n Let_def plan_push_block_def planner_recalculate_def set_block_def i f l demo_idle_fields
      planner0_def)
  then show ?thesis by (simp add: demo_planned_def)
qed




definition demo_ramp :: st_prep_t where
  "demo_ramp = st_prep0\<lparr>prep_st_block_index := 1, prep_steps_remaining := 0x3F800000, prep_step_per_mm := 0x3F800000,
     prep_req_mm_increment := 0x3FA00000, prep_maximum_speed := 0x49000000, prep_accelerate_until := 0x3F400000,
     prep_decelerate_after := 0x3E800000\<rparr>"

definition demo_fetched :: machine where
  "demo_fetched = demo_planned\<lparr>pl_block := Some 0, st_prep_block := 1, prep := demo_ramp, sys := (sys demo_planned)\<lparr>sys_step_control := 8\<rparr>,
     st_block_buffer := [st_block0, \<lparr>sb_steps = [8, 0, 0, 0, 0, 0, 0, 0], sb_step_event_count = 8,
         sb_direction_bits = 1, sb_is_pwm_rate_adjusted = False\<rparr>, st_block0, st_block0, st_block0]\<rparr>"

lemma demo_fetch: "st_fetch_block demo_planned = (demo_fetched, Some 0)" by code_simp

lemma demo_dt_segment: "f32_of_f64 DT_SEGMENT = 0x392EC33E" by code_simp


lemma ramp_float0: "f32_lt (flt (f64_sub (dbl 0x3F800000) (f64_mul (dbl 0x392EC33E) (f64_add (dbl 0) (f64_mul (lit (1 / 2)) (dbl (f32_mul 0x53000000 0x392EC33E))))))) 0x3F400000"
  by code_simp
lemma ramp_float1: "flt (f64_div (f64_mul (lit 2) (dbl (f32_sub 0x3F800000 0x3F400000))) (dbl (f32_add 0 0x49000000))) = 0x35800000"
  by code_simp
lemma ramp_float2: "\<not> f32_eq 0x3F400000 0x3E800000"
  by code_simp
lemma ramp_float3: "f32_add 0 0x35800000 = 0x35800000"
  by code_simp
lemma ramp_float4: "f32_lt 0x35800000 0x392EC33E"
  by code_simp
lemma ramp_float5: "f32_lt 0 0x3F400000"
  by code_simp
lemma ramp_float6: "f32_sub 0x392EC33E 0x35800000 = 0x392DC33E"
  by code_simp
lemma ramp_float7: "f32_lt (f32_sub 0x3F400000 (f32_mul 0x49000000 0x392DC33E)) 0x3E800000"
  by code_simp
lemma ramp_float8: "f32_div (f32_sub 0x3F400000 0x3E800000) 0x49000000 = 0x35800000"
  by code_simp
lemma ramp_float9: "f32_add 0x35800000 0x35800000 = 0x36000000"
  by code_simp
lemma ramp_float10: "f32_lt 0x36000000 0x392EC33E"
  by code_simp
lemma ramp_float11: "f32_lt 0 0x3E800000"
  by code_simp
lemma ramp_float12: "f32_sub 0x392EC33E 0x36000000 = 0x392CC33E"
  by code_simp
lemma ramp_float13: "\<not> f32_lt (f32_mul 0x53000000 0x392CC33E) 0x49000000"
  by code_simp
lemma ramp_float14: "flt (f64_div (f64_mul (lit 2) (dbl (f32_sub 0x3E800000 0))) (dbl (f32_add 0x49000000 0))) = 0x35800000"
  by code_simp
lemma ramp_float15: "f32_add 0x36000000 0x35800000 = 0x36400000"
  by code_simp
lemma ramp_float16: "f32_lt 0x36400000 0x392EC33E"
  by code_simp
lemma ramp_float17: "\<not> f32_lt 0 0"
  by code_simp

lemmas ramp_float = ramp_float0 ramp_float1 ramp_float2 ramp_float3 ramp_float4 ramp_float5 ramp_float6 ramp_float7 ramp_float8 ramp_float9 ramp_float10 ramp_float11 ramp_float12 ramp_float13 ramp_float14 ramp_float15 ramp_float16 ramp_float17

lemma demo_ramp_accel: "ramp_step 0x53000000 0x3F800000 demo_ramp 0x392EC33E 0x3F800000 =
    (demo_ramp\<lparr>prep_ramp_type := 1, prep_current_speed := 0x49000000\<rparr>, 0x35800000, 0x3F400000)"
  by (simp add: ramp_step_def Let_def demo_ramp_def st_prep0_def ramp_float)
lemma demo_ramp_cruise: "ramp_step 0x53000000 0x3F800000 (demo_ramp\<lparr>prep_ramp_type := 1, prep_current_speed := 0x49000000\<rparr>) 0x392DC33E 0x3F400000 =
    (demo_ramp\<lparr>prep_ramp_type := 2, prep_current_speed := 0x49000000\<rparr>, 0x35800000, 0x3E800000)"
  by (simp add: ramp_step_def Let_def demo_ramp_def st_prep0_def ramp_float)
lemma demo_ramp_decel: "ramp_step 0x53000000 0x3F800000 (demo_ramp\<lparr>prep_ramp_type := 2, prep_current_speed := 0x49000000\<rparr>) 0x392CC33E 0x3E800000 =
    (demo_ramp\<lparr>prep_ramp_type := 2, prep_current_speed := 0\<rparr>, 0x35800000, 0)"
  by (simp add: ramp_step_def Let_def demo_ramp_def st_prep0_def ramp_float)
lemma demo_ramp_loop: "ramp_loop 0x53000000 0x3F800000 lo demo_ramp 0x392EC33E 0 0x392EC33E 0x3F800000 = Some (demo_ramp\<lparr>prep_ramp_type := 2, prep_current_speed := 0\<rparr>, 0x36400000, 0)"
proof -
  have c: "prep_mm_complete (demo_ramp\<lparr>prep_ramp_type := x, prep_current_speed := y\<rparr>) = 0" for x y by (simp add: demo_ramp_def st_prep0_def)
  show ?thesis
    apply (subst ramp_loop.simps, simp add: demo_ramp_accel c ramp_float)
    apply (subst ramp_loop.simps, simp add: demo_ramp_cruise c ramp_float)
    apply (subst ramp_loop.simps, simp add: demo_ramp_decel c ramp_float)
    done
qed

definition demo_filling :: machine where
  "demo_filling = (upd_segment (\<lambda>s. s\<lparr>seg_st_block_index := 1\<rparr>) demo_fetched)\<lparr>prep := demo_ramp\<lparr>prep_ramp_type := 2, prep_current_speed := 0\<rparr>\<rparr>"

definition demo_cut :: machine where
  "demo_cut = demo_filling\<lparr>segment_buffer := \<lparr>seg_n_step = 1, seg_cycles_per_tick = 859, seg_st_block_index = 1, seg_amass_level = 0, seg_spindle_pwm = 0\<rparr>
       # replicate 5 segment0, segment_buffer_head := 1, segment_next_head := 2, prep := (prep demo_filling)\<lparr>prep_steps_remaining := 0\<rparr>,
     sys := (sys demo_filling)\<lparr>sys_step_control := 0\<rparr>, block_buffer := demo_block\<lparr>pb_millimeters := 0\<rparr> # replicate 15 plan_block0, pl_block := None,
     block_buffer_tail := 1, block_buffer_planned := 1\<rparr>"

lemma demo_emit: "st_emit_segment 0 0x36400000 0 demo_filling = (True, demo_cut)" by code_simp

lemma demo_ticked_segments: "segments (TIMER1_COMPA_vect demo_cut) = []" by code_simp
lemma demo_ticked_plan: "plan_get_current_block (TIMER1_COMPA_vect demo_cut) = None" by code_simp
lemma demo_ticked_position: "sys_position (TIMER1_COMPA_vect demo_cut) = [- 1, 0, 0, 0, 0, 0, 0, 0]" by code_simp
lemma demo_steps_left: "steps_left demo_cut = 0" "steps_left demo_fetched = 1" by code_simp+

text \<open>The round of the generator, and the run.\<close>

lemma demo_round: "prep_round demo_planned = Some demo_cut"
proof -
  have full: "segment_buffer_tail demo_planned \<noteq> segment_next_head demo_planned" by code_simp
  have k: "upd_segment (\<lambda>s. s\<lparr>seg_st_block_index := prep_st_block_index (prep demo_fetched)\<rparr>) demo_fetched =
      upd_segment (\<lambda>s. s\<lparr>seg_st_block_index := 1\<rparr>) demo_fetched"
    by (simp add: demo_fetched_def demo_ramp_def)
  let ?k = "upd_segment (\<lambda>s. s\<lparr>seg_st_block_index := 1\<rparr>) demo_fetched"
  have b: "block_at ?k 0 = demo_block" "prep ?k = demo_ramp" by code_simp+
  have p: "pb_acceleration demo_block = 0x53000000" "pb_millimeters demo_block = 0x3F800000" by code_simp+
  have "st_make_segment 0 demo_fetched = Some (True, demo_cut)"
    unfolding st_make_segment_def Let_def k b p demo_dt_segment demo_ramp_loop
    using demo_emit by (simp add: demo_filling_def)
  then show ?thesis using full by (simp add: prep_round_def demo_fetch)
qed

lemma demo_rest: "at_rest demo_idle"
  by (simp add: at_rest_def demo_idle_def seg_wf_def segments_def ring_contents_def ring_len_def cutting_def axes_complete_def
      stepper0_def st_prep0_def ring_next_def)

lemma demo_plan_wf: "plan_wf demo_idle"
  by (simp add: plan_wf_def demo_idle_def plan_next_block_index_def ring_next_def)

end
