(* ===== verification/Step_Properties.thy ===== *)
theory Step_Properties
  imports Step_Example
begin

lemma demo_fits: "round_fits demo_planned demo_cut"
  unfolding round_fits_def demo_fetch fst_conv demo_steps_left by simp

lemma demo_loaded: "loaded_block demo_planned = [demo_block]"
  by (simp add: loaded_block_def cutting_def demo_planned_code demo_idle_def system0_def st_prep0_def plan_get_current_block_def block_at_def)

lemma demo_not_cutting: "\<not> cutting demo_cut"
  by (simp add: cutting_def demo_cut_def demo_filling_def demo_ramp_def st_prep0_def)

text \<open>
  The properties of motion as a whole, which span the planner, the segment generator and the step
  interrupt.
\<close>

text \<open>C1. However the timer interrupt, the rounds of the segment generator, new lines, replans and
  the rest of the program are interleaved, when no block and no segment is left the machine stands
  exactly at the position the planner was sent to, on every axis: no step is lost, added or executed
  with the data of another block. Lines go through the queue (system motions do not), their step
  counts are below \<open>2 ^ 24\<close>, and every segment written takes at least one step and fewer than
  \<open>2 ^ 13\<close> (\<open>round_fits\<close>).\<close>

theorem motion_arrives:
  assumes "motion_start m0" "motion_run m0 m" "motion_done m"
  shows "sys_position m = pl_position (pl m)"
  by (rule motion_positions [OF assms])

lemma motion_arrives_witness:
  "sys_position (TIMER1_COMPA_vect demo_cut) = pl_position (pl (TIMER1_COMPA_vect demo_cut))
   \<and> sys_position (TIMER1_COMPA_vect demo_cut) = [- 1, 0, 0, 0, 0, 0, 0, 0]"
proof -
  have start: "motion_start demo_idle"
    using demo_rest demo_plan_wf by (simp add: motion_start_def plan_get_current_block_def demo_idle_def planner0_def)
  have free: "\<not> plan_check_full_buffer demo_idle" "line_fits demo_target demo_idle" by code_simp+
  have line: "motion_run demo_idle demo_planned"
    unfolding demo_planned_def by (rule motion_run.line [OF motion_run.start free]) (simp add: demo_line_def)
  have "sys_step_control (sys demo_planned) AND STEP_CONTROL_EXECUTE_SYS_MOTION = 0"
    by (simp add: demo_planned_code demo_idle_def system0_def)
  then have "motion_run demo_idle (TIMER1_COMPA_vect demo_cut)"
    by (rule motion_run.tick [OF motion_run.cut [OF line demo_round demo_fits]])
  moreover have "motion_done (TIMER1_COMPA_vect demo_cut)"
    by (simp add: motion_done_def demo_ticked_segments demo_ticked_plan)
  ultimately have "sys_position (TIMER1_COMPA_vect demo_cut) = pl_position (pl (TIMER1_COMPA_vect demo_cut))"
    by (rule motion_arrives [OF start])
  then show ?thesis using demo_ticked_position by simp
qed

text \<open>C4. The blocks the generator has loaded are executed exactly: in every run from rest that ends
  with nothing owed, each axis has moved by the sum of the steps of the loaded blocks, each in its
  direction, in 32-bit arithmetic. System motions are included.\<close>

theorem every_step_issued:
  assumes "at_rest m0" "step_run m0 bs m" "\<forall>b\<in>set bs. executable_block b" "nothing_owed m" "idx < N_AXIS"
  shows "sys_position m ! idx = sys_position m0 ! idx + sum_list (map (displacement idx) bs)"
  using step_run_flow [OF assms(2,1,3,5)] assms(3,4) by (intro flow_nothing_owed) simp_all

lemma every_step_issued_witness:
  "sys_position (TIMER1_COMPA_vect demo_cut) ! 0 = sys_position demo_idle ! 0 + sum_list (map (displacement 0) [demo_block])"
proof -
  have "elsewhere demo_idle demo_planned"
    by (simp add: demo_planned_code elsewhere_def step_view_def holds_block_def)
  then have "step_run demo_idle [] demo_planned" by (rule step_run.other [OF step_run.start])
  from step_run.tick [OF step_run.cut [OF this demo_round demo_fits]]
  have run: "step_run demo_idle [demo_block] (TIMER1_COMPA_vect demo_cut)"
    by (simp add: demo_loaded)
  have b: "\<forall>b\<in>set [demo_block]. executable_block b"
    by (simp add: executable_block_def demo_block_def demo_steps_def)
  have "nothing_owed (TIMER1_COMPA_vect demo_cut)" by (simp add: nothing_owed_def demo_ticked_segments timer1_plan(3) demo_not_cutting)
  then show ?thesis by (intro every_step_issued [OF demo_rest run b]) simp_all
qed

text \<open>C40. The interrupt alone drains the segment buffer: from any state in which the segments have
  steps, it takes exactly as many ticks as the segments count, and not one fewer.\<close>

theorem ticks_drain_segments:
  assumes "can_tick m" "k \<le> ticks_left m"
  shows "segments ((TIMER1_COMPA_vect ^^ k) m) = [] \<longleftrightarrow> k = ticks_left m"
  by (rule segments_drain [OF assms])

lemma ticks_drain_segments_witness: "segments ((TIMER1_COMPA_vect ^^ 1) demo_cut) = []"
proof -
  have s: "segments demo_cut = [segment0\<lparr>seg_n_step := 1, seg_cycles_per_tick := 859, seg_st_block_index := 1\<rparr>]"
    by code_simp
  have x: "st_exec_segment (stepper demo_cut) = None" "\<not> busy demo_cut" "seg_wf demo_cut" by code_simp+
  have "can_tick demo_cut" using s x by (simp add: can_tick_def)
  moreover have "ticks_left demo_cut = 1" using s x by (simp add: ticks_left_def)
  ultimately show ?thesis using ticks_drain_segments [of demo_cut 1] by simp
qed

end
