(* ===== verification/Spec2Isabelle.thy ===== *)
theory Spec2Isabelle
  imports Planner_Facts Realtime_Properties Settings_Properties Machine_Properties Output_Properties Step_Properties
begin

text \<open>
  A verification development of Grbl 1.1g as ported to the ESP8266 with eight axes. The firmware
  reads lines of g-code and \<open>$\<close> commands from a serial port, a websocket and a telnet client, plans
  the motions with a look-ahead, and steps the motors from two timer interrupts; a realtime executor
  serves holds, resets, overrides and alarms between all of this. The sources are in
  \<^verbatim>\<open>src/lib/grbl/src\<close> (and \<^verbatim>\<open>src/src/main.cpp\<close>); file names below are relative to it. The model is
  that of the configuration which is built: \<^verbatim>\<open>config.hpp\<close> and the generic part of \<^verbatim>\<open>defaults.hpp\<close>.

  \<^bold>\<open>How the parts interact.\<close> The main loop (\<^verbatim>\<open>protocol_main_loop\<close>) filters the characters of a client
  into a line and hands it to \<^verbatim>\<open>system_execute_line\<close> or \<^verbatim>\<open>gc_execute_line\<close>. The parser calls the motion
  primitives of \<^verbatim>\<open>motion_control.cpp\<close>, these queue blocks in the planner's ring, the segment generator
  cuts the block at the tail into segments, and the stepper interrupt executes the segments. Interrupts
  and the network only set flags (\<^verbatim>\<open>sys_rt_exec_*\<close>) and fill receive rings; the executor
  (\<^verbatim>\<open>protocol_execute_realtime\<close>), which every wait of the main program calls, turns flags into
  changes of \<^verbatim>\<open>sys.state\<close>.

  \<^bold>\<open>The model.\<close> All global variables of the program, the registers of the drivers, the reports sent and
  the interrupts to come are one record \<open>machine\<close> (theory \<open>Machine\<close>), with a record for each
  \<^verbatim>\<open>struct\<close>. An operation is a function on it. A \<^verbatim>\<open>uint8_t\<close> is an 8-bit word, so indices and counters
  wrap as they do in the code; a \<^verbatim>\<open>float\<close> is its IEEE bit pattern, with rounding, NaN and signed
  zeros. A pointer into a static array is an index, so what the planner, the segment generator and the
  interrupt share stays shared. An operation that waits, or may write behind an array, has an
  option as its result.

  \<^enum> \<open>Prelude\<close>: the types and bit macros. \<open>Constants\<close>: the \<^verbatim>\<open>#define\<close>s of the headers.
    \<open>Floats\<close>, \<open>Float_Order\<close>, \<open>Float_Int\<close>: \<^verbatim>\<open>float\<close> and \<^verbatim>\<open>double\<close>, their order without NaN, the integers
    they hold exactly.
    \<open>Machine\<close>: the structs and the state.
  \<^enum> \<open>Ring_Buffer\<close>: the interface of the rotating buffers.
    \<open>Eeprom\<close>: \<^verbatim>\<open>eeprom.cpp\<close>. \<open>Ports\<close>: \<^verbatim>\<open>spindle_control.cpp\<close>, \<^verbatim>\<open>coolant_control.cpp\<close>, \<^verbatim>\<open>probe.cpp\<close>.
    \<open>Nuts_Bolts\<close>: \<^verbatim>\<open>nuts_bolts.cpp\<close>, the number reader and the vectors.
  \<^enum> \<open>Planner\<close>: \<^verbatim>\<open>planner.cpp\<close>. \<open>Stepper\<close>: \<^verbatim>\<open>stepper.cpp\<close>, the interrupts and the segment generator.
  \<^enum> \<open>Interrupts\<close>: \<^verbatim>\<open>serial.cpp\<close> (receive rings and realtime characters), the pin interrupts of
    \<^verbatim>\<open>limits.cpp\<close> and \<^verbatim>\<open>system.cpp\<close>, \<^verbatim>\<open>mc_reset\<close>. \<open>Net_Buffers\<close>: \<^verbatim>\<open>serial2socket.cpp\<close>, \<^verbatim>\<open>websocket.cpp\<close>,
    \<^verbatim>\<open>telnet_server.cpp\<close>, \<^verbatim>\<open>wifi.cpp\<close> and the poll of the three sources.
  \<^enum> \<open>Protocol_RT\<close>: the executor, the suspend loop and the waits of \<^verbatim>\<open>protocol.cpp\<close>.
  \<^enum> \<open>Settings\<close>: \<^verbatim>\<open>settings.cpp\<close>. \<open>Motion\<close>: \<^verbatim>\<open>motion_control.cpp\<close>, \<^verbatim>\<open>jog.cpp\<close> and the homing cycle of
    \<^verbatim>\<open>limits.cpp\<close>.
  \<^enum> \<open>Gcode_Parse\<close>, \<open>Gcode_Check\<close>, \<open>Gcode_Exec\<close>: the four steps of \<^verbatim>\<open>gc_execute_line\<close> (\<^verbatim>\<open>gcode.cpp\<close>).
    \<open>System_Exec\<close>: the \<open>$\<close> commands of \<^verbatim>\<open>system.cpp\<close>. \<open>Main_Loop\<close>: \<^verbatim>\<open>protocol_main_loop\<close> and \<^verbatim>\<open>main.cpp\<close>.
  \<^enum> \<open>Print\<close>: \<^verbatim>\<open>print.cpp\<close> and \<^verbatim>\<open>serial_write\<close>. \<open>Report_Text\<close>: \<^verbatim>\<open>report.cpp\<close>; the other theories record
    which report is made (type \<open>outmsg\<close>), and this one gives its text.

  \<^bold>\<open>What is proved.\<close> A theory \<open>X_Facts\<close> has the lemmas on \<open>X\<close>; the theories \<open>X_Properties\<close>, and this one,
  hold the properties, numbered C1 to C40 in the order of importance.

  \<^item> \<open>Planner_Facts\<close>: the block buffer is a bounded queue; the passes of the planner stay in the ring;
    after a replan no waiting block enters faster than its limit.
  \<^item> \<open>Stepper_Facts\<close>: the segment buffer is a bounded queue; the Bresenham counters carry exactly
    the steps not made, so a block whose segments add up to its event count makes exactly its steps.
  \<^item> \<open>Step_Flow\<close>, \<open>Step_Cut\<close>, \<open>Step_Plan\<close>: planner, segment generator and step interrupt together. In a
    run (\<open>step_run\<close>, \<open>motion_run\<close>) ticks of the interrupt, rounds of the generator, new lines and the
    rest of the program (anything that leaves the data of the stepper and the generator alone, such as
    a replan) come in any order. The invariant \<open>flow\<close> says where each step of a loaded
    block is: executed, in a segment, or not cut yet; so the machine arrives where the planner was sent
    (\<open>Step_Properties\<close>). \<open>Step_Example\<close> evaluates such a run, a motion of one step.
  \<^item> \<open>Interrupts_Facts\<close>, \<open>Net_Facts\<close>: the receive buffers are queues, realtime characters never enter
    them, no byte is reordered, a reset is sticky.
  \<^item> \<open>Protocol_Facts\<close>, \<open>Realtime_Facts\<close>, \<open>Realtime_Frame\<close>: every flag is served, motion starts only on a
    request, a limit alarm ends in a reset; what a wait may change, whatever arrives meanwhile.
  \<^item> \<open>Settings_Facts\<close>: records written to the store read back; which blocks of it are disjoint.
  \<^item> \<open>Motion_Facts\<close>, \<open>Gcode_Facts\<close>, \<open>Main_Facts\<close>: reading a line is splitting it into words and
    interpreting them; a refused line has no effect; the line filter keeps what a description by
    strings says; motions outside the limits alarm.
  \<^item> \<open>Gcode_Invariant\<close>, \<open>Main_Invariant\<close>: the modes of the parser, its vectors and the settings keep
    their ranges (\<open>prog_ok\<close>) through everything the main program does. \<open>Machine_Wf\<close>, \<open>Program_Wf\<close>: so
    do the rings, the indices kept across components and the state (\<open>machine_wf\<close>), by a small
    calculus of rules for functions that return an option.
  \<^item> \<open>State_Machine\<close>: the executor refines an abstract machine of nine modes; both invariants hold
    in every machine reachable from power-on by lines, calls and interrupts in any order.
  \<^item> \<open>Report_Facts\<close>: formatted numbers read back; which reports fit the arrays they are built in.

  \<^bold>\<open>Interfaces.\<close> \<open>byte_store\<close> (what \<^verbatim>\<open>eeprom.cpp\<close> needs of the EEPROM library) is interpreted on the
  array of the machine, \<open>ring_buffer\<close> on the receive, block and segment buffers, and \<open>net_queue\<close> on the
  buffers of the telnet server and of the websocket.

  \<^bold>\<open>Time, loops and bounds.\<close> Interrupts are served where the main program polls: each poll takes the
  next entry of the list \<open>sched\<close>, which the theorems leave arbitrary; a poll of an exhausted list is a
  wait for something that never comes, and the result is \<open>None\<close>. The waits, the suspend loop, the
  segment generator and the main loop are \<open>partial_function (option)\<close>: \<open>None\<close> also stands for not
  ending. What they guarantee is stated of how they end. Loops that end are shown to: the passes of the planner run with \<open>BLOCK_BUFFER_SIZE\<close> rounds, and
  \<open>planner_passes_end\<close> shows that more rounds change nothing; the words of a line are bounded by its
  length; the interrupt drains the segment buffer in as many ticks as its segments count. In the texts of the reports, \<open>None\<close> is a text that does not fit its array.

  The step counts of the runs are below \<open>2 ^ 24\<close>, the integers a \<^verbatim>\<open>float\<close> holds exactly, and a segment has at
  least one and less than \<open>2 ^ 13\<close> steps (\<open>round_fits\<close>): \<^verbatim>\<open>n_step\<close> is computed in \<^verbatim>\<open>float\<close> from lengths in
  mm, converted to \<^verbatim>\<open>uint16_t\<close> and shifted by up to three bits, so the conversion and the shift are
  defined and exact only then. That each segment meets it is a matter of the settings (rates and
  steps per mm) and of rounding, and is a condition of the theorems.

  \<^bold>\<open>Parameters.\<close> \<^verbatim>\<open>atan2\<close>, \<^verbatim>\<open>cos\<close> and \<^verbatim>\<open>sin\<close> are a record \<open>libm\<close>; the readings of the UART, of the TCP and
  websocket libraries and of \<^verbatim>\<open>millis\<close> are lists and functions given to \<open>Net_Buffers\<close>. A cast of a
  \<^verbatim>\<open>float\<close> out of the range of the integer type is \<open>undefined\<close>, as it is in C++.

  \<^bold>\<open>Not modelled.\<close> The set-up of the radio and of the UART (\<^verbatim>\<open>wifi_handle\<close>, \<^verbatim>\<open>serial_init\<close>) and the
  busy wait \<^verbatim>\<open>delay_ms\<close> only call the SDK. The defaults of other machines and the options that are off
  (parking, the second coolant, line numbers, the safety door pin, CoreXY, homing of one axis, the
  piecewise linear spindle) are not compiled. The memory \<^verbatim>\<open>grbl_sendf\<close> allocates is taken to be there.
  An interrupt is served between two operations of the main program, not in the middle of one. The
  planned pointer of the planner is on a block of the queue after every operation of
  \<open>planner_ring_invariant\<close>, but this is no invariant of the whole program: a change of an override replans
  without asking whether there is a block, and on an empty buffer the passes go round the whole ring
  (\<open>override_replans_empty_buffer\<close>). \<open>machine_wf\<close> keeps the weaker statement that the pointer is in the ring,
  which is enough for the limits of \<open>planner_entry_speeds_limited\<close>.
\<close>

section \<open>Numbers and the parameter store\<close>

text \<open>C31. On a line that fits the byte-sized index, \<^verbatim>\<open>read_float\<close> fails exactly when no digit
  follows the optional sign (and point); when it succeeds it has moved forward, is still on the
  line, and stopped at a character that is not a digit.\<close>

theorem read_float_spec:
  assumes "length line < 256"
  shows "(read_float line i = None \<longleftrightarrow> \<not> has_number line i)
    \<and> (\<forall>x j. read_float line i = Some (x, j) \<longrightarrow>
         i < j \<and> j \<le> length line \<and> \<not> is_digit (char_at line j))"
  using read_float_None_iff [OF assms] read_float_progress [OF assms] by blast

text \<open>The line \<^verbatim>\<open>X-1\<close>, with its terminator.\<close>

lemma read_float_spec_witness:
  "read_float [88, 45, 49, 0] 1 \<noteq> None \<and> read_float [88, 45, 49, 0] 0 = None"
proof -
  have "length [88, 45, 49, 0 :: u8] < 256" by simp
  note h = read_float_spec [OF this]
  have "has_number [88, 45, 49, 0] 1" "\<not> has_number [88, 45, 49, 0] 0"
    by (simp_all add: has_number_def after_sign_def char_at_def is_digit_def Let_def)
  then show ?thesis using h [of 1] h [of 0] by blast
qed

text \<open>C30. A decimal numeral of at most eight digits, with an optional sign and point, is read to
  its end, and the value is the float nearest to the digits as an integer, scaled by the number
  of digits after the point.\<close>

theorem read_float_decimal:
  assumes "set sg \<subseteq> {43, 45}" "length sg \<le> 1"
    and "\<forall>c\<in>set (ip @ fp). is_digit c" "ip @ fp \<noteq> []" "length ip + length fp \<le> 8"
    and "rest \<noteq> []" "\<not> is_digit (hd rest)" "hd rest \<noteq> 46"
    and "pt = [46] \<or> pt = [] \<and> fp = []"
    and "length (pre @ sg @ ip @ pt @ fp) < 256"
  shows "read_float (pre @ sg @ ip @ pt @ fp @ rest) (length pre) =
    Some (let x = decimal_float (dec_value (digits_of (ip @ fp))) (length fp)
          in if sg = [45] then f32_neg x else x, length (pre @ sg @ ip @ pt @ fp))"
  by (rule read_float_decimal_digits) (use assms in auto)

text \<open>\<^verbatim>\<open>X-12.5\<close>\<close>

lemma read_float_decimal_witness:
  "read_float [88, 45, 49, 50, 46, 53, 0] 1 =
     Some (f32_neg (decimal_float (dec_value (digits_of [49, 50, 53])) 1), 6)"
  using read_float_decimal [of "[45]" "[49, 50]" "[53]" "[0]" "[46]" "[88]"]
  by (simp add: is_digit_def Let_def)

text \<open>C32. A block written with its checksum is read back unchanged and its checksum matches; a
  block that does not overlap it reads as before.\<close>

theorem eeprom_block_roundtrip:
  assumes "a + length bs < length (eeprom m)"
  shows "memcpy_from_eeprom a (length bs) (memcpy_to_eeprom a bs m) = (bs, True)
    \<and> (b + n < a \<or> a + length bs < b \<longrightarrow>
         memcpy_from_eeprom b n (memcpy_to_eeprom a bs m) = memcpy_from_eeprom b n m)"
  using ee.round_trip [OF assms] ee.write_elsewhere by blast

lemma eeprom_block_roundtrip_witness:
  "memcpy_from_eeprom 512 2 (memcpy_to_eeprom 512 [7, 9] machine0) = ([7, 9], True)"
  using eeprom_block_roundtrip [of 512 "[7, 9]" machine0] by (simp add: numeral_2_eq_2)

text \<open>C37. What the checksum distinguishes: of two blocks with the same last byte, only whether
  the checksum of the preceding bytes is zero (the rotation of the running sum is a logical or,
  so it keeps one bit); a change of the last byte alone is always seen.\<close>

theorem checksum_detects:
  "(checksum (xs @ [a]) = checksum (ys @ [a]) \<longleftrightarrow> (checksum xs = 0 \<longleftrightarrow> checksum ys = 0))
   \<and> (checksum (xs @ [a]) = checksum (xs @ [b]) \<longleftrightarrow> a = b)"
  using checksum_snoc_eq_iff checksum_last_byte by blast

section \<open>The planner\<close>



text \<open>C6. Replanning leaves every waiting block (every block of the queue but the one at the tail,
  which may be executing) with an entry speed within its limit, wherever in the ring the planned
  pointer is; the blocks which the reverse pass does not visit must have been within theirs.\<close>

theorem planner_entry_speeds_limited:
  assumes "ready_to_plan m" "waiting m j"
  shows "f32_le (pb_entry_speed_sqr (block_at (planner_recalculate m) j))
           (pb_max_entry_speed_sqr (block_at (planner_recalculate m) j))"
  using junction_ok_recalculate [OF assms] by (simp add: junction_ok_def)

text \<open>Two blocks of which the second is newly queued with a limit of 4 and no speed yet.\<close>

definition two_blocks :: machine where
  "two_blocks = machine0\<lparr>block_buffer := (block_buffer machine0)
     [1 := plan_block0\<lparr>pb_max_entry_speed_sqr := 0x40800000, pb_acceleration := 0x3F800000,
             pb_millimeters := 0x3F800000\<rparr>],
     block_buffer_head := 2, next_buffer_head := 3\<rparr>"

lemma planner_entry_speeds_limited_witness:
  "f32_le (pb_entry_speed_sqr (block_at (planner_recalculate two_blocks) 1))
     (pb_max_entry_speed_sqr (block_at (planner_recalculate two_blocks) 1))"
proof -
  have a: "ahead 0 j = unat j" if "in_ring j" for j
    using that by (simp add: ahead_cases)
  have f: "\<not> f32_nan 0x40800000" "\<not> f32_nan (f32_mul (f32_mul (f32_of_int 2) 0x3F800000) 0x3F800000)"
    by code_simp+
  have i: "block_buffer_tail two_blocks = 0" "block_buffer_head two_blocks = 2" "block_buffer_planned two_blocks = 0"
    by (simp_all add: two_blocks_def)
  have l: "plan_prev_block_index 2 = 1" by (simp add: plan_prev_block_index_def)
  have one: "block_at two_blocks 1 = plan_block0\<lparr>pb_max_entry_speed_sqr := 0x40800000, pb_acceleration := 0x3F800000,
      pb_millimeters := 0x3F800000\<rparr>"
    by (simp add: two_blocks_def block_at_def)
  have w: "waiting two_blocks j \<longleftrightarrow> j = 1" for j
    by (auto simp: waiting_def i a word_unat_eq_iff)
  have "replanned two_blocks 1" by (simp add: replanned_def i l a)
  then have "ready_to_plan two_blocks"
    using f by (simp add: ready_to_plan_def w i l one accel_over_block_def exec_at_tail_def) (simp add: two_blocks_def)
  then show ?thesis by (rule planner_entry_speeds_limited) (simp add: w)
qed

text \<open>The planner's counters agree with the queue the ring holds: available plus queued is
  the capacity of 15, the buffer is full exactly at 15 blocks, and there is a current block
  exactly when the queue is not empty.\<close>

theorem planner_counts:
  assumes "plan_wf m"
  shows "unat (plan_get_block_buffer_available m) + length (planned_blocks m) = BLOCK_BUFFER_SIZE - 1
    \<and> unat (plan_get_block_buffer_count m) = length (planned_blocks m)
    \<and> (plan_check_full_buffer m \<longleftrightarrow> length (planned_blocks m) = BLOCK_BUFFER_SIZE - 1)
    \<and> (plan_get_current_block m = None \<longleftrightarrow> planned_blocks m = [])"
  using plan_get_block_buffer_available_eq [OF assms] by blast

lemma planner_counts_witness:
  "unat (plan_get_block_buffer_available machine0) + length (planned_blocks machine0) = 15"
proof -
  have "plan_wf machine0"
    by (simp add: plan_wf_def plan_next_block_index_def ring_next_def)
  then show ?thesis using planner_counts by simp
qed

end
